(* ===== verification/Prelude.thy ===== *)
theory Prelude
  imports Complex_Main "HOL-Library.Word" "HOL-Library.AList" "HOL-Library.Char_ord"
    "HOL-Library.Code_Target_Nat"
begin

text \<open>
  Shared vocabulary of the development: the sequencing of fallible operations, the byte
  and character classes the native code tests, the operations of \<open>std::string_view\<close> it
  uses (\<open>substr\<close>, \<open>find\<close>, \<open>starts_with\<close>), IEEE doubles as far as the code compares them,
  association lists standing for \<open>std::unordered_map\<close> and \<open>std::map\<close>, and the generic
  lemmas about all of these. A \<open>std::string\<close> is an Isabelle \<^typ>\<open>string\<close>: a
  \<^typ>\<open>char\<close> is exactly one byte.
\<close>

named_theorems result_simps \<open>inversion of fallible computations\<close>
named_theorems char_simps \<open>unfolding of the character classes\<close>

section \<open>Sequencing of fallible computations\<close>

text \<open>
  \<open>if (!r) return failure(r.error()); use(r.value())\<close> is \<open>and_then r use\<close>.
\<close>

fun and_then :: "'e + 'a \<Rightarrow> ('a \<Rightarrow> 'e + 'b) \<Rightarrow> 'e + 'b" where
  "and_then (Inl e) f = Inl e"
| "and_then (Inr a) f = f a"

lemma and_then_Inr_iff [result_simps]:
  "and_then r f = Inr b \<longleftrightarrow> (\<exists>a. r = Inr a \<and> f a = Inr b)"
  by (cases r) auto

lemma and_then_Inl_iff [result_simps]:
  "and_then r f = Inl e \<longleftrightarrow> r = Inl e \<or> (\<exists>a. r = Inr a \<and> f a = Inl e)"
  by (cases r) auto

lemma and_then_cong [fundef_cong]:
  "r = r' \<Longrightarrow> (\<And>a. r' = Inr a \<Longrightarrow> f a = g a) \<Longrightarrow> and_then r f = and_then r' g"
  by (cases r') auto

lemma and_then_assoc: "and_then (and_then r f) g = and_then r (\<lambda>a. and_then (f a) g)"
  by (cases r) auto

lemma and_then_Inr_right [simp]: "and_then r Inr = r"
  by (cases r) auto

fun is_ok :: "'e + 'a \<Rightarrow> bool" where
  "is_ok (Inl e) = False"
| "is_ok (Inr a) = True"

lemma is_ok_iff [result_simps]: "is_ok r \<longleftrightarrow> (\<exists>a. r = Inr a)"
  by (cases r) auto

text \<open>A guard: \<open>if (bad) return failure(e); rest\<close>.\<close>

definition guard_or :: "bool \<Rightarrow> 'e \<Rightarrow> 'e + unit" where
  "guard_or ok e = (if ok then Inr () else Inl e)"

lemma guard_or_simps [simp]:
  "guard_or True e = Inr ()" "guard_or False e = Inl e"
  by (simp_all add: guard_or_def)

lemma guard_or_Inr_iff [result_simps]: "guard_or ok e = Inr u \<longleftrightarrow> ok"
  by (simp add: guard_or_def)

lemma guard_or_Inl_iff [result_simps]: "guard_or ok e = Inl e' \<longleftrightarrow> \<not> ok \<and> e' = e"
  by (auto simp: guard_or_def)

text \<open>A chain of comparisons that returned: one case for each branch.\<close>

lemma if_cases: "(if b then x else y) = z \<Longrightarrow> (b \<Longrightarrow> x = z \<Longrightarrow> P) \<Longrightarrow> (\<not> b \<Longrightarrow> y = z \<Longrightarrow> P) \<Longrightarrow> P"
  by (simp split: if_splits)

section \<open>Bytes and character classes\<close>

definition byte :: "char \<Rightarrow> nat" where
  "byte c = of_char c"

lemma byte_less_256 [simp]: "byte c < 256"
  by (simp add: byte_def)

lemma byte_inject [simp]: "byte a = byte b \<longleftrightarrow> a = b"
  by (simp add: byte_def)

lemma byte_le_iff: "byte a \<le> byte b \<longleftrightarrow> a \<le> b"
  by (simp add: byte_def less_eq_char_def)

definition char_between :: "char \<Rightarrow> char \<Rightarrow> char \<Rightarrow> bool" where
  "char_between lo hi c \<longleftrightarrow> lo \<le> c \<and> c \<le> hi"

definition is_digit :: "char \<Rightarrow> bool" where
  [char_simps]: "is_digit c \<longleftrightarrow> char_between (CHR ''0'') (CHR ''9'') c"

definition is_lower :: "char \<Rightarrow> bool" where
  [char_simps]: "is_lower c \<longleftrightarrow> char_between (CHR ''a'') (CHR ''z'') c"

definition is_upper :: "char \<Rightarrow> bool" where
  [char_simps]: "is_upper c \<longleftrightarrow> char_between (CHR ''A'') (CHR ''Z'') c"

definition is_alnum :: "char \<Rightarrow> bool" where
  [char_simps]: "is_alnum c \<longleftrightarrow> is_digit c \<or> is_lower c \<or> is_upper c"

definition is_lower_hex :: "char \<Rightarrow> bool" where
  [char_simps]: "is_lower_hex c \<longleftrightarrow> is_digit c \<or> char_between (CHR ''a'') (CHR ''f'') c"

lemma char_between_byte:
  "char_between lo hi c \<longleftrightarrow> byte lo \<le> byte c \<and> byte c \<le> byte hi"
  by (simp add: char_between_def byte_le_iff)

definition digit_value :: "char \<Rightarrow> nat" where
  "digit_value c = byte c - 48"

lemma digit_value_less_10: "is_digit c \<Longrightarrow> digit_value c < 10"
  by (auto simp: is_digit_def char_between_byte digit_value_def byte_def)

text \<open>The value of a run of decimal digits, most significant first.\<close>

definition decimal_value :: "string \<Rightarrow> nat" where
  "decimal_value = foldl (\<lambda>v c. 10 * v + digit_value c) 0"

text \<open>\<open>std::tolower\<close> in the C locale.\<close>

definition to_lower :: "char \<Rightarrow> char" where
  "to_lower c = (if is_upper c then char_of (byte c + 32) else c)"

definition lowercase :: "string \<Rightarrow> string" where
  "lowercase s = map to_lower s"

lemma to_lower_not_upper: "\<not> is_upper (to_lower c)"
proof (cases "is_upper c")
  case True
  then have "byte c + 32 < 256" and b: "65 \<le> byte c" "byte c \<le> 90"
    by (simp_all add: is_upper_def char_between_byte byte_def)
  then have "byte (char_of (byte c + 32)) = byte c + 32"
    by (simp add: byte_def)
  with b show ?thesis
    by (simp add: to_lower_def True) (simp add: is_upper_def char_between_byte byte_def)
next
  case False
  then show ?thesis by (simp add: to_lower_def)
qed

lemma to_lower_idem [simp]: "to_lower (to_lower c) = to_lower c"
  by (simp add: to_lower_def [of "to_lower c"] to_lower_not_upper)

lemma lowercase_idem [simp]: "lowercase (lowercase s) = lowercase s"
  by (simp add: lowercase_def)

lemma length_lowercase [simp]: "length (lowercase s) = length s"
  by (simp add: lowercase_def)

section \<open>Operations of \<open>std::string_view\<close>\<close>

text \<open>\<open>s.substr(pos, count)\<close>, for \<open>pos \<le> s.size()\<close> (the only calls the code makes).\<close>

definition substr :: "nat \<Rightarrow> nat \<Rightarrow> string \<Rightarrow> string" where
  "substr pos count s = take count (drop pos s)"

lemma length_substr [simp]: "length (substr p n s) = min n (length s - p)"
  by (simp add: substr_def min.commute)

primrec find_index :: "('a \<Rightarrow> bool) \<Rightarrow> 'a list \<Rightarrow> nat option" where
  "find_index P [] = None"
| "find_index P (x # xs) = (if P x then Some 0 else map_option Suc (find_index P xs))"

lemma find_index_None_iff: "find_index P xs = None \<longleftrightarrow> (\<forall>x \<in> set xs. \<not> P x)"
  by (induction xs) auto

lemma find_index_SomeD:
  "find_index P xs = Some i \<Longrightarrow> i < length xs \<and> P (xs ! i) \<and> (\<forall>j < i. \<not> P (xs ! j))"
proof (induction xs arbitrary: i)
  case Nil
  then show ?case by simp
next
  case (Cons x xs)
  show ?case
  proof (cases "P x")
    case True
    with Cons.prems show ?thesis by auto
  next
    case False
    with Cons.prems obtain k where k: "find_index P xs = Some k" "i = Suc k" by auto
    with Cons.IH [of k] False show ?thesis by (auto simp: less_Suc_eq_0_disj)
  qed
qed

text \<open>\<open>s.find(c, start)\<close>; \<^const>\<open>None\<close> is \<open>npos\<close>.\<close>

definition find_from :: "char \<Rightarrow> nat \<Rightarrow> string \<Rightarrow> nat option" where
  "find_from c start s = map_option ((+) start) (find_index (\<lambda>x. x = c) (drop start s))"

definition starts_with :: "string \<Rightarrow> string \<Rightarrow> bool" where
  "starts_with prefix s \<longleftrightarrow> take (length prefix) s = prefix"

lemma starts_with_iff: "starts_with p s \<longleftrightarrow> (\<exists>t. s = p @ t)"
  by (auto simp: starts_with_def) (metis append_take_drop_id)

text \<open>\<open>s.find(pattern) != npos\<close>.\<close>

fun contains_str :: "string \<Rightarrow> string \<Rightarrow> bool" where
  "contains_str p [] \<longleftrightarrow> p = []"
| "contains_str p (c # s) \<longleftrightarrow> starts_with p (c # s) \<or> contains_str p s"

lemma contains_strI: "contains_str p (a @ p @ b)"
proof (induction a)
  case Nil
  have "starts_with p (p @ b)" by (simp add: starts_with_def)
  then show ?case by (cases "p @ b") auto
next
  case (Cons c a)
  then show ?case by simp
qed

lemma contains_strD: "contains_str p s \<Longrightarrow> \<exists>a b. s = a @ p @ b"
proof (induction p s rule: contains_str.induct)
  case (1 p)
  then show ?case by simp
next
  case (2 p c s)
  show ?case
  proof (cases "starts_with p (c # s)")
    case True
    then obtain t where "c # s = [] @ p @ t" by (auto simp: starts_with_iff)
    then show ?thesis by blast
  next
    case False
    with 2 obtain a b where "s = a @ p @ b" by auto
    then have "c # s = (c # a) @ p @ b" by simp
    then show ?thesis by blast
  qed
qed

lemma contains_str_iff: "contains_str p s \<longleftrightarrow> (\<exists>a b. s = a @ p @ b)"
  using contains_strI contains_strD by blast

section \<open>Doubles\<close>

text \<open>
  A C++ \<open>double\<close> (or \<open>float\<close>) as far as the modelled code observes it: a finite rational
  value, an infinity or NaN. Only comparisons and \<open>std::isfinite\<close> are used, so the sign
  of zero is not observable.
\<close>

datatype cxx_double = Finite rat | Infinite bool | NotANumber

fun is_finite :: "cxx_double \<Rightarrow> bool" where
  "is_finite (Finite q) = True"
| "is_finite _ = False"

fun dbl_le :: "cxx_double \<Rightarrow> cxx_double \<Rightarrow> bool" where
  "dbl_le NotANumber _ = False"
| "dbl_le _ NotANumber = False"
| "dbl_le (Infinite neg) y = (neg \<or> y = Infinite False)"
| "dbl_le (Finite p) (Infinite neg) = (\<not> neg)"
| "dbl_le (Finite p) (Finite q) = (p \<le> q)"

fun dbl_less :: "cxx_double \<Rightarrow> cxx_double \<Rightarrow> bool" where
  "dbl_less x y = (dbl_le x y \<and> \<not> dbl_le y x)"

section \<open>Association lists\<close>

text \<open>
  \<open>std::unordered_map\<close> is an association list with distinct keys. No operation modelled
  depends on the iteration order.
\<close>

abbreviation keys_distinct :: "('k \<times> 'v) list \<Rightarrow> bool" where
  "keys_distinct m \<equiv> distinct (map fst m)"

text \<open>\<open>emplace(k, v)\<close>: inserts only when the key is absent; the flag is \<open>.second\<close>.\<close>

definition emplace :: "'k \<Rightarrow> 'v \<Rightarrow> ('k \<times> 'v) list \<Rightarrow> ('k \<times> 'v) list \<times> bool" where
  "emplace k v m = (case map_of m k of None \<Rightarrow> ((k, v) # m, True) | Some _ \<Rightarrow> (m, False))"

definition erase_key :: "'k \<Rightarrow> ('k \<times> 'v) list \<Rightarrow> ('k \<times> 'v) list" where
  "erase_key k m = filter (\<lambda>p. fst p \<noteq> k) m"

definition map_values :: "('k \<Rightarrow> 'v \<Rightarrow> 'w) \<Rightarrow> ('k \<times> 'v) list \<Rightarrow> ('k \<times> 'w) list" where
  "map_values f m = map (\<lambda>(k, v). (k, f k v)) m"

definition update_key :: "'k \<Rightarrow> ('v \<Rightarrow> 'v) \<Rightarrow> ('k \<times> 'v) list \<Rightarrow> ('k \<times> 'v) list" where
  "update_key k f m = map_values (\<lambda>k' v. if k' = k then f v else v) m"

lemma keys_map_values [simp]: "map fst (map_values f m) = map fst m"
  by (induction m) (auto simp: map_values_def)

lemma length_map_values [simp]: "length (map_values f m) = length m"
  by (simp add: map_values_def)

lemma map_of_map_values [simp]: "map_of (map_values f m) k = map_option (f k) (map_of m k)"
  by (induction m) (auto simp: map_values_def)

lemma keys_update_key [simp]: "map fst (update_key k f m) = map fst m"
  by (simp add: update_key_def)

lemma length_update_key [simp]: "length (update_key k f m) = length m"
  by (simp add: update_key_def)

lemma map_of_update_key:
  "map_of (update_key k f m) k' = (if k' = k then map_option f (map_of m k) else map_of m k')"
  by (auto simp: update_key_def option.map_ident)

lemma map_of_erase_key: "map_of (erase_key k m) k' = (if k' = k then None else map_of m k')"
  by (induction m) (auto simp: erase_key_def)

lemma keys_erase_key: "set (map fst (erase_key k m)) = set (map fst m) - {k}"
  by (auto simp: erase_key_def)

lemma keys_distinct_erase_key [intro]: "keys_distinct m \<Longrightarrow> keys_distinct (erase_key k m)"
  by (simp add: erase_key_def distinct_map_filter)

lemma keys_distinct_emplace [intro]: "keys_distinct m \<Longrightarrow> keys_distinct (fst (emplace k v m))"
  by (auto simp: emplace_def map_of_eq_None_iff split: option.splits)

lemma map_of_emplace:
  "map_of (fst (emplace k v m)) k' =
     (if k' = k \<and> map_of m k = None then Some v else map_of m k')"
  by (auto simp: emplace_def split: option.splits)

lemma emplace_inserted_iff [simp]: "snd (emplace k v m) \<longleftrightarrow> map_of m k = None"
  by (simp add: emplace_def split: option.splits)

lemma erase_key_absent: "k \<notin> set (map fst m) \<Longrightarrow> erase_key k m = m"
  unfolding erase_key_def by (rule filter_True) auto

lemma erase_key_Cons: "erase_key k (p # m) = (if fst p = k then erase_key k m else p # erase_key k m)"
  by (simp add: erase_key_def)

lemma length_erase_key:
  "keys_distinct m \<Longrightarrow> k \<in> set (map fst m) \<Longrightarrow> length m = Suc (length (erase_key k m))"
proof (induction m)
  case Nil
  then show ?case by simp
next
  case (Cons p m)
  show ?case
  proof (cases "fst p = k")
    case True
    with Cons.prems(1) have "k \<notin> set (map fst m)" by auto
    then have "erase_key k m = m" by (rule erase_key_absent)
    with True show ?thesis by (simp add: erase_key_Cons)
  next
    case False
    with Cons show ?thesis by (simp add: erase_key_Cons)
  qed
qed

lemma length_filter_card:
  assumes "keys_distinct m"
  shows "length (filter (\<lambda>p. Q (snd p)) m) = card {k. \<exists>v. map_of m k = Some v \<and> Q v}"
proof -
  let ?f = "filter (\<lambda>p. Q (snd p)) m"
  have d: "distinct (map fst ?f)" using assms by (simp add: distinct_map_filter)
  have "set (map fst ?f) = {k. \<exists>v. map_of m k = Some v \<and> Q v}"
    using assms by force
  then show ?thesis using distinct_card [OF d] by simp
qed

lemma finite_map_of: "finite {k. \<exists>v. map_of m k = Some v \<and> Q v}"
  by (rule finite_subset [OF _ finite_dom_map_of [of m]]) (auto simp: dom_def)

end
