(* ===== verification/Core_Types.thy ===== *)
theory Core_Types
  imports Prelude "HOL-Library.List_Lexorder"
begin

text \<open>
  The data of \<open>result.hpp\<close> and \<open>types.hpp\<close>: error values, strong identifiers, generations,
  the typed request payloads with their kinds, inbound results and the pairing token. Field
  names carry a short prefix of their struct, since record fields share one name space.
  \<open>std::uint64_t\<close> and \<open>std::uint32_t\<close> are words of their width, \<open>std::size_t\<close> is
  \<^typ>\<open>nat\<close> (sizes of objects in memory), \<open>int\<close> is \<^typ>\<open>int\<close>, and
  \<open>system_clock::time_point\<close> is its tick count.
\<close>

type_synonym u16 = "16 word"
type_synonym u32 = "32 word"
type_synonym u64 = "64 word"
type_synonym byte_t = "8 word"

section \<open>Errors and results (\<open>result.hpp\<close>)\<close>

datatype error_code =
    EC_invalid_argument | EC_invalid_utf8 | EC_invalid_url | EC_invalid_header
  | EC_invalid_content_type | EC_invalid_json | EC_invalid_schema | EC_payload_too_large
  | EC_timeout | EC_unauthorized | EC_forbidden | EC_rate_limited | EC_unknown_session
  | EC_cursor_expired | EC_provider_unavailable | EC_action_disabled | EC_internal_error
  | EC_redirect_rejected | EC_queue_full | EC_stopped | EC_cancelled | EC_stale_generation
  | EC_duplicate_conflict | EC_cursor_gap | EC_invalid_action | EC_media_rejected
  | EC_transport_failure

record error =
  err_code :: error_code
  err_message :: string
  err_retriable :: bool
  err_retry_after_ms :: "u64 option"
  err_correlation_id :: "string option"

text \<open>\<open>Result<T>\<close>: \<^const>\<open>Inl\<close> is \<open>failure\<close>, \<^const>\<open>Inr\<close> is \<open>success\<close>.\<close>

type_synonym 'a result = "error + 'a"

definition make_error ::
    "error_code \<Rightarrow> string \<Rightarrow> bool \<Rightarrow> u64 option \<Rightarrow> string option \<Rightarrow> error" where
  "make_error code message retriable retry correlation =
     \<lparr>err_code = code, err_message = message, err_retriable = retriable,
      err_retry_after_ms = retry, err_correlation_id = correlation\<rparr>"

text \<open>The call \<open>makeError(code, message)\<close> with its default arguments.\<close>

abbreviation simple_error :: "error_code \<Rightarrow> string \<Rightarrow> error" where
  "simple_error code message \<equiv> make_error code message False None None"

definition fails_with :: "error_code \<Rightarrow> 'a result \<Rightarrow> bool" where
  "fails_with code r = (case r of Inl e \<Rightarrow> err_code e = code | Inr _ \<Rightarrow> False)"

lemma err_code_make_error [simp]: "err_code (make_error c m r ra ci) = c"
  by (simp add: make_error_def)

lemma err_message_make_error [simp]: "err_message (make_error c m r ra ci) = m"
  by (simp add: make_error_def)

lemma fails_with_simps [simp]:
  "fails_with c (Inl e) = (err_code e = c)" "fails_with c (Inr x) = False"
  by (simp_all add: fails_with_def)

section \<open>Identifiers and generations (\<open>types.hpp\<close>)\<close>

text \<open>\<open>StrongId<Tag>\<close>: a string whose tag only keeps the kinds of identifier apart.\<close>

datatype 'tag strong_id = StrongId (id_value: string)

definition id_empty :: "'tag strong_id \<Rightarrow> bool" where
  "id_empty i \<longleftrightarrow> id_value i = []"

datatype InstallationIdTag = InstallationIdTag
datatype ProfileIdTag = ProfileIdTag
datatype PlaythroughIdTag = PlaythroughIdTag
datatype SessionIdTag = SessionIdTag
datatype RequestIdTag = RequestIdTag
datatype TurnIdTag = TurnIdTag
datatype MessageIdTag = MessageIdTag
datatype ActionIdTag = ActionIdTag
datatype MediaIdTag = MediaIdTag

type_synonym InstallationId = "InstallationIdTag strong_id"
type_synonym ProfileId = "ProfileIdTag strong_id"
type_synonym PlaythroughId = "PlaythroughIdTag strong_id"
type_synonym SessionId = "SessionIdTag strong_id"
type_synonym RequestId = "RequestIdTag strong_id"
type_synonym TurnId = "TurnIdTag strong_id"
type_synonym MessageId = "MessageIdTag strong_id"
type_synonym ActionId = "ActionIdTag strong_id"
type_synonym MediaId = "MediaIdTag strong_id"

lemma id_value_inject [simp]: "id_value a = id_value b \<longleftrightarrow> a = b"
  by (metis strong_id.collapse)

text \<open>The defaulted \<open>operator<=>\<close> of \<open>StrongId\<close> compares the strings bytewise.\<close>

instantiation strong_id :: (type) linorder
begin

definition less_eq_strong_id :: "'a strong_id \<Rightarrow> 'a strong_id \<Rightarrow> bool" where
  "a \<le> b \<longleftrightarrow> id_value a \<le> id_value b"

definition less_strong_id :: "'a strong_id \<Rightarrow> 'a strong_id \<Rightarrow> bool" where
  "a < b \<longleftrightarrow> id_value a < id_value b"

instance
  by standard (auto simp: less_eq_strong_id_def less_strong_id_def less_le_not_le)

end

datatype generation = Generation (gen_value: u64)

instantiation generation :: linorder
begin

definition less_eq_generation :: "generation \<Rightarrow> generation \<Rightarrow> bool" where
  "a \<le> b \<longleftrightarrow> gen_value a \<le> gen_value b"

definition less_generation :: "generation \<Rightarrow> generation \<Rightarrow> bool" where
  "a < b \<longleftrightarrow> gen_value a < gen_value b"

instance
  by standard (auto simp: less_eq_generation_def less_generation_def less_le_not_le generation.expand)

end

section \<open>Limits\<close>

definition kMaxJsonBytes :: nat where "kMaxJsonBytes = 2 * 1024 * 1024"
definition kMaxSttBytes :: nat where "kMaxSttBytes = 16 * 1024 * 1024"
definition kMaxMediaBytes :: nat where "kMaxMediaBytes = 32 * 1024 * 1024"
definition kMaxContextBytes :: nat where "kMaxContextBytes = 128 * 1024"
definition kOutboundCapacity :: nat where "kOutboundCapacity = 32"
definition kInboundCapacity :: nat where "kInboundCapacity = 128"
definition kReservedControlCapacity :: nat where "kReservedControlCapacity = 4"

section \<open>Requests\<close>

record runtime_info =
  rt_game :: string
  rt_variant :: string
  rt_openmw_version :: string
  rt_openmw_commit :: string
  rt_lua_api_revision :: u32
  rt_client_version :: string
  rt_platform :: string
  rt_capabilities :: "string list"

record envelope_ids =
  env_installation :: InstallationId
  env_profile :: ProfileId
  env_playthrough :: PlaythroughId
  env_session :: SessionId
  env_request :: RequestId
  env_turn :: TurnId
  env_message :: MessageId
  env_generation :: generation

record request_correlation =
  corr_request :: RequestId
  corr_session :: SessionId
  corr_generation :: generation

record loaded_save_calendar =
  cal_year :: int
  cal_month :: int
  cal_day :: int
  cal_hour :: cxx_double

definition days_of_month :: "int list" where
  "days_of_month = [31,28,31,30,31,30,31,31,30,31,30,31]"

definition calendar_valid :: "loaded_save_calendar \<Rightarrow> bool" where
  "calendar_valid c \<longleftrightarrow>
     1 \<le> cal_year c \<and> cal_year c \<le> 9999 \<and> 0 \<le> cal_month c \<and> cal_month c < 12
     \<and> 1 \<le> cal_day c \<and> cal_day c \<le> days_of_month ! nat (cal_month c)
     \<and> is_finite (cal_hour c) \<and> dbl_le (Finite 0) (cal_hour c) \<and> dbl_less (cal_hour c) (Finite 24)"

record init_request =
  init_ids :: envelope_ids
  init_runtime :: runtime_info
  init_content_fingerprint :: string
  init_created_at :: string
  init_loaded_save :: bool
  init_loaded_calendar :: "loaded_save_calendar option"
  init_character_id :: "string option"
  init_character_binding :: "string option"

record turn_request =
  turn_ids :: envelope_ids
  turn_runtime_generation :: generation
  turn_runtime :: runtime_info
  turn_content_fingerprint :: string
  turn_created_at :: string
  turn_serialized_payload :: string

record event_poll_request =
  poll_session :: SessionId
  poll_generation :: generation
  poll_after :: u64
  poll_wait_ms :: u32

record interruption_request =
  intr_message :: MessageId
  intr_request :: RequestId
  intr_turn :: TurnId
  intr_session :: SessionId
  intr_generation :: generation
  intr_created_at :: string
  intr_reason :: string

datatype action_terminal_status =
  ATS_succeeded | ATS_failed | ATS_rejected | ATS_timed_out | ATS_cancelled

record action_result_request =
  ar_message :: MessageId
  ar_correlation :: request_correlation
  ar_action :: ActionId
  ar_turn :: TurnId
  ar_status :: action_terminal_status
  ar_reason_code :: string
  ar_serialized_observed :: string
  ar_completed_at :: string

record session_end_request =
  end_request :: RequestId
  end_session :: SessionId
  end_generation :: generation

record stt_request =
  stt_ids :: envelope_ids
  stt_created_at :: string
  stt_codec :: string
  stt_language :: string
  stt_sha256 :: string
  stt_audio :: "byte_t list"

datatype dialogue_delivery_status = DDS_played | DDS_failed | DDS_expired | DDS_interrupted

record dialogue_delivery_result_request =
  dd_message :: MessageId
  dd_correlation :: request_correlation
  dd_dialogue_message :: MessageId
  dd_turn :: TurnId
  dd_serialized_speaker :: string
  dd_status :: dialogue_delivery_status
  dd_reason_code :: string
  dd_completed_at :: string

record controls_query_request =
  cq_message :: MessageId
  cq_correlation :: request_correlation
  cq_serialized_target :: string
  cq_include_settings_editor :: bool

record debug_command_query_request =
  dcq_message :: MessageId
  dcq_correlation :: request_correlation

datatype debug_command_result_status = DCS_succeeded | DCS_failed | DCS_rejected

record debug_command_result_request =
  dcr_message :: MessageId
  dcr_correlation :: request_correlation
  dcr_command :: MessageId
  dcr_status :: debug_command_result_status
  dcr_reason_code :: string
  dcr_serialized_observed :: string
  dcr_completed_at :: string

record diary_book_query_request =
  dbq_message :: MessageId
  dbq_correlation :: request_correlation

record diary_book_result_request =
  dbr_message :: MessageId
  dbr_correlation :: request_correlation
  dbr_delivery :: MessageId
  dbr_book :: MessageId
  dbr_content_hash :: string
  dbr_status :: debug_command_result_status
  dbr_reason_code :: string
  dbr_completed_at :: string

datatype session_control_kind =
  SC_model_slot | SC_actor_profile | SC_profile_generate | SC_narrator_profile_generate | SC_setting

record setting_selection =
  set_scope :: string
  set_key :: string
  set_value :: string
  set_change_token :: string

record controls_select_request =
  cs_message :: MessageId
  cs_correlation :: request_correlation
  cs_created_at :: string
  cs_kind :: session_control_kind
  cs_selection_id :: "string option"
  cs_selection_key :: "string option"
  cs_serialized_target :: string
  cs_setting :: "setting_selection option"

record menu_dialogue_tts_request =
  mt_message :: MessageId
  mt_correlation :: request_correlation
  mt_created_at :: string
  mt_serialized_actor :: string
  mt_text :: string

record player_autochat_request =
  pa_message :: MessageId
  pa_correlation :: request_correlation
  pa_created_at :: string
  pa_serialized_player :: string
  pa_serialized_target :: string
  pa_intent :: string

record book_read_aloud_request =
  bk_message :: MessageId
  bk_correlation :: request_correlation
  bk_created_at :: string
  bk_book_id :: string
  bk_title :: string
  bk_text :: string

datatype game_data_type =
    GD_item_pickup | GD_spell_cast | GD_actor_resurrected | GD_inventory | GD_captured_dialogue
  | GD_actor_profile | GD_automatic_diary | GD_rpg_event | GD_bored_event | GD_quest_event
  | GD_disposition

record game_data_request =
  gd_installation :: InstallationId
  gd_playthrough :: PlaythroughId
  gd_request :: RequestId
  gd_runtime_generation :: generation
  gd_observed_at :: string
  gd_type :: game_data_type
  gd_serialized_payload :: string

datatype media_codec = MC_wav | MC_ogg | MC_mp3

record media_descriptor =
  md_id :: MediaId
  md_sha256 :: "byte_t list"
  md_bytes :: nat
  md_codec :: media_codec
  md_expires_at :: int

record media_prepare_request =
  mp_correlation :: request_correlation
  mp_descriptor :: media_descriptor

record prepared_media =
  pm_id :: MediaId
  pm_bytes :: nat
  pm_codec :: media_codec

datatype request_payload =
    HealthRequest
  | InitRequest init_request
  | TurnRequest turn_request
  | EventPollRequest event_poll_request
  | InterruptionRequest interruption_request
  | ActionResultRequest action_result_request
  | SessionEndRequest session_end_request
  | SttRequest stt_request
  | DialogueDeliveryResultRequest dialogue_delivery_result_request
  | ControlsQueryRequest controls_query_request
  | ControlsSelectRequest controls_select_request
  | DebugCommandQueryRequest debug_command_query_request
  | DebugCommandResultRequest debug_command_result_request
  | DiaryBookQueryRequest diary_book_query_request
  | DiaryBookResultRequest diary_book_result_request
  | MenuDialogueTtsRequest menu_dialogue_tts_request
  | PlayerAutochatRequest player_autochat_request
  | BookReadAloudRequest book_read_aloud_request
  | GameDataRequest game_data_request
  | MediaPrepareRequest media_prepare_request

datatype request_kind =
    RK_health | RK_init | RK_turn | RK_event_poll | RK_interruption | RK_action_result
  | RK_dialogue_delivery_result | RK_session_end | RK_stt | RK_controls_query
  | RK_controls_select | RK_diary_book_query | RK_diary_book_result | RK_debug_command_query
  | RK_debug_command_result | RK_menu_dialogue_tts | RK_book_read_aloud | RK_player_autochat
  | RK_gamedata | RK_media

datatype response_kind =
    RS_accepted | RS_event | RS_completed | RS_failure | RS_cancelled | RS_media_ready
  | RS_menu_dialogue_ready | RS_player_autochat_ready | RS_status | RS_controls
  | RS_diary_book | RS_debug_command

record outbound_request =
  out_id :: RequestId
  out_session :: SessionId
  out_generation :: generation
  out_kind :: request_kind
  out_payload :: request_payload

record inbound_result =
  in_request :: RequestId
  in_session :: SessionId
  in_generation :: generation
  in_kind :: response_kind
  in_payload :: string
  in_failure :: "error option"

section \<open>The pairing token\<close>

text \<open>
  \<open>PairingToken\<close> owns a 32-byte secret. It cannot be copied; moving it out clears the source,
  and \<open>clear\<close> overwrites the bytes. Move construction returns the new token and what is left
  of the old one.
\<close>

record pairing_token =
  tok_secret :: "byte_t list"
  tok_present :: bool

definition pairing_token_default :: pairing_token where
  "pairing_token_default = \<lparr>tok_secret = replicate 32 0, tok_present = False\<rparr>"

definition pairing_token_of :: "byte_t list \<Rightarrow> pairing_token" where
  "pairing_token_of secret = \<lparr>tok_secret = secret, tok_present = True\<rparr>"

definition token_clear :: "pairing_token \<Rightarrow> pairing_token" where
  "token_clear t = \<lparr>tok_secret = replicate (length (tok_secret t)) 0, tok_present = False\<rparr>"

definition token_move :: "pairing_token \<Rightarrow> pairing_token \<times> pairing_token" where
  "token_move other = (\<lparr>tok_secret = tok_secret other, tok_present = tok_present other\<rparr>, token_clear other)"

text \<open>\<open>*this = std::move(other)\<close>; the flag says whether both are the same object.\<close>

definition token_move_assign ::
    "bool \<Rightarrow> pairing_token \<Rightarrow> pairing_token \<Rightarrow> pairing_token \<times> pairing_token" where
  "token_move_assign same this other = (if same then (this, other) else token_move other)"

definition token_redacted :: "pairing_token \<Rightarrow> string" where
  "token_redacted t = (if tok_present t then ''<redacted>'' else ''<unset>'')"

lemma token_move_clears_source:
  "token_move t = (t', s) \<Longrightarrow> t' = t \<and> \<not> tok_present s \<and> set (tok_secret s) \<subseteq> {0}"
  by (auto simp: token_move_def token_clear_def)

end
