(* ===== verification/Validation.thy ===== *)
theory Validation
  imports Core_Types
begin

text \<open>
  \<open>validation.hpp\<close> and \<open>validation.cpp\<close>: UTF-8, canonical UUIDs, profile keys, UTC timestamps,
  loopback base URLs, HTTP headers and content types. UTF-8 code points are \<^typ>\<open>nat\<close>s:
  \<open>(code << 6) | (c & 0x3F)\<close> is \<open>code * 64 + c mod 64\<close>, which never leaves 21 bits.
\<close>

section \<open>Decimal numbers\<close>

text \<open>
  \<open>std::from_chars(first, last, value)\<close> together with the test \<open>ec == errc{} && ptr == last\<close>:
  the whole text is a non-empty run of digits whose value fits the type.
\<close>

definition from_chars_unsigned :: "nat \<Rightarrow> string \<Rightarrow> nat option" where
  "from_chars_unsigned maximum s =
     (if s \<noteq> [] \<and> list_all is_digit s \<and> decimal_value s \<le> maximum
      then Some (decimal_value s) else None)"

definition digit_char :: "nat \<Rightarrow> char" where
  "digit_char d = char_of (48 + d)"

text \<open>\<open>std::to_string\<close> on an unsigned value.\<close>

fun to_decimal :: "nat \<Rightarrow> string" where
  "to_decimal n = (if n < 10 then [digit_char n] else to_decimal (n div 10) @ [digit_char (n mod 10)])"

declare to_decimal.simps [simp del]

lemma byte_digit_char [simp]: "d < 10 \<Longrightarrow> byte (digit_char d) = 48 + d"
  by (simp add: byte_def digit_char_def)

lemma is_digit_digit_char [simp]: "d < 10 \<Longrightarrow> is_digit (digit_char d)"
  by (simp add: is_digit_def char_between_byte) (simp add: byte_def)

lemma digit_value_digit_char [simp]: "d < 10 \<Longrightarrow> digit_value (digit_char d) = d"
  by (simp add: digit_value_def)

lemma decimal_value_snoc: "decimal_value (s @ [c]) = 10 * decimal_value s + digit_value c"
  by (simp add: decimal_value_def)

lemma to_decimal_digits: "list_all is_digit (to_decimal n)"
proof (induction n rule: to_decimal.induct)
  case (1 n)
  then show ?case by (subst to_decimal.simps) auto
qed

lemma to_decimal_nonempty [simp]: "to_decimal n \<noteq> []"
  by (subst to_decimal.simps) auto

lemma decimal_value_to_decimal [simp]: "decimal_value (to_decimal n) = n"
proof (induction n rule: to_decimal.induct)
  case (1 n)
  show ?case
  proof (cases "n < 10")
    case True
    then show ?thesis by (simp add: to_decimal.simps decimal_value_def)
  next
    case False
    then have "decimal_value (to_decimal n) = 10 * (n div 10) + n mod 10"
      using 1 by (subst to_decimal.simps) (simp add: decimal_value_snoc)
    then show ?thesis by simp
  qed
qed

text \<open>The canonical spelling of a number: digits with no superfluous leading zero.\<close>

definition canonical_decimal :: "string \<Rightarrow> bool" where
  "canonical_decimal s \<longleftrightarrow> s \<noteq> [] \<and> list_all is_digit s \<and> (length s > 1 \<longrightarrow> hd s \<noteq> CHR ''0'')"

lemma digit_char_digit_value: "is_digit c \<Longrightarrow> digit_char (digit_value c) = c"
  by (auto simp: is_digit_def char_between_byte digit_char_def digit_value_def byte_def)

lemma digit_char_0: "digit_char 0 = CHR ''0''"
  by (subst byte_inject [symmetric]) (simp, simp add: byte_def)

lemma to_decimal_hd: "0 < n \<Longrightarrow> hd (to_decimal n) \<noteq> CHR ''0''"
proof (induction n rule: to_decimal.induct)
  case (1 n)
  show ?case
  proof (cases "n < 10")
    case True
    have "digit_char n \<noteq> CHR ''0''"
    proof
      assume "digit_char n = CHR ''0''"
      then have "byte (digit_char n) = byte (CHR ''0'')" by simp
      with True 1 show False by (simp add: byte_def [of "CHR ''0''"])
    qed
    with True show ?thesis by (simp add: to_decimal.simps)
  next
    case False
    then show ?thesis using 1 by (subst to_decimal.simps) simp
  qed
qed

lemma canonical_to_decimal [simp]: "canonical_decimal (to_decimal n)"
proof (cases "n = 0")
  case True
  then show ?thesis by (simp add: canonical_decimal_def to_decimal.simps)
next
  case False
  then show ?thesis by (simp add: canonical_decimal_def to_decimal_digits to_decimal_hd)
qed

lemma decimal_value_positive:
  "list_all is_digit s \<Longrightarrow> s \<noteq> [] \<Longrightarrow> hd s \<noteq> CHR ''0'' \<Longrightarrow> 0 < decimal_value s"
proof (induction s rule: rev_induct)
  case (snoc c s)
  show ?case
  proof (cases "s = []")
    case True
    with snoc.prems have "is_digit c" "c \<noteq> CHR ''0''" by auto
    then have "digit_value c \<noteq> 0"
      using digit_char_digit_value digit_char_0 by metis
    with True show ?thesis by (simp add: decimal_value_def)
  next
    case False
    with snoc show ?thesis by (simp add: decimal_value_snoc)
  qed
qed simp

lemma to_decimal_snoc:
  "0 < v \<Longrightarrow> d < 10 \<Longrightarrow> to_decimal (10 * v + d) = to_decimal v @ [digit_char d]"
  by (subst to_decimal.simps) simp

lemma to_decimal_decimal_value: "canonical_decimal s \<Longrightarrow> to_decimal (decimal_value s) = s"
proof (induction s rule: rev_induct)
  case Nil
  then show ?case by (simp add: canonical_decimal_def)
next
  case (snoc c s)
  from snoc.prems have c: "is_digit c" and s: "list_all is_digit s"
    by (auto simp: canonical_decimal_def)
  show ?case
  proof (cases "s = []")
    case True
    then show ?thesis
      using c digit_value_less_10 [OF c] digit_char_digit_value [OF c]
      by (simp add: decimal_value_def to_decimal.simps)
  next
    case False
    with snoc.prems have hd: "hd s \<noteq> CHR ''0''" by (simp add: canonical_decimal_def)
    with False s snoc.IH have "to_decimal (decimal_value s) = s"
      by (simp add: canonical_decimal_def)
    with False s hd c show ?thesis
      by (simp add: decimal_value_snoc to_decimal_snoc decimal_value_positive
        digit_value_less_10 digit_char_digit_value)
  qed
qed

section \<open>UTF-8\<close>

text \<open>The lead byte: number of continuation bytes, payload bits, least code point.\<close>

definition utf8_lead :: "nat \<Rightarrow> (nat \<times> nat \<times> nat) option" where
  "utf8_lead first =
     (if 0xC2 \<le> first \<and> first \<le> 0xDF then Some (1, first mod 32, 0x80)
      else if 0xE0 \<le> first \<and> first \<le> 0xEF then Some (2, first mod 16, 0x800)
      else if 0xF0 \<le> first \<and> first \<le> 0xF4 then Some (3, first mod 8, 0x10000)
      else None)"

fun utf8_continue :: "nat \<Rightarrow> nat \<Rightarrow> string \<Rightarrow> (nat \<times> string) option" where
  "utf8_continue 0 code s = Some (code, s)"
| "utf8_continue (Suc n) code [] = None"
| "utf8_continue (Suc n) code (c # s) =
     (if byte c div 64 = 2 then utf8_continue n (code * 64 + byte c mod 64) s else None)"

lemma utf8_continue_code [code]:
  "utf8_continue n code s =
     (if n = 0 then Some (code, s)
      else case s of
          [] \<Rightarrow> None
        | c # t \<Rightarrow> if byte c div 64 = 2 then utf8_continue (n - 1) (code * 64 + byte c mod 64) t else None)"
  by (cases n; cases s) simp_all

lemma utf8_continue_length: "utf8_continue n code s = Some (code', rest) \<Longrightarrow> length rest \<le> length s"
  by (induction n code s rule: utf8_continue.induct) (auto split: if_splits)

definition is_surrogate :: "nat \<Rightarrow> bool" where
  "is_surrogate code \<longleftrightarrow> 0xD800 \<le> code \<and> code \<le> 0xDFFF"

function is_valid_utf8 :: "string \<Rightarrow> bool" where
  "is_valid_utf8 [] = True"
| "is_valid_utf8 (c # s) =
     (if byte c \<le> 0x7F then is_valid_utf8 s
      else case utf8_lead (byte c) of
          None \<Rightarrow> False
        | Some (count, code, minimum) \<Rightarrow>
            if length s < count then False
            else case utf8_continue count code s of
                None \<Rightarrow> False
              | Some (code', rest) \<Rightarrow>
                  if code' < minimum \<or> 0x10FFFF < code' \<or> is_surrogate code' then False
                  else is_valid_utf8 rest)"
  by pat_completeness auto
termination
  by (relation "measure length") (auto dest!: utf8_continue_length)

declare is_valid_utf8.simps(2) [simp del]

lemma is_valid_utf8_ascii_Cons [simp]: "byte c \<le> 0x7F \<Longrightarrow> is_valid_utf8 (c # s) = is_valid_utf8 s"
  by (simp add: is_valid_utf8.simps(2))

definition require_valid_utf8 :: "string \<Rightarrow> nat \<Rightarrow> string result" where
  "require_valid_utf8 input maximum_bytes =
     (if maximum_bytes < length input
      then Inl (simple_error EC_invalid_argument ''string exceeds byte limit'')
      else if \<not> is_valid_utf8 input
      then Inl (simple_error EC_invalid_utf8 ''string is not valid UTF-8'')
      else Inr input)"

section \<open>Identifiers\<close>

definition is_canonical_uuid :: "string \<Rightarrow> bool" where
  "is_canonical_uuid input \<longleftrightarrow>
     length input = 36
     \<and> list_all (\<lambda>index.
          if index = 8 \<or> index = 13 \<or> index = 18 \<or> index = 23 then input ! index = CHR ''-''
          else is_digit (input ! index) \<or> char_between (CHR ''a'') (CHR ''f'') (input ! index))
        [0..<length input]"

definition profile_file_char :: "char \<Rightarrow> bool" where
  "profile_file_char c \<longleftrightarrow> \<not> (byte c \<le> 0x1f \<or> byte c = 0x7f \<or> is_upper c
     \<or> c = CHR ''/'' \<or> c = CHR 0x5C \<or> c = CHR '':'' \<or> c = CHR ''|'')"

definition is_profile_id :: "string \<Rightarrow> bool" where
  "is_profile_id input \<longleftrightarrow>
     (if is_canonical_uuid input then True
      else if 300 < length input \<or> length input < 81 \<or> \<not> starts_with ''ref:'' input
        \<or> \<not> is_canonical_uuid (substr 4 36 input) \<or> input ! 40 \<noteq> CHR '':''
        \<or> \<not> is_canonical_uuid (substr 41 36 input) \<or> input ! 77 \<noteq> CHR '':'' then False
      else case find_from (CHR ''|'') 78 input of
          None \<Rightarrow> False
        | Some separator \<Rightarrow>
            if separator = 78 then False
            else
              let file = substr 78 (separator - 78) input;
                  index = drop (separator + 1) input
              in if \<not> is_valid_utf8 file \<or> \<not> list_all profile_file_char file then False
                 else if index = [] \<or> (1 < length index \<and> hd index = CHR ''0'') then False
                 else from_chars_unsigned (2 ^ 32 - 1) index \<noteq> None)"

section \<open>Timestamps\<close>

definition digit_pair :: "string \<Rightarrow> nat \<Rightarrow> nat" where
  "digit_pair s i = digit_value (s ! i) * 10 + digit_value (s ! (i + 1))"

definition days_per_month :: "nat list" where
  "days_per_month = [31, 28, 31, 30, 31, 30, 31, 31, 30, 31, 30, 31]"

definition timestamp_digit_positions :: "nat list" where
  "timestamp_digit_positions = [0, 1, 2, 3, 5, 6, 8, 9, 11, 12, 14, 15, 17, 18]"

definition leap_year :: "nat \<Rightarrow> bool" where
  "leap_year y \<longleftrightarrow> y mod 4 = 0 \<and> (y mod 100 \<noteq> 0 \<or> y mod 400 = 0)"

definition maximum_day :: "nat \<Rightarrow> nat \<Rightarrow> nat" where
  "maximum_day year month =
     days_per_month ! (month - 1) + (if month = 2 \<and> leap_year year then 1 else 0)"

definition is_canonical_utc_timestamp :: "string \<Rightarrow> bool" where
  "is_canonical_utc_timestamp s \<longleftrightarrow>
     (if length s < 20 \<or> 30 < length s \<or> s ! 4 \<noteq> CHR ''-'' \<or> s ! 7 \<noteq> CHR ''-''
        \<or> s ! 10 \<noteq> CHR ''T'' \<or> s ! 13 \<noteq> CHR '':'' \<or> s ! 16 \<noteq> CHR '':'' \<or> last s \<noteq> CHR ''Z''
      then False
      else if \<not> list_all (\<lambda>i. is_digit (s ! i)) timestamp_digit_positions then False
      else
        let year = digit_value (s ! 0) * 1000 + digit_value (s ! 1) * 100
                 + digit_value (s ! 2) * 10 + digit_value (s ! 3);
            month = digit_pair s 5;
            day = digit_pair s 8
        in if year = 0 \<or> month < 1 \<or> length days_per_month < month
              \<or> 23 < digit_pair s 11 \<or> 59 < digit_pair s 14 \<or> 59 < digit_pair s 17 then False
           else if day < 1 \<or> maximum_day year month < day then False
           else if length s = 20 then True
           else if s ! 19 \<noteq> CHR ''.'' \<or> length s < 22 then False
           else list_all is_digit (butlast (drop 20 s)))"

section \<open>Loopback base URLs\<close>

record base_url =
  bu_host :: string
  bu_port :: nat
  bu_base_path :: string
  bu_ipv6 :: bool

definition has_control :: "string \<Rightarrow> bool" where
  "has_control s \<longleftrightarrow> list_ex (\<lambda>c. byte c \<le> 0x1F \<or> byte c = 0x7F) s"

definition is_blank :: "char \<Rightarrow> bool" where
  "is_blank c \<longleftrightarrow> c = CHR '' '' \<or> c = CHR 0x09"

definition trim :: "string \<Rightarrow> string" where
  "trim s = rev (dropWhile is_blank (rev (dropWhile is_blank s)))"

definition parse_port :: "string \<Rightarrow> nat result" where
  "parse_port text =
     (if text = [] then Inr 80
      else if 5 < length text \<or> \<not> list_all is_digit text
      then Inl (simple_error EC_invalid_url ''port must be canonical decimal'')
      else if 1 < length text \<and> hd text = CHR ''0''
      then Inl (simple_error EC_invalid_url ''port must not contain leading zeroes'')
      else case from_chars_unsigned (2 ^ 32 - 1) text of
          None \<Rightarrow> Inl (simple_error EC_invalid_url ''port is outside 1..65535'')
        | Some value \<Rightarrow>
            if value = 0 \<or> 65535 < value
            then Inl (simple_error EC_invalid_url ''port is outside 1..65535'')
            else Inr value)"

text \<open>The loop of \<open>validIpv4Loopback\<close>: octets still to read, and where the next one starts.\<close>

fun ipv4_octets :: "nat \<Rightarrow> nat \<Rightarrow> string \<Rightarrow> nat list option" where
  "ipv4_octets 0 start host = Some []"
| "ipv4_octets (Suc n) start host =
     (case (if n = 0 then Some (length host) else find_from (CHR ''.'') start host) of
        None \<Rightarrow> None
      | Some end_pos \<Rightarrow>
          if end_pos = start then None
          else
            let part = substr start (end_pos - start) host
            in if 1 < length part \<and> hd part = CHR ''0'' then None
               else if \<not> list_all is_digit part then None
               else case from_chars_unsigned (2 ^ 32 - 1) part of
                   None \<Rightarrow> None
                 | Some value \<Rightarrow>
                     if 255 < value then None
                     else map_option ((#) value) (ipv4_octets n (end_pos + 1) host))"

definition valid_ipv4_loopback :: "string \<Rightarrow> bool" where
  "valid_ipv4_loopback host =
     (case ipv4_octets 4 0 host of None \<Rightarrow> False | Some octets \<Rightarrow> hd octets = 127)"

text \<open>The segments of a path after its leading slash.\<close>

fun path_segments :: "string \<Rightarrow> string list" where
  "path_segments [] = [[]]"
| "path_segments (c # s) =
     (if c = CHR ''/'' then [] # path_segments s
      else (c # hd (path_segments s)) # tl (path_segments s))"

definition valid_path :: "string \<Rightarrow> bool" where
  "valid_path path \<longleftrightarrow>
     path \<noteq> [] \<and> hd path = CHR ''/''
     \<and> \<not> contains_str ''//'' path \<and> CHR 0x5C \<notin> set path \<and> CHR ''%'' \<notin> set path
     \<and> list_all (\<lambda>part. part \<noteq> ''.'' \<and> part \<noteq> ''..'') (path_segments (tl path))"

definition authority :: "base_url \<Rightarrow> string" where
  "authority u =
     (if bu_ipv6 u then ''['' @ bu_host u @ '']'' else bu_host u)
     @ (if bu_port u = 80 then [] else '':'' @ to_decimal (bu_port u))"

text \<open>The authority of the URL: host, address family and the text of the port.\<close>

definition parse_authority :: "string \<Rightarrow> (string \<times> bool \<times> string) result" where
  "parse_authority auth =
     (if hd auth = CHR ''['' then
        case find_from (CHR '']'') 0 auth of
          None \<Rightarrow> Inl (simple_error EC_invalid_url ''only canonical [::1] is accepted'')
        | Some close \<Rightarrow>
            if substr 1 (close - 1) auth \<noteq> ''::1''
            then Inl (simple_error EC_invalid_url ''only canonical [::1] is accepted'')
            else if close + 1 < length auth then
              if auth ! (close + 1) \<noteq> CHR '':''
              then Inl (simple_error EC_invalid_url ''invalid IPv6 authority'')
              else Inr (''::1'', True, drop (close + 2) auth)
            else Inr (''::1'', True, [])
      else
        let colon = find_from (CHR '':'') 0 auth in
        if (case colon of None \<Rightarrow> False | Some k \<Rightarrow> find_from (CHR '':'') (k + 1) auth \<noteq> None)
        then Inl (simple_error EC_invalid_url ''IPv6 literals require brackets'')
        else
          let host = (case colon of None \<Rightarrow> auth | Some k \<Rightarrow> take k auth) in
          if \<not> valid_ipv4_loopback host
          then Inl (simple_error EC_invalid_url ''host must be canonical 127/8 literal'')
          else Inr (host, False, (case colon of None \<Rightarrow> [] | Some k \<Rightarrow> drop (k + 1) auth)))"

definition drop_trailing_slash :: "string \<Rightarrow> string" where
  "drop_trailing_slash path =
     (if 1 < length path \<and> last path = CHR ''/'' then butlast path else path)"

definition parse_loopback_base_url :: "string \<Rightarrow> base_url result" where
  "parse_loopback_base_url input =
     (if input = [] \<or> \<not> is_valid_utf8 input \<or> has_control input
         \<or> CHR ''?'' \<in> set input \<or> CHR ''#'' \<in> set input
      then Inl (simple_error EC_invalid_url ''URL contains forbidden component'')
      else if \<not> starts_with ''http://'' input
      then Inl (simple_error EC_invalid_url ''only lowercase http is accepted'')
      else
        let rest = drop 7 input;
            slash = find_from (CHR ''/'') 0 rest;
            auth = (case slash of None \<Rightarrow> rest | Some k \<Rightarrow> take k rest);
            path = (case slash of None \<Rightarrow> ''/'' | Some k \<Rightarrow> drop k rest)
        in if auth = [] \<or> CHR ''@'' \<in> set auth \<or> \<not> valid_path path
           then Inl (simple_error EC_invalid_url ''invalid authority or path'')
           else and_then (parse_authority auth) (\<lambda>(host, ipv6, port_text).
                and_then (parse_port port_text) (\<lambda>port.
                Inr \<lparr>bu_host = host, bu_port = port,
                     bu_base_path = drop_trailing_slash path, bu_ipv6 = ipv6\<rparr>)))"

section \<open>Headers and content types\<close>

type_synonym headers = "(string \<times> string) list"

datatype body_type = BT_json | BT_wav | BT_ogg | BT_webm | BT_media_wav | BT_media_ogg | BT_media_mpeg

definition header_name_char :: "char \<Rightarrow> bool" where
  "header_name_char c \<longleftrightarrow> is_alnum c \<or> c \<in> set ''!#$%&*+-.^_`|~'' \<or> c = CHR 0x27"

fun validate_headers_from :: "string list \<Rightarrow> headers \<Rightarrow> unit result" where
  "validate_headers_from names [] = Inr ()"
| "validate_headers_from names ((raw_name, raw_value) # rest) =
     (if raw_name = [] \<or> has_control raw_name \<or> has_control raw_value
      then Inl (simple_error EC_invalid_header ''header contains control byte'')
      else if \<not> list_all header_name_char raw_name
      then Inl (simple_error EC_invalid_header ''invalid header name'')
      else if \<not> is_valid_utf8 raw_value
      then Inl (simple_error EC_invalid_utf8 ''header value is not UTF-8'')
      else if lowercase raw_name \<in> set names
      then Inl (simple_error EC_invalid_header ''duplicate header'')
      else validate_headers_from (lowercase raw_name # names) rest)"

definition validate_headers :: "headers \<Rightarrow> unit result" where
  "validate_headers hs = validate_headers_from [] hs"

definition parse_content_type :: "string \<Rightarrow> bool \<Rightarrow> body_type result" where
  "parse_content_type value response_media =
     (let normalized = lowercase (trim value) in
      if normalized = ''application/json; charset=utf-8'' then Inr BT_json
      else if normalized = ''audio/wav'' then Inr (if response_media then BT_media_wav else BT_wav)
      else if normalized = ''audio/ogg'' then Inr (if response_media then BT_media_ogg else BT_ogg)
      else if \<not> response_media \<and> normalized = ''audio/webm'' then Inr BT_webm
      else if response_media \<and> normalized = ''audio/mpeg'' then Inr BT_media_mpeg
      else Inl (simple_error EC_invalid_content_type ''content type is not allowed''))"

definition validate_json_content_type :: "headers \<Rightarrow> unit result" where
  "validate_json_content_type hs =
     and_then (validate_headers hs) (\<lambda>_.
       case find (\<lambda>(name, value). lowercase name = ''content-type'') hs of
         None \<Rightarrow> Inl (simple_error EC_invalid_content_type ''Content-Type is required'')
       | Some (name, value) \<Rightarrow>
           (case parse_content_type value False of
              Inl e \<Rightarrow> Inl e
            | Inr body \<Rightarrow>
                if body \<noteq> BT_json then Inl (simple_error EC_invalid_content_type ''JSON required'')
                else Inr ()))"

end
