(* ===== verification/Utf8.thy ===== *)
theory Utf8
  imports Validation
begin

text \<open>
  The UTF-8 encoder of the JSON parser (\<open>appendUtf8\<close>) against the validator
  \<open>isValidUtf8\<close>: the validator accepts exactly the concatenations of encoder outputs on
  Unicode scalar values. The JSON and protocol theories use the closure lemmas.
\<close>

text \<open>\<open>appendUtf8(output, scalar)\<close> appends these bytes to \<open>output\<close>.\<close>

definition append_utf8 :: "string \<Rightarrow> nat \<Rightarrow> string" where
  "append_utf8 output scalar =
     output @
     (if scalar \<le> 0x7F then [char_of scalar]
      else if scalar \<le> 0x7FF then
        [char_of (0xC0 + scalar div 64), char_of (0x80 + scalar mod 64)]
      else if scalar \<le> 0xFFFF then
        [char_of (0xE0 + scalar div 4096), char_of (0x80 + (scalar div 64) mod 64),
         char_of (0x80 + scalar mod 64)]
      else
        [char_of (0xF0 + scalar div 262144), char_of (0x80 + (scalar div 4096) mod 64),
         char_of (0x80 + (scalar div 64) mod 64), char_of (0x80 + scalar mod 64)])"

abbreviation utf8_encode :: "nat \<Rightarrow> string" where
  "utf8_encode \<equiv> append_utf8 []"

definition is_scalar :: "nat \<Rightarrow> bool" where
  "is_scalar cp \<longleftrightarrow> cp \<le> 0x10FFFF \<and> \<not> is_surrogate cp"

lemma byte_char_of [simp]: "n < 256 \<Longrightarrow> byte (char_of n) = n"
  by (simp add: byte_def)

lemma char_of_byte [simp]: "char_of (byte c) = c"
  by (simp add: byte_def)

lemma append_utf8_eq: "append_utf8 out cp = out @ utf8_encode cp"
  by (simp add: append_utf8_def)

section \<open>Closure under concatenation\<close>

lemma utf8_continue_append:
  "utf8_continue n code s = Some (code', rest) \<Longrightarrow>
   utf8_continue n code (s @ t) = Some (code', rest @ t)"
  by (induction n code s rule: utf8_continue.induct) (auto split: if_splits)

text \<open>The only way past a lead byte.\<close>

lemma is_valid_utf8_multibyteE:
  assumes "is_valid_utf8 (c # s)" "\<not> byte c \<le> 0x7F"
  obtains count code minimum code' rest where
    "utf8_lead (byte c) = Some (count, code, minimum)" "\<not> length s < count"
    "utf8_continue count code s = Some (code', rest)"
    "\<not> (code' < minimum \<or> 0x10FFFF < code' \<or> is_surrogate code')" "is_valid_utf8 rest"
proof (cases "utf8_lead (byte c)")
  case None
  with assms show ?thesis by (simp add: is_valid_utf8.simps(2))
next
  case (Some t)
  obtain count code minimum where t: "t = (count, code, minimum)" by (cases t)
  note lead = Some [unfolded t]
  show ?thesis
  proof (cases "utf8_continue count code s")
    case None
    with assms lead show ?thesis by (simp add: is_valid_utf8.simps(2) split: if_splits)
  next
    case (Some u)
    obtain code' rest where u: "u = (code', rest)" by (cases u)
    with assms lead Some that [OF lead, of code' rest] show ?thesis
      by (simp add: is_valid_utf8.simps(2) split: if_splits)
  qed
qed

lemma is_valid_utf8_append:
  "is_valid_utf8 s \<Longrightarrow> is_valid_utf8 (s @ t) = is_valid_utf8 t"
proof (induction s rule: is_valid_utf8.induct)
  case 1
  then show ?case by simp
next
  case (2 c s)
  show ?case
  proof (cases "byte c \<le> 0x7F")
    case True
    with 2 show ?thesis by simp
  next
    case False
    obtain count code minimum code' rest where
      d: "utf8_lead (byte c) = Some (count, code, minimum)" "\<not> length s < count"
        "utf8_continue count code s = Some (code', rest)"
        "\<not> (code' < minimum \<or> 0x10FFFF < code' \<or> is_surrogate code')" "is_valid_utf8 rest"
      using False by (rule is_valid_utf8_multibyteE [OF "2.prems"])
    have "is_valid_utf8 (rest @ t) = is_valid_utf8 t"
      using "2.IH"(2) [OF False d(1) refl refl d(2,3) refl d(4,5)] .
    with False d show ?thesis
      by (simp add: is_valid_utf8.simps(2) utf8_continue_append)
  qed
qed

lemma is_valid_utf8_ascii:
  "list_all (\<lambda>c. byte c \<le> 0x7F) s \<Longrightarrow> is_valid_utf8 s"
  by (induction s) auto

section \<open>The encoder in base 64\<close>

text \<open>
  A code point is written with 64-ary digits below its leading digit; both directions of the
  correspondence read the encoder through the next three lemmas.
\<close>

lemma base64_div:
  fixes a b :: nat
  assumes "b < 64"
  shows "(a * 64 + b) div 64 = a" "(a * 64 + b) mod 64 = b"
  using assms by simp_all

lemma base64_bound:
  fixes a b m :: nat
  assumes "a \<le> m" "b < 64"
  shows "a * 64 + b \<le> m * 64 + 63"
  using assms by linarith

lemma encode_digits_2:
  assumes "b < 64" "0x7F < a * 64 + b" "a < 32"
  shows "utf8_encode (a * 64 + b) = [char_of (0xC0 + a), char_of (0x80 + b)]"
proof -
  have "a * 64 + b \<le> 0x7FF" using assms by linarith
  with assms(2) show ?thesis
    unfolding append_utf8_def base64_div [OF assms(1)] by simp
qed

lemma encode_digits_3:
  assumes "b < 64" "c < 64" "a < 16" "0x7FF < (a * 64 + b) * 64 + c"
  shows "utf8_encode ((a * 64 + b) * 64 + c) =
    [char_of (0xE0 + a), char_of (0x80 + b), char_of (0x80 + c)]"
proof -
  define m where "m = a * 64 + b"
  have m: "m div 64 = a" "m mod 64 = b" "m \<le> 1023"
    using base64_bound [of a 15 b] assms
    by (simp_all only: m_def base64_div [OF assms(1)] numeral_less_iff)
  define n where "n = m * 64 + c"
  have n: "n div 64 = m" "n mod 64 = c" "n \<le> 0xFFFF" "0x7FF < n"
    using base64_bound [of m 1023 c] assms m
    by (simp_all only: n_def m_def [symmetric] base64_div [OF assms(2)])
  have "n div 4096 = a" using div_mult2_eq [of n 64 64] n m by simp
  then have "utf8_encode n = [char_of (0xE0 + a), char_of (0x80 + b), char_of (0x80 + c)]"
    using n m by (simp add: append_utf8_def)
  then show ?thesis by (simp add: n_def m_def)
qed

lemma encode_digits_4:
  assumes "b < 64" "c < 64" "d < 64" "0xFFFF < ((a * 64 + b) * 64 + c) * 64 + d"
  shows "utf8_encode (((a * 64 + b) * 64 + c) * 64 + d) =
    [char_of (0xF0 + a), char_of (0x80 + b), char_of (0x80 + c), char_of (0x80 + d)]"
proof -
  define m where "m = a * 64 + b"
  have m: "m div 64 = a" "m mod 64 = b"
    by (simp_all only: m_def base64_div [OF assms(1)])
  define k where "k = m * 64 + c"
  have k: "k div 64 = m" "k mod 64 = c"
    by (simp_all only: k_def base64_div [OF assms(2)])
  define n where "n = k * 64 + d"
  have n: "n div 64 = k" "n mod 64 = d" "0xFFFF < n"
    using assms(4) by (simp_all only: n_def k_def m_def base64_div [OF assms(3)])
  have d: "n div 4096 = m" "n div 262144 = a"
    using div_mult2_eq [of n 64 64] div_mult2_eq [of n 4096 64] n k m by simp_all
  then have "utf8_encode n =
      [char_of (0xF0 + a), char_of (0x80 + b), char_of (0x80 + c), char_of (0x80 + d)]"
    using n k m by (simp add: append_utf8_def)
  then show ?thesis by (simp add: n_def k_def m_def)
qed

lemma nat_digits: "(n::nat) = n div 64 * 64 + n mod 64"
  by simp

section \<open>The validator on encoded characters\<close>

lemma utf8_continue_step:
  "b < 64 \<Longrightarrow> utf8_continue (Suc n) code (char_of (0x80 + b) # s) = utf8_continue n (code * 64 + b) s"
  using base64_div [of b 2] by simp

lemma utf8_lead_simps:
  "2 \<le> a \<Longrightarrow> a < 32 \<Longrightarrow> utf8_lead (0xC0 + a) = Some (1, a, 0x80)"
  "a < 16 \<Longrightarrow> utf8_lead (0xE0 + a) = Some (2, a, 0x800)"
  "a < 5 \<Longrightarrow> utf8_lead (0xF0 + a) = Some (3, a, 0x10000)"
proof -
  have "(192 + a) mod 32 = a mod 32" "(224 + a) mod 16 = a mod 16" "(240 + a) mod 8 = a mod 8"
    using mod_mult_self2 [of a 32 6] mod_mult_self2 [of a 16 14] mod_mult_self2 [of a 8 30]
    by (simp_all add: add.commute)
  then show "2 \<le> a \<Longrightarrow> a < 32 \<Longrightarrow> utf8_lead (0xC0 + a) = Some (1, a, 0x80)"
    "a < 16 \<Longrightarrow> utf8_lead (0xE0 + a) = Some (2, a, 0x800)"
    "a < 5 \<Longrightarrow> utf8_lead (0xF0 + a) = Some (3, a, 0x10000)"
    by (auto simp: utf8_lead_def)
qed

text \<open>One multi-byte character: the lead byte announces \<open>n\<close> continuation bytes that decode
  to \<open>cp\<close>.\<close>

lemma is_valid_utf8_multibyte:
  assumes "0x7F < lead" "lead < 256" "utf8_lead lead = Some (n, code, minimum)" "n \<le> length s"
    "utf8_continue n code s = Some (cp, rest)" "minimum \<le> cp" "is_scalar cp"
  shows "is_valid_utf8 (char_of lead # s) = is_valid_utf8 rest"
  using assms by (simp add: is_scalar_def is_valid_utf8.simps(2))

lemma utf8_encode_accepted:
  assumes "is_scalar cp"
  shows "is_valid_utf8 (utf8_encode cp @ s) = is_valid_utf8 s"
proof -
  define m where "m = cp div 64"
  define k where "k = m div 64"
  define a where "a = k div 64"
  define b where "b = k mod 64"
  define c where "c = m mod 64"
  define d where "d = cp mod 64"
  have eqs: "cp = m * 64 + d" "m = k * 64 + c" "k = a * 64 + b"
    and lt: "b < 64" "c < 64" "d < 64"
    by (simp_all add: m_def k_def a_def b_def c_def d_def)
  have top: "cp \<le> 0x10FFFF" using assms by (simp add: is_scalar_def)
  consider "cp \<le> 0x7F" | "0x7F < cp" "m < 32" | "0x7FF < cp" "\<not> m < 32" "k < 16"
    | "0xFFFF < cp" "\<not> k < 16"
    using eqs lt by linarith
  then show ?thesis
  proof cases
    case 1
    then show ?thesis by (simp add: append_utf8_def)
  next
    case 2
    have "2 \<le> m" using 2 eqs(1) lt by linarith
    moreover have "utf8_encode cp = [char_of (0xC0 + m), char_of (0x80 + d)]"
      using encode_digits_2 [of d m] 2 eqs(1) lt by simp
    moreover have "utf8_continue 1 m (char_of (0x80 + d) # s) = Some (cp, s)"
      using utf8_continue_step [OF lt(3), of 0 m s] eqs(1) by simp
    ultimately show ?thesis
      using 2 assms is_valid_utf8_multibyte [of "0xC0 + m" 1 m "0x80"] utf8_lead_simps(1) [of m] by simp
  next
    case 3
    have "utf8_encode cp = [char_of (0xE0 + k), char_of (0x80 + c), char_of (0x80 + d)]"
      using encode_digits_3 [of c d k] 3 eqs lt by simp
    moreover have "utf8_continue 2 k (char_of (0x80 + c) # char_of (0x80 + d) # s) = Some (cp, s)"
      unfolding numeral_2_eq_2 utf8_continue_step [OF lt(2)] utf8_continue_step [OF lt(3)]
      by (simp only: utf8_continue.simps eqs(1,2) [symmetric])
    ultimately show ?thesis
      using 3 assms is_valid_utf8_multibyte [of "0xE0 + k" 2 k "0x800"] utf8_lead_simps(2) [of k] by simp
  next
    case 4
    have "a < 5" using top eqs lt by linarith
    moreover have "utf8_encode cp =
        [char_of (0xF0 + a), char_of (0x80 + b), char_of (0x80 + c), char_of (0x80 + d)]"
      using encode_digits_4 [of b c d a] 4 eqs lt by simp
    moreover have "utf8_continue 3 a (char_of (0x80 + b) # char_of (0x80 + c) # char_of (0x80 + d) # s)
        = Some (cp, s)"
      unfolding numeral_3_eq_3 utf8_continue_step [OF lt(1)] utf8_continue_step [OF lt(2)]
        utf8_continue_step [OF lt(3)]
      by (simp only: utf8_continue.simps eqs [symmetric])
    ultimately show ?thesis
      using 4 assms is_valid_utf8_multibyte [of "0xF0 + a" 3 a "0x10000"] utf8_lead_simps(3) [of a] by simp
  qed
qed

lemma append_utf8_valid:
  "is_valid_utf8 out \<Longrightarrow> is_scalar cp \<Longrightarrow> is_valid_utf8 (append_utf8 out cp)"
  using utf8_encode_accepted [of cp "[]"] by (simp add: append_utf8_eq [of out] is_valid_utf8_append)

section \<open>Everything accepted is an encoder output\<close>

lemma lead_split: "base \<le> byte c \<Longrightarrow> char_of (base + (byte c - base)) = c"
  by simp

lemma utf8_lead_SomeE:
  assumes "utf8_lead (byte c) = Some (n, code, minimum)"
  obtains "n = 1" "c = char_of (0xC0 + code)" "code < 32" "minimum = 0x80"
    | "n = 2" "c = char_of (0xE0 + code)" "code < 16" "minimum = 0x800"
    | "n = 3" "c = char_of (0xF0 + code)" "minimum = 0x10000"
proof -
  have m: "(192 + a) mod 32 = a mod 32" "(224 + a) mod 16 = a mod 16" "(240 + a) mod 8 = a mod 8"
    for a :: nat
    using mod_mult_self2 [of a 32 6] mod_mult_self2 [of a 16 14] mod_mult_self2 [of a 8 30]
    by (simp_all add: add.commute)
  consider "0xC2 \<le> byte c" "byte c \<le> 0xDF" | "0xE0 \<le> byte c" "byte c \<le> 0xEF"
    | "0xF0 \<le> byte c" "byte c \<le> 0xF4"
    using assms by (auto simp: utf8_lead_def split: if_splits)
  then show ?thesis
  proof cases
    case 1
    then have "byte c mod 32 = byte c - 0xC0" using m(1) [of "byte c - 0xC0"] by simp
    with 1 assms lead_split [of "0xC0" c] show ?thesis by (intro that(1)) (auto simp: utf8_lead_def)
  next
    case 2
    then have "byte c mod 16 = byte c - 0xE0" using m(2) [of "byte c - 0xE0"] by simp
    with 2 assms lead_split [of "0xE0" c] show ?thesis by (intro that(2)) (auto simp: utf8_lead_def)
  next
    case 3
    then have "byte c mod 8 = byte c - 0xF0" using m(3) [of "byte c - 0xF0"] by simp
    with 3 assms lead_split [of "0xF0" c] show ?thesis by (intro that(3)) (auto simp: utf8_lead_def)
  qed
qed

lemma utf8_continue_SucE:
  assumes "utf8_continue (Suc n) code s = Some (cp, rest)"
  obtains b t where "s = char_of (0x80 + b) # t" "b < 64"
    "utf8_continue n (code * 64 + b) t = Some (cp, rest)"
proof (cases s)
  case Nil
  with assms show ?thesis by simp
next
  case (Cons d t)
  with assms have d: "byte d div 64 = 2" and r: "utf8_continue n (code * 64 + byte d mod 64) t = Some (cp, rest)"
    by (auto split: if_splits)
  have "byte d = 0x80 + byte d mod 64" using d div_mult_mod_eq [of "byte d" 64] by simp
  then have "d = char_of (0x80 + byte d mod 64)" by (metis char_of_byte)
  with Cons r that [of "byte d mod 64" t] show ?thesis by simp
qed

lemma utf8_decode_encode:
  assumes "utf8_lead (byte c) = Some (n, code, minimum)" "utf8_continue n code s = Some (cp, rest)"
    "minimum \<le> cp"
  shows "c # s = utf8_encode cp @ rest"
  using assms(1)
proof (cases rule: utf8_lead_SomeE)
  case 1
  obtain b where b: "s = char_of (0x80 + b) # rest" "b < 64" "cp = code * 64 + b"
    using assms(2) unfolding 1 One_nat_def by (elim utf8_continue_SucE) simp
  with 1 assms(3) show ?thesis using encode_digits_2 [of b code] by simp
next
  case 2
  obtain b d where b: "s = char_of (0x80 + b) # char_of (0x80 + d) # rest" "b < 64" "d < 64"
      "cp = (code * 64 + b) * 64 + d"
    using assms(2) unfolding 2 numeral_2_eq_2 by (elim utf8_continue_SucE) simp
  with 2 assms(3) show ?thesis using encode_digits_3 [of b d code] by simp
next
  case 3
  obtain b d e where b: "s = char_of (0x80 + b) # char_of (0x80 + d) # char_of (0x80 + e) # rest"
      "b < 64" "d < 64" "e < 64" "cp = ((code * 64 + b) * 64 + d) * 64 + e"
    using assms(2) unfolding 3 numeral_3_eq_3 by (elim utf8_continue_SucE) simp
  with 3 assms(3) show ?thesis using encode_digits_4 [of b d e code] by simp
qed

lemma utf8_accepted_decomposes:
  "is_valid_utf8 s \<Longrightarrow> \<exists>cps. list_all is_scalar cps \<and> s = concat (map utf8_encode cps)"
proof (induction s rule: is_valid_utf8.induct)
  case 1
  have "list_all is_scalar [] \<and> [] = concat (map utf8_encode [])" by simp
  then show ?case by blast
next
  case (2 c s)
  have step: "\<exists>cps. list_all is_scalar cps \<and> c # s = concat (map utf8_encode cps)"
    if "is_scalar cp" "c # s = utf8_encode cp @ rest"
      "\<exists>cps. list_all is_scalar cps \<and> rest = concat (map utf8_encode cps)" for cp rest
  proof -
    from that(3) obtain cps where "list_all is_scalar cps" "rest = concat (map utf8_encode cps)" by blast
    with that(1,2) have "list_all is_scalar (cp # cps) \<and> c # s = concat (map utf8_encode (cp # cps))"
      by simp
    then show ?thesis by blast
  qed
  show ?case
  proof (cases "byte c \<le> 0x7F")
    case True
    have "is_scalar (byte c)" "c # s = utf8_encode (byte c) @ s"
      using True by (simp_all add: is_scalar_def is_surrogate_def append_utf8_def)
    moreover have "is_valid_utf8 s" using "2.prems" True by simp
    ultimately show ?thesis using "2.IH"(1) [OF True] step [of "byte c" s] by blast
  next
    case False
    obtain count code minimum code' rest where
      d: "utf8_lead (byte c) = Some (count, code, minimum)" "\<not> length s < count"
        "utf8_continue count code s = Some (code', rest)"
        "\<not> (code' < minimum \<or> 0x10FFFF < code' \<or> is_surrogate code')" "is_valid_utf8 rest"
      using False by (rule is_valid_utf8_multibyteE [OF "2.prems"])
    have IH: "\<exists>cps. list_all is_scalar cps \<and> rest = concat (map utf8_encode cps)"
      using "2.IH"(2) [OF False d(1) refl refl d(2,3) refl d(4,5)] .
    have "c # s = utf8_encode code' @ rest" using d utf8_decode_encode by simp
    moreover have "is_scalar code'" using d(4) by (simp add: is_scalar_def)
    ultimately show ?thesis using IH step [of code' rest] by blast
  qed
qed

text \<open>C13. UTF-8 validation is exact: \<open>isValidUtf8\<close> accepts a byte string if and only if it is
  the concatenation of what \<open>appendUtf8\<close> emits for some sequence of Unicode scalar values
  (no surrogates, nothing above U+10FFFF, no overlong forms).\<close>

theorem is_valid_utf8_iff_encoding:
  "is_valid_utf8 s \<longleftrightarrow> (\<exists>cps. list_all is_scalar cps \<and> s = concat (map utf8_encode cps))"
proof
  assume "\<exists>cps. list_all is_scalar cps \<and> s = concat (map utf8_encode cps)"
  then obtain cps where cps: "list_all is_scalar cps" and s: "s = concat (map utf8_encode cps)" by blast
  from cps have "is_valid_utf8 (concat (map utf8_encode cps))"
    by (induction cps) (simp_all add: utf8_encode_accepted)
  with s show "is_valid_utf8 s" by simp
qed (rule utf8_accepted_decomposes)

end
