(* ===== verification/Json.thy ===== *)
theory Json
  imports Utf8 "HOL-Library.Log_Nat"
begin

text \<open>
  \<open>json.hpp\<close> and \<open>json.cpp\<close>: the bounded JSON parser. The position in \<open>m_input\<close> is the
  suffix still to be read, \<open>m_values\<close> is passed along; each parsing function returns its
  value, the rest of the input and, where it changes, the number of values seen. Objects
  (\<open>std::map\<close>) are association lists in ascending key order. Integers are the \<open>int64_t\<close>
  values as \<^typ>\<open>int\<close>; the well-formedness invariant proves their range.
\<close>

section \<open>Values and limits\<close>

datatype json =
    JNull
  | JBool bool
  | JInt int
  | JDouble cxx_double
  | JString string
  | JArray "json list"
  | JObject "(string \<times> json) list"

type_synonym json_object = "(string \<times> json) list"

fun json_is_null :: "json \<Rightarrow> bool" where
  "json_is_null JNull = True" | "json_is_null _ = False"

fun json_boolean :: "json \<Rightarrow> bool option" where
  "json_boolean (JBool b) = Some b" | "json_boolean _ = None"

fun json_integer :: "json \<Rightarrow> int option" where
  "json_integer (JInt i) = Some i" | "json_integer _ = None"

fun json_number :: "json \<Rightarrow> cxx_double option" where
  "json_number (JDouble d) = Some d" | "json_number _ = None"

fun json_string :: "json \<Rightarrow> string option" where
  "json_string (JString s) = Some s" | "json_string _ = None"

fun json_array :: "json \<Rightarrow> json list option" where
  "json_array (JArray xs) = Some xs" | "json_array _ = None"

fun json_object :: "json \<Rightarrow> json_object option" where
  "json_object (JObject m) = Some m" | "json_object _ = None"

record parse_limits =
  maximumBytes :: nat
  maximumDepth :: nat
  maximumValues :: nat
  maximumStringBytes :: nat

definition default_limits :: parse_limits where
  "default_limits = \<lparr>maximumBytes = 2 * 1024 * 1024, maximumDepth = 32, maximumValues = 65536,
     maximumStringBytes = 512 * 1024\<rparr>"

definition json_find :: "json_object \<Rightarrow> string \<Rightarrow> json option" where
  "json_find object key = map_of object key"

text \<open>\<open>object.emplace(key, value)\<close> on the ordered map; \<^const>\<open>None\<close> is \<open>!inserted\<close>.\<close>

fun insert_sorted :: "string \<Rightarrow> json \<Rightarrow> json_object \<Rightarrow> json_object" where
  "insert_sorted k v [] = [(k, v)]"
| "insert_sorted k v ((k', v') # m) =
     (if k < k' then (k, v) # (k', v') # m else (k', v') # insert_sorted k v m)"

definition object_emplace :: "string \<Rightarrow> json \<Rightarrow> json_object \<Rightarrow> json_object option" where
  "object_emplace k v m = (if map_of m k = None then Some (insert_sorted k v m) else None)"

section \<open>Lexical elements\<close>

abbreviation json_fail :: "string \<Rightarrow> error" where
  "json_fail message \<equiv> simple_error EC_invalid_json message"

abbreviation json_too_large :: "string \<Rightarrow> error" where
  "json_too_large message \<equiv> simple_error EC_payload_too_large message"

definition is_json_space :: "char \<Rightarrow> bool" where
  "is_json_space c \<longleftrightarrow> c = CHR '' '' \<or> c = CHR 0x09 \<or> c = CHR 0x0D \<or> c = CHR 0x0A"

definition skip_whitespace :: "string \<Rightarrow> string" where
  "skip_whitespace s = dropWhile is_json_space s"

definition parse_literal :: "string \<Rightarrow> json \<Rightarrow> string \<Rightarrow> (json \<times> string) result" where
  "parse_literal literal value s =
     (if take (length literal) s \<noteq> literal then Inl (json_fail ''invalid JSON literal'')
      else Inr (value, drop (length literal) s))"

definition hex_digit_value :: "char \<Rightarrow> nat option" where
  "hex_digit_value c =
     (if is_digit c then Some (byte c - 48)
      else if char_between (CHR ''a'') (CHR ''f'') c then Some (byte c - 97 + 10)
      else if char_between (CHR ''A'') (CHR ''F'') c then Some (byte c - 65 + 10)
      else None)"

fun hex_code_unit :: "nat \<Rightarrow> nat \<Rightarrow> string \<Rightarrow> (nat \<times> string) result" where
  "hex_code_unit 0 value s = Inr (value, s)"
| "hex_code_unit (Suc n) value [] = Inl (json_fail ''truncated unicode escape'')"
| "hex_code_unit (Suc n) value (c # s) =
     (case hex_digit_value c of
        None \<Rightarrow> Inl (json_fail ''invalid unicode escape'')
      | Some d \<Rightarrow> hex_code_unit n (value * 16 + d) s)"

lemma hex_code_unit_code [code]:
  "hex_code_unit n value s =
     (if n = 0 then Inr (value, s)
      else case s of
          [] \<Rightarrow> Inl (json_fail ''truncated unicode escape'')
        | c # t \<Rightarrow>
            (case hex_digit_value c of
               None \<Rightarrow> Inl (json_fail ''invalid unicode escape'')
             | Some d \<Rightarrow> hex_code_unit (n - 1) (value * 16 + d) t))"
  by (cases n; cases s) (simp_all split: option.split)

definition parse_hex_code_unit :: "string \<Rightarrow> (nat \<times> string) result" where
  "parse_hex_code_unit s =
     (if length s < 4 then Inl (json_fail ''truncated unicode escape'') else hex_code_unit 4 0 s)"

text \<open>The \<open>u\<close> case of the escape switch: one code unit, or a surrogate pair.\<close>

definition parse_unicode_escape :: "string \<Rightarrow> (nat \<times> string) result" where
  "parse_unicode_escape s =
     and_then (parse_hex_code_unit s) (\<lambda>(scalar, s).
       if 0xD800 \<le> scalar \<and> scalar \<le> 0xDBFF then
         if length s < 2 \<or> take 2 s \<noteq> [CHR 0x5C, CHR ''u'']
         then Inl (json_fail ''unpaired high surrogate'')
         else case parse_hex_code_unit (drop 2 s) of
             Inl e \<Rightarrow> Inl (json_fail ''invalid low surrogate'')
           | Inr (low, s') \<Rightarrow>
               if low < 0xDC00 \<or> 0xDFFF < low then Inl (json_fail ''invalid low surrogate'')
               else Inr (0x10000 + (scalar - 0xD800) * 1024 + (low - 0xDC00), s')
       else if 0xDC00 \<le> scalar \<and> scalar \<le> 0xDFFF
       then Inl (json_fail ''unpaired low surrogate'')
       else Inr (scalar, s))"

definition simple_escape :: "char \<Rightarrow> char option" where
  "simple_escape c =
     (if c = CHR 0x22 then Some (CHR 0x22) else if c = CHR 0x5C then Some (CHR 0x5C)
      else if c = CHR ''/'' then Some (CHR ''/'') else if c = CHR ''b'' then Some (CHR 0x08)
      else if c = CHR ''f'' then Some (CHR 0x0C) else if c = CHR ''n'' then Some (CHR 0x0A)
      else if c = CHR ''r'' then Some (CHR 0x0D) else if c = CHR ''t'' then Some (CHR 0x09)
      else None)"

lemma hex_code_unit_length: "hex_code_unit n v s = Inr (w, t) \<Longrightarrow> length s = length t + n"
  by (induction n v s rule: hex_code_unit.induct) (auto split: option.splits)

lemma parse_hex_code_unit_length: "parse_hex_code_unit s = Inr (w, t) \<Longrightarrow> length s = length t + 4"
  by (auto simp: parse_hex_code_unit_def dest: hex_code_unit_length split: if_splits)

lemma parse_unicode_escape_length: "parse_unicode_escape s = Inr (cp, t) \<Longrightarrow> length t < length s"
  by (auto simp: parse_unicode_escape_def and_then_Inr_iff dest!: parse_hex_code_unit_length
      split: if_splits sum.splits)

text \<open>The loop of \<open>parseString\<close> after the opening quote; \<open>output\<close> is what was decoded so far.\<close>

function string_loop :: "nat \<Rightarrow> string \<Rightarrow> string \<Rightarrow> (string \<times> string) result" where
  "string_loop limit [] output = Inl (json_fail ''unterminated JSON string'')"
| "string_loop limit (c # s) output =
     (if c = CHR 0x22 then
        if limit < length output \<or> \<not> is_valid_utf8 output
        then Inl (json_too_large ''JSON string exceeds byte limit'')
        else Inr (output, s)
      else if byte c < 0x20 then Inl (json_fail ''unescaped JSON control byte'')
      else if c \<noteq> CHR 0x5C then string_loop limit s (output @ [c])
      else if s = [] then Inl (json_fail ''truncated JSON escape'')
      else if hd s = CHR ''u'' then
        and_then (parse_unicode_escape (tl s)) (\<lambda>(scalar, s').
          if limit < length (append_utf8 output scalar)
          then Inl (json_too_large ''JSON string exceeds byte limit'')
          else string_loop limit s' (append_utf8 output scalar))
      else case simple_escape (hd s) of
          None \<Rightarrow> Inl (json_fail ''unknown JSON escape'')
        | Some e \<Rightarrow>
            if limit < length (output @ [e])
            then Inl (json_too_large ''JSON string exceeds byte limit'')
            else string_loop limit (tl s) (output @ [e]))"
  by pat_completeness auto
termination
  by (relation "measure (\<lambda>(limit, s, output). length s)")
    (auto dest!: parse_unicode_escape_length simp: neq_Nil_conv)

definition parse_string :: "nat \<Rightarrow> string \<Rightarrow> (string \<times> string) result" where
  "parse_string limit s =
     (case s of
        [] \<Rightarrow> Inl (json_fail ''JSON string expected'')
      | c # s' \<Rightarrow> if c \<noteq> CHR 0x22 then Inl (json_fail ''JSON string expected'')
                 else string_loop limit s' [])"

section \<open>Numbers\<close>

text \<open>
  \<open>std::from_chars\<close> for \<open>int64_t\<close>: an optional minus sign and digits, with the exact value
  when it is representable. For \<open>double\<close> it returns the nearest representable value, ties to
  even; a value beyond the largest double, or a non-zero text that rounds to zero, is
  \<open>result_out_of_range\<close>.
\<close>

definition int64_from_chars :: "bool \<Rightarrow> string \<Rightarrow> int option" where
  "int64_from_chars negative digits =
     (let v = (if negative then - int (decimal_value digits) else int (decimal_value digits))
      in if - (2 ^ 63) \<le> v \<and> v < 2 ^ 63 then Some v else None)"

definition pow_rat :: "nat \<Rightarrow> int \<Rightarrow> rat" where
  "pow_rat b e = (if 0 \<le> e then of_nat b ^ nat e else 1 / of_nat b ^ nat (- e))"

definition round_half_even :: "rat \<Rightarrow> int" where
  "round_half_even q =
     (let f = \<lfloor>q\<rfloor>; d = q - of_int f
      in if d < 1 / 2 then f else if 1 / 2 < d then f + 1 else if even f then f else f + 1)"

text \<open>The exponent of the leading bit of a positive rational.\<close>

definition leading_exponent :: "rat \<Rightarrow> int" where
  "leading_exponent q =
     (let (n, d) = quotient_of q; e = bitlen n - bitlen d
      in if q < pow_rat 2 e then e - 1 else e)"

definition round_to_double :: "rat \<Rightarrow> cxx_double option" where
  "round_to_double q =
     (if q = 0 then Some (Finite 0)
      else
        let a = \<bar>q\<bar>; e = max (leading_exponent a - 52) (- 1074);
            r = of_int (round_half_even (a / pow_rat 2 e)) * pow_rat 2 e
        in if pow_rat 2 1024 \<le> r \<or> r = 0 then None else Some (Finite (if q < 0 then - r else r)))"

text \<open>The parts of a number as \<open>parseNumber\<close> scans them: sign, integer digits, fraction digits
  and exponent (sign and digits); absent parts are \<^const>\<open>None\<close>.\<close>

record number_text =
  nt_negative :: bool
  nt_integer :: string
  nt_fraction :: "string option"
  nt_exponent :: "(bool \<times> string) option"

definition scan_fraction :: "string \<Rightarrow> (string option \<times> string) result" where
  "scan_fraction s =
     (if s \<noteq> [] \<and> hd s = CHR ''.'' then
        if takeWhile is_digit (tl s) = [] then Inl (json_fail ''invalid JSON fraction'')
        else Inr (Some (takeWhile is_digit (tl s)), dropWhile is_digit (tl s))
      else Inr (None, s))"

definition scan_exponent :: "string \<Rightarrow> ((bool \<times> string) option \<times> string) result" where
  "scan_exponent s =
     (if s \<noteq> [] \<and> (hd s = CHR ''e'' \<or> hd s = CHR ''E'') then
        let signed = tl s \<noteq> [] \<and> (hd (tl s) = CHR ''+'' \<or> hd (tl s) = CHR ''-'');
            neg_exp = signed \<and> hd (tl s) = CHR ''-'';
            rest = (if signed then tl (tl s) else tl s)
        in if takeWhile is_digit rest = [] then Inl (json_fail ''invalid JSON exponent'')
           else Inr (Some (neg_exp, takeWhile is_digit rest), dropWhile is_digit rest)
      else Inr (None, s))"

definition scan_number :: "string \<Rightarrow> (number_text \<times> string) result" where
  "scan_number s =
     (let negative = s \<noteq> [] \<and> hd s = CHR ''-''; s1 = (if negative then tl s else s) in
      if s1 = [] then Inl (json_fail ''truncated JSON number'')
      else if hd s1 \<noteq> CHR ''0'' \<and> \<not> char_between (CHR ''1'') (CHR ''9'') (hd s1)
      then Inl (json_fail ''invalid JSON number'')
      else
        let digits = (if hd s1 = CHR ''0'' then [hd s1] else takeWhile is_digit s1);
            s2 = drop (length digits) s1
        in and_then (scan_fraction s2) (\<lambda>(fraction, s3).
           and_then (scan_exponent s3) (\<lambda>(exponent, s4).
             Inr (\<lparr>nt_negative = negative, nt_integer = digits, nt_fraction = fraction,
                   nt_exponent = exponent\<rparr>, s4))))"

definition number_value :: "number_text \<Rightarrow> rat" where
  "number_value n =
     (let fraction = (case nt_fraction n of None \<Rightarrow> [] | Some f \<Rightarrow> f);
          exponent = (case nt_exponent n of None \<Rightarrow> 0
            | Some (neg_exp, ds) \<Rightarrow> if neg_exp then - int (decimal_value ds) else int (decimal_value ds));
          m = of_nat (decimal_value (nt_integer n @ fraction)) * pow_rat 10 (exponent - int (length fraction))
      in if nt_negative n then - m else m)"

definition parse_number :: "string \<Rightarrow> (json \<times> string) result" where
  "parse_number s =
     and_then (scan_number s) (\<lambda>(n, rest).
       if nt_fraction n = None \<and> nt_exponent n = None then
         (case int64_from_chars (nt_negative n) (nt_integer n) of
            None \<Rightarrow> Inl (json_fail ''JSON integer is outside signed 64-bit range'')
          | Some i \<Rightarrow> Inr (JInt i, rest))
       else
         (case round_to_double (number_value n) of
            None \<Rightarrow> Inl (json_fail ''JSON number is outside finite range'')
          | Some d \<Rightarrow> Inr (JDouble d, rest)))"

lemma skip_whitespace_length: "length (skip_whitespace s) \<le> length s"
  by (simp add: skip_whitespace_def length_dropWhile_le)

lemma skip_whitespace_tl_length:
  "skip_whitespace s \<noteq> [] \<Longrightarrow> length (tl (skip_whitespace s)) < length s"
  using skip_whitespace_length [of s] by (cases "skip_whitespace s") auto

lemma parse_literal_length: "lit \<noteq> [] \<Longrightarrow> parse_literal lit v s = Inr (v', t) \<Longrightarrow> length t < length s"
  by (cases s) (auto simp: parse_literal_def split: if_splits)

lemma string_loop_length: "string_loop limit s out = Inr (v, t) \<Longrightarrow> length t < length s"
proof (induction limit s out rule: string_loop.induct)
  case (2 limit c s out)
  show ?case
  proof (cases "c = CHR 0x22 \<or> byte c < 0x20 \<or> c \<noteq> CHR 0x5C \<or> s = [] \<or> hd s \<noteq> CHR ''u''")
    case True
    with 2 show ?thesis
      by (auto split: if_splits option.splits simp: neq_Nil_conv less_Suc_eq)
  next
    case False
    with "2.prems" obtain cp t' where u: "parse_unicode_escape (tl s) = Inr (cp, t')"
        "\<not> limit < length (append_utf8 out cp)" "string_loop limit t' (append_utf8 out cp) = Inr (v, t)"
      by (auto simp: and_then_Inr_iff split: if_splits)
    from False u "2.IH"(2) have "length t < length t'" by auto
    with parse_unicode_escape_length [OF u(1)] False show ?thesis by (cases s) auto
  qed
qed simp

lemma parse_string_length: "parse_string limit s = Inr (v, t) \<Longrightarrow> length t < length s"
  by (auto simp: parse_string_def split: list.splits if_splits dest!: string_loop_length)

lemma scan_fraction_length: "scan_fraction s = Inr (f, t) \<Longrightarrow> length t \<le> length s"
  by (cases s) (auto simp: scan_fraction_def le_SucI length_dropWhile_le split: if_splits)

lemma scan_exponent_length: "scan_exponent s = Inr (f, t) \<Longrightarrow> length t \<le> length s"
  using length_dropWhile_le [of is_digit "tl s"] length_dropWhile_le [of is_digit "tl (tl s)"]
  by (cases s) (auto simp: scan_exponent_def Let_def split: if_splits)

lemma scan_number_length: "scan_number s = Inr (n, t) \<Longrightarrow> length t < length s"
proof -
  assume n: "scan_number s = Inr (n, t)"
  define s1 where "s1 = (if s \<noteq> [] \<and> hd s = CHR ''-'' then tl s else s)"
  define digits where "digits = (if hd s1 = CHR ''0'' then [hd s1] else takeWhile is_digit s1)"
  have s1: "s1 \<noteq> []" and h: "hd s1 = CHR ''0'' \<or> char_between (CHR ''1'') (CHR ''9'') (hd s1)"
    using n by (auto simp: scan_number_def s1_def Let_def split: if_splits)
  have "digits \<noteq> []"
    using s1 h by (cases s1) (auto simp: digits_def is_digit_def char_between_byte byte_def)
  then have "length (drop (length digits) s1) < length s1"
    using s1 by (cases digits) auto
  moreover have "length t \<le> length (drop (length digits) s1)"
    using n s1 h unfolding scan_number_def Let_def s1_def [symmetric] digits_def [symmetric]
    by (auto simp: and_then_Inr_iff split: if_splits dest!: scan_fraction_length scan_exponent_length)
  moreover have "length s1 \<le> length s" by (auto simp: s1_def)
  ultimately show ?thesis by linarith
qed

lemma parse_number_length: "parse_number s = Inr (v, t) \<Longrightarrow> length t < length s"
  by (auto simp: parse_number_def and_then_Inr_iff dest!: scan_number_length
      split: if_splits option.splits)

section \<open>The recursive descent\<close>

text \<open>
  \<open>parseValue\<close>, and the loops of \<open>parseObject\<close> and \<open>parseArray\<close>. \<open>depth\<close> is the argument
  of the C++ functions, \<open>seen\<close> is \<open>m_values\<close>.
\<close>

function parse_value :: "parse_limits \<Rightarrow> nat \<Rightarrow> string \<Rightarrow> nat \<Rightarrow> (json \<times> string \<times> nat) result"
  and parse_members ::
    "parse_limits \<Rightarrow> nat \<Rightarrow> json_object \<Rightarrow> string \<Rightarrow> nat \<Rightarrow> (json \<times> string \<times> nat) result"
  and parse_elements ::
    "parse_limits \<Rightarrow> nat \<Rightarrow> json list \<Rightarrow> string \<Rightarrow> nat \<Rightarrow> (json \<times> string \<times> nat) result"
  where
  "parse_value limits depth input seen =
     (let s = skip_whitespace input in
      if maximumDepth limits < depth then Inl (json_too_large ''JSON nesting depth exceeds limit'')
      else if s = [] then Inl (json_fail ''JSON value expected'')
      else if maximumValues limits \<le> seen then Inl (json_too_large ''JSON value count exceeds limit'')
      else if hd s = CHR ''{'' then
        if maximumDepth limits \<le> depth then Inl (json_too_large ''JSON nesting depth exceeds limit'')
        else
          let s' = skip_whitespace (tl s) in
          if s' \<noteq> [] \<and> hd s' = CHR ''}'' then Inr (JObject [], tl s', seen + 1)
          else parse_members limits (depth + 1) [] s' (seen + 1)
      else if hd s = CHR ''['' then
        if maximumDepth limits \<le> depth then Inl (json_too_large ''JSON nesting depth exceeds limit'')
        else
          let s' = skip_whitespace (tl s) in
          if s' \<noteq> [] \<and> hd s' = CHR '']'' then Inr (JArray [], tl s', seen + 1)
          else parse_elements limits (depth + 1) [] s' (seen + 1)
      else
        and_then
          (if hd s = CHR 0x22
           then and_then (parse_string (maximumStringBytes limits) s) (\<lambda>(str, t). Inr (JString str, t))
           else if hd s = CHR ''t'' then parse_literal ''true'' (JBool True) s
           else if hd s = CHR ''f'' then parse_literal ''false'' (JBool False) s
           else if hd s = CHR ''n'' then parse_literal ''null'' JNull s
           else parse_number s)
          (\<lambda>(v, t). Inr (v, t, seen + 1)))"
| "parse_members limits depth object input seen =
     (let s = skip_whitespace input in
      if s = [] \<or> hd s \<noteq> CHR 0x22 then Inl (json_fail ''JSON object key expected'')
      else and_then (parse_string (maximumStringBytes limits) s) (\<lambda>(key, s1).
        let s2 = skip_whitespace s1 in
        if s2 = [] \<or> hd s2 \<noteq> CHR '':'' then Inl (json_fail ''JSON object colon expected'')
        else and_then (parse_value limits depth (tl s2) seen) (\<lambda>(value, s3, seen').
          case object_emplace key value object of
            None \<Rightarrow> Inl (json_fail ''duplicate JSON object key'')
          | Some object' \<Rightarrow>
              let s4 = skip_whitespace s3 in
              if s4 = [] then Inl (json_fail ''unterminated JSON object'')
              else if hd s4 = CHR ''}'' then Inr (JObject object', tl s4, seen')
              else if hd s4 \<noteq> CHR '','' then Inl (json_fail ''JSON object comma expected'')
              else parse_members limits depth object' (tl s4) seen')))"
| "parse_elements limits depth array input seen =
     and_then (parse_value limits depth input seen) (\<lambda>(value, s1, seen').
       let s2 = skip_whitespace s1 in
       if s2 = [] then Inl (json_fail ''unterminated JSON array'')
       else if hd s2 = CHR '']'' then Inr (JArray (array @ [value]), tl s2, seen')
       else if hd s2 \<noteq> CHR '','' then Inl (json_fail ''JSON array comma expected'')
       else parse_elements limits depth (array @ [value]) (tl s2) seen')"
  by pat_completeness auto

lemmas parse_dom_induct = parse_value_parse_members_parse_elements.pinduct

text \<open>Every successful step of the descent consumes input; with it the recursion terminates.\<close>

lemma parse_dom_length:
  "parse_value_parse_members_parse_elements_dom (Inl (limits, depth, s, seen)) \<Longrightarrow>
     \<forall>v t n. parse_value limits depth s seen = Inr (v, t, n) \<longrightarrow> length t < length s"
  "parse_value_parse_members_parse_elements_dom (Inr (Inl (limits, depth, object, s, seen))) \<Longrightarrow>
     \<forall>v t n. parse_members limits depth object s seen = Inr (v, t, n) \<longrightarrow> length t < length s"
  "parse_value_parse_members_parse_elements_dom (Inr (Inr (limits, depth, array, s, seen))) \<Longrightarrow>
     \<forall>v t n. parse_elements limits depth array s seen = Inr (v, t, n) \<longrightarrow> length t < length s"
proof (induction limits depth s seen and limits depth object s seen and limits depth array s seen
    rule: parse_dom_induct)
  case (1 limits depth input seen)
  define s where "s = skip_whitespace input"
  define s' where "s' = skip_whitespace (tl s)"
  show ?case
  proof (intro allI impI)
    fix v t n
    assume p: "parse_value limits depth input seen = Inr (v, t, n)"
    have s: "s \<noteq> []" "\<not> maximumDepth limits < depth" "\<not> maximumValues limits \<le> seen"
      using p unfolding parse_value.psimps [OF "1.hyps"] by (auto simp: s_def Let_def split: if_splits)
    have le: "length s \<le> length input" "length s' < length s" "length (tl s') \<le> length s'"
      using s(1) skip_whitespace_length [of input] skip_whitespace_length [of "tl s"]
      by (auto simp: s_def s'_def neq_Nil_conv)
    have "length t < length s"
    proof (cases "hd s = CHR ''{'' \<or> hd s = CHR ''[''")
      case True
      with p have "t = tl s'
          \<or> (hd s = CHR ''{'' \<and> \<not> (s' \<noteq> [] \<and> hd s' = CHR ''}'') \<and> \<not> maximumDepth limits \<le> depth
            \<and> parse_members limits (depth + 1) [] s' (seen + 1) = Inr (v, t, n))
          \<or> (hd s \<noteq> CHR ''{'' \<and> hd s = CHR ''['' \<and> \<not> (s' \<noteq> [] \<and> hd s' = CHR '']'')
            \<and> \<not> maximumDepth limits \<le> depth
            \<and> parse_elements limits (depth + 1) [] s' (seen + 1) = Inr (v, t, n))"
        unfolding parse_value.psimps [OF "1.hyps"] s_def [symmetric] s'_def [symmetric] Let_def
        by (auto simp: s'_def [symmetric] split: if_splits)
      then show ?thesis
        using "1.IH"(1) [OF s_def s(2,1,3) _ _ s'_def] "1.IH"(2) [OF s_def s(2,1,3) _ _ _ s'_def] le
        by (elim disjE conjE) (auto intro: less_trans)
    next
      case False
      with p s show ?thesis
        unfolding parse_value.psimps [OF "1.hyps"] s_def [symmetric] Let_def
        by (auto simp: and_then_Inr_iff split: if_splits
          dest: parse_string_length parse_literal_length [rotated] parse_number_length)
    qed
    with le show "length t < length input" by linarith
  qed
next
  case (2 limits depth object input seen)
  show ?case
  proof (intro allI impI)
    fix v t n
    assume "parse_members limits depth object input seen = Inr (v, t, n)"
    then obtain key s1 w s3 seen' object' where
      k: "skip_whitespace input \<noteq> []" "\<not> (skip_whitespace input = [] \<or> hd (skip_whitespace input) \<noteq> CHR 0x22)"
        "parse_string (maximumStringBytes limits) (skip_whitespace input) = Inr (key, s1)"
      and c: "skip_whitespace s1 \<noteq> []" "\<not> (skip_whitespace s1 = [] \<or> hd (skip_whitespace s1) \<noteq> CHR '':'')"
      and v: "parse_value limits depth (tl (skip_whitespace s1)) seen = Inr (w, s3, seen')"
      and e: "object_emplace key w object = Some object'"
      and ne: "skip_whitespace s3 \<noteq> []"
      and r: "t = tl (skip_whitespace s3) \<or>
        (hd (skip_whitespace s3) \<noteq> CHR ''}'' \<and> \<not> hd (skip_whitespace s3) \<noteq> CHR '','' \<and>
        parse_members limits depth object' (tl (skip_whitespace s3)) seen' = Inr (v, t, n))"
      unfolding parse_members.psimps [OF "2.hyps"]
      by (auto simp: and_then_Inr_iff Let_def split: if_splits option.splits)
    have "length s1 < length input"
      using parse_string_length [OF k(3)] skip_whitespace_length [of input] by linarith
    moreover have "length (tl (skip_whitespace s1)) < length s1"
      using c(1) by (rule skip_whitespace_tl_length)
    moreover have "length s3 < length (tl (skip_whitespace s1))"
      using "2.IH"(1) [OF refl k(2,3) refl refl c(2)] v by blast
    moreover have "length (tl (skip_whitespace s3)) < length s3"
      using ne by (rule skip_whitespace_tl_length)
    moreover have "length t \<le> length (tl (skip_whitespace s3))"
      using r "2.IH"(2) [OF refl k(2,3) refl refl c(2) v refl refl e refl ne] by (auto intro: less_imp_le)
    ultimately show "length t < length input" by linarith
  qed
next
  case (3 limits depth array input seen)
  show ?case
  proof (intro allI impI)
    fix v t n
    assume "parse_elements limits depth array input seen = Inr (v, t, n)"
    then obtain w s1 seen' where v: "parse_value limits depth input seen = Inr (w, s1, seen')"
      and ne: "skip_whitespace s1 \<noteq> []"
      and r: "t = tl (skip_whitespace s1) \<or>
        (hd (skip_whitespace s1) \<noteq> CHR '']'' \<and> hd (skip_whitespace s1) = CHR '','' \<and>
        parse_elements limits depth (array @ [w]) (tl (skip_whitespace s1)) seen' = Inr (v, t, n))"
      unfolding parse_elements.psimps [OF "3.hyps"]
      by (auto simp: and_then_Inr_iff Let_def split: if_splits)
    have "length s1 < length input" using "3.IH"(1) v by blast
    moreover have "length (tl (skip_whitespace s1)) < length s1"
      using ne by (rule skip_whitespace_tl_length)
    moreover have "length t \<le> length (tl (skip_whitespace s1))"
      using r "3.IH"(2) [OF v refl refl refl ne] by (auto intro: less_imp_le)
    ultimately show "length t < length input" by linarith
  qed
qed


lemma parse_value_dom_length:
  "parse_value_parse_members_parse_elements_dom (Inl (limits, depth, s, seen)) \<Longrightarrow>
   parse_value limits depth s seen = Inr (v, t, n) \<Longrightarrow> length t < length s"
  using parse_dom_length(1) by blast

termination parse_value
proof (relation "measure (\<lambda>x. case x of
      Inl (limits, depth, s, seen) \<Rightarrow> 2 * length s
    | Inr (Inl (limits, depth, object, s, seen)) \<Rightarrow> 2 * length s + 1
    | Inr (Inr (limits, depth, array, s, seen)) \<Rightarrow> 2 * length s + 1)", goal_cases)
  case 1
  show ?case by simp
next
  case (2 limits depth input seen s s')
  then show ?case
    using skip_whitespace_tl_length [of input] skip_whitespace_length [of "tl s"] by simp
next
  case (3 limits depth input seen s s')
  then show ?case
    using skip_whitespace_tl_length [of input] skip_whitespace_length [of "tl s"] by simp
next
  case (4 limits depth object input seen s a key s1 s2)
  then show ?case
    using skip_whitespace_length [of input] skip_whitespace_tl_length [of s1] parse_string_length [of "maximumStringBytes limits" s key s1]
    by simp
next
  case (5 limits depth object input seen s a key s1 s2 aa w y s3 seen' object' s4)
  have "length s3 < length (tl s2)"
    by (rule parse_value_dom_length [of limits depth "tl s2" seen w s3 seen']) (use 5 in simp_all)
  with 5 show ?case
    using skip_whitespace_length [of input] skip_whitespace_tl_length [of s1] skip_whitespace_tl_length [of s3]
      parse_string_length [of "maximumStringBytes limits" s key s1]
    by simp
next
  case (6 limits depth array input seen)
  show ?case by simp
next
  case (7 limits depth array input seen a w y s1 seen' s2)
  have "length s1 < length input"
    by (rule parse_value_dom_length [of limits depth input seen w s1 seen']) (use 7 in simp_all)
  with 7 show ?case
    using skip_whitespace_tl_length [of s1] by simp
qed

declare parse_value.simps [simp del] parse_members.simps [simp del] parse_elements.simps [simp del]

lemmas parse_induct = parse_value_parse_members_parse_elements.induct

section \<open>Entry points\<close>

definition parse_json :: "string \<Rightarrow> parse_limits \<Rightarrow> json result" where
  "parse_json input limits =
     (if maximumBytes limits < length input then Inl (json_too_large ''JSON exceeds byte limit'')
      else if input = [] then Inl (json_fail ''JSON is empty'')
      else if \<not> is_valid_utf8 input then Inl (simple_error EC_invalid_utf8 ''JSON is not valid UTF-8'')
      else and_then (parse_value limits 0 input 0) (\<lambda>(v, rest, seen).
        if skip_whitespace rest \<noteq> [] then Inl (json_fail ''JSON contains trailing data'')
        else Inr v))"

definition require_object_with_schema :: "string \<Rightarrow> string \<Rightarrow> parse_limits \<Rightarrow> json_object result" where
  "require_object_with_schema input schema limits =
     and_then (parse_json input limits) (\<lambda>parsed.
       case json_object parsed of
         None \<Rightarrow> Inl (simple_error EC_invalid_schema ''JSON root must be an object'')
       | Some object \<Rightarrow>
           (case json_find object ''schema'' of
              None \<Rightarrow> Inl (simple_error EC_invalid_schema ''JSON schema discriminator mismatch'')
            | Some schema_value \<Rightarrow>
                if json_string schema_value \<noteq> Some schema
                then Inl (simple_error EC_invalid_schema ''JSON schema discriminator mismatch'')
                else Inr object))"

end
