(* ===== verification/Wire_Text.thy ===== *)
theory Wire_Text
  imports Json
begin

text \<open>
  The text helpers of \<open>beast_transport.cpp\<close> that write request bodies: \<open>escapeJson\<close> and the
  wire names of enumerations. The main fact is that the JSON parser reads an escaped string
  back unchanged.
\<close>

section \<open>JSON strings\<close>

definition hex_alphabet :: string where
  "hex_alphabet = ''0123456789abcdef''"

definition escape_char :: "char \<Rightarrow> string" where
  "escape_char c =
     (if c = CHR 0x22 then [CHR 0x5C, CHR 0x22]
      else if c = CHR 0x5C then [CHR 0x5C, CHR 0x5C]
      else if c = CHR 0x08 then [CHR 0x5C, CHR ''b'']
      else if c = CHR 0x0C then [CHR 0x5C, CHR ''f'']
      else if c = CHR 0x0A then [CHR 0x5C, CHR ''n'']
      else if c = CHR 0x0D then [CHR 0x5C, CHR ''r'']
      else if c = CHR 0x09 then [CHR 0x5C, CHR ''t'']
      else if byte c < 0x20
      then [CHR 0x5C, CHR ''u'', CHR ''0'', CHR ''0'', hex_alphabet ! (byte c div 16), hex_alphabet ! (byte c mod 16)]
      else [c])"

definition escape_json :: "string \<Rightarrow> string" where
  "escape_json s = CHR 0x22 # concat (map escape_char s) @ [CHR 0x22]"

section \<open>Wire names\<close>

fun game_data_type_name :: "game_data_type \<Rightarrow> string" where
  "game_data_type_name GD_captured_dialogue = ''captured_dialogue''"
| "game_data_type_name GD_actor_profile = ''actor_profile''"
| "game_data_type_name GD_inventory = ''inventory''"
| "game_data_type_name GD_spell_cast = ''spell_cast''"
| "game_data_type_name GD_actor_resurrected = ''actor_resurrected''"
| "game_data_type_name GD_item_pickup = ''item_pickup''"
| "game_data_type_name GD_automatic_diary = ''automatic_diary''"
| "game_data_type_name GD_rpg_event = ''rpg_event''"
| "game_data_type_name GD_bored_event = ''bored_event''"
| "game_data_type_name GD_disposition = ''disposition''"
| "game_data_type_name GD_quest_event = ''quest_event''"

fun status_name :: "action_terminal_status \<Rightarrow> string" where
  "status_name ATS_succeeded = ''succeeded''"
| "status_name ATS_failed = ''failed''"
| "status_name ATS_rejected = ''rejected''"
| "status_name ATS_timed_out = ''timed_out''"
| "status_name ATS_cancelled = ''cancelled''"

fun delivery_status_name :: "dialogue_delivery_status \<Rightarrow> string" where
  "delivery_status_name DDS_played = ''played''"
| "delivery_status_name DDS_failed = ''failed''"
| "delivery_status_name DDS_expired = ''expired''"
| "delivery_status_name DDS_interrupted = ''interrupted''"

fun media_content_type :: "media_codec \<Rightarrow> string" where
  "media_content_type MC_wav = ''audio/wav''"
| "media_content_type MC_ogg = ''audio/ogg''"
| "media_content_type MC_mp3 = ''audio/mpeg''"

section \<open>Reading an escaped string back\<close>

lemma hex_alphabet_digit:
  assumes "k < 16"
  shows "hex_digit_value (hex_alphabet ! k) = Some k"
proof -
  have "\<forall>k \<in> set [0..<16]. hex_digit_value (hex_alphabet ! k) = Some k" by code_simp
  with assms show ?thesis by simp
qed

lemma hex_digit_value_0 [simp]: "hex_digit_value (CHR ''0'') = Some 0"
  by code_simp

lemma string_loop_simple:
  assumes "simple_escape e = Some c" "e \<noteq> CHR ''u''" "length out < limit"
  shows "string_loop limit (CHR 0x5C # e # s) out = string_loop limit s (out @ [c])"
proof -
  have "\<not> byte (CHR 0x5C) < 32" by code_simp
  with assms show ?thesis by simp
qed

lemma hex_code_unit_4:
  "\<lbrakk>hex_digit_value a = Some x; hex_digit_value b = Some y; hex_digit_value c = Some z;
    hex_digit_value d = Some w\<rbrakk> \<Longrightarrow>
   hex_code_unit 4 0 (a # b # c # d # s) = Inr (((x * 16 + y) * 16 + z) * 16 + w, s)"
proof -
  have four: "(4::nat) = Suc (Suc (Suc (Suc 0)))" by simp
  show "\<lbrakk>hex_digit_value a = Some x; hex_digit_value b = Some y; hex_digit_value c = Some z;
    hex_digit_value d = Some w\<rbrakk> \<Longrightarrow>
   hex_code_unit 4 0 (a # b # c # d # s) = Inr (((x * 16 + y) * 16 + z) * 16 + w, s)"
    unfolding four by simp
qed

lemma unicode_escape_control:
  assumes "b < 0x20"
  shows "parse_unicode_escape (CHR ''0'' # CHR ''0'' # hex_alphabet ! (b div 16) # hex_alphabet ! (b mod 16) # s)
    = Inr (b, s)"
proof -
  have "b div 16 < 16" "b mod 16 < 16" using assms by auto
  moreover have "b div 16 * 16 + b mod 16 = b" by simp
  ultimately show ?thesis
    using assms hex_code_unit_4 [OF hex_digit_value_0 hex_digit_value_0 hex_alphabet_digit hex_alphabet_digit,
      of "b div 16" "b mod 16" s]
    by (simp add: parse_unicode_escape_def parse_hex_code_unit_def)
qed

lemma string_loop_escape_char:
  assumes "length out < limit"
  shows "string_loop limit (escape_char c @ s) out = string_loop limit s (out @ [c])"
proof -
  have bs: "\<not> byte (CHR 0x5C) < 32" by code_simp
  have se: "simple_escape (CHR 0x22) = Some (CHR 0x22)" "simple_escape (CHR 0x5C) = Some (CHR 0x5C)"
    "simple_escape (CHR ''b'') = Some (CHR 0x08)" "simple_escape (CHR ''f'') = Some (CHR 0x0C)"
    "simple_escape (CHR ''n'') = Some (CHR 0x0A)" "simple_escape (CHR ''r'') = Some (CHR 0x0D)"
    "simple_escape (CHR ''t'') = Some (CHR 0x09)"
    by code_simp+
  consider "c \<in> {CHR 0x22, CHR 0x5C, CHR 0x08, CHR 0x0C, CHR 0x0A, CHR 0x0D, CHR 0x09}"
    | "c \<notin> {CHR 0x22, CHR 0x5C, CHR 0x08, CHR 0x0C, CHR 0x0A, CHR 0x0D, CHR 0x09}" "byte c < 0x20"
    | "c \<notin> {CHR 0x22, CHR 0x5C, CHR 0x08, CHR 0x0C, CHR 0x0A, CHR 0x0D, CHR 0x09}" "\<not> byte c < 0x20"
    by blast
  then show ?thesis
  proof cases
    case 1
    then show ?thesis
      using assms by (auto simp: escape_char_def se string_loop_simple simp del: string_loop.simps)
  next
    case 2
    have "append_utf8 out (byte c) = out @ [c]" using 2(2) by (simp add: append_utf8_def)
    with 2 assms bs show ?thesis
      by (simp add: escape_char_def unicode_escape_control)
  next
    case 3
    then show ?thesis by (simp add: escape_char_def)
  qed
qed

lemma string_loop_escaped:
  assumes "length out + length str \<le> limit" "is_valid_utf8 (out @ str)"
  shows "string_loop limit (concat (map escape_char str) @ CHR 0x22 # rest) out = Inr (out @ str, rest)"
  using assms
proof (induction str arbitrary: out)
  case Nil
  then show ?case by simp
next
  case (Cons c str)
  then show ?case
    using string_loop_escape_char [of out limit c "concat (map escape_char str) @ CHR 0x22 # rest"]
    by simp
qed

text \<open>C15. JSON strings round-trip between the two halves of the bridge: for every valid UTF-8
  string within the parser's string limit, \<open>parseString\<close> applied to what \<open>escapeJson\<close> writes,
  followed by any text, returns exactly that string and leaves exactly that text.\<close>

theorem parse_string_escape_json:
  assumes "is_valid_utf8 str" and "length str \<le> limit"
  shows "parse_string limit (escape_json str @ rest) = Inr (str, rest)"
  using string_loop_escaped [of "[]" str limit rest] assms
  by (simp add: parse_string_def escape_json_def)

text \<open>The witness escapes a quote, a newline and the control byte 1.\<close>

theorem parse_string_escape_json_witness:
  "parse_string 64 (escape_json [CHR ''a'', CHR 0x22, CHR 0x0A, CHR 0x01] @ '',x'')
     = Inr ([CHR ''a'', CHR 0x22, CHR 0x0A, CHR 0x01], '',x'')"
proof -
  have "is_valid_utf8 [CHR ''a'', CHR 0x22, CHR 0x0A, CHR 0x01]" by code_simp
  then show ?thesis by (rule parse_string_escape_json) simp
qed

end
