(* ===== verification/Bounded_Queue.thy ===== *)
theory Bounded_Queue
  imports Core_Types "HOL-Library.Multiset"
begin

text \<open>
  \<open>queues.hpp\<close>: the bounded queue with a control reserve between the engine thread and the
  worker. Every operation holds \<open>m_mutex\<close> throughout, so it is one atomic step. The locale
  \<open>bounded_channel\<close> is what the bridge relies on; it is interpreted on this queue.
\<close>

section \<open>The queue\<close>

record 'a bounded_queue =
  q_capacity :: nat
  q_reserved_control :: nat
  q_items :: "'a list"
  q_closed :: bool

text \<open>The constructor; \<^const>\<open>None\<close> is \<open>std::invalid_argument\<close>.\<close>

definition queue_new :: "nat \<Rightarrow> nat \<Rightarrow> 'a bounded_queue option" where
  "queue_new capacity reserved =
     (if capacity = 0 \<or> capacity \<le> reserved then None
      else Some \<lparr>q_capacity = capacity, q_reserved_control = reserved, q_items = [], q_closed = False\<rparr>)"

definition try_push :: "'a \<Rightarrow> bool \<Rightarrow> 'a bounded_queue \<Rightarrow> 'a bounded_queue \<times> unit result" where
  "try_push item control q =
     (if q_closed q then (q, Inl (simple_error EC_stopped ''queue is closed''))
      else
        let normal_limit = q_capacity q - q_reserved_control q in
        if q_capacity q \<le> length (q_items q) \<or> (\<not> control \<and> normal_limit \<le> length (q_items q))
        then (q, Inl (make_error EC_queue_full ''queue is full'' True None None))
        else if control then (q\<lparr>q_items := item # q_items q\<rparr>, Inr ())
        else (q\<lparr>q_items := q_items q @ [item]\<rparr>, Inr ()))"

definition try_pop :: "'a bounded_queue \<Rightarrow> 'a bounded_queue \<times> 'a option" where
  "try_pop q =
     (case q_items q of [] \<Rightarrow> (q, None) | x # xs \<Rightarrow> (q\<lparr>q_items := xs\<rparr>, Some x))"

text \<open>\<open>waitPop\<close> sleeps on \<open>m_ready\<close> until the queue is closed or has an item
  (\<open>wait_pop_ready\<close>) and then takes the front item, if there is one.\<close>

definition wait_pop_ready :: "'a bounded_queue \<Rightarrow> bool" where
  "wait_pop_ready q \<longleftrightarrow> q_closed q \<or> q_items q \<noteq> []"

definition wait_pop :: "'a bounded_queue \<Rightarrow> ('a bounded_queue \<times> 'a option) option" where
  "wait_pop q = (if wait_pop_ready q then Some (try_pop q) else None)"

fun drain_items :: "nat \<Rightarrow> 'a list \<Rightarrow> 'a list \<Rightarrow> 'a list \<times> 'a list" where
  "drain_items maximum [] output_items = ([], output_items)"
| "drain_items maximum (x # items) output_items =
     (if length output_items < maximum then drain_items maximum items (output_items @ [x])
      else (x # items, output_items))"

definition drain :: "nat \<Rightarrow> 'a bounded_queue \<Rightarrow> 'a bounded_queue \<times> 'a list" where
  "drain maximum q =
     (let (items, output_items) = drain_items maximum (q_items q) []
      in (q\<lparr>q_items := items\<rparr>, output_items))"

definition close_queue :: "'a bounded_queue \<Rightarrow> 'a bounded_queue" where
  "close_queue q = q\<lparr>q_closed := True\<rparr>"

definition clear_queue :: "'a bounded_queue \<Rightarrow> 'a bounded_queue" where
  "clear_queue q = q\<lparr>q_items := []\<rparr>"

definition erase_if :: "('a \<Rightarrow> bool) \<Rightarrow> 'a bounded_queue \<Rightarrow> 'a bounded_queue \<times> nat" where
  "erase_if predicate q =
     (let kept = filter (\<lambda>x. \<not> predicate x) (q_items q)
      in (q\<lparr>q_items := kept\<rparr>, length (q_items q) - length kept))"

definition queue_size :: "'a bounded_queue \<Rightarrow> nat" where
  "queue_size q = length (q_items q)"

lemma drain_items_eq:
  "drain_items n items out = (drop (n - length out) items, out @ take (n - length out) items)"
proof (induction n items out rule: drain_items.induct)
  case (2 n x items out)
  show ?case
  proof (cases "length out < n")
    case True
    then have "n - length out = Suc (n - Suc (length out))" by simp
    with 2 True show ?thesis by (simp del: take_Suc_Cons drop_Suc_Cons) (simp only: take_Suc_Cons drop_Suc_Cons append_assoc append.simps)
  next
    case False
    then show ?thesis by simp
  qed
qed simp

lemma drain_eq: "drain n q = (q\<lparr>q_items := drop n (q_items q)\<rparr>, take n (q_items q))"
  by (simp add: drain_def drain_items_eq)

section \<open>The contract\<close>

text \<open>
  A bounded channel: what a push, a pop and a drain do to its contents. \<open>room\<close> is the number
  of items a push with the given flag needs to find at most.
\<close>

locale bounded_channel =
  fixes push :: "'a \<Rightarrow> bool \<Rightarrow> 'q \<Rightarrow> 'q \<times> unit result"
    and pop :: "'q \<Rightarrow> 'q \<times> 'a option"
    and contents :: "'q \<Rightarrow> 'a list"
    and limit :: "'q \<Rightarrow> bool \<Rightarrow> nat"
    and open_for_push :: "'q \<Rightarrow> bool"
  assumes push_accepts:
      "open_for_push q \<Longrightarrow> length (contents q) < limit q control \<Longrightarrow>
       snd (push x control q) = Inr () \<and>
       contents (fst (push x control q)) = (if control then x # contents q else contents q @ [x])"
    and push_rejects:
      "\<not> (open_for_push q \<and> length (contents q) < limit q control) \<Longrightarrow>
       \<not> is_ok (snd (push x control q)) \<and> fst (push x control q) = q"
    and pop_empty: "contents q = [] \<Longrightarrow> pop q = (q, None)"
    and pop_front: "contents q = y # ys \<Longrightarrow> snd (pop q) = Some y \<and> contents (fst (pop q)) = ys"
    and push_limit: "limit (fst (push x control q)) = limit q"
    and pop_limit: "limit (fst (pop q)) = limit q"
    and limit_mono: "limit q False \<le> limit q True"
begin

lemma push_contents:
  "contents (fst (push x control q)) =
     (if is_ok (snd (push x control q)) then if control then x # contents q else contents q @ [x]
      else contents q)"
  using push_accepts [of q control x] push_rejects [of q control x]
  by (cases "open_for_push q \<and> length (contents q) < limit q control") (simp_all split del: if_split)

lemma push_ok_iff:
  "is_ok (snd (push x control q)) \<longleftrightarrow> open_for_push q \<and> length (contents q) < limit q control"
  using push_accepts [of q control x] push_rejects [of q control x] by (auto simp: is_ok_iff)

lemma push_bounded:
  "length (contents q) \<le> limit q True \<Longrightarrow>
   length (contents (fst (push x control q))) \<le> limit (fst (push x control q)) True"
  using limit_mono [of q] push_ok_iff [of x control q]
  by (cases control) (auto simp: push_contents push_limit)

lemma pop_bounded:
  "length (contents q) \<le> limit q True \<Longrightarrow> length (contents (fst (pop q))) \<le> limit (fst (pop q)) True"
  by (cases "contents q") (auto simp: pop_empty pop_limit dest: pop_front)

lemma pop_contents: "contents q = (case snd (pop q) of None \<Rightarrow> [] | Some y \<Rightarrow> [y]) @ contents (fst (pop q))"
  by (cases "contents q") (auto simp: pop_empty dest: pop_front)

end

definition queue_limit :: "'a bounded_queue \<Rightarrow> bool \<Rightarrow> nat" where
  "queue_limit q control = (if control then q_capacity q else q_capacity q - q_reserved_control q)"

interpretation bq: bounded_channel try_push try_pop q_items queue_limit "\<lambda>q. \<not> q_closed q"
  by unfold_locales
    (auto simp: try_push_def try_pop_def queue_limit_def Let_def fun_eq_iff split: list.splits if_splits)

section \<open>Runs of queue operations\<close>

datatype 'a queue_op = OpPush 'a bool | OpPop | OpDrain nat | OpEraseIf "'a \<Rightarrow> bool" | OpClear | OpClose

text \<open>What a run accepted, delivered and discarded, each in order.\<close>

record 'a queue_log =
  log_accepted :: "'a list"
  log_delivered :: "'a list"
  log_discarded :: "'a list"

definition empty_log :: "'a queue_log" where
  "empty_log = \<lparr>log_accepted = [], log_delivered = [], log_discarded = []\<rparr>"

fun queue_step :: "'a queue_op \<Rightarrow> 'a bounded_queue \<times> 'a queue_log \<Rightarrow> 'a bounded_queue \<times> 'a queue_log" where
  "queue_step (OpPush x control) (q, l) =
     (let (q', r) = try_push x control q
      in (q', if is_ok r then l\<lparr>log_accepted := log_accepted l @ [x]\<rparr> else l))"
| "queue_step OpPop (q, l) =
     (let (q', r) = try_pop q
      in (q', case r of None \<Rightarrow> l | Some x \<Rightarrow> l\<lparr>log_delivered := log_delivered l @ [x]\<rparr>))"
| "queue_step (OpDrain n) (q, l) =
     (let (q', xs) = drain n q in (q', l\<lparr>log_delivered := log_delivered l @ xs\<rparr>))"
| "queue_step (OpEraseIf p) (q, l) =
     (fst (erase_if p q), l\<lparr>log_discarded := log_discarded l @ filter p (q_items q)\<rparr>)"
| "queue_step OpClear (q, l) = (clear_queue q, l\<lparr>log_discarded := log_discarded l @ q_items q\<rparr>)"
| "queue_step OpClose (q, l) = (close_queue q, l)"

definition queue_run :: "'a queue_op list \<Rightarrow> 'a bounded_queue \<Rightarrow> 'a bounded_queue \<times> 'a queue_log" where
  "queue_run ops q = fold queue_step ops (q, empty_log)"

definition queue_conserves :: "'a bounded_queue \<times> 'a queue_log \<Rightarrow> bool" where
  "queue_conserves = (\<lambda>(q, l).
     mset (log_accepted l) = mset (log_delivered l) + mset (log_discarded l) + mset (q_items q)
     \<and> length (q_items q) \<le> q_capacity q)"

lemma try_push_capacity [simp]:
  "q_capacity (fst (try_push x c q)) = q_capacity q"
  "q_reserved_control (fst (try_push x c q)) = q_reserved_control q"
  by (auto simp: try_push_def Let_def)

lemma queue_step_conserves: "queue_conserves ql \<Longrightarrow> queue_conserves (queue_step op ql)"
proof (cases ql)
  case (Pair q l)
  assume "queue_conserves ql"
  then have c: "mset (log_accepted l) = mset (log_delivered l) + mset (log_discarded l) + mset (q_items q)"
    and b: "length (q_items q) \<le> q_capacity q"
    by (simp_all add: Pair queue_conserves_def)
  show ?thesis
  proof (cases op)
    case (OpPush x control)
    obtain q' r where t: "try_push x control q = (q', r)" by (cases "try_push x control q")
    have "length (q_items q') \<le> q_capacity q'"
      using b bq.push_bounded [of q x control] by (simp add: t queue_limit_def)
    moreover have "q_items q' = (if is_ok r then if control then x # q_items q else q_items q @ [x] else q_items q)"
      using bq.push_contents [of x control q] by (simp add: t)
    moreover have "queue_step op ql = (q', if is_ok r then l\<lparr>log_accepted := log_accepted l @ [x]\<rparr> else l)"
      by (simp add: OpPush Pair t)
    ultimately show ?thesis
      using c by (cases "is_ok r"; cases control) (simp_all add: queue_conserves_def)
  next
    case OpPop
    then show ?thesis
      using c b by (auto simp: Pair queue_conserves_def try_pop_def split: list.splits)
  next
    case (OpDrain n)
    have "mset (q_items q) = mset (take n (q_items q)) + mset (drop n (q_items q))"
      by (metis append_take_drop_id mset_append)
    with OpDrain c b show ?thesis by (simp add: Pair queue_conserves_def drain_eq)
  next
    case (OpEraseIf p)
    have e: "filter_mset p (mset (q_items q)) + filter_mset (\<lambda>x. \<not> p x) (mset (q_items q)) = mset (q_items q)"
      by (rule multiset_partition [symmetric])
    have "length (filter (\<lambda>x. \<not> p x) (q_items q)) \<le> q_capacity q"
      using b length_filter_le le_trans by blast
    with OpEraseIf c e show ?thesis
      by (simp add: Pair queue_conserves_def erase_if_def Let_def add.assoc)
  next
    case OpClear
    with c show ?thesis by (simp add: Pair queue_conserves_def clear_queue_def)
  next
    case OpClose
    with c b show ?thesis by (simp add: Pair queue_conserves_def close_queue_def)
  qed
qed

text \<open>C22. The bounded queue neither loses nor duplicates work: after any sequence of pushes,
  pops, drains, conditional erasures, clears and closes on a new queue, the accepted items
  are exactly (as a multiset) those delivered, those deliberately discarded and those still
  queued, and the queue never holds more than its capacity.\<close>

theorem bounded_queue_conservation:
  assumes "queue_new capacity reserved = Some q"
  shows "case queue_run ops q of (q', l) \<Rightarrow>
     mset (log_accepted l) = mset (log_delivered l) + mset (log_discarded l) + mset (q_items q')
     \<and> length (q_items q') \<le> q_capacity q'"
proof -
  have "queue_conserves (q, empty_log)"
    using assms by (auto simp: queue_new_def queue_conserves_def empty_log_def split: if_splits)
  then have "queue_conserves (fold queue_step ops (q, empty_log))"
    by (induction ops arbitrary: q rule: rev_induct) (auto intro: queue_step_conserves)
  then show ?thesis by (simp add: queue_run_def queue_conserves_def split_def)
qed

text \<open>Without control pushes and erasures the queue is first-in first-out.\<close>

fun plain_op :: "'a queue_op \<Rightarrow> bool" where
  "plain_op (OpPush x control) = (\<not> control)"
| "plain_op OpPop = True"
| "plain_op (OpDrain n) = True"
| "plain_op OpClose = True"
| "plain_op _ = False"

lemma queue_step_fifo:
  assumes "plain_op op" "log_accepted l = log_delivered l @ q_items q"
  shows "case queue_step op (q, l) of (q', l') \<Rightarrow> log_accepted l' = log_delivered l' @ q_items q'"
proof (cases op)
  case (OpPush x control)
  then show ?thesis
    using assms bq.push_contents [of x False q] by (simp add: split_def Let_def)
qed (use assms in \<open>auto simp: try_pop_def drain_eq close_queue_def split: list.splits\<close>)

text \<open>Normal traffic is first-in first-out: in any run of normal pushes, pops, drains and
  closes on a new queue, the items delivered so far followed by the items still queued are
  exactly the accepted items in the order they were accepted.\<close>

theorem bounded_queue_fifo:
  assumes "queue_new capacity reserved = Some q" and "list_all plain_op ops"
  shows "case queue_run ops q of (q', l) \<Rightarrow> log_accepted l = log_delivered l @ q_items q'"
proof -
  have "case fold queue_step ops (q, empty_log) of (q', l) \<Rightarrow> log_accepted l = log_delivered l @ q_items q'"
    using assms(2)
  proof (induction ops rule: rev_induct)
    case Nil
    show ?case using assms(1) by (auto simp: queue_new_def empty_log_def split: if_splits)
  next
    case (snoc op ops)
    then show ?case
      using queue_step_fifo [of op "snd (fold queue_step ops (q, empty_log))" "fst (fold queue_step ops (q, empty_log))"]
      by (simp add: split_def)
  qed
  then show ?thesis by (simp add: queue_run_def)
qed

section \<open>The control reserve\<close>

text \<open>Items in the queue by kind of push are not tracked by the code; what the reserve gives
  is that normal pushes alone never fill the last \<open>reserved\<close> slots.\<close>

lemma push_normal_leaves_reserve:
  assumes "length (q_items q) + q_reserved_control q \<le> q_capacity q"
  shows "length (q_items (fst (try_push x False q))) + q_reserved_control q \<le> q_capacity q"
  using assms by (auto simp: try_push_def Let_def)

text \<open>C23. The control reserve works: a run of normal pushes, pops, drains and closes on a new
  queue always leaves at least the reserved number of slots free, so on a queue that is still
  open the next control push is accepted and goes to the front.\<close>

theorem control_push_always_fits:
  assumes "queue_new capacity reserved = Some q" and "list_all plain_op ops" and "0 < reserved"
    and "fst (queue_run ops q) = q'" and "\<not> q_closed q'"
  shows "snd (try_push x True q') = Inr () \<and> q_items (fst (try_push x True q')) = x # q_items q'"
proof -
  have inv: "length (q_items (fst (fold queue_step ops (q, empty_log)))) + reserved \<le> capacity
      \<and> q_capacity (fst (fold queue_step ops (q, empty_log))) = capacity
      \<and> q_reserved_control (fst (fold queue_step ops (q, empty_log))) = reserved"
    using assms(2)
  proof (induction ops rule: rev_induct)
    case Nil
    show ?case using assms(1) by (auto simp: queue_new_def split: if_splits)
  next
    case (snoc op ops)
    let ?s = "fold queue_step ops (q, empty_log)"
    obtain p l where s: "?s = (p, l)" by (cases ?s)
    show ?case
    proof (cases op)
      case (OpPush x control)
      with snoc s show ?thesis
        using push_normal_leaves_reserve [of p x] by (auto simp: split_def Let_def)
    qed (use snoc s in \<open>auto simp: try_pop_def drain_eq close_queue_def split: list.splits\<close>)
  qed
  with assms(3,4) have "length (q_items q') < queue_limit q' True"
    by (simp add: queue_run_def queue_limit_def)
  with assms(5) show ?thesis using bq.push_accepts [of q' True x] by simp
qed

text \<open>Witnesses: a queue of capacity 3 with one control slot.\<close>

definition sample_ops :: "nat queue_op list" where
  "sample_ops = [OpPush 1 False, OpPush 2 False, OpPush 3 False, OpPop]"

definition sample_queue :: "nat bounded_queue" where
  "sample_queue = \<lparr>q_capacity = 3, q_reserved_control = 1, q_items = [], q_closed = False\<rparr>"

lemma sample_queue_new: "queue_new 3 1 = Some sample_queue"
  by (simp add: queue_new_def sample_queue_def)

lemma sample_queue_run:
  "queue_run sample_ops sample_queue =
     (sample_queue\<lparr>q_items := [2]\<rparr>,
      \<lparr>log_accepted = [1, 2], log_delivered = [1], log_discarded = []\<rparr>)"
  by (simp add: queue_run_def sample_ops_def sample_queue_def try_push_def try_pop_def empty_log_def)

theorem bounded_queue_conservation_witness:
  "mset [1, 2 :: nat] = mset [1] + mset [] + mset [2] \<and> length [2 :: nat] \<le> 3"
  using bounded_queue_conservation [OF sample_queue_new, of sample_ops]
  by (simp add: sample_queue_run sample_queue_def)

theorem bounded_queue_fifo_witness:
  "queue_run sample_ops sample_queue =
     (sample_queue\<lparr>q_items := [2]\<rparr>, \<lparr>log_accepted = [1, 2], log_delivered = [1], log_discarded = []\<rparr>)
   \<and> [1, 2 :: nat] = [1] @ [2]"
  using bounded_queue_fifo [OF sample_queue_new, of sample_ops] sample_queue_run
  by (simp add: sample_ops_def sample_queue_def)

theorem control_push_always_fits_witness:
  "snd (try_push 9 True (sample_queue\<lparr>q_items := [2]\<rparr>)) = Inr ()
   \<and> q_items (fst (try_push 9 True (sample_queue\<lparr>q_items := [2]\<rparr>))) = 9 # [2]"
proof -
  have plain: "list_all plain_op sample_ops" by (simp add: sample_ops_def)
  have run: "fst (queue_run sample_ops sample_queue) = sample_queue\<lparr>q_items := [2]\<rparr>"
    by (simp add: sample_queue_run)
  have still_open: "\<not> q_closed (sample_queue\<lparr>q_items := [2]\<rparr>)" by (simp add: sample_queue_def)
  show ?thesis
    using control_push_always_fits [OF sample_queue_new plain _ run still_open, of 9] by simp
qed

end
