(* ===== verification/Lifecycle.thy ===== *)
theory Lifecycle
  imports Core_Types
begin

text \<open>
  \<open>lifecycle.hpp\<close> and \<open>lifecycle.cpp\<close>: the runtime generation counter and the registry of
  cancellable requests. A \<open>std::stop_source\<close> and the tokens taken from it share one stop
  state which outlives the registry entry, so the stop states are a list of flags of their
  own and a source or token is an index into it. Every operation holds \<open>m_mutex\<close>
  throughout and is one atomic step. The locale \<open>generation_registry\<close> is the contract of
  "cancel everything of one generation" that this registry and the action registry share.
\<close>

section \<open>Generations\<close>

record generation_state =
  gs_generation :: u64

definition generation_current :: "generation_state \<Rightarrow> generation" where
  "generation_current s = Generation (gs_generation s)"

definition is_current :: "generation \<Rightarrow> generation_state \<Rightarrow> bool" where
  "is_current g s \<longleftrightarrow> generation_current s = g"

text \<open>\<open>fetch_add(1) + 1\<close>, which wraps.\<close>

definition invalidate :: "generation_state \<Rightarrow> generation_state \<times> generation" where
  "invalidate s = (s\<lparr>gs_generation := gs_generation s + 1\<rparr>, Generation (gs_generation s + 1))"

lemma invalidate_not_current: "is_current g s \<Longrightarrow> \<not> is_current g (fst (invalidate s))"
  by (auto simp: is_current_def generation_current_def invalidate_def)

section \<open>The contract of generation-wide cancellation\<close>

locale generation_registry =
  fixes cancel_gen :: "generation \<Rightarrow> 's \<Rightarrow> 's \<times> nat"
    and entry_generation :: "'s \<Rightarrow> 'k \<Rightarrow> generation option"
    and live :: "'s \<Rightarrow> 'k \<Rightarrow> bool"
    and inv :: "'s \<Rightarrow> bool"
  assumes cancel_gen_inv: "inv s \<Longrightarrow> inv (fst (cancel_gen g s))"
    and cancel_gen_generation:
      "inv s \<Longrightarrow> entry_generation (fst (cancel_gen g s)) k = entry_generation s k"
    and cancel_gen_live:
      "inv s \<Longrightarrow> live (fst (cancel_gen g s)) k \<longleftrightarrow> live s k \<and> entry_generation s k \<noteq> Some g"
    and cancel_gen_count:
      "inv s \<Longrightarrow> snd (cancel_gen g s) = card {k. live s k \<and> entry_generation s k = Some g}"
    and live_finite: "inv s \<Longrightarrow> finite {k. live s k}"
begin

lemma cancel_gen_twice:
  assumes "inv s"
  shows "snd (cancel_gen g (fst (cancel_gen g s))) = 0"
proof -
  have "{k. live (fst (cancel_gen g s)) k \<and> entry_generation (fst (cancel_gen g s)) k = Some g} = {}"
    using assms by (auto simp: cancel_gen_live cancel_gen_generation)
  then show ?thesis
    using cancel_gen_count [OF cancel_gen_inv [OF assms]] by (metis card.empty)
qed

lemma cancel_gen_others:
  assumes "inv s" "entry_generation s k \<noteq> Some g"
  shows "live (fst (cancel_gen g s)) k \<longleftrightarrow> live s k"
  using assms by (simp add: cancel_gen_live)

lemma cancel_gen_conserves:
  assumes "inv s"
  shows "card {k. live s k} = card {k. live (fst (cancel_gen g s)) k} + snd (cancel_gen g s)"
proof -
  have "{k. live s k} = {k. live (fst (cancel_gen g s)) k} \<union> {k. live s k \<and> entry_generation s k = Some g}"
    using assms by (auto simp: cancel_gen_live)
  moreover have "finite {k. live (fst (cancel_gen g s)) k}"
    using assms by (simp add: live_finite cancel_gen_inv)
  moreover have "finite {k. live s k \<and> entry_generation s k = Some g}"
    by (rule finite_subset [OF _ live_finite [OF assms]]) auto
  moreover have "{k. live (fst (cancel_gen g s)) k} \<inter> {k. live s k \<and> entry_generation s k = Some g} = {}"
    using assms by (auto simp: cancel_gen_live)
  ultimately show ?thesis
    using assms by (simp add: cancel_gen_count card_Un_disjoint)
qed

end

section \<open>The cancellation registry\<close>

record cancellation_entry =
  ce_generation :: generation
  ce_source :: nat

record cancellation_registry =
  reg_entries :: "(RequestId \<times> cancellation_entry) list"
  reg_stops :: "bool list"

definition empty_registry :: cancellation_registry where
  "empty_registry = \<lparr>reg_entries = [], reg_stops = []\<rparr>"

text \<open>\<open>stop_source::request_stop()\<close>: true only for the call that makes the request.\<close>

definition request_stop :: "nat \<Rightarrow> bool list \<Rightarrow> bool list \<times> bool" where
  "request_stop i stops = (stops[i := True], \<not> stops ! i)"

definition stop_requested :: "cancellation_registry \<Rightarrow> nat \<Rightarrow> bool" where
  "stop_requested r i \<longleftrightarrow> i < length (reg_stops r) \<and> reg_stops r ! i"

definition register_request ::
  "RequestId \<Rightarrow> generation \<Rightarrow> cancellation_registry \<Rightarrow> cancellation_registry \<times> nat result" where
  "register_request request g r =
     (if id_empty request then (r, Inl (simple_error EC_invalid_argument ''request ID is empty''))
      else
        let source = length (reg_stops r);
            (entries, inserted) =
              emplace request \<lparr>ce_generation = g, ce_source = source\<rparr> (reg_entries r)
        in if \<not> inserted
           then (r, Inl (simple_error EC_duplicate_conflict ''request ID already registered''))
           else (r\<lparr>reg_entries := entries, reg_stops := reg_stops r @ [False]\<rparr>, Inr source))"

definition cancel_request :: "RequestId \<Rightarrow> cancellation_registry \<Rightarrow> cancellation_registry \<times> bool" where
  "cancel_request request r =
     (case map_of (reg_entries r) request of
        None \<Rightarrow> (r, False)
      | Some e \<Rightarrow>
          let (stops, requested) = request_stop (ce_source e) (reg_stops r)
          in (r\<lparr>reg_stops := stops\<rparr>, requested))"

definition registry_token :: "RequestId \<Rightarrow> cancellation_registry \<Rightarrow> nat option" where
  "registry_token request r = map_option ce_source (map_of (reg_entries r) request)"

text \<open>The loop of \<open>cancelGeneration\<close> and \<open>cancelAll\<close>.\<close>

fun stop_entries ::
  "(cancellation_entry \<Rightarrow> bool) \<Rightarrow> (RequestId \<times> cancellation_entry) list \<Rightarrow> bool list \<times> nat \<Rightarrow> bool list \<times> nat"
where
  "stop_entries p [] sc = sc"
| "stop_entries p ((request, e) # entries) (stops, cancelled) =
     stop_entries p entries
       (if p e
        then let (stops', requested) = request_stop (ce_source e) stops
             in (stops', if requested then Suc cancelled else cancelled)
        else (stops, cancelled))"

definition cancel_generation :: "generation \<Rightarrow> cancellation_registry \<Rightarrow> cancellation_registry \<times> nat" where
  "cancel_generation g r =
     (let (stops, cancelled) = stop_entries (\<lambda>e. ce_generation e = g) (reg_entries r) (reg_stops r, 0)
      in (r\<lparr>reg_stops := stops\<rparr>, cancelled))"

definition cancel_all :: "cancellation_registry \<Rightarrow> cancellation_registry \<times> nat" where
  "cancel_all r =
     (let (stops, cancelled) = stop_entries (\<lambda>e. True) (reg_entries r) (reg_stops r, 0)
      in (r\<lparr>reg_stops := stops\<rparr>, cancelled))"

definition complete_request :: "RequestId \<Rightarrow> cancellation_registry \<Rightarrow> cancellation_registry" where
  "complete_request request r = r\<lparr>reg_entries := erase_key request (reg_entries r)\<rparr>"

definition registry_size :: "cancellation_registry \<Rightarrow> nat" where
  "registry_size r = length (reg_entries r)"

section \<open>Its invariant\<close>

text \<open>Requests are registered once, every source has a stop state, and no two entries share one.\<close>

definition registry_ok :: "cancellation_registry \<Rightarrow> bool" where
  "registry_ok r \<longleftrightarrow>
     keys_distinct (reg_entries r)
     \<and> distinct (map (ce_source \<circ> snd) (reg_entries r))
     \<and> (\<forall>p \<in> set (reg_entries r). ce_source (snd p) < length (reg_stops r))"

lemma registry_ok_empty [simp]: "registry_ok empty_registry"
  by (simp add: registry_ok_def empty_registry_def)

lemma registry_ok_stops:
  "registry_ok r \<Longrightarrow> length stops = length (reg_stops r) \<Longrightarrow> registry_ok (r\<lparr>reg_stops := stops\<rparr>)"
  by (simp add: registry_ok_def)

lemma length_request_stop [simp]: "length (fst (request_stop i stops)) = length stops"
  by (simp add: request_stop_def)

lemma length_stop_entries [simp]:
  "length (fst (stop_entries p entries sc)) = length (fst sc)"
  by (induction p entries sc rule: stop_entries.induct)
    (auto simp: request_stop_def split: prod.splits)

lemma registry_ok_register: "registry_ok r \<Longrightarrow> registry_ok (fst (register_request request g r))"
proof -
  assume ok: "registry_ok r"
  then have "length (reg_stops r) \<notin> (ce_source \<circ> snd) ` set (reg_entries r)"
    by (force simp: registry_ok_def)
  with ok show ?thesis
    by (force simp: registry_ok_def register_request_def emplace_def map_of_eq_None_iff Let_def
        intro: less_SucI split: option.splits)
qed

lemma registry_ok_cancel: "registry_ok r \<Longrightarrow> registry_ok (fst (cancel_request request r))"
  by (auto simp: cancel_request_def request_stop_def split: option.splits intro: registry_ok_stops)

lemma registry_ok_cancel_generation: "registry_ok r \<Longrightarrow> registry_ok (fst (cancel_generation g r))"
  by (simp add: cancel_generation_def split_def Let_def registry_ok_stops)

lemma registry_ok_cancel_all: "registry_ok r \<Longrightarrow> registry_ok (fst (cancel_all r))"
  by (simp add: cancel_all_def split_def Let_def registry_ok_stops)

lemma registry_ok_complete: "registry_ok r \<Longrightarrow> registry_ok (complete_request request r)"
  by (auto simp: registry_ok_def complete_request_def erase_key_def distinct_map_filter)

lemmas registry_ok_steps =
  registry_ok_register registry_ok_cancel registry_ok_cancel_generation registry_ok_cancel_all
  registry_ok_complete

section \<open>Stopping a set of entries\<close>

lemma nth_set_flag: "j < length s \<Longrightarrow> s[i := True] ! j \<longleftrightarrow> i = j \<or> s ! j"
  by (cases "i = j") auto

lemma stop_entries_eq:
  assumes "distinct (map (ce_source \<circ> snd) entries)"
    and "\<forall>p \<in> set entries. ce_source (snd p) < length stops"
  shows "stop_entries p entries (stops, n) =
    (map (\<lambda>i. stops ! i \<or> (\<exists>(k, e) \<in> set entries. p e \<and> ce_source e = i)) [0..<length stops],
     n + length (filter (\<lambda>(k, e). p e \<and> \<not> stops ! ce_source e) entries))"
  using assms
proof (induction entries arbitrary: stops n)
  case Nil
  then show ?case by (simp add: map_nth)
next
  case (Cons x entries)
  obtain k e where x: "x = (k, e)" by (cases x)
  show ?case
  proof (cases "p e")
    case False
    with Cons show ?thesis by (simp add: x)
  next
    case True
    let ?stops = "stops[ce_source e := True]"
    have other: "ce_source e' \<noteq> ce_source e" if "(k', e') \<in> set entries" for k' e'
      using Cons.prems(1) that by (force simp: x)
    have count: "filter (\<lambda>(k, e). p e \<and> \<not> ?stops ! ce_source e) entries
        = filter (\<lambda>(k, e). p e \<and> \<not> stops ! ce_source e) entries"
      by (rule filter_cong) (auto dest: other)
    have flags: "map (\<lambda>i. ?stops ! i \<or> (\<exists>(k, e) \<in> set entries. p e \<and> ce_source e = i)) [0..<length ?stops]
        = map (\<lambda>i. stops ! i \<or> (\<exists>(k, e) \<in> set (x # entries). p e \<and> ce_source e = i)) [0..<length stops]"
      by (rule nth_equalityI) (use True in \<open>auto simp: x nth_set_flag\<close>)
    have "stop_entries p entries (?stops, m) =
        (map (\<lambda>i. stops ! i \<or> (\<exists>(k, e) \<in> set (x # entries). p e \<and> ce_source e = i)) [0..<length stops],
         m + length (filter (\<lambda>(k, e). p e \<and> \<not> stops ! ce_source e) entries))" for m
      using Cons.IH [of ?stops m] Cons.prems unfolding count flags by simp
    with True show ?thesis by (simp add: x request_stop_def)
  qed
qed

text \<open>The stop states that have been requested.\<close>

definition stop_count :: "bool list \<Rightarrow> nat" where
  "stop_count stops = length (filter (\<lambda>b. b) stops)"

lemma stop_count_append [simp]: "stop_count (s @ t) = stop_count s + stop_count t"
  by (simp add: stop_count_def)

lemma stop_count_request:
  "i < length s \<Longrightarrow> stop_count (s[i := True]) = stop_count s + (if s ! i then 0 else 1)"
proof (induction s arbitrary: i)
  case (Cons b s)
  then show ?case by (cases i) (auto simp: stop_count_def)
qed simp

lemma stop_entries_reports:
  assumes "\<forall>p \<in> set entries. ce_source (snd p) < length stops"
  shows "stop_count (fst (stop_entries p entries (stops, n))) + n =
    stop_count stops + snd (stop_entries p entries (stops, n))"
  using assms
proof (induction entries arbitrary: stops n)
  case Nil
  then show ?case by simp
next
  case (Cons x entries)
  obtain k e where x: "x = (k, e)" by (cases x)
  show ?case
  proof (cases "p e")
    case False
    with Cons show ?thesis by (simp add: x)
  next
    case True
    let ?n = "if stops ! ce_source e then n else Suc n"
    have "stop_count (stops[ce_source e := True]) + n = stop_count stops + ?n"
      using Cons.prems by (simp add: x stop_count_request)
    with True Cons.IH [of "stops[ce_source e := True]" ?n] Cons.prems show ?thesis
      by (simp add: x request_stop_def split: if_splits)
  qed
qed

section \<open>The contract holds\<close>

definition registry_generation :: "cancellation_registry \<Rightarrow> RequestId \<Rightarrow> generation option" where
  "registry_generation r k = map_option ce_generation (map_of (reg_entries r) k)"

definition registry_live :: "cancellation_registry \<Rightarrow> RequestId \<Rightarrow> bool" where
  "registry_live r k \<longleftrightarrow> (\<exists>e. map_of (reg_entries r) k = Some e \<and> \<not> reg_stops r ! ce_source e)"

lemma cancel_generation_eq:
  assumes "registry_ok r"
  shows "cancel_generation g r =
    (r\<lparr>reg_stops := map (\<lambda>i. reg_stops r ! i \<or>
          (\<exists>(k, e) \<in> set (reg_entries r). ce_generation e = g \<and> ce_source e = i)) [0..<length (reg_stops r)]\<rparr>,
     length (filter (\<lambda>p. ce_generation (snd p) = g \<and> \<not> reg_stops r ! ce_source (snd p)) (reg_entries r)))"
  using assms by (simp add: cancel_generation_def registry_ok_def stop_entries_eq split_def)

lemma registry_ok_same_source:
  assumes "registry_ok r" "map_of (reg_entries r) k = Some e" "(k', e') \<in> set (reg_entries r)"
    "ce_source e' = ce_source e"
  shows "e' = e"
proof -
  have "inj_on (ce_source \<circ> snd) (set (reg_entries r))"
    using assms(1) by (simp add: registry_ok_def distinct_map)
  moreover have "(k, e) \<in> set (reg_entries r)" using assms(2) by (rule map_of_SomeD)
  ultimately show ?thesis using assms(3,4) by (metis comp_apply inj_onD prod.inject snd_conv)
qed

lemma registry_ok_source:
  "registry_ok r \<Longrightarrow> map_of (reg_entries r) k = Some e \<Longrightarrow> ce_source e < length (reg_stops r)"
  by (auto simp: registry_ok_def dest: map_of_SomeD)

lemma cancel_generation_live:
  assumes "registry_ok r"
  shows "registry_live (fst (cancel_generation g r)) k \<longleftrightarrow>
    registry_live r k \<and> registry_generation r k \<noteq> Some g"
  using assms registry_ok_source [OF assms, of k] registry_ok_same_source [OF assms, of k]
  by (cases "map_of (reg_entries r) k")
    (auto simp: cancel_generation_eq registry_live_def registry_generation_def dest: map_of_SomeD)

interpretation requests: generation_registry
  cancel_generation registry_generation registry_live registry_ok
proof
  fix r :: cancellation_registry and g k
  assume ok: "registry_ok r"
  show "registry_ok (fst (cancel_generation g r))"
    by (rule registry_ok_cancel_generation [OF ok])
  show "registry_generation (fst (cancel_generation g r)) k = registry_generation r k"
    by (simp add: cancel_generation_eq [OF ok] registry_generation_def)
  show "registry_live (fst (cancel_generation g r)) k \<longleftrightarrow>
      registry_live r k \<and> registry_generation r k \<noteq> Some g"
    by (rule cancel_generation_live [OF ok])
  have "{k. registry_live r k \<and> registry_generation r k = Some g}
      = {k. \<exists>e. map_of (reg_entries r) k = Some e \<and> ce_generation e = g \<and> \<not> reg_stops r ! ce_source e}"
    by (auto simp: registry_live_def registry_generation_def)
  with ok show "snd (cancel_generation g r) = card {k. registry_live r k \<and> registry_generation r k = Some g}"
    using length_filter_card [of "reg_entries r" "\<lambda>e. ce_generation e = g \<and> \<not> reg_stops r ! ce_source e"]
    by (simp add: cancel_generation_eq registry_ok_def)
  show "finite {k. registry_live r k}"
    unfolding registry_live_def by (rule finite_map_of)
qed

section \<open>Runs of the registry\<close>

datatype registry_op =
    RegRegister RequestId generation
  | RegCancel RequestId
  | RegCancelGeneration generation
  | RegCancelAll
  | RegComplete RequestId

text \<open>A step and the number of cancellations it reports to its caller.\<close>

fun registry_step :: "registry_op \<Rightarrow> cancellation_registry \<Rightarrow> cancellation_registry \<times> nat" where
  "registry_step (RegRegister request g) r = (fst (register_request request g r), 0)"
| "registry_step (RegCancel request) r =
     (let (r', requested) = cancel_request request r in (r', if requested then 1 else 0))"
| "registry_step (RegCancelGeneration g) r = cancel_generation g r"
| "registry_step RegCancelAll r = cancel_all r"
| "registry_step (RegComplete request) r = (complete_request request r, 0)"

fun registry_run :: "registry_op list \<Rightarrow> cancellation_registry \<Rightarrow> cancellation_registry \<times> nat" where
  "registry_run [] r = (r, 0)"
| "registry_run (op # ops) r =
     (let (r', n) = registry_step op r; (r'', m) = registry_run ops r' in (r'', n + m))"

lemma registry_ok_step: "registry_ok r \<Longrightarrow> registry_ok (fst (registry_step op r))"
  by (cases op) (simp_all add: registry_ok_steps split_def Let_def)

lemma registry_step_reports:
  assumes "registry_ok r"
  shows "stop_count (reg_stops (fst (registry_step op r)))
    = stop_count (reg_stops r) + snd (registry_step op r)"
proof (cases op)
  case (RegRegister request g)
  then show ?thesis
    by (simp add: register_request_def Let_def split_def stop_count_def)
next
  case (RegCancel request)
  with assms show ?thesis
    by (auto simp: cancel_request_def request_stop_def stop_count_request
        dest: registry_ok_source split: option.splits)
next
  case (RegCancelGeneration g)
  with assms show ?thesis
    using stop_entries_reports [of "reg_entries r" "reg_stops r" "\<lambda>e. ce_generation e = g" 0]
    by (simp add: cancel_generation_def split_def Let_def registry_ok_def)
next
  case RegCancelAll
  with assms show ?thesis
    using stop_entries_reports [of "reg_entries r" "reg_stops r" "\<lambda>e. True" 0]
    by (simp add: cancel_all_def split_def Let_def registry_ok_def)
next
  case (RegComplete request)
  then show ?thesis by (simp add: complete_request_def)
qed

lemma registry_step_keeps_stops:
  assumes "stop_requested r i"
  shows "stop_requested (fst (registry_step op r)) i"
proof -
  have entries: "fst (stop_entries p es (s, n)) ! i" if "i < length s" "s ! i" for p es s n
    using that
  proof (induction es arbitrary: s n)
    case (Cons x es)
    then show ?case by (cases x) (auto simp: request_stop_def nth_set_flag)
  qed simp
  show ?thesis
    using assms
    by (cases op)
      (auto simp: stop_requested_def register_request_def cancel_request_def request_stop_def
        cancel_generation_def cancel_all_def complete_request_def Let_def split_def nth_append
        nth_set_flag entries split: option.splits)
qed

lemma registry_run_reports:
  "registry_ok r \<Longrightarrow> stop_count (reg_stops (fst (registry_run ops r)))
    = stop_count (reg_stops r) + snd (registry_run ops r)"
  by (induction ops arbitrary: r)
    (simp_all add: split_def Let_def registry_step_reports registry_ok_step)

lemma registry_run_keeps_stops:
  "stop_requested r i \<Longrightarrow> stop_requested (fst (registry_run ops r)) i"
  by (induction ops arbitrary: r) (simp_all add: split_def Let_def registry_step_keeps_stops)

text \<open>Cancellation is reported exactly once: after any sequence of registrations, single
  cancellations, generation-wide and global cancellations and completions from the empty
  registry, the sum of the cancellations the calls reported equals the number of stop states
  that are requested, completed requests included, and running further operations never takes
  a stop request back.\<close>

theorem registry_reports_each_stop_once:
  "stop_count (reg_stops (fst (registry_run ops empty_registry))) = snd (registry_run ops empty_registry)
   \<and> (\<forall>i. stop_requested (fst (registry_run ops empty_registry)) i \<longrightarrow>
        stop_requested (fst (registry_run later (fst (registry_run ops empty_registry)))) i)"
proof -
  have "stop_count (reg_stops empty_registry) = 0" by (simp add: empty_registry_def stop_count_def)
  then show ?thesis
    using registry_run_reports [OF registry_ok_empty, of ops] registry_run_keeps_stops by auto
qed

theorem registry_reports_each_stop_once_witness:
  "stop_requested (fst (registry_run [RegRegister (StrongId ''a'') (Generation 1), RegCancel (StrongId ''a'')]
     empty_registry)) 0
   \<and> stop_requested (fst (registry_run [RegComplete (StrongId ''a'')]
       (fst (registry_run [RegRegister (StrongId ''a'') (Generation 1), RegCancel (StrongId ''a'')]
         empty_registry)))) 0"
proof -
  have "stop_requested (fst (registry_run [RegRegister (StrongId ''a'') (Generation 1), RegCancel (StrongId ''a'')]
     empty_registry)) 0" by code_simp
  then show ?thesis
    using registry_reports_each_stop_once [of "[RegRegister (StrongId ''a'') (Generation 1), RegCancel (StrongId ''a'')]"
        "[RegComplete (StrongId ''a'')]"] by blast
qed

text \<open>Invalidating a generation: on any registry reached from the empty one, a
  generation-wide cancellation reports exactly the number of live requests of that
  generation, leaves none of them live, does not touch requests of other generations, and a
  second one reports nothing.\<close>

theorem cancel_generation_exact:
  fixes ops defines "r \<equiv> fst (registry_run ops empty_registry)"
  shows "snd (cancel_generation g r) = card {k. registry_live r k \<and> registry_generation r k = Some g}
    \<and> (\<forall>k. registry_live (fst (cancel_generation g r)) k
          = (registry_live r k \<and> registry_generation r k \<noteq> Some g))
    \<and> snd (cancel_generation g (fst (cancel_generation g r))) = 0"
proof -
  have "registry_ok (fst (registry_run ops s))" if "registry_ok s" for s
    using that by (induction ops arbitrary: s) (simp_all add: split_def Let_def registry_ok_step)
  then have ok: "registry_ok r" unfolding r_def by simp
  show ?thesis
    using requests.cancel_gen_count [OF ok] requests.cancel_gen_live [OF ok] requests.cancel_gen_twice [OF ok]
    by simp
qed

end
