(* ===== verification/Actions.thy ===== *)
theory Actions
  imports Lifecycle Validation
begin

text \<open>
  \<open>actions.hpp\<close> and \<open>actions.cpp\<close>: the validator of \<open>ai.follow\<close>, the commit gate of a queued
  engine mutation and the registry of action results. The registry provides the
  \<open>generation_registry\<close> contract of \<open>Lifecycle\<close>.
\<close>

record action_terminal_result =
  atr_action :: ActionId
  atr_status :: action_terminal_status
  atr_reason_code :: string

record follow_parameters =
  fp_distance :: u32

definition validate_ai_follow :: "u32 \<Rightarrow> follow_parameters result" where
  "validate_ai_follow distance =
     (if distance \<noteq> 192
      then Inl (simple_error EC_invalid_action ''ai.follow distance must equal 192'')
      else Inr \<lparr>fp_distance = distance\<rparr>)"

section \<open>The commit gate\<close>

datatype gate_state = Gate_fresh | Gate_pending | Gate_executing | Gate_terminal

definition gate_queue :: "gate_state \<Rightarrow> gate_state \<times> bool" where
  "gate_queue s = (if s \<noteq> Gate_fresh then (s, False) else (Gate_pending, True))"

definition gate_begin :: "gate_state \<Rightarrow> gate_state \<times> bool" where
  "gate_begin s = (if s \<noteq> Gate_pending then (s, False) else (Gate_executing, True))"

definition gate_cancel :: "gate_state \<Rightarrow> gate_state \<times> bool" where
  "gate_cancel s =
     (if s \<noteq> Gate_fresh \<and> s \<noteq> Gate_pending then (s, False) else (Gate_terminal, True))"

definition gate_finish :: "gate_state \<Rightarrow> gate_state" where
  "gate_finish s = (if s = Gate_executing then Gate_terminal else s)"

datatype gate_op = GateQueue | GateBegin | GateCancel | GateFinish

fun gate_step :: "gate_op \<Rightarrow> gate_state \<Rightarrow> gate_state \<times> bool" where
  "gate_step GateQueue s = gate_queue s"
| "gate_step GateBegin s = gate_begin s"
| "gate_step GateCancel s = gate_cancel s"
| "gate_step GateFinish s = (gate_finish s, True)"

text \<open>The trace of a run: each call with its answer.\<close>

fun gate_trace :: "gate_op list \<Rightarrow> gate_state \<Rightarrow> (gate_op \<times> bool) list" where
  "gate_trace [] s = []"
| "gate_trace (op # ops) s = (op, snd (gate_step op s)) # gate_trace ops (fst (gate_step op s))"

lemmas gate_defs = gate_queue_def gate_begin_def gate_cancel_def gate_finish_def

text \<open>Commits a trace can still contain from a state: at most one, and none once executing.\<close>

definition gate_commits :: "(gate_op \<times> bool) list \<Rightarrow> nat" where
  "gate_commits t = count_list t (GateBegin, True) + count_list t (GateCancel, True)"

lemma gate_commits_bound:
  "gate_commits (gate_trace ops s) \<le> (if s = Gate_fresh \<or> s = Gate_pending then 1 else 0)"
proof (induction ops arbitrary: s)
  case Nil
  then show ?case by (simp add: gate_commits_def)
next
  case (Cons op ops)
  show ?case
    using Cons.IH [of "fst (gate_step op s)"]
    by (cases op; cases s) (simp_all add: gate_defs gate_commits_def)
qed

lemma gate_queue_bound:
  "count_list (gate_trace ops s) (GateQueue, True) \<le> (if s = Gate_fresh then 1 else 0)"
proof (induction ops arbitrary: s)
  case (Cons op ops)
  show ?case
    using Cons.IH [of "fst (gate_step op s)"]
    by (cases op; cases s) (simp_all add: gate_defs)
qed simp

lemma gate_begin_needs_queue:
  "(GateBegin, True) \<in> set (gate_trace ops s) \<Longrightarrow>
   s = Gate_pending \<or> (GateQueue, True) \<in> set (gate_trace ops s)"
proof (induction ops arbitrary: s)
  case (Cons op ops)
  show ?case
    using Cons.IH [of "fst (gate_step op s)"] Cons.prems
    by (cases op; cases s) (auto simp: gate_defs)
qed simp

text \<open>A queued engine mutation commits at most once: in any sequence of calls on a fresh
  gate, at most one call to \<open>begin\<close> or \<open>cancel\<close> succeeds in total (so a mutation that began is
  never reported cancelled, nor one that was cancelled ever begun), \<open>queue\<close> succeeds at most
  once, and no \<open>begin\<close> succeeds unless a \<open>queue\<close> did.\<close>

theorem commit_gate_at_most_once:
  "count_list (gate_trace ops Gate_fresh) (GateBegin, True)
     + count_list (gate_trace ops Gate_fresh) (GateCancel, True) \<le> 1
   \<and> count_list (gate_trace ops Gate_fresh) (GateQueue, True) \<le> 1
   \<and> ((GateBegin, True) \<notin> set (gate_trace ops Gate_fresh)
      \<or> (GateQueue, True) \<in> set (gate_trace ops Gate_fresh))"
  using gate_commits_bound [of ops Gate_fresh] gate_queue_bound [of ops Gate_fresh]
    gate_begin_needs_queue [of ops Gate_fresh]
  by (auto simp: gate_commits_def)

theorem commit_gate_at_most_once_witness:
  "count_list (gate_trace [GateQueue, GateBegin, GateCancel, GateBegin] Gate_fresh) (GateBegin, True) = 1
   \<and> count_list (gate_trace [GateQueue, GateBegin, GateCancel, GateBegin] Gate_fresh) (GateCancel, True) = 0"
  using commit_gate_at_most_once [of "[GateQueue, GateBegin, GateCancel, GateBegin]"]
  by (simp add: gate_defs)

section \<open>The registry of action results\<close>

record action_entry =
  ae_generation :: generation
  ae_terminal :: bool
  ae_status :: action_terminal_status

type_synonym action_registry = "(ActionId \<times> action_entry) list"

definition register_action :: "ActionId \<Rightarrow> generation \<Rightarrow> action_registry \<Rightarrow> action_registry \<times> unit result" where
  "register_action action g r =
     (if \<not> is_canonical_uuid (id_value action)
      then (r, Inl (simple_error EC_invalid_action ''action ID must be a canonical lowercase UUID''))
      else
        let (r', inserted) =
              emplace action \<lparr>ae_generation = g, ae_terminal = False, ae_status = ATS_failed\<rparr> r
        in if \<not> inserted then (r, Inl (simple_error EC_duplicate_conflict ''action ID already exists''))
           else (r', Inr ()))"

definition finish_action :: "action_terminal_result \<Rightarrow> action_registry \<Rightarrow> action_registry \<times> unit result" where
  "finish_action t r =
     (if \<not> is_canonical_uuid (id_value (atr_action t))
      then (r, Inl (simple_error EC_invalid_action ''action ID must be a canonical lowercase UUID''))
      else
        case map_of r (atr_action t) of
          None \<Rightarrow> (r, Inl (simple_error EC_invalid_action ''unknown action ID''))
        | Some e \<Rightarrow>
            if ae_terminal e
            then (r, Inl (simple_error EC_duplicate_conflict ''terminal action result already recorded''))
            else (update_key (atr_action t) (\<lambda>e. e\<lparr>ae_terminal := True, ae_status := atr_status t\<rparr>) r, Inr ()))"

fun cancel_actions :: "generation \<Rightarrow> action_registry \<Rightarrow> action_registry \<times> nat" where
  "cancel_actions g [] = ([], 0)"
| "cancel_actions g ((action, e) # r) =
     (let (r', count) = cancel_actions g r
      in if ae_generation e = g \<and> \<not> ae_terminal e
         then ((action, e\<lparr>ae_terminal := True, ae_status := ATS_cancelled\<rparr>) # r', Suc count)
         else ((action, e) # r', count))"

definition action_terminal :: "ActionId \<Rightarrow> action_registry \<Rightarrow> bool" where
  "action_terminal action r \<longleftrightarrow>
     (case map_of r action of None \<Rightarrow> False | Some e \<Rightarrow> ae_terminal e)"

definition clear_actions :: "action_registry \<Rightarrow> action_registry" where
  "clear_actions r = []"

definition cancelled_entry :: "generation \<Rightarrow> action_entry \<Rightarrow> action_entry" where
  "cancelled_entry g e =
     (if ae_generation e = g \<and> \<not> ae_terminal e
      then e\<lparr>ae_terminal := True, ae_status := ATS_cancelled\<rparr> else e)"

lemma cancel_actions_eq:
  "cancel_actions g r =
     (map_values (\<lambda>_. cancelled_entry g) r,
      length (filter (\<lambda>p. ae_generation (snd p) = g \<and> \<not> ae_terminal (snd p)) r))"
  by (induction g r rule: cancel_actions.induct) (simp_all add: map_values_def cancelled_entry_def)

definition action_generation :: "action_registry \<Rightarrow> ActionId \<Rightarrow> generation option" where
  "action_generation r k = map_option ae_generation (map_of r k)"

definition action_live :: "action_registry \<Rightarrow> ActionId \<Rightarrow> bool" where
  "action_live r k \<longleftrightarrow> (\<exists>e. map_of r k = Some e \<and> \<not> ae_terminal e)"

interpretation actions: generation_registry
  cancel_actions action_generation action_live "\<lambda>r. keys_distinct r"
proof
  fix r :: action_registry and g k
  assume ok: "keys_distinct r"
  show "keys_distinct (fst (cancel_actions g r))"
    using ok by (simp add: cancel_actions_eq)
  show "action_generation (fst (cancel_actions g r)) k = action_generation r k"
    by (cases "map_of r k") (simp_all add: cancel_actions_eq action_generation_def cancelled_entry_def)
  show "action_live (fst (cancel_actions g r)) k \<longleftrightarrow> action_live r k \<and> action_generation r k \<noteq> Some g"
    by (cases "map_of r k") (auto simp: cancel_actions_eq action_generation_def action_live_def cancelled_entry_def)
  have "{k. action_live r k \<and> action_generation r k = Some g}
      = {k. \<exists>e. map_of r k = Some e \<and> ae_generation e = g \<and> \<not> ae_terminal e}"
    by (auto simp: action_live_def action_generation_def)
  with ok show "snd (cancel_actions g r) = card {k. action_live r k \<and> action_generation r k = Some g}"
    using length_filter_card [of r "\<lambda>e. ae_generation e = g \<and> \<not> ae_terminal e"]
    by (simp add: cancel_actions_eq)
  show "finite {k. action_live r k}"
    unfolding action_live_def by (rule finite_map_of)
qed

section \<open>Terminal results are final\<close>

datatype action_op =
    ActRegister ActionId generation
  | ActFinish action_terminal_result
  | ActCancelGeneration generation

fun action_step :: "action_op \<Rightarrow> action_registry \<Rightarrow> action_registry" where
  "action_step (ActRegister a g) r = fst (register_action a g r)"
| "action_step (ActFinish t) r = fst (finish_action t r)"
| "action_step (ActCancelGeneration g) r = fst (cancel_actions g r)"

definition terminal_with :: "ActionId \<Rightarrow> action_terminal_status \<Rightarrow> action_registry \<Rightarrow> bool" where
  "terminal_with a status r \<longleftrightarrow>
     (\<exists>e. map_of r a = Some e \<and> ae_terminal e \<and> ae_status e = status)"

lemma terminal_with_step: "terminal_with a status r \<Longrightarrow> terminal_with a status (action_step op r)"
proof (cases op)
  case (ActRegister b g)
  assume "terminal_with a status r"
  with ActRegister show ?thesis
    using map_of_emplace [of b _ r a]
    by (auto simp: terminal_with_def register_action_def split_def Let_def)
next
  case (ActFinish t)
  assume "terminal_with a status r"
  with ActFinish show ?thesis
    by (auto simp: terminal_with_def finish_action_def map_of_update_key split: option.splits)
next
  case (ActCancelGeneration g)
  assume "terminal_with a status r"
  with ActCancelGeneration show ?thesis
    by (auto simp: terminal_with_def cancel_actions_eq cancelled_entry_def)
qed

lemma finish_action_terminal_with:
  "snd (finish_action t r) = Inr () \<Longrightarrow> terminal_with (atr_action t) (atr_status t) (fst (finish_action t r))"
  by (auto simp: finish_action_def terminal_with_def map_of_update_key split: option.splits if_splits)

text \<open>The first terminal result of an action is final: once \<open>finish\<close> has recorded it, no
  sequence of registrations, further results or generation cancellations changes the recorded
  status, \<open>terminal\<close> keeps answering yes, and every later \<open>finish\<close> of that action is refused
  as a duplicate without changing the registry.\<close>

theorem terminal_result_is_final:
  assumes "snd (finish_action t r) = Inr ()"
    and "r' = fold action_step ops (fst (finish_action t r))"
    and "atr_action t' = atr_action t"
  shows "map_option ae_status (map_of r' (atr_action t)) = Some (atr_status t)
    \<and> action_terminal (atr_action t) r'
    \<and> fails_with EC_duplicate_conflict (snd (finish_action t' r')) \<and> fst (finish_action t' r') = r'"
proof -
  have uuid: "is_canonical_uuid (id_value (atr_action t))"
    using assms(1) by (auto simp: finish_action_def split: if_splits)
  have "terminal_with (atr_action t) (atr_status t) (fold action_step ops s)"
    if "terminal_with (atr_action t) (atr_status t) s" for s
    using that by (induction ops arbitrary: s) (simp_all add: terminal_with_step)
  then have "terminal_with (atr_action t) (atr_status t) r'"
    using assms(1,2) finish_action_terminal_with by simp
  then show ?thesis
    using uuid assms(3) by (auto simp: terminal_with_def action_terminal_def finish_action_def)
qed

definition sample_action :: ActionId where
  "sample_action = StrongId ''11111111-1111-4111-8111-111111111111''"

definition sample_result :: "action_terminal_status \<Rightarrow> action_terminal_result" where
  "sample_result s = \<lparr>atr_action = sample_action, atr_status = s, atr_reason_code = ''x''\<rparr>"

theorem terminal_result_is_final_witness:
  "let r = fst (register_action sample_action (Generation 1) []);
       r' = fold action_step [ActCancelGeneration (Generation 1)] (fst (finish_action (sample_result ATS_succeeded) r))
   in map_option ae_status (map_of r' sample_action) = Some ATS_succeeded
      \<and> fails_with EC_duplicate_conflict (snd (finish_action (sample_result ATS_failed) r'))"
proof -
  have "snd (finish_action (sample_result ATS_succeeded)
      (fst (register_action sample_action (Generation 1) []))) = Inr ()"
    by code_simp
  from terminal_result_is_final [OF this refl, of "sample_result ATS_failed" "[ActCancelGeneration (Generation 1)]"]
  show ?thesis by (simp add: sample_result_def Let_def)
qed

end
