(* ===== verification/Events.thy ===== *)
theory Events
  imports Validation
begin

text \<open>
  \<open>events.hpp\<close> and \<open>events.cpp\<close>: the tracker that orders server events per session. The map
  of sessions is an association list; \<open>m_sessions[event.session]\<close> inserts a default state
  when the session is new, also for events that are then refused.
\<close>

record event_identity =
  ev_session :: SessionId
  ev_sequence :: u64
  ev_message :: MessageId

datatype event_disposition = EV_accepted | EV_duplicate | EV_gap | EV_invalid

record event_decision =
  ed_disposition :: event_disposition
  ed_expected :: u64

record session_state =
  ss_cursor :: u64
  ss_messages :: "MessageId set"

type_synonym event_tracker = "(SessionId \<times> session_state) list"

definition initial_session :: session_state where
  "initial_session = \<lparr>ss_cursor = 0, ss_messages = {}\<rparr>"

text \<open>The state \<open>m_sessions[session]\<close> refers to.\<close>

definition session_of :: "event_tracker \<Rightarrow> SessionId \<Rightarrow> session_state" where
  "session_of t s = (case map_of t s of None \<Rightarrow> initial_session | Some st \<Rightarrow> st)"

definition observe :: "event_identity \<Rightarrow> event_tracker \<Rightarrow> event_tracker \<times> event_decision" where
  "observe e t =
     (if \<not> is_canonical_uuid (id_value (ev_session e)) \<or> \<not> is_canonical_uuid (id_value (ev_message e))
         \<or> ev_sequence e = 0
      then (t, \<lparr>ed_disposition = EV_invalid, ed_expected = 0\<rparr>)
      else
        let t' = fst (emplace (ev_session e) initial_session t);
            state = session_of t' (ev_session e);
            expected = ss_cursor state + 1
        in if ev_sequence e \<le> ss_cursor state \<or> ev_message e \<in> ss_messages state
           then (t', \<lparr>ed_disposition = EV_duplicate, ed_expected = expected\<rparr>)
           else if ev_sequence e \<noteq> expected
           then (t', \<lparr>ed_disposition = EV_gap, ed_expected = expected\<rparr>)
           else
             (update_key (ev_session e)
                (\<lambda>st. \<lparr>ss_cursor = ev_sequence e, ss_messages = insert (ev_message e) (ss_messages st)\<rparr>) t',
              \<lparr>ed_disposition = EV_accepted, ed_expected = ev_sequence e + 1\<rparr>))"

definition session_cursor :: "SessionId \<Rightarrow> event_tracker \<Rightarrow> u64" where
  "session_cursor s t = (case map_of t s of None \<Rightarrow> 0 | Some st \<Rightarrow> ss_cursor st)"

definition reset_session :: "SessionId \<Rightarrow> event_tracker \<Rightarrow> event_tracker" where
  "reset_session s t = erase_key s t"

definition reset_all_sessions :: "event_tracker \<Rightarrow> event_tracker" where
  "reset_all_sessions t = []"

lemma session_cursor_eq: "session_cursor s t = ss_cursor (session_of t s)"
  by (simp add: session_cursor_def session_of_def initial_session_def split: option.splits)

lemma session_of_emplace [simp]: "session_of (fst (emplace s initial_session t)) s' = session_of t s'"
  by (auto simp: session_of_def map_of_emplace split: option.splits)

text \<open>What one observation decides, in terms of the session it names.\<close>

lemma observe_accepted_iff:
  "ed_disposition (snd (observe e t)) = EV_accepted \<longleftrightarrow>
     is_canonical_uuid (id_value (ev_session e)) \<and> is_canonical_uuid (id_value (ev_message e))
     \<and> ev_sequence e \<noteq> 0 \<and> ev_sequence e = ss_cursor (session_of t (ev_session e)) + 1
     \<and> ev_message e \<notin> ss_messages (session_of t (ev_session e))"
proof -
  have "\<not> c + 1 \<le> c" if "c + 1 \<noteq> 0" for c :: u64
    using that by unat_arith
  then show ?thesis by (auto simp: observe_def Let_def)
qed

lemma observe_session:
  "session_of (fst (observe e t)) s =
     (if ed_disposition (snd (observe e t)) = EV_accepted \<and> s = ev_session e
      then \<lparr>ss_cursor = ev_sequence e, ss_messages = insert (ev_message e) (ss_messages (session_of t s))\<rparr>
      else session_of t s)"
proof -
  have "map_of (fst (emplace (ev_session e) initial_session t)) (ev_session e) =
      Some (session_of t (ev_session e))"
    by (auto simp: map_of_emplace session_of_def split: option.splits)
  then show ?thesis
    by (simp add: observe_def Let_def) (auto simp: session_of_def map_of_update_key map_of_emplace)
qed

section \<open>Runs of the tracker\<close>

datatype event_op = Observe event_identity | Reset SessionId | ResetAll

text \<open>A step with the accepted events of every session since its last reset.\<close>

fun event_step :: "event_op \<Rightarrow> event_tracker \<times> event_identity list \<Rightarrow> event_tracker \<times> event_identity list" where
  "event_step (Observe e) (t, h) =
     (let (t', d) = observe e t in (t', if ed_disposition d = EV_accepted then h @ [e] else h))"
| "event_step (Reset s) (t, h) = (reset_session s t, filter (\<lambda>e. ev_session e \<noteq> s) h)"
| "event_step ResetAll (t, h) = (reset_all_sessions t, [])"

definition event_run :: "event_op list \<Rightarrow> event_tracker \<times> event_identity list" where
  "event_run ops = fold event_step ops ([], [])"

definition history_of :: "SessionId \<Rightarrow> event_identity list \<Rightarrow> event_identity list" where
  "history_of s h = filter (\<lambda>e. ev_session e = s) h"

definition tracks :: "SessionId \<Rightarrow> event_tracker \<times> event_identity list \<Rightarrow> bool" where
  "tracks s = (\<lambda>(t, h).
     map ev_sequence (history_of s h) = map word_of_nat [1..<Suc (unat (session_cursor s t))]
     \<and> distinct (map ev_message (history_of s h))
     \<and> ss_messages (session_of t s) = set (map ev_message (history_of s h)))"

lemma history_append: "history_of s (h @ [e]) = history_of s h @ (if ev_session e = s then [e] else [])"
  by (simp add: history_of_def)

lemma tracks_observe:
  assumes "tracks s (t, h)"
  shows "tracks s (event_step (Observe e) (t, h))"
proof (cases "ed_disposition (snd (observe e t)) = EV_accepted \<and> ev_session e = s")
  case True
  then have seq: "ev_sequence e = session_cursor s t + 1" "ev_sequence e \<noteq> 0"
    and fresh: "ev_message e \<notin> ss_messages (session_of t s)"
    by (auto simp: observe_accepted_iff session_cursor_eq)
  have "unat (session_cursor s t + 1) = Suc (unat (session_cursor s t))"
    using seq unatSuc [of "session_cursor s t"] by (simp add: add.commute)
  with seq(1) have "[1..<Suc (unat (ev_sequence e))] = [1..<Suc (unat (session_cursor s t))] @ [unat (ev_sequence e)]"
    by simp
  then have "map word_of_nat [1..<Suc (unat (ev_sequence e))]
      = map word_of_nat [1..<Suc (unat (session_cursor s t))] @ [ev_sequence e]"
    by (simp del: upt_Suc)
  with True assms fresh show ?thesis
    by (simp add: tracks_def split_def Let_def history_append observe_session session_cursor_eq del: upt_Suc)
next
  case False
  obtain t' d where o: "observe e t = (t', d)" by (cases "observe e t")
  have "session_of t' s = session_of t s"
    using False observe_session [of e t s] by (auto simp: o)
  moreover have "history_of s (if ed_disposition d = EV_accepted then h @ [e] else h) = history_of s h"
    using False by (auto simp: o history_append)
  ultimately show ?thesis
    using assms by (simp add: tracks_def o session_cursor_eq del: upt_Suc)
qed

lemma tracks_reset:
  assumes "tracks s (t, h)"
  shows "tracks s (event_step (Reset s') (t, h))"
proof -
  have "history_of s (filter (\<lambda>e. ev_session e \<noteq> s') h) = (if s = s' then [] else history_of s h)"
    by (auto simp: history_of_def intro: filter_cong)
  moreover have "session_of (reset_session s' t) s = (if s = s' then initial_session else session_of t s)"
    by (simp add: session_of_def reset_session_def map_of_erase_key)
  ultimately show ?thesis
    using assms by (simp add: tracks_def session_cursor_eq initial_session_def del: upt_Suc)
qed

lemma tracks_step: "tracks s th \<Longrightarrow> tracks s (event_step op th)"
  by (cases th; cases op)
    (simp_all only: tracks_observe tracks_reset,
     simp add: tracks_def history_of_def session_of_def session_cursor_def initial_session_def
       reset_all_sessions_def)

text \<open>C24. Events reach a session in order, without gaps or repeats: after any sequence of
  observations and resets, the events of a session accepted since its last reset carry exactly
  the sequence numbers 1, 2, ... up to its cursor, in that order, and pairwise distinct
  message identifiers.\<close>

theorem accepted_events_are_consecutive:
  "case event_run ops of (t, h) \<Rightarrow>
     map ev_sequence (history_of s h) = map word_of_nat [1..<Suc (unat (session_cursor s t))]
     \<and> distinct (map ev_message (history_of s h))"
proof -
  have "tracks s (fold event_step ops th)" if "tracks s th" for th
    using that by (induction ops arbitrary: th) (simp_all add: tracks_step)
  moreover have "tracks s ([], [])"
    by (simp add: tracks_def history_of_def session_of_def session_cursor_def initial_session_def)
  ultimately have "tracks s (event_run ops)" by (simp add: event_run_def)
  then show ?thesis by (simp add: tracks_def split_def)
qed

text \<open>A decision never blocks progress and never lies about the cursor: a well-formed event
  whose sequence number is the expected one and whose message is new is accepted and advances
  the cursor by exactly one; every other event leaves every session's cursor as it was.\<close>

theorem observe_decides:
  "(ed_disposition (snd (observe e t)) = EV_accepted) =
     (is_canonical_uuid (id_value (ev_session e)) \<and> is_canonical_uuid (id_value (ev_message e))
      \<and> ev_sequence e \<noteq> 0 \<and> ev_sequence e = session_cursor (ev_session e) t + 1
      \<and> ev_message e \<notin> ss_messages (session_of t (ev_session e)))
   \<and> session_cursor s (fst (observe e t)) =
       (if ed_disposition (snd (observe e t)) = EV_accepted \<and> s = ev_session e
        then session_cursor s t + 1 else session_cursor s t)"
  by (auto simp: observe_session session_cursor_eq observe_accepted_iff)

end
