(* ===== verification/Record_Provenance.thy ===== *)
theory Record_Provenance
  imports Prelude
begin

text \<open>
  \<open>record_provenance.hpp\<close>: which content files contributed to a game record, in load order,
  bounded to \<open>maxFiles\<close>. \<open>observe_file\<close> is the member function \<open>observe\<close>.
\<close>

record record_provenance =
  rp_files :: "string list"
  rp_winning_file :: string
  rp_complete :: bool

definition empty_provenance :: record_provenance where
  "empty_provenance = \<lparr>rp_files = [], rp_winning_file = [], rp_complete = True\<rparr>"

definition max_files :: nat where
  "max_files = 128"

definition bad_file_name :: "string \<Rightarrow> bool" where
  "bad_file_name file \<longleftrightarrow>
     file = [] \<or> 256 < length file
     \<or> list_ex (\<lambda>c. c = CHR ''/'' \<or> c = CHR 0x5C \<or> c = CHR '':'') file
     \<or> list_ex (\<lambda>c. byte c < 32 \<or> byte c = 127) file"

definition observe_file :: "string \<Rightarrow> record_provenance \<Rightarrow> record_provenance" where
  "observe_file file p =
     (if bad_file_name file then p\<lparr>rp_complete := False, rp_winning_file := []\<rparr>
      else
        let p = p\<lparr>rp_winning_file := file\<rparr>
        in if file \<in> set (rp_files p) then p
           else if length (rp_files p) < max_files then p\<lparr>rp_files := rp_files p @ [file]\<rparr>
           else p\<lparr>rp_complete := False\<rparr>)"

text \<open>The distinct elements in the order of their first occurrence.\<close>

definition first_occurrences :: "'a list \<Rightarrow> 'a list" where
  "first_occurrences xs = rev (remdups (rev xs))"

lemma set_first_occurrences [simp]: "set (first_occurrences xs) = set xs"
  by (simp add: first_occurrences_def)

lemma distinct_first_occurrences [simp]: "distinct (first_occurrences xs)"
  by (simp add: first_occurrences_def)

lemma first_occurrences_snoc:
  "first_occurrences (xs @ [x]) = (if x \<in> set xs then first_occurrences xs else first_occurrences xs @ [x])"
  by (simp add: first_occurrences_def)

lemma first_occurrences_Nil [simp]: "first_occurrences [] = []"
  by (simp add: first_occurrences_def)

text \<open>The provenance of a record is exact or marked incomplete: after any observations the
  recorded files are the first 128 distinct well-formed names in the order they were first
  seen; \<open>complete\<close> is true exactly when every observed name was well formed and at most 128 were
  distinct; the winning file is the last observed name when that one was well formed.\<close>

theorem provenance_exact_or_incomplete:
  "let p = fold observe_file files empty_provenance;
       seen = first_occurrences (filter (\<lambda>f. \<not> bad_file_name f) files)
   in rp_files p = take 128 seen
      \<and> rp_complete p = (list_all (\<lambda>f. \<not> bad_file_name f) files \<and> length seen \<le> 128)
      \<and> rp_winning_file p = (if files = [] \<or> bad_file_name (last files) then [] else last files)"
proof (induction files rule: rev_induct)
  case Nil
  then show ?case by (simp add: empty_provenance_def Let_def)
next
  case (snoc f files)
  let ?p = "fold observe_file files empty_provenance"
  let ?seen = "first_occurrences (filter (\<lambda>f. \<not> bad_file_name f) files)"
  have files: "rp_files ?p = take 128 ?seen"
    and complete: "rp_complete ?p = (list_all (\<lambda>f. \<not> bad_file_name f) files \<and> length ?seen \<le> 128)"
    using snoc.IH by (simp_all add: Let_def)
  show ?case
  proof (cases "bad_file_name f")
    case True
    with files show ?thesis by (simp add: observe_file_def [of f] Let_def)
  next
    case False
    show ?thesis
    proof (cases "length ?seen \<le> 128")
      case True
      with False files complete show ?thesis
        by (auto simp: observe_file_def [of f] Let_def first_occurrences_snoc max_files_def)
    next
      case long: False
      with False files complete show ?thesis
        by (auto simp: observe_file_def [of f] Let_def first_occurrences_snoc max_files_def)
    qed
  qed
qed

end
