(* ===== verification/Media.thy ===== *)
theory Media
  imports Validation
begin

text \<open>
  \<open>media.hpp\<close> and \<open>media.cpp\<close>: the policy check of a media descriptor, the download route and
  the cache path. A \<open>std::filesystem::path\<close> is its POSIX text and \<open>path_join\<close> is the
  library's \<open>operator/\<close> on it.
\<close>

record media_cache_policy =
  mcp_maximum_object_bytes :: nat
  mcp_quota_bytes :: nat
  mcp_reject_symlinks :: bool

definition default_cache_policy :: media_cache_policy where
  "default_cache_policy = \<lparr>mcp_maximum_object_bytes = kMaxMediaBytes,
     mcp_quota_bytes = 512 * 1024 * 1024, mcp_reject_symlinks = True\<rparr>"

definition validate_media_descriptor :: "media_descriptor \<Rightarrow> media_cache_policy \<Rightarrow> int \<Rightarrow> unit result" where
  "validate_media_descriptor d policy now =
     (if \<not> is_canonical_uuid (id_value (md_id d))
      then Inl (simple_error EC_media_rejected ''media ID must be a lowercase canonical UUID'')
      else if md_bytes d = 0 \<or> mcp_maximum_object_bytes policy < md_bytes d \<or> mcp_quota_bytes policy < md_bytes d
      then Inl (simple_error EC_media_rejected ''media size is outside policy'')
      else if md_expires_at d \<le> now
      then Inl (simple_error EC_media_rejected ''media descriptor is expired'')
      else Inr ())"

definition media_route :: "MediaId \<Rightarrow> string result" where
  "media_route media =
     (if \<not> is_canonical_uuid (id_value media)
      then Inl (simple_error EC_media_rejected ''media ID must be a lowercase canonical UUID'')
      else Inr (''/media/'' @ id_value media))"

text \<open>\<open>p / q\<close>: an absolute right operand replaces the left one; a separator is added when the
  left operand has a file name.\<close>

definition path_join :: "string \<Rightarrow> string \<Rightarrow> string" where
  "path_join p q =
     (if q \<noteq> [] \<and> hd q = CHR ''/'' then q
      else if p = [] \<or> last p = CHR ''/'' then p @ q
      else p @ CHR ''/'' # q)"

fun codec_extension :: "media_codec \<Rightarrow> string" where
  "codec_extension MC_wav = ''.wav''"
| "codec_extension MC_ogg = ''.ogg''"
| "codec_extension MC_mp3 = ''.mp3''"

definition resolve_cache_path :: "string \<Rightarrow> string \<Rightarrow> media_codec \<Rightarrow> string result" where
  "resolve_cache_path cache_root hash_hex codec =
     (if length hash_hex \<noteq> 64 \<or> \<not> list_all is_lower_hex hash_hex
      then Inl (simple_error EC_media_rejected ''SHA-256 must be lowercase hexadecimal'')
      else if cache_root = []
      then Inl (simple_error EC_media_rejected ''cache root is empty'')
      else Inr (path_join (path_join cache_root (substr 0 2 hash_hex)) (hash_hex @ codec_extension codec)))"

lemma same_length_appendD: "length a = length c \<Longrightarrow> a @ b = c @ d \<Longrightarrow> a = c \<and> b = d"
  by simp

lemma hex_not_slash: "is_lower_hex c \<Longrightarrow> c \<noteq> CHR ''/''"
  by (auto simp: is_lower_hex_def is_digit_def char_between_byte byte_def)

lemma list_all_hex_hd: "list_all is_lower_hex s \<Longrightarrow> s \<noteq> [] \<Longrightarrow> hd s \<noteq> CHR ''/''"
  by (cases s) (auto dest: hex_not_slash)

lemma list_all_hex_last: "list_all is_lower_hex s \<Longrightarrow> s \<noteq> [] \<Longrightarrow> last s \<noteq> CHR ''/''"
  by (metis hex_not_slash last_in_set list_all_iff)

text \<open>The cache root as the directory prefix of every path under it.\<close>

definition directory_prefix :: "string \<Rightarrow> string" where
  "directory_prefix base = (if last base = CHR ''/'' then base else base @ ''/'')"

lemma resolve_cache_path_shape:
  "resolve_cache_path base h codec = Inr p \<longleftrightarrow>
     length h = 64 \<and> list_all is_lower_hex h \<and> base \<noteq> []
     \<and> p = directory_prefix base @ take 2 h @ ''/'' @ h @ codec_extension codec"
proof -
  have "path_join (path_join base (substr 0 2 h)) (h @ codec_extension codec)
      = directory_prefix base @ take 2 h @ ''/'' @ h @ codec_extension codec"
    if h: "length h = 64" "list_all is_lower_hex h" and base: "base \<noteq> []"
  proof -
    have two: "take 2 h \<noteq> []" "list_all is_lower_hex (take 2 h)"
      using h by (auto simp: list_all_iff dest: in_set_takeD)
    have ends: "hd (take 2 h) \<noteq> CHR ''/''" "last (take 2 h) \<noteq> CHR ''/''" "hd (h @ x) \<noteq> CHR ''/''" for x
      using two h list_all_hex_hd [of h] list_all_hex_hd [of "take 2 h"] list_all_hex_last [of "take 2 h"]
      by (auto simp: hd_append)
    have inner: "path_join base (take 2 h) = directory_prefix base @ take 2 h"
      using base two ends by (simp add: path_join_def directory_prefix_def)
    show ?thesis
      using two ends by (simp add: substr_def inner) (simp add: path_join_def)
  qed
  then show ?thesis by (auto simp: resolve_cache_path_def)
qed

text \<open>Cached media cannot escape or collide: a resolved cache path lies below the cache root,
  the rest of it is two hexadecimal digits, one separator and a file name of 64 hexadecimal
  digits with the codec's extension, and two descriptors that resolve to the same path under
  one root have the same hash and the same codec.\<close>

theorem cache_path_confined_and_injective:
  assumes "resolve_cache_path base h codec = Inr p"
  shows "p = directory_prefix base @ take 2 h @ ''/'' @ h @ codec_extension codec
    \<and> length h = 64 \<and> list_all is_lower_hex h
    \<and> (resolve_cache_path base h' codec' = Inr p) = (h' = h \<and> codec' = codec)"
proof -
  have p: "p = directory_prefix base @ take 2 h @ ''/'' @ h @ codec_extension codec"
    and h: "length h = 64" "list_all is_lower_hex h"
    using assms by (simp_all add: resolve_cache_path_shape)
  have "h' = h \<and> codec' = codec" if "resolve_cache_path base h' codec' = Inr p"
  proof -
    have h': "length h' = 64"
      and "directory_prefix base @ take 2 h' @ ''/'' @ h' @ codec_extension codec' =
           directory_prefix base @ take 2 h @ ''/'' @ h @ codec_extension codec"
      using that p unfolding resolve_cache_path_shape by blast+
    then have eq: "take 2 h' @ ''/'' @ h' @ codec_extension codec' = take 2 h @ ''/'' @ h @ codec_extension codec"
      by (simp only: same_append_eq)
    have "length (take 2 h') = length (take 2 h)" using h(1) h' by simp
    from same_length_appendD [OF this eq]
    have rest: "h' @ codec_extension codec' = h @ codec_extension codec" by simp
    have "length h' = length h" using h(1) h' by simp
    from same_length_appendD [OF this rest] show ?thesis
      by (cases codec; cases codec') simp_all
  qed
  then have "resolve_cache_path base h' codec' = Inr p \<longleftrightarrow> h' = h \<and> codec' = codec"
    using assms by blast
  with p h show ?thesis by blast
qed

definition sample_hash :: string where
  "sample_hash = concat (replicate 32 ''a7'')"

theorem cache_path_confined_and_injective_witness:
  "(resolve_cache_path ''/cache'' sample_hash MC_mp3 =
      Inr (''/cache/a7/'' @ sample_hash @ ''.ogg'')) = False"
proof -
  have "resolve_cache_path ''/cache'' sample_hash MC_ogg = Inr (''/cache/a7/'' @ sample_hash @ ''.ogg'')"
    by code_simp
  from cache_path_confined_and_injective [OF this, of sample_hash MC_mp3] show ?thesis by simp
qed

end
