(* ===== verification/Playback.thy ===== *)
theory Playback
  imports Core_Types
begin

text \<open>
  \<open>playback.hpp\<close>: the validation of playback settings, the conversion of milliseconds to
  frames and the clip window that trims the start and the end of a voice stream. The
  attenuation formulas (\<open>playbackGain\<close>, \<open>lipAmplitude\<close>) are single-precision arithmetic and
  are not modelled. \<open>.1f\<close> is the float nearest to one tenth.
\<close>

record playback_settings =
  ps_voice_volume_percent :: cxx_double
  ps_head_voice_volume_percent :: cxx_double
  ps_audio_mode :: int
  ps_distance_scale :: cxx_double
  ps_dropoff_inside_percent :: cxx_double
  ps_dropoff_outside_percent :: cxx_double
  ps_legacy_distance_scale :: cxx_double
  ps_camera_based_audio :: bool
  ps_invert_heading :: bool
  ps_clip_start_ms :: int
  ps_clip_end_ms :: int
  ps_lip_intensity :: cxx_double
  ps_lip_resolution_ms :: int
  ps_pause_on_game_pause :: bool

definition float_tenth :: cxx_double where
  "float_tenth = Finite (13421773 / 134217728)"

definition in_range :: "cxx_double \<Rightarrow> cxx_double \<Rightarrow> cxx_double \<Rightarrow> bool" where
  "in_range v lo hi \<longleftrightarrow> is_finite v \<and> dbl_le lo v \<and> dbl_le v hi"

definition valid_playback :: "playback_settings \<Rightarrow> bool" where
  "valid_playback s \<longleftrightarrow>
     in_range (ps_voice_volume_percent s) (Finite 0) (Finite 500)
     \<and> in_range (ps_head_voice_volume_percent s) (Finite 0) (Finite 200)
     \<and> 0 \<le> ps_audio_mode s \<and> ps_audio_mode s \<le> 4
     \<and> in_range (ps_distance_scale s) float_tenth (Finite 20)
     \<and> in_range (ps_dropoff_inside_percent s) (Finite 25) (Finite 200)
     \<and> in_range (ps_dropoff_outside_percent s) (Finite 25) (Finite 200)
     \<and> in_range (ps_legacy_distance_scale s) (Finite 0) (Finite 4)
     \<and> 0 \<le> ps_clip_start_ms s \<and> ps_clip_start_ms s \<le> 100
     \<and> 0 \<le> ps_clip_end_ms s \<and> ps_clip_end_ms s \<le> 2000
     \<and> in_range (ps_lip_intensity s) float_tenth (Finite 2)
     \<and> 0 \<le> ps_lip_resolution_ms s \<and> ps_lip_resolution_ms s \<le> 1000"

text \<open>\<open>std::size_t\<close> is 64 bits wide; the product is computed at that width.\<close>

definition clip_frames :: "int \<Rightarrow> int \<Rightarrow> u64" where
  "clip_frames rate milliseconds = word_of_int (max 0 rate) * word_of_int (max 0 milliseconds) div 1000"

definition valid_connection_timeout :: "int \<Rightarrow> bool" where
  "valid_connection_timeout seconds \<longleftrightarrow> 15 \<le> seconds \<and> seconds \<le> 300"

text \<open>The product cannot wrap for any two C++ \<open>int\<close>s.\<close>

lemma clip_frames_exact:
  assumes "rate < 2 ^ 31" "milliseconds < 2 ^ 31"
  shows "unat (clip_frames rate milliseconds) = nat rate * nat milliseconds div 1000"
proof -
  have "nat rate < 2 ^ 31" "nat milliseconds < 2 ^ 31" using assms by auto
  then have "nat rate * nat milliseconds < 2 ^ 31 * 2 ^ 31"
    by (intro mult_strict_mono) auto
  then have small: "nat rate * nat milliseconds < 2 ^ 64" by simp
  have n: "word_of_int (max 0 i) = (word_of_nat (nat i) :: u64)" for i :: int
    by (cases "0 \<le> i") (auto simp: max_def)
  have "unat (word_of_nat (nat rate) * word_of_nat (nat milliseconds) :: u64) = nat rate * nat milliseconds"
    using small by (simp add: unat_of_nat take_bit_nat_def flip: of_nat_mult)
  then show ?thesis by (simp add: clip_frames_def n unat_div)
qed

section \<open>The clip window\<close>

record clip_window =
  cw_pending :: string
  cw_skip :: nat
  cw_tail :: nat

definition clip_window_new :: "nat \<Rightarrow> nat \<Rightarrow> clip_window" where
  "clip_window_new skip tail = \<lparr>cw_pending = [], cw_skip = skip, cw_tail = tail\<rparr>"

definition window_append :: "string \<Rightarrow> clip_window \<Rightarrow> clip_window" where
  "window_append data w =
     (let skip = min (cw_skip w) (length data)
      in w\<lparr>cw_skip := cw_skip w - skip, cw_pending := cw_pending w @ drop skip data\<rparr>)"

definition window_available :: "clip_window \<Rightarrow> nat" where
  "window_available w =
     (if cw_tail w < length (cw_pending w) then length (cw_pending w) - cw_tail w else 0)"

definition window_read :: "nat \<Rightarrow> clip_window \<Rightarrow> clip_window \<times> string" where
  "window_read size_limit w =
     (let count = min size_limit (window_available w)
      in (w\<lparr>cw_pending := drop count (cw_pending w)\<rparr>, take count (cw_pending w)))"

datatype window_op = WAppend string | WRead nat

text \<open>A step, with everything appended and everything read so far.\<close>

fun window_step :: "window_op \<Rightarrow> clip_window \<times> string \<times> string \<Rightarrow> clip_window \<times> string \<times> string" where
  "window_step (WAppend data) (w, fed, out) = (window_append data w, fed @ data, out)"
| "window_step (WRead n) (w, fed, out) = (let (w', data) = window_read n w in (w', fed, out @ data))"

definition window_run :: "nat \<Rightarrow> nat \<Rightarrow> window_op list \<Rightarrow> clip_window \<times> string \<times> string" where
  "window_run skip tail ops = fold window_step ops (clip_window_new skip tail, [], [])"

definition window_inv :: "nat \<Rightarrow> nat \<Rightarrow> clip_window \<times> string \<times> string \<Rightarrow> bool" where
  "window_inv skip tail = (\<lambda>(w, fed, out).
     cw_tail w = tail \<and> cw_skip w = skip - length fed \<and> out @ cw_pending w = drop skip fed
     \<and> length out \<le> length fed - skip - tail)"

lemma window_inv_step: "window_inv skip tail s \<Longrightarrow> window_inv skip tail (window_step op s)"
proof (cases s)
  case (fields w fed out)
  assume "window_inv skip tail s"
  then have inv: "cw_tail w = tail" "cw_skip w = skip - length fed" "out @ cw_pending w = drop skip fed"
      "length out \<le> length fed - skip - tail"
    by (simp_all add: window_inv_def fields)
  show ?thesis
  proof (cases op)
    case (WAppend data)
    have "drop (min (skip - length fed) (length data)) data = drop (skip - length fed) data"
      by (cases "skip - length fed \<le> length data") (simp_all add: min_def)
    with inv WAppend show ?thesis
      by (auto simp: window_inv_def fields window_append_def Let_def)
  next
    case (WRead n)
    let ?c = "min n (window_available w)"
    have len: "length out + length (cw_pending w) = length fed - skip"
      using arg_cong [OF inv(3), of length] by simp
    have "length (take ?c (cw_pending w)) \<le> length (cw_pending w) - tail"
      using inv(1) by (simp add: window_available_def)
    then have "length (out @ take ?c (cw_pending w)) \<le> length fed - skip - tail"
      using len inv(4) by (cases "tail < length (cw_pending w)") auto
    with inv WRead show ?thesis
      by (simp add: window_inv_def fields window_read_def Let_def)
  qed
qed

lemma window_inv_run: "window_inv skip tail (window_run skip tail ops)"
proof -
  have "window_inv skip tail (fold window_step ops s)" if "window_inv skip tail s" for s
    using that by (induction ops arbitrary: s) (simp_all add: window_inv_step)
  then show ?thesis by (simp add: window_run_def window_inv_def clip_window_new_def)
qed

text \<open>Trimming does not depend on how the decoder chunks its output: after any sequence of
  appends and bounded reads, what was read is a prefix of everything appended less its first
  \<open>skip\<close> and its last \<open>tail\<close> bytes, and one more read that asks for enough completes it to
  exactly that.\<close>

theorem clip_window_chunk_independent:
  "case window_run skip tail ops of (w, fed, out) \<Rightarrow>
     (let clipped = take (length fed - skip - tail) (drop skip fed)
      in out = take (length out) clipped
         \<and> out @ snd (window_read (length fed) w) = clipped)"
proof -
  obtain w fed out where run: "window_run skip tail ops = (w, fed, out)"
    by (cases "window_run skip tail ops")
  from window_inv_run [of skip tail ops] have inv: "cw_tail w = tail"
      "out @ cw_pending w = drop skip fed" "length out \<le> length fed - skip - tail"
    by (simp_all add: run window_inv_def)
  have len: "length out + length (cw_pending w) = length fed - skip"
    using arg_cong [OF inv(2), of length] by simp
  then have c: "min (length fed) (window_available w) = length fed - skip - tail - length out"
    using inv(1,3) by (auto simp: window_available_def)
  have "take (length fed - skip - tail) (out @ cw_pending w) =
      out @ take (length fed - skip - tail - length out) (cw_pending w)"
    using inv(3) by simp
  then have "out @ take (min (length fed) (window_available w)) (cw_pending w)
      = take (length fed - skip - tail) (drop skip fed)"
    unfolding c inv(2) by simp
  moreover from this have "out = take (length out) (take (length fed - skip - tail) (drop skip fed))"
    by (metis append_eq_conv_conj)
  ultimately show ?thesis
    by (simp add: run window_read_def Let_def)
qed

end
