(* ===== verification/Session_Identity.thy ===== *)
theory Session_Identity
  imports Validation
begin

text \<open>
  \<open>session_identity.hpp\<close>: which character and playthrough the loaded save belongs to. The
  generator of identifiers is the caller's callback and a parameter here, threaded through its
  own state \<open>'g\<close>. A thrown \<open>std::invalid_argument\<close> is the left value of the result; every
  throw comes before the first assignment, so the object is then unchanged.
\<close>

record character_session =
  chs_character :: string
  chs_playthrough :: string
  chs_binding :: string
  chs_legacy_playthrough :: string
  chs_prepared :: bool

definition cleared_session :: character_session where
  "cleared_session = \<lparr>chs_character = [], chs_playthrough = [], chs_binding = [],
     chs_legacy_playthrough = [], chs_prepared = False\<rparr>"

definition session_selected :: "character_session \<Rightarrow> bool" where
  "session_selected s \<longleftrightarrow>
     chs_prepared s \<and> chs_character s \<noteq> [] \<and> chs_playthrough s \<noteq> [] \<and> chs_binding s \<noteq> []"

definition invalid_saved_identity :: "string \<Rightarrow> string \<Rightarrow> string \<Rightarrow> bool" where
  "invalid_saved_identity character playthrough binding \<longleftrightarrow>
     (character \<noteq> [] \<and> \<not> is_canonical_uuid character)
     \<or> (playthrough \<noteq> [] \<and> \<not> is_canonical_uuid playthrough)
     \<or> (binding \<noteq> [] \<and> binding \<noteq> ''new'' \<and> binding \<noteq> ''existing'')
     \<or> (binding \<noteq> [] \<and> (character = [] \<or> playthrough = []))"

definition prepare_session ::
  "('g \<Rightarrow> string \<times> 'g) \<Rightarrow> bool \<Rightarrow> string \<Rightarrow> string \<Rightarrow> string \<Rightarrow> string \<Rightarrow>
   character_session \<Rightarrow> 'g \<Rightarrow> string + character_session \<times> 'g"
where
  "prepare_session uuid new_game saved_character saved_playthrough saved_binding configured_legacy s g =
     (if chs_prepared s then Inl ''character_identity_already_prepared''
      else if invalid_saved_identity saved_character saved_playthrough saved_binding
      then Inl ''invalid_saved_character_identity''
      else
        let s = s\<lparr>chs_legacy_playthrough :=
                    (if saved_playthrough = [] then configured_legacy else saved_playthrough)\<rparr>;
            (character, g) = (if new_game \<or> saved_character = [] then uuid g else (saved_character, g));
            s = s\<lparr>chs_character := character\<rparr>;
            (s, g) =
              (if new_game
               then let (playthrough, g) = uuid g
                    in (s\<lparr>chs_playthrough := playthrough, chs_binding := ''new''\<rparr>, g)
               else if saved_character \<noteq> [] \<and> saved_playthrough \<noteq> [] \<and> saved_binding \<noteq> []
               then (s\<lparr>chs_playthrough := saved_playthrough, chs_binding := saved_binding\<rparr>, g)
               else (s, g))
        in Inr (s\<lparr>chs_prepared := True\<rparr>, g))"

definition choose_session ::
  "('g \<Rightarrow> string \<times> 'g) \<Rightarrow> string \<Rightarrow> string \<Rightarrow> character_session \<Rightarrow> 'g \<Rightarrow> string + character_session \<times> 'g"
where
  "choose_session uuid expected_character choice s g =
     (if \<not> chs_prepared s \<or> expected_character \<noteq> chs_character s
         \<or> (choice \<noteq> ''existing'' \<and> choice \<noteq> ''new'')
      then Inl ''stale_character_selection''
      else if session_selected s
      then if chs_binding s \<noteq> choice then Inl ''character_selection_already_applied'' else Inr (s, g)
      else if choice = ''existing'' \<and> \<not> is_canonical_uuid (chs_legacy_playthrough s)
      then Inl ''legacy_playthrough_unavailable''
      else
        let (playthrough, g) = (if choice = ''existing'' then (chs_legacy_playthrough s, g) else uuid g)
        in Inr (s\<lparr>chs_playthrough := playthrough, chs_binding := choice\<rparr>, g))"

datatype session_op =
    SessPrepare bool string string string string
  | SessChoose string string

text \<open>A call; one that throws changes neither the object nor the generator.\<close>

fun session_step ::
  "('g \<Rightarrow> string \<times> 'g) \<Rightarrow> session_op \<Rightarrow> character_session \<times> 'g \<Rightarrow> character_session \<times> 'g"
where
  "session_step uuid (SessPrepare n c p b l) (s, g) =
     (case prepare_session uuid n c p b l s g of Inl _ \<Rightarrow> (s, g) | Inr r \<Rightarrow> r)"
| "session_step uuid (SessChoose c b) (s, g) =
     (case choose_session uuid c b s g of Inl _ \<Rightarrow> (s, g) | Inr r \<Rightarrow> r)"

lemma prepare_session_prepared: "chs_prepared s \<Longrightarrow> session_step uuid (SessPrepare n c p b l) (s, g) = (s, g)"
  by (simp add: prepare_session_def)

lemma choose_session_selected: "session_selected s \<Longrightarrow> session_step uuid (SessChoose c b) (s, g) = (s, g)"
  by (simp add: choose_session_def)

lemma choose_session_character:
  "chs_prepared s \<Longrightarrow> chs_character (fst (session_step uuid (SessChoose c b) (s, g))) = chs_character s
    \<and> chs_prepared (fst (session_step uuid (SessChoose c b) (s, g)))"
  by (auto simp: choose_session_def split_def Let_def split: sum.splits)

lemma session_step_prepared:
  "chs_prepared s \<Longrightarrow> chs_character (fst (session_step uuid op (s, g))) = chs_character s
    \<and> chs_prepared (fst (session_step uuid op (s, g)))"
  by (cases op) (simp_all only: prepare_session_prepared choose_session_character fst_conv simp_thms)

lemma session_step_selected:
  assumes "session_selected s"
  shows "session_step uuid op (s, g) = (s, g)"
proof (cases op)
  case (SessPrepare n c p b l)
  with assms show ?thesis by (simp only: prepare_session_prepared session_selected_def)
next
  case (SessChoose c b)
  with assms show ?thesis by (simp only: choose_session_selected)
qed

text \<open>The identity of a loaded character is fixed once: after \<open>prepare\<close> no sequence of further
  calls, with whatever identifiers the generator supplies, changes the character, and once a
  playthrough is selected nothing changes any field, draws an identifier, or switches the
  binding.\<close>

theorem session_identity_is_stable:
  assumes "chs_prepared s"
  shows "chs_character (fst (fold (session_step uuid) ops (s, g))) = chs_character s
    \<and> (if session_selected s then fold (session_step uuid) ops (s, g) = (s, g) else True)"
proof
  have "chs_character (fst (fold (session_step uuid) ops sg)) = chs_character (fst sg)"
    if "chs_prepared (fst sg)" for sg
    using that
  proof (induction ops arbitrary: sg)
    case (Cons op ops)
    then show ?case
      using session_step_prepared [of "fst sg" uuid op "snd sg"] by simp
  qed simp
  with assms show "chs_character (fst (fold (session_step uuid) ops (s, g))) = chs_character s"
    by simp
  have "fold (session_step uuid) ops (s, g) = (s, g)" if "session_selected s"
    using that by (induction ops) (simp_all only: fold_simps session_step_selected)
  then show "if session_selected s then fold (session_step uuid) ops (s, g) = (s, g) else True"
    by simp
qed

definition sample_uuid :: string where
  "sample_uuid = ''11111111-1111-4111-8111-111111111111''"

theorem session_identity_is_stable_witness:
  "fold (session_step (\<lambda>n :: nat. (sample_uuid, Suc n)))
     [SessChoose sample_uuid ''new'', SessPrepare True [] [] [] []]
     (\<lparr>chs_character = sample_uuid, chs_playthrough = sample_uuid, chs_binding = ''existing'',
       chs_legacy_playthrough = [], chs_prepared = True\<rparr>, 0)
   = (\<lparr>chs_character = sample_uuid, chs_playthrough = sample_uuid, chs_binding = ''existing'',
       chs_legacy_playthrough = [], chs_prepared = True\<rparr>, 0)"
  using session_identity_is_stable [of
      "\<lparr>chs_character = sample_uuid, chs_playthrough = sample_uuid, chs_binding = ''existing'',
        chs_legacy_playthrough = [], chs_prepared = True\<rparr>"
      "\<lambda>n :: nat. (sample_uuid, Suc n)" "[SessChoose sample_uuid ''new'', SessPrepare True [] [] [] []]" 0]
  by (simp add: session_selected_def sample_uuid_def)

text \<open>What a session a save will carry looks like.\<close>

definition session_ok :: "character_session \<Rightarrow> bool" where
  "session_ok s \<longleftrightarrow>
     (if chs_prepared s then is_canonical_uuid (chs_character s) else s = cleared_session)
     \<and> (if session_selected s
        then is_canonical_uuid (chs_playthrough s) \<and> chs_binding s \<in> {''new'', ''existing''} else True)"

lemma canonical_uuid_not_empty: "is_canonical_uuid u \<Longrightarrow> u \<noteq> []"
  by (auto simp: is_canonical_uuid_def)

lemma session_ok_prepare:
  assumes "\<And>g. is_canonical_uuid (fst (uuid g))" "session_ok s" "prepare_session uuid n c p b l s g = Inr r"
  shows "session_ok (fst r)"
proof -
  have s: "s = cleared_session" "\<not> invalid_saved_identity c p b"
    using assms(2,3) by (auto simp: session_ok_def prepare_session_def split: if_splits)
  have c: "c = [] \<or> is_canonical_uuid c" and p: "p = [] \<or> is_canonical_uuid p"
    and b: "b = [] \<or> b \<in> {''new'', ''existing''}"
    using s(2) unfolding invalid_saved_identity_def by blast+
  have drawn: "fst (uuid g) \<noteq> []" for g
    using assms(1) canonical_uuid_not_empty by blast
  show ?thesis
  proof (cases n)
    case True
    with assms(1,3) s show ?thesis
      by (auto simp: drawn prepare_session_def Let_def split_def session_ok_def session_selected_def cleared_session_def)
  next
    case False
    have "session_ok (fst r)" if "c = []"
      using False that assms(1,3) s
      by (auto simp: drawn prepare_session_def Let_def split_def session_ok_def session_selected_def cleared_session_def)
    moreover have "session_ok (fst r)" if "c \<noteq> []" "p = [] \<or> b = []"
      using False that assms(3) s c
      by (auto simp: drawn prepare_session_def Let_def split_def session_ok_def session_selected_def cleared_session_def)
    moreover have "session_ok (fst r)" if "c \<noteq> []" "p \<noteq> []" "b \<noteq> []"
      using False that assms(3) s c p b
      by (auto simp: drawn prepare_session_def Let_def split_def session_ok_def session_selected_def cleared_session_def)
    ultimately show ?thesis by blast
  qed
qed

lemma session_ok_choose:
  assumes "\<And>g. is_canonical_uuid (fst (uuid g))" "session_ok s" "choose_session uuid c b s g = Inr r"
  shows "session_ok (fst r)"
proof (cases "session_selected s")
  case True
  with assms(2,3) show ?thesis by (auto simp: choose_session_def split: if_splits)
next
  case False
  with assms show ?thesis
    by (auto simp: choose_session_def session_ok_def Let_def split_def split: if_splits)
qed

lemma session_ok_step:
  assumes "\<And>g. is_canonical_uuid (fst (uuid g))" "session_ok (fst sg)"
  shows "session_ok (fst (session_step uuid op sg))"
proof (cases sg)
  case (Pair s g)
  with assms session_ok_prepare [of uuid s] session_ok_choose [of uuid s] show ?thesis
    by (cases op) (auto split: sum.splits)
qed

lemma session_ok_steps:
  assumes "\<And>g. is_canonical_uuid (fst (uuid g))" "session_ok (fst sg)"
  shows "session_ok (fst (fold (session_step uuid) ops sg))"
  using assms(2) by (induction ops arbitrary: sg) (simp_all add: session_ok_step [OF assms(1)])

text \<open>C25. Saving and loading keeps the identity: when the generator draws canonical UUIDs and any
  sequence of calls on a cleared object has selected an identity, preparing a cleared object from
  the saved character, playthrough and binding is accepted, restores exactly those three, is
  selected at once and draws no identifier, whatever generator and configuration the loading
  process has.\<close>

theorem saved_identity_round_trips:
  assumes "\<And>g. is_canonical_uuid (fst (uuid g))"
    and "fst (fold (session_step uuid) ops (cleared_session, g)) = s" "session_selected s"
  shows "prepare_session uuid' False (chs_character s) (chs_playthrough s) (chs_binding s) legacy cleared_session h
    = Inr (s\<lparr>chs_legacy_playthrough := chs_playthrough s\<rparr>, h)"
proof -
  have "session_ok cleared_session"
    by (simp add: session_ok_def cleared_session_def session_selected_def)
  with session_ok_steps [of uuid "(cleared_session, g)" ops, OF assms(1)] assms(2)
  have "session_ok s" by simp
  with assms(3) have "is_canonical_uuid (chs_character s)" "is_canonical_uuid (chs_playthrough s)"
    "chs_binding s \<in> {''new'', ''existing''}" "chs_prepared s"
    by (auto simp: session_ok_def session_selected_def)
  then show ?thesis
    by (auto simp: prepare_session_def invalid_saved_identity_def cleared_session_def
        canonical_uuid_not_empty)
qed

theorem saved_identity_round_trips_witness:
  "prepare_session (\<lambda>n :: nat. ([], n)) False sample_uuid sample_uuid ''new'' [] cleared_session 5
   = Inr (\<lparr>chs_character = sample_uuid, chs_playthrough = sample_uuid, chs_binding = ''new'',
           chs_legacy_playthrough = sample_uuid, chs_prepared = True\<rparr>, 5)"
proof -
  let ?s = "\<lparr>chs_character = sample_uuid, chs_playthrough = sample_uuid, chs_binding = ''new'',
      chs_legacy_playthrough = [], chs_prepared = True\<rparr>"
  have "is_canonical_uuid (fst ((\<lambda>n :: nat. (sample_uuid, Suc n)) g))" for g
    by code_simp
  moreover have "fst (fold (session_step (\<lambda>n :: nat. (sample_uuid, Suc n)))
      [SessPrepare True [] [] [] []] (cleared_session, 0)) = ?s"
    by code_simp
  moreover have "session_selected ?s" by code_simp
  ultimately show ?thesis
    using saved_identity_round_trips
      [of "\<lambda>n :: nat. (sample_uuid, Suc n)" "[SessPrepare True [] [] [] []]" 0 ?s "\<lambda>n :: nat. ([], n)" "[]" 5]
    by simp
qed

end
