(* ===== verification/Sha256.thy ===== *)
theory Sha256
  imports Wire_Text
begin

unbundle bit_operations_syntax

text \<open>
  The private \<open>Sha256\<close> class of \<open>voice_capture.cpp\<close> and \<open>sha256Hex\<close>. The 64-byte buffer keeps
  stale bytes beyond \<open>m_bufferSize\<close>, as the array does. The reference is the padding of FIPS
  180-4: the streaming updates and the in-place padding of \<open>finish\<close> compute the fold of the
  compression function over the blocks of the padded message.
\<close>

record sha256 =
  sha_state :: "u32 list"
  sha_buffer :: "byte_t list"
  sha_buffer_size :: nat
  sha_bit_count :: u64

definition sha_initial_state :: "u32 list" where
  "sha_initial_state = [0x6a09e667,0xbb67ae85,0x3c6ef372,0xa54ff53a,0x510e527f,0x9b05688c,0x1f83d9ab,0x5be0cd19]"

definition sha_new :: sha256 where
  "sha_new = \<lparr>sha_state = sha_initial_state, sha_buffer = replicate 64 0, sha_buffer_size = 0, sha_bit_count = 0\<rparr>"

definition sha_k :: "u32 list" where
  "sha_k = concat [
    [0x428a2f98,0x71374491,0xb5c0fbcf,0xe9b5dba5,0x3956c25b,0x59f111f1,0x923f82a4,0xab1c5ed5],
    [0xd807aa98,0x12835b01,0x243185be,0x550c7dc3,0x72be5d74,0x80deb1fe,0x9bdc06a7,0xc19bf174],
    [0xe49b69c1,0xefbe4786,0x0fc19dc6,0x240ca1cc,0x2de92c6f,0x4a7484aa,0x5cb0a9dc,0x76f988da],
    [0x983e5152,0xa831c66d,0xb00327c8,0xbf597fc7,0xc6e00bf3,0xd5a79147,0x06ca6351,0x14292967],
    [0x27b70a85,0x2e1b2138,0x4d2c6dfc,0x53380d13,0x650a7354,0x766a0abb,0x81c2c92e,0x92722c85],
    [0xa2bfe8a1,0xa81a664b,0xc24b8b70,0xc76c51a3,0xd192e819,0xd6990624,0xf40e3585,0x106aa070],
    [0x19a4c116,0x1e376c08,0x2748774c,0x34b0bcb5,0x391c0cb3,0x4ed8aa4a,0x5b9cca4f,0x682e6ff3],
    [0x748f82ee,0x78a5636f,0x84c87814,0x8cc70208,0x90befffa,0xa4506ceb,0xbef9a3f7,0xc67178f2]]"

definition sha_rotate :: "u32 \<Rightarrow> nat \<Rightarrow> u32" where
  "sha_rotate w bits = drop_bit bits w OR push_bit (32 - bits) w"

text \<open>The message schedule: sixteen big-endian words, then the recurrence.\<close>

definition sha_word :: "byte_t list \<Rightarrow> nat \<Rightarrow> u32" where
  "sha_word buffer i =
     push_bit 24 (ucast (buffer ! (i * 4))) OR push_bit 16 (ucast (buffer ! (i * 4 + 1)))
     OR push_bit 8 (ucast (buffer ! (i * 4 + 2))) OR ucast (buffer ! (i * 4 + 3))"

definition sha_extend :: "u32 list \<Rightarrow> nat \<Rightarrow> u32 list" where
  "sha_extend words i =
     (let s0 = sha_rotate (words ! (i - 15)) 7 XOR sha_rotate (words ! (i - 15)) 18 XOR drop_bit 3 (words ! (i - 15));
          s1 = sha_rotate (words ! (i - 2)) 17 XOR sha_rotate (words ! (i - 2)) 19 XOR drop_bit 10 (words ! (i - 2))
      in words[i := words ! (i - 16) + s0 + words ! (i - 7) + s1])"

definition sha_schedule :: "byte_t list \<Rightarrow> u32 list" where
  "sha_schedule buffer =
     foldl sha_extend (map (sha_word buffer) [0..<16] @ replicate 48 0) [16..<64]"

type_synonym sha_registers = "u32 \<times> u32 \<times> u32 \<times> u32 \<times> u32 \<times> u32 \<times> u32 \<times> u32"

fun sha_round :: "u32 list \<Rightarrow> sha_registers \<Rightarrow> nat \<Rightarrow> sha_registers" where
  "sha_round words (a, b, c, d, e, f, g, h) i =
     (let s1 = sha_rotate e 6 XOR sha_rotate e 11 XOR sha_rotate e 25;
          choice = (e AND f) XOR (NOT e AND g);
          temp1 = h + s1 + choice + sha_k ! i + words ! i;
          s0 = sha_rotate a 2 XOR sha_rotate a 13 XOR sha_rotate a 22;
          majority = (a AND b) XOR (a AND c) XOR (b AND c);
          temp2 = s0 + majority
      in (temp1 + temp2, a, b, c, d + temp1, e, f, g))"

definition sha_compress :: "u32 list \<Rightarrow> byte_t list \<Rightarrow> u32 list" where
  "sha_compress state buffer =
     (let words = sha_schedule buffer;
          (a, b, c, d, e, f, g, h) =
            foldl (sha_round words)
              (state ! 0, state ! 1, state ! 2, state ! 3, state ! 4, state ! 5, state ! 6, state ! 7) [0..<64]
      in [state ! 0 + a, state ! 1 + b, state ! 2 + c, state ! 3 + d,
          state ! 4 + e, state ! 5 + f, state ! 6 + g, state ! 7 + h])"

definition sha_transform :: "sha256 \<Rightarrow> sha256" where
  "sha_transform s = s\<lparr>sha_state := sha_compress (sha_state s) (sha_buffer s)\<rparr>"

text \<open>The body of the loop of \<open>update\<close>.\<close>

definition sha_absorb :: "sha256 \<Rightarrow> byte_t \<Rightarrow> sha256" where
  "sha_absorb s v =
     (let s = s\<lparr>sha_buffer := (sha_buffer s)[sha_buffer_size s := v], sha_buffer_size := sha_buffer_size s + 1\<rparr>
      in if sha_buffer_size s = 64
         then (sha_transform s)\<lparr>sha_bit_count := sha_bit_count s + 512, sha_buffer_size := 0\<rparr>
         else s)"

definition sha_update :: "byte_t list \<Rightarrow> sha256 \<Rightarrow> sha256" where
  "sha_update bytes s = foldl sha_absorb s bytes"

text \<open>\<open>while (m_bufferSize < limit) m_buffer[m_bufferSize++] = 0\<close>.\<close>

function sha_fill :: "nat \<Rightarrow> nat \<Rightarrow> byte_t list \<Rightarrow> byte_t list" where
  "sha_fill limit i buffer = (if i < limit then sha_fill limit (Suc i) (buffer[i := 0]) else buffer)"
  by pat_completeness auto
termination sha_fill by (relation "measure (\<lambda>(limit, i, _). limit - i)") auto

declare sha_fill.simps [simp del]

definition sha_put_length :: "u64 \<Rightarrow> byte_t list \<Rightarrow> byte_t list" where
  "sha_put_length bits buffer =
     foldl (\<lambda>buf i. buf[63 - i := ucast (drop_bit (i * 8) bits)]) buffer [0..<8]"

text \<open>The last loop of \<open>finish\<close>: every word, most significant byte first.\<close>

definition sha_output :: "u32 list \<Rightarrow> byte_t list" where
  "sha_output state = concat (map (\<lambda>w. map (\<lambda>b. ucast (drop_bit (24 - b * 8) w)) [0..<4]) state)"

definition sha_finish :: "sha256 \<Rightarrow> byte_t list" where
  "sha_finish s =
     (let total_bits = sha_bit_count s + word_of_nat (sha_buffer_size s * 8);
          buffer = (sha_buffer s)[sha_buffer_size s := 0x80];
          n = sha_buffer_size s + 1;
          (s, n) = (if 56 < n
             then (sha_transform (s\<lparr>sha_buffer := sha_fill 64 n buffer\<rparr>), 0)
             else (s\<lparr>sha_buffer := buffer\<rparr>, n));
          s = sha_transform (s\<lparr>sha_buffer := sha_put_length total_bits (sha_fill 56 n (sha_buffer s))\<rparr>)
      in sha_output (sha_state s))"

definition hex_digits :: "byte_t \<Rightarrow> string" where
  "hex_digits v = [hex_alphabet ! unat (drop_bit 4 v), hex_alphabet ! unat (v AND 0x0f)]"

definition sha256_hex :: "byte_t list \<Rightarrow> string" where
  "sha256_hex bytes = concat (map hex_digits (sha_finish (sha_update bytes sha_new)))"

section \<open>The reference\<close>

text \<open>FIPS 180-4: a one bit, zeros up to 56 modulo 64, and the bit length in 64 bits.\<close>

definition be64 :: "u64 \<Rightarrow> byte_t list" where
  "be64 w = map (\<lambda>i. ucast (drop_bit (56 - 8 * i) w)) [0..<8]"

definition sha_padded :: "byte_t list \<Rightarrow> byte_t list" where
  "sha_padded m = m @ [0x80] @ replicate ((119 - length m mod 64) mod 64) 0 @ be64 (word_of_nat (8 * length m))"

function blocks64 :: "'a list \<Rightarrow> 'a list list" where
  "blocks64 xs = (if length xs < 64 then [] else take 64 xs # blocks64 (drop 64 xs))"
  by pat_completeness auto
termination blocks64 by (relation "measure length") auto

declare blocks64.simps [simp del]

definition sha_reference :: "byte_t list \<Rightarrow> u32 list" where
  "sha_reference m = foldl sha_compress sha_initial_state (blocks64 (sha_padded m))"

lemma blocks64_short [simp]: "length xs < 64 \<Longrightarrow> blocks64 xs = []"
  by (simp add: blocks64.simps)

lemma blocks64_block [simp]: "length xs = 64 \<Longrightarrow> blocks64 (xs @ ys) = xs # blocks64 ys"
  by (simp add: blocks64.simps [of "xs @ ys"])

lemma blocks64_append: "64 dvd length xs \<Longrightarrow> blocks64 (xs @ ys) = blocks64 xs @ blocks64 ys"
proof (induction xs rule: blocks64.induct)
  case (1 xs)
  show ?case
  proof (cases "length xs < 64")
    case True
    with 1(2) have "xs = []" by (auto dest: nat_dvd_not_less)
    then show ?thesis by simp
  next
    case False
    then have l: "length (take 64 xs) = 64" by simp
    have xs: "xs = take 64 xs @ drop 64 xs" by simp
    have "64 dvd length (drop 64 xs)" using 1(2) by simp
    from 1(1) [OF False this]
    have "blocks64 (take 64 xs @ (drop 64 xs @ ys)) = (take 64 xs # blocks64 (drop 64 xs)) @ blocks64 ys"
      by (simp only: blocks64_block [OF l] append.simps)
    moreover have "blocks64 xs = take 64 xs # blocks64 (drop 64 xs)"
      using False by (simp add: blocks64.simps [of xs])
    ultimately show ?thesis by (metis append_assoc xs)
  qed
qed

section \<open>Streaming\<close>

definition sha_inv :: "byte_t list \<Rightarrow> sha256 \<Rightarrow> bool" where
  "sha_inv m s \<longleftrightarrow>
     length (sha_buffer s) = 64 \<and> sha_buffer_size s = length m mod 64
     \<and> sha_bit_count s = word_of_nat (512 * (length m div 64))
     \<and> take (length m mod 64) (sha_buffer s) = drop (64 * (length m div 64)) m
     \<and> sha_state s = foldl sha_compress sha_initial_state (blocks64 (take (64 * (length m div 64)) m))"

lemma sha_inv_new: "sha_inv [] sha_new"
  by (simp add: sha_inv_def sha_new_def)

lemma sha_inv_absorb:
  assumes "sha_inv m s"
  shows "sha_inv (m @ [v]) (sha_absorb s v)"
proof -
  let ?q = "length m div 64" and ?r = "length m mod 64"
  have inv: "length (sha_buffer s) = 64" "sha_buffer_size s = ?r"
      "sha_bit_count s = word_of_nat (512 * ?q)" "take ?r (sha_buffer s) = drop (64 * ?q) m"
      "sha_state s = foldl sha_compress sha_initial_state (blocks64 (take (64 * ?q) m))"
    using assms by (simp_all add: sha_inv_def)
  have r: "?r < 64" by simp
  have n: "length m = 64 * ?q + ?r" by simp
  have buf: "take (Suc ?r) ((sha_buffer s)[?r := v]) = drop (64 * ?q) m @ [v]"
    using inv(1,4) r by (simp add: take_Suc_conv_app_nth del: take_update_swap)
  show ?thesis
  proof (cases "?r = 63")
    case True
    then have div: "Suc (length m) div 64 = Suc ?q" and mod: "Suc (length m) mod 64 = 0"
      using n by (simp_all add: mod_Suc div_Suc)
    have full: "(sha_buffer s)[?r := v] = drop (64 * ?q) m @ [v]"
      using buf inv(1) True by simp
    have len: "length (drop (64 * ?q) m @ [v]) = 64" using n True by simp
    have split: "m @ [v] = take (64 * ?q) m @ (drop (64 * ?q) m @ [v])" by simp
    have "blocks64 (m @ [v]) = blocks64 (take (64 * ?q) m) @ [drop (64 * ?q) m @ [v]]"
      unfolding split using blocks64_append [of "take (64 * ?q) m" "drop (64 * ?q) m @ [v]"]
        blocks64_block [OF len, of "[]"] n by simp
    moreover have "take (64 * Suc ?q) (m @ [v]) = m @ [v]" using n True by simp
    ultimately show ?thesis
      using inv True full div mod
      by (simp add: sha_inv_def sha_absorb_def Let_def sha_transform_def)
  next
    case False
    with r have "?r < 63" by simp
    then have div: "Suc (length m) div 64 = ?q" and mod: "Suc (length m) mod 64 = Suc ?r"
      by (simp_all add: mod_Suc div_Suc)
    have "64 * ?q \<le> length m" using n by linarith
    then show ?thesis
      using inv False buf div mod
      by (simp add: sha_inv_def sha_absorb_def Let_def)
  qed
qed

lemma sha_inv_update: "sha_inv m (sha_update m sha_new)"
  by (induction m rule: rev_induct) (simp_all add: sha_update_def sha_inv_new sha_inv_absorb)

section \<open>Padding\<close>

lemma sha_fill_eq:
  "length buf = 64 \<Longrightarrow> i \<le> limit \<Longrightarrow> limit \<le> 64 \<Longrightarrow>
   sha_fill limit i buf = take i buf @ replicate (limit - i) 0 @ drop limit buf"
proof (induction limit i buf rule: sha_fill.induct)
  case (1 limit i buf)
  show ?case
  proof (cases "i < limit")
    case True
    then have "sha_fill limit i buf = sha_fill limit (Suc i) (buf[i := 0])"
      by (simp add: sha_fill.simps)
    also have "\<dots> = take (Suc i) (buf[i := 0]) @ replicate (limit - Suc i) 0 @ drop limit (buf[i := 0])"
      using 1 True by simp
    also have "\<dots> = take i buf @ replicate (limit - i) 0 @ drop limit buf"
    proof -
      have "take (Suc i) (buf[i := 0]) = take i buf @ [0]"
        using True 1(2,4) by (simp add: take_Suc_conv_app_nth)
      moreover have "limit - i = Suc (limit - Suc i)" using True by simp
      ultimately show ?thesis using True by simp
    qed
    finally show ?thesis .
  next
    case False
    with 1(3) have "i = limit" by simp
    then show ?thesis by (simp add: sha_fill.simps)
  qed
qed

lemma sha_put_length_eq:
  assumes "length buf = 64"
  shows "sha_put_length bits buf = take 56 buf @ be64 bits"
proof -
  have eight: "\<exists>b0 b1 b2 b3 b4 b5 b6 b7. t = [b0, b1, b2, b3, b4, b5, b6, b7]"
    if "length t = 8" for t :: "byte_t list"
    using that by (auto simp: numeral_eq_Suc length_Suc_conv)
  obtain b0 b1 b2 b3 b4 b5 b6 b7 where d: "drop 56 buf = [b0, b1, b2, b3, b4, b5, b6, b7]"
    using eight [of "drop 56 buf"] assms by auto
  have "buf = take 56 buf @ [b0, b1, b2, b3, b4, b5, b6, b7]"
    by (metis append_take_drop_id d)
  moreover have "length (take 56 buf) = 56" using assms by simp
  ultimately obtain xs where "buf = xs @ [b0, b1, b2, b3, b4, b5, b6, b7]" "length xs = 56" by blast
  then show ?thesis
    by (simp add: sha_put_length_def be64_def upt_rec list_update_append)
qed

lemma sha_put_length_append:
  "length xs = 56 \<Longrightarrow> length ys = 8 \<Longrightarrow> sha_put_length bits (xs @ ys) = xs @ be64 bits"
  by (simp add: sha_put_length_eq)

lemma length_be64 [simp]: "length (be64 w) = 8"
  by (simp add: be64_def)

lemma sha_finish_blocks:
  assumes buffer: "length (sha_buffer s) = 64" "take n (sha_buffer s) = tail"
    and size: "sha_buffer_size s = n" "n < 64"
    and bits: "sha_bit_count s + word_of_nat (n * 8) = bits"
  shows "sha_finish s = sha_output (foldl sha_compress (sha_state s)
    (blocks64 (tail @ [0x80] @ replicate ((119 - n) mod 64) 0 @ be64 bits)))"
proof -
  let ?buf = "(sha_buffer s)[n := 0x80]"
  have tail: "length tail = n" using buffer size(2) by auto
  have buf: "take (Suc n) ?buf = tail @ [0x80]" "length ?buf = 64"
    using buffer size(2) by (simp_all add: take_Suc_conv_app_nth)
  show ?thesis
  proof (cases "56 < n + 1")
    case False
    then have z: "(119 - n) mod 64 = 55 - n" by (simp add: mod_if)
    have l: "length (tail @ [0x80] @ replicate (55 - n) 0 @ be64 bits) = 64"
      using False tail by simp
    have "sha_put_length bits (sha_fill 56 (n + 1) ?buf) = tail @ [0x80] @ replicate (55 - n) 0 @ be64 bits"
    proof -
      have "sha_fill 56 (n + 1) ?buf = (tail @ [0x80] @ replicate (55 - n) 0) @ drop 56 ?buf"
        using False buf by (simp add: sha_fill_eq)
      moreover have "length (tail @ [0x80] @ replicate (55 - n) 0) = 56" using False tail by simp
      moreover have "length (drop 56 ?buf) = 8" using buf(2) by simp
      ultimately have "sha_put_length bits (sha_fill 56 (n + 1) ?buf)
          = (tail @ [0x80] @ replicate (55 - n) 0) @ be64 bits"
        by (simp only: sha_put_length_append)
      then show ?thesis by simp
    qed
    with False show ?thesis
      using blocks64_block [OF l, of "[]"]
      by (simp only: sha_finish_def Let_def size(1) bits z sha_transform_def if_False
        prod.case append_Nil2 blocks64_short [of "[]"] foldl.simps list.size zero_less_numeral) simp
  next
    case True
    then have z: "(119 - n) mod 64 = (63 - n) + 56" using size(2) by (simp add: mod_if)
    have l: "length (tail @ [0x80] @ replicate (63 - n) 0) = 64"
      using True size(2) tail by simp
    have l': "length (replicate 56 0 @ be64 bits) = 64" by simp
    have first: "sha_fill 64 (n + 1) ?buf = tail @ [0x80] @ replicate (63 - n) 0"
      using True size(2) buf by (simp add: sha_fill_eq)
    have second: "sha_put_length bits (sha_fill 56 0 (tail @ [0x80] @ replicate (63 - n) 0)) = replicate 56 0 @ be64 bits"
      using l by (simp add: sha_fill_eq sha_put_length_eq)
    have "tail @ [0x80] @ replicate ((119 - n) mod 64) 0 @ be64 bits
        = (tail @ [0x80] @ replicate (63 - n) 0) @ (replicate 56 0 @ be64 bits)"
      by (simp add: z replicate_add)
    then have "blocks64 (tail @ [0x80] @ replicate ((119 - n) mod 64) 0 @ be64 bits)
        = [tail @ [0x80] @ replicate (63 - n) 0, replicate 56 0 @ be64 bits]"
      using blocks64_block [OF l] blocks64_block [OF l', of "[]"] by simp
    with True show ?thesis
      by (simp only: sha_finish_def Let_def size(1) bits sha_transform_def if_True
        prod.case foldl.simps) (simp add: first [simplified] second [simplified])
  qed
qed

text \<open>C26. The streaming hash is SHA-256's padding and block structure: whatever the length of the
  input, feeding it byte by byte and finishing equals the compression function folded over the
  64-byte blocks of the message padded as FIPS 180-4 prescribes.\<close>

theorem sha256_streaming_is_padded_fold:
  "sha_finish (sha_update m sha_new) = sha_output (sha_reference m)"
proof -
  let ?s = "sha_update m sha_new" and ?q = "length m div 64" and ?r = "length m mod 64"
  let ?tail = "drop (64 * ?q) m" and ?bits = "word_of_nat (8 * length m) :: u64"
  have inv: "length (sha_buffer ?s) = 64" "take ?r (sha_buffer ?s) = ?tail" "sha_buffer_size ?s = ?r"
      "sha_bit_count ?s = word_of_nat (512 * ?q)"
      "sha_state ?s = foldl sha_compress sha_initial_state (blocks64 (take (64 * ?q) m))"
    using sha_inv_update [of m] by (simp_all add: sha_inv_def)
  have r: "?r < 64" by simp
  have bits: "sha_bit_count ?s + word_of_nat (?r * 8) = ?bits"
  proof -
    have "length m = 64 * ?q + ?r" by simp
    then have "8 * length m = 512 * ?q + ?r * 8" by linarith
    then show ?thesis unfolding inv(4) by (simp only: of_nat_add)
  qed
  have "sha_padded m = take (64 * ?q) m @ (?tail @ [0x80] @ replicate ((119 - ?r) mod 64) 0 @ be64 ?bits)"
    by (simp add: sha_padded_def)
  moreover have "64 * ?q \<le> length m" by simp
  then have "64 dvd length (take (64 * ?q) m)" by (simp only: length_take min.absorb2) simp
  ultimately have "blocks64 (sha_padded m) = blocks64 (take (64 * ?q) m)
      @ blocks64 (?tail @ [0x80] @ replicate ((119 - ?r) mod 64) 0 @ be64 ?bits)"
    by (simp only: blocks64_append)
  then show ?thesis
    unfolding sha_finish_blocks [OF inv(1,2,3) r bits] inv(5) sha_reference_def
    by (simp only: foldl_append)
qed

end
