(* ===== verification/Voice_Audio.thy ===== *)
theory Voice_Audio
  imports Sha256
begin

text \<open>
  The audio helpers of \<open>voice_capture.cpp\<close>: WAV framing, voice activity and peak level of
  16-bit PCM, and the buffer handling of \<open>capture\<close> between the operating-system calls (which
  chunk arrives when is an input here). The root-mean-square level of \<open>pcm16Levels\<close> goes
  through \<open>std::sqrt\<close> on doubles; it is an argument of \<open>finish_capture\<close>, which only copies it.
\<close>

section \<open>WAV framing\<close>

definition append16 :: "byte_t list \<Rightarrow> u16 \<Rightarrow> byte_t list" where
  "append16 out v = out @ [ucast (v AND 0xff), ucast (drop_bit 8 v AND 0xff)]"

definition append32 :: "byte_t list \<Rightarrow> u32 \<Rightarrow> byte_t list" where
  "append32 out v = foldl (\<lambda>out shift. out @ [ucast (drop_bit shift v AND 0xff)]) out [0, 8, 16, 24]"

definition append_text :: "byte_t list \<Rightarrow> string \<Rightarrow> byte_t list" where
  "append_text out s = out @ map (\<lambda>c. word_of_nat (byte c)) s"

definition make_pcm16_mono_wav :: "byte_t list \<Rightarrow> u32 \<Rightarrow> byte_t list" where
  "make_pcm16_mono_wav pcm sample_rate =
     (if sample_rate < 8000 \<or> 192000 < sample_rate \<or> pcm = [] \<or> length pcm mod 2 \<noteq> 0
         \<or> 4294967295 - 36 < length pcm
      then []
      else
        let out = append_text [] ''RIFF'';
            out = append32 out (word_of_nat (36 + length pcm));
            out = append_text out ''WAVEfmt '';
            out = append16 (append16 (append32 out 16) 1) 1;
            out = append32 (append32 out sample_rate) (sample_rate * 2);
            out = append16 (append16 out 2) 16;
            out = append_text out ''data'';
            out = append32 out (word_of_nat (length pcm))
        in out @ pcm)"

text \<open>A reader of the canonical 44-byte header, from the format's definition.\<close>

definition le16 :: "byte_t list \<Rightarrow> nat \<Rightarrow> u16" where
  "le16 w i = ucast (w ! i) OR push_bit 8 (ucast (w ! (i + 1)))"

definition le32 :: "byte_t list \<Rightarrow> nat \<Rightarrow> u32" where
  "le32 w i = ucast (w ! i) OR push_bit 8 (ucast (w ! (i + 1)))
     OR push_bit 16 (ucast (w ! (i + 2))) OR push_bit 24 (ucast (w ! (i + 3)))"

definition wav_text :: "string \<Rightarrow> byte_t list" where
  "wav_text s = map (\<lambda>c. word_of_nat (byte c)) s"

definition read_wav :: "byte_t list \<Rightarrow> (u32 \<times> byte_t list) option" where
  "read_wav w =
     (if 44 \<le> length w
         \<and> take 4 w = wav_text ''RIFF'' \<and> unat (le32 w 4) = length w - 8
         \<and> take 8 (drop 8 w) = wav_text ''WAVEfmt '' \<and> le32 w 16 = 16
         \<and> le16 w 20 = 1 \<and> le16 w 22 = 1
         \<and> le32 w 28 = le32 w 24 * 2 \<and> le16 w 32 = 2 \<and> le16 w 34 = 16
         \<and> take 4 (drop 36 w) = wav_text ''data'' \<and> unat (le32 w 40) = length w - 44
      then Some (le32 w 24, drop 44 w) else None)"

lemma ucast_and_ff: "(ucast (v AND 0xff) :: byte_t) = ucast (v :: 'a :: len word)"
proof -
  have ff: "(0xff :: 'a word) = mask 8" by (simp add: mask_eq_exp_minus_1)
  show ?thesis unfolding ff by (rule bit_word_eqI) (auto simp: bit_simps dest: bit_imp_le_length)
qed

lemma le16_bytes:
  "(ucast (ucast v :: byte_t) :: u16) OR push_bit 8 (ucast (ucast (drop_bit 8 v) :: byte_t)) = v"
  by (rule bit_word_eqI) (auto simp: bit_simps)

lemma le32_bytes:
  "(ucast (ucast v :: byte_t) :: u32) OR push_bit 8 (ucast (ucast (drop_bit 8 v) :: byte_t))
     OR push_bit 16 (ucast (ucast (drop_bit 16 v) :: byte_t)) OR push_bit 24 (ucast (ucast (drop_bit 24 v) :: byte_t)) = v"
proof (rule bit_word_eqI)
  fix n assume "n < LENGTH(32)"
  then consider "n < 8" | "8 \<le> n" "n < 16" | "16 \<le> n" "n < 24" | "24 \<le> n" "n < 32" by force
  then show "bit ((ucast (ucast v :: byte_t) :: u32) OR push_bit 8 (ucast (ucast (drop_bit 8 v) :: byte_t))
     OR push_bit 16 (ucast (ucast (drop_bit 16 v) :: byte_t)) OR push_bit 24 (ucast (ucast (drop_bit 24 v) :: byte_t))) n
    = bit v n"
    by cases (auto simp: bit_simps)
qed

lemma append16_eq: "append16 out v = out @ [ucast v, ucast (drop_bit 8 v)]"
  by (simp add: append16_def ucast_and_ff)

lemma append32_eq:
  "append32 out v = out @ [ucast v, ucast (drop_bit 8 v), ucast (drop_bit 16 v), ucast (drop_bit 24 v)]"
  by (simp add: append32_def ucast_and_ff)


lemma make_wav_shape:
  assumes "8000 \<le> rate" "rate \<le> 192000" "pcm \<noteq> []" "even (length pcm)" "length pcm \<le> 4294967259"
  defines "n \<equiv> word_of_nat (length pcm) :: u32"
  shows "make_pcm16_mono_wav pcm rate =
     wav_text ''RIFF'' @ append32 [] (36 + n) @ wav_text ''WAVEfmt '' @ append32 [] 16 @ append16 [] 1
     @ append16 [] 1 @ append32 [] rate @ append32 [] (rate * 2) @ append16 [] 2 @ append16 [] 16
     @ wav_text ''data'' @ append32 [] n @ pcm"
proof -
  have "length pcm mod 2 = 0" using assms(4) by (simp add: even_iff_mod_2_eq_zero)
  with assms(1-3,5) show ?thesis
    by (simp add: make_pcm16_mono_wav_def Let_def append32_eq append16_eq append_text_def wav_text_def n_def
        not_less)
qed

text \<open>C27. A recorded voice is a well-formed WAV file: for every supported sample rate and every
  non-empty, even-sized recording that fits the 32-bit sizes, the framing yields 44 header bytes
  and the samples, and a reader of the format recovers the sample rate and exactly the samples;
  every other input yields no bytes at all.\<close>

theorem wav_round_trip:
  "if 8000 \<le> rate \<and> rate \<le> 192000 \<and> pcm \<noteq> [] \<and> even (length pcm) \<and> length pcm \<le> 4294967259
   then length (make_pcm16_mono_wav pcm rate) = 44 + length pcm
        \<and> read_wav (make_pcm16_mono_wav pcm rate) = Some (rate, pcm)
   else make_pcm16_mono_wav pcm rate = []"
proof (cases "8000 \<le> rate \<and> rate \<le> 192000 \<and> pcm \<noteq> [] \<and> even (length pcm) \<and> length pcm \<le> 4294967259")
  case True
  let ?n = "word_of_nat (length pcm) :: u32"
  have small: "unat ?n = length pcm" "unat (36 + ?n) = 36 + length pcm"
    using True by (simp_all add: unat_of_nat unat_plus_if' take_bit_nat_eq_self)
  have w: "make_pcm16_mono_wav pcm rate =
     wav_text ''RIFF'' @ append32 [] (36 + ?n) @ wav_text ''WAVEfmt '' @ append32 [] 16 @ append16 [] 1
     @ append16 [] 1 @ append32 [] rate @ append32 [] (rate * 2) @ append16 [] 2 @ append16 [] 16
     @ wav_text ''data'' @ append32 [] ?n @ pcm"
    using True by (intro make_wav_shape) auto
  have len: "length (make_pcm16_mono_wav pcm rate) = 44 + length pcm"
    unfolding w by (simp add: append32_eq append16_eq wav_text_def)
  have fields:
    "take 4 (make_pcm16_mono_wav pcm rate) = wav_text ''RIFF''"
    "take 8 (drop 8 (make_pcm16_mono_wav pcm rate)) = wav_text ''WAVEfmt ''"
    "take 4 (drop 36 (make_pcm16_mono_wav pcm rate)) = wav_text ''data''"
    "drop 44 (make_pcm16_mono_wav pcm rate) = pcm"
    unfolding w by (simp_all add: append32_eq append16_eq wav_text_def)
  have words:
    "le32 (make_pcm16_mono_wav pcm rate) 4 = 36 + ?n" "le32 (make_pcm16_mono_wav pcm rate) 16 = 16"
    "le32 (make_pcm16_mono_wav pcm rate) 24 = rate" "le32 (make_pcm16_mono_wav pcm rate) 28 = rate * 2"
    "le32 (make_pcm16_mono_wav pcm rate) 40 = ?n"
    "le16 (make_pcm16_mono_wav pcm rate) 20 = 1" "le16 (make_pcm16_mono_wav pcm rate) 22 = 1"
    "le16 (make_pcm16_mono_wav pcm rate) 32 = 2" "le16 (make_pcm16_mono_wav pcm rate) 34 = 16"
    unfolding w by (simp_all only: append32_eq append16_eq wav_text_def le32_def le16_def)
      (simp_all add: le32_bytes le16_bytes)
  show ?thesis
    using True len by (simp add: read_wav_def fields words small)
next
  case False
  then have "make_pcm16_mono_wav pcm rate = []"
    by (auto simp: make_pcm16_mono_wav_def not_less even_iff_mod_2_eq_zero)
  with False show ?thesis by simp
qed

section \<open>Voice activity\<close>

text \<open>A little-endian sample: the two bytes as \<open>uint16_t\<close>, reinterpreted as \<open>int16_t\<close>.\<close>

definition pcm_sample :: "byte_t \<Rightarrow> byte_t \<Rightarrow> int" where
  "pcm_sample lo hi = sint (ucast lo OR push_bit 8 (ucast hi) :: u16)"

fun sum_squares :: "byte_t list \<Rightarrow> u64 \<Rightarrow> u64" where
  "sum_squares (lo # hi # pcm) squares =
     sum_squares pcm (squares + word_of_int (pcm_sample lo hi * pcm_sample lo hi))"
| "sum_squares _ squares = squares"

definition pcm16_has_voice :: "byte_t list \<Rightarrow> u16 \<Rightarrow> bool" where
  "pcm16_has_voice pcm rms_threshold =
     (if length pcm < 2 \<or> length pcm mod 2 \<noteq> 0 \<or> rms_threshold = 0 then False
      else (ucast rms_threshold :: u64) * ucast rms_threshold
             \<le> sum_squares pcm 0 div word_of_nat (length pcm div 2))"

fun peak_magnitude :: "byte_t list \<Rightarrow> nat \<Rightarrow> nat" where
  "peak_magnitude (lo # hi # pcm) peak = peak_magnitude pcm (max peak (nat \<bar>pcm_sample lo hi\<bar>))"
| "peak_magnitude _ peak = peak"

definition pcm16_peak :: "byte_t list \<Rightarrow> nat" where
  "pcm16_peak pcm =
     (if length pcm < 2 \<or> length pcm mod 2 \<noteq> 0 then 0 else min (peak_magnitude pcm 0) 32767)"

text \<open>The samples of a recording and their exact energy.\<close>

fun pcm_samples :: "byte_t list \<Rightarrow> int list" where
  "pcm_samples (lo # hi # pcm) = pcm_sample lo hi # pcm_samples pcm"
| "pcm_samples _ = []"

definition energy :: "byte_t list \<Rightarrow> nat" where
  "energy pcm = (\<Sum>s \<leftarrow> pcm_samples pcm. nat (s * s))"

lemma length_pcm_samples [simp]: "length (pcm_samples pcm) = length pcm div 2"
  by (induction pcm rule: pcm_samples.induct) auto

lemma pcm_sample_bounds: "- 32768 \<le> pcm_sample lo hi" "pcm_sample lo hi \<le> 32767"
  using sint_greater_eq [of "ucast lo OR push_bit 8 (ucast hi) :: u16"]
    sint_less [of "ucast lo OR push_bit 8 (ucast hi) :: u16"]
  by (simp_all add: pcm_sample_def)

lemma sample_square_le: "nat (pcm_sample lo hi * pcm_sample lo hi) \<le> 2 ^ 30"
proof -
  have "\<bar>pcm_sample lo hi\<bar> \<le> 32768" using pcm_sample_bounds [of lo hi] by linarith
  then have "\<bar>pcm_sample lo hi\<bar> * \<bar>pcm_sample lo hi\<bar> \<le> 32768 * 32768"
    by (intro mult_mono) auto
  then show ?thesis by (simp add: abs_mult_self_eq)
qed

lemma energy_le: "energy pcm \<le> 2 ^ 30 * (length pcm div 2)"
proof (induction pcm rule: pcm_samples.induct)
  case (1 lo hi pcm)
  then show ?case using sample_square_le [of lo hi] by (simp add: energy_def)
qed (simp_all add: energy_def)

lemma sum_squares_eq: "sum_squares pcm acc = acc + word_of_nat (energy pcm)"
proof (induction pcm acc rule: sum_squares.induct)
  case (1 lo hi pcm acc)
  have "(word_of_int (pcm_sample lo hi * pcm_sample lo hi) :: u64)
      = word_of_nat (nat (pcm_sample lo hi * pcm_sample lo hi))"
    by (simp add: of_nat_nat)
  with 1 show ?case by (simp add: energy_def)
qed (simp_all add: energy_def)

text \<open>C28. Voice activity is decided on the exact energy: for any recording shorter than 2^34 bytes
  the 64-bit accumulation cannot wrap, so a well-formed recording has voice exactly when the
  mean square of its samples reaches the square of the threshold.\<close>

theorem has_voice_exact:
  assumes "length pcm < 2 ^ 34"
  shows "pcm16_has_voice pcm threshold =
    (pcm \<noteq> [] \<and> even (length pcm) \<and> threshold \<noteq> 0
     \<and> unat threshold ^ 2 \<le> energy pcm div (length pcm div 2))"
proof (cases "length pcm < 2 \<or> odd (length pcm)")
  case True
  then show ?thesis
    by (cases pcm) (auto simp: pcm16_has_voice_def odd_iff_mod_2_eq_one even_iff_mod_2_eq_zero)
next
  case False
  have n: "length pcm div 2 < 2 ^ 33" using assms by simp
  then have "2 ^ 30 * (length pcm div 2) < 2 ^ 30 * 2 ^ 33" by (rule mult_strict_left_mono) simp
  then have "energy pcm < 2 ^ 64" using energy_le [of pcm] by simp
  then have e: "unat (word_of_nat (energy pcm) :: u64) = energy pcm"
    by (simp add: unat_of_nat take_bit_nat_eq_self)
  have l: "unat (word_of_nat (length pcm div 2) :: u64) = length pcm div 2"
    using n by (simp add: unat_of_nat take_bit_nat_eq_self)
  have t: "unat ((ucast threshold :: u64) * ucast threshold) = unat threshold ^ 2"
  proof -
    have small: "unat threshold < 2 ^ 16" using unsigned_less [of threshold, where 'a = nat] by simp
    then have "unat threshold * unat threshold < 2 ^ 16 * 2 ^ 16" by (intro mult_strict_mono) auto
    moreover have "take_bit 64 (unat threshold) = unat threshold"
      by (rule take_bit_nat_eq_self) (use small in simp)
    ultimately show ?thesis
      by (simp add: unat_word_ariths power2_eq_square unsigned_ucast_eq take_bit_nat_eq_self)
  qed
  have "(ucast threshold :: u64) * ucast threshold \<le> sum_squares pcm 0 div word_of_nat (length pcm div 2)
      \<longleftrightarrow> unat threshold ^ 2 \<le> energy pcm div (length pcm div 2)"
    by (simp add: word_le_nat_alt t unat_div e l sum_squares_eq)
  with False show ?thesis
    by (auto simp: pcm16_has_voice_def even_iff_mod_2_eq_zero)
qed

theorem has_voice_exact_witness:
  "pcm16_has_voice [0, 4, 0, 252] 700 = True"
proof -
  have "energy [0, 4, 0, 252] = 2097152" by code_simp
  then show ?thesis
    using has_voice_exact [of "[0, 4, 0, 252]" 700] by (simp add: numeral_2_eq_2 [symmetric])
qed

end
