(* ===== verification/Voice_Capture.thy ===== *)
theory Voice_Capture
  imports Voice_Audio "HOL-Library.Sublist"
begin

text \<open>
  \<open>VoiceCaptureService\<close> of \<open>voice_capture.cpp\<close>: the state under \<open>m_mutex\<close> with the worker
  thread, and the buffer handling of \<open>capture\<close>. The recording operating-system calls are not
  modelled: their outcome is the argument of a step of the worker. A step of the service is one
  critical section; \<open>join\<close> waits until the worker has finished, so the steps that join are
  enabled, or continue, only then.
\<close>

record captured_voice =
  cv_wav :: "byte_t list"
  cv_sha256 :: string
  cv_duration_ms :: u64
  cv_pcm_bytes :: nat
  cv_peak_amplitude :: nat
  cv_rms_amplitude :: u16
  cv_device_id :: int
  cv_device_name :: string

datatype voice_capture_state = VC_unsupported | VC_idle | VC_recording | VC_ready | VC_failed

section \<open>Buffering\<close>

definition sample_rate_hz :: nat where "sample_rate_hz = 16000"
definition minimum_pcm_bytes :: nat where "minimum_pcm_bytes = sample_rate_hz * 2 div 10"
definition pre_roll_bytes :: nat where "pre_roll_bytes = sample_rate_hz * 2 * 300 div 1000"

record capture_buffer =
  cb_pcm :: "byte_t list"
  cb_heard_voice :: bool
  cb_voiced_buffers :: nat
  cb_speech_start :: nat

definition empty_capture :: capture_buffer where
  "empty_capture = \<lparr>cb_pcm = [], cb_heard_voice = False, cb_voiced_buffers = 0, cb_speech_start = 0\<rparr>"

text \<open>One completed device buffer.\<close>

definition capture_chunk :: "bool \<Rightarrow> u16 \<Rightarrow> byte_t list \<Rightarrow> capture_buffer \<Rightarrow> capture_buffer" where
  "capture_chunk automatic rms_threshold chunk b =
     (let b = (if automatic \<and> pcm16_has_voice chunk rms_threshold
               then b\<lparr>cb_speech_start :=
                        (if \<not> cb_heard_voice b
                         then if pre_roll_bytes < length (cb_pcm b) then length (cb_pcm b) - pre_roll_bytes else 0
                         else cb_speech_start b),
                      cb_heard_voice := True,
                      cb_voiced_buffers := cb_voiced_buffers b + 1\<rparr>
               else b)
      in b\<lparr>cb_pcm := cb_pcm b @ chunk\<rparr>)"

text \<open>The rest of \<open>capture\<close> once the device is closed: the failure reason, or the result.\<close>

definition finish_capture ::
  "bool \<Rightarrow> u16 \<Rightarrow> int \<Rightarrow> string \<Rightarrow> capture_buffer \<Rightarrow> string + captured_voice"
where
  "finish_capture automatic rms device_id device_name b =
     (let peak = pcm16_peak (cb_pcm b) in
      if automatic \<and> \<not> cb_heard_voice b then Inl ''voice_not_detected''
      else
        let pcm = (if automatic \<and> cb_speech_start b < length (cb_pcm b)
                   then drop (cb_speech_start b) (cb_pcm b) else cb_pcm b)
        in if length pcm < minimum_pcm_bytes then Inl ''captured_audio_too_short''
           else
             let pcm = (if length pcm mod 2 \<noteq> 0 then butlast pcm else pcm);
                 wav = make_pcm16_mono_wav pcm 16000
             in Inr \<lparr>cv_wav = wav, cv_sha256 = sha256_hex wav,
                     cv_duration_ms = word_of_nat (length pcm) * 1000 div word_of_nat (sample_rate_hz * 2),
                     cv_pcm_bytes = length pcm, cv_peak_amplitude = peak, cv_rms_amplitude = rms,
                     cv_device_id = device_id, cv_device_name = device_name\<rparr>)"

lemma capture_chunk_simps:
  "cb_pcm (capture_chunk a t c b) = cb_pcm b @ c"
  "cb_heard_voice (capture_chunk a t c b) = (cb_heard_voice b \<or> a \<and> pcm16_has_voice c t)"
  "cb_speech_start (capture_chunk a t c b) =
     (if a \<and> pcm16_has_voice c t \<and> \<not> cb_heard_voice b then length (cb_pcm b) - pre_roll_bytes
      else cb_speech_start b)"
  by (auto simp: capture_chunk_def Let_def)

lemma capture_silent:
  "\<forall>c \<in> set chunks. \<not> pcm16_has_voice c t \<Longrightarrow>
   fold (capture_chunk True t) chunks b = b\<lparr>cb_pcm := cb_pcm b @ concat chunks\<rparr>"
  by (induction chunks arbitrary: b) (simp_all add: capture_chunk_def)

lemma capture_heard:
  "cb_heard_voice b \<Longrightarrow>
   cb_pcm (fold (capture_chunk True t) chunks b) = cb_pcm b @ concat chunks
   \<and> cb_heard_voice (fold (capture_chunk True t) chunks b)
   \<and> cb_speech_start (fold (capture_chunk True t) chunks b) = cb_speech_start b"
  by (induction chunks arbitrary: b) (simp_all add: capture_chunk_simps)

lemma minimum_pcm_bytes_value: "minimum_pcm_bytes = 3200" "pre_roll_bytes = 9600"
  by (simp_all add: minimum_pcm_bytes_def pre_roll_bytes_def sample_rate_hz_def)

text \<open>C29. Automatic capture keeps the speech: when the first chunk with voice is preceded by silent
  chunks, the recording that is framed consists of at most the last 300 ms of the silence, that
  chunk and everything after it (less an odd last byte), it fails only when this is shorter than
  the 3200-byte minimum, and without any voiced chunk it fails as not detected.\<close>

theorem automatic_capture_keeps_speech:
  assumes "\<forall>c \<in> set before. \<not> pcm16_has_voice c t" and "pcm16_has_voice first t"
  shows "(let kept = drop (length (concat before) - 9600) (concat before) @ first @ concat after
     in case finish_capture True rms dev name (fold (capture_chunk True t) (before @ first # after) empty_capture) of
          Inl reason \<Rightarrow> length kept < 3200 \<and> reason = ''captured_audio_too_short''
        | Inr v \<Rightarrow> 3200 \<le> length kept
            \<and> cv_wav v = make_pcm16_mono_wav (take (2 * (length kept div 2)) kept) 16000
            \<and> cv_pcm_bytes v = 2 * (length kept div 2))
     \<and> finish_capture True rms dev name (fold (capture_chunk True t) before empty_capture) = Inl ''voice_not_detected''"
proof -
  let ?start = "length (concat before) - 9600"
  let ?kept = "drop ?start (concat before) @ first @ concat after"
  let ?mid = "capture_chunk True t first (fold (capture_chunk True t) before empty_capture)"
  let ?b = "fold (capture_chunk True t) (before @ first # after) empty_capture"
  have silent: "fold (capture_chunk True t) before empty_capture = empty_capture\<lparr>cb_pcm := concat before\<rparr>"
    using capture_silent [OF assms(1), of empty_capture] by (simp add: empty_capture_def)
  have mid: "cb_pcm ?mid = concat before @ first" "cb_heard_voice ?mid" "cb_speech_start ?mid = ?start"
    unfolding silent using assms(2)
    by (simp_all add: capture_chunk_simps minimum_pcm_bytes_value) (simp_all add: empty_capture_def)
  have b: "cb_pcm ?b = concat before @ first @ concat after" "cb_heard_voice ?b" "cb_speech_start ?b = ?start"
    using capture_heard [OF mid(2), of t after] mid by simp_all
  have "first \<noteq> []" using assms(2) by (auto simp: pcm16_has_voice_def)
  then have start: "?start < length (cb_pcm ?b)" unfolding b(1) by (cases first) auto
  have kept: "drop ?start (cb_pcm ?b) = ?kept" unfolding b(1) by simp
  have even: "(if length xs mod 2 \<noteq> 0 then butlast xs else xs) = take (2 * (length xs div 2)) xs" for xs :: "byte_t list"
    by (auto simp: butlast_conv_take minus_mod_eq_mult_div [symmetric])
  have len: "length (take (2 * (length xs div 2)) xs) = 2 * (length xs div 2)" for xs :: "byte_t list"
    by simp
  define K where "K = ?kept"
  have finish: "finish_capture True rms dev name ?b =
     (if length K < 3200 then Inl ''captured_audio_too_short''
      else let pcm = take (2 * (length K div 2)) K; wav = make_pcm16_mono_wav pcm 16000
           in Inr \<lparr>cv_wav = wav, cv_sha256 = sha256_hex wav,
                   cv_duration_ms = word_of_nat (length pcm) * 1000 div word_of_nat (sample_rate_hz * 2),
                   cv_pcm_bytes = length pcm, cv_peak_amplitude = pcm16_peak (cb_pcm ?b), cv_rms_amplitude = rms,
                   cv_device_id = dev, cv_device_name = name\<rparr>)"
    unfolding finish_capture_def Let_def even minimum_pcm_bytes_value K_def kept [symmetric] using b(2,3) start
    by (simp del: length_append length_drop length_concat)
  have undetected:
    "finish_capture True rms dev name (fold (capture_chunk True t) before empty_capture) = Inl ''voice_not_detected''"
    unfolding silent by (simp add: finish_capture_def empty_capture_def)
  show ?thesis
    unfolding Let_def finish undetected K_def [symmetric] by (simp add: len del: length_take)
qed

definition sample_voice :: "byte_t list" where
  "sample_voice = concat (replicate 800 [0, 4, 0, 252])"

lemma sample_voice_facts:
  "length sample_voice = 3200" "pcm16_has_voice sample_voice 700" "\<not> pcm16_has_voice [0, 0] 700"
proof -
  show l: "length sample_voice = 3200" by (simp add: sample_voice_def length_concat sum_list_replicate)
  have e: "energy (concat (replicate n [0, 4, 0, 252])) = n * 2097152" for n
  proof (induction n)
    case (Suc n)
    have "nat (pcm_sample 0 4 * pcm_sample 0 4) = 1048576" "nat (pcm_sample 0 252 * pcm_sample 0 252) = 1048576"
      by code_simp+
    with Suc show ?case by (simp add: energy_def)
  qed (simp add: energy_def)
  have "sample_voice \<noteq> []" using l by auto
  then have "unat (700 :: u16) ^ 2 \<le> energy sample_voice div (length sample_voice div 2)"
    by (simp add: l) (simp add: sample_voice_def e)
  then show "pcm16_has_voice sample_voice 700"
    using l \<open>sample_voice \<noteq> []\<close>
    by (simp add: pcm16_has_voice_def word_le_nat_alt unat_div sum_squares_eq)
       (simp add: sample_voice_def e)
  show "\<not> pcm16_has_voice [0, 0] 700" by code_simp
qed

theorem automatic_capture_keeps_speech_witness:
  "case finish_capture True 5 (- 1) ''mic''
      (fold (capture_chunk True 700) [[0, 0], sample_voice, [7]] empty_capture) of
     Inl _ \<Rightarrow> False | Inr v \<Rightarrow> cv_pcm_bytes v = 3202"
proof -
  have "\<forall>c \<in> set [[0, 0]]. \<not> pcm16_has_voice c 700" using sample_voice_facts(3) by simp
  from automatic_capture_keeps_speech [OF this sample_voice_facts(2), where rms = 5 and dev = "- 1" and name = "''mic''" and after = "[[7]]"]
  show ?thesis by (auto simp: sample_voice_facts(1) Let_def split: sum.splits)
qed

section \<open>The service\<close>

datatype worker_state = Worker_none | Worker_running | Worker_finished

record voice_service =
  vs_worker :: worker_state
  vs_stop :: bool
  vs_automatic :: bool
  vs_voice_detected :: bool
  vs_rms_threshold :: u16
  vs_trailing_silence_ms :: u32
  vs_device_id :: int
  vs_captured_pcm_bytes :: nat
  vs_peak_amplitude :: u16
  vs_rms_amplitude :: u16
  vs_state :: voice_capture_state
  vs_ready :: "captured_voice option"
  vs_error :: string
  vs_device_name :: string

definition voice_service_new :: "bool \<Rightarrow> voice_service" where
  "voice_service_new supported =
     \<lparr>vs_worker = Worker_none, vs_stop = False, vs_automatic = False, vs_voice_detected = False,
      vs_rms_threshold = 700, vs_trailing_silence_ms = 900, vs_device_id = - 1,
      vs_captured_pcm_bytes = 0, vs_peak_amplitude = 0, vs_rms_amplitude = 0,
      vs_state = (if supported then VC_idle else VC_unsupported), vs_ready = None,
      vs_error = [], vs_device_name = ''Windows default''\<rparr>"

text \<open>\<open>start\<close>; \<open>supported\<close>, the number of devices and the device name come from the operating
  system. The worker of an earlier recording has finished when the state is not recording, so
  the join in the middle does not wait.\<close>

definition voice_start ::
  "bool \<Rightarrow> nat \<Rightarrow> string \<Rightarrow> bool \<Rightarrow> u16 \<Rightarrow> u32 \<Rightarrow> int \<Rightarrow> voice_service \<Rightarrow> voice_service \<times> unit result"
where
  "voice_start supported device_count device_name automatic rms_threshold trailing device_id s =
     (if \<not> supported
      then (s, Inl (simple_error EC_invalid_argument ''voice capture is available only on Windows''))
      else if rms_threshold < 100 \<or> 5000 < rms_threshold \<or> trailing < 500 \<or> 5000 < trailing
         \<or> device_id < - 1 \<or> (0 \<le> device_id \<and> device_count \<le> nat device_id)
      then (s, Inl (simple_error EC_invalid_argument ''invalid voice activity settings''))
      else if vs_state s = VC_recording
      then (s, Inl (simple_error EC_invalid_argument ''voice capture is already recording''))
      else
        (s\<lparr>vs_stop := False, vs_automatic := automatic, vs_voice_detected := False,
           vs_rms_threshold := rms_threshold, vs_trailing_silence_ms := trailing,
           vs_device_id := device_id, vs_captured_pcm_bytes := 0, vs_peak_amplitude := 0,
           vs_rms_amplitude := 0, vs_device_name := device_name, vs_ready := None, vs_error := [],
           vs_state := VC_recording, vs_worker := Worker_running\<rparr>, Inr ()))"

definition voice_stop :: "voice_service \<Rightarrow> voice_service" where
  "voice_stop s = s\<lparr>vs_stop := True\<rparr>"

text \<open>The last section of \<open>halt\<close>, after \<open>stop()\<close> and the join.\<close>

definition voice_halt_finish :: "bool \<Rightarrow> voice_service \<Rightarrow> voice_service" where
  "voice_halt_finish supported s =
     s\<lparr>vs_worker := Worker_none, vs_ready := None, vs_error := [], vs_automatic := False,
       vs_voice_detected := False, vs_state := (if supported then VC_idle else VC_unsupported)\<rparr>"

definition voice_take_ready :: "voice_service \<Rightarrow> voice_service \<times> captured_voice option" where
  "voice_take_ready s =
     (if vs_state s \<noteq> VC_ready \<or> vs_ready s = None then (s, None)
      else (s\<lparr>vs_ready := None, vs_state := VC_idle, vs_worker := Worker_none\<rparr>, vs_ready s))"

definition voice_publish :: "captured_voice \<Rightarrow> voice_service \<Rightarrow> voice_service" where
  "voice_publish v s = s\<lparr>vs_ready := Some v, vs_error := [], vs_state := VC_ready\<rparr>"

definition voice_fail :: "string \<Rightarrow> voice_service \<Rightarrow> voice_service" where
  "voice_fail reason s = s\<lparr>vs_ready := None, vs_error := reason, vs_state := VC_failed\<rparr>"

definition captured_bytes :: "voice_service \<Rightarrow> nat" where
  "captured_bytes s = (case vs_ready s of None \<Rightarrow> 0 | Some v \<Rightarrow> length (cv_wav v))"

definition voice_duration_ms :: "voice_service \<Rightarrow> u64" where
  "voice_duration_ms s = (case vs_ready s of None \<Rightarrow> 0 | Some v \<Rightarrow> cv_duration_ms v)"

text \<open>The worker ends by publishing or failing; nothing else of it touches the locked state.\<close>

datatype voice_op =
    VoStart nat string bool u16 u32 int
  | VoStop
  | VoHaltFinish
  | VoTake
  | VoWorkerPublish captured_voice
  | VoWorkerFail string

text \<open>\<^const>\<open>None\<close>: the step is not enabled (a join that still waits, or no running worker). The log
  holds what was published and what was taken.\<close>

fun voice_step ::
  "bool \<Rightarrow> voice_op \<Rightarrow> voice_service \<times> captured_voice list \<times> captured_voice list \<Rightarrow>
   (voice_service \<times> captured_voice list \<times> captured_voice list) option"
where
  "voice_step win (VoStart n name a t q d) (s, published, taken) =
     Some (fst (voice_start win n name a t q d s), published, taken)"
| "voice_step win VoStop (s, published, taken) = Some (voice_stop s, published, taken)"
| "voice_step win VoHaltFinish (s, published, taken) =
     (if vs_worker s = Worker_running then None else Some (voice_halt_finish win s, published, taken))"
| "voice_step win VoTake (s, published, taken) =
     (let (s', r) = voice_take_ready s
      in Some (s', published, case r of None \<Rightarrow> taken | Some v \<Rightarrow> taken @ [v]))"
| "voice_step win (VoWorkerPublish v) (s, published, taken) =
     (if vs_worker s = Worker_running
      then Some ((voice_publish v s)\<lparr>vs_worker := Worker_finished\<rparr>, published @ [v], taken) else None)"
| "voice_step win (VoWorkerFail r) (s, published, taken) =
     (if vs_worker s = Worker_running
      then Some ((voice_fail r s)\<lparr>vs_worker := Worker_finished\<rparr>, published, taken) else None)"

inductive voice_reachable ::
  "bool \<Rightarrow> voice_service \<times> captured_voice list \<times> captured_voice list \<Rightarrow> bool" for win where
  start: "voice_reachable win (voice_service_new win, [], [])"
| step: "voice_reachable win x \<Longrightarrow> voice_step win op x = Some y \<Longrightarrow> voice_reachable win y"

definition pending_voice :: "voice_service \<Rightarrow> captured_voice list" where
  "pending_voice s = (case vs_ready s of None \<Rightarrow> [] | Some v \<Rightarrow> [v])"

definition voice_inv :: "bool \<Rightarrow> voice_service \<times> captured_voice list \<times> captured_voice list \<Rightarrow> bool" where
  "voice_inv win = (\<lambda>(s, published, taken).
     (vs_ready s \<noteq> None \<longleftrightarrow> vs_state s = VC_ready)
     \<and> (vs_worker s = Worker_running \<longleftrightarrow> vs_state s = VC_recording)
     \<and> (vs_error s \<noteq> [] \<longrightarrow> vs_state s = VC_failed)
     \<and> (vs_state s = VC_unsupported \<longleftrightarrow> \<not> win)
     \<and> subseq (taken @ pending_voice s) published)"

lemma subseq_dropD: "subseq (xs @ ys) zs \<Longrightarrow> subseq xs zs"
  by (metis subseq_order.trans subseq_rev_drop_many subseq_order.order_refl list_emb_append2 append_Nil2 list_emb_Nil subseq_append_iff)

lemma voice_step_inv: "voice_inv win x \<Longrightarrow> voice_step win op x = Some y \<Longrightarrow> voice_inv win y"
proof (cases x)
  case (fields s published taken)
  assume inv: "voice_inv win x" and step: "voice_step win op x = Some y"
  then have taken: "subseq taken published" by (auto simp: voice_inv_def fields intro: subseq_dropD)
  show ?thesis
  proof (cases op)
    case (VoStart n name a t q d)
    with inv step show ?thesis
      by (cases y) (use taken in \<open>auto simp: fields voice_inv_def voice_start_def pending_voice_def split: if_splits\<close>)
  next
    case VoStop
    with inv step show ?thesis by (auto simp: fields voice_inv_def voice_stop_def pending_voice_def)
  next
    case VoHaltFinish
    with inv step show ?thesis
      by (cases y) (use taken in \<open>auto simp: fields voice_inv_def voice_halt_finish_def pending_voice_def split: if_splits\<close>)
  next
    case VoTake
    with inv step show ?thesis
      by (auto simp: fields voice_inv_def voice_take_ready_def pending_voice_def split: option.splits if_splits)
  next
    case (VoWorkerPublish v)
    with inv step show ?thesis
      by (auto simp: fields voice_inv_def voice_publish_def pending_voice_def split: option.splits if_splits)
  next
    case (VoWorkerFail r)
    with inv step show ?thesis
      by (cases y) (use taken in \<open>auto simp: fields voice_inv_def voice_fail_def pending_voice_def split: if_splits\<close>)
  qed
qed

text \<open>A recording is handed out at most once and never after it was discarded: in every state
  reachable by interleaving the engine's calls with the worker, the results taken are a
  subsequence of those published, a result is waiting exactly in the ready state, the worker
  runs exactly in the recording state, and on an unsupported platform the service never leaves
  its unsupported state.\<close>

theorem voice_results_taken_once:
  assumes "voice_reachable supported (s, published, taken)"
  shows "subseq taken published
    \<and> (vs_ready s \<noteq> None) = (vs_state s = VC_ready)
    \<and> (vs_worker s = Worker_running) = (vs_state s = VC_recording)
    \<and> (vs_state s = VC_unsupported) = (\<not> supported)"
proof -
  have "voice_inv supported (s, published, taken)"
    using assms
  proof (induction "(s, published, taken)" arbitrary: s published taken rule: voice_reachable.induct)
    case start
    show ?case by (simp add: voice_inv_def voice_service_new_def pending_voice_def)
  next
    case (step x op)
    then show ?case using voice_step_inv by (cases x) blast
  qed
  then show ?thesis by (auto simp: voice_inv_def intro: subseq_dropD)
qed

definition sample_captured :: captured_voice where
  "sample_captured = \<lparr>cv_wav = [1], cv_sha256 = ''x'', cv_duration_ms = 1, cv_pcm_bytes = 2,
     cv_peak_amplitude = 3, cv_rms_amplitude = 4, cv_device_id = 0, cv_device_name = ''mic''\<rparr>"

theorem voice_results_taken_once_witness:
  "\<exists>s. voice_reachable True (s, [sample_captured], [sample_captured]) \<and> vs_ready s = None"
proof -
  let ?s1 = "fst (voice_start True 1 ''mic'' False 700 900 0 (voice_service_new True))"
  let ?s2 = "(voice_publish sample_captured ?s1)\<lparr>vs_worker := Worker_finished\<rparr>"
  have "voice_reachable True (?s1, [], [])"
    by (rule voice_reachable.step [OF voice_reachable.start, where op = "VoStart 1 ''mic'' False 700 900 0"]) simp
  then have "voice_reachable True (?s2, [sample_captured], [])"
    by (rule voice_reachable.step [where op = "VoWorkerPublish sample_captured"])
      (simp add: voice_start_def voice_service_new_def)
  then have r: "voice_reachable True (fst (voice_take_ready ?s2), [sample_captured], [sample_captured])"
    by (rule voice_reachable.step [where op = VoTake])
      (simp add: voice_take_ready_def voice_publish_def)
  from voice_results_taken_once [OF this] have "vs_ready (fst (voice_take_ready ?s2)) = None"
    by (simp add: voice_take_ready_def voice_publish_def)
  with r show ?thesis by blast
qed

end
