(* ===== verification/Json_Props.thy ===== *)
theory Json_Props
  imports Json
begin

text \<open>
  What the JSON parser guarantees about every document it accepts: bounded depth and value
  count, 64-bit integers, finite doubles, valid and bounded UTF-8 strings, and objects whose
  keys are distinct and in ascending order.
\<close>

section \<open>The invariant of parsed values\<close>

definition int64_range :: "int \<Rightarrow> bool" where
  "int64_range i \<longleftrightarrow> - (2 ^ 63) \<le> i \<and> i < 2 ^ 63"

definition string_ok :: "parse_limits \<Rightarrow> string \<Rightarrow> bool" where
  "string_ok limits s \<longleftrightarrow> is_valid_utf8 s \<and> length s \<le> maximumStringBytes limits"

definition keys_ascending :: "json_object \<Rightarrow> bool" where
  "keys_ascending m \<longleftrightarrow> sorted_wrt (<) (map fst m)"

text \<open>A value that stands at nesting depth \<open>d\<close>.\<close>

fun json_ok :: "parse_limits \<Rightarrow> nat \<Rightarrow> json \<Rightarrow> bool" where
  "json_ok limits d JNull = True"
| "json_ok limits d (JBool b) = True"
| "json_ok limits d (JInt i) = int64_range i"
| "json_ok limits d (JDouble x) = is_finite x"
| "json_ok limits d (JString s) = string_ok limits s"
| "json_ok limits d (JArray xs) =
     (d < maximumDepth limits \<and> (\<forall>x \<in> set xs. json_ok limits (d + 1) x))"
| "json_ok limits d (JObject m) =
     (d < maximumDepth limits \<and> keys_ascending m
      \<and> (\<forall>p \<in> set m. string_ok limits (fst p) \<and> json_ok limits (d + 1) (snd p)))"

text \<open>The number of values in a document, as \<open>m_values\<close> counts them.\<close>

fun json_size :: "json \<Rightarrow> nat" where
  "json_size (JArray xs) = Suc (sum_list (map json_size xs))"
| "json_size (JObject m) = Suc (sum_list (map (\<lambda>p. json_size (snd p)) m))"
| "json_size _ = 1"

section \<open>Ordered objects\<close>

lemma set_insert_sorted: "set (insert_sorted k v m) = insert (k, v) (set m)"
proof (induction m)
  case (Cons p m)
  then show ?case by (cases p) (auto split: if_splits)
qed simp

lemma keys_insert_sorted: "set (map fst (insert_sorted k v m)) = insert k (set (map fst m))"
  by (simp add: set_insert_sorted image_set [symmetric])

lemma keys_ascending_insert:
  "keys_ascending m \<Longrightarrow> k \<notin> set (map fst m) \<Longrightarrow> keys_ascending (insert_sorted k v m)"
proof (induction m)
  case Nil
  then show ?case by (simp add: keys_ascending_def)
next
  case (Cons p m)
  obtain k' v' where p: "p = (k', v')" by (cases p)
  have IH: "keys_ascending (insert_sorted k v m)"
    using Cons by (simp add: keys_ascending_def)
  have below: "\<forall>x \<in> set (map fst m). k' < x" using Cons.prems by (simp add: p keys_ascending_def)
  show ?case
  proof (cases "k < k'")
    case True
    with Cons.prems below show ?thesis by (auto simp: p keys_ascending_def)
  next
    case False
    with Cons.prems have "k' < k" by (auto simp: p)
    with below have "\<forall>x \<in> set (map fst (insert_sorted k v m)). k' < x"
      unfolding keys_insert_sorted by simp
    with False IH show ?thesis by (simp add: p keys_ascending_def)
  qed
qed

lemma keys_ascending_distinct: "keys_ascending m \<Longrightarrow> keys_distinct m"
  by (simp add: keys_ascending_def strict_sorted_iff)

lemma map_of_insert_sorted:
  "k \<notin> set (map fst m) \<Longrightarrow> map_of (insert_sorted k v m) = (map_of m)(k \<mapsto> v)"
  by (induction m) (auto simp: fun_eq_iff)

lemma json_size_insert_sorted:
  "sum_list (map (\<lambda>p. json_size (snd p)) (insert_sorted k v m)) =
   json_size v + sum_list (map (\<lambda>p. json_size (snd p)) m)"
  by (induction m) auto

lemma object_emplace_SomeD:
  assumes "object_emplace k v m = Some m'"
  shows "m' = insert_sorted k v m" "k \<notin> set (map fst m)"
  using assms by (auto simp: object_emplace_def map_of_eq_None_iff split: if_splits)

section \<open>Scalars\<close>

lemma string_loop_ok:
  "string_loop limit s out = Inr (str, t) \<Longrightarrow> is_valid_utf8 str \<and> length str \<le> limit"
  by (induction limit s out rule: string_loop.induct)
    (auto simp: and_then_Inr_iff split: if_splits option.splits)

lemma parse_string_ok: "parse_string (maximumStringBytes limits) s = Inr (str, t) \<Longrightarrow> string_ok limits str"
  by (auto simp: parse_string_def string_ok_def dest: string_loop_ok split: list.splits if_splits)

lemma round_to_double_finite: "round_to_double q = Some d \<Longrightarrow> is_finite d"
  by (auto simp: round_to_double_def Let_def split: if_splits)

definition scalar_ok :: "parse_limits \<Rightarrow> json \<Rightarrow> bool" where
  "scalar_ok limits v \<longleftrightarrow> (\<forall>d. json_ok limits d v) \<and> json_size v = 1"

lemma parse_literal_ok:
  "parse_literal l v s = Inr (w, t) \<Longrightarrow> v \<in> {JNull, JBool True, JBool False} \<Longrightarrow> scalar_ok limits w"
  by (auto simp: parse_literal_def scalar_ok_def split: if_splits)

lemma parse_number_ok: "parse_number s = Inr (v, t) \<Longrightarrow> scalar_ok limits v"
  by (auto simp: parse_number_def and_then_Inr_iff int64_from_chars_def int64_range_def scalar_ok_def
      Let_def dest: round_to_double_finite split: if_splits option.splits)

section \<open>The descent keeps the invariant\<close>

definition parsed_ok :: "parse_limits \<Rightarrow> nat \<Rightarrow> nat \<Rightarrow> json \<Rightarrow> nat \<Rightarrow> bool" where
  "parsed_ok limits d seen v n \<longleftrightarrow>
     json_ok limits d v \<and> n = seen + json_size v \<and> n \<le> maximumValues limits"

lemma parse_descent_ok:
  "parse_value limits d s seen = Inr (v, t, n) \<Longrightarrow> parsed_ok limits d seen v n"
  "\<lbrakk>parse_members limits d obj s seen = Inr (v, t, n); 0 < d; d \<le> maximumDepth limits;
    json_ok limits (d - 1) (JObject obj); seen \<le> maximumValues limits\<rbrakk> \<Longrightarrow>
   json_ok limits (d - 1) v \<and> n + json_size (JObject obj) = seen + json_size v \<and> n \<le> maximumValues limits"
  "\<lbrakk>parse_elements limits d arr s seen = Inr (v, t, n); 0 < d; d \<le> maximumDepth limits;
    json_ok limits (d - 1) (JArray arr); seen \<le> maximumValues limits\<rbrakk> \<Longrightarrow>
   json_ok limits (d - 1) v \<and> n + json_size (JArray arr) = seen + json_size v \<and> n \<le> maximumValues limits"
proof (induction limits d s seen and limits d obj s seen and limits d arr s seen
    arbitrary: v t n and v t n and v t n rule: parse_induct)
  case (1 limits d input seen)
  define s where "s = skip_whitespace input"
  define s' where "s' = skip_whitespace (tl s)"
  have s: "\<not> maximumDepth limits < d" "s \<noteq> []" "\<not> maximumValues limits \<le> seen"
    using "1.prems" unfolding parse_value.simps [of limits d input]
    by (auto simp: s_def Let_def split: if_splits)
  show ?case
  proof (cases "hd s = CHR ''{''")
    case True
    with "1.prems" s have d: "\<not> maximumDepth limits \<le> d" and r:
      "(s' \<noteq> [] \<and> hd s' = CHR ''}'') \<and> v = JObject [] \<and> n = seen + 1 \<or>
       \<not> (s' \<noteq> [] \<and> hd s' = CHR ''}'') \<and> parse_members limits (d + 1) [] s' (seen + 1) = Inr (v, t, n)"
      unfolding parse_value.simps [of limits d input] s_def [symmetric] Let_def s'_def [symmetric]
      by (auto split: if_splits)
    from r show ?thesis
    proof (elim disjE conjE)
      assume "\<not> (s' \<noteq> [] \<and> hd s' = CHR ''}'')" "parse_members limits (d + 1) [] s' (seen + 1) = Inr (v, t, n)"
      from "1.IH"(1) [OF s_def s True d s'_def this] d s(3) show ?thesis
        by (auto simp: parsed_ok_def keys_ascending_def)
    qed (use d s(3) in \<open>simp add: parsed_ok_def keys_ascending_def\<close>)
  next
    case no_obj: False
    show ?thesis
    proof (cases "hd s = CHR ''[''")
      case True
      with "1.prems" s no_obj have d: "\<not> maximumDepth limits \<le> d" and r:
        "(s' \<noteq> [] \<and> hd s' = CHR '']'') \<and> v = JArray [] \<and> n = seen + 1 \<or>
         \<not> (s' \<noteq> [] \<and> hd s' = CHR '']'') \<and> parse_elements limits (d + 1) [] s' (seen + 1) = Inr (v, t, n)"
        unfolding parse_value.simps [of limits d input] s_def [symmetric] Let_def s'_def [symmetric]
        by (auto split: if_splits)
      from r show ?thesis
      proof (elim disjE conjE)
        assume "\<not> (s' \<noteq> [] \<and> hd s' = CHR '']'')" "parse_elements limits (d + 1) [] s' (seen + 1) = Inr (v, t, n)"
        from "1.IH"(2) [OF s_def s no_obj True d s'_def this] d s(3) show ?thesis
          by (auto simp: parsed_ok_def)
      qed (use d s(3) in \<open>simp add: parsed_ok_def\<close>)
    next
      case False
      with "1.prems" s no_obj have "scalar_ok limits v \<and> n = seen + 1"
        unfolding parse_value.simps [of limits d input] s_def [symmetric] Let_def
        by (auto simp: and_then_Inr_iff scalar_ok_def split: if_splits
            dest: parse_string_ok parse_literal_ok [where limits = limits] parse_number_ok [where limits = limits])
      with s(3) show ?thesis by (simp add: parsed_ok_def scalar_ok_def)
    qed
  qed
next
  case (2 limits d obj input seen)
  obtain key s1 w s3 seen' obj' where
    k: "\<not> (skip_whitespace input = [] \<or> hd (skip_whitespace input) \<noteq> CHR 0x22)"
      "parse_string (maximumStringBytes limits) (skip_whitespace input) = Inr (key, s1)"
    and c: "\<not> (skip_whitespace s1 = [] \<or> hd (skip_whitespace s1) \<noteq> CHR '':'')"
    and w: "parse_value limits d (tl (skip_whitespace s1)) seen = Inr (w, s3, seen')"
    and e: "object_emplace key w obj = Some obj'"
    and r: "skip_whitespace s3 \<noteq> []"
      "(hd (skip_whitespace s3) = CHR ''}'' \<and> v = JObject obj' \<and> n = seen') \<or>
       (hd (skip_whitespace s3) \<noteq> CHR ''}'' \<and> \<not> hd (skip_whitespace s3) \<noteq> CHR '','' \<and>
        parse_members limits d obj' (tl (skip_whitespace s3)) seen' = Inr (v, t, n))"
    using "2.prems"(1) unfolding parse_members.simps [of limits d obj input]
    by (auto simp: and_then_Inr_iff Let_def split: if_splits option.splits)
  have wk: "parsed_ok limits d seen w seen'" using w by (rule "2.IH"(1) [OF refl k refl refl c])
  have obj': "obj' = insert_sorted key w obj" "key \<notin> set (map fst obj)"
    using object_emplace_SomeD [OF e] by simp_all
  have ok: "json_ok limits (d - 1) (JObject obj')"
    using "2.prems"(2,4) wk parse_string_ok [OF k(2)] keys_ascending_insert [of obj key w] obj'
    by (auto simp: parsed_ok_def set_insert_sorted)
  have size: "json_size (JObject obj') = json_size w + json_size (JObject obj)"
    by (simp add: obj' json_size_insert_sorted)
  have seen': "seen' \<le> maximumValues limits" using wk by (simp add: parsed_ok_def)
  from r(2) show ?case
  proof (elim disjE conjE)
    assume "v = JObject obj'" "n = seen'"
    with ok wk size show ?thesis by (simp add: parsed_ok_def)
  next
    assume "hd (skip_whitespace s3) \<noteq> CHR ''}''" "\<not> hd (skip_whitespace s3) \<noteq> CHR '',''"
      "parse_members limits d obj' (tl (skip_whitespace s3)) seen' = Inr (v, t, n)"
    from "2.IH"(2) [OF refl k refl refl c w refl refl e refl r(1) this "2.prems"(2,3) ok seen'] wk size
    show ?thesis by (simp add: parsed_ok_def)
  qed
next
  case (3 limits d arr input seen)
  obtain w s1 seen' where w: "parse_value limits d input seen = Inr (w, s1, seen')"
    and r: "skip_whitespace s1 \<noteq> []" "(hd (skip_whitespace s1) = CHR '']'' \<and> v = JArray (arr @ [w]) \<and> n = seen') \<or>
      (hd (skip_whitespace s1) \<noteq> CHR '']'' \<and> \<not> hd (skip_whitespace s1) \<noteq> CHR '','' \<and>
       parse_elements limits d (arr @ [w]) (tl (skip_whitespace s1)) seen' = Inr (v, t, n))"
    using "3.prems"(1) unfolding parse_elements.simps [of limits d arr input]
    by (auto simp: and_then_Inr_iff Let_def split: if_splits)
  have wk: "parsed_ok limits d seen w seen'" using w by (rule "3.IH"(1))
  have ok: "json_ok limits (d - 1) (JArray (arr @ [w]))"
    using "3.prems"(2,4) wk by (auto simp: parsed_ok_def)
  have seen': "seen' \<le> maximumValues limits" using wk by (simp add: parsed_ok_def)
  from r(2) show ?case
  proof (elim disjE conjE)
    assume "v = JArray (arr @ [w])" "n = seen'"
    with ok wk show ?thesis by (simp add: parsed_ok_def)
  next
    assume "hd (skip_whitespace s1) \<noteq> CHR '']''" "\<not> hd (skip_whitespace s1) \<noteq> CHR '',''"
      "parse_elements limits d (arr @ [w]) (tl (skip_whitespace s1)) seen' = Inr (v, t, n)"
    from "3.IH"(2) [OF w refl refl refl r(1) this "3.prems"(2,3) ok seen'] wk show ?thesis
      by (simp add: parsed_ok_def)
  qed
qed




end
