(* ===== verification/Protocol_Fields.thy ===== *)
theory Protocol_Fields
  imports Json_Props
begin

text \<open>
  The field readers at the head of \<open>protocol_response.cpp\<close>, which every parser of the file is
  built from. \<open>json::Object\<close> keys are distinct (the JSON parser proves it), so the readers are
  lookups. An unsigned field is read from an \<open>int64_t\<close> and only compared and copied, so it is
  a \<^typ>\<open>nat\<close> here; its bound is part of each reader's contract.
\<close>

definition kMaximumProtocolInteger :: nat where "kMaximumProtocolInteger = 9007199254740991"
definition kMaximumEvents :: nat where "kMaximumEvents = 100"
definition kMaximumCapabilityBytes :: nat where "kMaximumCapabilityBytes = 128"
definition kMaximumCapabilities :: nat where "kMaximumCapabilities = 64"
definition kMaximumIdentityTextBytes :: nat where "kMaximumIdentityTextBytes = 256"

definition size_max :: nat where "size_max = 2 ^ 64 - 1"
definition int64_max :: nat where "int64_max = 2 ^ 63 - 1"

definition invalid_schema :: "string \<Rightarrow> 'a result" where
  "invalid_schema message = Inl (simple_error EC_invalid_schema message)"

text \<open>\<open>if (!r) return invalidSchemaValue<T>(r.error().message); use(r.value())\<close>.\<close>

fun field :: "'a result \<Rightarrow> ('a \<Rightarrow> 'b result) \<Rightarrow> 'b result" where
  "field (Inl e) f = invalid_schema (err_message e)"
| "field (Inr a) f = f a"

text \<open>\<open>if (!r || bad(r.value())) return invalidSchemaValue<T>(message); use(r.value())\<close>.\<close>

fun field_or :: "'a result \<Rightarrow> ('a \<Rightarrow> bool) \<Rightarrow> string \<Rightarrow> ('a \<Rightarrow> 'b result) \<Rightarrow> 'b result" where
  "field_or (Inl e) good message f = invalid_schema message"
| "field_or (Inr a) good message f = (if good a then f a else invalid_schema message)"

lemma field_Inr_iff [result_simps]: "field r f = Inr b \<longleftrightarrow> (\<exists>a. r = Inr a \<and> f a = Inr b)"
  by (cases r) (auto simp: invalid_schema_def)

lemma field_or_Inr_iff [result_simps]:
  "field_or r good m f = Inr b \<longleftrightarrow> (\<exists>a. r = Inr a \<and> good a \<and> f a = Inr b)"
  by (cases r) (auto simp: invalid_schema_def)

lemma invalid_schema_not_Inr [simp, result_simps]: "invalid_schema m \<noteq> Inr b" "Inr b \<noteq> invalid_schema m"
  by (simp_all add: invalid_schema_def)

lemma field_cong [fundef_cong]:
  "r = r' \<Longrightarrow> (\<And>a. r' = Inr a \<Longrightarrow> f a = g a) \<Longrightarrow> field r f = field r' g"
  by (cases r') auto

lemma if_Inr_iff [result_simps]:
  "(if b then invalid_schema m else r) = Inr x \<longleftrightarrow> \<not> b \<and> r = Inr x"
  by simp

text \<open>The readers unfolded, for the premises that say that a parser accepted.\<close>

lemmas reader_iffs = if_Inr_iff field_Inr_iff field_or_Inr_iff and_then_Inr_iff

lemma json_accessor_iffs [result_simps]:
  "json_boolean v = Some b \<longleftrightarrow> v = JBool b" "json_integer v = Some i \<longleftrightarrow> v = JInt i"
  "json_number v = Some x \<longleftrightarrow> v = JDouble x" "json_string v = Some s \<longleftrightarrow> v = JString s"
  "json_array v = Some xs \<longleftrightarrow> v = JArray xs" "json_object v = Some m \<longleftrightarrow> v = JObject m"
  by (cases v; simp)+

section \<open>Objects\<close>

definition has_exactly :: "json_object \<Rightarrow> string list \<Rightarrow> string list \<Rightarrow> bool" where
  "has_exactly object required optional =
     (if length object < length required \<or> length required + length optional < length object then False
      else list_all (\<lambda>key. json_find object key \<noteq> None) required
        \<and> list_all (\<lambda>(key, value). key \<in> set required \<or> key \<in> set optional) object)"

definition validate_json_body :: "string \<Rightarrow> headers \<Rightarrow> parse_limits \<Rightarrow> unit result" where
  "validate_json_body body hs limits =
     and_then (validate_json_content_type hs) (\<lambda>_.
       if maximumBytes limits < length body
       then Inl (simple_error EC_payload_too_large ''response body exceeds JSON byte limit'')
       else Inr ())"

definition parse_object :: "string \<Rightarrow> headers \<Rightarrow> string \<Rightarrow> parse_limits \<Rightarrow> json_object result" where
  "parse_object body hs schema limits =
     and_then (validate_json_body body hs limits) (\<lambda>_. require_object_with_schema body schema limits)"

section \<open>Fields\<close>

definition require_string :: "json_object \<Rightarrow> string \<Rightarrow> nat \<Rightarrow> nat \<Rightarrow> string result" where
  "require_string object key minimum maximum =
     (case json_find object key of
        Some (JString s) \<Rightarrow>
          if length s < minimum \<or> maximum < length s
          then invalid_schema (key @ '' must be a bounded string'') else Inr s
      | _ \<Rightarrow> invalid_schema (key @ '' must be a bounded string''))"

text \<open>\<open>requireString(object, key)\<close> with its default bounds.\<close>

abbreviation require_text :: "json_object \<Rightarrow> string \<Rightarrow> string result" where
  "require_text object key \<equiv> require_string object key 0 size_max"

definition require_uuid :: "json_object \<Rightarrow> string \<Rightarrow> string result" where
  "require_uuid object key =
     and_then (require_text object key) (\<lambda>v.
       if \<not> is_canonical_uuid v then invalid_schema (key @ '' must be a canonical UUID'') else Inr v)"

definition require_profile_id :: "json_object \<Rightarrow> string \<Rightarrow> string result" where
  "require_profile_id object key =
     and_then (require_string object key 1 300) (\<lambda>v.
       if \<not> is_profile_id v then invalid_schema (key @ '' must be a profile key'') else Inr v)"

definition require_unsigned :: "json_object \<Rightarrow> string \<Rightarrow> nat \<Rightarrow> nat \<Rightarrow> nat result" where
  "require_unsigned object key maximum minimum =
     (case json_find object key of
        Some (JInt i) \<Rightarrow>
          if i < 0 then invalid_schema (key @ '' must be a nonnegative integer'')
          else
            let parsed = nat i in
            if parsed < minimum \<or> maximum < parsed
            then invalid_schema (key @ '' is outside the allowed range'') else Inr parsed
      | _ \<Rightarrow> invalid_schema (key @ '' must be a nonnegative integer''))"

text \<open>\<open>requireUnsigned(object, key)\<close> with its default bounds.\<close>

abbreviation require_natural :: "json_object \<Rightarrow> string \<Rightarrow> nat result" where
  "require_natural object key \<equiv> require_unsigned object key kMaximumProtocolInteger 0"

definition int_to_double :: "int \<Rightarrow> cxx_double" where
  "int_to_double i = (case round_to_double (of_int i) of Some d \<Rightarrow> d | None \<Rightarrow> Infinite (i < 0))"

definition require_number :: "json_object \<Rightarrow> string \<Rightarrow> rat \<Rightarrow> rat \<Rightarrow> cxx_double result" where
  "require_number object key minimum maximum =
     (let check = (\<lambda>d. if \<not> is_finite d \<or> dbl_less d (Finite minimum) \<or> dbl_less (Finite maximum) d
                       then invalid_schema (key @ '' is outside the allowed range'') else Inr d)
      in case json_find object key of
           Some (JDouble d) \<Rightarrow> check d
         | Some (JInt i) \<Rightarrow> check (int_to_double i)
         | _ \<Rightarrow> invalid_schema (key @ '' must be a bounded number''))"

definition require_boolean :: "json_object \<Rightarrow> string \<Rightarrow> bool result" where
  "require_boolean object key =
     (case json_find object key of
        Some (JBool b) \<Rightarrow> Inr b | _ \<Rightarrow> invalid_schema (key @ '' must be boolean''))"

definition require_timestamp :: "json_object \<Rightarrow> string \<Rightarrow> string result" where
  "require_timestamp object key =
     and_then (require_text object key) (\<lambda>v.
       if \<not> is_canonical_utc_timestamp v then invalid_schema (key @ '' must be a canonical UTC timestamp'')
       else Inr v)"

text \<open>\<open>if (json::find(object, key)) destination = read(object, key)\<close>: an optional field.\<close>

definition optional_field :: "json_object \<Rightarrow> string \<Rightarrow> (json_object \<Rightarrow> string \<Rightarrow> 'a result) \<Rightarrow> 'a option result" where
  "optional_field object key reader =
     (if json_find object key = None then Inr None else field (reader object key) (\<lambda>a. Inr (Some a)))"

section \<open>What the readers promise\<close>

lemma require_string_Inr_iff [result_simps]:
  "require_string object key lo hi = Inr s \<longleftrightarrow>
     json_find object key = Some (JString s) \<and> lo \<le> length s \<and> length s \<le> hi"
  by (auto simp: require_string_def split: option.splits json.splits)

lemma require_uuid_Inr_iff [result_simps]:
  "require_uuid object key = Inr s \<longleftrightarrow>
     json_find object key = Some (JString s) \<and> length s \<le> size_max \<and> is_canonical_uuid s"
  by (auto simp: require_uuid_def result_simps)

lemma require_profile_id_Inr_iff [result_simps]:
  "require_profile_id object key = Inr s \<longleftrightarrow>
     json_find object key = Some (JString s) \<and> 1 \<le> length s \<and> length s \<le> 300 \<and> is_profile_id s"
  by (auto simp: require_profile_id_def result_simps)

lemma require_unsigned_Inr_iff [result_simps]:
  "require_unsigned object key hi lo = Inr n \<longleftrightarrow>
     json_find object key = Some (JInt (int n)) \<and> lo \<le> n \<and> n \<le> hi"
  by (auto simp: require_unsigned_def Let_def split: option.splits json.splits)

lemma require_boolean_Inr_iff [result_simps]:
  "require_boolean object key = Inr b \<longleftrightarrow> json_find object key = Some (JBool b)"
  by (auto simp: require_boolean_def split: option.splits json.splits)

lemma require_timestamp_Inr_iff [result_simps]:
  "require_timestamp object key = Inr s \<longleftrightarrow>
     json_find object key = Some (JString s) \<and> length s \<le> size_max \<and> is_canonical_utc_timestamp s"
  by (auto simp: require_timestamp_def result_simps)

lemma optional_field_Inr_iff [result_simps]:
  "optional_field object key reader = Inr r \<longleftrightarrow>
     (if json_find object key = None then r = None else (\<exists>a. reader object key = Inr a \<and> r = Some a))"
  by (auto simp: optional_field_def result_simps)

text \<open>Which keys an accepted object has.\<close>

lemma json_find_keys: "json_find object key \<noteq> None \<longleftrightarrow> key \<in> set (map fst object)"
  by (simp add: json_find_def map_of_eq_None_iff)

lemma required_present: "list_all (\<lambda>key. json_find object key \<noteq> None) ks \<longleftrightarrow> set ks \<subseteq> set (map fst object)"
  unfolding list_all_iff json_find_keys by blast

lemma keys_known:
  "list_all (\<lambda>(key, value). key \<in> set r \<or> key \<in> set p) object \<longleftrightarrow> set (map fst object) \<subseteq> set r \<union> set p"
  by (induction object) auto

lemma has_exactly_eq:
  "has_exactly object required optional \<longleftrightarrow>
     length required \<le> length object \<and> length object \<le> length required + length optional
     \<and> set required \<subseteq> set (map fst object) \<and> set (map fst object) \<subseteq> set required \<union> set optional"
  unfolding has_exactly_def required_present keys_known by (auto simp: not_less)

lemma has_exactly_subset:
  "has_exactly object required optional \<Longrightarrow>
   set required \<subseteq> set (map fst object) \<and> set (map fst object) \<subseteq> set required \<union> set optional"
  unfolding has_exactly_eq by blast

text \<open>Sample identifiers for the concrete instances of the protocol theorems.\<close>

definition sample_uuid_of :: "nat \<Rightarrow> string" where
  "sample_uuid_of n = replicate 8 (digit_char n) @ ''-1111-4111-8111-111111111111''"

text \<open>\<open>hasExactly\<close> is exact: on an object with distinct keys, as the JSON parser produces, and
  for lists of distinct field names it accepts precisely the objects that have every required
  field and no field outside the required and optional ones; the size comparison rejects
  nothing else.\<close>

theorem has_exactly_iff:
  assumes "keys_distinct object" and "distinct (required @ optional)"
  shows "has_exactly object required optional =
    (set required \<subseteq> set (map fst object) \<and> set (map fst object) \<subseteq> set required \<union> set optional)"
proof
  assume keys: "set required \<subseteq> set (map fst object) \<and> set (map fst object) \<subseteq> set required \<union> set optional"
  have "length object = card (set (map fst object))"
    using distinct_card [OF assms(1)] by simp
  moreover have "card (set required) = length required" "card (set (required @ optional)) = length (required @ optional)"
    using assms(2) by (simp_all only: distinct_card distinct_append)
  moreover have "card (set required) \<le> card (set (map fst object))"
    using keys by (intro card_mono) auto
  moreover have "card (set (map fst object)) \<le> card (set (required @ optional))"
    using keys by (intro card_mono) auto
  ultimately have "length required \<le> length object" "length object \<le> length required + length optional"
    by simp_all
  with keys show "has_exactly object required optional"
    unfolding has_exactly_eq by blast
qed (use has_exactly_subset in blast)

theorem has_exactly_iff_witness:
  "has_exactly [(''a'', JNull), (''b'', JNull)] [''b''] [''a'', ''c''] \<and> \<not> has_exactly [(''a'', JNull)] [''b''] [''a'']"
  using has_exactly_iff [of "[(''a'', JNull), (''b'', JNull)]" "[''b'']" "[''a'', ''c'']"]
    has_exactly_iff [of "[(''a'', JNull)]" "[''b'']" "[''a'']"] by simp

lemma sorted_distinct_keys_unique:
  "keys_ascending object \<Longrightarrow> sorted_wrt (<) ks \<Longrightarrow> set (map fst object) = set ks \<Longrightarrow> map fst object = ks"
  using strict_sorted_equal unfolding keys_ascending_def by blast

end
