(* ===== verification/Protocol_Identity.thy ===== *)
theory Protocol_Identity
  imports Protocol_Fields
begin

text \<open>
  \<open>protocol_response.cpp\<close>: response correlations, cells and actor identities, and the status
  names. \<open>identity_json\<close> is the reference encoding of an identity; the strict parser accepts
  exactly the encodings of valid identities.
\<close>

section \<open>Data\<close>

record response_correlation =
  rc_message :: MessageId
  rc_request :: RequestId
  rc_turn :: TurnId
  rc_session :: SessionId
  rc_generation :: generation

datatype cell_kind = Cell_interior | Cell_exterior

record protocol_cell =
  cell_kind :: cell_kind
  cell_name :: string
  cell_grid_x :: int
  cell_grid_y :: int

record protocol_identity =
  pid_kind :: string
  pid_record_id :: string
  pid_refnum_index :: nat
  pid_refnum_content_file :: nat
  pid_content_file :: string
  pid_cell :: protocol_cell
  pid_display_name :: string

section \<open>Parsers\<close>

definition parse_correlation :: "json_object \<Rightarrow> response_correlation result" where
  "parse_correlation object =
     field (require_uuid object ''message_id'') (\<lambda>message.
     field (require_uuid object ''request_id'') (\<lambda>request.
     field (require_uuid object ''turn_id'') (\<lambda>turn.
     field (require_uuid object ''session_id'') (\<lambda>session.
     field (require_natural object ''generation'') (\<lambda>generation.
       Inr \<lparr>rc_message = StrongId message, rc_request = StrongId request, rc_turn = StrongId turn,
            rc_session = StrongId session, rc_generation = Generation (word_of_nat generation)\<rparr>)))))"

definition parse_cell :: "json \<Rightarrow> protocol_cell result" where
  "parse_cell v =
     (case json_object v of
        None \<Rightarrow> invalid_schema ''identity cell must be an object''
      | Some object \<Rightarrow>
          field (require_text object ''kind'') (\<lambda>kind.
            if kind = ''interior'' then
              if \<not> has_exactly object [''kind'', ''name''] []
              then invalid_schema ''interior cell fields mismatch''
              else field (require_string object ''name'' 1 kMaximumIdentityTextBytes) (\<lambda>name.
                Inr \<lparr>cell_kind = Cell_interior, cell_name = name, cell_grid_x = 0, cell_grid_y = 0\<rparr>)
            else if kind = ''exterior'' then
              if \<not> has_exactly object [''kind'', ''grid_x'', ''grid_y''] []
              then invalid_schema ''exterior cell fields mismatch''
              else
                (case (json_integer (the (json_find object ''grid_x'')),
                       json_integer (the (json_find object ''grid_y''))) of
                   (Some x, Some y) \<Rightarrow>
                     Inr \<lparr>cell_kind = Cell_exterior, cell_name = [], cell_grid_x = x, cell_grid_y = y\<rparr>
                 | _ \<Rightarrow> invalid_schema ''exterior cell grid must use integers'')
            else invalid_schema ''unknown identity cell kind''))"

definition identity_fields :: "string list" where
  "identity_fields = [''kind'', ''record_id'', ''refnum'', ''content_file'', ''cell'', ''display_name'']"

definition parse_identity :: "json \<Rightarrow> protocol_identity result" where
  "parse_identity v =
     (case json_object v of
        None \<Rightarrow> invalid_schema ''identity fields mismatch''
      | Some object \<Rightarrow>
          if \<not> has_exactly object identity_fields []
          then invalid_schema ''identity fields mismatch''
          else
            field (require_string object ''kind'' 1 64) (\<lambda>kind.
            field (require_string object ''record_id'' 1 kMaximumIdentityTextBytes) (\<lambda>record_id.
            field (require_string object ''content_file'' 1 kMaximumIdentityTextBytes) (\<lambda>content.
            field (require_string object ''display_name'' 1 kMaximumIdentityTextBytes) (\<lambda>display.
              case json_object (the (json_find object ''refnum'')) of
                None \<Rightarrow> invalid_schema ''identity refnum fields mismatch''
              | Some refnum \<Rightarrow>
                  if \<not> has_exactly refnum [''index'', ''content_file''] []
                  then invalid_schema ''identity refnum fields mismatch''
                  else
                    field (require_unsigned refnum ''index'' int64_max 0) (\<lambda>index.
                    field (require_unsigned refnum ''content_file'' int64_max 0) (\<lambda>ref_content.
                    field (parse_cell (the (json_find object ''cell''))) (\<lambda>cell.
                      Inr \<lparr>pid_kind = kind, pid_record_id = record_id, pid_refnum_index = index,
                           pid_refnum_content_file = ref_content, pid_content_file = content,
                           pid_cell = cell, pid_display_name = display\<rparr>))))))))"

definition parse_protocol_identity :: "string \<Rightarrow> parse_limits \<Rightarrow> protocol_identity result" where
  "parse_protocol_identity body limits = and_then (parse_json body limits) parse_identity"

definition parse_terminal_status :: "json_object \<Rightarrow> action_terminal_status result" where
  "parse_terminal_status object =
     field (require_text object ''status'') (\<lambda>status.
       if status = ''succeeded'' then Inr ATS_succeeded
       else if status = ''failed'' then Inr ATS_failed
       else if status = ''rejected'' then Inr ATS_rejected
       else if status = ''timed_out'' then Inr ATS_timed_out
       else if status = ''cancelled'' then Inr ATS_cancelled
       else invalid_schema ''unknown action terminal status'')"

definition parse_dialogue_delivery_status :: "json_object \<Rightarrow> dialogue_delivery_status result" where
  "parse_dialogue_delivery_status object =
     field (require_text object ''status'') (\<lambda>status.
       if status = ''played'' then Inr DDS_played
       else if status = ''failed'' then Inr DDS_failed
       else if status = ''expired'' then Inr DDS_expired
       else if status = ''interrupted'' then Inr DDS_interrupted
       else invalid_schema ''unknown dialogue delivery status'')"

definition parse_media_codec :: "string \<Rightarrow> media_codec option" where
  "parse_media_codec codec =
     (if codec = ''wav'' then Some MC_wav else if codec = ''ogg'' then Some MC_ogg
      else if codec = ''mp3'' then Some MC_mp3 else None)"

section \<open>The reference encoding\<close>

definition valid_cell :: "protocol_cell \<Rightarrow> bool" where
  "valid_cell c \<longleftrightarrow>
     (case cell_kind c of
        Cell_interior \<Rightarrow> 1 \<le> length (cell_name c) \<and> length (cell_name c) \<le> 256
          \<and> cell_grid_x c = 0 \<and> cell_grid_y c = 0
      | Cell_exterior \<Rightarrow> cell_name c = [])"

definition valid_identity :: "protocol_identity \<Rightarrow> bool" where
  "valid_identity i \<longleftrightarrow>
     1 \<le> length (pid_kind i) \<and> length (pid_kind i) \<le> 64
     \<and> 1 \<le> length (pid_record_id i) \<and> length (pid_record_id i) \<le> 256
     \<and> 1 \<le> length (pid_content_file i) \<and> length (pid_content_file i) \<le> 256
     \<and> 1 \<le> length (pid_display_name i) \<and> length (pid_display_name i) \<le> 256
     \<and> pid_refnum_index i \<le> int64_max \<and> pid_refnum_content_file i \<le> int64_max
     \<and> valid_cell (pid_cell i)"

definition cell_json :: "protocol_cell \<Rightarrow> json" where
  "cell_json c =
     (case cell_kind c of
        Cell_interior \<Rightarrow> JObject [(''kind'', JString ''interior''), (''name'', JString (cell_name c))]
      | Cell_exterior \<Rightarrow> JObject [(''grid_x'', JInt (cell_grid_x c)), (''grid_y'', JInt (cell_grid_y c)),
          (''kind'', JString ''exterior'')])"

definition identity_json :: "protocol_identity \<Rightarrow> json" where
  "identity_json i = JObject
     [(''cell'', cell_json (pid_cell i)), (''content_file'', JString (pid_content_file i)),
      (''display_name'', JString (pid_display_name i)), (''kind'', JString (pid_kind i)),
      (''record_id'', JString (pid_record_id i)),
      (''refnum'', JObject [(''content_file'', JInt (int (pid_refnum_content_file i))),
                            (''index'', JInt (int (pid_refnum_index i)))])]"

text \<open>An object with ascending keys that has exactly some fields lists them in order.\<close>

lemma exact_fields_in_order:
  assumes "keys_ascending object" "has_exactly object required []" "sorted_wrt (<) ks" "set ks = set required"
  shows "map fst object = ks"
  using sorted_distinct_keys_unique [OF assms(1,3)] has_exactly_subset [OF assms(2)] assms(4) by auto

lemma map_fst_Cons: "map fst xs = k # ks \<longleftrightarrow> (\<exists>v ys. xs = (k, v) # ys \<and> map fst ys = ks)"
  by (cases xs) auto

lemma parse_cell_encoding:
  assumes "parse_cell v = Inr c" "json_ok limits d v"
  shows "valid_cell c \<and> v = cell_json c"
proof -
  obtain object where v: "v = JObject object"
    using assms(1) by (cases v) (auto simp: parse_cell_def)
  have asc: "keys_ascending object" using assms(2) by (simp add: v)
  have "sorted_wrt (<) [''kind'', ''name'']" by code_simp
  from exact_fields_in_order [OF asc _ this]
  have interior: "has_exactly object [''kind'', ''name''] [] \<Longrightarrow> map fst object = [''kind'', ''name'']"
    by simp
  have "sorted_wrt (<) [''grid_x'', ''grid_y'', ''kind'']" by code_simp
  from exact_fields_in_order [OF asc _ this, of "[''kind'', ''grid_x'', ''grid_y'']"]
  have exterior: "has_exactly object [''kind'', ''grid_x'', ''grid_y''] [] \<Longrightarrow>
      map fst object = [''grid_x'', ''grid_y'', ''kind'']"
    by (simp add: insert_commute)
  show ?thesis
    using assms(1) interior exterior
    by (auto simp: v parse_cell_def result_simps map_fst_Cons json_find_def valid_cell_def cell_json_def
        kMaximumIdentityTextBytes_def split: if_splits option.splits json.splits)
qed


lemma parse_cell_of_encoding: "valid_cell c \<Longrightarrow> parse_cell (cell_json c) = Inr c"
  by (cases "cell_kind c")
    (auto simp: parse_cell_def cell_json_def valid_cell_def result_simps json_find_def
      has_exactly_def size_max_def kMaximumIdentityTextBytes_def)

lemma parse_identity_encoding:
  assumes "parse_identity v = Inr i" "json_ok limits d v"
  shows "valid_identity i \<and> v = identity_json i"
proof -
  obtain object where v: "v = JObject object"
    using assms(1) by (cases v) (auto simp: parse_identity_def)
  have asc: "keys_ascending object" and ok: "\<forall>p \<in> set object. json_ok limits (d + 1) (snd p)"
    using assms(2) by (auto simp: v)
  have exact: "has_exactly object identity_fields []"
    using assms(1) by (auto simp: v parse_identity_def split: if_splits)
  have "sorted_wrt (<) [''cell'', ''content_file'', ''display_name'', ''kind'', ''record_id'', ''refnum'']"
    by code_simp
  moreover have "set [''cell'', ''content_file'', ''display_name'', ''kind'', ''record_id'', ''refnum'']
      = set identity_fields" by code_simp
  ultimately have "map fst object = [''cell'', ''content_file'', ''display_name'', ''kind'', ''record_id'', ''refnum'']"
    by (rule exact_fields_in_order [OF asc exact])
  then obtain cell content display kind record_id refnum where object:
    "object = [(''cell'', cell), (''content_file'', content), (''display_name'', display), (''kind'', kind),
       (''record_id'', record_id), (''refnum'', refnum)]"
    by (auto simp: map_fst_Cons)
  obtain refs where refnum: "refnum = JObject refs" and refs: "has_exactly refs [''index'', ''content_file''] []"
    using assms(1) by (cases refnum)
      (auto simp: v object parse_identity_def json_find_def result_simps split: if_splits)
  have "keys_ascending refs" using ok by (simp add: object refnum)
  moreover have "sorted_wrt (<) [''content_file'', ''index'']" "set [''content_file'', ''index''] = set [''index'', ''content_file'']"
    by code_simp+
  ultimately have "map fst refs = [''content_file'', ''index'']"
    using exact_fields_in_order refs by blast
  then obtain r1 r2 where r: "refs = [(''content_file'', r1), (''index'', r2)]"
    by (auto simp: map_fst_Cons)
  have cell_ok: "json_ok limits (d + 1) cell" using ok by (simp add: object)
  show ?thesis
    using assms(1) exact refs parse_cell_encoding [OF _ cell_ok]
    by (auto simp: v object refnum r parse_identity_def json_find_def result_simps valid_identity_def
        identity_json_def kMaximumIdentityTextBytes_def)
qed

lemma parse_identity_of_encoding: "valid_identity i \<Longrightarrow> parse_identity (identity_json i) = Inr i"
  by (simp add: valid_identity_def identity_json_def parse_identity_def identity_fields_def has_exactly_def
      json_find_def result_simps kMaximumIdentityTextBytes_def parse_cell_of_encoding)

text \<open>C30. Actor identities have one wire form: on any document the JSON parser can produce, the
  strict identity parser accepts precisely the reference encodings of valid identities (bounded
  non-empty texts, reference numbers within 63 bits, an interior cell with a name or an exterior
  cell with a grid and no name), and it returns the identity that was encoded.\<close>

theorem parse_identity_iff:
  assumes "json_ok limits d v"
  shows "(parse_identity v = Inr i) = (valid_identity i \<and> v = identity_json i)"
  using parse_identity_encoding [OF _ assms] parse_identity_of_encoding by blast

definition sample_identity :: protocol_identity where
  "sample_identity = \<lparr>pid_kind = ''npc'', pid_record_id = ''fargoth'', pid_refnum_index = 7,
     pid_refnum_content_file = 0, pid_content_file = ''morrowind.esm'',
     pid_cell = \<lparr>cell_kind = Cell_exterior, cell_name = [], cell_grid_x = - 2, cell_grid_y = - 9\<rparr>,
     pid_display_name = ''Fargoth''\<rparr>"

theorem parse_identity_iff_witness:
  "parse_identity (identity_json sample_identity) = Inr sample_identity"
proof -
  have "json_ok default_limits 0 (identity_json sample_identity)" by code_simp
  then show ?thesis
    by (subst parse_identity_iff)
      (simp_all add: valid_identity_def valid_cell_def sample_identity_def int64_max_def)
qed

end
