(* ===== verification/Protocol_Canonical.thy ===== *)
theory Protocol_Canonical
  imports Protocol_Identity
begin

text \<open>
  \<open>protocol_response.cpp\<close>: the canonical response of a turn, its lines, their media and
  metadata. The parser of the response walks the lines once, with the sets of identifiers seen
  so far, and once more for the final flag.
\<close>

section \<open>Data\<close>

record canonical_media =
  cm_media :: MediaId
  cm_dialogue_message :: MessageId
  cm_sha256 :: string
  cm_bytes :: nat
  cm_codec :: media_codec
  cm_duration_ms :: nat
  cm_expires_at :: string

record canonical_metadata =
  me_animation :: "string option"
  me_emotion :: "string option"
  me_mood :: "string option"
  me_rechat_depth :: "nat option"
  me_speech_enabled :: "bool option"
  me_source :: "string option"

record canonical_line =
  cl_line :: MessageId
  cl_line_index :: nat
  cl_speaker :: string
  cl_display_name :: string
  cl_speaker_identity :: protocol_identity
  cl_action :: string
  cl_text :: string
  cl_subtitle :: string
  cl_tts_text :: string
  cl_request :: RequestId
  cl_utterance :: MessageId
  cl_listener :: string
  cl_listener_identity :: protocol_identity
  cl_rechat_target :: string
  cl_rechat_target_identity :: protocol_identity
  cl_final_response_line :: bool
  cl_metadata :: canonical_metadata
  cl_media :: "canonical_media option"
  cl_tts_cache_key :: "string option"
  cl_command_name :: "string option"
  cl_command_args :: "string list"

record canonical_response =
  cr_response :: MessageId
  cr_installation :: InstallationId
  cr_profile :: ProfileId
  cr_playthrough :: PlaythroughId
  cr_session :: SessionId
  cr_turn :: TurnId
  cr_request :: RequestId
  cr_generation :: generation
  cr_runtime_generation :: generation
  cr_created_at :: string
  cr_ok :: bool
  cr_lines :: "canonical_line list"
  cr_close :: bool
  cr_error :: string

section \<open>Lexical predicates\<close>

definition is_lowercase_hash :: "string \<Rightarrow> bool" where
  "is_lowercase_hash v \<longleftrightarrow> length v = 64 \<and> list_all is_lower_hex v"

definition is_command_name :: "string \<Rightarrow> bool" where
  "is_command_name v \<longleftrightarrow>
     v \<noteq> [] \<and> length v \<le> 64 \<and> is_lower (hd v)
     \<and> list_all (\<lambda>c. is_lower c \<or> is_digit c \<or> c = CHR ''_'' \<or> c = CHR ''.'') (tl v)"

definition is_cache_key :: "string \<Rightarrow> bool" where
  "is_cache_key v \<longleftrightarrow>
     v \<noteq> [] \<and> length v \<le> 256
     \<and> list_all (\<lambda>c. is_alnum c \<or> c = CHR ''.'' \<or> c = CHR ''_'' \<or> c = CHR '':'' \<or> c = CHR ''-'') v"

section \<open>Media and metadata\<close>

definition parse_canonical_media :: "json \<Rightarrow> canonical_media result" where
  "parse_canonical_media v =
     (case json_object v of
        None \<Rightarrow> invalid_schema ''canonical media fields mismatch''
      | Some object \<Rightarrow>
          if \<not> has_exactly object [''media_id'', ''dialogue_message_id'', ''sha256'', ''bytes'', ''codec'',
               ''duration_ms'', ''expires_at''] []
          then invalid_schema ''canonical media fields mismatch''
          else
            field (require_uuid object ''media_id'') (\<lambda>media.
            field (require_uuid object ''dialogue_message_id'') (\<lambda>dialogue.
            field_or (require_text object ''sha256'') is_lowercase_hash ''canonical media hash mismatch'' (\<lambda>hash.
            field (require_unsigned object ''bytes'' kMaxMediaBytes 1) (\<lambda>bytes.
            field (require_text object ''codec'') (\<lambda>codec.
              case parse_media_codec codec of
                None \<Rightarrow> invalid_schema ''canonical media codec mismatch''
              | Some mapped_codec \<Rightarrow>
                  field (require_unsigned object ''duration_ms'' kMaximumProtocolInteger 1) (\<lambda>duration.
                  field (require_timestamp object ''expires_at'') (\<lambda>expires_at.
                    Inr \<lparr>cm_media = StrongId media, cm_dialogue_message = StrongId dialogue,
                         cm_sha256 = hash, cm_bytes = bytes, cm_codec = mapped_codec,
                         cm_duration_ms = duration, cm_expires_at = expires_at\<rparr>))))))))"

definition parse_canonical_metadata :: "json \<Rightarrow> canonical_metadata result" where
  "parse_canonical_metadata v =
     (case json_object v of
        None \<Rightarrow> invalid_schema ''canonical response metadata fields mismatch''
      | Some object \<Rightarrow>
          if \<not> has_exactly object []
               [''animation'', ''emotion'', ''mood'', ''rechat_depth'', ''speech_enabled'', ''source'']
          then invalid_schema ''canonical response metadata fields mismatch''
          else
            let short_string = (\<lambda>o' k. require_string o' k 0 64) in
            field (optional_field object ''animation'' short_string) (\<lambda>animation.
            field (optional_field object ''emotion'' short_string) (\<lambda>emotion.
            field (optional_field object ''mood'' short_string) (\<lambda>mood.
            field (optional_field object ''source'' short_string) (\<lambda>source.
            field (optional_field object ''rechat_depth'' (\<lambda>o' k. require_unsigned o' k 20 0)) (\<lambda>depth.
            field (optional_field object ''speech_enabled'' require_boolean) (\<lambda>enabled.
              Inr \<lparr>me_animation = animation, me_emotion = emotion, me_mood = mood,
                   me_rechat_depth = depth, me_speech_enabled = enabled, me_source = source\<rparr>)))))))"

section \<open>Lines\<close>

fun parse_command_args :: "json list \<Rightarrow> string list result" where
  "parse_command_args [] = Inr []"
| "parse_command_args (v # vs) =
     (case json_string v of
        None \<Rightarrow> invalid_schema ''canonical response command argument mismatch''
      | Some argument \<Rightarrow>
          if 512 < length argument then invalid_schema ''canonical response command argument mismatch''
          else and_then (parse_command_args vs) (\<lambda>arguments. Inr (argument # arguments)))"

text \<open>The optional fields of a line: media, cache key, command name and arguments.\<close>

definition line_media :: "json_object \<Rightarrow> MessageId \<Rightarrow> canonical_media option result" where
  "line_media object line =
     (case json_find object ''media'' of
        None \<Rightarrow> Inr None
      | Some v \<Rightarrow>
          field (parse_canonical_media v) (\<lambda>media.
            if cm_dialogue_message media \<noteq> line
            then invalid_schema ''canonical media dialogue line mismatch'' else Inr (Some media)))"

definition line_cache_key :: "json_object \<Rightarrow> string option result" where
  "line_cache_key object =
     (if json_find object ''tts_cache_key'' = None then Inr None
      else field_or (require_string object ''tts_cache_key'' 1 256) is_cache_key
             ''canonical response cache key mismatch'' (\<lambda>k. Inr (Some k)))"

definition line_command_name :: "json_object \<Rightarrow> string option result" where
  "line_command_name object =
     (if json_find object ''command_name'' = None then Inr None
      else field_or (require_string object ''command_name'' 1 64) is_command_name
             ''canonical response command name mismatch'' (\<lambda>k. Inr (Some k)))"

definition line_command_args :: "json_object \<Rightarrow> string list result" where
  "line_command_args object =
     (case json_find object ''command_args'' of
        None \<Rightarrow> Inr []
      | Some v \<Rightarrow>
          (case json_array v of
             None \<Rightarrow> invalid_schema ''canonical response command arguments mismatch''
           | Some arguments \<Rightarrow>
               if 16 < length arguments then invalid_schema ''canonical response command arguments mismatch''
               else parse_command_args arguments))"

text \<open>The closing consistency check between the action and the other fields.\<close>

definition line_consistent :: "json_object \<Rightarrow> canonical_line \<Rightarrow> canonical_line result" where
  "line_consistent object line =
     (if cl_action line = ''say''
      then if cl_text line = [] \<or> cl_subtitle line = [] \<or> cl_tts_text line = []
              \<or> cl_command_name line \<noteq> None \<or> json_find object ''command_args'' \<noteq> None
           then invalid_schema ''canonical say line fields mismatch'' else Inr line
      else if cl_command_name line = None \<or> json_find object ''command_args'' = None
              \<or> cl_media line \<noteq> None \<or> cl_final_response_line line
           then invalid_schema ''canonical rolecommand line fields mismatch'' else Inr line)"

definition parse_canonical_line :: "json \<Rightarrow> RequestId \<Rightarrow> nat \<Rightarrow> canonical_line result" where
  "parse_canonical_line v response_request expected_index =
     (case json_object v of
        None \<Rightarrow> invalid_schema ''canonical response line fields mismatch''
      | Some object \<Rightarrow>
          if \<not> has_exactly object
               [''schema'', ''line_id'', ''line_index'', ''speaker'', ''display_name'', ''speaker_identity'',
                ''action'', ''text'', ''subtitle'', ''tts_text'', ''request_id'', ''utterance_id'', ''listener'',
                ''listener_identity'', ''rechat_target'', ''rechat_target_identity'', ''final_response_line'',
                ''metadata'']
               [''media'', ''tts_cache_key'', ''command_name'', ''command_args'']
          then invalid_schema ''canonical response line fields mismatch''
          else
            field_or (require_text object ''schema'') (\<lambda>s. s = ''lorkhan.response.line.v1'')
              ''canonical response line schema mismatch'' (\<lambda>schema.
            field (require_uuid object ''line_id'') (\<lambda>line_id.
            field_or (require_unsigned object ''line_index'' 63 0) (\<lambda>i. i = expected_index)
              ''canonical response line index mismatch'' (\<lambda>line_index.
            field (require_string object ''speaker'' 1 256) (\<lambda>speaker.
            field (require_string object ''display_name'' 1 256) (\<lambda>display_name.
            field_or (require_text object ''action'') (\<lambda>a. a = ''say'' \<or> a = ''rolecommand'')
              ''canonical response line action mismatch'' (\<lambda>action.
            field (require_string object ''text'' 0 4096) (\<lambda>line_text.
            field (require_string object ''subtitle'' 0 4096) (\<lambda>subtitle.
            field (require_string object ''tts_text'' 0 4096) (\<lambda>tts_text.
            field_or (require_uuid object ''request_id'') (\<lambda>r. r = id_value response_request)
              ''canonical response line request mismatch'' (\<lambda>request_id.
            field (require_uuid object ''utterance_id'') (\<lambda>utterance_id.
            field (require_string object ''listener'' 1 256) (\<lambda>listener.
            field (require_string object ''rechat_target'' 1 256) (\<lambda>rechat_target.
            field (require_boolean object ''final_response_line'') (\<lambda>final_line.
            field (parse_identity (the (json_find object ''speaker_identity''))) (\<lambda>speaker_identity.
            field (parse_identity (the (json_find object ''listener_identity''))) (\<lambda>listener_identity.
            field (parse_identity (the (json_find object ''rechat_target_identity''))) (\<lambda>rechat_identity.
            field (parse_canonical_metadata (the (json_find object ''metadata''))) (\<lambda>metadata.
            and_then (line_media object (StrongId line_id)) (\<lambda>media.
            and_then (line_cache_key object) (\<lambda>cache_key.
            and_then (line_command_name object) (\<lambda>command_name.
            and_then (line_command_args object) (\<lambda>command_args.
              line_consistent object
                \<lparr>cl_line = StrongId line_id, cl_line_index = line_index, cl_speaker = speaker,
                 cl_display_name = display_name, cl_speaker_identity = speaker_identity,
                 cl_action = action, cl_text = line_text, cl_subtitle = subtitle, cl_tts_text = tts_text,
                 cl_request = StrongId request_id, cl_utterance = StrongId utterance_id,
                 cl_listener = listener, cl_listener_identity = listener_identity,
                 cl_rechat_target = rechat_target, cl_rechat_target_identity = rechat_identity,
                 cl_final_response_line = final_line, cl_metadata = metadata, cl_media = media,
                 cl_tts_cache_key = cache_key, cl_command_name = command_name,
                 cl_command_args = command_args\<rparr>)))))))))))))))))))))))"

section \<open>The response\<close>

text \<open>The state of the walk over the lines.\<close>

record line_walk =
  lw_line_ids :: "MessageId list"
  lw_utterance_ids :: "MessageId list"
  lw_media_ids :: "MediaId list"
  lw_saw_action :: bool
  lw_final_dialogue_index :: "nat option"
  lw_lines :: "canonical_line list"

definition line_walk_start :: line_walk where
  "line_walk_start = \<lparr>lw_line_ids = [], lw_utterance_ids = [], lw_media_ids = [], lw_saw_action = False,
     lw_final_dialogue_index = None, lw_lines = []\<rparr>"

definition line_media_ids :: "canonical_line \<Rightarrow> MediaId list" where
  "line_media_ids line = (case cl_media line of None \<Rightarrow> [] | Some m \<Rightarrow> [cm_media m])"

definition walk_line :: "canonical_line \<Rightarrow> nat \<Rightarrow> line_walk \<Rightarrow> line_walk result" where
  "walk_line line index w =
     (if cl_line line \<in> set (lw_line_ids w) \<or> cl_utterance line \<in> set (lw_utterance_ids w)
      then invalid_schema ''canonical response line identity duplicated''
      else if \<exists>m \<in> set (line_media_ids line). m \<in> set (lw_media_ids w)
      then invalid_schema ''canonical response media identity duplicated''
      else if cl_action line \<noteq> ''rolecommand'' \<and> lw_saw_action w
      then invalid_schema ''canonical dialogue must precede rolecommands''
      else Inr \<lparr>lw_line_ids = lw_line_ids w @ [cl_line line],
                lw_utterance_ids = lw_utterance_ids w @ [cl_utterance line],
                lw_media_ids = lw_media_ids w @ line_media_ids line,
                lw_saw_action = (lw_saw_action w \<or> cl_action line = ''rolecommand''),
                lw_final_dialogue_index =
                  (if cl_action line = ''rolecommand'' then lw_final_dialogue_index w else Some index),
                lw_lines = lw_lines w @ [line]\<rparr>)"

fun walk_lines :: "RequestId \<Rightarrow> json list \<Rightarrow> nat \<Rightarrow> line_walk \<Rightarrow> line_walk result" where
  "walk_lines request [] index w = Inr w"
| "walk_lines request (v # vs) index w =
     field (parse_canonical_line v request index) (\<lambda>line.
       and_then (walk_line line index w) (\<lambda>w'. walk_lines request vs (Suc index) w'))"

definition final_flags_match :: "nat option \<Rightarrow> canonical_line list \<Rightarrow> bool" where
  "final_flags_match final_index lines \<longleftrightarrow>
     list_all (\<lambda>(index, line). cl_final_response_line line = (final_index = Some index)) (enumerate 0 lines)"

definition parse_canonical_response :: "json \<Rightarrow> response_correlation \<Rightarrow> canonical_response result" where
  "parse_canonical_response v correlation =
     (case json_object v of
        None \<Rightarrow> invalid_schema ''canonical response fields mismatch''
      | Some object \<Rightarrow>
          if \<not> has_exactly object
               [''schema'', ''response_id'', ''installation_id'', ''profile_id'', ''playthrough_id'', ''session_id'',
                ''turn_id'', ''request_id'', ''generation'', ''runtime_generation'', ''created_at'', ''ok'', ''lines'',
                ''close'', ''error''] []
          then invalid_schema ''canonical response fields mismatch''
          else
            field_or (require_text object ''schema'') (\<lambda>s. s = ''lorkhan.response.v1'')
              ''canonical response schema mismatch'' (\<lambda>schema.
            field_or (require_uuid object ''response_id'') (\<lambda>r. r = id_value (rc_message correlation))
              ''canonical response message mismatch'' (\<lambda>response_id.
            field (require_uuid object ''installation_id'') (\<lambda>installation.
            field (require_profile_id object ''profile_id'') (\<lambda>profile.
            field (require_uuid object ''playthrough_id'') (\<lambda>playthrough.
            field_or (require_uuid object ''session_id'') (\<lambda>r. r = id_value (rc_session correlation))
              ''canonical response session mismatch'' (\<lambda>session.
            field_or (require_uuid object ''turn_id'') (\<lambda>r. r = id_value (rc_turn correlation))
              ''canonical response turn mismatch'' (\<lambda>turn.
            field_or (require_uuid object ''request_id'') (\<lambda>r. r = id_value (rc_request correlation))
              ''canonical response request mismatch'' (\<lambda>request.
            field_or (require_unsigned object ''generation'' kMaximumProtocolInteger 1)
              (\<lambda>g. Generation (word_of_nat g) = rc_generation correlation)
              ''canonical response generation mismatch'' (\<lambda>generation.
            field (require_unsigned object ''runtime_generation'' kMaximumProtocolInteger 1) (\<lambda>runtime.
            field (require_timestamp object ''created_at'') (\<lambda>created_at.
            field (require_boolean object ''ok'') (\<lambda>ok.
            field (require_boolean object ''close'') (\<lambda>close.
            field (require_string object ''error'' 0 256) (\<lambda>error.
              if (ok \<and> error \<noteq> []) \<or> (\<not> ok \<and> error = [])
              then invalid_schema ''canonical response outcome mismatch''
              else
                case json_array (the (json_find object ''lines'')) of
                  None \<Rightarrow> invalid_schema ''canonical response lines mismatch''
                | Some lines \<Rightarrow>
                    if 64 < length lines then invalid_schema ''canonical response lines mismatch''
                    else
                      and_then (walk_lines (StrongId request) lines 0 line_walk_start) (\<lambda>w.
                        if \<not> final_flags_match (lw_final_dialogue_index w) (lw_lines w)
                        then invalid_schema ''canonical final response line mismatch''
                        else Inr \<lparr>cr_response = StrongId response_id, cr_installation = StrongId installation,
                               cr_profile = StrongId profile, cr_playthrough = StrongId playthrough,
                               cr_session = StrongId session, cr_turn = StrongId turn,
                               cr_request = StrongId request, cr_generation = Generation (word_of_nat generation),
                               cr_runtime_generation = Generation (word_of_nat runtime),
                               cr_created_at = created_at, cr_ok = ok, cr_lines = lw_lines w,
                               cr_close = close, cr_error = error\<rparr>))))))))))))))))"

end
