(* ===== verification/Protocol_Canonical_Props.thy ===== *)
theory Protocol_Canonical_Props
  imports Protocol_Canonical
begin

text \<open>
  What an accepted canonical response guarantees to the code behind the parser: its lines are
  numbered, its identifiers are unique, dialogue comes before commands, exactly the last
  dialogue line is final, and everything belongs to the turn the event envelope names.
\<close>

lemma line_consistent_InrD:
  "line_consistent object l = Inr line \<Longrightarrow> line = l \<and>
     (if cl_action line = ''say''
      then cl_text line \<noteq> [] \<and> cl_subtitle line \<noteq> [] \<and> cl_tts_text line \<noteq> [] \<and> cl_command_name line = None
      else cl_command_name line \<noteq> None \<and> cl_media line = None \<and> \<not> cl_final_response_line line)"
  by (auto simp: line_consistent_def split: if_splits)

lemma line_media_InrD: "line_media object line = Inr (Some m) \<Longrightarrow> cm_dialogue_message m = line"
  by (auto simp: line_media_def result_simps split: option.splits if_splits)

definition line_facts :: "RequestId \<Rightarrow> nat \<Rightarrow> canonical_line \<Rightarrow> bool" where
  "line_facts request index line \<longleftrightarrow>
     cl_line_index line = index \<and> cl_request line = request
     \<and> (cl_action line = ''say'' \<or> cl_action line = ''rolecommand'')
     \<and> (\<forall>m. cl_media line = Some m \<longrightarrow> cm_dialogue_message m = cl_line line)
     \<and> (if cl_action line = ''say''
        then cl_text line \<noteq> [] \<and> cl_subtitle line \<noteq> [] \<and> cl_tts_text line \<noteq> [] \<and> cl_command_name line = None
        else cl_command_name line \<noteq> None \<and> cl_media line = None \<and> \<not> cl_final_response_line line)"

lemma parse_canonical_line_facts:
  assumes "parse_canonical_line v request index = Inr line"
  shows "line_facts request index line"
proof -
  from assms obtain object l where
    "line_consistent object l = Inr line" "cl_line_index l = index" "cl_request l = request"
    "cl_action l = ''say'' \<or> cl_action l = ''rolecommand''" "line_media object (cl_line l) = Inr (cl_media l)"
    by (cases "json_object v")
      (simp_all add: parse_canonical_line_def field_Inr_iff field_or_Inr_iff and_then_Inr_iff
        split: if_splits, auto)
  then show ?thesis
    using line_consistent_InrD [of object l line] line_media_InrD [of object "cl_line l"]
    by (auto simp: line_facts_def)
qed


definition walk_ok :: "RequestId \<Rightarrow> nat \<Rightarrow> line_walk \<Rightarrow> bool" where
  "walk_ok request k w \<longleftrightarrow>
     lw_line_ids w = map cl_line (lw_lines w) \<and> distinct (lw_line_ids w)
     \<and> lw_utterance_ids w = map cl_utterance (lw_lines w) \<and> distinct (lw_utterance_ids w)
     \<and> lw_media_ids w = concat (map line_media_ids (lw_lines w)) \<and> distinct (lw_media_ids w)
     \<and> k \<le> length (lw_lines w)
     \<and> map cl_action (lw_lines w) = replicate k ''say'' @ replicate (length (lw_lines w) - k) ''rolecommand''
     \<and> lw_saw_action w = (k < length (lw_lines w))
     \<and> lw_final_dialogue_index w = (if k = 0 then None else Some (k - 1))
     \<and> (\<forall>i < length (lw_lines w). line_facts request i (lw_lines w ! i))"

lemma walk_ok_start: "walk_ok request 0 line_walk_start"
  by (simp add: walk_ok_def line_walk_start_def)

lemma distinct_line_media_ids [simp]: "distinct (line_media_ids line)"
  by (simp add: line_media_ids_def split: option.splits)

lemma walk_line_ok:
  assumes "walk_ok request k w" "line_facts request (length (lw_lines w)) line"
    and "walk_line line (length (lw_lines w)) w = Inr w'"
  shows "lw_lines w' = lw_lines w @ [line] \<and> (\<exists>k'. walk_ok request k' w')"
proof -
  let ?n = "length (lw_lines w)"
  have w': "w' = \<lparr>lw_line_ids = lw_line_ids w @ [cl_line line],
      lw_utterance_ids = lw_utterance_ids w @ [cl_utterance line],
      lw_media_ids = lw_media_ids w @ line_media_ids line,
      lw_saw_action = (lw_saw_action w \<or> cl_action line = ''rolecommand''),
      lw_final_dialogue_index =
        (if cl_action line = ''rolecommand'' then lw_final_dialogue_index w else Some ?n),
      lw_lines = lw_lines w @ [line]\<rparr>"
    and fresh: "cl_line line \<notin> set (lw_line_ids w)" "cl_utterance line \<notin> set (lw_utterance_ids w)"
      "\<forall>m \<in> set (line_media_ids line). m \<notin> set (lw_media_ids w)"
    and order: "cl_action line = ''rolecommand'' \<or> \<not> lw_saw_action w"
    using assms(3) by (auto simp: walk_line_def split: if_splits)
  have facts: "\<forall>i < Suc ?n. line_facts request i ((lw_lines w @ [line]) ! i)"
    using assms(1,2) by (auto simp: walk_ok_def nth_append less_Suc_eq)
  have media: "set (lw_media_ids w) \<inter> set (line_media_ids line) = {}" using fresh(3) by blast
  have "walk_ok request (if cl_action line = ''rolecommand'' then k else Suc ?n) w'"
  proof (cases "cl_action line = ''rolecommand''")
    case True
    have "map cl_action (lw_lines w @ [line]) =
        replicate k ''say'' @ replicate (Suc ?n - k) ''rolecommand''"
      using assms(1) True by (simp add: walk_ok_def Suc_diff_le replicate_append_same)
    with True assms(1) fresh(1,2) media facts show ?thesis
      by (auto simp: walk_ok_def w')
  next
    case False
    then have say: "cl_action line = ''say''" using assms(2) by (auto simp: line_facts_def)
    have "k = ?n" using False order assms(1) by (auto simp: walk_ok_def)
    then have "map cl_action (lw_lines w @ [line]) = replicate (Suc ?n) ''say''"
      using assms(1) say by (simp add: walk_ok_def replicate_append_same)
    with \<open>k = ?n\<close> False say assms(1) fresh(1,2) media facts show ?thesis
      by (auto simp: walk_ok_def w')
  qed
  then show ?thesis using w' by auto
qed

lemma walk_lines_ok:
  assumes "walk_ok request k w" "walk_lines request vs (length (lw_lines w)) w = Inr w'"
  shows "length (lw_lines w') = length (lw_lines w) + length vs \<and> (\<exists>k'. walk_ok request k' w')"
  using assms
proof (induction vs arbitrary: k w)
  case Nil
  then show ?case by auto
next
  case (Cons v vs)
  from Cons.prems(2) obtain line w1 where
    line: "parse_canonical_line v request (length (lw_lines w)) = Inr line"
    and step: "walk_line line (length (lw_lines w)) w = Inr w1"
    and rest: "walk_lines request vs (Suc (length (lw_lines w))) w1 = Inr w'"
    by (auto simp: field_Inr_iff and_then_Inr_iff)
  from walk_line_ok [OF Cons.prems(1) parse_canonical_line_facts [OF line] step]
  obtain k1 where "lw_lines w1 = lw_lines w @ [line]" "walk_ok request k1 w1" by blast
  with rest Cons.IH [of k1 w1] show ?case by simp
qed

lemma final_flags_match_iff:
  "final_flags_match f lines \<longleftrightarrow> (\<forall>i < length lines. cl_final_response_line (lines ! i) = (f = Some i))"
  by (auto simp: final_flags_match_def list_all_length nth_enumerate_eq)

lemma parse_canonical_response_walk:
  assumes "parse_canonical_response v corr = Inr r"
  shows "\<exists>vs w. walk_lines (rc_request corr) vs 0 line_walk_start = Inr w \<and> length vs \<le> 64
    \<and> final_flags_match (lw_final_dialogue_index w) (lw_lines w) \<and> cr_lines r = lw_lines w
    \<and> cr_response r = rc_message corr \<and> cr_session r = rc_session corr \<and> cr_turn r = rc_turn corr
    \<and> cr_request r = rc_request corr \<and> cr_generation r = rc_generation corr
    \<and> (cr_ok r \<longleftrightarrow> cr_error r = [])"
  using assms
  by (cases "json_object v")
    (simp_all add: parse_canonical_response_def field_Inr_iff field_or_Inr_iff and_then_Inr_iff
      split: if_splits option.splits, (elim exE conjE, auto simp: not_less, blast+)+)


definition sample_line :: json where
  "sample_line = JObject
     [(''action'', JString ''say''), (''display_name'', JString ''Fargoth''),
      (''final_response_line'', JBool True), (''line_id'', JString (sample_uuid_of 1)), (''line_index'', JInt 0),
      (''listener'', JString ''player''), (''listener_identity'', identity_json sample_identity),
      (''metadata'', JObject []), (''rechat_target'', JString ''player''),
      (''rechat_target_identity'', identity_json sample_identity), (''request_id'', JString (sample_uuid_of 2)),
      (''schema'', JString ''lorkhan.response.line.v1''), (''speaker'', JString ''fargoth''),
      (''speaker_identity'', identity_json sample_identity), (''subtitle'', JString ''Hi''),
      (''text'', JString ''Hi''), (''tts_text'', JString ''Hi''), (''utterance_id'', JString (sample_uuid_of 3))]"

definition sample_response :: json where
  "sample_response = JObject
     [(''close'', JBool False), (''created_at'', JString ''2026-01-02T03:04:05Z''), (''error'', JString []),
      (''generation'', JInt 7), (''installation_id'', JString (sample_uuid_of 4)), (''lines'', JArray [sample_line]),
      (''ok'', JBool True), (''playthrough_id'', JString (sample_uuid_of 5)),
      (''profile_id'', JString (sample_uuid_of 6)), (''request_id'', JString (sample_uuid_of 2)),
      (''response_id'', JString (sample_uuid_of 7)), (''runtime_generation'', JInt 1),
      (''schema'', JString ''lorkhan.response.v1''), (''session_id'', JString (sample_uuid_of 8)),
      (''turn_id'', JString (sample_uuid_of 9))]"

definition sample_correlation :: response_correlation where
  "sample_correlation = \<lparr>rc_message = StrongId (sample_uuid_of 7), rc_request = StrongId (sample_uuid_of 2),
     rc_turn = StrongId (sample_uuid_of 9), rc_session = StrongId (sample_uuid_of 8),
     rc_generation = Generation 7\<rparr>"


end
