(* ===== verification/Protocol_Action.thy ===== *)
theory Protocol_Action
  imports Protocol_Identity Actions
begin

text \<open>
  \<open>protocol_response.cpp\<close>: action intents, the server's requests to act in the game. The
  chain of comparisons on the action name is split by the kind of parameters the action takes;
  the names are pairwise different, so their order in the chain does not matter, and the
  actions without parameters are a table.
\<close>

section \<open>Data\<close>

datatype action_intent_kind =
    AI_follow | AI_stop | AI_conversation_end | AI_approach | AI_wait | AI_travel | AI_escort | AI_face
  | AI_wander | AI_animation_play | AI_combat_start | AI_combat_stop | AI_weapon_sheathe
  | AI_inspect_report | AI_inventory_inspect | AI_item_equip | AI_item_unequip | AI_item_use
  | AI_item_give | AI_item_take | AI_item_pickup | AI_gold_give | AI_gold_take | AI_service_barter
  | AI_service_training | AI_service_spells | AI_service_travel | AI_service_spellmaking
  | AI_service_enchanting | AI_service_repair | AI_spell_cast | AI_item_create | AI_gold_create
  | AI_actor_spawn | AI_actor_teleport_to_player | AI_player_teleport | AI_actor_restore
  | AI_actor_resurrect | AI_actor_kill

text \<open>The local variables the parameter branches fill in, with their initial values.\<close>

record intent_parameters =
  ip_kind :: action_intent_kind
  ip_follow_distance :: u32
  ip_wander_distance :: u32
  ip_wander_duration_seconds :: u32
  ip_string_parameter :: string
  ip_secondary_string_parameter :: string
  ip_destination_x :: cxx_double
  ip_destination_y :: cxx_double
  ip_destination_z :: cxx_double
  ip_destination_cell :: string
  ip_transfer_count :: u32

definition initial_parameters :: intent_parameters where
  "initial_parameters = \<lparr>ip_kind = AI_inspect_report, ip_follow_distance = 0, ip_wander_distance = 0,
     ip_wander_duration_seconds = 0, ip_string_parameter = [], ip_secondary_string_parameter = [],
     ip_destination_x = Finite 0, ip_destination_y = Finite 0, ip_destination_z = Finite 0,
     ip_destination_cell = [], ip_transfer_count = 0\<rparr>"

record action_intent =
  ai_action :: ActionId
  ai_turn :: TurnId
  ai_actor :: protocol_identity
  ai_target :: protocol_identity
  ai_parameters :: intent_parameters
  ai_display_name :: string
  ai_confirmation_required :: "bool option"
  ai_followup_enabled :: "bool option"
  ai_followup_actions_allowed :: "bool option"
  ai_followup_depth :: "u32 option"
  ai_expires_at :: string

section \<open>Names and tiers\<close>

definition advanced_actions :: "string list" where
  "advanced_actions = [''item.create'', ''gold.create'', ''actor.spawn'', ''actor.teleport_to_player'',
     ''player.teleport'', ''actor.restore'', ''actor.resurrect'', ''actor.kill'']"

definition inspection_actions :: "string list" where
  "inspection_actions = [''inspect.report'', ''inventory.inspect'']"

definition consequential_actions :: "string list" where
  "consequential_actions = [''combat.start'', ''item.equip'', ''item.unequip'', ''item.use'', ''item.give'',
     ''item.take'', ''item.pickup'', ''gold.give'', ''gold.take'', ''spell.cast'']"

definition ordinary_actions :: "string list" where
  "ordinary_actions = [''ai.follow'', ''ai.stop'', ''conversation.end'', ''ai.approach'', ''ai.wait'',
     ''ai.travel'', ''ai.escort'', ''ai.face'', ''ai.wander'', ''combat.stop'', ''weapon.sheathe'',
     ''animation.play'', ''service.barter'', ''service.training'', ''service.spells'', ''service.travel'',
     ''service.spellmaking'', ''service.enchanting'', ''service.repair'']"

definition known_action :: "string \<Rightarrow> bool" where
  "known_action name \<longleftrightarrow>
     name \<in> set advanced_actions \<or> name \<in> set inspection_actions
     \<or> name \<in> set consequential_actions \<or> name \<in> set ordinary_actions"

definition tier_mismatch :: "string \<Rightarrow> nat \<Rightarrow> bool" where
  "tier_mismatch name tier \<longleftrightarrow>
     (name \<in> set advanced_actions \<and> tier \<noteq> 2)
     \<or> (name \<in> set inspection_actions \<and> tier \<noteq> 0)
     \<or> (name \<in> set consequential_actions \<and> tier \<noteq> 2)
     \<or> (name \<notin> set advanced_actions \<and> name \<notin> set inspection_actions
        \<and> name \<notin> set consequential_actions \<and> tier \<noteq> 1)"

section \<open>Parameters\<close>

text \<open>\<open>s.find_first_of("/\\\r\n\t") != npos\<close>.\<close>

definition has_separator :: "string \<Rightarrow> bool" where
  "has_separator s \<longleftrightarrow>
     list_ex (\<lambda>c. c = CHR ''/'' \<or> c = CHR 0x5C \<or> c = CHR 0x0D \<or> c = CHR 0x0A \<or> c = CHR 0x09) s"

definition creation_parameters :: "string \<Rightarrow> json_object \<Rightarrow> intent_parameters result" where
  "creation_parameters name parameters =
     (if \<not> has_exactly parameters [''record_id'', ''count''] []
      then invalid_schema ''creation parameters mismatch''
      else
        let bad = ''invalid creation record or count'' in
        field_or (require_string parameters ''record_id'' 1 256) (\<lambda>i. \<not> has_separator i) bad (\<lambda>record_id.
        field_or (require_unsigned parameters ''count'' (if name = ''item.create'' then 100 else 4) 1) (\<lambda>_. True) bad (\<lambda>count.
          Inr (initial_parameters\<lparr>ip_string_parameter := record_id, ip_transfer_count := word_of_nat count,
                 ip_kind := (if name = ''item.create'' then AI_item_create else AI_actor_spawn)\<rparr>))))"

definition advanced_parameters ::
  "string \<Rightarrow> bool option \<Rightarrow> protocol_identity \<Rightarrow> protocol_identity \<Rightarrow> json_object \<Rightarrow> intent_parameters result"
where
  "advanced_parameters name confirmation actor target parameters =
     (if confirmation = None \<or> pid_kind actor \<noteq> ''player''
      then invalid_schema ''advanced action requires player authority and an explicit confirmation policy''
      else if pid_kind target \<noteq> ''player'' \<and> pid_kind target \<noteq> ''npc'' \<and> pid_kind target \<noteq> ''creature''
      then invalid_schema ''advanced action requires a physical target''
      else if (name = ''actor.kill'' \<or> name = ''actor.resurrect'' \<or> name = ''actor.teleport_to_player'')
         \<and> pid_kind target = ''player''
      then invalid_schema ''advanced action cannot affect player this way''
      else if (name = ''actor.spawn'' \<or> name = ''gold.create'' \<or> name = ''player.teleport'')
         \<and> pid_kind target \<noteq> ''player''
      then invalid_schema ''advanced action requires player target''
      else if name = ''item.create'' \<or> name = ''actor.spawn''
      then creation_parameters name parameters
      else if name = ''gold.create''
      then
        if \<not> has_exactly parameters [''amount''] [] then invalid_schema ''gold creation parameters mismatch''
        else field_or (require_unsigned parameters ''amount'' 100000 1) (\<lambda>_. True) ''invalid gold amount'' (\<lambda>amount.
          Inr (initial_parameters\<lparr>ip_transfer_count := word_of_nat amount, ip_kind := AI_gold_create\<rparr>))
      else if name = ''player.teleport''
      then
        if \<not> has_exactly parameters [''destination_id''] [] then invalid_schema ''teleport parameters mismatch''
        else field_or (require_string parameters ''destination_id'' 1 64) (\<lambda>_. True) ''invalid destination'' (\<lambda>i.
          Inr (initial_parameters\<lparr>ip_string_parameter := i, ip_kind := AI_player_teleport\<rparr>))
      else if \<not> has_exactly parameters [] []
      then invalid_schema ''advanced actor parameters must be empty''
      else Inr (initial_parameters\<lparr>ip_kind :=
        (if name = ''actor.teleport_to_player'' then AI_actor_teleport_to_player
         else if name = ''actor.restore'' then AI_actor_restore
         else if name = ''actor.resurrect'' then AI_actor_resurrect else AI_actor_kill)\<rparr>))"

definition follow_action_parameters :: "json_object \<Rightarrow> intent_parameters result" where
  "follow_action_parameters parameters =
     (if \<not> has_exactly parameters [''distance''] [] then invalid_schema ''action intent parameters mismatch''
      else field (require_unsigned parameters ''distance'' 192 192) (\<lambda>distance.
           field (validate_ai_follow (word_of_nat distance)) (\<lambda>follow.
             Inr (initial_parameters\<lparr>ip_kind := AI_follow, ip_follow_distance := fp_distance follow\<rparr>))))"

definition wander_parameters :: "json_object \<Rightarrow> intent_parameters result" where
  "wander_parameters parameters =
     (if \<not> has_exactly parameters [''distance'', ''duration_seconds''] []
      then invalid_schema ''action intent parameters mismatch''
      else field (require_unsigned parameters ''distance'' 2048 0) (\<lambda>distance.
           field_or (require_unsigned parameters ''duration_seconds'' 86400 3600) (\<lambda>d. d mod 3600 = 0)
             ''wander duration must be whole game hours'' (\<lambda>duration.
             Inr (initial_parameters\<lparr>ip_kind := AI_wander, ip_wander_distance := word_of_nat distance,
                    ip_wander_duration_seconds := word_of_nat duration\<rparr>))))"

definition wait_parameters :: "json_object \<Rightarrow> intent_parameters result" where
  "wait_parameters parameters =
     (if \<not> has_exactly parameters [''duration_seconds''] [] then invalid_schema ''ai.wait parameters mismatch''
      else field_or (require_unsigned parameters ''duration_seconds'' 86400 3600) (\<lambda>d. d mod 3600 = 0)
             ''wait duration must be whole game hours'' (\<lambda>duration.
             Inr (initial_parameters\<lparr>ip_kind := AI_wait, ip_wander_duration_seconds := word_of_nat duration\<rparr>)))"

definition destination_parameters :: "string \<Rightarrow> json_object \<Rightarrow> intent_parameters result" where
  "destination_parameters name parameters =
     (if \<not> has_exactly parameters [''destination_x'', ''destination_y'', ''destination_z'', ''destination_cell''] []
      then invalid_schema (name @ '' parameters mismatch'')
      else
        field (require_number parameters ''destination_x'' (- 100000000) 100000000) (\<lambda>x.
        field (require_number parameters ''destination_y'' (- 100000000) 100000000) (\<lambda>y.
        field (require_number parameters ''destination_z'' (- 100000000) 100000000) (\<lambda>z.
        field_or (require_string parameters ''destination_cell'' 1 300)
          (\<lambda>c. starts_with ''interior:'' c \<or> starts_with ''exterior:'' c) ''destination cell key mismatch'' (\<lambda>cell.
          Inr (initial_parameters\<lparr>ip_destination_x := x, ip_destination_y := y, ip_destination_z := z,
                 ip_destination_cell := cell,
                 ip_kind := (if name = ''ai.travel'' then AI_travel else AI_escort)\<rparr>))))))"

definition spell_parameters :: "json_object \<Rightarrow> intent_parameters result" where
  "spell_parameters parameters =
     (if \<not> has_exactly parameters [''spell_id''] [] then invalid_schema ''spell.cast parameters mismatch''
      else field_or (require_string parameters ''spell_id'' 1 256) (\<lambda>s. s \<noteq> []) ''invalid spell id'' (\<lambda>spell.
        Inr (initial_parameters\<lparr>ip_string_parameter := spell, ip_kind := AI_spell_cast\<rparr>)))"

definition animation_groups :: "string list" where
  "animation_groups = [''idle2'', ''idle3'', ''idle4'', ''idle5'', ''idle6'', ''idle7'', ''idle8'', ''idle9'']"

definition animation_parameters :: "json_object \<Rightarrow> intent_parameters result" where
  "animation_parameters parameters =
     (if \<not> has_exactly parameters [''group''] [] then invalid_schema ''animation.play parameters mismatch''
      else field_or (require_text parameters ''group'') (\<lambda>g. g \<in> set animation_groups) ''invalid animation group'' (\<lambda>g.
        Inr (initial_parameters\<lparr>ip_kind := AI_animation_play, ip_string_parameter := g\<rparr>)))"

definition equipment_slots :: "string list" where
  "equipment_slots = [''helmet'', ''cuirass'', ''greaves'', ''left_pauldron'', ''right_pauldron'',
     ''left_gauntlet'', ''right_gauntlet'', ''boots'', ''shirt'', ''pants'', ''skirt'', ''robe'', ''left_ring'',
     ''right_ring'', ''amulet'', ''belt'', ''carried_right'', ''carried_left'', ''ammunition'']"

definition valid_record_id :: "string \<Rightarrow> bool" where
  "valid_record_id r \<longleftrightarrow> r \<noteq> [] \<and> length r \<le> 128 \<and> \<not> has_separator r"

definition equip_parameters :: "string \<Rightarrow> json_object \<Rightarrow> intent_parameters result" where
  "equip_parameters name parameters =
     (let equip = (name = ''item.equip'') in
      if \<not> has_exactly parameters (if equip then [''record_id'', ''slot''] else [''slot'']) []
      then invalid_schema (name @ '' parameters mismatch'')
      else
        field_or (require_text parameters ''slot'') (\<lambda>s. s \<in> set equipment_slots) ''invalid equipment slot'' (\<lambda>slot.
          if equip
          then field_or (require_text parameters ''record_id'') valid_record_id ''invalid item record id'' (\<lambda>record_id.
            Inr (initial_parameters\<lparr>ip_string_parameter := record_id, ip_kind := AI_item_equip,
                   ip_secondary_string_parameter := slot\<rparr>))
          else Inr (initial_parameters\<lparr>ip_kind := AI_item_unequip, ip_secondary_string_parameter := slot\<rparr>)))"

definition use_parameters :: "json_object \<Rightarrow> intent_parameters result" where
  "use_parameters parameters =
     (if \<not> has_exactly parameters [''record_id''] [] then invalid_schema ''item.use parameters mismatch''
      else field_or (require_text parameters ''record_id'') valid_record_id ''invalid item record id'' (\<lambda>record_id.
        Inr (initial_parameters\<lparr>ip_kind := AI_item_use, ip_string_parameter := record_id\<rparr>)))"

text \<open>An object identifier as the game shows it: an optional at sign, then 0x and 1 to 16 digits.\<close>

definition observed_object_id :: "string \<Rightarrow> bool" where
  "observed_object_id item =
     (let t = (if starts_with ''@'' item then drop 1 item else item)
      in starts_with ''0x'' t \<and> 3 \<le> length t \<and> length t \<le> 18 \<and> list_all is_lower_hex (drop 2 t))"

definition transfer_parameters :: "string \<Rightarrow> json_object \<Rightarrow> intent_parameters result" where
  "transfer_parameters name parameters =
     (let pickup = (name = ''item.pickup'') in
      if \<not> has_exactly parameters (if pickup then [''item_id''] else [''item_id'', ''count'']) []
      then invalid_schema ''item transfer parameters mismatch''
      else
        field_or (require_string parameters ''item_id'' 3 19) (\<lambda>_. True) ''item transfer ID missing'' (\<lambda>item.
          if \<not> observed_object_id item
          then invalid_schema ''item transfer ID must be an exact observed object ID''
          else
            and_then (if pickup then Inr 0
                      else field_or (require_unsigned parameters ''count'' 1000 1) (\<lambda>_. True)
                             ''item transfer count out of range'' Inr) (\<lambda>count.
              Inr (initial_parameters\<lparr>ip_transfer_count := word_of_nat count, ip_string_parameter := item,
                     ip_kind := (if pickup then AI_item_pickup
                                 else if name = ''item.give'' then AI_item_give else AI_item_take)\<rparr>))))"

definition gold_parameters :: "string \<Rightarrow> json_object \<Rightarrow> intent_parameters result" where
  "gold_parameters name parameters =
     (if \<not> has_exactly parameters [''amount''] [] then invalid_schema ''gold transfer parameters mismatch''
      else field_or (require_unsigned parameters ''amount'' 100000 1) (\<lambda>_. True) ''gold transfer amount out of range'' (\<lambda>amount.
        Inr (initial_parameters\<lparr>ip_transfer_count := word_of_nat amount,
               ip_kind := (if name = ''gold.give'' then AI_gold_give else AI_gold_take)\<rparr>)))"

text \<open>The actions whose parameters must be empty, with their kind and error text.\<close>

definition parameterless_actions :: "(string \<times> action_intent_kind \<times> string) list" where
  "parameterless_actions =
     [(''ai.face'', AI_face, ''ai.face parameters must be empty''),
      (''ai.approach'', AI_approach, ''ai.approach parameters must be empty''),
      (''ai.stop'', AI_stop, ''ai.stop parameters must be empty''),
      (''conversation.end'', AI_conversation_end, ''conversation.end parameters must be empty''),
      (''combat.start'', AI_combat_start, ''combat.start parameters must be empty''),
      (''combat.stop'', AI_combat_stop, ''combat.stop parameters must be empty''),
      (''service.barter'', AI_service_barter, ''service parameters must be empty''),
      (''service.training'', AI_service_training, ''service parameters must be empty''),
      (''service.spells'', AI_service_spells, ''service parameters must be empty''),
      (''service.travel'', AI_service_travel, ''service parameters must be empty''),
      (''service.spellmaking'', AI_service_spellmaking, ''service parameters must be empty''),
      (''service.enchanting'', AI_service_enchanting, ''service parameters must be empty''),
      (''service.repair'', AI_service_repair, ''service parameters must be empty''),
      (''weapon.sheathe'', AI_weapon_sheathe, ''weapon.sheathe parameters must be empty'')]"

definition parameterless :: "string \<Rightarrow> json_object \<Rightarrow> intent_parameters result" where
  "parameterless name parameters =
     (case map_of parameterless_actions name of
        Some (kind, message) \<Rightarrow>
          if \<not> has_exactly parameters [] [] then invalid_schema message
          else Inr (initial_parameters\<lparr>ip_kind := kind\<rparr>)
      | None \<Rightarrow>
          if \<not> has_exactly parameters [] [] then invalid_schema (name @ '' parameters must be empty'')
          else Inr (if name = ''inventory.inspect''
                    then initial_parameters\<lparr>ip_kind := AI_inventory_inspect\<rparr> else initial_parameters))"

definition action_parameters ::
  "string \<Rightarrow> bool option \<Rightarrow> protocol_identity \<Rightarrow> protocol_identity \<Rightarrow> json_object \<Rightarrow> intent_parameters result"
where
  "action_parameters name confirmation actor target parameters =
     (if name \<in> set advanced_actions then advanced_parameters name confirmation actor target parameters
      else if name = ''ai.follow'' then follow_action_parameters parameters
      else if name = ''ai.wander'' then wander_parameters parameters
      else if name = ''ai.wait'' then wait_parameters parameters
      else if name = ''ai.travel'' \<or> name = ''ai.escort'' then destination_parameters name parameters
      else if name = ''spell.cast'' then spell_parameters parameters
      else if name = ''animation.play'' then animation_parameters parameters
      else if name = ''item.equip'' \<or> name = ''item.unequip'' then equip_parameters name parameters
      else if name = ''item.use'' then use_parameters parameters
      else if name = ''item.give'' \<or> name = ''item.take'' \<or> name = ''item.pickup''
      then transfer_parameters name parameters
      else if name = ''gold.give'' \<or> name = ''gold.take'' then gold_parameters name parameters
      else parameterless name parameters)"

definition confirmed_kind :: "action_intent_kind \<Rightarrow> bool" where
  "confirmed_kind k \<longleftrightarrow>
     k \<in> {AI_item_give, AI_item_take, AI_item_pickup, AI_gold_give, AI_gold_take, AI_spell_cast}"

section \<open>The parser\<close>

definition parse_action_intent :: "json \<Rightarrow> TurnId \<Rightarrow> action_intent result" where
  "parse_action_intent v envelope_turn =
     (case json_object v of
        None \<Rightarrow> invalid_schema ''action intent fields mismatch''
      | Some object \<Rightarrow>
          if \<not> has_exactly object
               [''schema'', ''action_id'', ''turn_id'', ''name'', ''tier'', ''actor'', ''target'', ''parameters'', ''expires_at'']
               [''display_name'', ''confirmation_required'', ''followup_enabled'', ''followup_actions_allowed'', ''followup_depth'']
          then invalid_schema ''action intent fields mismatch''
          else
            field_or (require_text object ''schema'') (\<lambda>s. s = ''lorkhan.action-intent.v1'')
              ''action intent schema mismatch'' (\<lambda>schema.
            field (require_uuid object ''action_id'') (\<lambda>action.
            field (require_uuid object ''turn_id'') (\<lambda>turn.
            if turn \<noteq> id_value envelope_turn
            then invalid_schema ''action intent turn does not match event envelope''
            else
            field_or (require_text object ''name'') known_action ''unknown action intent name'' (\<lambda>name.
            field (require_unsigned object ''tier'' 2 0) (\<lambda>tier.
            if tier_mismatch name tier then invalid_schema ''action intent tier mismatch''
            else
            field (require_timestamp object ''expires_at'') (\<lambda>expires_at.
            field (optional_field object ''display_name'' (\<lambda>o' k. require_string o' k 1 128)) (\<lambda>display_name.
            field (optional_field object ''confirmation_required'' require_boolean) (\<lambda>confirmation.
            field (optional_field object ''followup_enabled'' require_boolean) (\<lambda>followup.
            field (optional_field object ''followup_actions_allowed'' require_boolean) (\<lambda>followup_actions.
            field (optional_field object ''followup_depth'' (\<lambda>o' k. require_unsigned o' k 1 0)) (\<lambda>followup_depth.
            field (parse_identity (the (json_find object ''actor''))) (\<lambda>actor.
            field (parse_identity (the (json_find object ''target''))) (\<lambda>target.
              case json_object (the (json_find object ''parameters'')) of
                None \<Rightarrow> invalid_schema ''action intent parameters mismatch''
              | Some parameters \<Rightarrow>
                  and_then (action_parameters name confirmation actor target parameters) (\<lambda>p.
                    if confirmed_kind (ip_kind p) \<and> confirmation = None
                    then invalid_schema ''transfer requires an explicit confirmation policy''
                    else Inr \<lparr>ai_action = StrongId action, ai_turn = StrongId turn, ai_actor = actor,
                           ai_target = target, ai_parameters = p,
                           ai_display_name = (case display_name of None \<Rightarrow> [] | Some d \<Rightarrow> d),
                           ai_confirmation_required = confirmation, ai_followup_enabled = followup,
                           ai_followup_actions_allowed = followup_actions,
                           ai_followup_depth = map_option word_of_nat followup_depth,
                           ai_expires_at = expires_at\<rparr>)))))))))))))))"

section \<open>What an accepted intent guarantees\<close>

text \<open>The name of each kind, and the kinds that need the player's authority.\<close>

fun action_name :: "action_intent_kind \<Rightarrow> string" where
  "action_name AI_follow = ''ai.follow''" | "action_name AI_stop = ''ai.stop''"
| "action_name AI_conversation_end = ''conversation.end''" | "action_name AI_approach = ''ai.approach''"
| "action_name AI_wait = ''ai.wait''" | "action_name AI_travel = ''ai.travel''"
| "action_name AI_escort = ''ai.escort''" | "action_name AI_face = ''ai.face''"
| "action_name AI_wander = ''ai.wander''" | "action_name AI_animation_play = ''animation.play''"
| "action_name AI_combat_start = ''combat.start''" | "action_name AI_combat_stop = ''combat.stop''"
| "action_name AI_weapon_sheathe = ''weapon.sheathe''" | "action_name AI_inspect_report = ''inspect.report''"
| "action_name AI_inventory_inspect = ''inventory.inspect''" | "action_name AI_item_equip = ''item.equip''"
| "action_name AI_item_unequip = ''item.unequip''" | "action_name AI_item_use = ''item.use''"
| "action_name AI_item_give = ''item.give''" | "action_name AI_item_take = ''item.take''"
| "action_name AI_item_pickup = ''item.pickup''" | "action_name AI_gold_give = ''gold.give''"
| "action_name AI_gold_take = ''gold.take''" | "action_name AI_service_barter = ''service.barter''"
| "action_name AI_service_training = ''service.training''" | "action_name AI_service_spells = ''service.spells''"
| "action_name AI_service_travel = ''service.travel''"
| "action_name AI_service_spellmaking = ''service.spellmaking''"
| "action_name AI_service_enchanting = ''service.enchanting''" | "action_name AI_service_repair = ''service.repair''"
| "action_name AI_spell_cast = ''spell.cast''" | "action_name AI_item_create = ''item.create''"
| "action_name AI_gold_create = ''gold.create''" | "action_name AI_actor_spawn = ''actor.spawn''"
| "action_name AI_actor_teleport_to_player = ''actor.teleport_to_player''"
| "action_name AI_player_teleport = ''player.teleport''" | "action_name AI_actor_restore = ''actor.restore''"
| "action_name AI_actor_resurrect = ''actor.resurrect''" | "action_name AI_actor_kill = ''actor.kill''"

end
