(* ===== verification/Protocol_Action_Props.thy ===== *)
theory Protocol_Action_Props
  imports Protocol_Action
begin

text \<open>
  What an accepted action intent guarantees to the engine that will perform it: the kind is the
  one the server named, at the tier that belongs to it, and its parameters are within the
  closed contract of that kind.
\<close>

definition required_tier :: "action_intent_kind \<Rightarrow> nat" where
  "required_tier k =
     (if action_name k \<in> set inspection_actions then 0
      else if action_name k \<in> set advanced_actions \<or> action_name k \<in> set consequential_actions then 2 else 1)"

text \<open>The contract of the parameters.\<close>

definition parameters_within_contract :: "intent_parameters \<Rightarrow> bool" where
  "parameters_within_contract p \<longleftrightarrow>
     (case ip_kind p of
        AI_follow \<Rightarrow> ip_follow_distance p = 192
      | AI_wander \<Rightarrow> ip_wander_distance p \<le> 2048 \<and> 3600 \<le> ip_wander_duration_seconds p
          \<and> ip_wander_duration_seconds p \<le> 86400
      | AI_wait \<Rightarrow> 3600 \<le> ip_wander_duration_seconds p \<and> ip_wander_duration_seconds p \<le> 86400
      | AI_item_create \<Rightarrow> 1 \<le> ip_transfer_count p \<and> ip_transfer_count p \<le> 100
          \<and> \<not> has_separator (ip_string_parameter p)
      | AI_actor_spawn \<Rightarrow> 1 \<le> ip_transfer_count p \<and> ip_transfer_count p \<le> 4
          \<and> \<not> has_separator (ip_string_parameter p)
      | AI_gold_create \<Rightarrow> 1 \<le> ip_transfer_count p \<and> ip_transfer_count p \<le> 100000
      | AI_gold_give \<Rightarrow> 1 \<le> ip_transfer_count p \<and> ip_transfer_count p \<le> 100000
      | AI_gold_take \<Rightarrow> 1 \<le> ip_transfer_count p \<and> ip_transfer_count p \<le> 100000
      | AI_item_give \<Rightarrow> 1 \<le> ip_transfer_count p \<and> ip_transfer_count p \<le> 1000
          \<and> observed_object_id (ip_string_parameter p)
      | AI_item_take \<Rightarrow> 1 \<le> ip_transfer_count p \<and> ip_transfer_count p \<le> 1000
          \<and> observed_object_id (ip_string_parameter p)
      | AI_item_pickup \<Rightarrow> observed_object_id (ip_string_parameter p)
      | AI_item_use \<Rightarrow> valid_record_id (ip_string_parameter p)
      | AI_item_equip \<Rightarrow> valid_record_id (ip_string_parameter p)
          \<and> ip_secondary_string_parameter p \<in> set equipment_slots
      | AI_item_unequip \<Rightarrow> ip_secondary_string_parameter p \<in> set equipment_slots
      | _ \<Rightarrow> True)"

text \<open>Who may ask for an advanced action, and on whom.\<close>

definition advanced_action :: "action_intent_kind \<Rightarrow> bool" where
  "advanced_action k \<longleftrightarrow>
     k \<in> {AI_item_create, AI_gold_create, AI_actor_spawn, AI_actor_teleport_to_player, AI_player_teleport,
          AI_actor_restore, AI_actor_resurrect, AI_actor_kill}"

definition advanced_authority ::
  "action_intent_kind \<Rightarrow> bool option \<Rightarrow> protocol_identity \<Rightarrow> protocol_identity \<Rightarrow> bool"
where
  "advanced_authority k confirmation actor target \<longleftrightarrow>
     (if advanced_action k
      then confirmation \<noteq> None \<and> pid_kind actor = ''player''
        \<and> pid_kind target \<in> {''player'', ''npc'', ''creature''}
        \<and> (if k \<in> {AI_actor_kill, AI_actor_resurrect, AI_actor_teleport_to_player}
           then pid_kind target \<noteq> ''player'' else True)
        \<and> (if k \<in> {AI_actor_spawn, AI_gold_create, AI_player_teleport} then pid_kind target = ''player'' else True)
      else True)"

lemma u32_le: "n \<le> m \<Longrightarrow> m < 2 ^ 32 \<Longrightarrow> (word_of_nat n :: u32) \<le> word_of_nat m"
  by (simp add: word_le_nat_alt unat_of_nat take_bit_nat_eq_self)

lemma u32_le_numeral: "n \<le> numeral k \<Longrightarrow> (numeral k :: nat) < 2 ^ 32 \<Longrightarrow> word_of_nat n \<le> (numeral k :: u32)"
  using u32_le [of n "numeral k"] by simp

lemma u32_ge_numeral: "numeral k \<le> n \<Longrightarrow> n < 2 ^ 32 \<Longrightarrow> (numeral k :: u32) \<le> word_of_nat n"
  using u32_le [of "numeral k" n] by simp

lemma u32_ge_one: "Suc 0 \<le> n \<Longrightarrow> n < 2 ^ 32 \<Longrightarrow> (1 :: u32) \<le> word_of_nat n"
  by (simp add: word_le_nat_alt unat_of_nat take_bit_nat_eq_self)

lemmas u32_counts = u32_le_numeral u32_ge_numeral u32_ge_one

text \<open>One lemma per group of actions; together they cover every known name.\<close>

definition sound_parameters ::
  "string \<Rightarrow> bool option \<Rightarrow> protocol_identity \<Rightarrow> protocol_identity \<Rightarrow> intent_parameters \<Rightarrow> bool"
where
  "sound_parameters name confirmation actor target p \<longleftrightarrow>
     action_name (ip_kind p) = name \<and> parameters_within_contract p
     \<and> advanced_authority (ip_kind p) confirmation actor target"

lemma advanced_action_name: "action_name k \<in> set advanced_actions \<longleftrightarrow> advanced_action k"
  by (cases k) (simp_all add: advanced_actions_def advanced_action_def)

lemmas sound_defs = sound_parameters_def parameters_within_contract_def advanced_authority_def
  advanced_action_def initial_parameters_def

lemma creation_parameters_sound:
  assumes "creation_parameters name parameters = Inr p" "name = ''item.create'' \<or> name = ''actor.spawn''"
    "confirmation \<noteq> None" "pid_kind actor = ''player''" "pid_kind target = ''player'' \<or> pid_kind target = ''npc'' \<or> pid_kind target = ''creature''"
    "name = ''actor.spawn'' \<Longrightarrow> pid_kind target = ''player''"
  shows "sound_parameters name confirmation actor target p"
proof -
  obtain record_id count where p: "p = initial_parameters\<lparr>ip_string_parameter := record_id,
      ip_transfer_count := word_of_nat count,
      ip_kind := (if name = ''item.create'' then AI_item_create else AI_actor_spawn)\<rparr>"
    and r: "\<not> has_separator record_id" "1 \<le> count" "count \<le> (if name = ''item.create'' then 100 else 4)"
    using assms(1)
    by (auto simp: creation_parameters_def field_or_Inr_iff Let_def require_unsigned_Inr_iff split: if_split_asm)
  from assms(2) show ?thesis
  proof
    assume "name = ''item.create''"
    with assms(3-5) r show ?thesis by (simp add: p sound_defs u32_counts)
  next
    assume "name = ''actor.spawn''"
    with assms(3-6) r show ?thesis by (simp add: p sound_defs u32_counts)
  qed
qed

lemma follow_sound:
  "follow_action_parameters parameters = Inr p \<Longrightarrow> sound_parameters ''ai.follow'' confirmation actor target p"
  by (auto simp: follow_action_parameters_def validate_ai_follow_def field_Inr_iff require_unsigned_Inr_iff
      sound_defs split: if_splits)

lemma wander_sound:
  "wander_parameters parameters = Inr p \<Longrightarrow> sound_parameters ''ai.wander'' confirmation actor target p"
  by (auto simp: wander_parameters_def field_Inr_iff field_or_Inr_iff require_unsigned_Inr_iff
      sound_defs u32_counts split: if_splits)

lemma wait_sound:
  "wait_parameters parameters = Inr p \<Longrightarrow> sound_parameters ''ai.wait'' confirmation actor target p"
  by (auto simp: wait_parameters_def field_or_Inr_iff require_unsigned_Inr_iff sound_defs u32_counts split: if_splits)

lemma destination_parameters_InrD:
  "destination_parameters name parameters = Inr p \<Longrightarrow>
     \<exists>x y z cell. p = initial_parameters\<lparr>ip_destination_x := x, ip_destination_y := y, ip_destination_z := z,
       ip_destination_cell := cell, ip_kind := (if name = ''ai.travel'' then AI_travel else AI_escort)\<rparr>"
  unfolding destination_parameters_def if_Inr_iff field_Inr_iff field_or_Inr_iff by blast

lemma destination_sound:
  assumes "name = ''ai.travel'' \<or> name = ''ai.escort''" "destination_parameters name parameters = Inr p"
  shows "sound_parameters name confirmation actor target p"
  using destination_parameters_InrD [OF assms(2)] assms(1) by (elim disjE exE) (simp_all add: sound_defs)

lemma spell_sound:
  "spell_parameters parameters = Inr p \<Longrightarrow> sound_parameters ''spell.cast'' confirmation actor target p"
  by (auto simp: spell_parameters_def field_or_Inr_iff sound_defs split: if_splits)

lemma animation_sound:
  "animation_parameters parameters = Inr p \<Longrightarrow> sound_parameters ''animation.play'' confirmation actor target p"
  by (auto simp: animation_parameters_def field_or_Inr_iff sound_defs split: if_splits)

lemma equip_sound:
  "name = ''item.equip'' \<or> name = ''item.unequip'' \<Longrightarrow> equip_parameters name parameters = Inr p \<Longrightarrow>
     sound_parameters name confirmation actor target p"
  by (elim disjE) (auto simp: equip_parameters_def Let_def field_or_Inr_iff sound_defs split: if_splits)

lemma use_sound:
  "use_parameters parameters = Inr p \<Longrightarrow> sound_parameters ''item.use'' confirmation actor target p"
  by (auto simp: use_parameters_def field_or_Inr_iff sound_defs split: if_splits)

lemma transfer_parameters_InrD:
  assumes "transfer_parameters name parameters = Inr p"
  shows "\<exists>item count. p = initial_parameters\<lparr>ip_transfer_count := word_of_nat count, ip_string_parameter := item,
       ip_kind := (if name = ''item.pickup'' then AI_item_pickup
                   else if name = ''item.give'' then AI_item_give else AI_item_take)\<rparr>
     \<and> observed_object_id item \<and> (name = ''item.pickup'' \<or> (1 \<le> count \<and> count \<le> 1000))"
proof -
  from assms obtain item where i: "observed_object_id item"
    and rest: "and_then (if name = ''item.pickup'' then Inr 0
        else field_or (require_unsigned parameters ''count'' 1000 1) (\<lambda>_. True)
               ''item transfer count out of range'' Inr) (\<lambda>count.
        Inr (initial_parameters\<lparr>ip_transfer_count := word_of_nat count, ip_string_parameter := item,
               ip_kind := (if name = ''item.pickup'' then AI_item_pickup
                           else if name = ''item.give'' then AI_item_give else AI_item_take)\<rparr>)) = Inr p"
    unfolding transfer_parameters_def Let_def if_Inr_iff field_or_Inr_iff [where good = "\<lambda>_. True"]
    by (elim conjE exE) simp
  from rest obtain count where
    c: "(if name = ''item.pickup'' then Inr 0
         else field_or (require_unsigned parameters ''count'' 1000 1) (\<lambda>_. True)
                ''item transfer count out of range'' Inr) = Inr count"
    and p: "p = initial_parameters\<lparr>ip_transfer_count := word_of_nat count, ip_string_parameter := item,
       ip_kind := (if name = ''item.pickup'' then AI_item_pickup
                   else if name = ''item.give'' then AI_item_give else AI_item_take)\<rparr>"
    unfolding and_then_Inr_iff by (elim exE conjE) simp
  from c have "name = ''item.pickup'' \<or> (1 \<le> count \<and> count \<le> 1000)"
    by (cases "name = ''item.pickup''") (simp_all add: field_or_Inr_iff require_unsigned_Inr_iff)
  with p i show ?thesis by blast
qed

lemma transfer_sound:
  assumes "name = ''item.give'' \<or> name = ''item.take'' \<or> name = ''item.pickup''"
    "transfer_parameters name parameters = Inr p"
  shows "sound_parameters name confirmation actor target p"
  using transfer_parameters_InrD [OF assms(2)] assms(1)
  by (elim disjE exE conjE) (simp_all add: sound_defs u32_counts)

lemma gold_parameters_InrD:
  assumes "gold_parameters name parameters = Inr p"
  shows "\<exists>amount. p = initial_parameters\<lparr>ip_transfer_count := word_of_nat amount,
      ip_kind := (if name = ''gold.give'' then AI_gold_give else AI_gold_take)\<rparr> \<and> 1 \<le> amount \<and> amount \<le> 100000"
proof -
  from assms obtain amount where "require_unsigned parameters ''amount'' 100000 1 = Inr amount"
    and p: "p = initial_parameters\<lparr>ip_transfer_count := word_of_nat amount,
      ip_kind := (if name = ''gold.give'' then AI_gold_give else AI_gold_take)\<rparr>"
    unfolding gold_parameters_def if_Inr_iff field_or_Inr_iff by (elim conjE exE) simp
  then have "1 \<le> amount \<and> amount \<le> 100000" by (simp add: require_unsigned_Inr_iff)
  with p show ?thesis by blast
qed

lemma gold_sound:
  assumes "name = ''gold.give'' \<or> name = ''gold.take''" "gold_parameters name parameters = Inr p"
  shows "sound_parameters name confirmation actor target p"
  using gold_parameters_InrD [OF assms(2)] assms(1)
  by (elim disjE exE conjE) (simp_all add: sound_defs u32_counts)

lemmas group_sound = follow_sound wander_sound wait_sound destination_sound spell_sound animation_sound
  equip_sound use_sound transfer_sound gold_sound

text \<open>The advanced actions, once the authority checks have passed.\<close>

lemma advanced_parameters_cases:
  assumes "advanced_parameters name confirmation actor target parameters = Inr p" "name \<in> set advanced_actions"
  obtains (creation) "name = ''item.create'' \<or> name = ''actor.spawn''" "creation_parameters name parameters = Inr p"
  | (gold) amount where "name = ''gold.create''" "1 \<le> amount" "amount \<le> 100000"
      "p = initial_parameters\<lparr>ip_transfer_count := word_of_nat amount, ip_kind := AI_gold_create\<rparr>"
  | (teleport) i where "name = ''player.teleport''"
      "p = initial_parameters\<lparr>ip_string_parameter := i, ip_kind := AI_player_teleport\<rparr>"
  | (bare) k where "(name, k) \<in> {(''actor.teleport_to_player'', AI_actor_teleport_to_player),
        (''actor.restore'', AI_actor_restore), (''actor.resurrect'', AI_actor_resurrect), (''actor.kill'', AI_actor_kill)}"
      "p = initial_parameters\<lparr>ip_kind := k\<rparr>"
proof -
  have "name = ''item.create'' \<or> name = ''gold.create'' \<or> name = ''actor.spawn''
    \<or> name = ''actor.teleport_to_player'' \<or> name = ''player.teleport'' \<or> name = ''actor.restore''
    \<or> name = ''actor.resurrect'' \<or> name = ''actor.kill''"
    using assms(2) unfolding advanced_actions_def by (simp only: list.set insert_iff empty_iff simp_thms)
  then have named: "name = ''item.create'' \<or> name = ''actor.spawn'' \<or> name = ''gold.create''
    \<or> name = ''player.teleport'' \<or> name = ''actor.teleport_to_player'' \<or> name = ''actor.restore''
    \<or> name = ''actor.resurrect'' \<or> name = ''actor.kill''"
    by (elim disjE) simp_all
  note checked = assms(1) [unfolded advanced_parameters_def if_Inr_iff, THEN conjunct2, THEN conjunct2,
      THEN conjunct2, THEN conjunct2]
  show thesis
  proof (cases "name = ''item.create'' \<or> name = ''actor.spawn''")
    case True
    with checked have "creation_parameters name parameters = Inr p" by simp
    with True show thesis by (rule creation)
  next
    case 1: False
    show thesis
    proof (cases "name = ''gold.create''")
      case True
      with checked 1 obtain amount where "require_unsigned parameters ''amount'' 100000 1 = Inr amount"
        "p = initial_parameters\<lparr>ip_transfer_count := word_of_nat amount, ip_kind := AI_gold_create\<rparr>"
        by (auto simp: field_or_Inr_iff split: if_split_asm)
      with True show thesis by (intro gold [of amount]) (auto simp: require_unsigned_Inr_iff)
    next
      case 2: False
      show thesis
      proof (cases "name = ''player.teleport''")
        case True
        with checked 1 2 obtain i where
          "p = initial_parameters\<lparr>ip_string_parameter := i, ip_kind := AI_player_teleport\<rparr>"
          by (auto simp: field_or_Inr_iff split: if_split_asm)
        with True show thesis by (rule teleport)
      next
        case 3: False
        with checked 1 2 have p: "p = initial_parameters\<lparr>ip_kind :=
            (if name = ''actor.teleport_to_player'' then AI_actor_teleport_to_player
             else if name = ''actor.restore'' then AI_actor_restore
             else if name = ''actor.resurrect'' then AI_actor_resurrect else AI_actor_kill)\<rparr>"
          by (simp split: if_split_asm)
        from named 1 2 3 have "name = ''actor.teleport_to_player'' \<or> name = ''actor.restore''
            \<or> name = ''actor.resurrect'' \<or> name = ''actor.kill''"
          by simp
        with p show thesis by (elim disjE) (rule bare, simp_all)+
      qed
    qed
  qed
qed

lemma advanced_parameters_authority:
  assumes "advanced_parameters name confirmation actor target parameters = Inr p"
  shows "confirmation \<noteq> None" "pid_kind actor = ''player''"
    "pid_kind target = ''player'' \<or> pid_kind target = ''npc'' \<or> pid_kind target = ''creature''"
    "name = ''actor.kill'' \<or> name = ''actor.resurrect'' \<or> name = ''actor.teleport_to_player'' \<Longrightarrow>
       pid_kind target \<noteq> ''player''"
    "name = ''actor.spawn'' \<or> name = ''gold.create'' \<or> name = ''player.teleport'' \<Longrightarrow>
       pid_kind target = ''player''"
proof -
  note checks = assms [unfolded advanced_parameters_def if_Inr_iff]
  note c1 = checks [THEN conjunct1]
    and c2 = checks [THEN conjunct2, THEN conjunct1]
    and c3 = checks [THEN conjunct2, THEN conjunct2, THEN conjunct1]
    and c4 = checks [THEN conjunct2, THEN conjunct2, THEN conjunct2, THEN conjunct1]
  from c1 show "confirmation \<noteq> None" by simp
  from c1 show "pid_kind actor = ''player''" by simp
  from c2 show "pid_kind target = ''player'' \<or> pid_kind target = ''npc'' \<or> pid_kind target = ''creature''"
    by blast
  from c3 show "name = ''actor.kill'' \<or> name = ''actor.resurrect'' \<or> name = ''actor.teleport_to_player'' \<Longrightarrow>
       pid_kind target \<noteq> ''player''" by blast
  from c4 show "name = ''actor.spawn'' \<or> name = ''gold.create'' \<or> name = ''player.teleport'' \<Longrightarrow>
       pid_kind target = ''player''" by blast
qed

lemma advanced_parameters_sound:
  assumes "advanced_parameters name confirmation actor target parameters = Inr p" "name \<in> set advanced_actions"
  shows "sound_parameters name confirmation actor target p"
proof -
  note authority = advanced_parameters_authority [OF assms(1)]
  from assms show ?thesis
  proof (cases rule: advanced_parameters_cases)
    case creation
    show ?thesis
      by (rule creation_parameters_sound [OF creation(2,1) authority(1-3)]) (use authority(5) in simp)
  next
    case (gold amount)
    with authority show ?thesis by (simp add: sound_defs u32_counts)
  next
    case (teleport i)
    with authority show ?thesis by (simp add: sound_defs)
  next
    case (bare k)
    with authority show ?thesis by (elim insertE) (simp_all add: sound_defs)
  qed
qed

lemma parameterless_sound:
  assumes "parameterless name parameters = Inr p"
    and "name \<in> fst ` set parameterless_actions \<or> name = ''inspect.report'' \<or> name = ''inventory.inspect''"
  shows "sound_parameters name confirmation actor target p"
proof (cases "map_of parameterless_actions name")
  case None
  then have "name = ''inspect.report'' \<or> name = ''inventory.inspect''"
    using assms(2) by (simp add: map_of_eq_None_iff)
  with None assms(1) show ?thesis
    by (auto simp: parameterless_def sound_defs split: if_splits)
next
  case (Some km)
  obtain kind message where km: "km = (kind, message)" by (cases km)
  have "list_all (\<lambda>(n, k, m). action_name k = n \<and> \<not> advanced_action k
      \<and> parameters_within_contract (initial_parameters\<lparr>ip_kind := k\<rparr>)) parameterless_actions"
    by (simp add: parameterless_actions_def sound_defs)
  moreover have "(name, kind, message) \<in> set parameterless_actions"
    using Some km by (simp add: map_of_SomeD)
  moreover have "p = initial_parameters\<lparr>ip_kind := kind\<rparr>"
    using assms(1) Some km by (simp add: parameterless_def split: if_splits)
  ultimately show ?thesis
    by (auto simp: list_all_iff sound_parameters_def advanced_authority_def)
qed

definition parameter_actions :: "string list" where
  "parameter_actions = [''ai.follow'', ''ai.wander'', ''ai.wait'', ''ai.travel'', ''ai.escort'', ''spell.cast'',
     ''animation.play'', ''item.equip'', ''item.unequip'', ''item.use'', ''item.give'', ''item.take'',
     ''item.pickup'', ''gold.give'', ''gold.take'']"

definition table_actions :: "string list" where
  "table_actions = ''inspect.report'' # ''inventory.inspect'' # map fst parameterless_actions"

lemma known_action_cases:
  assumes "known_action name"
  shows "name \<in> set advanced_actions \<or> name \<in> set parameter_actions \<or> name \<in> set table_actions"
proof -
  have "list_all (\<lambda>n. n \<in> set advanced_actions \<or> n \<in> set parameter_actions \<or> n \<in> set table_actions)
      (advanced_actions @ inspection_actions @ consequential_actions @ ordinary_actions)"
    by code_simp
  with assms show ?thesis by (auto simp: list_all_iff known_action_def)
qed

lemma action_groups_disjoint:
  "name \<in> set parameter_actions \<Longrightarrow> name \<notin> set advanced_actions"
  "name \<in> set table_actions \<Longrightarrow> name \<notin> set advanced_actions \<and> name \<notin> set parameter_actions"
proof -
  have "list_all (\<lambda>n. n \<notin> set advanced_actions) parameter_actions"
    "list_all (\<lambda>n. n \<notin> set advanced_actions \<and> n \<notin> set parameter_actions) table_actions"
    by code_simp+
  then show "name \<in> set parameter_actions \<Longrightarrow> name \<notin> set advanced_actions"
    "name \<in> set table_actions \<Longrightarrow> name \<notin> set advanced_actions \<and> name \<notin> set parameter_actions"
    by (simp_all add: list_all_iff)
qed

lemma parameter_actions_sound:
  assumes "action_parameters name confirmation actor target parameters = Inr p"
    and "name \<in> set parameter_actions"
  shows "sound_parameters name confirmation actor target p"
proof -
  have step: "(if name \<in> set advanced_actions then a else b) = b" for a b :: "intent_parameters result"
    using action_groups_disjoint(1) [OF assms(2)] by simp
  from assms(2) have "name = ''ai.follow'' \<or> name = ''ai.wander'' \<or> name = ''ai.wait''
    \<or> name = ''ai.travel'' \<or> name = ''ai.escort'' \<or> name = ''spell.cast'' \<or> name = ''animation.play''
    \<or> name = ''item.equip'' \<or> name = ''item.unequip'' \<or> name = ''item.use''
    \<or> name = ''item.give'' \<or> name = ''item.take'' \<or> name = ''item.pickup''
    \<or> name = ''gold.give'' \<or> name = ''gold.take''"
    unfolding parameter_actions_def by simp
  then show ?thesis
    using assms(1) unfolding action_parameters_def step
    by (elim disjE; simp add: group_sound)
qed

lemma table_actions_sound:
  assumes "action_parameters name confirmation actor target parameters = Inr p"
    and "name \<in> set table_actions"
  shows "sound_parameters name confirmation actor target p"
proof -
  have "action_parameters name confirmation actor target parameters = parameterless name parameters"
    using action_groups_disjoint(2) [OF assms(2)] by (simp add: action_parameters_def parameter_actions_def)
  with assms show ?thesis
    by (intro parameterless_sound) (auto simp: table_actions_def)
qed

lemma action_parameters_sound:
  assumes "action_parameters name confirmation actor target parameters = Inr p" "known_action name"
  shows "sound_parameters name confirmation actor target p"
  using known_action_cases [OF assms(2)]
proof (elim disjE)
  assume "name \<in> set advanced_actions"
  with assms(1) show ?thesis by (intro advanced_parameters_sound) (simp_all add: action_parameters_def)
qed (use assms(1) parameter_actions_sound table_actions_sound in blast)+

lemma parse_action_intent_facts:
  assumes "parse_action_intent v turn = Inr a"
  shows "\<exists>object name tier parameters. json_object v = Some object
    \<and> json_find object ''name'' = Some (JString name) \<and> known_action name
    \<and> json_find object ''tier'' = Some (JInt (int tier)) \<and> \<not> tier_mismatch name tier
    \<and> ai_turn a = turn
    \<and> action_parameters name (ai_confirmation_required a) (ai_actor a) (ai_target a) parameters
        = Inr (ai_parameters a)
    \<and> \<not> (confirmed_kind (ip_kind (ai_parameters a)) \<and> ai_confirmation_required a = None)"
proof (cases "json_object v")
  case None
  with assms show ?thesis by (simp add: parse_action_intent_def)
next
  case (Some object)
  note accepted = assms [unfolded parse_action_intent_def Some option.case if_Inr_iff field_Inr_iff field_or_Inr_iff]
  show ?thesis
  proof (cases "json_object (the (json_find object ''parameters''))")
    case None
    from accepted show ?thesis unfolding None option.case by (elim conjE exE) (simp only: invalid_schema_not_Inr)
  next
    case parameters: (Some parameters)
    from accepted show ?thesis
      unfolding parameters option.case and_then_Inr_iff if_Inr_iff
      by (elim conjE exE, intro exI [of _ object] exI conjI)
        (assumption | rule Some | force simp: require_string_Inr_iff require_unsigned_Inr_iff)+
  qed
qed


definition sample_intent :: json where
  "sample_intent = JObject
     [(''action_id'', JString (sample_uuid_of 1)), (''actor'', identity_json sample_identity),
      (''confirmation_required'', JBool True), (''expires_at'', JString ''2026-01-02T03:04:05Z''),
      (''name'', JString ''item.give''),
      (''parameters'', JObject [(''count'', JInt 3), (''item_id'', JString ''@0x1a'')]),
      (''schema'', JString ''lorkhan.action-intent.v1''), (''target'', identity_json sample_identity),
      (''tier'', JInt 2), (''turn_id'', JString (sample_uuid_of 2))]"


end
