(* ===== verification/Protocol_Settings.thy ===== *)
theory Protocol_Settings
  imports Protocol_Identity "HOL-Library.Monad_Syntax"
begin

text \<open>
  The settings a server may push: \<open>parseClientSettings\<close> (the settings of an accepted session)
  and \<open>parseEffectiveSettings\<close> (the snapshot of the controls endpoint) of
  \<open>protocol_response.cpp\<close>. Both read the same five sections with the same bounds. All the
  values of the sections are read before any is tested, and one message stands for every
  failure, so a section reader is an option; the order of the reads is not observable.
\<close>

record client_behavior_settings =
  cbs_auto_greeting :: bool
  cbs_rechat :: bool
  cbs_rechat_delay_seconds :: nat
  cbs_rechat_max_depth :: nat
  cbs_rechat_probability_percent :: nat
  cbs_rechat_mode :: string
  cbs_rechat_strict_targeting :: bool
  cbs_open_rechat :: bool
  cbs_rechat_allow_actions :: bool
  cbs_end_conversation_cooldown_seconds :: nat
  cbs_boredom :: bool
  cbs_boredom_delay_seconds :: nat
  cbs_combat_barks :: bool
  cbs_combat_bark_period_seconds :: nat
  cbs_ai_enabled :: bool

record client_memory_settings =
  cms_recent_turn_limit :: nat
  cms_knowledge_limit :: nat

record client_narrator_settings =
  cns_enabled :: bool
  cns_name :: string
  cns_context_visibility :: bool
  cns_inline_mode :: string
  cns_welcome_events :: bool
  cns_welcome_cooldown_minutes :: nat
  cns_random_events :: bool
  cns_random_chance_percent :: nat
  cns_random_cooldown_rounds :: nat
  cns_bored_events :: bool
  cns_bored_chance_percent :: nat
  cns_quest_events :: bool
  cns_quest_chance_percent :: nat
  cns_quest_cooldown_minutes :: nat
  cns_book_events :: bool

record client_presentation_settings =
  cps_show_status_hud :: bool
  cps_transcript_rows :: nat
  cps_tts_volume_boost :: nat

record client_safety_settings =
  css_actions_enabled :: bool
  css_allow_hostile :: bool
  css_allow_creatures :: bool

record client_settings =
  cs_behavior :: client_behavior_settings
  cs_memory :: client_memory_settings
  cs_narrator :: client_narrator_settings
  cs_presentation :: client_presentation_settings
  cs_safety :: client_safety_settings

section \<open>The sections\<close>

definition behavior_fields :: "string list" where
  "behavior_fields = [''auto_greeting'', ''rechat'', ''rechat_delay_seconds'', ''rechat_max_depth'',
     ''rechat_probability_percent'', ''rechat_mode'', ''rechat_strict_targeting'', ''open_rechat'',
     ''rechat_allow_actions'', ''end_conversation_cooldown_seconds'', ''boredom'', ''boredom_delay_seconds'',
     ''combat_barks'', ''combat_bark_period_seconds'']"

definition memory_fields :: "string list" where
  "memory_fields = [''recent_turn_limit'', ''knowledge_limit'']"

definition narrator_fields :: "string list" where
  "narrator_fields = [''enabled'', ''name'', ''context_visibility'', ''inline_mode'', ''welcome_events'',
     ''welcome_cooldown_minutes'', ''random_events'', ''random_chance_percent'', ''random_cooldown_rounds'',
     ''bored_events'', ''bored_chance_percent'', ''quest_events'', ''quest_chance_percent'',
     ''quest_cooldown_minutes'', ''book_events'']"

definition presentation_fields :: "string list" where
  "presentation_fields = [''show_status_hud'', ''transcript_rows'', ''tts_volume_boost'']"

definition safety_fields :: "string list" where
  "safety_fields = [''actions_enabled'', ''allow_hostile'', ''allow_creatures'']"

definition section_object :: "json_object \<Rightarrow> string \<Rightarrow> string list \<Rightarrow> string list \<Rightarrow> json_object option" where
  "section_object parent key required optional =
     do {
       item \<leftarrow> json_find parent key;
       object \<leftarrow> json_object item;
       if has_exactly object required optional then Some object else None
     }"

text \<open>\<open>if (!r) fail\<close>, for the reads that share one message.\<close>

fun obtained :: "'a result \<Rightarrow> 'a option" where
  "obtained (Inl _) = None" | "obtained (Inr a) = Some a"

lemma obtained_Some_iff [simp]: "obtained r = Some a \<longleftrightarrow> r = Inr a"
  by (cases r) auto

definition read_behavior :: "json_object \<Rightarrow> client_behavior_settings option" where
  "read_behavior b =
     do {
       ai_enabled \<leftarrow> (if json_find b ''ai_enabled'' \<noteq> None then obtained (require_boolean b ''ai_enabled'') else Some True);
       auto_greeting \<leftarrow> obtained (require_boolean b ''auto_greeting'');
       rechat \<leftarrow> obtained (require_boolean b ''rechat'');
       rechat_delay \<leftarrow> obtained (require_unsigned b ''rechat_delay_seconds'' 3600 30);
       rechat_depth \<leftarrow> obtained (require_unsigned b ''rechat_max_depth'' 20 1);
       rechat_probability \<leftarrow> obtained (require_unsigned b ''rechat_probability_percent'' 100 0);
       rechat_mode \<leftarrow> obtained (require_string b ''rechat_mode'' 1 16);
       strict_rechat \<leftarrow> obtained (require_boolean b ''rechat_strict_targeting'');
       open_rechat \<leftarrow> obtained (require_boolean b ''open_rechat'');
       rechat_actions \<leftarrow> obtained (require_boolean b ''rechat_allow_actions'');
       conversation_cooldown \<leftarrow> obtained (require_unsigned b ''end_conversation_cooldown_seconds'' 300 0);
       boredom \<leftarrow> obtained (require_boolean b ''boredom'');
       boredom_delay \<leftarrow> obtained (require_unsigned b ''boredom_delay_seconds'' 86400 30);
       combat_barks \<leftarrow> obtained (require_boolean b ''combat_barks'');
       combat_period \<leftarrow> obtained (require_unsigned b ''combat_bark_period_seconds'' 600 5);
       Some \<lparr>cbs_auto_greeting = auto_greeting, cbs_rechat = rechat, cbs_rechat_delay_seconds = rechat_delay,
         cbs_rechat_max_depth = rechat_depth, cbs_rechat_probability_percent = rechat_probability,
         cbs_rechat_mode = rechat_mode, cbs_rechat_strict_targeting = strict_rechat,
         cbs_open_rechat = open_rechat, cbs_rechat_allow_actions = rechat_actions,
         cbs_end_conversation_cooldown_seconds = conversation_cooldown, cbs_boredom = boredom,
         cbs_boredom_delay_seconds = boredom_delay, cbs_combat_barks = combat_barks,
         cbs_combat_bark_period_seconds = combat_period, cbs_ai_enabled = ai_enabled\<rparr>
     }"

definition read_memory :: "json_object \<Rightarrow> client_memory_settings option" where
  "read_memory m =
     do {
       recent_turns \<leftarrow> obtained (require_unsigned m ''recent_turn_limit'' 200 0);
       knowledge_limit \<leftarrow> obtained (require_unsigned m ''knowledge_limit'' 20 0);
       Some \<lparr>cms_recent_turn_limit = recent_turns, cms_knowledge_limit = knowledge_limit\<rparr>
     }"

definition read_narrator :: "json_object \<Rightarrow> client_narrator_settings option" where
  "read_narrator n =
     do {
       narrator_enabled \<leftarrow> obtained (require_boolean n ''enabled'');
       narrator_name \<leftarrow> obtained (require_string n ''name'' 1 128);
       context_visibility \<leftarrow> obtained (require_boolean n ''context_visibility'');
       inline_mode \<leftarrow> obtained (require_string n ''inline_mode'' 1 16);
       welcome_events \<leftarrow> obtained (require_boolean n ''welcome_events'');
       welcome_cooldown \<leftarrow> obtained (require_unsigned n ''welcome_cooldown_minutes'' 1440 1);
       random_events \<leftarrow> obtained (require_boolean n ''random_events'');
       random_chance \<leftarrow> obtained (require_unsigned n ''random_chance_percent'' 100 1);
       random_cooldown \<leftarrow> obtained (require_unsigned n ''random_cooldown_rounds'' 10 0);
       bored_events \<leftarrow> obtained (require_boolean n ''bored_events'');
       bored_chance \<leftarrow> obtained (require_unsigned n ''bored_chance_percent'' 100 1);
       quest_events \<leftarrow> obtained (require_boolean n ''quest_events'');
       quest_chance \<leftarrow> obtained (require_unsigned n ''quest_chance_percent'' 100 1);
       quest_cooldown \<leftarrow> obtained (require_unsigned n ''quest_cooldown_minutes'' 60 1);
       book_events \<leftarrow> obtained (require_boolean n ''book_events'');
       Some \<lparr>cns_enabled = narrator_enabled, cns_name = narrator_name,
         cns_context_visibility = context_visibility, cns_inline_mode = inline_mode,
         cns_welcome_events = welcome_events, cns_welcome_cooldown_minutes = welcome_cooldown,
         cns_random_events = random_events, cns_random_chance_percent = random_chance,
         cns_random_cooldown_rounds = random_cooldown, cns_bored_events = bored_events,
         cns_bored_chance_percent = bored_chance, cns_quest_events = quest_events,
         cns_quest_chance_percent = quest_chance, cns_quest_cooldown_minutes = quest_cooldown,
         cns_book_events = book_events\<rparr>
     }"

definition read_presentation :: "json_object \<Rightarrow> client_presentation_settings option" where
  "read_presentation p =
     do {
       show_status \<leftarrow> obtained (require_boolean p ''show_status_hud'');
       transcript_rows \<leftarrow> obtained (require_unsigned p ''transcript_rows'' 20 2);
       volume_boost \<leftarrow> obtained (require_unsigned p ''tts_volume_boost'' 4 1);
       Some \<lparr>cps_show_status_hud = show_status, cps_transcript_rows = transcript_rows,
         cps_tts_volume_boost = volume_boost\<rparr>
     }"

definition read_safety :: "json_object \<Rightarrow> client_safety_settings option" where
  "read_safety s =
     do {
       actions_enabled \<leftarrow> obtained (require_boolean s ''actions_enabled'');
       allow_hostile \<leftarrow> obtained (require_boolean s ''allow_hostile'');
       allow_creatures \<leftarrow> obtained (require_boolean s ''allow_creatures'');
       Some \<lparr>css_actions_enabled = actions_enabled, css_allow_hostile = allow_hostile,
         css_allow_creatures = allow_creatures\<rparr>
     }"

definition inline_modes :: "string list" where
  "inline_modes = [''Disabled'', ''Narrator'', ''NPC'', ''Text Only'']"

definition rechat_modes :: "string list" where
  "rechat_modes = [''tight'', ''conversational'', ''group'', ''random'']"

text \<open>The sections of an object; \<open>(section, value, inline, rechat)\<close> are the messages of the caller.\<close>

definition parse_sections :: "json_object \<Rightarrow> string \<times> string \<times> string \<times> string \<Rightarrow> client_settings result" where
  "parse_sections parent messages =
     (let (section_message, value_message, inline_message, rechat_message) = messages in
      case do {
          behavior \<leftarrow> section_object parent ''behavior'' behavior_fields [''ai_enabled''];
          memory \<leftarrow> section_object parent ''memory'' memory_fields [];
          narrator \<leftarrow> section_object parent ''narrator'' narrator_fields [];
          presentation \<leftarrow> section_object parent ''presentation'' presentation_fields [];
          safety \<leftarrow> section_object parent ''safety'' safety_fields [];
          Some (behavior, memory, narrator, presentation, safety)
        } of
        None \<Rightarrow> invalid_schema section_message
      | Some (behavior, memory, narrator, presentation, safety) \<Rightarrow>
          (case do {
              b \<leftarrow> read_behavior behavior;
              m \<leftarrow> read_memory memory;
              n \<leftarrow> read_narrator narrator;
              p \<leftarrow> read_presentation presentation;
              s \<leftarrow> read_safety safety;
              Some \<lparr>cs_behavior = b, cs_memory = m, cs_narrator = n, cs_presentation = p, cs_safety = s\<rparr>
            } of
            None \<Rightarrow> invalid_schema value_message
          | Some settings \<Rightarrow>
              if cns_inline_mode (cs_narrator settings) \<notin> set inline_modes then invalid_schema inline_message
              else if cbs_rechat_mode (cs_behavior settings) \<notin> set rechat_modes then invalid_schema rechat_message
              else Inr settings))"

section \<open>parseClientSettings\<close>

definition parse_client_settings :: "json \<Rightarrow> client_settings result" where
  "parse_client_settings v =
     (case json_object v of
        None \<Rightarrow> invalid_schema ''client settings fields mismatch''
      | Some root_object \<Rightarrow>
          if \<not> has_exactly root_object
               [''schema'', ''behavior'', ''memory'', ''narrator'', ''presentation'', ''safety''] []
          then invalid_schema ''client settings fields mismatch''
          else
            field_or (require_string root_object ''schema'' 1 64) (\<lambda>s. s = ''lorkhan.client-settings.v1'')
              ''client settings schema mismatch'' (\<lambda>schema.
            parse_sections root_object (''client settings section mismatch'', ''client settings value mismatch'',
              ''inline narration mode is invalid'', ''rechat mode is invalid'')))"

section \<open>parseEffectiveSettings\<close>

datatype routing_value = Routing_string string | Routing_flag bool

record effective_settings =
  es_schema :: string
  es_change_token :: string
  es_profile_id :: "string option"
  es_profile_revision :: "nat option"
  es_core_profile_id :: "string option"
  es_core_profile_revision :: "nat option"
  es_sections :: client_settings
  es_routing :: "(string \<times> routing_value) list"
  es_source_map :: "(string \<times> string) list"

definition nullable_uuid :: "json_object \<Rightarrow> string \<Rightarrow> string option result" where
  "nullable_uuid root_object key =
     (case json_find root_object key of
        None \<Rightarrow> invalid_schema (key @ '' is missing'')
      | Some item \<Rightarrow>
          if json_is_null item then Inr None
          else case json_string item of
              None \<Rightarrow> invalid_schema (key @ '' must be null or a canonical UUID'')
            | Some s \<Rightarrow>
                if \<not> (if key = ''profile_id'' then is_profile_id s else is_canonical_uuid s)
                then invalid_schema (key @ '' must be null or a canonical UUID'')
                else Inr (Some s))"

definition nullable_revision :: "json_object \<Rightarrow> string \<Rightarrow> nat option result" where
  "nullable_revision root_object key =
     (case json_find root_object key of
        None \<Rightarrow> invalid_schema (key @ '' is missing'')
      | Some item \<Rightarrow>
          if json_is_null item then Inr None
          else field (require_unsigned root_object key kMaximumProtocolInteger 1) (\<lambda>n. Inr (Some n)))"

definition routing_ids :: "string list" where
  "routing_ids = [''prompt_configuration_id'', ''llm_configuration_id'', ''llm_fast_configuration_id'',
     ''llm_powerful_configuration_id'', ''llm_experimental_configuration_id'', ''llm_fallback_configuration_id'',
     ''tts_configuration_id'']"

definition routing_flags :: "string list" where
  "routing_flags = [''llm_randomizer_enabled'', ''llm_fallback_enabled'']"

definition parse_route :: "string \<Rightarrow> json \<Rightarrow> routing_value result" where
  "parse_route key item =
     (if key \<in> set routing_ids then
        (case json_string item of
           None \<Rightarrow> invalid_schema ''effective routing UUID mismatch''
         | Some s \<Rightarrow>
             if s \<noteq> [] \<and> \<not> is_canonical_uuid s then invalid_schema ''effective routing UUID mismatch''
             else Inr (Routing_string s))
      else if key \<in> set routing_flags then
        (case json_boolean item of
           None \<Rightarrow> invalid_schema ''effective routing flag mismatch''
         | Some b \<Rightarrow> Inr (Routing_flag b))
      else invalid_schema ''unknown effective routing field'')"

fun parse_routing :: "json_object \<Rightarrow> (string \<times> routing_value) list result" where
  "parse_routing [] = Inr []"
| "parse_routing ((key, item) # rest) =
     and_then (parse_route key item) (\<lambda>r. and_then (parse_routing rest) (\<lambda>rs. Inr ((key, r) # rs)))"

definition valid_setting_path :: "string \<Rightarrow> string \<Rightarrow> string list \<Rightarrow> bool" where
  "valid_setting_path path prefix names \<longleftrightarrow>
     (if \<not> starts_with prefix path then False else drop (length prefix) path \<in> set names)"

definition valid_source_path :: "string \<Rightarrow> bool" where
  "valid_source_path key \<longleftrightarrow>
     valid_setting_path key ''settings.behavior.'' (behavior_fields @ [''ai_enabled''])
     \<or> valid_setting_path key ''settings.memory.'' memory_fields
     \<or> valid_setting_path key ''settings.narrator.'' narrator_fields
     \<or> valid_setting_path key ''settings.safety.'' safety_fields
     \<or> valid_setting_path key ''settings.presentation.'' presentation_fields
     \<or> (starts_with ''routing.'' key
        \<and> (drop 8 key \<in> set routing_ids \<or> drop 8 key \<in> set routing_flags))"

definition setting_origins :: "string list" where
  "setting_origins = [''default'', ''global'', ''core_profile'', ''npc'', ''narrator_profile'']"

fun parse_source_map :: "json_object \<Rightarrow> (string \<times> string) list result" where
  "parse_source_map [] = Inr []"
| "parse_source_map ((key, item) # rest) =
     (case json_string item of
        None \<Rightarrow> invalid_schema ''effective settings source map mismatch''
      | Some origin \<Rightarrow>
          if \<not> valid_source_path key \<or> origin \<notin> set setting_origins
          then invalid_schema ''effective settings source map mismatch''
          else and_then (parse_source_map rest) (\<lambda>rs. Inr ((key, origin) # rs)))"

text \<open>The three containers of a snapshot; one message stands for each of them.\<close>

definition effective_containers :: "json_object \<Rightarrow> (json_object \<times> json_object \<times> json_object) option" where
  "effective_containers root_object =
     do {
       settings \<leftarrow> section_object root_object ''settings''
         [''behavior'', ''memory'', ''narrator'', ''presentation'', ''safety''] [];
       routing_item \<leftarrow> json_find root_object ''routing'';
       routing \<leftarrow> json_object routing_item;
       sources_item \<leftarrow> json_find root_object ''source_map'';
       sources \<leftarrow> json_object sources_item;
       if 64 < length sources then None else Some (settings, routing, sources)
     }"

definition parse_effective_settings :: "json \<Rightarrow> effective_settings result" where
  "parse_effective_settings v =
     (case json_object v of
        None \<Rightarrow> invalid_schema ''effective settings fields mismatch''
      | Some root_object \<Rightarrow>
          if \<not> has_exactly root_object
               [''schema'', ''change_token'', ''profile_id'', ''profile_revision'', ''core_profile_id'',
                ''core_profile_revision'', ''settings'', ''routing'', ''source_map''] []
          then invalid_schema ''effective settings fields mismatch''
          else
            let bad_token = ''effective settings schema or change token mismatch'';
                bad_identity = ''effective settings identity mismatch'' in
            field_or (require_string root_object ''schema'' 1 64) (\<lambda>s. s = ''lorkhan.effective-settings.v1'') bad_token (\<lambda>schema.
            field_or (require_string root_object ''change_token'' 64 64) (list_all is_lower_hex) bad_token (\<lambda>token.
            field_or (nullable_uuid root_object ''profile_id'') (\<lambda>_. True) bad_identity (\<lambda>profile.
            field_or (nullable_revision root_object ''profile_revision'') (\<lambda>_. True) bad_identity (\<lambda>profile_revision.
            field_or (nullable_uuid root_object ''core_profile_id'') (\<lambda>_. True) bad_identity (\<lambda>core.
            field_or (nullable_revision root_object ''core_profile_revision'') (\<lambda>_. True) bad_identity (\<lambda>core_revision.
            if (profile \<noteq> None) \<noteq> (profile_revision \<noteq> None) \<or> (core \<noteq> None) \<noteq> (core_revision \<noteq> None)
            then invalid_schema ''effective settings identity revision mismatch''
            else
              case effective_containers root_object of
                None \<Rightarrow> invalid_schema ''effective settings section mismatch''
              | Some (settings, routing, sources) \<Rightarrow>
                  and_then (parse_sections settings (''effective settings value sections mismatch'',
                    ''effective settings value mismatch'', ''effective inline narration mode is invalid'',
                    ''effective rechat mode is invalid'')) (\<lambda>sections.
                  and_then (parse_routing routing) (\<lambda>parsed_routing.
                  and_then (parse_source_map sources) (\<lambda>parsed_sources.
                    Inr \<lparr>es_schema = schema, es_change_token = token, es_profile_id = profile,
                      es_profile_revision = profile_revision, es_core_profile_id = core,
                      es_core_profile_revision = core_revision, es_sections = sections,
                      es_routing = parsed_routing, es_source_map = parsed_sources\<rparr>))))))))))"

end
