(* ===== verification/Protocol_Settings_Props.thy ===== *)
theory Protocol_Settings_Props
  imports Protocol_Settings
begin

text \<open>
  What the settings parsers let through: exactly the settings within the documented ranges, in
  one wire form, and snapshots whose identity, routing and provenance are complete and known.
\<close>

text \<open>The last step of a parser, \<open>Result<T>::success({...})\<close>: the fields of the record it builds.\<close>

lemma Inr_sym: "Inr a = Inr b \<Longrightarrow> b = a"
  by simp

section \<open>Valid settings and their wire form\<close>

definition valid_behavior :: "client_behavior_settings \<Rightarrow> bool" where
  "valid_behavior b \<longleftrightarrow>
     30 \<le> cbs_rechat_delay_seconds b \<and> cbs_rechat_delay_seconds b \<le> 3600
     \<and> 1 \<le> cbs_rechat_max_depth b \<and> cbs_rechat_max_depth b \<le> 20
     \<and> cbs_rechat_probability_percent b \<le> 100
     \<and> cbs_rechat_mode b \<in> set rechat_modes
     \<and> cbs_end_conversation_cooldown_seconds b \<le> 300
     \<and> 30 \<le> cbs_boredom_delay_seconds b \<and> cbs_boredom_delay_seconds b \<le> 86400
     \<and> 5 \<le> cbs_combat_bark_period_seconds b \<and> cbs_combat_bark_period_seconds b \<le> 600"

definition valid_memory :: "client_memory_settings \<Rightarrow> bool" where
  "valid_memory m \<longleftrightarrow> cms_recent_turn_limit m \<le> 200 \<and> cms_knowledge_limit m \<le> 20"

definition valid_narrator :: "client_narrator_settings \<Rightarrow> bool" where
  "valid_narrator n \<longleftrightarrow>
     1 \<le> length (cns_name n) \<and> length (cns_name n) \<le> 128 \<and> cns_inline_mode n \<in> set inline_modes
     \<and> 1 \<le> cns_welcome_cooldown_minutes n \<and> cns_welcome_cooldown_minutes n \<le> 1440
     \<and> 1 \<le> cns_random_chance_percent n \<and> cns_random_chance_percent n \<le> 100
     \<and> cns_random_cooldown_rounds n \<le> 10
     \<and> 1 \<le> cns_bored_chance_percent n \<and> cns_bored_chance_percent n \<le> 100
     \<and> 1 \<le> cns_quest_chance_percent n \<and> cns_quest_chance_percent n \<le> 100
     \<and> 1 \<le> cns_quest_cooldown_minutes n \<and> cns_quest_cooldown_minutes n \<le> 60"

definition valid_presentation :: "client_presentation_settings \<Rightarrow> bool" where
  "valid_presentation p \<longleftrightarrow>
     2 \<le> cps_transcript_rows p \<and> cps_transcript_rows p \<le> 20
     \<and> 1 \<le> cps_tts_volume_boost p \<and> cps_tts_volume_boost p \<le> 4"

definition valid_client_settings :: "client_settings \<Rightarrow> bool" where
  "valid_client_settings s \<longleftrightarrow>
     valid_behavior (cs_behavior s) \<and> valid_memory (cs_memory s) \<and> valid_narrator (cs_narrator s)
     \<and> valid_presentation (cs_presentation s)"

abbreviation jnat :: "nat \<Rightarrow> json" where "jnat n \<equiv> JInt (int n)"

definition behavior_json :: "client_behavior_settings \<Rightarrow> json_object" where
  "behavior_json b =
     [(''ai_enabled'', JBool (cbs_ai_enabled b)), (''auto_greeting'', JBool (cbs_auto_greeting b)),
      (''boredom'', JBool (cbs_boredom b)), (''boredom_delay_seconds'', jnat (cbs_boredom_delay_seconds b)),
      (''combat_bark_period_seconds'', jnat (cbs_combat_bark_period_seconds b)),
      (''combat_barks'', JBool (cbs_combat_barks b)),
      (''end_conversation_cooldown_seconds'', jnat (cbs_end_conversation_cooldown_seconds b)),
      (''open_rechat'', JBool (cbs_open_rechat b)), (''rechat'', JBool (cbs_rechat b)),
      (''rechat_allow_actions'', JBool (cbs_rechat_allow_actions b)),
      (''rechat_delay_seconds'', jnat (cbs_rechat_delay_seconds b)),
      (''rechat_max_depth'', jnat (cbs_rechat_max_depth b)), (''rechat_mode'', JString (cbs_rechat_mode b)),
      (''rechat_probability_percent'', jnat (cbs_rechat_probability_percent b)),
      (''rechat_strict_targeting'', JBool (cbs_rechat_strict_targeting b))]"

definition memory_json :: "client_memory_settings \<Rightarrow> json_object" where
  "memory_json m =
     [(''knowledge_limit'', jnat (cms_knowledge_limit m)), (''recent_turn_limit'', jnat (cms_recent_turn_limit m))]"

definition narrator_json :: "client_narrator_settings \<Rightarrow> json_object" where
  "narrator_json n =
     [(''book_events'', JBool (cns_book_events n)), (''bored_chance_percent'', jnat (cns_bored_chance_percent n)),
      (''bored_events'', JBool (cns_bored_events n)), (''context_visibility'', JBool (cns_context_visibility n)),
      (''enabled'', JBool (cns_enabled n)), (''inline_mode'', JString (cns_inline_mode n)),
      (''name'', JString (cns_name n)), (''quest_chance_percent'', jnat (cns_quest_chance_percent n)),
      (''quest_cooldown_minutes'', jnat (cns_quest_cooldown_minutes n)), (''quest_events'', JBool (cns_quest_events n)),
      (''random_chance_percent'', jnat (cns_random_chance_percent n)),
      (''random_cooldown_rounds'', jnat (cns_random_cooldown_rounds n)),
      (''random_events'', JBool (cns_random_events n)),
      (''welcome_cooldown_minutes'', jnat (cns_welcome_cooldown_minutes n)),
      (''welcome_events'', JBool (cns_welcome_events n))]"

definition presentation_json :: "client_presentation_settings \<Rightarrow> json_object" where
  "presentation_json p =
     [(''show_status_hud'', JBool (cps_show_status_hud p)), (''transcript_rows'', jnat (cps_transcript_rows p)),
      (''tts_volume_boost'', jnat (cps_tts_volume_boost p))]"

definition safety_json :: "client_safety_settings \<Rightarrow> json_object" where
  "safety_json s =
     [(''actions_enabled'', JBool (css_actions_enabled s)), (''allow_creatures'', JBool (css_allow_creatures s)),
      (''allow_hostile'', JBool (css_allow_hostile s))]"

definition client_settings_json :: "client_settings \<Rightarrow> json" where
  "client_settings_json s = JObject
     [(''behavior'', JObject (behavior_json (cs_behavior s))), (''memory'', JObject (memory_json (cs_memory s))),
      (''narrator'', JObject (narrator_json (cs_narrator s))),
      (''presentation'', JObject (presentation_json (cs_presentation s))),
      (''safety'', JObject (safety_json (cs_safety s))), (''schema'', JString ''lorkhan.client-settings.v1'')]"

section \<open>Each section\<close>

lemmas reader_simps = bind_eq_Some_conv require_boolean_Inr_iff require_unsigned_Inr_iff require_string_Inr_iff

lemma read_memory_valid: "read_memory m = Some r \<Longrightarrow> valid_memory r"
  by (auto simp: read_memory_def valid_memory_def reader_simps)

lemma read_memory_json: "valid_memory m \<Longrightarrow> read_memory (memory_json m) = Some m"
  by (cases m) (simp add: read_memory_def memory_json_def json_find_def valid_memory_def reader_simps)

lemma read_presentation_valid: "read_presentation p = Some r \<Longrightarrow> valid_presentation r"
  by (auto simp: read_presentation_def valid_presentation_def reader_simps)

lemma read_presentation_json: "valid_presentation p \<Longrightarrow> read_presentation (presentation_json p) = Some p"
  by (cases p) (simp add: read_presentation_def presentation_json_def json_find_def valid_presentation_def reader_simps)

lemma read_safety_json: "read_safety (safety_json s) = Some s"
  by (cases s) (simp add: read_safety_def safety_json_def json_find_def reader_simps)

lemma read_behavior_valid:
  "read_behavior b = Some r \<Longrightarrow> cbs_rechat_mode r \<in> set rechat_modes \<Longrightarrow> valid_behavior r"
  by (auto simp: read_behavior_def valid_behavior_def reader_simps)

lemma read_behavior_json: "valid_behavior b \<Longrightarrow> read_behavior (behavior_json b) = Some b"
proof -
  assume "valid_behavior b"
  moreover from this have "1 \<le> length (cbs_rechat_mode b) \<and> length (cbs_rechat_mode b) \<le> 16"
    by (auto simp: valid_behavior_def rechat_modes_def)
  ultimately show ?thesis
    by (cases b) (simp add: read_behavior_def behavior_json_def json_find_def valid_behavior_def reader_simps)
qed

lemma read_narrator_valid:
  "read_narrator n = Some r \<Longrightarrow> cns_inline_mode r \<in> set inline_modes \<Longrightarrow> valid_narrator r"
  by (auto simp: read_narrator_def valid_narrator_def reader_simps)

lemma read_narrator_json: "valid_narrator n \<Longrightarrow> read_narrator (narrator_json n) = Some n"
proof -
  assume "valid_narrator n"
  moreover from this have "1 \<le> length (cns_inline_mode n) \<and> length (cns_inline_mode n) \<le> 16"
    by (auto simp: valid_narrator_def inline_modes_def)
  ultimately show ?thesis
    by (cases n) (simp add: read_narrator_def narrator_json_def json_find_def valid_narrator_def reader_simps)
qed

section \<open>All sections\<close>

lemma parse_sections_valid: "parse_sections parent messages = Inr s \<Longrightarrow> valid_client_settings s"
  by (auto simp: parse_sections_def valid_client_settings_def bind_eq_Some_conv split_def Let_def
      split: option.splits if_splits
      intro: read_behavior_valid read_memory_valid read_narrator_valid read_presentation_valid)

lemma section_objects_json:
  "has_exactly (behavior_json b) behavior_fields [''ai_enabled'']" "has_exactly (memory_json m) memory_fields []"
  "has_exactly (narrator_json n) narrator_fields []" "has_exactly (presentation_json p) presentation_fields []"
  "has_exactly (safety_json s) safety_fields []"
  by (simp_all add: has_exactly_def json_find_def behavior_json_def memory_json_def narrator_json_def
      presentation_json_def safety_json_def behavior_fields_def memory_fields_def narrator_fields_def
      presentation_fields_def safety_fields_def)

definition sections_json :: "client_settings \<Rightarrow> json_object" where
  "sections_json s =
     [(''behavior'', JObject (behavior_json (cs_behavior s))), (''memory'', JObject (memory_json (cs_memory s))),
      (''narrator'', JObject (narrator_json (cs_narrator s))),
      (''presentation'', JObject (presentation_json (cs_presentation s))),
      (''safety'', JObject (safety_json (cs_safety s)))]"

lemma parse_sections_of_json:
  assumes "valid_client_settings s"
    "\<And>key. key \<in> {''behavior'', ''memory'', ''narrator'', ''presentation'', ''safety''} \<Longrightarrow>
       json_find parent key = json_find (sections_json s) key"
  shows "parse_sections parent messages = Inr s"
proof -
  have found: "json_find parent ''behavior'' = Some (JObject (behavior_json (cs_behavior s)))"
    "json_find parent ''memory'' = Some (JObject (memory_json (cs_memory s)))"
    "json_find parent ''narrator'' = Some (JObject (narrator_json (cs_narrator s)))"
    "json_find parent ''presentation'' = Some (JObject (presentation_json (cs_presentation s)))"
    "json_find parent ''safety'' = Some (JObject (safety_json (cs_safety s)))"
    by (simp_all add: assms(2)) (simp_all add: sections_json_def json_find_def)
  have "cns_inline_mode (cs_narrator s) \<in> set inline_modes" "cbs_rechat_mode (cs_behavior s) \<in> set rechat_modes"
    using assms(1) by (simp_all add: valid_client_settings_def valid_narrator_def valid_behavior_def)
  with assms(1) found show ?thesis
    by (simp add: parse_sections_def section_object_def section_objects_json valid_client_settings_def
        read_behavior_json read_memory_json read_narrator_json read_presentation_json read_safety_json split_def)
qed

lemma client_settings_json_find:
  "key \<in> {''behavior'', ''memory'', ''narrator'', ''presentation'', ''safety''} \<Longrightarrow>
     json_find (sections_json s @ [(''schema'', JString x)]) key = json_find (sections_json s) key"
  by (auto simp: json_find_def sections_json_def)


section \<open>Snapshots\<close>

text \<open>The settings a source path can name.\<close>

definition setting_paths :: "string list" where
  "setting_paths =
     map ((@) ''settings.behavior.'') (behavior_fields @ [''ai_enabled''])
     @ map ((@) ''settings.memory.'') memory_fields @ map ((@) ''settings.narrator.'') narrator_fields
     @ map ((@) ''settings.safety.'') safety_fields @ map ((@) ''settings.presentation.'') presentation_fields
     @ map ((@) ''routing.'') (routing_ids @ routing_flags)"

lemma starts_with_drop: "starts_with prefix s \<and> drop (length prefix) s \<in> A \<longleftrightarrow> s \<in> (@) prefix ` A"
  by (auto simp: starts_with_iff)

lemma valid_source_path_iff: "valid_source_path key \<longleftrightarrow> key \<in> set setting_paths"
proof -
  have path: "valid_setting_path key prefix names \<longleftrightarrow> key \<in> (@) prefix ` set names" for prefix names
    by (simp add: valid_setting_path_def starts_with_drop [symmetric])
  have "length ''routing.'' = 8" by simp
  from starts_with_drop [of "''routing.''" key "set (routing_ids @ routing_flags)", unfolded this]
  have "starts_with ''routing.'' key \<and> (drop 8 key \<in> set routing_ids \<or> drop 8 key \<in> set routing_flags)
      \<longleftrightarrow> key \<in> (@) ''routing.'' ` set (routing_ids @ routing_flags)"
    by (simp only: set_append Un_iff)
  then show ?thesis
    unfolding valid_source_path_def path setting_paths_def set_append set_map by blast
qed

lemma parse_source_map_sound:
  "parse_source_map sources = Inr rs \<Longrightarrow>
     sources = map (\<lambda>(key, origin). (key, JString origin)) rs
     \<and> (\<forall>(key, origin) \<in> set rs. key \<in> set setting_paths \<and> origin \<in> set setting_origins)"
proof (induction sources arbitrary: rs)
  case (Cons source sources)
  obtain key item where source: "source = (key, item)" by (cases source)
  with Cons.prems obtain origin rs' where item: "item = JString origin" "key \<in> set setting_paths"
      "origin \<in> set setting_origins"
    and rest: "parse_source_map sources = Inr rs'" "rs = (key, origin) # rs'"
    by (auto simp: and_then_Inr_iff valid_source_path_iff json_accessor_iffs split: option.splits if_splits)
  from Cons.IH [OF rest(1)] item rest(2) show ?case by (simp add: source)
qed simp

fun routing_json :: "routing_value \<Rightarrow> json" where
  "routing_json (Routing_string s) = JString s" | "routing_json (Routing_flag b) = JBool b"

fun valid_route :: "string \<Rightarrow> routing_value \<Rightarrow> bool" where
  "valid_route key (Routing_string s) \<longleftrightarrow> key \<in> set routing_ids \<and> (s = [] \<or> is_canonical_uuid s)"
| "valid_route key (Routing_flag b) \<longleftrightarrow> key \<in> set routing_flags"

lemma parse_route_sound: "parse_route key item = Inr r \<Longrightarrow> item = routing_json r \<and> valid_route key r"
  by (auto simp: parse_route_def json_accessor_iffs split: option.splits if_splits)

lemma parse_routing_sound:
  "parse_routing routing = Inr rs \<Longrightarrow>
     routing = map (\<lambda>(key, r). (key, routing_json r)) rs \<and> (\<forall>(key, r) \<in> set rs. valid_route key r)"
proof (induction routing arbitrary: rs)
  case (Cons route routing)
  obtain key item where route: "route = (key, item)" by (cases route)
  with Cons.prems obtain r rs' where item: "item = routing_json r" "valid_route key r"
    and rest: "parse_routing routing = Inr rs'" "rs = (key, r) # rs'"
    by (auto simp: and_then_Inr_iff dest: parse_route_sound)
  from Cons.IH [OF rest(1)] item rest(2) show ?case by (simp add: route)
qed simp

text \<open>A settings snapshot is complete and traceable: its change token is 64 lowercase
  hexadecimal digits, a profile identifier comes with its revision and the other way round, the
  settings are within the session ranges, every route has a known name and an empty or canonical
  identifier or a flag, and the source map is the wire's, at most 64 entries, each naming a
  setting or route that exists and one of the five origins.\<close>

theorem effective_settings_sound:
  assumes "parse_effective_settings v = Inr e"
  shows "length (es_change_token e) = 64 \<and> list_all is_lower_hex (es_change_token e)
    \<and> (es_profile_id e = None) = (es_profile_revision e = None)
    \<and> (es_core_profile_id e = None) = (es_core_profile_revision e = None)
    \<and> valid_client_settings (es_sections e)
    \<and> (\<forall>(key, r) \<in> set (es_routing e). valid_route key r)
    \<and> (\<exists>object. json_object v = Some object
        \<and> json_find object ''source_map'' = Some (JObject (map (\<lambda>(key, origin). (key, JString origin)) (es_source_map e))))
    \<and> length (es_source_map e) \<le> 64
    \<and> (\<forall>(key, origin) \<in> set (es_source_map e). key \<in> set setting_paths \<and> origin \<in> set setting_origins)"
proof (cases "json_object v")
  case None
  with assms show ?thesis by (simp add: parse_effective_settings_def)
next
  case (Some object)
  note accepted = assms [unfolded parse_effective_settings_def Let_def Some option.case if_Inr_iff field_or_Inr_iff
      require_string_Inr_iff]
  show ?thesis
  proof (cases "effective_containers object")
    case None
    from accepted show ?thesis unfolding None option.case by (elim conjE exE) (simp only: invalid_schema_not_Inr)
  next
    case containers: (Some containers)
    obtain settings routing sources where c: "containers = (settings, routing, sources)" by (cases containers)
    from containers c have sources: "json_find object ''source_map'' = Some (JObject sources)" "length sources \<le> 64"
      by (auto simp: effective_containers_def bind_eq_Some_conv json_accessor_iffs split: if_splits)
    have facts: "64 \<le> length (es_change_token e) \<and> length (es_change_token e) \<le> 64
      \<and> list_all is_lower_hex (es_change_token e)
      \<and> \<not> ((es_profile_id e \<noteq> None) \<noteq> (es_profile_revision e \<noteq> None)
           \<or> (es_core_profile_id e \<noteq> None) \<noteq> (es_core_profile_revision e \<noteq> None))
      \<and> (\<exists>messages. parse_sections settings messages = Inr (es_sections e))
      \<and> parse_routing routing = Inr (es_routing e) \<and> parse_source_map sources = Inr (es_source_map e)"
      using accepted [unfolded containers c option.case prod.case and_then_Inr_iff]
      
      apply (elim exE conjE)
      apply (drule Inr_sym)
      apply hypsubst
      apply (simp only: effective_settings.simps)
      apply (intro conjI exI)
      apply (assumption | rule refl | erule FalseE | rule notI)+
      done
    then obtain messages where "parse_sections settings messages = Inr (es_sections e)" by blast
    from parse_sections_valid [OF this] parse_routing_sound [of routing "es_routing e"]
      parse_source_map_sound [of sources "es_source_map e"] facts sources Some
    show ?thesis by auto
  qed
qed

definition sample_settings :: client_settings where
  "sample_settings =
     \<lparr>cs_behavior = \<lparr>cbs_auto_greeting = True, cbs_rechat = True, cbs_rechat_delay_seconds = 45,
        cbs_rechat_max_depth = 2, cbs_rechat_probability_percent = 50, cbs_rechat_mode = ''random'',
        cbs_rechat_strict_targeting = False, cbs_open_rechat = True, cbs_rechat_allow_actions = False,
        cbs_end_conversation_cooldown_seconds = 60, cbs_boredom = False, cbs_boredom_delay_seconds = 180,
        cbs_combat_barks = False, cbs_combat_bark_period_seconds = 20, cbs_ai_enabled = True\<rparr>,
      cs_memory = \<lparr>cms_recent_turn_limit = 20, cms_knowledge_limit = 5\<rparr>,
      cs_narrator = \<lparr>cns_enabled = False, cns_name = ''The Narrator'', cns_context_visibility = True,
        cns_inline_mode = ''Disabled'', cns_welcome_events = False, cns_welcome_cooldown_minutes = 10,
        cns_random_events = False, cns_random_chance_percent = 15, cns_random_cooldown_rounds = 2,
        cns_bored_events = False, cns_bored_chance_percent = 25, cns_quest_events = False,
        cns_quest_chance_percent = 10, cns_quest_cooldown_minutes = 3, cns_book_events = False\<rparr>,
      cs_presentation = \<lparr>cps_show_status_hud = True, cps_transcript_rows = 8, cps_tts_volume_boost = 3\<rparr>,
      cs_safety = \<lparr>css_actions_enabled = True, css_allow_hostile = False, css_allow_creatures = False\<rparr>\<rparr>"

definition sample_snapshot :: json where
  "sample_snapshot = JObject
     [(''change_token'', JString (replicate 64 (CHR ''a''))), (''core_profile_id'', JNull),
      (''core_profile_revision'', JNull), (''profile_id'', JString (sample_uuid_of 1)),
      (''profile_revision'', JInt 4),
      (''routing'', JObject [(''llm_configuration_id'', JString (sample_uuid_of 2)),
         (''llm_fallback_enabled'', JBool True)]),
      (''schema'', JString ''lorkhan.effective-settings.v1''), (''settings'', JObject (sections_json sample_settings)),
      (''source_map'', JObject [(''routing.llm_configuration_id'', JString ''npc''),
         (''settings.behavior.rechat'', JString ''global'')])]"

theorem effective_settings_sound_witness:
  "case parse_effective_settings sample_snapshot of
     Inl _ \<Rightarrow> False
   | Inr e \<Rightarrow> length (es_change_token e) = 64 \<and> valid_client_settings (es_sections e)"
proof -
  have "is_ok (parse_effective_settings sample_snapshot)" by code_simp
  then obtain e where e: "parse_effective_settings sample_snapshot = Inr e"
    by (auto simp: is_ok_iff)
  with effective_settings_sound [OF e] show ?thesis by simp
qed

end
