(* ===== verification/Protocol_Events.thy ===== *)
theory Protocol_Events
  imports Protocol_Canonical Protocol_Action
begin

text \<open>
  \<open>protocol_response.cpp\<close>: the error codes of the protocol, the events of a turn
  (\<open>parseEvent\<close>) and the batch of them a poll returns (\<open>parseEventsResponse\<close>).
\<close>

section \<open>Error codes\<close>

definition protocol_codes :: "(string \<times> error_code) list" where
  "protocol_codes =
     [(''ai_disabled'', EC_action_disabled), (''character_binding_required'', EC_invalid_argument),
      (''character_binding_conflict'', EC_duplicate_conflict), (''playthrough_isolation_required'', EC_action_disabled),
      (''action_disabled'', EC_action_disabled), (''action_parameters_invalid'', EC_invalid_action),
      (''action_result_expired'', EC_invalid_action), (''action_result_mismatch'', EC_invalid_action),
      (''action_target_invalid'', EC_invalid_action), (''action_tier_mismatch'', EC_invalid_action),
      (''cursor_expired'', EC_cursor_expired), (''duplicate_conflict'', EC_duplicate_conflict),
      (''forbidden'', EC_forbidden), (''internal_error'', EC_internal_error), (''invalid_audio'', EC_media_rejected),
      (''invalid_idempotency_key'', EC_duplicate_conflict), (''invalid_schema'', EC_invalid_schema),
      (''media_unavailable'', EC_media_rejected), (''not_found'', EC_transport_failure),
      (''payload_too_large'', EC_payload_too_large), (''provider_action_not_allowed'', EC_action_disabled),
      (''provider_invalid_action'', EC_provider_unavailable), (''provider_invalid_output'', EC_provider_unavailable),
      (''provider_timeout'', EC_timeout), (''provider_unavailable'', EC_provider_unavailable),
      (''rate_limited'', EC_rate_limited), (''rechat_chain_conflict'', EC_duplicate_conflict),
      (''rechat_complete'', EC_cancelled), (''rechat_cooldown'', EC_cancelled),
      (''conversation_cooldown'', EC_cancelled), (''rechat_no_responder'', EC_cancelled),
      (''rechat_unavailable'', EC_cancelled), (''invalid_rechat_context'', EC_invalid_schema),
      (''request_mismatch'', EC_duplicate_conflict), (''service_unavailable'', EC_provider_unavailable),
      (''stale_generation'', EC_stale_generation), (''terminal_turn'', EC_cancelled), (''turn_terminal'', EC_cancelled),
      (''unauthorized'', EC_unauthorized), (''unknown_action'', EC_invalid_action),
      (''unknown_session'', EC_unknown_session), (''unknown_turn'', EC_unknown_session)]"

definition protocol_code :: "string \<Rightarrow> error_code option" where
  "protocol_code code = map_of protocol_codes code"

section \<open>Events\<close>

record director_instruction =
  di_instruction :: MessageId
  di_actor :: protocol_identity
  di_recipient :: protocol_identity
  di_text :: string
  di_scene_note :: string

record director_instructions =
  dir_plan :: MessageId
  dir_origin_turn :: TurnId
  dir_expires_at :: string
  dir_instructions :: "director_instruction list"

record relationship_adjust =
  ra_adjustment :: MessageId
  ra_actor :: protocol_identity
  ra_player :: protocol_identity
  ra_delta :: int
  ra_expires_at :: string

record speech_ready =
  sr_media :: MediaId
  sr_dialogue_message :: MessageId
  sr_sha256 :: string
  sr_bytes :: nat
  sr_codec :: media_codec
  sr_duration_ms :: nat
  sr_expires_at :: string

datatype event_payload =
    TurnAcceptedEvent
  | DialogueDeltaEvent string
  | DialogueCompleteEvent protocol_identity protocol_identity string
  | ActionIntentEvent action_intent
  | RelationshipAdjustEvent relationship_adjust
  | DirectorInstructionsEvent director_instructions
  | ResponseCompleteEvent canonical_response
  | TurnCompleteEvent
  | TurnCancelledEvent string
  | TurnFailedEvent error_code bool "nat option"
  | SttTranscriptEvent string string
  | SttFailedEvent string bool "nat option"
  | SpeechReadyEvent speech_ready

datatype event_type =
    PT_turn_accepted | PT_dialogue_delta | PT_dialogue_complete | PT_action_intent
  | PT_director_instructions | PT_relationship_adjust | PT_response_complete | PT_turn_complete
  | PT_turn_cancelled | PT_turn_failed | PT_stt_transcript | PT_stt_failed | PT_speech_ready

record protocol_event =
  pe_correlation :: response_correlation
  pe_sequence :: nat
  pe_created_at :: string
  pe_type :: event_type
  pe_payload :: event_payload

section \<open>Their payloads\<close>

text \<open>The two payloads that are only a fixed status.\<close>

definition parse_status_payload :: "json_object \<Rightarrow> string \<Rightarrow> string \<Rightarrow> string \<Rightarrow> event_payload \<Rightarrow> event_payload result" where
  "parse_status_payload payload expected fields_message status_message event =
     (if \<not> has_exactly payload [''status''] [] then invalid_schema fields_message
      else field_or (require_text payload ''status'') (\<lambda>s. s = expected) status_message (\<lambda>_. Inr event))"

definition parse_dialogue_delta :: "json_object \<Rightarrow> event_payload result" where
  "parse_dialogue_delta payload =
     (if \<not> has_exactly payload [''text''] [] then invalid_schema ''dialogue delta payload fields mismatch''
      else field (require_string payload ''text'' 1 4096) (\<lambda>t. Inr (DialogueDeltaEvent t)))"

definition parse_dialogue_complete :: "json_object \<Rightarrow> event_payload result" where
  "parse_dialogue_complete payload =
     (if \<not> has_exactly payload [''speaker'', ''addressee'', ''text''] []
      then invalid_schema ''dialogue payload fields mismatch''
      else
        field (parse_identity (the (json_find payload ''speaker''))) (\<lambda>speaker.
        field (parse_identity (the (json_find payload ''addressee''))) (\<lambda>addressee.
        field (require_string payload ''text'' 0 4096) (\<lambda>t.
          Inr (DialogueCompleteEvent speaker addressee t)))))"

definition parse_instruction :: "MessageId list \<Rightarrow> json \<Rightarrow> director_instruction result" where
  "parse_instruction seen v =
     (case json_object v of
        None \<Rightarrow> invalid_schema ''director instruction fields mismatch''
      | Some row \<Rightarrow>
          if \<not> has_exactly row [''instruction_id'', ''actor'', ''recipient'', ''instruction'', ''scene_note''] []
          then invalid_schema ''director instruction fields mismatch''
          else
            (let bad = ''director instruction identity, uniqueness or text mismatch'' in
             field_or (require_uuid row ''instruction_id'') (\<lambda>i. True) bad (\<lambda>i.
             field_or (parse_identity (the (json_find row ''actor'')))
               (\<lambda>a. pid_kind a = ''npc'' \<or> pid_kind a = ''creature'') bad (\<lambda>actor.
             field_or (parse_identity (the (json_find row ''recipient''))) (\<lambda>a. True) bad (\<lambda>recipient.
             field_or (require_string row ''instruction'' 1 2000) (\<lambda>a. True) bad (\<lambda>instruction.
             field_or (require_string row ''scene_note'' 0 1000) (\<lambda>a. True) bad (\<lambda>note.
               if StrongId i \<in> set seen then invalid_schema bad
               else Inr \<lparr>di_instruction = StrongId i, di_actor = actor, di_recipient = recipient,
                         di_text = instruction, di_scene_note = note\<rparr>)))))))"

fun parse_instructions :: "director_instruction list \<Rightarrow> json list \<Rightarrow> director_instruction list result" where
  "parse_instructions parsed [] = Inr parsed"
| "parse_instructions parsed (v # vs) =
     and_then (parse_instruction (map di_instruction parsed) v) (\<lambda>row. parse_instructions (parsed @ [row]) vs)"

definition parse_director_instructions :: "json_object \<Rightarrow> TurnId \<Rightarrow> event_payload result" where
  "parse_director_instructions payload turn =
     (if \<not> has_exactly payload [''plan_id'', ''origin_turn_id'', ''expires_at'', ''instructions''] []
      then invalid_schema ''director instruction payload fields mismatch''
      else
        (let bad = ''director instruction scope or bounds mismatch'' in
         field_or (require_uuid payload ''plan_id'') (\<lambda>p. True) bad (\<lambda>plan.
         field_or (require_uuid payload ''origin_turn_id'') (\<lambda>t. t = id_value turn) bad (\<lambda>origin.
         field_or (require_timestamp payload ''expires_at'') (\<lambda>t. True) bad (\<lambda>expiry.
           case json_array (the (json_find payload ''instructions'')) of
             None \<Rightarrow> invalid_schema bad
           | Some rows \<Rightarrow>
               if rows = [] \<or> 12 < length rows then invalid_schema bad
               else and_then (parse_instructions [] rows) (\<lambda>instructions.
                 Inr (DirectorInstructionsEvent
                   \<lparr>dir_plan = StrongId plan, dir_origin_turn = StrongId origin, dir_expires_at = expiry,
                    dir_instructions = instructions\<rparr>)))))))"

definition parse_relationship_adjust :: "json_object \<Rightarrow> event_payload result" where
  "parse_relationship_adjust payload =
     (if \<not> has_exactly payload [''adjustment_id'', ''actor'', ''player'', ''delta'', ''expires_at''] []
      then invalid_schema ''relationship adjustment fields mismatch''
      else
        (let bad = ''relationship adjustment values mismatch'' in
         field_or (require_uuid payload ''adjustment_id'') (\<lambda>i. True) bad (\<lambda>i.
         field_or (parse_identity (the (json_find payload ''actor''))) (\<lambda>a. pid_kind a = ''npc'') bad (\<lambda>actor.
         field_or (parse_identity (the (json_find payload ''player''))) (\<lambda>p. pid_kind p = ''player'') bad (\<lambda>player.
         field_or (require_timestamp payload ''expires_at'') (\<lambda>t. True) bad (\<lambda>expires.
           case json_integer (the (json_find payload ''delta'')) of
             None \<Rightarrow> invalid_schema bad
           | Some delta \<Rightarrow>
               if delta < -3 \<or> 3 < delta \<or> delta = 0 then invalid_schema bad
               else Inr (RelationshipAdjustEvent
                 \<lparr>ra_adjustment = StrongId i, ra_actor = actor, ra_player = player, ra_delta = delta,
                  ra_expires_at = expires\<rparr>)))))))"

definition parse_turn_cancelled :: "json_object \<Rightarrow> event_payload result" where
  "parse_turn_cancelled payload =
     (if \<not> has_exactly payload [''reason''] [] then invalid_schema ''turn cancelled payload fields mismatch''
      else field (require_string payload ''reason'' 1 128) (\<lambda>r. Inr (TurnCancelledEvent r)))"

definition turn_failure_codes :: "string list" where
  "turn_failure_codes = [''provider_timeout'', ''provider_unavailable'', ''provider_invalid_output'',
     ''provider_invalid_action'', ''provider_action_not_allowed'', ''director_plan_failed'']"

text \<open>The optional delay, which both failure payloads and the error response read.\<close>

definition retry_after :: "json_object \<Rightarrow> nat option result" where
  "retry_after payload = optional_field payload ''retry_after_ms'' (\<lambda>from_object key. require_unsigned from_object key int64_max 0)"

definition parse_turn_failed :: "json_object \<Rightarrow> event_payload result" where
  "parse_turn_failed payload =
     (if \<not> has_exactly payload [''code'', ''retriable''] [''retry_after_ms'']
      then invalid_schema ''turn failed payload fields mismatch''
      else
        field_or (require_text payload ''code'') (\<lambda>c. c \<in> set turn_failure_codes)
          ''turn failed provider code mismatch'' (\<lambda>code.
        field (require_boolean payload ''retriable'') (\<lambda>retriable.
        and_then (retry_after payload) (\<lambda>retry.
          Inr (TurnFailedEvent (if code = ''provider_timeout'' then EC_timeout else EC_provider_unavailable)
            retriable retry)))))"

definition parse_stt_transcript :: "json_object \<Rightarrow> event_payload result" where
  "parse_stt_transcript payload =
     (if \<not> has_exactly payload [''text'', ''language''] []
      then invalid_schema ''STT transcript payload fields mismatch''
      else
        field (require_string payload ''text'' 1 16384) (\<lambda>t.
        field (require_string payload ''language'' 2 35) (\<lambda>language.
          Inr (SttTranscriptEvent t language))))"

definition stt_failure_codes :: "string list" where
  "stt_failure_codes = [''invalid_audio'', ''provider_invalid_output'', ''provider_timeout'', ''provider_unavailable'']"

definition parse_stt_failed :: "json_object \<Rightarrow> event_payload result" where
  "parse_stt_failed payload =
     (if \<not> has_exactly payload [''code'', ''retriable''] [''retry_after_ms'']
      then invalid_schema ''STT failure payload fields mismatch''
      else
        field_or (require_text payload ''code'') (\<lambda>c. c \<in> set stt_failure_codes)
          ''STT failure code mismatch'' (\<lambda>code.
        field (require_boolean payload ''retriable'') (\<lambda>retriable.
        and_then (retry_after payload) (\<lambda>retry. Inr (SttFailedEvent code retriable retry)))))"

definition parse_speech_ready :: "json_object \<Rightarrow> event_payload result" where
  "parse_speech_ready payload =
     (if \<not> has_exactly payload [''media_id'', ''dialogue_message_id'', ''sha256'', ''bytes'', ''codec'',
           ''duration_ms'', ''expires_at''] []
      then invalid_schema ''speech payload fields mismatch''
      else
        field (require_uuid payload ''media_id'') (\<lambda>media.
        field (require_uuid payload ''dialogue_message_id'') (\<lambda>dialogue.
        field_or (require_text payload ''sha256'') is_lowercase_hash
          ''speech hash must use 64 lowercase hexadecimal digits'' (\<lambda>hash.
        field (require_unsigned payload ''bytes'' kMaxMediaBytes 1) (\<lambda>bytes.
        field (require_text payload ''codec'') (\<lambda>codec.
          case parse_media_codec codec of
            None \<Rightarrow> invalid_schema ''unknown speech codec''
          | Some mapped_codec \<Rightarrow>
              field (require_unsigned payload ''duration_ms'' kMaximumProtocolInteger 1) (\<lambda>duration.
              field (require_timestamp payload ''expires_at'') (\<lambda>expires_at.
                Inr (SpeechReadyEvent
                  \<lparr>sr_media = StrongId media, sr_dialogue_message = StrongId dialogue, sr_sha256 = hash,
                   sr_bytes = bytes, sr_codec = mapped_codec, sr_duration_ms = duration,
                   sr_expires_at = expires_at\<rparr>)))))))))"

section \<open>One event\<close>

text \<open>The chain of comparisons on the type; \<open>value\<close> is the payload as a JSON value.\<close>

definition parse_event_payload ::
  "string \<Rightarrow> json \<Rightarrow> json_object \<Rightarrow> response_correlation \<Rightarrow> (event_type \<times> event_payload) result" where
  "parse_event_payload type v payload correlation =
     (let tagged = (\<lambda>tag r. and_then r (\<lambda>p. Inr (tag, p))) in
      if type = ''turn.accepted'' then
        tagged PT_turn_accepted (parse_status_payload payload ''accepted''
          ''turn accepted payload fields mismatch'' ''turn accepted status mismatch'' TurnAcceptedEvent)
      else if type = ''dialogue.delta'' then tagged PT_dialogue_delta (parse_dialogue_delta payload)
      else if type = ''dialogue.complete'' then tagged PT_dialogue_complete (parse_dialogue_complete payload)
      else if type = ''action.intent'' then
        tagged PT_action_intent (field (parse_action_intent v (rc_turn correlation)) (\<lambda>i. Inr (ActionIntentEvent i)))
      else if type = ''director.instructions'' then
        tagged PT_director_instructions (parse_director_instructions payload (rc_turn correlation))
      else if type = ''relationship.adjust'' then tagged PT_relationship_adjust (parse_relationship_adjust payload)
      else if type = ''response.complete'' then
        tagged PT_response_complete
          (field (parse_canonical_response v correlation) (\<lambda>r. Inr (ResponseCompleteEvent r)))
      else if type = ''turn.complete'' then
        tagged PT_turn_complete (parse_status_payload payload ''complete''
          ''turn complete payload fields mismatch'' ''turn complete status mismatch'' TurnCompleteEvent)
      else if type = ''turn.cancelled'' then tagged PT_turn_cancelled (parse_turn_cancelled payload)
      else if type = ''turn.failed'' then tagged PT_turn_failed (parse_turn_failed payload)
      else if type = ''stt.transcript'' then tagged PT_stt_transcript (parse_stt_transcript payload)
      else if type = ''stt.failed'' then tagged PT_stt_failed (parse_stt_failed payload)
      else if type = ''speech.ready'' then tagged PT_speech_ready (parse_speech_ready payload)
      else invalid_schema ''unknown event type'')"

definition parse_event :: "json \<Rightarrow> SessionId \<Rightarrow> generation \<Rightarrow> protocol_event result" where
  "parse_event v session generation =
     (case json_object v of
        None \<Rightarrow> invalid_schema ''event envelope fields mismatch''
      | Some object \<Rightarrow>
          if \<not> has_exactly object [''message_id'', ''request_id'', ''turn_id'', ''session_id'', ''generation'',
               ''sequence'', ''created_at'', ''type'', ''payload''] []
          then invalid_schema ''event envelope fields mismatch''
          else
            field (parse_correlation object) (\<lambda>correlation.
            field (require_natural object ''sequence'') (\<lambda>sequence.
            field (require_timestamp object ''created_at'') (\<lambda>created_at.
            field (require_text object ''type'') (\<lambda>type.
              if rc_session correlation \<noteq> session \<or> rc_generation correlation \<noteq> generation
              then invalid_schema ''event identity does not match events response''
              else
                let v' = the (json_find object ''payload'') in
                case json_object v' of
                  None \<Rightarrow> invalid_schema ''event payload must be an object''
                | Some payload \<Rightarrow>
                    and_then (parse_event_payload type v' payload correlation) (\<lambda>(tag, p).
                      Inr \<lparr>pe_correlation = correlation, pe_sequence = sequence, pe_created_at = created_at,
                           pe_type = tag, pe_payload = p\<rparr>))))))"

section \<open>The events response\<close>

record autonomy_directive =
  ad_schedule_id :: string
  ad_kind :: string
  ad_issued_at :: string

record events_response =
  er_session :: SessionId
  er_generation :: generation
  er_next_after :: nat
  er_events :: "protocol_event list"
  er_autonomy :: "autonomy_directive list"

text \<open>\<open>previous\<close> is the last accepted sequence number, if there is one.\<close>

fun parse_events :: "SessionId \<Rightarrow> generation \<Rightarrow> nat option \<Rightarrow> json list \<Rightarrow> protocol_event list result" where
  "parse_events session g previous [] = Inr []"
| "parse_events session g previous (v # vs) =
     field (parse_event v session g) (\<lambda>event.
       if (case previous of None \<Rightarrow> False | Some p \<Rightarrow> pe_sequence event \<le> p)
       then invalid_schema ''events must have strictly increasing sequence values''
       else and_then (parse_events session g (Some (pe_sequence event)) vs) (\<lambda>events. Inr (event # events)))"

definition autonomy_kinds :: "string list" where
  "autonomy_kinds = [''rechat'', ''boredom'', ''greeting'']"

definition parse_directive :: "json \<Rightarrow> autonomy_directive result" where
  "parse_directive v =
     (case json_object v of
        None \<Rightarrow> invalid_schema ''autonomy directive fields mismatch''
      | Some directive \<Rightarrow>
          if \<not> has_exactly directive [''schema'', ''schedule_id'', ''kind'', ''issued_at''] []
          then invalid_schema ''autonomy directive fields mismatch''
          else
            field_or (require_text directive ''schema'') (\<lambda>s. s = ''lorkhan.autonomy-directive.v1'')
              ''autonomy directive schema mismatch'' (\<lambda>schema.
            field (require_uuid directive ''schedule_id'') (\<lambda>schedule.
            field_or (require_text directive ''kind'') (\<lambda>k. k \<in> set autonomy_kinds)
              ''autonomy directive kind mismatch'' (\<lambda>kind.
            field (require_timestamp directive ''issued_at'') (\<lambda>issued_at.
              Inr \<lparr>ad_schedule_id = schedule, ad_kind = kind, ad_issued_at = issued_at\<rparr>)))))"

fun parse_directives :: "json list \<Rightarrow> autonomy_directive list result" where
  "parse_directives [] = Inr []"
| "parse_directives (v # vs) =
     and_then (parse_directive v) (\<lambda>d. and_then (parse_directives vs) (\<lambda>ds. Inr (d # ds)))"

definition read_events_response :: "json_object \<Rightarrow> events_response result" where
  "read_events_response object =
     (if \<not> has_exactly object [''schema'', ''session_id'', ''generation'', ''next_after'', ''events'', ''autonomy''] []
      then invalid_schema ''events response fields mismatch''
      else
        field (require_uuid object ''session_id'') (\<lambda>session.
        field (require_natural object ''generation'') (\<lambda>generation.
        field (require_natural object ''next_after'') (\<lambda>next_after.
          case json_array (the (json_find object ''events'')) of
            None \<Rightarrow> invalid_schema ''events must be an array of at most 100 items''
          | Some events \<Rightarrow>
              if kMaximumEvents < length events
              then invalid_schema ''events must be an array of at most 100 items''
              else
                case json_array (the (json_find object ''autonomy'')) of
                  None \<Rightarrow> invalid_schema ''autonomy must be an array of at most 3 items''
                | Some autonomy \<Rightarrow>
                    if 3 < length autonomy
                    then invalid_schema ''autonomy must be an array of at most 3 items''
                    else
                      let g = Generation (word_of_nat generation) in
                      and_then (parse_events (StrongId session) g None events) (\<lambda>parsed.
                      and_then (parse_directives autonomy) (\<lambda>directives.
                        Inr \<lparr>er_session = StrongId session, er_generation = g, er_next_after = next_after,
                             er_events = parsed, er_autonomy = directives\<rparr>))))))"

definition parse_events_response :: "string \<Rightarrow> headers \<Rightarrow> parse_limits \<Rightarrow> events_response result" where
  "parse_events_response body hs limits =
     and_then (parse_object body hs ''lorkhan.events.v1'' limits) read_events_response"

end
