(* ===== verification/Protocol_Event_Props.thy ===== *)
theory Protocol_Event_Props
  imports Protocol_Events Protocol_Canonical_Props Protocol_Action_Props
begin

text \<open>
  What an accepted batch of events promises to the client: its order, and for each event that
  it belongs to the session, generation and turn of its envelope and stays within the contract
  of its type.
\<close>

section \<open>The contract of a payload\<close>

fun payload_type :: "event_payload \<Rightarrow> event_type" where
  "payload_type TurnAcceptedEvent = PT_turn_accepted"
| "payload_type (DialogueDeltaEvent t) = PT_dialogue_delta"
| "payload_type (DialogueCompleteEvent s a t) = PT_dialogue_complete"
| "payload_type (ActionIntentEvent i) = PT_action_intent"
| "payload_type (RelationshipAdjustEvent r) = PT_relationship_adjust"
| "payload_type (DirectorInstructionsEvent d) = PT_director_instructions"
| "payload_type (ResponseCompleteEvent r) = PT_response_complete"
| "payload_type TurnCompleteEvent = PT_turn_complete"
| "payload_type (TurnCancelledEvent r) = PT_turn_cancelled"
| "payload_type (TurnFailedEvent c b n) = PT_turn_failed"
| "payload_type (SttTranscriptEvent t l) = PT_stt_transcript"
| "payload_type (SttFailedEvent c b n) = PT_stt_failed"
| "payload_type (SpeechReadyEvent s) = PT_speech_ready"

definition physical_actor :: "protocol_identity \<Rightarrow> bool" where
  "physical_actor a \<longleftrightarrow> pid_kind a = ''npc'' \<or> pid_kind a = ''creature''"

definition instruction_sound :: "director_instruction \<Rightarrow> bool" where
  "instruction_sound i \<longleftrightarrow> physical_actor (di_actor i) \<and> di_text i \<noteq> [] \<and> length (di_text i) \<le> 2000
     \<and> length (di_scene_note i) \<le> 1000"

definition retry_sound :: "nat option \<Rightarrow> bool" where
  "retry_sound r \<longleftrightarrow> (case r of None \<Rightarrow> True | Some n \<Rightarrow> n < 2 ^ 63)"

fun payload_sound :: "response_correlation \<Rightarrow> event_payload \<Rightarrow> bool" where
  "payload_sound c (DialogueDeltaEvent t) \<longleftrightarrow> t \<noteq> [] \<and> length t \<le> 4096"
| "payload_sound c (DialogueCompleteEvent speaker addressee t) \<longleftrightarrow> length t \<le> 4096"
| "payload_sound c (ActionIntentEvent i) \<longleftrightarrow> ai_turn i = rc_turn c"
| "payload_sound c (RelationshipAdjustEvent r) \<longleftrightarrow>
     ra_delta r \<in> {-3, -2, -1, 1, 2, 3} \<and> pid_kind (ra_actor r) = ''npc'' \<and> pid_kind (ra_player r) = ''player''"
| "payload_sound c (DirectorInstructionsEvent d) \<longleftrightarrow>
     dir_origin_turn d = rc_turn c \<and> dir_instructions d \<noteq> [] \<and> length (dir_instructions d) \<le> 12
     \<and> distinct (map di_instruction (dir_instructions d)) \<and> list_all instruction_sound (dir_instructions d)"
| "payload_sound c (ResponseCompleteEvent r) \<longleftrightarrow>
     cr_response r = rc_message c \<and> cr_session r = rc_session c \<and> cr_turn r = rc_turn c
     \<and> cr_request r = rc_request c \<and> cr_generation r = rc_generation c"
| "payload_sound c (TurnCancelledEvent r) \<longleftrightarrow> r \<noteq> [] \<and> length r \<le> 128"
| "payload_sound c (TurnFailedEvent code retriable retry) \<longleftrightarrow>
     code \<in> {EC_timeout, EC_provider_unavailable} \<and> retry_sound retry"
| "payload_sound c (SttTranscriptEvent t language) \<longleftrightarrow>
     t \<noteq> [] \<and> length t \<le> 16384 \<and> 2 \<le> length language \<and> length language \<le> 35"
| "payload_sound c (SttFailedEvent code retriable retry) \<longleftrightarrow> code \<in> set stt_failure_codes \<and> retry_sound retry"
| "payload_sound c (SpeechReadyEvent s) \<longleftrightarrow>
     is_lowercase_hash (sr_sha256 s) \<and> 1 \<le> sr_bytes s \<and> sr_bytes s \<le> kMaxMediaBytes \<and> 1 \<le> sr_duration_ms s
     \<and> is_canonical_utc_timestamp (sr_expires_at s)"
| "payload_sound c _ \<longleftrightarrow> True"

section \<open>Each payload\<close>

lemma status_payload_sound:
  "parse_status_payload p expected m1 m2 e = Inr q \<Longrightarrow> q = e"
  by (auto simp: parse_status_payload_def reader_iffs)

lemma dialogue_delta_sound:
  "parse_dialogue_delta p = Inr q \<Longrightarrow> payload_type q = PT_dialogue_delta \<and> payload_sound c q"
  by (auto simp: parse_dialogue_delta_def reader_iffs require_string_Inr_iff)

lemma dialogue_complete_sound:
  "parse_dialogue_complete p = Inr q \<Longrightarrow> payload_type q = PT_dialogue_complete \<and> payload_sound c q"
  by (auto simp: parse_dialogue_complete_def reader_iffs require_string_Inr_iff)

lemma turn_cancelled_sound:
  "parse_turn_cancelled p = Inr q \<Longrightarrow> payload_type q = PT_turn_cancelled \<and> payload_sound c q"
  by (auto simp: parse_turn_cancelled_def reader_iffs require_string_Inr_iff)

lemma retry_after_sound: "retry_after p = Inr r \<Longrightarrow> retry_sound r"
  by (auto simp: retry_after_def optional_field_Inr_iff require_unsigned_Inr_iff retry_sound_def int64_max_def
      split: if_splits)

lemma turn_failed_sound:
  "parse_turn_failed p = Inr q \<Longrightarrow> payload_type q = PT_turn_failed \<and> payload_sound c q"
  by (auto simp: parse_turn_failed_def reader_iffs retry_after_sound)

lemma stt_transcript_sound:
  "parse_stt_transcript p = Inr q \<Longrightarrow> payload_type q = PT_stt_transcript \<and> payload_sound c q"
  by (auto simp: parse_stt_transcript_def reader_iffs require_string_Inr_iff)

lemma stt_failed_sound:
  "parse_stt_failed p = Inr q \<Longrightarrow> payload_type q = PT_stt_failed \<and> payload_sound c q"
  by (auto simp: parse_stt_failed_def reader_iffs retry_after_sound)

lemma speech_ready_sound:
  "parse_speech_ready p = Inr q \<Longrightarrow> payload_type q = PT_speech_ready \<and> payload_sound c q"
  by (auto simp: parse_speech_ready_def reader_iffs require_unsigned_Inr_iff require_timestamp_Inr_iff
      split: option.splits)

lemma relationship_adjust_sound:
  assumes "parse_relationship_adjust p = Inr q"
  shows "payload_type q = PT_relationship_adjust \<and> payload_sound c q"
proof (cases "json_integer (the (json_find p ''delta''))")
  case None
  with assms show ?thesis by (simp add: parse_relationship_adjust_def Let_def reader_iffs)
next
  case (Some delta)
  note accepted = assms [unfolded parse_relationship_adjust_def Let_def Some option.case reader_iffs]
  then obtain i actor player expires where
    "pid_kind actor = ''npc''" "pid_kind player = ''player''" "\<not> (delta < -3 \<or> 3 < delta \<or> delta = 0)"
    and q: "Inr (RelationshipAdjustEvent \<lparr>ra_adjustment = StrongId i, ra_actor = actor, ra_player = player,
      ra_delta = delta, ra_expires_at = expires\<rparr>) = (Inr q :: event_payload result)"
    by (elim conjE exE)
  moreover have "delta \<in> {-3, -2, -1, 1, 2, 3}" using calculation(3) by auto
  ultimately show ?thesis by auto
qed

lemma parse_instruction_sound:
  assumes "parse_instruction seen v = Inr i"
  shows "instruction_sound i \<and> di_instruction i \<notin> set seen"
proof (cases "json_object v")
  case None
  with assms show ?thesis by (simp add: parse_instruction_def)
next
  case (Some row)
  note accepted = assms [unfolded parse_instruction_def Let_def Some option.case reader_iffs require_string_Inr_iff]
  then show ?thesis
    by (elim conjE exE) (auto simp: instruction_sound_def physical_actor_def)
qed

lemma parse_instructions_sound:
  assumes "parse_instructions parsed vs = Inr rows" "distinct (map di_instruction parsed)"
    "list_all instruction_sound parsed"
  shows "distinct (map di_instruction rows) \<and> list_all instruction_sound rows
    \<and> length rows = length parsed + length vs"
  using assms
proof (induction parsed vs rule: parse_instructions.induct)
  case (2 parsed v vs)
  from 2(2) obtain row where row: "parse_instruction (map di_instruction parsed) v = Inr row"
    "parse_instructions (parsed @ [row]) vs = Inr rows"
    by (auto simp: and_then_Inr_iff)
  from parse_instruction_sound [OF row(1)] 2(3,4) 2(1) [OF row] show ?case by simp
qed simp

lemma director_instructions_sound:
  assumes "parse_director_instructions p (rc_turn c) = Inr q"
  shows "payload_type q = PT_director_instructions \<and> payload_sound c q"
proof (cases "json_array (the (json_find p ''instructions''))")
  case None
  with assms show ?thesis by (simp add: parse_director_instructions_def Let_def reader_iffs)
next
  case (Some rows)
  note accepted = assms [unfolded parse_director_instructions_def Let_def Some option.case reader_iffs]
  then obtain plan expiry instructions where
    "\<not> (rows = [] \<or> 12 < length rows)" "parse_instructions [] rows = Inr instructions"
    and q: "Inr (DirectorInstructionsEvent \<lparr>dir_plan = StrongId plan, dir_origin_turn = StrongId (id_value (rc_turn c)),
        dir_expires_at = expiry, dir_instructions = instructions\<rparr>) = (Inr q :: event_payload result)"
    by (elim conjE exE, hypsubst)
  moreover from parse_instructions_sound [OF this(2)] have
    "distinct (map di_instruction instructions) \<and> list_all instruction_sound instructions
      \<and> length instructions = length rows" by simp
  ultimately show ?thesis by (cases "rc_turn c") auto
qed

section \<open>One event\<close>

lemma parse_event_payload_sound:
  assumes "parse_event_payload type v p c = Inr (tag, q)"
  shows "payload_type q = tag \<and> payload_sound c q"
proof -
  note unfolded = assms [unfolded parse_event_payload_def Let_def]
  have intent: "payload_type q = PT_action_intent \<and> payload_sound c q"
    if "field (parse_action_intent v (rc_turn c)) (\<lambda>i. Inr (ActionIntentEvent i)) = Inr q"
    using that by (auto simp: field_Inr_iff dest: parse_action_intent_facts)
  have response: "payload_type q = PT_response_complete \<and> payload_sound c q"
    if "field (parse_canonical_response v c) (\<lambda>r. Inr (ResponseCompleteEvent r)) = Inr q"
    using that by (auto simp: field_Inr_iff dest!: parse_canonical_response_walk)
  from unfolded show ?thesis
    by (elim if_cases) (auto simp: and_then_Inr_iff dest!: status_payload_sound intent response dialogue_delta_sound dialogue_complete_sound
        turn_cancelled_sound turn_failed_sound stt_transcript_sound stt_failed_sound speech_ready_sound
        relationship_adjust_sound director_instructions_sound)
qed

definition event_sound :: "SessionId \<Rightarrow> generation \<Rightarrow> protocol_event \<Rightarrow> bool" where
  "event_sound session g e \<longleftrightarrow>
     rc_session (pe_correlation e) = session \<and> rc_generation (pe_correlation e) = g
     \<and> is_canonical_utc_timestamp (pe_created_at e) \<and> pe_sequence e \<le> kMaximumProtocolInteger
     \<and> pe_type e = payload_type (pe_payload e) \<and> payload_sound (pe_correlation e) (pe_payload e)"

lemma parse_event_sound:
  assumes "parse_event v session g = Inr e"
  shows "event_sound session g e"
proof (cases "json_object v")
  case None
  with assms show ?thesis by (simp add: parse_event_def)
next
  case (Some object)
  note accepted = assms [unfolded parse_event_def Let_def Some option.case if_Inr_iff field_Inr_iff]
  then obtain correlation sequence created_at type where
    facts: "require_natural object ''sequence'' = Inr sequence" "require_timestamp object ''created_at'' = Inr created_at"
      "rc_session correlation = session" "rc_generation correlation = g"
    and rest: "(case json_object (the (json_find object ''payload'')) of
        None \<Rightarrow> invalid_schema ''event payload must be an object''
      | Some payload \<Rightarrow>
          and_then (parse_event_payload type (the (json_find object ''payload'')) payload correlation) (\<lambda>(tag, p).
            Inr \<lparr>pe_correlation = correlation, pe_sequence = sequence, pe_created_at = created_at,
                 pe_type = tag, pe_payload = p\<rparr>)) = Inr e"
    by (elim conjE exE) (rule that, assumption+, simp_all)
  from rest obtain payload tag p where
    "parse_event_payload type (the (json_find object ''payload'')) payload correlation = Inr (tag, p)"
    "e = \<lparr>pe_correlation = correlation, pe_sequence = sequence, pe_created_at = created_at,
                 pe_type = tag, pe_payload = p\<rparr>"
    by (cases "json_object (the (json_find object ''payload''))") (auto simp: and_then_Inr_iff)
  with parse_event_payload_sound [OF this(1)] facts show ?thesis
    by (simp add: event_sound_def require_unsigned_Inr_iff require_timestamp_Inr_iff)
qed

section \<open>The batch\<close>

lemma parse_events_sound:
  assumes "parse_events session g previous vs = Inr events"
  shows "list_all (event_sound session g) events \<and> sorted_wrt (<) (map pe_sequence events)
    \<and> (\<forall>p. previous = Some p \<longrightarrow> (\<forall>e \<in> set events. p < pe_sequence e)) \<and> length events = length vs"
  using assms
proof (induction session g previous vs arbitrary: events rule: parse_events.induct)
  case (2 session g previous v vs)
  from 2(2) obtain event rest where e: "parse_event v session g = Inr event"
    "\<not> (case previous of None \<Rightarrow> False | Some p \<Rightarrow> pe_sequence event \<le> p)"
    "parse_events session g (Some (pe_sequence event)) vs = Inr rest" "events = event # rest"
    by (auto simp: field_Inr_iff and_then_Inr_iff if_Inr_iff)
  from 2(1) [OF e(1,2,3)] parse_event_sound [OF e(1)] e(2,4) show ?case
    by (cases previous) (auto intro: less_trans simp: not_le)
qed simp

lemma parse_directives_length: "parse_directives vs = Inr ds \<Longrightarrow> length ds = length vs"
  by (induction vs arbitrary: ds) (auto simp: and_then_Inr_iff)

text \<open>C12. An accepted batch of events is in order and belongs to its session: at most 100 events
  with strictly increasing sequence numbers, each of the session and generation of the
  response, each with the payload of its declared type and within the contract of that type
  (an action intent or a director plan names the turn of its event, a complete response its
  message, request and turn, an adjustment is a non-zero step of at most three), and at most
  three autonomy directives.\<close>

theorem accepted_events_sound:
  assumes "parse_events_response body hs limits = Inr r"
  shows "length (er_events r) \<le> 100 \<and> sorted_wrt (<) (map pe_sequence (er_events r))
    \<and> list_all (event_sound (er_session r) (er_generation r)) (er_events r) \<and> length (er_autonomy r) \<le> 3"
proof -
  obtain object where "read_events_response object = Inr r"
    using assms by (auto simp: parse_events_response_def and_then_Inr_iff)
  note accepted = this [unfolded read_events_response_def Let_def if_Inr_iff field_Inr_iff]
  then obtain session generation next_after where rest: "(case json_array (the (json_find object ''events'')) of
        None \<Rightarrow> invalid_schema ''events must be an array of at most 100 items''
      | Some events \<Rightarrow>
          if kMaximumEvents < length events then invalid_schema ''events must be an array of at most 100 items''
          else
            case json_array (the (json_find object ''autonomy'')) of
              None \<Rightarrow> invalid_schema ''autonomy must be an array of at most 3 items''
            | Some autonomy \<Rightarrow>
                if 3 < length autonomy then invalid_schema ''autonomy must be an array of at most 3 items''
                else
                  and_then (parse_events (StrongId session) (Generation (word_of_nat generation)) None events) (\<lambda>parsed.
                  and_then (parse_directives autonomy) (\<lambda>directives.
                    Inr \<lparr>er_session = StrongId session, er_generation = Generation (word_of_nat generation),
                         er_next_after = next_after, er_events = parsed, er_autonomy = directives\<rparr>))) = Inr r"
    by (elim conjE exE)
  then obtain events autonomy where
    bounds: "length events \<le> kMaximumEvents" "length autonomy \<le> 3"
    and rest': "and_then (parse_events (StrongId session) (Generation (word_of_nat generation)) None events) (\<lambda>parsed.
                  and_then (parse_directives autonomy) (\<lambda>directives.
                    Inr \<lparr>er_session = StrongId session, er_generation = Generation (word_of_nat generation),
                         er_next_after = next_after, er_events = parsed, er_autonomy = directives\<rparr>)) = Inr r"
    by (auto simp: not_less split: option.splits if_splits)
  then obtain parsed directives where p: "parse_events (StrongId session) (Generation (word_of_nat generation)) None events = Inr parsed"
    "parse_directives autonomy = Inr directives"
    "r = \<lparr>er_session = StrongId session, er_generation = Generation (word_of_nat generation),
          er_next_after = next_after, er_events = parsed, er_autonomy = directives\<rparr>"
    by (auto simp: and_then_Inr_iff)
  from parse_events_sound [OF p(1)] parse_directives_length [OF p(2)] bounds p(3) show ?thesis
    by (simp add: kMaximumEvents_def)
qed

definition sample_batch :: string where
  "sample_batch =
     ''{\"schema\":\"lorkhan.events.v1\",\"session_id\":\"11111111-1111-4111-8111-111111111111\",\"generation\":2,'' @
     ''\"next_after\":9,\"autonomy\":[],\"events\":['' @
     ''{\"message_id\":\"55555555-1111-4111-8111-111111111111\",\"request_id\":\"33333333-1111-4111-8111-111111111111\",'' @
     ''\"turn_id\":\"44444444-1111-4111-8111-111111111111\",\"session_id\":\"11111111-1111-4111-8111-111111111111\",'' @
     ''\"generation\":2,\"sequence\":9,\"created_at\":\"2026-01-02T03:04:06Z\",\"type\":\"turn.complete\",'' @
     ''\"payload\":{\"status\":\"complete\"}}]}''"

theorem accepted_events_sound_witness:
  "case parse_events_response sample_batch [(''Content-Type'', ''application/json; charset=utf-8'')] default_limits of
     Inl _ \<Rightarrow> False | Inr r \<Rightarrow> length (er_events r) \<le> 100 \<and> sorted_wrt (<) (map pe_sequence (er_events r))"
proof -
  have "is_ok (parse_events_response sample_batch [(''Content-Type'', ''application/json; charset=utf-8'')] default_limits)"
    by code_simp
  then obtain r where r: "parse_events_response sample_batch [(''Content-Type'', ''application/json; charset=utf-8'')] default_limits = Inr r"
    by (auto simp: is_ok_iff)
  from accepted_events_sound [OF r] r show ?thesis by simp
qed

end
