(* ===== verification/Protocol_Responses.thy ===== *)
theory Protocol_Responses
  imports Protocol_Events Protocol_Settings
begin

text \<open>
  \<open>protocol_response.cpp\<close>: the responses that accept a request or report an error. Every parser
  reads an object of its schema, insists on its exact fields and reads them in the order in which
  the code reports their errors.
\<close>

section \<open>Health and errors\<close>

record protocol_error =
  perr_code :: error_code
  perr_correlation_id :: string
  perr_retriable :: bool
  perr_retry_after_ms :: "nat option"

definition parse_health_response :: "string \<Rightarrow> headers \<Rightarrow> parse_limits \<Rightarrow> unit result" where
  "parse_health_response body hs limits =
     and_then (parse_object body hs ''lorkhan.health.v1'' limits) (\<lambda>object.
       if \<not> has_exactly object [''schema''] []
       then invalid_schema ''health response contains unknown fields'' else Inr ())"

definition read_protocol_error :: "json_object \<Rightarrow> protocol_error result" where
  "read_protocol_error object =
     (if \<not> has_exactly object [''schema'', ''code'', ''message'', ''correlation_id'', ''retriable''] [''retry_after_ms'']
      then invalid_schema ''error response fields mismatch''
      else
        field (require_text object ''code'') (\<lambda>code.
        field (require_string object ''message'' 1 1024) (\<lambda>message.
        field (require_uuid object ''correlation_id'') (\<lambda>correlation.
        field (require_boolean object ''retriable'') (\<lambda>retriable.
          case protocol_code code of
            None \<Rightarrow> invalid_schema ''unknown protocol error code''
          | Some mapped_code \<Rightarrow>
              and_then (retry_after object) (\<lambda>retry.
                Inr \<lparr>perr_code = mapped_code, perr_correlation_id = correlation, perr_retriable = retriable,
                     perr_retry_after_ms = retry\<rparr>))))))"

definition parse_protocol_error_response :: "string \<Rightarrow> headers \<Rightarrow> parse_limits \<Rightarrow> protocol_error result" where
  "parse_protocol_error_response body hs limits =
     and_then (parse_object body hs ''lorkhan.error.v1'' limits) read_protocol_error"

text \<open>A retry delay fits \<^typ>\<open>u64\<close>: it is at most the largest \<open>int64_t\<close>.\<close>

definition validate_health_http_response :: "nat \<Rightarrow> string \<Rightarrow> headers \<Rightarrow> parse_limits \<Rightarrow> unit result" where
  "validate_health_http_response status body hs limits =
     (if 300 \<le> status \<and> status < 400
      then Inl (simple_error EC_redirect_rejected ''HTTP redirects are rejected'')
      else if 200 \<le> status \<and> status < 300 then parse_health_response body hs limits
      else
        and_then (parse_protocol_error_response body hs limits) (\<lambda>parsed.
          Inl (make_error (perr_code parsed) ''server returned a typed protocol error'' (perr_retriable parsed)
            (map_option word_of_nat (perr_retry_after_ms parsed)) None)))"

section \<open>Sessions\<close>

record session_accepted =
  sa_message :: MessageId
  sa_session :: SessionId
  sa_generation :: generation
  sa_capabilities :: "string list"
  sa_config_revision :: string
  sa_client_settings :: client_settings
  sa_event_cursor :: nat
  sa_character_id :: "string option"
  sa_profile_id :: "string option"
  sa_playthrough_id :: "string option"

text \<open>The loop over the capabilities; the accumulator is what was parsed, and the set \<open>unique\<close>.\<close>

fun parse_capabilities :: "string list \<Rightarrow> json list \<Rightarrow> string list result" where
  "parse_capabilities parsed [] = Inr parsed"
| "parse_capabilities parsed (v # vs) =
     (case json_string v of
        None \<Rightarrow> invalid_schema ''capabilities must contain unique bounded strings''
      | Some s \<Rightarrow>
          if s = [] \<or> kMaximumCapabilityBytes < length s \<or> s \<in> set parsed
          then invalid_schema ''capabilities must contain unique bounded strings''
          else parse_capabilities (parsed @ [s]) vs)"

definition read_session_accepted :: "json_object \<Rightarrow> session_accepted result" where
  "read_session_accepted object =
     (if \<not> has_exactly object [''schema'', ''message_id'', ''session_id'', ''generation'', ''capabilities'',
           ''config_revision'', ''client_settings'', ''event_cursor''] [''character_id'', ''profile_id'', ''playthrough_id'']
      then invalid_schema ''session accepted fields mismatch''
      else
        field (require_uuid object ''message_id'') (\<lambda>message.
        field (require_uuid object ''session_id'') (\<lambda>session.
        field (require_natural object ''generation'') (\<lambda>generation.
        field (require_string object ''config_revision'' 1 128) (\<lambda>revision.
        field (require_natural object ''event_cursor'') (\<lambda>cursor.
        field (parse_client_settings (the (json_find object ''client_settings''))) (\<lambda>settings.
          case json_array (the (json_find object ''capabilities'')) of
            None \<Rightarrow> invalid_schema ''capabilities must be a bounded array''
          | Some capabilities \<Rightarrow>
              if kMaximumCapabilities < length capabilities
              then invalid_schema ''capabilities must be a bounded array''
              else
                and_then (parse_capabilities [] capabilities) (\<lambda>parsed.
                and_then (optional_field object ''character_id'' require_uuid) (\<lambda>character.
                and_then (optional_field object ''profile_id'' require_uuid) (\<lambda>profile.
                and_then (optional_field object ''playthrough_id'' require_uuid) (\<lambda>playthrough.
                  Inr \<lparr>sa_message = StrongId message, sa_session = StrongId session,
                       sa_generation = Generation (word_of_nat generation), sa_capabilities = parsed,
                       sa_config_revision = revision, sa_client_settings = settings, sa_event_cursor = cursor,
                       sa_character_id = character, sa_profile_id = profile, sa_playthrough_id = playthrough\<rparr>)))))))))))"

definition parse_session_accepted_response :: "string \<Rightarrow> headers \<Rightarrow> parse_limits \<Rightarrow> session_accepted result" where
  "parse_session_accepted_response body hs limits =
     and_then (parse_object body hs ''lorkhan.session.accepted.v1'' limits) read_session_accepted"

record session_ended =
  se_request :: RequestId
  se_session :: SessionId
  se_generation :: generation
  se_ended :: bool

definition read_session_ended :: "json_object \<Rightarrow> session_ended result" where
  "read_session_ended object =
     (if \<not> has_exactly object [''schema'', ''request_id'', ''session_id'', ''generation'', ''ended''] []
      then invalid_schema ''session ended fields mismatch''
      else
        field (require_uuid object ''request_id'') (\<lambda>request.
        field (require_uuid object ''session_id'') (\<lambda>session.
        field (require_natural object ''generation'') (\<lambda>generation.
        field (require_boolean object ''ended'') (\<lambda>ended.
          Inr \<lparr>se_request = StrongId request, se_session = StrongId session,
               se_generation = Generation (word_of_nat generation), se_ended = ended\<rparr>)))))"

definition parse_session_ended_response :: "string \<Rightarrow> headers \<Rightarrow> parse_limits \<Rightarrow> session_ended result" where
  "parse_session_ended_response body hs limits =
     and_then (parse_object body hs ''lorkhan.session.ended.v1'' limits) read_session_ended"

section \<open>Responses that carry a correlation\<close>

record turn_accepted =
  ta_correlation :: response_correlation
  ta_event_cursor :: nat

definition parse_turn_accepted_response :: "string \<Rightarrow> headers \<Rightarrow> parse_limits \<Rightarrow> turn_accepted result" where
  "parse_turn_accepted_response body hs limits =
     and_then (parse_object body hs ''lorkhan.turn.accepted.v1'' limits) (\<lambda>object.
       if \<not> has_exactly object [''schema'', ''message_id'', ''request_id'', ''turn_id'', ''session_id'',
             ''generation'', ''event_cursor''] []
       then invalid_schema ''turn accepted fields mismatch''
       else
         field (parse_correlation object) (\<lambda>correlation.
         field (require_natural object ''event_cursor'') (\<lambda>cursor.
           Inr \<lparr>ta_correlation = correlation, ta_event_cursor = cursor\<rparr>)))"

record cursor_accepted =
  ca_correlation :: response_correlation
  ca_event_cursor :: nat
  ca_duplicate :: bool

text \<open>Interruptions and recordings are accepted by the same fields.\<close>

definition read_cursor_accepted :: "string \<Rightarrow> json_object \<Rightarrow> cursor_accepted result" where
  "read_cursor_accepted mismatch object =
     (if \<not> has_exactly object [''schema'', ''message_id'', ''request_id'', ''turn_id'', ''session_id'',
           ''generation'', ''event_cursor'', ''duplicate''] []
      then invalid_schema mismatch
      else
        field (parse_correlation object) (\<lambda>correlation.
        field (require_natural object ''event_cursor'') (\<lambda>cursor.
        field (require_boolean object ''duplicate'') (\<lambda>duplicate.
          Inr \<lparr>ca_correlation = correlation, ca_event_cursor = cursor, ca_duplicate = duplicate\<rparr>))))"

definition parse_interruption_accepted_response :: "string \<Rightarrow> headers \<Rightarrow> parse_limits \<Rightarrow> cursor_accepted result" where
  "parse_interruption_accepted_response body hs limits =
     and_then (parse_object body hs ''lorkhan.interruption.accepted.v1'' limits)
       (read_cursor_accepted ''interruption accepted fields mismatch'')"

definition parse_stt_accepted_response :: "string \<Rightarrow> headers \<Rightarrow> parse_limits \<Rightarrow> cursor_accepted result" where
  "parse_stt_accepted_response body hs limits =
     and_then (parse_object body hs ''lorkhan.stt.accepted.v1'' limits)
       (read_cursor_accepted ''STT accepted fields mismatch'')"

record action_result_accepted =
  ara_correlation :: response_correlation
  ara_action :: ActionId
  ara_status :: action_terminal_status
  ara_duplicate :: bool

definition parse_action_result_accepted_response ::
  "string \<Rightarrow> headers \<Rightarrow> parse_limits \<Rightarrow> action_result_accepted result" where
  "parse_action_result_accepted_response body hs limits =
     and_then (parse_object body hs ''lorkhan.action-result.accepted.v1'' limits) (\<lambda>object.
       if \<not> has_exactly object [''schema'', ''message_id'', ''request_id'', ''action_id'', ''turn_id'',
             ''session_id'', ''generation'', ''status'', ''duplicate''] []
       then invalid_schema ''action-result accepted fields mismatch''
       else
         field (parse_correlation object) (\<lambda>correlation.
         field (require_uuid object ''action_id'') (\<lambda>action.
         field (parse_terminal_status object) (\<lambda>status.
         field (require_boolean object ''duplicate'') (\<lambda>duplicate.
           Inr \<lparr>ara_correlation = correlation, ara_action = StrongId action, ara_status = status,
                ara_duplicate = duplicate\<rparr>)))))"

record delivery_result_accepted =
  dra_correlation :: response_correlation
  dra_dialogue_message :: MessageId
  dra_status :: dialogue_delivery_status
  dra_duplicate :: bool

definition parse_delivery_result_accepted_response ::
  "string \<Rightarrow> headers \<Rightarrow> parse_limits \<Rightarrow> delivery_result_accepted result" where
  "parse_delivery_result_accepted_response body hs limits =
     and_then (parse_object body hs ''lorkhan.dialogue-delivery-result.accepted.v1'' limits) (\<lambda>object.
       if \<not> has_exactly object [''schema'', ''message_id'', ''request_id'', ''dialogue_message_id'', ''turn_id'',
             ''session_id'', ''generation'', ''status'', ''duplicate''] []
       then invalid_schema ''dialogue delivery acceptance fields mismatch''
       else
         field (parse_correlation object) (\<lambda>correlation.
         field (require_uuid object ''dialogue_message_id'') (\<lambda>dialogue.
         field (parse_dialogue_delivery_status object) (\<lambda>status.
         field (require_boolean object ''duplicate'') (\<lambda>duplicate.
           Inr \<lparr>dra_correlation = correlation, dra_dialogue_message = StrongId dialogue, dra_status = status,
                dra_duplicate = duplicate\<rparr>)))))"

section \<open>Responses that carry an exchange\<close>

text \<open>
  The message, request, session and generation that six responses read in this order;
  \<open>minimum\<close> is the smallest generation.
\<close>

record exchange =
  ex_message :: MessageId
  ex_request :: RequestId
  ex_session :: SessionId
  ex_generation :: generation

definition read_exchange :: "nat \<Rightarrow> json_object \<Rightarrow> exchange result" where
  "read_exchange minimum object =
     field (require_uuid object ''message_id'') (\<lambda>message.
     field (require_uuid object ''request_id'') (\<lambda>request.
     field (require_uuid object ''session_id'') (\<lambda>session.
     field (require_unsigned object ''generation'' kMaximumProtocolInteger minimum) (\<lambda>generation.
       Inr \<lparr>ex_message = StrongId message, ex_request = StrongId request, ex_session = StrongId session,
            ex_generation = Generation (word_of_nat generation)\<rparr>))))"

record menu_tts_ready =
  mtr_exchange :: exchange
  mtr_actor :: protocol_identity
  mtr_media :: canonical_media

definition parse_menu_tts_ready_response :: "string \<Rightarrow> headers \<Rightarrow> parse_limits \<Rightarrow> menu_tts_ready result" where
  "parse_menu_tts_ready_response body hs limits =
     and_then (parse_object body hs ''lorkhan.menu-dialogue-tts.ready.v1'' limits) (\<lambda>object.
       if \<not> has_exactly object [''schema'', ''message_id'', ''request_id'', ''session_id'', ''generation'',
             ''actor'', ''media''] []
       then invalid_schema ''menu dialogue TTS fields mismatch''
       else
         and_then (read_exchange 0 object) (\<lambda>exchange.
         field (parse_identity (the (json_find object ''actor''))) (\<lambda>actor.
         field (parse_canonical_media (the (json_find object ''media''))) (\<lambda>media.
           Inr \<lparr>mtr_exchange = exchange, mtr_actor = actor, mtr_media = media\<rparr>))))"

record autochat_ready =
  apr_exchange :: exchange
  apr_text :: string

definition parse_autochat_ready_response :: "string \<Rightarrow> headers \<Rightarrow> parse_limits \<Rightarrow> autochat_ready result" where
  "parse_autochat_ready_response body hs limits =
     and_then (parse_object body hs ''lorkhan.player-autochat.ready.v1'' limits) (\<lambda>object.
       if \<not> has_exactly object [''schema'', ''message_id'', ''request_id'', ''session_id'', ''generation'', ''text''] []
       then invalid_schema ''player autochat fields mismatch''
       else
         and_then (read_exchange 0 object) (\<lambda>exchange.
         field (require_string object ''text'' 1 4096) (\<lambda>t.
           Inr \<lparr>apr_exchange = exchange, apr_text = t\<rparr>)))"

section \<open>Game data\<close>

record game_data_accepted =
  gda_request :: RequestId
  gda_session :: SessionId
  gda_generation :: generation
  gda_type :: string
  gda_duplicate :: bool
  gda_comment_requested :: bool

definition accepted_game_data_types :: "string list" where
  "accepted_game_data_types =
     [''captured_dialogue'', ''actor_profile'', ''inventory'', ''spell_cast'', ''actor_resurrected'', ''item_pickup'',
      ''automatic_diary'', ''rpg_event'', ''bored_event'', ''quest_event'', ''disposition'']"

definition commented_game_data_types :: "string list" where
  "commented_game_data_types = [''rpg_event'', ''bored_event'', ''quest_event'']"

definition read_game_data_accepted :: "json_object \<Rightarrow> game_data_accepted result" where
  "read_game_data_accepted object =
     (if \<not> has_exactly object [''schema'', ''request_id'', ''session_id'', ''generation'', ''type'', ''duplicate'']
           [''comment_requested'']
      then invalid_schema ''game-data accepted fields mismatch''
      else
        field (require_uuid object ''request_id'') (\<lambda>request.
        field (require_uuid object ''session_id'') (\<lambda>session.
        field (require_unsigned object ''generation'' kMaximumProtocolInteger 1) (\<lambda>generation.
        field_or (require_string object ''type'' 1 64) (\<lambda>t. t \<in> set accepted_game_data_types)
          ''game-data type mismatch'' (\<lambda>type.
        field (require_boolean object ''duplicate'') (\<lambda>duplicate.
        and_then
          (if json_find object ''comment_requested'' = None then Inr False
           else field_or (require_boolean object ''comment_requested'') (\<lambda>_. type \<in> set commented_game_data_types)
                  ''unexpected RPG commentary flag'' (\<lambda>b. Inr b)) (\<lambda>comment.
          Inr \<lparr>gda_request = StrongId request, gda_session = StrongId session,
               gda_generation = Generation (word_of_nat generation), gda_type = type,
               gda_duplicate = duplicate, gda_comment_requested = comment\<rparr>)))))))"

definition parse_game_data_accepted_response :: "string \<Rightarrow> headers \<Rightarrow> parse_limits \<Rightarrow> game_data_accepted result" where
  "parse_game_data_accepted_response body hs limits =
     and_then (parse_object body hs ''lorkhan.gamedata.accepted.v1'' limits) read_game_data_accepted"

section \<open>Diary and debug results\<close>

record command_result_accepted =
  cra_message :: MessageId
  cra_request :: RequestId
  cra_subject :: MessageId
  cra_session :: SessionId
  cra_generation :: generation
  cra_status :: debug_command_result_status
  cra_duplicate :: bool

text \<open>
  The two parsers differ in the name of the identifier they acknowledge (\<open>subject\<close>), in the
  smallest generation, and in the statuses they know.
\<close>

definition read_command_result ::
  "string \<Rightarrow> nat \<Rightarrow> (string \<times> debug_command_result_status) list \<Rightarrow> string \<times> string \<Rightarrow> json_object \<Rightarrow>
   command_result_accepted result" where
  "read_command_result subject minimum statuses messages object =
     (if \<not> has_exactly object [''schema'', ''message_id'', ''request_id'', subject, ''session_id'', ''generation'',
           ''status'', ''duplicate''] []
      then invalid_schema (fst messages)
      else
        field (require_uuid object ''message_id'') (\<lambda>message.
        field (require_uuid object ''request_id'') (\<lambda>request.
        field (require_uuid object subject) (\<lambda>acknowledged.
        field (require_uuid object ''session_id'') (\<lambda>session.
        field (require_unsigned object ''generation'' kMaximumProtocolInteger minimum) (\<lambda>generation.
        field (require_string object ''status'' 1 16) (\<lambda>status.
        field (require_boolean object ''duplicate'') (\<lambda>duplicate.
          case map_of statuses status of
            None \<Rightarrow> invalid_schema (snd messages)
          | Some mapped \<Rightarrow>
              Inr \<lparr>cra_message = StrongId message, cra_request = StrongId request, cra_subject = StrongId acknowledged,
                   cra_session = StrongId session, cra_generation = Generation (word_of_nat generation),
                   cra_status = mapped, cra_duplicate = duplicate\<rparr>))))))))"

definition diary_statuses :: "(string \<times> debug_command_result_status) list" where
  "diary_statuses = [(''succeeded'', DCS_succeeded), (''failed'', DCS_failed)]"

definition debug_statuses :: "(string \<times> debug_command_result_status) list" where
  "debug_statuses = [(''succeeded'', DCS_succeeded), (''failed'', DCS_failed), (''rejected'', DCS_rejected)]"

definition parse_diary_result_accepted_response ::
  "string \<Rightarrow> headers \<Rightarrow> parse_limits \<Rightarrow> command_result_accepted result" where
  "parse_diary_result_accepted_response body hs limits =
     and_then (parse_object body hs ''lorkhan.diary-book-result.accepted.v1'' limits)
       (read_command_result ''delivery_id'' 0 diary_statuses
          (''diary book result fields mismatch'', ''unknown diary result status''))"

definition parse_debug_result_accepted_response ::
  "string \<Rightarrow> headers \<Rightarrow> parse_limits \<Rightarrow> command_result_accepted result" where
  "parse_debug_result_accepted_response body hs limits =
     and_then (parse_object body hs ''lorkhan.debug-command-result.accepted.v1'' limits)
       (read_command_result ''command_id'' 1 debug_statuses
          (''debug command result fields mismatch'', ''unknown debug result status''))"

end
