(* ===== verification/Protocol_Controls.thy ===== *)
theory Protocol_Controls
  imports Protocol_Responses
begin

text \<open>
  \<open>protocol_response.cpp\<close>: the controls snapshot (\<open>parseControlsResponse\<close>): the selected
  model slot and profile, the four model slots, the profiles and the optional settings editor.
\<close>

section \<open>Data\<close>

record settings_field =
  sf_key :: string
  sf_label :: string
  sf_kind :: string
  sf_value :: string
  sf_choices :: "(string \<times> string) list"
  sf_minimum :: "int option"
  sf_maximum :: "int option"

record settings_section =
  ss_scope :: string
  ss_label :: string
  ss_fields :: "settings_field list"

record settings_editor =
  sed_change_token :: string
  sed_sections :: "settings_section list"

record model_slot =
  ms_key :: string
  ms_label :: string
  ms_available :: bool
  ms_configuration_id :: "string option"
  ms_configuration_name :: "string option"
  ms_revision :: "nat option"
  ms_driver :: "string option"
  ms_model :: "string option"

record profile_row =
  pr_profile_id :: string
  pr_name :: string
  pr_revision :: nat

record controls_response =
  cr_exchange :: exchange
  cr_target :: protocol_identity
  cr_selected_model_slot_key :: string
  cr_resolved_model_slot_key :: "string option"
  cr_selected_profile_id :: "string option"
  cr_narrator_profile_id :: "string option"
  cr_effective_settings :: effective_settings
  cr_model_slots :: "model_slot list"
  cr_profiles :: "profile_row list"
  cr_settings_editor :: "settings_editor option"

section \<open>Nullable fields\<close>

text \<open>
  The lambdas that read a value or null; \<open>good\<close> is what each accepts as a string and
  \<open>complaint\<close> the end of its message.
\<close>

definition nullable_text :: "(string \<Rightarrow> bool) \<Rightarrow> string \<Rightarrow> json_object \<Rightarrow> string \<Rightarrow> string option result" where
  "nullable_text good complaint object key =
     (case json_find object key of
        None \<Rightarrow> invalid_schema (key @ '' is missing'')
      | Some v \<Rightarrow>
          if json_is_null v then Inr None
          else case json_string v of
              None \<Rightarrow> invalid_schema (key @ complaint)
            | Some s \<Rightarrow> if \<not> good s then invalid_schema (key @ complaint) else Inr (Some s))"

definition nullable_profile :: "json_object \<Rightarrow> string \<Rightarrow> string option result" where
  "nullable_profile object key =
     nullable_text (if key = ''selected_profile_id'' then is_profile_id else is_canonical_uuid)
       '' must be null or a canonical UUID'' object key"

definition nullable_row_uuid :: "json_object \<Rightarrow> string \<Rightarrow> string option result" where
  "nullable_row_uuid row key = nullable_text is_canonical_uuid '' must be null or a canonical UUID'' row key"

definition nullable_string :: "json_object \<Rightarrow> string \<Rightarrow> nat \<Rightarrow> string option result" where
  "nullable_string row key maximum =
     nullable_text (\<lambda>s. s \<noteq> [] \<and> length s \<le> maximum) '' is invalid'' row key"

section \<open>Model slots and profiles\<close>

definition slot_keys :: "string list" where
  "slot_keys = [''standard'', ''fast'', ''powerful'', ''experimental'']"

definition expected_slots :: "(string \<times> string) list" where
  "expected_slots = [(''standard'', ''Standard''), (''fast'', ''Fast''), (''powerful'', ''Powerful''),
     (''experimental'', ''Experimental'')]"

definition slot_mismatch :: "bool \<Rightarrow> string option \<Rightarrow> string option \<Rightarrow> nat option \<Rightarrow> string option \<Rightarrow> string option \<Rightarrow> bool" where
  "slot_mismatch available i name revision driver model \<longleftrightarrow>
     (let complete = i \<noteq> None \<and> name \<noteq> None \<and> revision \<noteq> None \<and> driver \<noteq> None \<and> model \<noteq> None;
          empty = i = None \<and> name = None \<and> revision = None \<and> driver = None \<and> model = None in
      (available \<and> \<not> complete) \<or> (\<not> available \<and> \<not> empty)
      \<or> (driver \<noteq> None \<and> the driver \<noteq> ''configured'' \<and> the driver \<noteq> ''mock''))"

definition parse_slot :: "string \<times> string \<Rightarrow> json \<Rightarrow> model_slot result" where
  "parse_slot expected v =
     (case json_object v of
        None \<Rightarrow> invalid_schema ''model slot fields mismatch''
      | Some row \<Rightarrow>
          if \<not> has_exactly row [''key'', ''label'', ''available'', ''configuration_id'', ''configuration_name'',
                ''revision'', ''driver'', ''model''] []
          then invalid_schema ''model slot fields mismatch''
          else
            let bad_order = ''model slot order or label mismatch'';
                bad_connector = ''model slot connector fields mismatch'' in
            field_or (require_text row ''key'') (\<lambda>k. k = fst expected) bad_order (\<lambda>key.
            field_or (require_string row ''label'' 1 32) (\<lambda>l. l = snd expected) bad_order (\<lambda>label.
            field_or (require_boolean row ''available'') (\<lambda>_. True) bad_order (\<lambda>available.
            field_or (nullable_row_uuid row ''configuration_id'') (\<lambda>_. True) bad_connector (\<lambda>i.
            field_or (nullable_string row ''configuration_name'' 128) (\<lambda>_. True) bad_connector (\<lambda>name.
            field_or (nullable_revision row ''revision'') (\<lambda>_. True) bad_connector (\<lambda>revision.
            field_or (nullable_string row ''driver'' 32) (\<lambda>_. True) bad_connector (\<lambda>driver.
            field_or (nullable_string row ''model'' 256) (\<lambda>_. True) bad_connector (\<lambda>model.
              if slot_mismatch available i name revision driver model
              then invalid_schema ''model slot availability mismatch''
              else Inr \<lparr>ms_key = key, ms_label = label, ms_available = available, ms_configuration_id = i,
                        ms_configuration_name = name, ms_revision = revision, ms_driver = driver,
                        ms_model = model\<rparr>)))))))))"

text \<open>The caller has checked that there are as many slots as expected.\<close>

fun parse_slots :: "(string \<times> string) list \<Rightarrow> json list \<Rightarrow> model_slot list result" where
  "parse_slots (e # es) (v # vs) =
     and_then (parse_slot e v) (\<lambda>slot. and_then (parse_slots es vs) (\<lambda>slots. Inr (slot # slots)))"
| "parse_slots _ _ = Inr []"

definition parse_profile :: "string list \<Rightarrow> json \<Rightarrow> profile_row result" where
  "parse_profile seen v =
     (case json_object v of
        None \<Rightarrow> invalid_schema ''profile fields mismatch''
      | Some row \<Rightarrow>
          if \<not> has_exactly row [''profile_id'', ''name'', ''revision''] []
          then invalid_schema ''profile fields mismatch''
          else
            field (require_profile_id row ''profile_id'') (\<lambda>i.
            field (require_string row ''name'' 1 256) (\<lambda>name.
            field (require_unsigned row ''revision'' kMaximumProtocolInteger 1) (\<lambda>revision.
              if i \<in> set seen then invalid_schema ''duplicate profile''
              else Inr \<lparr>pr_profile_id = i, pr_name = name, pr_revision = revision\<rparr>))))"

fun parse_profiles :: "profile_row list \<Rightarrow> json list \<Rightarrow> profile_row list result" where
  "parse_profiles parsed [] = Inr parsed"
| "parse_profiles parsed (v # vs) =
     and_then (parse_profile (map pr_profile_id parsed) v) (\<lambda>p. parse_profiles (parsed @ [p]) vs)"

section \<open>The settings editor\<close>

definition parse_bound :: "json_object \<Rightarrow> string \<Rightarrow> int option result" where
  "parse_bound descriptor bound =
     (case json_find descriptor bound of
        None \<Rightarrow> Inr None
      | Some limit \<Rightarrow>
          (case json_integer limit of
             None \<Rightarrow> invalid_schema ''setting bounds invalid''
           | Some i \<Rightarrow>
               if i < -1000000 \<or> 1000000 < i then invalid_schema ''setting bounds invalid'' else Inr (Some i)))"

fun parse_choices :: "(string \<times> string) list \<Rightarrow> json list \<Rightarrow> (string \<times> string) list result" where
  "parse_choices parsed [] = Inr parsed"
| "parse_choices parsed (v # vs) =
     (case json_object v of
        None \<Rightarrow> invalid_schema ''setting choice fields mismatch''
      | Some choice \<Rightarrow>
          if \<not> has_exactly choice [''value'', ''label''] [] then invalid_schema ''setting choice fields mismatch''
          else
            let bad = ''setting choice invalid'' in
            field_or (require_string choice ''value'' 0 512) (\<lambda>_. True) bad (\<lambda>chosen.
            field_or (require_string choice ''label'' 1 128) (\<lambda>_. chosen \<notin> set (map fst parsed)) bad (\<lambda>label.
              parse_choices (parsed @ [(chosen, label)]) vs)))"

definition field_choices :: "json_object \<Rightarrow> (string \<times> string) list result" where
  "field_choices descriptor =
     (case json_find descriptor ''choices'' of
        None \<Rightarrow> Inr []
      | Some v \<Rightarrow>
          (case json_array v of
             None \<Rightarrow> invalid_schema ''setting choices invalid''
           | Some choices \<Rightarrow>
               if 64 < length choices then invalid_schema ''setting choices invalid'' else parse_choices [] choices))"

definition field_kinds :: "string list" where
  "field_kinds = [''boolean'', ''integer'', ''string'', ''choice'']"

definition bounds_reversed :: "int option \<Rightarrow> int option \<Rightarrow> bool" where
  "bounds_reversed minimum maximum \<longleftrightarrow>
     (case (minimum, maximum) of (Some lo, Some hi) \<Rightarrow> hi < lo | _ \<Rightarrow> False)"

definition parse_settings_field :: "string list \<Rightarrow> json \<Rightarrow> settings_field result" where
  "parse_settings_field seen v =
     (case json_object v of
        None \<Rightarrow> invalid_schema ''setting field mismatch''
      | Some descriptor \<Rightarrow>
          if \<not> has_exactly descriptor [''key'', ''label'', ''kind'', ''value''] [''choices'', ''minimum'', ''maximum'']
          then invalid_schema ''setting field mismatch''
          else
            let bad = ''setting descriptor invalid'' in
            field_or (require_string descriptor ''key'' 1 128) (\<lambda>k. k \<notin> set seen) bad (\<lambda>key.
            field_or (require_string descriptor ''label'' 1 128) (\<lambda>_. True) bad (\<lambda>name.
            field_or (require_string descriptor ''kind'' 1 16) (\<lambda>k. k \<in> set field_kinds) bad (\<lambda>kind.
            field_or (require_string descriptor ''value'' 0 512) (\<lambda>_. True) bad (\<lambda>item.
              if kind = ''boolean'' \<and> item \<noteq> ''true'' \<and> item \<noteq> ''false''
              then invalid_schema ''setting boolean invalid''
              else
                and_then (parse_bound descriptor ''minimum'') (\<lambda>minimum.
                and_then (parse_bound descriptor ''maximum'') (\<lambda>maximum.
                  if bounds_reversed minimum maximum then invalid_schema ''setting bounds reversed''
                  else and_then (field_choices descriptor) (\<lambda>choices.
                    Inr \<lparr>sf_key = key, sf_label = name, sf_kind = kind, sf_value = item, sf_choices = choices,
                         sf_minimum = minimum, sf_maximum = maximum\<rparr>))))))))"

fun parse_settings_fields :: "settings_field list \<Rightarrow> json list \<Rightarrow> settings_field list result" where
  "parse_settings_fields parsed [] = Inr parsed"
| "parse_settings_fields parsed (v # vs) =
     and_then (parse_settings_field (map sf_key parsed) v) (\<lambda>item. parse_settings_fields (parsed @ [item]) vs)"

definition section_scopes :: "string list" where
  "section_scopes = [''global'', ''core_profile'', ''npc'']"

definition parse_settings_section :: "string list \<Rightarrow> json \<Rightarrow> settings_section result" where
  "parse_settings_section seen v =
     (case json_object v of
        None \<Rightarrow> invalid_schema ''settings section fields mismatch''
      | Some section_row \<Rightarrow>
          if \<not> has_exactly section_row [''scope'', ''label'', ''fields''] []
          then invalid_schema ''settings section fields mismatch''
          else
            let bad = ''settings section invalid'' in
            field_or (require_string section_row ''scope'' 1 32) (\<lambda>s. s \<in> set section_scopes \<and> s \<notin> set seen) bad (\<lambda>scope.
            field_or (require_string section_row ''label'' 1 128) (\<lambda>_. True) bad (\<lambda>label.
              case json_array (the (json_find section_row ''fields'')) of
                None \<Rightarrow> invalid_schema bad
              | Some descriptors \<Rightarrow>
                  if 64 < length descriptors then invalid_schema bad
                  else and_then (parse_settings_fields [] descriptors) (\<lambda>parsed.
                    Inr \<lparr>ss_scope = scope, ss_label = label, ss_fields = parsed\<rparr>))))"

fun parse_settings_sections :: "settings_section list \<Rightarrow> json list \<Rightarrow> settings_section list result" where
  "parse_settings_sections parsed [] = Inr parsed"
| "parse_settings_sections parsed (v # vs) =
     and_then (parse_settings_section (map ss_scope parsed) v) (\<lambda>s. parse_settings_sections (parsed @ [s]) vs)"

definition parse_settings_editor :: "json \<Rightarrow> settings_editor result" where
  "parse_settings_editor v =
     (case json_object v of
        None \<Rightarrow> invalid_schema ''settings editor fields mismatch''
      | Some editor \<Rightarrow>
          if \<not> has_exactly editor [''change_token'', ''sections''] []
          then invalid_schema ''settings editor fields mismatch''
          else
            let bad = ''settings editor token or sections invalid'' in
            field_or (require_string editor ''change_token'' 64 64) (list_all is_lower_hex) bad (\<lambda>token.
              case json_array (the (json_find editor ''sections'')) of
                None \<Rightarrow> invalid_schema bad
              | Some sections \<Rightarrow>
                  if 3 < length sections then invalid_schema bad
                  else and_then (parse_settings_sections [] sections) (\<lambda>parsed.
                    Inr \<lparr>sed_change_token = token, sed_sections = parsed\<rparr>)))"

section \<open>The snapshot\<close>

definition controls_fields :: "string list" where
  "controls_fields =
     [''schema'', ''message_id'', ''request_id'', ''session_id'', ''generation'', ''target'',
      ''selected_model_slot_key'', ''resolved_model_slot_key'', ''selected_profile_id'', ''narrator_profile_id'',
      ''effective_settings'', ''model_slots'', ''profiles'']"

definition resolved_slot :: "json_object \<Rightarrow> string option result" where
  "resolved_slot object =
     (let v = the (json_find object ''resolved_model_slot_key'') in
      if json_is_null v then Inr None
      else case json_string v of
          None \<Rightarrow> invalid_schema ''resolved model slot mismatch''
        | Some s \<Rightarrow> if s \<notin> set slot_keys then invalid_schema ''resolved model slot mismatch'' else Inr (Some s))"

definition check_selection :: "controls_response \<Rightarrow> unit result" where
  "check_selection c =
     (if (case cr_resolved_model_slot_key c of None \<Rightarrow> False
          | Some key \<Rightarrow> \<not> list_ex (\<lambda>slot. ms_key slot = key \<and> ms_available slot) (cr_model_slots c))
      then invalid_schema ''resolved model slot is unavailable''
      else if (case cr_selected_profile_id c of None \<Rightarrow> False
               | Some i \<Rightarrow> \<not> list_ex (\<lambda>profile. pr_profile_id profile = i) (cr_profiles c))
      then invalid_schema ''selected profile is absent from the list''
      else Inr ())"

text \<open>The slots and the profiles of a snapshot, once both are known to be bounded.\<close>

definition read_lists :: "json_object \<Rightarrow> (model_slot list \<times> profile_row list) result" where
  "read_lists object =
     (case json_array (the (json_find object ''model_slots'')) of
        None \<Rightarrow> invalid_schema ''model slots must contain exactly four items''
      | Some slots \<Rightarrow>
          if length slots \<noteq> 4 then invalid_schema ''model slots must contain exactly four items''
          else
            (case json_array (the (json_find object ''profiles'')) of
               None \<Rightarrow> invalid_schema ''profiles must be an array of at most 100 items''
             | Some profiles \<Rightarrow>
                 if 100 < length profiles then invalid_schema ''profiles must be an array of at most 100 items''
                 else
                   and_then (parse_slots expected_slots slots) (\<lambda>parsed_slots.
                   and_then (parse_profiles [] profiles) (\<lambda>parsed_profiles.
                     Inr (parsed_slots, parsed_profiles)))))"

definition read_controls :: "json_object \<Rightarrow> controls_response result" where
  "read_controls object =
     (if \<not> has_exactly object controls_fields [''settings_editor'']
      then invalid_schema ''controls response fields mismatch''
      else
        and_then (read_exchange 0 object) (\<lambda>exchange.
        field (parse_identity (the (json_find object ''target''))) (\<lambda>target.
        field_or (require_text object ''selected_model_slot_key'') (\<lambda>k. k \<in> set slot_keys)
          ''selected model slot mismatch'' (\<lambda>selected.
        and_then (resolved_slot object) (\<lambda>resolved.
        field (nullable_profile object ''selected_profile_id'') (\<lambda>selected_profile.
        field (nullable_profile object ''narrator_profile_id'') (\<lambda>narrator_profile.
        field (parse_effective_settings (the (json_find object ''effective_settings''))) (\<lambda>effective.
        and_then (read_lists object) (\<lambda>(slots, profiles).
          let parsed = \<lparr>cr_exchange = exchange, cr_target = target, cr_selected_model_slot_key = selected,
                cr_resolved_model_slot_key = resolved, cr_selected_profile_id = selected_profile,
                cr_narrator_profile_id = narrator_profile, cr_effective_settings = effective,
                cr_model_slots = slots, cr_profiles = profiles, cr_settings_editor = None\<rparr> in
          and_then (check_selection parsed) (\<lambda>_.
            case json_find object ''settings_editor'' of
              None \<Rightarrow> Inr parsed
            | Some v \<Rightarrow>
                and_then (parse_settings_editor v) (\<lambda>editor.
                  Inr (parsed\<lparr>cr_settings_editor := Some editor\<rparr>))))))))))))"

definition parse_controls_response :: "string \<Rightarrow> headers \<Rightarrow> parse_limits \<Rightarrow> controls_response result" where
  "parse_controls_response body hs limits =
     and_then (parse_object body hs ''lorkhan.controls.v1'' limits) read_controls"

end
