(* ===== verification/Protocol_Control_Props.thy ===== *)
theory Protocol_Control_Props
  imports Protocol_Controls Protocol_Settings_Props
begin

text \<open>
  What an accepted controls snapshot promises to the menus of the client: the selections point
  into the lists, every list is free of duplicates, and each setting is within its descriptor.
\<close>

section \<open>The contract\<close>

definition slot_coherent :: "model_slot \<Rightarrow> bool" where
  "slot_coherent s \<longleftrightarrow>
     (let connector = [ms_configuration_id s \<noteq> None, ms_configuration_name s \<noteq> None, ms_revision s \<noteq> None,
                       ms_driver s \<noteq> None, ms_model s \<noteq> None] in
      connector = replicate 5 (ms_available s))
     \<and> pred_option (\<lambda>d. d = ''configured'' \<or> d = ''mock'') (ms_driver s)
     \<and> pred_option is_canonical_uuid (ms_configuration_id s)"

definition setting_coherent :: "settings_field \<Rightarrow> bool" where
  "setting_coherent f \<longleftrightarrow>
     sf_kind f \<in> set field_kinds \<and> (sf_kind f = ''boolean'' \<longrightarrow> sf_value f \<in> {''true'', ''false''})
     \<and> (\<forall>lo hi. sf_minimum f = Some lo \<and> sf_maximum f = Some hi \<longrightarrow> lo \<le> hi)
     \<and> distinct (map fst (sf_choices f)) \<and> length (sf_choices f) \<le> 64"

definition section_coherent :: "settings_section \<Rightarrow> bool" where
  "section_coherent s \<longleftrightarrow>
     ss_scope s \<in> set section_scopes \<and> distinct (map sf_key (ss_fields s)) \<and> length (ss_fields s) \<le> 64
     \<and> list_all setting_coherent (ss_fields s)"

definition editor_coherent :: "settings_editor \<Rightarrow> bool" where
  "editor_coherent e \<longleftrightarrow>
     length (sed_change_token e) = 64 \<and> list_all is_lower_hex (sed_change_token e)
     \<and> distinct (map ss_scope (sed_sections e)) \<and> list_all section_coherent (sed_sections e)"

definition controls_coherent :: "controls_response \<Rightarrow> bool" where
  "controls_coherent c \<longleftrightarrow>
     map ms_key (cr_model_slots c) = slot_keys \<and> list_all slot_coherent (cr_model_slots c)
     \<and> cr_selected_model_slot_key c \<in> set slot_keys
     \<and> pred_option (\<lambda>k. \<exists>s \<in> set (cr_model_slots c). ms_key s = k \<and> ms_available s) (cr_resolved_model_slot_key c)
     \<and> distinct (map pr_profile_id (cr_profiles c)) \<and> length (cr_profiles c) \<le> 100
     \<and> pred_option (\<lambda>i. i \<in> pr_profile_id ` set (cr_profiles c)) (cr_selected_profile_id c)
     \<and> pred_option editor_coherent (cr_settings_editor c)"

section \<open>Loops over rows with fresh keys\<close>

text \<open>
  The loops of the parser collect rows and hand the keys seen so far to the row parser. Whatever
  the rows are, the collected keys are distinct and every row keeps the promise of its parser.
\<close>

locale fresh_rows =
  fixes parse_row :: "'k list \<Rightarrow> json \<Rightarrow> 'r result"
    and row_key :: "'r \<Rightarrow> 'k"
    and row_ok :: "'r \<Rightarrow> bool"
    and parse_rows :: "'r list \<Rightarrow> json list \<Rightarrow> 'r list result"
  assumes rows_Nil: "parse_rows parsed [] = Inr parsed"
    and rows_Cons: "parse_rows parsed (v # vs) =
      and_then (parse_row (map row_key parsed) v) (\<lambda>r. parse_rows (parsed @ [r]) vs)"
    and row_sound: "parse_row seen v = Inr r \<Longrightarrow> row_ok r \<and> row_key r \<notin> set seen"
begin

lemma rows_sound:
  assumes "parse_rows parsed vs = Inr rs" "distinct (map row_key parsed)" "list_all row_ok parsed"
  shows "distinct (map row_key rs) \<and> list_all row_ok rs \<and> length rs = length parsed + length vs"
  using assms
proof (induction vs arbitrary: parsed)
  case Nil
  then show ?case by (simp add: rows_Nil)
next
  case (Cons v vs)
  from Cons.prems(1) obtain r where r: "parse_row (map row_key parsed) v = Inr r" "parse_rows (parsed @ [r]) vs = Inr rs"
    by (auto simp: rows_Cons and_then_Inr_iff)
  from Cons.IH [OF r(2)] row_sound [OF r(1)] Cons.prems(2,3) show ?case by auto
qed

lemma all_rows_sound:
  assumes "parse_rows [] vs = Inr rs"
  shows "distinct (map row_key rs) \<and> list_all row_ok rs \<and> length rs = length vs"
  using rows_sound [OF assms] by simp

end

section \<open>Model slots and profiles\<close>

lemma nullable_text_sound:
  assumes "nullable_text good complaint object key = Inr r" shows "pred_option good r"
proof (cases "json_find object key")
  case None
  with assms show ?thesis by (simp add: nullable_text_def)
next
  case (Some v)
  with assms show ?thesis
    by (cases v) (auto simp: nullable_text_def if_Inr_iff split: if_splits)
qed

lemma slot_coherentI:
  assumes "\<not> slot_mismatch (ms_available s) (ms_configuration_id s) (ms_configuration_name s) (ms_revision s)
      (ms_driver s) (ms_model s)"
    and "pred_option is_canonical_uuid (ms_configuration_id s)"
  shows "slot_coherent s"
  using assms by (cases "ms_driver s") (auto simp: slot_mismatch_def slot_coherent_def Let_def eval_nat_numeral)

lemma parse_slot_sound:
  assumes "parse_slot expected v = Inr s"
  shows "ms_key s = fst expected \<and> slot_coherent s"
proof (cases "json_object v")
  case None
  with assms show ?thesis by (simp add: parse_slot_def)
next
  case (Some row)
  note accepted = assms [unfolded parse_slot_def Let_def Some option.case reader_iffs]
  then obtain label available i name revision driver model where
    uuid: "nullable_row_uuid row ''configuration_id'' = Inr i"
    and ok: "\<not> slot_mismatch available i name revision driver model"
    and s: "Inr \<lparr>ms_key = fst expected, ms_label = label, ms_available = available, ms_configuration_id = i,
      ms_configuration_name = name, ms_revision = revision, ms_driver = driver, ms_model = model\<rparr>
      = (Inr s :: model_slot result)"
    by (elim conjE exE, hypsubst) (rule that, assumption+)
  from uuid have "pred_option is_canonical_uuid i"
    unfolding nullable_row_uuid_def by (rule nullable_text_sound)
  with ok s slot_coherentI [of s] show ?thesis by auto
qed

lemma parse_slots_sound:
  "parse_slots es vs = Inr slots \<Longrightarrow> length es = length vs \<Longrightarrow>
   map ms_key slots = map fst es \<and> list_all slot_coherent slots"
proof (induction es vs arbitrary: slots rule: parse_slots.induct)
  case (1 e es v vs)
  from 1(2) obtain slot rest where "parse_slot e v = Inr slot" "parse_slots es vs = Inr rest" "slots = slot # rest"
    by (auto simp: and_then_Inr_iff)
  with 1(1) [OF this(1,2)] 1(3) parse_slot_sound [OF this(1)] show ?case by simp
qed simp_all

lemma parse_profile_fresh:
  assumes "parse_profile seen v = Inr p" shows "pr_profile_id p \<notin> set seen"
proof (cases "json_object v")
  case None
  with assms show ?thesis by (simp add: parse_profile_def)
next
  case (Some row)
  show ?thesis
    using assms [unfolded parse_profile_def Some option.case reader_iffs] by auto
qed

interpretation profile_rows: fresh_rows parse_profile pr_profile_id "\<lambda>_. True" parse_profiles
  by unfold_locales (simp_all add: parse_profile_fresh)

section \<open>The settings editor\<close>

lemma parse_choices_sound:
  "parse_choices parsed vs = Inr cs \<Longrightarrow> distinct (map fst parsed) \<Longrightarrow>
   distinct (map fst cs) \<and> length cs = length parsed + length vs"
proof (induction parsed vs rule: parse_choices.induct)
  case (2 parsed v vs)
  then obtain choice where choice: "json_object v = Some choice"
    by (cases "json_object v") auto
  from 2(2) choice obtain chosen label where
    "\<not> \<not> has_exactly choice [''value'', ''label''] []" "chosen \<notin> set (map fst parsed)"
    "parse_choices (parsed @ [(chosen, label)]) vs = Inr cs"
    by (auto simp: Let_def reader_iffs)
  with 2(1) [OF choice] 2(3) show ?case by (auto simp: Let_def)
qed simp

lemma field_choices_sound:
  "field_choices d = Inr cs \<Longrightarrow> distinct (map fst cs) \<and> length cs \<le> 64"
  by (auto simp: field_choices_def if_Inr_iff split: option.splits dest: parse_choices_sound)

lemma parse_settings_field_sound:
  assumes "parse_settings_field seen v = Inr f"
  shows "setting_coherent f \<and> sf_key f \<notin> set seen"
proof (cases "json_object v")
  case None
  with assms show ?thesis by (simp add: parse_settings_field_def)
next
  case (Some descriptor)
  note accepted = assms [unfolded parse_settings_field_def Let_def Some option.case reader_iffs]
  then obtain key name kind item minimum maximum choices where
    facts: "key \<notin> set seen" "kind \<in> set field_kinds" "\<not> (kind = ''boolean'' \<and> item \<noteq> ''true'' \<and> item \<noteq> ''false'')"
      "\<not> bounds_reversed minimum maximum" "field_choices descriptor = Inr choices"
    and f: "Inr \<lparr>sf_key = key, sf_label = name, sf_kind = kind, sf_value = item, sf_choices = choices,
      sf_minimum = minimum, sf_maximum = maximum\<rparr> = (Inr f :: settings_field result)"
    by (elim conjE exE) (rule that, assumption+)
  from field_choices_sound [OF facts(5)] facts(1-4) f show ?thesis
    by (auto simp: setting_coherent_def bounds_reversed_def)
qed

interpretation field_rows: fresh_rows parse_settings_field sf_key setting_coherent parse_settings_fields
  by unfold_locales (simp_all add: parse_settings_field_sound)

lemma parse_settings_section_sound:
  assumes "parse_settings_section seen v = Inr s"
  shows "section_coherent s \<and> ss_scope s \<notin> set seen"
proof (cases "json_object v")
  case None
  with assms show ?thesis by (simp add: parse_settings_section_def)
next
  case (Some row)
  note accepted = assms [unfolded parse_settings_section_def Let_def Some option.case reader_iffs]
  then obtain scope label where
    scope: "scope \<in> set section_scopes" "scope \<notin> set seen"
    and rest: "(case json_array (the (json_find row ''fields'')) of
        None \<Rightarrow> invalid_schema ''settings section invalid''
      | Some descriptors \<Rightarrow>
          if 64 < length descriptors then invalid_schema ''settings section invalid''
          else and_then (parse_settings_fields [] descriptors) (\<lambda>parsed.
            Inr \<lparr>ss_scope = scope, ss_label = label, ss_fields = parsed\<rparr>)) = Inr s"
    by (elim conjE exE) (rule that, assumption+)
  then obtain descriptors parsed where "length descriptors \<le> 64" "parse_settings_fields [] descriptors = Inr parsed"
    "s = \<lparr>ss_scope = scope, ss_label = label, ss_fields = parsed\<rparr>"
    by (auto simp: reader_iffs not_less split: option.splits)
  with scope field_rows.all_rows_sound [OF this(2)] show ?thesis
    by (simp add: section_coherent_def)
qed

interpretation section_rows: fresh_rows parse_settings_section ss_scope section_coherent parse_settings_sections
  by unfold_locales (simp_all add: parse_settings_section_sound)

lemma parse_settings_editor_sound:
  assumes "parse_settings_editor v = Inr e"
  shows "editor_coherent e"
proof (cases "json_object v")
  case None
  with assms show ?thesis by (simp add: parse_settings_editor_def)
next
  case (Some editor)
  note accepted = assms [unfolded parse_settings_editor_def Let_def Some option.case reader_iffs]
  then obtain token where
    token: "require_string editor ''change_token'' 64 64 = Inr token" "list_all is_lower_hex token"
    and rest: "(case json_array (the (json_find editor ''sections'')) of
        None \<Rightarrow> invalid_schema ''settings editor token or sections invalid''
      | Some sections \<Rightarrow>
          if 3 < length sections then invalid_schema ''settings editor token or sections invalid''
          else and_then (parse_settings_sections [] sections) (\<lambda>parsed.
            Inr \<lparr>sed_change_token = token, sed_sections = parsed\<rparr>)) = Inr e"
    by (elim conjE exE) (rule that, assumption+)
  then obtain sections parsed where "parse_settings_sections [] sections = Inr parsed"
    "e = \<lparr>sed_change_token = token, sed_sections = parsed\<rparr>"
    by (auto simp: reader_iffs not_less split: option.splits)
  with token section_rows.all_rows_sound [OF this(1)] show ?thesis
    by (simp add: editor_coherent_def require_string_Inr_iff)
qed

section \<open>The snapshot\<close>

lemma read_lists_sound:
  assumes "read_lists object = Inr (slots, profiles)"
  shows "map ms_key slots = slot_keys \<and> list_all slot_coherent slots
    \<and> distinct (map pr_profile_id profiles) \<and> length profiles \<le> 100"
proof -
  from assms obtain vs ws where "length vs = 4" "length ws \<le> 100"
    "parse_slots expected_slots vs = Inr slots" "parse_profiles [] ws = Inr profiles"
    by (auto simp: read_lists_def reader_iffs not_less split: option.splits)
  with parse_slots_sound [OF this(3)] profile_rows.all_rows_sound [OF this(4)] show ?thesis
    by (simp add: expected_slots_def slot_keys_def)
qed

lemma check_selection_sound:
  assumes "check_selection c = Inr u"
  shows "pred_option (\<lambda>k. \<exists>s \<in> set (cr_model_slots c). ms_key s = k \<and> ms_available s) (cr_resolved_model_slot_key c)
    \<and> pred_option (\<lambda>i. i \<in> pr_profile_id ` set (cr_profiles c)) (cr_selected_profile_id c)"
  using assms
  by (auto simp: check_selection_def if_Inr_iff list_ex_iff split: option.splits if_splits)

text \<open>The last step of the parser: the optional editor joins the parsed snapshot.\<close>

definition with_editor :: "json option \<Rightarrow> controls_response \<Rightarrow> controls_response result" where
  "with_editor v parsed =
     (case v of
        None \<Rightarrow> Inr parsed
      | Some v \<Rightarrow> and_then (parse_settings_editor v) (\<lambda>editor. Inr (parsed\<lparr>cr_settings_editor := Some editor\<rparr>)))"

lemma with_editor_sound:
  assumes "with_editor v parsed = Inr c" "cr_settings_editor parsed = None"
  shows "controls_coherent c \<longleftrightarrow> controls_coherent parsed"
  using assms by (auto simp: with_editor_def and_then_Inr_iff controls_coherent_def
      dest!: parse_settings_editor_sound split: option.splits)

lemma read_controls_steps:
  assumes "read_controls object = Inr c"
  obtains selected slots profiles parsed u where
    "selected \<in> set slot_keys" "read_lists object = Inr (slots, profiles)" "check_selection parsed = Inr u"
    "cr_selected_model_slot_key parsed = selected" "cr_model_slots parsed = slots" "cr_profiles parsed = profiles"
    "cr_settings_editor parsed = None" "with_editor (json_find object ''settings_editor'') parsed = Inr c"
proof -
  note accepted = assms [unfolded read_controls_def Let_def with_editor_def [symmetric] reader_iffs split_paired_Ex prod.case]
  then show thesis
    by (elim conjE exE) (rule that, assumption+, simp_all)
qed

text \<open>C38. An accepted controls snapshot is coherent: the four model slots in their fixed order,
  each available exactly when its whole connector is present; the resolved slot is an
  available one and the selected profile one of the listed, distinct profiles; in the editor
  sections, keys and choice values are distinct, a boolean is written true or false and no
  bounds are reversed.\<close>

theorem accepted_controls_coherent:
  assumes "read_controls object = Inr c"
  shows "controls_coherent c"
proof -
  from assms obtain selected slots profiles parsed u where
    steps: "selected \<in> set slot_keys" "read_lists object = Inr (slots, profiles)" "check_selection parsed = Inr u"
    "cr_selected_model_slot_key parsed = selected" "cr_model_slots parsed = slots" "cr_profiles parsed = profiles"
    "cr_settings_editor parsed = None" "with_editor (json_find object ''settings_editor'') parsed = Inr c"
    by (rule read_controls_steps)
  from steps read_lists_sound [OF steps(2)] check_selection_sound [OF steps(3)]
  have "controls_coherent parsed"
    by (simp add: controls_coherent_def)
  with with_editor_sound [OF steps(8,7)] show ?thesis by simp
qed

definition sample_slot :: "string \<times> string \<Rightarrow> json" where
  "sample_slot = (\<lambda>(key, label). JObject
     [(''available'', JBool (key = ''fast'')),
      (''configuration_id'', if key = ''fast'' then JString (sample_uuid_of 3) else JNull),
      (''configuration_name'', if key = ''fast'' then JString ''Local'' else JNull),
      (''driver'', if key = ''fast'' then JString ''mock'' else JNull), (''key'', JString key), (''label'', JString label),
      (''model'', if key = ''fast'' then JString ''m'' else JNull), (''revision'', if key = ''fast'' then JInt 2 else JNull)])"

definition sample_editor :: json where
  "sample_editor = JObject
     [(''change_token'', JString (replicate 64 (CHR ''b''))),
      (''sections'', JArray [JObject
         [(''fields'', JArray [JObject
             [(''choices'', JArray [JObject [(''label'', JString ''On''), (''value'', JString ''true'')]]),
              (''key'', JString ''behavior.rechat''), (''kind'', JString ''boolean''), (''label'', JString ''Rechat''),
              (''maximum'', JInt 1), (''minimum'', JInt 0), (''value'', JString ''true'')]]),
          (''label'', JString ''Everywhere''), (''scope'', JString ''global'')]])]"

definition sample_controls :: json_object where
  "sample_controls =
     [(''effective_settings'', sample_snapshot), (''generation'', JInt 5), (''message_id'', JString (sample_uuid_of 1)),
      (''model_slots'', JArray (map sample_slot expected_slots)), (''narrator_profile_id'', JNull),
      (''profiles'', JArray [JObject [(''name'', JString ''Guard''), (''profile_id'', JString (sample_uuid_of 4)),
         (''revision'', JInt 1)]]),
      (''request_id'', JString (sample_uuid_of 2)), (''resolved_model_slot_key'', JString ''fast''),
      (''schema'', JString ''lorkhan.controls.v1''), (''selected_model_slot_key'', JString ''standard''),
      (''selected_profile_id'', JString (sample_uuid_of 4)), (''session_id'', JString (sample_uuid_of 3)),
      (''settings_editor'', sample_editor), (''target'', identity_json sample_identity)]"

theorem accepted_controls_coherent_witness:
  "case read_controls sample_controls of Inl _ \<Rightarrow> False | Inr c \<Rightarrow> controls_coherent c"
proof -
  have "is_ok (read_controls sample_controls)" by code_simp
  then obtain c where c: "read_controls sample_controls = Inr c" by (auto simp: is_ok_iff)
  with accepted_controls_coherent [OF c] show ?thesis by simp
qed

end
