(* ===== verification/Protocol_Debug.thy ===== *)
theory Protocol_Debug
  imports Protocol_Responses Sha256
begin

text \<open>
  \<open>protocol_response.cpp\<close>: the diary book a server delivers (\<open>parseDiaryBookResponse\<close>) and
  the debug command it may ask for (\<open>parseDebugCommandResponse\<close>), with the closed parameters of
  every command.
\<close>

section \<open>Diary books\<close>

record diary_book =
  db_delivery :: MessageId
  db_book :: MessageId
  db_target :: protocol_identity
  db_title :: string
  db_content :: string
  db_content_hash :: string

record diary_book_response =
  dbk_exchange :: exchange
  dbk_book :: "diary_book option"

text \<open>\<open>validText\<close>: no control character but the line breaks and the tab.\<close>

definition valid_diary_text :: "string \<Rightarrow> bool" where
  "valid_diary_text s \<longleftrightarrow>
     \<not> list_ex (\<lambda>c. byte c = 127 \<or> (byte c < 32 \<and> byte c \<noteq> 10 \<and> byte c \<noteq> 13 \<and> byte c \<noteq> 9)) s"

definition is_line_space :: "char \<Rightarrow> bool" where
  "is_line_space c \<longleftrightarrow> byte c = 13 \<or> byte c = 10 \<or> byte c = 9"

text \<open>Bytes that do not continue a UTF-8 sequence: \<open>(c & 0xc0) != 0x80\<close>.\<close>

definition code_points :: "string \<Rightarrow> nat" where
  "code_points s = length (filter (\<lambda>c. byte c div 64 \<noteq> 2) s)"

definition text_bytes :: "string \<Rightarrow> byte_t list" where
  "text_bytes s = map (\<lambda>c. word_of_nat (byte c)) s"

definition read_diary_book :: "json_object \<Rightarrow> diary_book result" where
  "read_diary_book book =
     (if \<not> has_exactly book [''delivery_id'', ''book_id'', ''target'', ''title'', ''content'', ''content_hash''] []
      then invalid_schema ''diary book fields mismatch''
      else
        let bad = ''invalid diary book payload'' in
        field_or (require_uuid book ''delivery_id'') (\<lambda>_. True) bad (\<lambda>delivery.
        field_or (require_uuid book ''book_id'') (\<lambda>_. True) bad (\<lambda>i.
        field_or (parse_identity (the (json_find book ''target''))) (\<lambda>_. True) bad (\<lambda>target.
        field_or (require_string book ''title'' 1 128) (\<lambda>_. True) bad (\<lambda>title.
        field_or (require_string book ''content'' 1 8192) (\<lambda>_. True) bad (\<lambda>content.
        field_or (require_string book ''content_hash'' 64 64) (\<lambda>_. True) bad (\<lambda>hash.
          if pid_kind target \<noteq> ''npc'' \<and> pid_kind target \<noteq> ''creature''
          then invalid_schema ''diary target must be NPC or creature''
          else if \<not> valid_diary_text title \<or> list_ex is_line_space title \<or> \<not> valid_diary_text content
            \<or> 2048 < code_points content \<or> sha256_hex (text_bytes content) \<noteq> hash
          then invalid_schema ''diary content hash or text is invalid''
          else Inr \<lparr>db_delivery = StrongId delivery, db_book = StrongId i, db_target = target, db_title = title,
                    db_content = content, db_content_hash = hash\<rparr>)))))))"

definition read_diary_book_response :: "json_object \<Rightarrow> diary_book_response result" where
  "read_diary_book_response object =
     (if \<not> has_exactly object [''schema'', ''message_id'', ''request_id'', ''session_id'', ''generation'', ''book''] []
      then invalid_schema ''diary book response fields mismatch''
      else
        and_then (read_exchange 0 object) (\<lambda>exchange.
          let v = the (json_find object ''book'') in
          if json_is_null v then Inr \<lparr>dbk_exchange = exchange, dbk_book = None\<rparr>
          else case json_object v of
              None \<Rightarrow> invalid_schema ''diary book fields mismatch''
            | Some book \<Rightarrow>
                and_then (read_diary_book book) (\<lambda>b. Inr \<lparr>dbk_exchange = exchange, dbk_book = Some b\<rparr>)))"

definition parse_diary_book_response :: "string \<Rightarrow> headers \<Rightarrow> parse_limits \<Rightarrow> diary_book_response result" where
  "parse_diary_book_response body hs limits =
     and_then (parse_object body hs ''lorkhan.diary-book.v1'' limits) read_diary_book_response"

section \<open>Debug commands\<close>

datatype debug_parameter =
    Param_bool bool
  | Param_int int
  | Param_number cxx_double
  | Param_string string
  | Param_identity protocol_identity

type_synonym debug_parameters = "string \<rightharpoonup> debug_parameter"

record debug_command =
  dc_command :: MessageId
  dc_name :: string
  dc_parameters :: debug_parameters
  dc_expires_at :: string

record debug_command_response =
  dcp_exchange :: exchange
  dcp_command :: "debug_command option"

text \<open>
  The three lambdas \<open>addString\<close>, \<open>addUnsigned\<close> and \<open>addNumber\<close>: they read a value and
  store it under its key. They run one after the other and their errors are looked at in the
  same order, so that each is a step that returns the extended parameters.
\<close>

definition unsafe_char :: "char \<Rightarrow> bool" where
  "unsafe_char c \<longleftrightarrow> c = CHR ''/'' \<or> c = CHR 0x5C \<or> c = CHR 0x0D \<or> c = CHR 0x0A \<or> c = CHR 0x09"

definition add_string :: "json_object \<Rightarrow> string \<Rightarrow> nat \<Rightarrow> debug_parameters \<Rightarrow> (string \<times> debug_parameters) result" where
  "add_string parameters key maximum parsed =
     field (require_string parameters key 1 maximum) (\<lambda>s.
       if list_ex unsafe_char s then invalid_schema ''unsafe debug string parameter''
       else Inr (s, parsed(key \<mapsto> Param_string s)))"

definition add_unsigned :: "json_object \<Rightarrow> string \<Rightarrow> nat \<Rightarrow> nat \<Rightarrow> debug_parameters \<Rightarrow> debug_parameters result" where
  "add_unsigned parameters key minimum maximum parsed =
     field (require_unsigned parameters key maximum minimum) (\<lambda>n. Inr (parsed(key \<mapsto> Param_int (int n))))"

definition add_number :: "json_object \<Rightarrow> string \<Rightarrow> rat \<Rightarrow> rat \<Rightarrow> debug_parameters \<Rightarrow> debug_parameters result" where
  "add_number parameters key minimum maximum parsed =
     field (require_number parameters key minimum maximum) (\<lambda>d. Inr (parsed(key \<mapsto> Param_number d)))"

definition npc_commands :: "string list" where
  "npc_commands = [''npc.status'', ''npc.visit'', ''npc.teleport'', ''npc.return'']"

definition empty_commands :: "string list" where
  "empty_commands = [''status.snapshot'', ''shaders.reload'', ''player.vitals.restore'', ''target.actor.kill'',
     ''target.actor.restore'', ''target.teleport.to_player'']"

definition switch_commands :: "string list" where
  "switch_commands = [''god_mode.set'', ''collision.set'', ''ai.set'', ''mwscript.set'', ''shader_hot_reload.set'']"

definition render_modes :: "string list" where
  "render_modes = [''collision'', ''wireframe'', ''pathgrid'', ''water'', ''scene'', ''navmesh'', ''actors_paths'', ''recast_mesh'']"

definition dynamic_stats :: "string list" where
  "dynamic_stats = [''health'', ''magicka'', ''fatigue'']"

definition attribute_names :: "string list" where
  "attribute_names = [''strength'', ''intelligence'', ''willpower'', ''agility'', ''speed'', ''endurance'', ''personality'', ''luck'']"

definition skill_names :: "string list" where
  "skill_names = [''block'', ''armorer'', ''mediumarmor'', ''heavyarmor'', ''bluntweapon'', ''longblade'', ''axe'', ''spear'',
     ''athletics'', ''enchant'', ''destruction'', ''alteration'', ''illusion'', ''conjuration'', ''mysticism'', ''restoration'',
     ''alchemy'', ''unarmored'', ''security'', ''sneak'', ''acrobatics'', ''lightarmor'', ''shortblade'', ''marksman'',
     ''mercantile'', ''speechcraft'', ''handtohand'']"

definition weather_names :: "string list" where
  "weather_names = [''clear'', ''cloudy'', ''foggy'', ''overcast'', ''rain'', ''thunderstorm'', ''ashstorm'', ''blight'', ''snow'', ''blizzard'']"

section \<open>The language of a spoken line\<close>

text \<open>
  The loop over the subtags of the language of \<open>player.dialogue.submit\<close>. The argument is the
  tag from \<open>start\<close> on.
\<close>

definition speech_tag_char :: "bool \<Rightarrow> char \<Rightarrow> bool" where
  "speech_tag_char first c \<longleftrightarrow> is_lower c \<or> (\<not> first \<and> (is_upper c \<or> is_digit c))"

function speech_tag :: "bool \<Rightarrow> string \<Rightarrow> bool" where
  "speech_tag first tag =
     (if tag = [] then True
      else
        let part = takeWhile (\<lambda>c. c \<noteq> CHR ''-'') tag;
            after = dropWhile (\<lambda>c. c \<noteq> CHR ''-'') tag in
        if length part < 2 \<or> (if first then 3 else 8) < length part then False
        else if \<not> list_all (speech_tag_char first) part then False
        else case after of
            [] \<Rightarrow> True
          | dash # next \<Rightarrow> if next = [] then False else speech_tag False next)"
  by pat_completeness auto
termination speech_tag
proof (relation "measure (\<lambda>(first, tag). length tag)")
  fix first :: bool and tag part after further :: string and dash
  assume "after = dropWhile (\<lambda>c. c \<noteq> CHR ''-'') tag" "after = dash # further"
  then have "length (dash # further) \<le> length tag"
    by (metis length_dropWhile_le)
  then show "((False, further), first, tag) \<in> measure (\<lambda>(first, tag). length tag)"
    by simp
qed simp

declare speech_tag.simps [simp del]

section \<open>The parameters of a command\<close>

text \<open>The \<open>double\<close> literal 0.01.\<close>

definition one_hundredth :: rat where
  "one_hundredth = 5764607523034235 / 2 ^ 59"

definition named_number :: "json_object \<Rightarrow> string \<Rightarrow> nat \<Rightarrow> string list \<Rightarrow> string \<Rightarrow> rat \<Rightarrow> debug_parameters result" where
  "named_number parameters key bound names complaint maximum =
     field (add_string parameters key bound (\<lambda>_. None)) (\<lambda>(selected, parsed).
       if selected \<notin> set names then invalid_schema complaint
       else field (add_number parameters ''value'' 0 maximum parsed) Inr)"

definition npc_parameters :: "json_object \<Rightarrow> debug_parameters result" where
  "npc_parameters parameters =
     (if \<not> has_exactly parameters [''actor''] [] then invalid_schema ''NPC manager fields mismatch''
      else field_or (parse_identity (the (json_find parameters ''actor'')))
        (\<lambda>a. pid_kind a = ''npc'' \<or> pid_kind a = ''creature'')
        ''NPC manager requires an exact NPC or creature identity'' (\<lambda>a. Inr [''actor'' \<mapsto> Param_identity a]))"

definition speech_parameters :: "json_object \<Rightarrow> debug_parameters result" where
  "speech_parameters parameters =
     (if \<not> has_exactly parameters [''text'', ''language''] [] then invalid_schema ''browser speech fields mismatch''
      else
        let bad = ''invalid browser speech strings'' in
        field_or (require_string parameters ''text'' 1 2048) (\<lambda>_. True) bad (\<lambda>t.
        field_or (require_string parameters ''language'' 2 16) (\<lambda>_. True) bad (\<lambda>language.
          if list_all (\<lambda>c. c = CHR '' '') t \<or> list_ex (\<lambda>c. byte c < 0x20 \<or> byte c = 0x7F) t
          then invalid_schema ''invalid browser speech text''
          else if \<not> speech_tag True language then invalid_schema ''invalid browser speech language''
          else Inr [''text'' \<mapsto> Param_string t, ''language'' \<mapsto> Param_string language])))"

definition switch_parameters :: "json_object \<Rightarrow> debug_parameters result" where
  "switch_parameters parameters =
     (if \<not> has_exactly parameters [''enabled''] [] then invalid_schema ''debug switch fields mismatch''
      else field (require_boolean parameters ''enabled'') (\<lambda>b. Inr [''enabled'' \<mapsto> Param_bool b]))"

definition render_parameters :: "json_object \<Rightarrow> debug_parameters result" where
  "render_parameters parameters =
     (if \<not> has_exactly parameters [''mode''] [] then invalid_schema ''render mode fields mismatch''
      else field (require_string parameters ''mode'' 1 32) (\<lambda>mode.
        if mode \<notin> set render_modes then invalid_schema ''unknown render mode''
        else Inr [''mode'' \<mapsto> Param_string mode]))"

definition inventory_parameters :: "json_object \<Rightarrow> debug_parameters result" where
  "inventory_parameters parameters =
     (if \<not> has_exactly parameters [''record_id'', ''count''] [] then invalid_schema ''inventory debug fields mismatch''
      else field (add_string parameters ''record_id'' 256 (\<lambda>_. None)) (\<lambda>(record, parsed).
        field (add_unsigned parameters ''count'' 1 10000 parsed) Inr))"

definition spell_debug_parameters :: "json_object \<Rightarrow> debug_parameters result" where
  "spell_debug_parameters parameters =
     (if \<not> has_exactly parameters [''record_id''] [] then invalid_schema ''spell debug fields mismatch''
      else field (add_string parameters ''record_id'' 256 (\<lambda>_. None)) (\<lambda>(record, parsed). Inr parsed))"

definition integer_parameters :: "string \<Rightarrow> json_object \<Rightarrow> debug_parameters result" where
  "integer_parameters name parameters =
     (if \<not> has_exactly parameters [''value''] [] then invalid_schema ''integer debug fields mismatch''
      else field (add_unsigned parameters ''value'' (if name = ''player.level.set'' then 1 else 0)
             (if name = ''player.level.set'' then 1000 else 1000000000) (\<lambda>_. None)) Inr)"

definition numeric_bounds :: "string \<Rightarrow> rat \<times> rat" where
  "numeric_bounds name =
     (if name = ''player.scale.set'' \<or> name = ''target.scale.set'' then (one_hundredth, 100)
      else if name = ''world.time.advance'' then (0, 8760) else (0, 10000))"

definition numeric_parameters :: "string \<Rightarrow> json_object \<Rightarrow> debug_parameters result" where
  "numeric_parameters name parameters =
     (if \<not> has_exactly parameters [''value''] [] then invalid_schema ''numeric debug fields mismatch''
      else field (add_number parameters ''value'' (fst (numeric_bounds name)) (snd (numeric_bounds name)) (\<lambda>_. None)) Inr)"

definition teleport_parameters :: "json_object \<Rightarrow> debug_parameters result" where
  "teleport_parameters parameters =
     (if \<not> has_exactly parameters [''cell'', ''x'', ''y'', ''z''] [] then invalid_schema ''teleport debug fields mismatch''
      else
        field (add_string parameters ''cell'' 300 (\<lambda>_. None)) (\<lambda>(cell, parsed).
        field (add_number parameters ''x'' (-100000000) 100000000 parsed) (\<lambda>parsed.
        field (add_number parameters ''y'' (-100000000) 100000000 parsed) (\<lambda>parsed.
        field (add_number parameters ''z'' (-100000000) 100000000 parsed) Inr))))"

definition weather_parameters :: "json_object \<Rightarrow> debug_parameters result" where
  "weather_parameters parameters =
     (if \<not> has_exactly parameters [''region_id'', ''weather''] [] then invalid_schema ''weather debug fields mismatch''
      else
        field (add_string parameters ''region_id'' 128 (\<lambda>_. None)) (\<lambda>(region, parsed).
        field (add_string parameters ''weather'' 32 parsed) (\<lambda>(selected, parsed).
          if selected \<notin> set weather_names then invalid_schema ''unknown weather'' else Inr parsed)))"

definition named_parameters :: "json_object \<Rightarrow> string \<Rightarrow> string \<Rightarrow> nat \<Rightarrow> string list \<Rightarrow> string \<Rightarrow> rat \<Rightarrow> debug_parameters result" where
  "named_parameters parameters mismatch key bound names complaint maximum =
     (if \<not> has_exactly parameters [key, ''value''] [] then invalid_schema mismatch
      else named_number parameters key bound names complaint maximum)"

text \<open>The chain of comparisons on the name.\<close>

definition debug_parameters_of :: "string \<Rightarrow> json_object \<Rightarrow> debug_parameters result" where
  "debug_parameters_of name parameters =
     (if name \<in> set npc_commands then npc_parameters parameters
      else if name = ''player.dialogue.submit'' then speech_parameters parameters
      else if name \<in> set empty_commands then
        (if parameters \<noteq> [] then invalid_schema ''debug command takes no parameters'' else Inr (\<lambda>_. None))
      else if name \<in> set switch_commands then switch_parameters parameters
      else if name = ''render_mode.toggle'' then render_parameters parameters
      else if name = ''player.inventory.add'' \<or> name = ''player.inventory.remove'' then inventory_parameters parameters
      else if name = ''player.spell.add'' \<or> name = ''player.spell.remove'' then spell_debug_parameters parameters
      else if name = ''player.stat.set'' then
        named_parameters parameters ''stat debug fields mismatch'' ''stat'' 16 dynamic_stats ''unknown dynamic stat'' 1000000
      else if name = ''player.attribute.set'' then
        named_parameters parameters ''attribute debug fields mismatch'' ''attribute'' 32 attribute_names ''unknown attribute'' 1000
      else if name = ''player.skill.set'' then
        named_parameters parameters ''skill debug fields mismatch'' ''skill'' 32 skill_names ''unknown skill'' 1000
      else if name = ''player.level.set'' \<or> name = ''player.bounty.set'' then integer_parameters name parameters
      else if name = ''player.scale.set'' \<or> name = ''target.scale.set'' \<or> name = ''world.timescale.set''
        \<or> name = ''world.time.advance'' then numeric_parameters name parameters
      else if name = ''player.teleport'' then teleport_parameters parameters
      else if name = ''world.weather.set'' then weather_parameters parameters
      else invalid_schema ''unknown debug command'')"

definition read_debug_command :: "json_object \<Rightarrow> debug_command result" where
  "read_debug_command command =
     (if \<not> has_exactly command [''command_id'', ''name'', ''parameters'', ''expires_at''] []
      then invalid_schema ''debug command fields mismatch''
      else
        field (require_uuid command ''command_id'') (\<lambda>i.
        field (require_string command ''name'' 1 64) (\<lambda>name.
        field (require_timestamp command ''expires_at'') (\<lambda>expires.
          case json_object (the (json_find command ''parameters'')) of
            None \<Rightarrow> invalid_schema ''debug parameters must be an object''
          | Some parameters \<Rightarrow>
              and_then (debug_parameters_of name parameters) (\<lambda>parsed.
                Inr \<lparr>dc_command = StrongId i, dc_name = name, dc_parameters = parsed, dc_expires_at = expires\<rparr>)))))"

definition read_debug_command_response :: "json_object \<Rightarrow> debug_command_response result" where
  "read_debug_command_response object =
     (if \<not> has_exactly object [''schema'', ''message_id'', ''request_id'', ''session_id'', ''generation'', ''command''] []
      then invalid_schema ''debug command response fields mismatch''
      else
        and_then (read_exchange 1 object) (\<lambda>exchange.
          let v = the (json_find object ''command'') in
          if json_is_null v then Inr \<lparr>dcp_exchange = exchange, dcp_command = None\<rparr>
          else case json_object v of
              None \<Rightarrow> invalid_schema ''debug command fields mismatch''
            | Some command \<Rightarrow>
                and_then (read_debug_command command) (\<lambda>c. Inr \<lparr>dcp_exchange = exchange, dcp_command = Some c\<rparr>)))"

definition parse_debug_command_response :: "string \<Rightarrow> headers \<Rightarrow> parse_limits \<Rightarrow> debug_command_response result" where
  "parse_debug_command_response body hs limits =
     and_then (parse_object body hs ''lorkhan.debug-command.v1'' limits) read_debug_command_response"

end
