(* ===== verification/Protocol_Debug_Props.thy ===== *)
theory Protocol_Debug_Props
  imports Protocol_Debug
begin

text \<open>
  What an accepted debug command promises to the engine that runs it: the closed list of the
  commands, and for each the exact keys of its parameters and the range of their values.
\<close>

section \<open>The contracts\<close>

definition physical_param :: "debug_parameter \<Rightarrow> bool" where
  "physical_param v \<longleftrightarrow> (\<exists>a. v = Param_identity a \<and> pid_kind a \<in> {''npc'', ''creature''})"

definition switch_param :: "debug_parameter \<Rightarrow> bool" where
  "switch_param v \<longleftrightarrow> (\<exists>b. v = Param_bool b)"

definition int_param :: "int \<Rightarrow> int \<Rightarrow> debug_parameter \<Rightarrow> bool" where
  "int_param lo hi v \<longleftrightarrow> (\<exists>i. v = Param_int i \<and> lo \<le> i \<and> i \<le> hi)"

definition number_param :: "rat \<Rightarrow> rat \<Rightarrow> debug_parameter \<Rightarrow> bool" where
  "number_param lo hi v \<longleftrightarrow> (\<exists>q. v = Param_number (Finite q) \<and> lo \<le> q \<and> q \<le> hi)"

definition safe_param :: "nat \<Rightarrow> debug_parameter \<Rightarrow> bool" where
  "safe_param bound v \<longleftrightarrow>
     (\<exists>s. v = Param_string s \<and> s \<noteq> [] \<and> length s \<le> bound
        \<and> set s \<inter> {CHR ''/'', CHR 0x5C, CHR 0x0D, CHR 0x0A, CHR 0x09} = {})"

definition choice_param :: "string list \<Rightarrow> debug_parameter \<Rightarrow> bool" where
  "choice_param names v \<longleftrightarrow> (\<exists>s \<in> set names. v = Param_string s)"

definition spoken_param :: "debug_parameter \<Rightarrow> bool" where
  "spoken_param v \<longleftrightarrow>
     (\<exists>s. v = Param_string s \<and> length s \<le> 2048 \<and> (\<exists>c \<in> set s. c \<noteq> CHR '' '')
        \<and> (\<forall>c \<in> set s. 0x20 \<le> byte c \<and> byte c \<noteq> 0x7F))"

text \<open>A language tag by its subtags: the reference for the loop \<^const>\<open>speech_tag\<close>.\<close>

function subtags :: "string \<Rightarrow> string list" where
  "subtags s =
     (if CHR ''-'' \<in> set s
      then takeWhile (\<lambda>c. c \<noteq> CHR ''-'') s # subtags (tl (dropWhile (\<lambda>c. c \<noteq> CHR ''-'') s))
      else [s])"
  by pat_completeness auto
termination subtags
proof (relation "measure length")
  fix s :: string assume "CHR ''-'' \<in> set s"
  then have "dropWhile (\<lambda>c. c \<noteq> CHR ''-'') s \<noteq> []" by (simp add: dropWhile_eq_Nil_conv)
  moreover have "length (dropWhile (\<lambda>c. c \<noteq> CHR ''-'') s) \<le> length s" by (rule length_dropWhile_le)
  ultimately have "length (tl (dropWhile (\<lambda>c. c \<noteq> CHR ''-'') s)) < length s"
    by (cases "dropWhile (\<lambda>c. c \<noteq> CHR ''-'') s") auto
  then show "(tl (dropWhile (\<lambda>c. c \<noteq> CHR ''-'') s), s) \<in> measure length" by simp
qed simp

declare subtags.simps [simp del]

definition primary_subtag :: "string \<Rightarrow> bool" where
  "primary_subtag t \<longleftrightarrow> length t \<in> {2, 3} \<and> list_all is_lower t"

definition further_subtag :: "string \<Rightarrow> bool" where
  "further_subtag t \<longleftrightarrow> 2 \<le> length t \<and> length t \<le> 8 \<and> list_all is_alnum t"

definition language_param :: "debug_parameter \<Rightarrow> bool" where
  "language_param v \<longleftrightarrow>
     (\<exists>s. v = Param_string s \<and> length s \<le> 16 \<and> primary_subtag (hd (subtags s)) \<and> list_all further_subtag (tl (subtags s)))"

definition debug_contracts :: "(string list \<times> (string \<times> (debug_parameter \<Rightarrow> bool)) list) list" where
  "debug_contracts =
     [([''npc.status'', ''npc.visit'', ''npc.teleport'', ''npc.return''], [(''actor'', physical_param)]),
      ([''player.dialogue.submit''], [(''text'', spoken_param), (''language'', language_param)]),
      ([''status.snapshot'', ''shaders.reload'', ''player.vitals.restore'', ''target.actor.kill'',
        ''target.actor.restore'', ''target.teleport.to_player''], []),
      ([''god_mode.set'', ''collision.set'', ''ai.set'', ''mwscript.set'', ''shader_hot_reload.set''],
        [(''enabled'', switch_param)]),
      ([''render_mode.toggle''], [(''mode'', choice_param render_modes)]),
      ([''player.inventory.add'', ''player.inventory.remove''],
        [(''record_id'', safe_param 256), (''count'', int_param 1 10000)]),
      ([''player.spell.add'', ''player.spell.remove''], [(''record_id'', safe_param 256)]),
      ([''player.stat.set''], [(''stat'', choice_param dynamic_stats), (''value'', number_param 0 1000000)]),
      ([''player.attribute.set''], [(''attribute'', choice_param attribute_names), (''value'', number_param 0 1000)]),
      ([''player.skill.set''], [(''skill'', choice_param skill_names), (''value'', number_param 0 1000)]),
      ([''player.level.set''], [(''value'', int_param 1 1000)]),
      ([''player.bounty.set''], [(''value'', int_param 0 1000000000)]),
      ([''player.scale.set'', ''target.scale.set''], [(''value'', number_param one_hundredth 100)]),
      ([''world.timescale.set''], [(''value'', number_param 0 10000)]),
      ([''world.time.advance''], [(''value'', number_param 0 8760)]),
      ([''player.teleport''],
        [(''cell'', safe_param 300), (''x'', number_param (-100000000) 100000000),
         (''y'', number_param (-100000000) 100000000), (''z'', number_param (-100000000) 100000000)]),
      ([''world.weather.set''], [(''region_id'', safe_param 128), (''weather'', choice_param weather_names)])]"

definition parameters_match :: "(string \<times> (debug_parameter \<Rightarrow> bool)) list \<Rightarrow> debug_parameters \<Rightarrow> bool" where
  "parameters_match contract p \<longleftrightarrow>
     dom p = fst ` set contract \<and> list_all (\<lambda>(k, ok). pred_option ok (p k)) contract"

definition command_within_contract :: "string \<Rightarrow> debug_parameters \<Rightarrow> bool" where
  "command_within_contract name p \<longleftrightarrow>
     (\<exists>(names, contract) \<in> set debug_contracts. name \<in> set names \<and> parameters_match contract p)"

section \<open>The language loop\<close>

lemma subtags_dash:
  "CHR ''-'' \<in> set s \<Longrightarrow>
   subtags s = takeWhile (\<lambda>c. c \<noteq> CHR ''-'') s # subtags (tl (dropWhile (\<lambda>c. c \<noteq> CHR ''-'') s))"
  by (subst subtags.simps) simp

lemma subtags_none: "CHR ''-'' \<notin> set s \<Longrightarrow> subtags s = [s]"
  by (subst subtags.simps) simp

lemma speech_tag_step:
  assumes "speech_tag first s" "s \<noteq> []"
  shows "2 \<le> length (takeWhile (\<lambda>c. c \<noteq> CHR ''-'') s)
    \<and> length (takeWhile (\<lambda>c. c \<noteq> CHR ''-'') s) \<le> (if first then 3 else 8)
    \<and> list_all (speech_tag_char first) (takeWhile (\<lambda>c. c \<noteq> CHR ''-'') s)
    \<and> (\<forall>further. dropWhile (\<lambda>c. c \<noteq> CHR ''-'') s = CHR ''-'' # further \<longrightarrow> further \<noteq> [] \<and> speech_tag False further)"
  using assms(1) unfolding speech_tag.simps [of first s] Let_def
  by (simp add: assms(2) not_less split: if_splits; intro allI impI; simp split: if_splits)

lemma speech_tag_subtags:
  "speech_tag first s \<Longrightarrow> s \<noteq> [] \<Longrightarrow>
   (if first then primary_subtag (hd (subtags s)) else further_subtag (hd (subtags s)))
   \<and> list_all further_subtag (tl (subtags s))"
proof (induction "length s" arbitrary: first s rule: less_induct)
  case less
  let ?part = "takeWhile (\<lambda>c. c \<noteq> CHR ''-'') s" and ?after = "dropWhile (\<lambda>c. c \<noteq> CHR ''-'') s"
  note step = speech_tag_step [OF less(2,3)]
  then have ok: "if first then primary_subtag ?part else further_subtag ?part"
    by (auto simp: primary_subtag_def further_subtag_def speech_tag_char_def list_all_iff is_alnum_def)
  show ?case
  proof (cases "CHR ''-'' \<in> set s")
    case False
    then have "?part = s" by (auto simp: takeWhile_eq_all_conv)
    with ok False show ?thesis by (cases first) (simp_all add: subtags_none)
  next
    case True
    then have "?after \<noteq> []" by (simp add: dropWhile_eq_Nil_conv)
    with hd_dropWhile [OF this] obtain further where after: "?after = CHR ''-'' # further"
      by (cases ?after) simp_all
    have "length ?after \<le> length s" by (rule length_dropWhile_le)
    with less(1) [of further False] step after
    have "further_subtag (hd (subtags further)) \<and> list_all further_subtag (tl (subtags further))" by simp
    moreover have "subtags further \<noteq> []" by (subst subtags.simps) simp
    ultimately have "list_all further_subtag (subtags further)"
      by (cases "subtags further") auto
    with ok after show ?thesis by (cases first) (simp_all add: subtags_dash [OF True])
  qed
qed

section \<open>Each group of commands\<close>

lemma no_unsafe_char:
  "\<not> list_ex unsafe_char s \<longleftrightarrow> set s \<inter> {CHR ''/'', CHR 0x5C, CHR 0x0D, CHR 0x0A, CHR 0x09} = {}"
  unfolding list_ex_iff unsafe_char_def by blast

lemma add_string_sound:
  assumes "add_string ps key bound parsed = Inr (s, q)"
  shows "q = parsed(key \<mapsto> Param_string s) \<and> safe_param bound (Param_string s)"
proof -
  from assms have "require_string ps key 1 bound = Inr s" "\<not> list_ex unsafe_char s" "q = parsed(key \<mapsto> Param_string s)"
    by (auto simp: add_string_def reader_iffs)
  then show ?thesis
    unfolding no_unsafe_char safe_param_def by (simp add: require_string_Inr_iff) fastforce
qed

lemma add_unsigned_sound:
  "add_unsigned ps key lo hi parsed = Inr q \<Longrightarrow>
   \<exists>v. q = parsed(key \<mapsto> v) \<and> int_param (int lo) (int hi) v"
  by (auto simp: add_unsigned_def reader_iffs require_unsigned_Inr_iff int_param_def)

lemma require_number_sound:
  assumes "require_number object key lo hi = Inr d"
  shows "\<exists>q. d = Finite q \<and> lo \<le> q \<and> q \<le> hi"
proof -
  have "is_finite d \<and> \<not> dbl_less d (Finite lo) \<and> \<not> dbl_less (Finite hi) d"
    using assms by (auto simp: require_number_def Let_def if_Inr_iff split: option.splits json.splits if_splits)
  then show ?thesis by (cases d) auto
qed

lemma add_number_sound:
  "add_number ps key lo hi parsed = Inr q \<Longrightarrow> \<exists>v. q = parsed(key \<mapsto> v) \<and> number_param lo hi v"
  by (auto simp: add_number_def reader_iffs number_param_def dest!: require_number_sound)

lemma named_parameters_sound:
  assumes "named_parameters ps mismatch key bound names complaint maximum = Inr p" "key \<noteq> ''value''"
  shows "parameters_match [(key, choice_param names), (''value'', number_param 0 maximum)] p"
proof -
  from assms(1) obtain selected parsed where
    "add_string ps key bound (\<lambda>_. None) = Inr (selected, parsed)" "selected \<in> set names"
    "add_number ps ''value'' 0 maximum parsed = Inr p"
    by (auto simp: named_parameters_def named_number_def reader_iffs)
  with add_string_sound [OF this(1)] add_number_sound [OF this(3)] assms(2) show ?thesis
    by (elim conjE exE, hypsubst) (simp add: parameters_match_def choice_param_def insert_commute)
qed

lemma npc_parameters_sound: "npc_parameters ps = Inr p \<Longrightarrow> parameters_match [(''actor'', physical_param)] p"
  by (auto simp: npc_parameters_def reader_iffs) (simp_all add: parameters_match_def physical_param_def)

lemma speech_parameters_sound:
  assumes "speech_parameters ps = Inr p"
  shows "parameters_match [(''text'', spoken_param), (''language'', language_param)] p"
proof -
  from assms obtain t language where facts: "require_string ps ''text'' 1 2048 = Inr t"
    "require_string ps ''language'' 2 16 = Inr language"
    "\<not> (list_all (\<lambda>c. c = CHR '' '') t \<or> list_ex (\<lambda>c. byte c < 0x20 \<or> byte c = 0x7F) t)"
    "speech_tag True language" "p = [''text'' \<mapsto> Param_string t, ''language'' \<mapsto> Param_string language]"
    by (auto simp: speech_parameters_def Let_def reader_iffs)
  from facts(2,4) speech_tag_subtags [of True language]
  have "language_param (Param_string language)"
    by (cases "language = []") (auto simp: language_param_def require_string_Inr_iff)
  moreover from facts(1,3) have "spoken_param (Param_string t)"
    by (auto simp: spoken_param_def require_string_Inr_iff list_all_iff list_ex_iff not_less)
  ultimately show ?thesis using facts(5) by (simp add: parameters_match_def insert_commute)
qed

lemma switch_parameters_sound: "switch_parameters ps = Inr p \<Longrightarrow> parameters_match [(''enabled'', switch_param)] p"
  by (auto simp: switch_parameters_def reader_iffs) (simp add: parameters_match_def switch_param_def)

lemma render_parameters_sound:
  "render_parameters ps = Inr p \<Longrightarrow> parameters_match [(''mode'', choice_param render_modes)] p"
  by (auto simp: render_parameters_def reader_iffs) (simp add: parameters_match_def choice_param_def)

lemma inventory_parameters_sound:
  assumes "inventory_parameters ps = Inr p"
  shows "parameters_match [(''record_id'', safe_param 256), (''count'', int_param 1 10000)] p"
proof -
  from assms obtain s q where "add_string ps ''record_id'' 256 (\<lambda>_. None) = Inr (s, q)"
    "add_unsigned ps ''count'' 1 10000 q = Inr p"
    by (auto simp: inventory_parameters_def reader_iffs)
  with add_string_sound [OF this(1)] add_unsigned_sound [OF this(2)] show ?thesis
    by (elim conjE exE, hypsubst) (simp add: parameters_match_def insert_commute)
qed

lemma spell_debug_parameters_sound:
  "spell_debug_parameters ps = Inr p \<Longrightarrow> parameters_match [(''record_id'', safe_param 256)] p"
  by (auto simp: spell_debug_parameters_def reader_iffs dest!: add_string_sound) (simp add: parameters_match_def)

lemma integer_parameters_sound:
  assumes "integer_parameters name ps = Inr p"
  shows "parameters_match [(''value'',
    if name = ''player.level.set'' then int_param 1 1000 else int_param 0 1000000000)] p"
  using assms by (auto simp: integer_parameters_def reader_iffs dest!: add_unsigned_sound) (simp_all add: parameters_match_def)

lemma numeric_parameters_sound:
  assumes "numeric_parameters name ps = Inr p"
  shows "parameters_match [(''value'', number_param (fst (numeric_bounds name)) (snd (numeric_bounds name)))] p"
  using assms by (auto simp: numeric_parameters_def reader_iffs dest!: add_number_sound) (simp add: parameters_match_def)

lemma teleport_parameters_sound:
  assumes "teleport_parameters ps = Inr p"
  shows "parameters_match [(''cell'', safe_param 300), (''x'', number_param (-100000000) 100000000),
    (''y'', number_param (-100000000) 100000000), (''z'', number_param (-100000000) 100000000)] p"
proof -
  from assms obtain s q x y where steps: "add_string ps ''cell'' 300 (\<lambda>_. None) = Inr (s, q)"
    "add_number ps ''x'' (-100000000) 100000000 q = Inr x" "add_number ps ''y'' (-100000000) 100000000 x = Inr y"
    "add_number ps ''z'' (-100000000) 100000000 y = Inr p"
    by (auto simp: teleport_parameters_def reader_iffs)
  from add_string_sound [OF steps(1)] add_number_sound [OF steps(2)] add_number_sound [OF steps(3)]
    add_number_sound [OF steps(4)] show ?thesis
    by (elim conjE exE, hypsubst) (simp add: parameters_match_def insert_commute)
qed

lemma weather_parameters_sound:
  assumes "weather_parameters ps = Inr p"
  shows "parameters_match [(''region_id'', safe_param 128), (''weather'', choice_param weather_names)] p"
proof -
  from assms obtain s q selected where steps: "add_string ps ''region_id'' 128 (\<lambda>_. None) = Inr (s, q)"
    "add_string ps ''weather'' 32 q = Inr (selected, p)" "selected \<in> set weather_names"
    by (auto simp: weather_parameters_def reader_iffs)
  from add_string_sound [OF steps(1)] add_string_sound [OF steps(2)] steps(3) show ?thesis
    by (elim conjE exE, hypsubst) (simp add: parameters_match_def choice_param_def insert_commute)
qed

section \<open>Commands\<close>

lemma contractI:
  "(names, contract) \<in> set debug_contracts \<Longrightarrow> name \<in> set names \<Longrightarrow> parameters_match contract p \<Longrightarrow>
   command_within_contract name p"
  unfolding command_within_contract_def by blast

definition scaled_group :: "string \<Rightarrow> string list" where
  "scaled_group name = (if name = ''player.scale.set'' then [''player.scale.set'', ''target.scale.set'']
     else if name = ''target.scale.set'' then [''player.scale.set'', ''target.scale.set''] else [name])"

lemma debug_parameters_of_sound:
  assumes "debug_parameters_of name ps = Inr p"
  shows "command_within_contract name p"
proof -
  note listed = debug_contracts_def npc_commands_def empty_commands_def switch_commands_def
  from assms [unfolded debug_parameters_of_def] show ?thesis
    apply (elim if_cases)
    subgoal by (rule contractI [OF _ _ npc_parameters_sound, of npc_commands]) (simp_all add: listed)
    subgoal by (rule contractI [OF _ _ speech_parameters_sound, of "[''player.dialogue.submit'']"]) (simp_all add: listed)
    subgoal by simp
    subgoal by (rule contractI [of empty_commands "[]"]) (auto simp: listed parameters_match_def)
    subgoal by (rule contractI [OF _ _ switch_parameters_sound, of switch_commands]) (simp_all add: listed)
    subgoal by (rule contractI [OF _ _ render_parameters_sound, of "[''render_mode.toggle'']"]) (simp_all add: listed)
    subgoal by (rule contractI [OF _ _ inventory_parameters_sound, of "[''player.inventory.add'', ''player.inventory.remove'']"])
        (simp_all add: listed)
    subgoal by (rule contractI [OF _ _ spell_debug_parameters_sound, of "[''player.spell.add'', ''player.spell.remove'']"])
        (simp_all add: listed)
    subgoal by (rule contractI [OF _ _ named_parameters_sound [where key = "''stat''"], of "[''player.stat.set'']"]) (simp_all add: listed)
    subgoal by (rule contractI [OF _ _ named_parameters_sound [where key = "''attribute''"], of "[''player.attribute.set'']"]) (simp_all add: listed)
    subgoal by (rule contractI [OF _ _ named_parameters_sound [where key = "''skill''"], of "[''player.skill.set'']"]) (simp_all add: listed)
    subgoal by (elim disjE; rule contractI [OF _ _ integer_parameters_sound, of "[name]"]) (simp_all add: listed)
    subgoal by (drule numeric_parameters_sound, elim disjE; rule contractI [where names = "scaled_group name"])
        (simp_all add: listed numeric_bounds_def scaled_group_def)
    subgoal by (rule contractI [OF _ _ teleport_parameters_sound, of "[''player.teleport'']"]) (simp_all add: listed)
    subgoal by (rule contractI [OF _ _ weather_parameters_sound, of "[''world.weather.set'']"]) (simp_all add: listed)
    subgoal by simp
    done
qed

lemma read_debug_command_sound:
  assumes "read_debug_command command = Inr c"
  shows "command_within_contract (dc_name c) (dc_parameters c) \<and> is_canonical_uuid (id_value (dc_command c))
    \<and> is_canonical_utc_timestamp (dc_expires_at c)"
proof (cases "json_object (the (json_find command ''parameters''))")
  case None
  with assms show ?thesis by (simp add: read_debug_command_def reader_iffs)
next
  case (Some parameters)
  note accepted = assms [unfolded read_debug_command_def Some option.case reader_iffs]
  then obtain i name expires parsed where
    "require_uuid command ''command_id'' = Inr i" "require_timestamp command ''expires_at'' = Inr expires"
    "debug_parameters_of name parameters = Inr parsed"
    and c: "Inr \<lparr>dc_command = StrongId i, dc_name = name, dc_parameters = parsed, dc_expires_at = expires\<rparr>
      = (Inr c :: debug_command result)"
    by (elim conjE exE) (rule that, assumption+)
  with debug_parameters_of_sound [OF this(3)] show ?thesis
    by (auto simp: require_uuid_Inr_iff require_timestamp_Inr_iff)
qed

text \<open>C39. An accepted debug command is one of the closed list, and its parameters are exactly those
  of its contract: no key more or less, an actor that is an NPC or a creature, numbers and
  integers within their range, names from their list, identifiers without path separators or
  line breaks, a spoken line that is not blank, and a language whose first subtag has two or
  three lowercase letters and whose further subtags have two to eight letters or digits.\<close>

theorem accepted_debug_command_within_contract:
  assumes "parse_debug_command_response body hs limits = Inr r" and "dcp_command r = Some c"
  shows "command_within_contract (dc_name c) (dc_parameters c) \<and> is_canonical_uuid (id_value (dc_command c))
    \<and> is_canonical_utc_timestamp (dc_expires_at c)"
proof -
  from assms(1) obtain object where "read_debug_command_response object = Inr r"
    by (auto simp: parse_debug_command_response_def and_then_Inr_iff)
  then obtain command where "read_debug_command command = Inr c"
    using assms(2) by (auto simp: read_debug_command_response_def Let_def reader_iffs split: if_splits option.splits)
  then show ?thesis by (rule read_debug_command_sound)
qed

definition sample_command :: string where
  "sample_command =
     ''{\"schema\":\"lorkhan.debug-command.v1\",\"message_id\":\"11111111-1111-4111-8111-111111111111\",'' @
     ''\"request_id\":\"22222222-1111-4111-8111-111111111111\",\"session_id\":\"33333333-1111-4111-8111-111111111111\",'' @
     ''\"generation\":4,\"command\":{\"command_id\":\"44444444-1111-4111-8111-111111111111\",'' @
     ''\"name\":\"player.inventory.add\",\"parameters\":{\"record_id\":\"iron dagger\",\"count\":2},'' @
     ''\"expires_at\":\"2026-01-02T03:04:06Z\"}}''"

theorem accepted_debug_command_within_contract_witness:
  "case parse_debug_command_response sample_command [(''Content-Type'', ''application/json; charset=utf-8'')] default_limits of
     Inl _ \<Rightarrow> False
   | Inr r \<Rightarrow> pred_option (\<lambda>c. command_within_contract (dc_name c) (dc_parameters c)) (dcp_command r) \<and> dcp_command r \<noteq> None"
proof -
  have "case parse_debug_command_response sample_command [(''Content-Type'', ''application/json; charset=utf-8'')] default_limits of
     Inl _ \<Rightarrow> False | Inr r \<Rightarrow> case dcp_command r of None \<Rightarrow> False | Some c \<Rightarrow> True" by code_simp
  then obtain r c where "parse_debug_command_response sample_command [(''Content-Type'', ''application/json; charset=utf-8'')] default_limits = Inr r"
    "dcp_command r = Some c" by (auto split: sum.splits option.splits)
  with accepted_debug_command_within_contract [OF this] show ?thesis by simp
qed

end
