(* ===== verification/Protocol_Payloads.thy ===== *)
theory Protocol_Payloads
  imports Protocol_Identity
begin

text \<open>
  The \<open>validate...Payload\<close> functions of \<open>protocol_response.cpp\<close>: closed, bounded game-data
  observations, checked before they may enter the transport queue. The set of reference pairs
  that detects duplicate witnesses is the list of the pairs inserted so far.
\<close>

definition valid_observation_calendar :: "json \<Rightarrow> bool" where
  "valid_observation_calendar v =
     (case json_object v of
        None \<Rightarrow> False
      | Some object \<Rightarrow>
          if \<not> has_exactly object [''year'', ''month'', ''day'', ''hour''] [] then False
          else
            case (require_unsigned object ''year'' 9999 1, require_unsigned object ''month'' 11 0,
                  require_unsigned object ''day'' 31 1, require_number object ''hour'' 0 24) of
              (Inr year, Inr month, Inr day, Inr hour) \<Rightarrow>
                calendar_valid \<lparr>cal_year = int year, cal_month = int month, cal_day = int day, cal_hour = hour\<rparr>
            | _ \<Rightarrow> False)"

definition calendar_ok :: "json_object \<Rightarrow> bool" where
  "calendar_ok object =
     (case json_find object ''calendar'' of None \<Rightarrow> True | Some calendar \<Rightarrow> valid_observation_calendar calendar)"

text \<open>\<open>!identity || identity.kind is not one of kinds\<close>, negated.\<close>

definition identity_of_kind :: "json \<Rightarrow> string list \<Rightarrow> bool" where
  "identity_of_kind v kinds = (case parse_identity v of Inl _ \<Rightarrow> False | Inr i \<Rightarrow> pid_kind i \<in> set kinds)"

definition physical_kinds :: "string list" where
  "physical_kinds = [''player'', ''npc'', ''creature'']"

definition reference_of :: "protocol_identity \<Rightarrow> nat \<times> nat" where
  "reference_of i = (pid_refnum_content_file i, pid_refnum_index i)"

text \<open>The loop over an audience: every entry an identity of an admitted kind, no reference twice.\<close>

fun audience_walk :: "string list \<Rightarrow> string \<Rightarrow> string \<Rightarrow> (nat \<times> nat) list \<Rightarrow> json list \<Rightarrow> unit result" where
  "audience_walk kinds bad_kind twice references [] = Inr ()"
| "audience_walk kinds bad_kind twice references (v # vs) =
     (case parse_identity v of
        Inl _ \<Rightarrow> invalid_schema bad_kind
      | Inr actor \<Rightarrow>
          if pid_kind actor \<notin> set kinds then invalid_schema bad_kind
          else if reference_of actor \<in> set references then invalid_schema twice
          else audience_walk kinds bad_kind twice (references @ [reference_of actor]) vs)"

definition check_audience :: "json \<Rightarrow> string list \<Rightarrow> string \<Rightarrow> string \<Rightarrow> string \<Rightarrow> unit result" where
  "check_audience v kinds too_long bad_kind twice =
     (case json_array v of
        None \<Rightarrow> invalid_schema too_long
      | Some audience \<Rightarrow>
          if 12 < length audience then invalid_schema too_long
          else audience_walk kinds bad_kind twice [] audience)"

definition game_time_ok :: "json_object \<Rightarrow> bool" where
  "game_time_ok object = is_ok (require_number object ''game_time'' 0 9007199254740991)"

definition optional_audience :: "json_object \<Rightarrow> string \<Rightarrow> string \<Rightarrow> string \<Rightarrow> unit result" where
  "optional_audience object too_long bad_kind twice =
     (case json_find object ''audience'' of
        None \<Rightarrow> Inr () | Some v \<Rightarrow> check_audience v physical_kinds too_long bad_kind twice)"

section \<open>Item pickups\<close>

definition pickup_source_ok :: "json \<Rightarrow> bool" where
  "pickup_source_ok v =
     (case json_object v of
        None \<Rightarrow> False
      | Some source \<Rightarrow>
          has_exactly source [''record_id'', ''display_name''] []
          \<and> is_ok (require_string source ''record_id'' 1 256) \<and> is_ok (require_string source ''display_name'' 1 256))"

definition validate_item_pickup :: "json \<Rightarrow> unit result" where
  "validate_item_pickup v =
     (case json_object v of
        None \<Rightarrow> invalid_schema ''item pickup fields mismatch''
      | Some object \<Rightarrow>
          if \<not> has_exactly object
               [''player'', ''item_record_id'', ''item_name'', ''count'', ''unit_value'', ''game_time'', ''source_kind'']
               [''source'', ''audience'', ''calendar'']
          then invalid_schema ''item pickup fields mismatch''
          else if \<not> calendar_ok object then invalid_schema ''observation calendar is invalid''
          else if \<not> identity_of_kind (the (json_find object ''player'')) [''player'']
          then invalid_schema ''item pickup requires player identity''
          else
            field_or (require_string object ''source_kind'' 1 16)
              (\<lambda>kind. kind \<in> {''world'', ''container'', ''actor''}) ''item pickup source kind is invalid'' (\<lambda>kind.
            if \<not> is_ok (require_string object ''item_record_id'' 1 256)
               \<or> \<not> is_ok (require_string object ''item_name'' 1 256)
               \<or> \<not> is_ok (require_unsigned object ''count'' 2147483647 1)
               \<or> \<not> is_ok (require_unsigned object ''unit_value'' 2147483647 0)
               \<or> \<not> game_time_ok object
            then invalid_schema ''item pickup values exceed bounds''
            else if (case json_find object ''source'' of None \<Rightarrow> False | Some s \<Rightarrow> \<not> pickup_source_ok s)
            then invalid_schema ''item pickup source descriptor is invalid''
            else
              optional_audience object ''item pickup audience exceeds bounds''
                ''item pickup audience identity is invalid or duplicated''
                ''item pickup audience identity is invalid or duplicated''))"

definition validate_item_pickup_payload :: "string \<Rightarrow> parse_limits \<Rightarrow> unit result" where
  "validate_item_pickup_payload body limits = and_then (parse_json body limits) validate_item_pickup"

section \<open>Spell casts\<close>

definition validate_spell_cast :: "json \<Rightarrow> unit result" where
  "validate_spell_cast v =
     (case json_object v of
        None \<Rightarrow> invalid_schema ''spell cast fields mismatch''
      | Some object \<Rightarrow>
          if \<not> has_exactly object [''caster'', ''spell_id'', ''spell_name'', ''game_time'']
               [''target'', ''audience'', ''calendar'']
          then invalid_schema ''spell cast fields mismatch''
          else if \<not> calendar_ok object then invalid_schema ''observation calendar is invalid''
          else if \<not> identity_of_kind (the (json_find object ''caster'')) physical_kinds
          then invalid_schema ''spell caster must be a physical actor''
          else if (case json_find object ''target'' of
                     None \<Rightarrow> False | Some target \<Rightarrow> \<not> identity_of_kind target physical_kinds)
          then invalid_schema ''spell cast target must be a physical actor''
          else
            and_then (optional_audience object ''spell audience exceeds bounds''
                ''spell audience must contain physical actors''
                ''spell audience contains a duplicate actor reference'') (\<lambda>_.
            if \<not> is_ok (require_string object ''spell_id'' 1 256)
               \<or> \<not> is_ok (require_string object ''spell_name'' 1 256) \<or> \<not> game_time_ok object
            then invalid_schema ''spell cast values exceed bounds'' else Inr ()))"

definition validate_spell_cast_payload :: "string \<Rightarrow> parse_limits \<Rightarrow> unit result" where
  "validate_spell_cast_payload body limits = and_then (parse_json body limits) validate_spell_cast"

section \<open>Resurrections\<close>

definition validate_actor_resurrected :: "json \<Rightarrow> unit result" where
  "validate_actor_resurrected v =
     (case json_object v of
        None \<Rightarrow> invalid_schema ''resurrection fields mismatch''
      | Some object \<Rightarrow>
          if \<not> has_exactly object [''actor'', ''audience'', ''game_time''] [''calendar'']
          then invalid_schema ''resurrection fields mismatch''
          else if \<not> identity_of_kind (the (json_find object ''actor'')) physical_kinds
          then invalid_schema ''invalid resurrection actor''
          else if \<not> game_time_ok object then invalid_schema ''invalid resurrection time''
          else if \<not> calendar_ok object then invalid_schema ''invalid resurrection calendar''
          else
            check_audience (the (json_find object ''audience'')) [''npc'', ''creature'']
              ''invalid resurrection audience'' ''invalid resurrection witness'' ''invalid resurrection witness'')"

definition validate_actor_resurrected_payload :: "string \<Rightarrow> parse_limits \<Rightarrow> unit result" where
  "validate_actor_resurrected_payload body limits = and_then (parse_json body limits) validate_actor_resurrected"

section \<open>Dispositions\<close>

definition validate_disposition :: "json \<Rightarrow> unit result" where
  "validate_disposition v =
     (case json_object v of
        None \<Rightarrow> invalid_schema ''disposition fields mismatch''
      | Some object \<Rightarrow>
          if \<not> has_exactly object [''actor'', ''player'', ''base_disposition'', ''disposition'', ''dialogue_open'']
               [''adjustment_id'', ''status'']
          then invalid_schema ''disposition fields mismatch''
          else if \<not> identity_of_kind (the (json_find object ''actor'')) [''npc'']
             \<or> \<not> identity_of_kind (the (json_find object ''player'')) [''player'']
             \<or> \<not> is_ok (require_unsigned object ''disposition'' 100 0)
             \<or> \<not> is_ok (require_boolean object ''dialogue_open'')
             \<or> (case json_integer (the (json_find object ''base_disposition'')) of
                  None \<Rightarrow> True | Some base_value \<Rightarrow> base_value < - (2 ^ 31) \<or> 2 ^ 31 - 1 < base_value)
          then invalid_schema ''disposition values mismatch''
          else if json_find object ''adjustment_id'' \<noteq> None \<or> json_find object ''status'' \<noteq> None
          then
            if \<not> is_ok (require_uuid object ''adjustment_id'')
               \<or> (case require_text object ''status'' of
                    Inl _ \<Rightarrow> True | Inr status \<Rightarrow> status \<noteq> ''applied'' \<and> status \<noteq> ''rejected'')
            then invalid_schema ''disposition acknowledgement mismatch'' else Inr ()
          else Inr ())"

definition validate_disposition_payload :: "string \<Rightarrow> parse_limits \<Rightarrow> unit result" where
  "validate_disposition_payload body limits = and_then (parse_json body limits) validate_disposition"

section \<open>Inventories\<close>

text \<open>\<open>condition->number()\<close> and \<open>condition->integer()\<close> see a double and an integer respectively.\<close>

definition condition_ok :: "json \<Rightarrow> bool" where
  "condition_ok v =
     (case v of
        JDouble d \<Rightarrow> \<not> (\<not> is_finite d \<or> dbl_less d (Finite 0) \<or> dbl_less (Finite 1) d)
      | JInt i \<Rightarrow> \<not> (i < 0 \<or> 1 < i)
      | _ \<Rightarrow> False)"

definition validate_item :: "json \<Rightarrow> unit result" where
  "validate_item v =
     (case json_object v of
        None \<Rightarrow> invalid_schema ''inventory item fields mismatch''
      | Some item \<Rightarrow>
          if \<not> has_exactly item [''record_id'', ''name'', ''count'', ''value'', ''equipped'']
               [''condition'', ''content_file'']
          then invalid_schema ''inventory item fields mismatch''
          else if \<not> is_ok (require_string item ''record_id'' 1 256)
             \<or> \<not> is_ok (require_string item ''name'' 1 256)
             \<or> \<not> is_ok (require_unsigned item ''count'' 2147483647 1)
             \<or> \<not> is_ok (require_unsigned item ''value'' 2147483647 0)
             \<or> \<not> is_ok (require_boolean item ''equipped'')
          then invalid_schema ''inventory item values exceed bounds''
          else if json_find item ''content_file'' \<noteq> None \<and> \<not> is_ok (require_string item ''content_file'' 1 256)
          then invalid_schema ''inventory item content file is invalid''
          else if (case json_find item ''condition'' of None \<Rightarrow> False | Some c \<Rightarrow> \<not> condition_ok c)
          then invalid_schema ''inventory condition is outside 0..1''
          else Inr ())"

fun validate_items :: "json list \<Rightarrow> unit result" where
  "validate_items [] = Inr ()"
| "validate_items (v # vs) = and_then (validate_item v) (\<lambda>_. validate_items vs)"

definition validate_inventory :: "json \<Rightarrow> unit result" where
  "validate_inventory v =
     (case json_object v of
        None \<Rightarrow> invalid_schema ''inventory fields mismatch''
      | Some object \<Rightarrow>
          if \<not> has_exactly object [''owner'', ''items''] [] then invalid_schema ''inventory fields mismatch''
          else if \<not> identity_of_kind (the (json_find object ''owner'')) physical_kinds
          then invalid_schema ''inventory owner must be a physical actor''
          else
            (case json_array (the (json_find object ''items'')) of
               None \<Rightarrow> invalid_schema ''inventory item count exceeds bounds''
             | Some items \<Rightarrow>
                 if 512 < length items then invalid_schema ''inventory item count exceeds bounds''
                 else validate_items items))"

definition validate_inventory_payload :: "string \<Rightarrow> parse_limits \<Rightarrow> unit result" where
  "validate_inventory_payload body limits = and_then (parse_json body limits) validate_inventory"

section \<open>Witnesses are counted once\<close>

lemma audience_walk_iff:
  "audience_walk kinds bad_kind twice references vs = Inr () \<longleftrightarrow>
     (\<exists>actors. map parse_identity vs = map Inr actors \<and> (\<forall>a \<in> set actors. pid_kind a \<in> set kinds)
       \<and> distinct (map reference_of actors) \<and> set (map reference_of actors) \<inter> set references = {})"
proof (induction vs arbitrary: references)
  case (Cons v vs)
  show ?case
  proof (cases "parse_identity v")
    case (Inl e)
    then show ?thesis by (auto simp: Cons_eq_map_conv)
  next
    case (Inr actor)
    have "(\<exists>actors. Inr actor # map parse_identity vs = map Inr actors \<and> P actors)
        \<longleftrightarrow> (\<exists>actors. map parse_identity vs = map Inr actors \<and> P (actor # actors))" for P
      by (auto simp: Cons_eq_map_conv)
    then show ?thesis
      by (simp add: Inr Cons.IH) blast
  qed
qed simp

definition audience_distinct :: "string list \<Rightarrow> json_object \<Rightarrow> bool" where
  "audience_distinct kinds object \<longleftrightarrow>
     (case json_find object ''audience'' of
        None \<Rightarrow> True
      | Some v \<Rightarrow>
          (\<exists>vs actors. json_array v = Some vs \<and> length vs \<le> 12 \<and> map parse_identity vs = map Inr actors
             \<and> distinct (map reference_of actors) \<and> list_all (\<lambda>a. pid_kind a \<in> set kinds) actors))"

lemma check_audience_distinct:
  "check_audience v kinds too_long bad_kind twice = Inr () \<Longrightarrow> json_find object ''audience'' = Some v \<Longrightarrow>
     audience_distinct kinds object"
  by (auto simp: check_audience_def audience_distinct_def audience_walk_iff list_all_iff
      split: option.splits if_splits)

lemma optional_audience_distinct:
  "optional_audience object too_long bad_kind twice = Inr () \<Longrightarrow> audience_distinct physical_kinds object"
  by (cases "json_find object ''audience''")
    (auto simp: optional_audience_def audience_distinct_def dest: check_audience_distinct)

lemma item_pickup_audience:
  assumes "validate_item_pickup v = Inr ()"
  shows "\<exists>object. json_object v = Some object \<and> audience_distinct physical_kinds object"
proof -
  from assms obtain object where object: "json_object v = Some object"
    by (cases "json_object v") (simp_all add: validate_item_pickup_def)
  from assms obtain too_long bad_kind twice where "optional_audience object too_long bad_kind twice = Inr ()"
    unfolding validate_item_pickup_def object option.case if_Inr_iff field_or_Inr_iff by blast
  with object optional_audience_distinct show ?thesis by blast
qed

lemma spell_cast_audience:
  assumes "validate_spell_cast v = Inr ()"
  shows "\<exists>object. json_object v = Some object \<and> audience_distinct physical_kinds object"
proof -
  from assms obtain object where object: "json_object v = Some object"
    by (cases "json_object v") (simp_all add: validate_spell_cast_def)
  from assms obtain too_long bad_kind twice r where "optional_audience object too_long bad_kind twice = Inr r"
    unfolding validate_spell_cast_def object option.case if_Inr_iff and_then_Inr_iff by blast
  with object optional_audience_distinct show ?thesis by auto
qed

lemma resurrection_audience:
  "validate_actor_resurrected v = Inr () \<Longrightarrow>
     \<exists>object. json_object v = Some object \<and> json_find object ''audience'' \<noteq> None
       \<and> audience_distinct [''npc'', ''creature''] object"
proof -
  assume accepted: "validate_actor_resurrected v = Inr ()"
  then obtain object where object: "json_object v = Some object"
    by (cases "json_object v") (simp_all add: validate_actor_resurrected_def)
  from accepted have "has_exactly object [''actor'', ''audience'', ''game_time''] [''calendar'']"
    and audience: "check_audience (the (json_find object ''audience'')) [''npc'', ''creature'']
      ''invalid resurrection audience'' ''invalid resurrection witness'' ''invalid resurrection witness'' = Inr ()"
    unfolding validate_actor_resurrected_def object option.case if_Inr_iff by simp_all
  then have "json_find object ''audience'' \<noteq> None"
    by (simp add: has_exactly_def split: if_splits)
  with audience object show ?thesis
    using check_audience_distinct by fastforce
qed

text \<open>An observation names each witness at most once: a payload accepted as a spell cast, an
  item pickup or a resurrection has an audience of at most twelve well-formed identities, no two
  of which refer to the same placed object; in a resurrection the witnesses are never the
  player.\<close>

theorem accepted_audience_distinct:
  "(validate_spell_cast_payload body limits = Inr () \<or> validate_item_pickup_payload body limits = Inr () \<longrightarrow>
      (\<exists>v object. parse_json body limits = Inr v \<and> json_object v = Some object
         \<and> audience_distinct physical_kinds object))
   \<and> (validate_actor_resurrected_payload body limits = Inr () \<longrightarrow>
      (\<exists>v object. parse_json body limits = Inr v \<and> json_object v = Some object
         \<and> json_find object ''audience'' \<noteq> None \<and> audience_distinct [''npc'', ''creature''] object))"
  unfolding validate_spell_cast_payload_def validate_item_pickup_payload_def
    validate_actor_resurrected_payload_def and_then_Inr_iff
  using spell_cast_audience item_pickup_audience resurrection_audience by blast

definition sample_resurrection :: string where
  "sample_resurrection =
     ''{\"actor\":{\"kind\":\"npc\",\"record_id\":\"fargoth\",\"refnum\":{\"index\":7,\"content_file\":0},\"content_file\":\"morrowind.esm\",\"cell\":{\"kind\":\"interior\",\"name\":\"Arrille\"},\"display_name\":\"Fargoth\"},\"audience\":[],\"game_time\":0}''"

theorem accepted_audience_distinct_witness:
  "\<exists>v object. parse_json sample_resurrection default_limits = Inr v \<and> json_object v = Some object
     \<and> json_find object ''audience'' \<noteq> None \<and> audience_distinct [''npc'', ''creature''] object"
proof -
  have "validate_actor_resurrected_payload sample_resurrection default_limits = Inr ()" by code_simp
  with accepted_audience_distinct [of sample_resurrection default_limits] show ?thesis by blast
qed

end
