(* ===== verification/Bridge_Requests.thy ===== *)
theory Bridge_Requests
  imports Protocol_Payloads Protocol_Canonical Media
begin

text \<open>
  \<open>BridgeService::validateRequest\<close>: what the engine thread must supply before a request may enter
  the outbound queue. The payload is one alternative of a variant, so the sequence of
  \<open>std::get_if\<close> blocks is one case distinction; the two checks that follow all blocks
  (\<open>validate_contents\<close>) come after it, as in the code. \<open>now\<close> is \<open>m_clock->systemNow()\<close> and
  \<open>current\<close> the generation counter.
\<close>

definition valid_id :: "'t strong_id \<Rightarrow> bool" where
  "valid_id i \<longleftrightarrow> is_canonical_uuid (id_value i)"

definition bad_argument :: "string \<Rightarrow> 'a result" where
  "bad_argument message = Inl (simple_error EC_invalid_argument message)"

definition valid_envelope :: "envelope_ids \<Rightarrow> bool \<Rightarrow> bool" where
  "valid_envelope ids session_required \<longleftrightarrow>
     valid_id (env_installation ids) \<and> is_profile_id (id_value (env_profile ids)) \<and> valid_id (env_playthrough ids)
     \<and> (\<not> session_required \<or> valid_id (env_session ids))
     \<and> (session_required \<or> id_empty (env_session ids) \<or> valid_id (env_session ids))
     \<and> valid_id (env_request ids) \<and> valid_id (env_turn ids) \<and> valid_id (env_message ids)"

definition envelope_matches :: "outbound_request \<Rightarrow> envelope_ids \<Rightarrow> bool" where
  "envelope_matches r ids \<longleftrightarrow>
     env_request ids = out_id r \<and> env_generation ids = out_generation r
     \<and> (id_empty (out_session r) \<or> env_session ids = out_session r)"

fun payload_kind :: "request_payload \<Rightarrow> request_kind" where
  "payload_kind HealthRequest = RK_health"
| "payload_kind (InitRequest _) = RK_init"
| "payload_kind (TurnRequest _) = RK_turn"
| "payload_kind (EventPollRequest _) = RK_event_poll"
| "payload_kind (InterruptionRequest _) = RK_interruption"
| "payload_kind (ActionResultRequest _) = RK_action_result"
| "payload_kind (DialogueDeliveryResultRequest _) = RK_dialogue_delivery_result"
| "payload_kind (SessionEndRequest _) = RK_session_end"
| "payload_kind (SttRequest _) = RK_stt"
| "payload_kind (ControlsQueryRequest _) = RK_controls_query"
| "payload_kind (ControlsSelectRequest _) = RK_controls_select"
| "payload_kind (DebugCommandQueryRequest _) = RK_debug_command_query"
| "payload_kind (DebugCommandResultRequest _) = RK_debug_command_result"
| "payload_kind (DiaryBookQueryRequest _) = RK_diary_book_query"
| "payload_kind (DiaryBookResultRequest _) = RK_diary_book_result"
| "payload_kind (MenuDialogueTtsRequest _) = RK_menu_dialogue_tts"
| "payload_kind (PlayerAutochatRequest _) = RK_player_autochat"
| "payload_kind (BookReadAloudRequest _) = RK_book_read_aloud"
| "payload_kind (GameDataRequest _) = RK_gamedata"
| "payload_kind (MediaPrepareRequest _) = RK_media"

text \<open>A correlation that must name this very request, and one that names an earlier request of
  the same session and generation.\<close>

definition own_correlation :: "outbound_request \<Rightarrow> MessageId \<Rightarrow> request_correlation \<Rightarrow> bool" where
  "own_correlation r message c \<longleftrightarrow>
     valid_id message \<and> valid_id (corr_request c) \<and> valid_id (corr_session c)
     \<and> corr_request c = out_id r \<and> corr_session c = out_session r \<and> corr_generation c = out_generation r"

definition session_correlation :: "outbound_request \<Rightarrow> MessageId \<Rightarrow> request_correlation \<Rightarrow> bool" where
  "session_correlation r message c \<longleftrightarrow>
     valid_id message \<and> valid_id (corr_request c) \<and> valid_id (corr_session c)
     \<and> corr_session c = out_session r \<and> corr_generation c = out_generation r"

definition reason_code_tail :: "char \<Rightarrow> bool" where
  "reason_code_tail c \<longleftrightarrow> is_lower c \<or> is_digit c \<or> c = CHR ''_''"

definition reason_code_ok :: "string \<Rightarrow> bool" where
  "reason_code_ok s \<longleftrightarrow>
     s \<noteq> [] \<and> length s \<le> 128 \<and> is_lower (hd s) \<and> list_all reason_code_tail (tl s)"

definition require_identity :: "string \<Rightarrow> unit result" where
  "require_identity serialized = and_then (parse_protocol_identity serialized default_limits) (\<lambda>_. Inr ())"

section \<open>The payload blocks\<close>

definition check_init :: "outbound_request \<Rightarrow> init_request \<Rightarrow> unit result" where
  "check_init r i =
     (if (init_character_id i \<noteq> None) \<noteq> (init_character_binding i \<noteq> None)
         \<or> (init_character_id i \<noteq> None
            \<and> (\<not> is_canonical_uuid (the (init_character_id i))
               \<or> (the (init_character_binding i) \<noteq> ''new'' \<and> the (init_character_binding i) \<noteq> ''existing'')))
      then bad_argument ''invalid saved character binding''
      else if (case init_loaded_calendar i of
                 None \<Rightarrow> False | Some c \<Rightarrow> \<not> init_loaded_save i \<or> \<not> calendar_valid c)
      then bad_argument ''invalid loaded-save calendar''
      else if \<not> valid_id (env_profile (init_ids i)) \<or> \<not> valid_envelope (init_ids i) False
         \<or> \<not> envelope_matches r (init_ids i)
      then bad_argument ''init envelope contains malformed or inconsistent IDs''
      else Inr ())"

definition check_turn :: "outbound_request \<Rightarrow> turn_request \<Rightarrow> unit result" where
  "check_turn r t =
     (if \<not> valid_envelope (turn_ids t) True \<or> \<not> envelope_matches r (turn_ids t)
      then bad_argument ''turn envelope contains malformed or inconsistent IDs'' else Inr ())"

definition check_stt :: "outbound_request \<Rightarrow> stt_request \<Rightarrow> unit result" where
  "check_stt r s =
     (if \<not> valid_envelope (stt_ids s) True \<or> \<not> envelope_matches r (stt_ids s)
      then bad_argument ''STT envelope contains malformed or inconsistent IDs'' else Inr ())"

definition check_media :: "int \<Rightarrow> outbound_request \<Rightarrow> media_prepare_request \<Rightarrow> unit result" where
  "check_media now r m =
     (let c = mp_correlation m in
      if \<not> valid_id (corr_request c) \<or> \<not> valid_id (corr_session c) \<or> corr_request c \<noteq> out_id r
         \<or> corr_session c \<noteq> out_session r \<or> corr_generation c \<noteq> out_generation r
      then bad_argument ''media correlation contains malformed or inconsistent IDs''
      else validate_media_descriptor (mp_descriptor m) default_cache_policy now)"

definition check_event_poll :: "outbound_request \<Rightarrow> event_poll_request \<Rightarrow> unit result" where
  "check_event_poll r p =
     (if \<not> valid_id (poll_session p) \<or> poll_session p \<noteq> out_session r
         \<or> poll_generation p \<noteq> out_generation r \<or> 15000 < poll_wait_ms p
      then bad_argument ''event-poll correlation or wait is invalid'' else Inr ())"

definition check_interruption :: "outbound_request \<Rightarrow> interruption_request \<Rightarrow> unit result" where
  "check_interruption r i =
     (if \<not> valid_id (intr_message i) \<or> \<not> valid_id (intr_request i) \<or> \<not> valid_id (intr_turn i)
         \<or> \<not> valid_id (intr_session i) \<or> intr_session i \<noteq> out_session r \<or> intr_generation i \<noteq> out_generation r
      then bad_argument ''interruption correlation contains malformed or inconsistent IDs'' else Inr ())"

definition check_action_result :: "outbound_request \<Rightarrow> action_result_request \<Rightarrow> unit result" where
  "check_action_result r a =
     (if \<not> session_correlation r (ar_message a) (ar_correlation a) \<or> \<not> valid_id (ar_action a) \<or> \<not> valid_id (ar_turn a)
      then bad_argument ''action-result correlation contains malformed or inconsistent IDs'' else Inr ())"

definition check_delivery :: "outbound_request \<Rightarrow> dialogue_delivery_result_request \<Rightarrow> unit result" where
  "check_delivery r d =
     (if \<not> session_correlation r (dd_message d) (dd_correlation d) \<or> \<not> valid_id (dd_dialogue_message d)
         \<or> \<not> valid_id (dd_turn d)
      then bad_argument ''dialogue-delivery correlation contains malformed or inconsistent IDs''
      else and_then (require_identity (dd_serialized_speaker d)) (\<lambda>_.
        if \<not> reason_code_ok (dd_reason_code d)
        then bad_argument ''dialogue-delivery reason code is outside the closed contract''
        else if \<not> is_canonical_utc_timestamp (dd_completed_at d)
        then bad_argument ''dialogue-delivery completion time is not a canonical UTC timestamp''
        else Inr ()))"

definition check_session_end :: "outbound_request \<Rightarrow> session_end_request \<Rightarrow> unit result" where
  "check_session_end r e =
     (if \<not> valid_id (end_request e) \<or> \<not> valid_id (end_session e) \<or> end_request e \<noteq> out_id r
         \<or> end_session e \<noteq> out_session r \<or> end_generation e \<noteq> out_generation r
      then bad_argument ''session-end correlation contains malformed or inconsistent IDs'' else Inr ())"

definition check_controls_query :: "outbound_request \<Rightarrow> controls_query_request \<Rightarrow> unit result" where
  "check_controls_query r c =
     (if \<not> own_correlation r (cq_message c) (cq_correlation c)
      then bad_argument ''controls-query correlation contains malformed or inconsistent IDs''
      else require_identity (cq_serialized_target c))"

definition setting_key_char :: "char \<Rightarrow> bool" where
  "setting_key_char c \<longleftrightarrow> is_lower c \<or> is_digit c \<or> c = CHR ''_'' \<or> c = CHR ''.''"

definition setting_ok :: "setting_selection \<Rightarrow> bool" where
  "setting_ok s \<longleftrightarrow>
     set_scope s \<in> {''global'', ''core_profile'', ''npc''}
     \<and> set_key s \<noteq> [] \<and> length (set_key s) \<le> 128 \<and> length (set_change_token s) = 64
     \<and> list_all is_lower_hex (set_change_token s) \<and> list_all setting_key_char (set_key s)
     \<and> is_ok (require_valid_utf8 (set_value s) 512)"

definition check_setting :: "controls_select_request \<Rightarrow> unit result" where
  "check_setting c =
     (if cs_kind c = SC_setting
      then
        if cs_setting c = None \<or> cs_selection_id c \<noteq> None \<or> cs_selection_key c \<noteq> None
        then bad_argument ''setting selection is invalid''
        else if \<not> setting_ok (the (cs_setting c)) then bad_argument ''setting is outside the closed contract''
        else Inr ()
      else if cs_setting c \<noteq> None then bad_argument ''unexpected setting'' else Inr ())"

definition selection_ok :: "controls_select_request \<Rightarrow> bool" where
  "selection_ok c \<longleftrightarrow>
     (if cs_kind c = SC_model_slot
      then cs_selection_id c = None
        \<and> (case cs_selection_key c of
             None \<Rightarrow> False | Some key \<Rightarrow> key \<in> {''standard'', ''fast'', ''powerful'', ''experimental''})
      else cs_selection_key c = None
        \<and> (case cs_selection_id c of
             None \<Rightarrow> True
           | Some i \<Rightarrow> if cs_kind c = SC_narrator_profile_generate then is_canonical_uuid i else is_profile_id i))"

definition check_controls_select :: "outbound_request \<Rightarrow> controls_select_request \<Rightarrow> unit result" where
  "check_controls_select r c =
     and_then (check_setting c) (\<lambda>_.
       if \<not> own_correlation r (cs_message c) (cs_correlation c) \<or> \<not> selection_ok c
          \<or> \<not> is_canonical_utc_timestamp (cs_created_at c)
       then bad_argument ''controls-select correlation or selection is invalid''
       else require_identity (cs_serialized_target c))"

definition check_diary_query :: "outbound_request \<Rightarrow> diary_book_query_request \<Rightarrow> unit result" where
  "check_diary_query r d =
     (if \<not> own_correlation r (dbq_message d) (dbq_correlation d)
      then bad_argument ''diary-book query correlation is invalid'' else Inr ())"

definition diary_failures :: "string list" where
  "diary_failures = [''target_unavailable'', ''target_mismatch'', ''book_unavailable'', ''record_creation_failed'',
     ''inventory_update_failed'', ''invalid_payload'']"

definition check_diary_result :: "outbound_request \<Rightarrow> diary_book_result_request \<Rightarrow> unit result" where
  "check_diary_result r d =
     (if \<not> own_correlation r (dbr_message d) (dbr_correlation d) \<or> \<not> valid_id (dbr_delivery d)
         \<or> \<not> is_canonical_utc_timestamp (dbr_completed_at d) \<or> 128 < length (dbr_reason_code d)
      then bad_argument ''diary-book result correlation is invalid''
      else if \<not> valid_id (dbr_book d) \<or> \<not> is_lowercase_hash (dbr_content_hash d)
         \<or> dbr_status d = DCS_rejected
         \<or> (dbr_status d = DCS_failed \<and> dbr_reason_code d \<notin> set diary_failures)
         \<or> (dbr_status d = DCS_succeeded \<and> dbr_reason_code d \<noteq> [])
      then bad_argument ''invalid diary receipt'' else Inr ())"

definition check_debug_query :: "outbound_request \<Rightarrow> debug_command_query_request \<Rightarrow> unit result" where
  "check_debug_query r d =
     (if \<not> own_correlation r (dcq_message d) (dcq_correlation d)
      then bad_argument ''debug-command query correlation is invalid'' else Inr ())"

definition check_debug_result :: "outbound_request \<Rightarrow> debug_command_result_request \<Rightarrow> unit result" where
  "check_debug_result r d =
     (if \<not> own_correlation r (dcr_message d) (dcr_correlation d) \<or> \<not> valid_id (dcr_command d)
         \<or> \<not> is_canonical_utc_timestamp (dcr_completed_at d) \<or> dcr_reason_code d = []
         \<or> 128 < length (dcr_reason_code d)
      then bad_argument ''debug-command result correlation is invalid''
      else if \<not> is_lower (hd (dcr_reason_code d)) \<or> \<not> list_all reason_code_tail (tl (dcr_reason_code d))
      then bad_argument ''debug-command reason code is invalid'' else Inr ())"

definition check_menu_tts :: "outbound_request \<Rightarrow> menu_dialogue_tts_request \<Rightarrow> unit result" where
  "check_menu_tts r m =
     (if \<not> own_correlation r (mt_message m) (mt_correlation m) \<or> \<not> is_canonical_utc_timestamp (mt_created_at m)
      then bad_argument ''menu dialogue TTS correlation is invalid''
      else and_then (require_identity (mt_serialized_actor m)) (\<lambda>_.
        if \<not> is_ok (require_valid_utf8 (mt_text m) (16 * 1024)) \<or> mt_text m = []
        then bad_argument ''menu dialogue TTS text is outside the closed contract'' else Inr ()))"

definition check_book :: "outbound_request \<Rightarrow> book_read_aloud_request \<Rightarrow> unit result" where
  "check_book r b =
     (if \<not> own_correlation r (bk_message b) (bk_correlation b) \<or> \<not> is_canonical_utc_timestamp (bk_created_at b)
         \<or> bk_book_id b = [] \<or> bk_text b = [] \<or> \<not> is_ok (require_valid_utf8 (bk_book_id b) 512)
         \<or> \<not> is_ok (require_valid_utf8 (bk_title b) 512) \<or> \<not> is_ok (require_valid_utf8 (bk_text b) 4096)
      then bad_argument ''book read-aloud is outside the closed contract'' else Inr ())"

definition check_autochat :: "outbound_request \<Rightarrow> player_autochat_request \<Rightarrow> unit result" where
  "check_autochat r p =
     (if \<not> own_correlation r (pa_message p) (pa_correlation p) \<or> \<not> is_canonical_utc_timestamp (pa_created_at p)
      then bad_argument ''player autochat correlation is invalid''
      else if (case (parse_protocol_identity (pa_serialized_player p) default_limits,
                     parse_protocol_identity (pa_serialized_target p) default_limits) of
                 (Inr player, Inr target) \<Rightarrow> pid_kind player \<noteq> ''player'' \<or> pid_kind target = ''player''
               | _ \<Rightarrow> True)
      then bad_argument ''player autochat identities are invalid''
      else if \<not> is_ok (require_valid_utf8 (pa_intent p) (16 * 1024)) \<or> pa_intent p = []
      then bad_argument ''player autochat intent is outside the closed contract'' else Inr ())"

definition check_game_data :: "outbound_request \<Rightarrow> game_data_request \<Rightarrow> unit result" where
  "check_game_data r g =
     (if \<not> valid_id (gd_installation g) \<or> \<not> valid_id (gd_playthrough g) \<or> \<not> valid_id (gd_request g)
         \<or> gd_request g \<noteq> out_id r \<or> gd_runtime_generation g \<noteq> out_generation r
         \<or> \<not> is_canonical_utc_timestamp (gd_observed_at g)
      then bad_argument ''game-data correlation is invalid'' else Inr ())"

text \<open>The observation types with a closed schema return from their own validator.\<close>

definition closed_game_data :: "game_data_request \<Rightarrow> unit result option" where
  "closed_game_data g =
     (let payload = gd_serialized_payload g in
      case gd_type g of
        GD_disposition \<Rightarrow> Some (validate_disposition_payload payload default_limits)
      | GD_item_pickup \<Rightarrow> Some (validate_item_pickup_payload payload default_limits)
      | GD_actor_resurrected \<Rightarrow> Some (validate_actor_resurrected_payload payload default_limits)
      | GD_spell_cast \<Rightarrow> Some (validate_spell_cast_payload payload default_limits)
      | GD_inventory \<Rightarrow> Some (validate_inventory_payload payload default_limits)
      | _ \<Rightarrow> None)"

fun check_payload :: "int \<Rightarrow> outbound_request \<Rightarrow> request_payload \<Rightarrow> unit result" where
  "check_payload now r HealthRequest = Inr ()"
| "check_payload now r (InitRequest i) = check_init r i"
| "check_payload now r (TurnRequest t) = check_turn r t"
| "check_payload now r (EventPollRequest p) = check_event_poll r p"
| "check_payload now r (InterruptionRequest i) = check_interruption r i"
| "check_payload now r (ActionResultRequest a) = check_action_result r a"
| "check_payload now r (SessionEndRequest e) = check_session_end r e"
| "check_payload now r (SttRequest s) = check_stt r s"
| "check_payload now r (DialogueDeliveryResultRequest d) = check_delivery r d"
| "check_payload now r (ControlsQueryRequest c) = check_controls_query r c"
| "check_payload now r (ControlsSelectRequest c) = check_controls_select r c"
| "check_payload now r (DebugCommandQueryRequest d) = check_debug_query r d"
| "check_payload now r (DebugCommandResultRequest d) = check_debug_result r d"
| "check_payload now r (DiaryBookQueryRequest d) = check_diary_query r d"
| "check_payload now r (DiaryBookResultRequest d) = check_diary_result r d"
| "check_payload now r (MenuDialogueTtsRequest m) = check_menu_tts r m"
| "check_payload now r (PlayerAutochatRequest p) = check_autochat r p"
| "check_payload now r (BookReadAloudRequest b) = check_book r b"
| "check_payload now r (GameDataRequest g) = check_game_data r g"
| "check_payload now r (MediaPrepareRequest m) = check_media now r m"

section \<open>The contents\<close>

definition validate_payload_text :: "string \<Rightarrow> nat \<Rightarrow> unit result" where
  "validate_payload_text s limit = and_then (require_valid_utf8 s limit) (\<lambda>_. Inr ())"

fun validate_contents :: "request_payload \<Rightarrow> unit result" where
  "validate_contents (TurnRequest t) = validate_payload_text (turn_serialized_payload t) kMaxJsonBytes"
| "validate_contents (InterruptionRequest i) =
     (if intr_reason i = [] \<or> 128 < length (intr_reason i)
      then bad_argument ''interruption reason is outside size limit''
      else validate_payload_text (intr_reason i) 128)"
| "validate_contents (ActionResultRequest a) =
     (if ar_reason_code a = [] \<or> 128 < length (ar_reason_code a)
      then bad_argument ''action-result reason code is outside size limit''
      else and_then (validate_payload_text (ar_reason_code a) 128) (\<lambda>_.
        validate_payload_text (ar_serialized_observed a) kMaxJsonBytes))"
| "validate_contents (DebugCommandResultRequest d) = validate_payload_text (dcr_serialized_observed d) (16 * 1024)"
| "validate_contents (SttRequest s) =
     (if stt_audio s = [] \<or> kMaxSttBytes < length (stt_audio s)
      then bad_argument ''STT body is outside size limit''
      else if stt_codec s \<noteq> ''wav'' then bad_argument ''STT codec must be wav'' else Inr ())"
| "validate_contents (GameDataRequest g) =
     (case closed_game_data g of
        Some verdict \<Rightarrow> verdict
      | None \<Rightarrow> validate_payload_text (gd_serialized_payload g) kMaxJsonBytes)"
| "validate_contents _ = Inr ()"

definition validate_request :: "int \<Rightarrow> generation \<Rightarrow> outbound_request \<Rightarrow> unit result" where
  "validate_request now current r =
     (if \<not> valid_id (out_id r) then bad_argument ''request ID must be a canonical lowercase UUID''
      else if out_generation r \<noteq> current
      then Inl (simple_error EC_stale_generation ''request generation is stale'')
      else
        let session_required = out_kind r \<noteq> RK_health \<and> out_kind r \<noteq> RK_init in
        if (session_required \<and> \<not> valid_id (out_session r))
           \<or> (\<not> session_required \<and> \<not> id_empty (out_session r) \<and> \<not> valid_id (out_session r))
        then bad_argument ''session ID is missing or malformed''
        else if payload_kind (out_payload r) \<noteq> out_kind r
        then bad_argument ''request kind does not match typed payload''
        else and_then (check_payload now r (out_payload r)) (\<lambda>_. validate_contents (out_payload r)))"

end
