(* ===== verification/Bridge_Request_Props.thy ===== *)
theory Bridge_Request_Props
  imports Bridge_Requests
begin

text \<open>
  What \<open>validateRequest\<close> guarantees of every request that may enter the transport queue: its
  payload is of its kind, and every identifier, session, generation and text in it agrees with
  the request and stays within the limits.
\<close>

section \<open>What a payload says about its request\<close>

text \<open>The request and the session a payload names as its own, and its generation. An
  interruption, an action result and a dialogue delivery name another request.\<close>

fun payload_correlation :: "request_payload \<Rightarrow> (RequestId option \<times> SessionId option \<times> generation) option" where
  "payload_correlation HealthRequest = None"
| "payload_correlation (InitRequest i) = Some (Some (env_request (init_ids i)), None, env_generation (init_ids i))"
| "payload_correlation (TurnRequest t) =
     Some (Some (env_request (turn_ids t)), Some (env_session (turn_ids t)), env_generation (turn_ids t))"
| "payload_correlation (EventPollRequest p) = Some (None, Some (poll_session p), poll_generation p)"
| "payload_correlation (InterruptionRequest i) = Some (None, Some (intr_session i), intr_generation i)"
| "payload_correlation (ActionResultRequest a) =
     Some (None, Some (corr_session (ar_correlation a)), corr_generation (ar_correlation a))"
| "payload_correlation (SessionEndRequest e) = Some (Some (end_request e), Some (end_session e), end_generation e)"
| "payload_correlation (SttRequest s) =
     Some (Some (env_request (stt_ids s)), Some (env_session (stt_ids s)), env_generation (stt_ids s))"
| "payload_correlation (DialogueDeliveryResultRequest d) =
     Some (None, Some (corr_session (dd_correlation d)), corr_generation (dd_correlation d))"
| "payload_correlation (ControlsQueryRequest c) =
     Some (Some (corr_request (cq_correlation c)), Some (corr_session (cq_correlation c)), corr_generation (cq_correlation c))"
| "payload_correlation (ControlsSelectRequest c) =
     Some (Some (corr_request (cs_correlation c)), Some (corr_session (cs_correlation c)), corr_generation (cs_correlation c))"
| "payload_correlation (DebugCommandQueryRequest d) =
     Some (Some (corr_request (dcq_correlation d)), Some (corr_session (dcq_correlation d)), corr_generation (dcq_correlation d))"
| "payload_correlation (DebugCommandResultRequest d) =
     Some (Some (corr_request (dcr_correlation d)), Some (corr_session (dcr_correlation d)), corr_generation (dcr_correlation d))"
| "payload_correlation (DiaryBookQueryRequest d) =
     Some (Some (corr_request (dbq_correlation d)), Some (corr_session (dbq_correlation d)), corr_generation (dbq_correlation d))"
| "payload_correlation (DiaryBookResultRequest d) =
     Some (Some (corr_request (dbr_correlation d)), Some (corr_session (dbr_correlation d)), corr_generation (dbr_correlation d))"
| "payload_correlation (MenuDialogueTtsRequest m) =
     Some (Some (corr_request (mt_correlation m)), Some (corr_session (mt_correlation m)), corr_generation (mt_correlation m))"
| "payload_correlation (PlayerAutochatRequest p) =
     Some (Some (corr_request (pa_correlation p)), Some (corr_session (pa_correlation p)), corr_generation (pa_correlation p))"
| "payload_correlation (BookReadAloudRequest b) =
     Some (Some (corr_request (bk_correlation b)), Some (corr_session (bk_correlation b)), corr_generation (bk_correlation b))"
| "payload_correlation (GameDataRequest g) = Some (Some (gd_request g), None, gd_runtime_generation g)"
| "payload_correlation (MediaPrepareRequest m) =
     Some (Some (corr_request (mp_correlation m)), Some (corr_session (mp_correlation m)), corr_generation (mp_correlation m))"

definition correlation_agrees :: "outbound_request \<Rightarrow> bool" where
  "correlation_agrees r \<longleftrightarrow>
     (case payload_correlation (out_payload r) of
        None \<Rightarrow> True
      | Some (request, session, g) \<Rightarrow>
          request \<in> {None, Some (out_id r)} \<and> session \<in> {None, Some (out_session r)} \<and> g = out_generation r)"

text \<open>The free texts of a payload with their limits.\<close>

fun payload_texts :: "request_payload \<Rightarrow> (string \<times> nat) list" where
  "payload_texts (TurnRequest t) = [(turn_serialized_payload t, kMaxJsonBytes)]"
| "payload_texts (InterruptionRequest i) = [(intr_reason i, 128)]"
| "payload_texts (ActionResultRequest a) = [(ar_reason_code a, 128), (ar_serialized_observed a, kMaxJsonBytes)]"
| "payload_texts (DebugCommandResultRequest d) = [(dcr_serialized_observed d, 16 * 1024)]"
| "payload_texts (MenuDialogueTtsRequest m) = [(mt_text m, 16 * 1024)]"
| "payload_texts (PlayerAutochatRequest p) = [(pa_intent p, 16 * 1024)]"
| "payload_texts (BookReadAloudRequest b) = [(bk_book_id b, 512), (bk_title b, 512), (bk_text b, 4096)]"
| "payload_texts (GameDataRequest g) =
     (if closed_game_data g = None then [(gd_serialized_payload g, kMaxJsonBytes)] else [])"
| "payload_texts _ = []"

definition text_fits :: "string \<times> nat \<Rightarrow> bool" where
  "text_fits t \<longleftrightarrow> length (fst t) \<le> snd t \<and> is_valid_utf8 (fst t)"

section \<open>Each payload\<close>

lemma bad_argument_Inr [simp]: "bad_argument m \<noteq> Inr x"
  by (simp add: bad_argument_def)

lemma require_valid_utf8_ok [simp]: "is_ok (require_valid_utf8 s n) \<longleftrightarrow> length s \<le> n \<and> is_valid_utf8 s"
  by (simp add: require_valid_utf8_def)

lemma validate_payload_text_ok: "validate_payload_text s n = Inr () \<Longrightarrow> text_fits (s, n)"
  by (simp add: validate_payload_text_def require_valid_utf8_def text_fits_def split: if_splits)

lemmas check_defs =
  check_init_def check_turn_def check_stt_def check_media_def check_event_poll_def check_interruption_def
  check_action_result_def check_delivery_def check_session_end_def check_controls_query_def
  check_controls_select_def check_diary_query_def check_diary_result_def check_debug_query_def
  check_debug_result_def check_menu_tts_def check_book_def check_autochat_def check_game_data_def

lemmas correlation_defs =
  correlation_agrees_def envelope_matches_def valid_envelope_def own_correlation_def session_correlation_def

lemma checked_correlation_agrees:
  assumes "check_payload now r (out_payload r) = Inr ()" "out_kind r = payload_kind (out_payload r)"
    and "out_kind r \<noteq> RK_health \<and> out_kind r \<noteq> RK_init \<longrightarrow> valid_id (out_session r)"
  shows "correlation_agrees r"
proof -
  have "id_empty (out_session r) \<Longrightarrow> \<not> valid_id (out_session r)"
    by (simp add: valid_id_def id_empty_def is_canonical_uuid_def)
  with assms show ?thesis
    by (cases "out_payload r")
      (auto simp: check_defs correlation_defs Let_def and_then_Inr_iff split: if_splits)
qed

lemma contents_texts_fit:
  assumes "check_payload now r p = Inr ()" "validate_contents p = Inr ()"
  shows "list_all text_fits (payload_texts p)"
  using assms
  by (cases p)
    (auto simp: check_menu_tts_def check_book_def check_autochat_def text_fits_def and_then_Inr_iff
      dest!: validate_payload_text_ok split: if_splits option.splits)

lemma validated_request:
  assumes "validate_request now current r = Inr ()"
  shows "out_generation r = current" "valid_id (out_id r)" "payload_kind (out_payload r) = out_kind r"
    "correlation_agrees r" "out_kind r \<noteq> RK_health \<and> out_kind r \<noteq> RK_init \<longrightarrow> valid_id (out_session r)"
    "list_all text_fits (payload_texts (out_payload r))"
proof -
  have base: "valid_id (out_id r)" "out_generation r = current" "payload_kind (out_payload r) = out_kind r"
    "out_kind r \<noteq> RK_health \<and> out_kind r \<noteq> RK_init \<longrightarrow> valid_id (out_session r)"
    and checked: "check_payload now r (out_payload r) = Inr ()" "validate_contents (out_payload r) = Inr ()"
    using assms by (auto simp: validate_request_def Let_def and_then_Inr_iff split: if_splits)
  from checked_correlation_agrees [OF checked(1)] base(3,4) have "correlation_agrees r" by simp
  with base contents_texts_fit [OF checked]
  show "out_generation r = current" "valid_id (out_id r)" "payload_kind (out_payload r) = out_kind r"
    "correlation_agrees r" "out_kind r \<noteq> RK_health \<and> out_kind r \<noteq> RK_init \<longrightarrow> valid_id (out_session r)"
    "list_all text_fits (payload_texts (out_payload r))" by simp_all
qed


definition sample_turn_request :: outbound_request where
  "sample_turn_request =
     \<lparr>out_id = StrongId ''0f8fad5b-d9cb-469f-a165-70867728950e'',
      out_session = StrongId ''7c9e6679-7425-40de-944b-e07fc1f90ae7'', out_generation = Generation 3,
      out_kind = RK_event_poll,
      out_payload = EventPollRequest
        \<lparr>poll_session = StrongId ''7c9e6679-7425-40de-944b-e07fc1f90ae7'', poll_generation = Generation 3,
         poll_after = 12, poll_wait_ms = 15000\<rparr>\<rparr>"

lemma sample_turn_request_valid: "validate_request 0 (Generation 3) sample_turn_request = Inr ()"
  by code_simp


end
