(* ===== verification/Bridge_Service.thy ===== *)
theory Bridge_Service
  imports Bridge_Requests Bounded_Queue Lifecycle
begin

text \<open>
  \<open>bridge_service.hpp\<close> and \<open>bridge_service.cpp\<close>: the service between the engine thread, which
  calls \<open>enqueue\<close>, \<open>poll\<close>, \<open>cancel\<close>, \<open>cancelGeneration\<close> and \<open>halt\<close>, and the worker
  thread, which owns the transport. Every critical section of the code (one lock of the state
  mutex, of a queue or of the registry, or one atomic read or write) is one step here; the
  program counters \<open>engine_pc\<close> and \<open>worker_pc\<close> say which section a thread enters next and
  hold its local variables. \<open>m_halted\<close> and \<open>m_generation\<close> are written by the engine thread
  only, so its own reads of them belong to the section that follows. The transport is not code
  of this component: what \<open>execute\<close> returns is chosen freely at the step that returns from
  it, and the calls of \<open>interrupt\<close> are recorded.
\<close>

section \<open>The state\<close>

datatype engine_result =
    R_enqueue "RequestId result"
  | R_poll "inbound_result list"
  | R_cancel "unit result"
  | R_generation "generation result"
  | R_halt

datatype engine_pc =
    E_idle "engine_result option"
  | E_register outbound_request
  | E_push outbound_request
  | E_unregister RequestId error
  | E_forget RequestId error
  | E_find RequestId
  | E_publish outbound_request
  | E_interrupt RequestId
  | E_erase_outbound generation
  | E_erase_inbound generation
  | E_collect generation
  | E_interrupt_all "RequestId list"
  | E_halt_invalidate
  | E_halt_cancel_all
  | E_halt_collect
  | E_halt_interrupt "RequestId list"
  | E_halt_close
  | E_halt_join
  | E_halt_clear_inbound
  | E_halt_close_inbound
  | E_halt_reset

datatype worker_pc =
    W_wait
  | W_popped outbound_request
  | W_token outbound_request
  | W_withdraw outbound_request
  | W_publish outbound_request
  | W_generation outbound_request nat
  | W_activate outbound_request nat
  | W_execute outbound_request nat
  | W_executed outbound_request nat "inbound_result result"
  | W_read outbound_request "inbound_result result" bool
  | W_decide outbound_request "inbound_result result" bool bool
  | W_push outbound_request inbound_result
  | W_complete outbound_request
  | W_done

text \<open>What was offered to the inbound queue, in order, and by which statement.\<close>

datatype publication = Pub_cancelled | Pub_result

record bridge =
  b_outbound :: "outbound_request bounded_queue"
  b_inbound :: "inbound_result bounded_queue"
  b_generation :: generation_state
  b_cancellations :: cancellation_registry
  b_halted :: bool
  b_known :: "RequestId set"
  b_active :: "(RequestId \<times> outbound_request) list"
  b_cancelled_published :: "RequestId set"
  b_engine :: engine_pc
  b_worker :: worker_pc
  b_interrupts :: "RequestId list"
  b_offered :: "(publication \<times> inbound_result) list"

definition outbound_queue_new :: "outbound_request bounded_queue" where
  "outbound_queue_new = \<lparr>q_capacity = kOutboundCapacity, q_reserved_control = kReservedControlCapacity,
     q_items = [], q_closed = False\<rparr>"

definition inbound_queue_new :: "inbound_result bounded_queue" where
  "inbound_queue_new = \<lparr>q_capacity = kInboundCapacity, q_reserved_control = kReservedControlCapacity,
     q_items = [], q_closed = False\<rparr>"

definition bridge_new :: "u64 \<Rightarrow> bridge" where
  "bridge_new g =
     \<lparr>b_outbound = outbound_queue_new, b_inbound = inbound_queue_new,
      b_generation = \<lparr>gs_generation = g\<rparr>, b_cancellations = empty_registry, b_halted = False,
      b_known = {}, b_active = [], b_cancelled_published = {}, b_engine = E_idle None,
      b_worker = W_wait, b_interrupts = [], b_offered = []\<rparr>"

text \<open>The queue constructor does not throw for these sizes.\<close>

lemma bridge_queues_new:
  "queue_new kOutboundCapacity kReservedControlCapacity = Some outbound_queue_new"
  "queue_new kInboundCapacity kReservedControlCapacity = Some inbound_queue_new"
  by (simp_all add: queue_new_def outbound_queue_new_def inbound_queue_new_def
      kOutboundCapacity_def kInboundCapacity_def kReservedControlCapacity_def)

definition reply :: "engine_result \<Rightarrow> bridge \<Rightarrow> bridge" where
  "reply result b = b\<lparr>b_engine := E_idle (Some result)\<rparr>"

section \<open>Enqueue\<close>

definition begin_enqueue :: "int \<Rightarrow> outbound_request \<Rightarrow> bridge \<Rightarrow> bridge" where
  "begin_enqueue now request b =
     (if b_halted b then reply (R_enqueue (Inl (simple_error EC_stopped ''bridge is halted''))) b
      else
        case validate_request now (generation_current (b_generation b)) request of
          Inl e \<Rightarrow> reply (R_enqueue (Inl e)) b
        | Inr _ \<Rightarrow>
            if out_id request \<in> b_known b
            then reply (R_enqueue (Inl (simple_error EC_duplicate_conflict ''request ID already used''))) b
            else b\<lparr>b_known := insert (out_id request) (b_known b), b_engine := E_register request\<rparr>)"

definition enqueue_register :: "outbound_request \<Rightarrow> bridge \<Rightarrow> bridge" where
  "enqueue_register request b =
     (case register_request (out_id request) (out_generation request) (b_cancellations b) of
        (registry, Inl e) \<Rightarrow> b\<lparr>b_cancellations := registry, b_engine := E_forget (out_id request) e\<rparr>
      | (registry, Inr _) \<Rightarrow> b\<lparr>b_cancellations := registry, b_engine := E_push request\<rparr>)"

definition enqueue_push :: "outbound_request \<Rightarrow> bridge \<Rightarrow> bridge" where
  "enqueue_push request b =
     (case try_push request False (b_outbound b) of
        (queue, Inl e) \<Rightarrow> b\<lparr>b_outbound := queue, b_engine := E_unregister (out_id request) e\<rparr>
      | (queue, Inr _) \<Rightarrow> reply (R_enqueue (Inr (out_id request))) (b\<lparr>b_outbound := queue\<rparr>))"

definition enqueue_unregister :: "RequestId \<Rightarrow> error \<Rightarrow> bridge \<Rightarrow> bridge" where
  "enqueue_unregister request e b =
     b\<lparr>b_cancellations := complete_request request (b_cancellations b), b_engine := E_forget request e\<rparr>"

definition enqueue_forget :: "RequestId \<Rightarrow> error \<Rightarrow> bridge \<Rightarrow> bridge" where
  "enqueue_forget request e b =
     reply (R_enqueue (Inl e)) (b\<lparr>b_known := b_known b - {request}\<rparr>)"

section \<open>Poll and cancel\<close>

definition poll :: "nat \<Rightarrow> bridge \<Rightarrow> bridge" where
  "poll maximum_items b =
     (let (queue, items) = drain (min maximum_items kInboundCapacity) (b_inbound b);
          current = generation_current (b_generation b)
      in reply (R_poll (filter (\<lambda>result. in_generation result = current) items)) (b\<lparr>b_inbound := queue\<rparr>))"

definition cancelled_result :: "outbound_request \<Rightarrow> inbound_result" where
  "cancelled_result request =
     \<lparr>in_request = out_id request, in_session = out_session request, in_generation = out_generation request,
      in_kind = RS_cancelled, in_payload = [],
      in_failure = Some (simple_error EC_cancelled ''request cancelled'')\<rparr>"

definition publish_cancelled :: "outbound_request \<Rightarrow> bridge \<Rightarrow> bridge" where
  "publish_cancelled request b =
     b\<lparr>b_inbound := fst (try_push (cancelled_result request) True (b_inbound b)),
       b_offered := b_offered b @ [(Pub_cancelled, cancelled_result request)]\<rparr>"

definition begin_cancel :: "RequestId \<Rightarrow> bridge \<Rightarrow> bridge" where
  "begin_cancel request b =
     (if b_halted b then reply (R_cancel (Inl (simple_error EC_stopped ''bridge is halted''))) b
      else
        case cancel_request request (b_cancellations b) of
          (registry, False) \<Rightarrow>
            reply (R_cancel (Inl (simple_error EC_invalid_argument ''request is unknown or already cancelled'')))
              (b\<lparr>b_cancellations := registry\<rparr>)
        | (registry, True) \<Rightarrow> b\<lparr>b_cancellations := registry, b_engine := E_find request\<rparr>)"

definition cancel_find :: "RequestId \<Rightarrow> bridge \<Rightarrow> bridge" where
  "cancel_find request b =
     (case map_of (b_active b) request of
        Some active \<Rightarrow>
          if request \<in> b_cancelled_published b then reply (R_cancel (Inr ())) b
          else b\<lparr>b_cancelled_published := insert request (b_cancelled_published b), b_engine := E_publish active\<rparr>
      | None \<Rightarrow> reply (R_cancel (Inr ())) b)"

definition cancel_publish :: "outbound_request \<Rightarrow> bridge \<Rightarrow> bridge" where
  "cancel_publish request b = (publish_cancelled request b)\<lparr>b_engine := E_interrupt (out_id request)\<rparr>"

definition cancel_interrupt :: "RequestId \<Rightarrow> bridge \<Rightarrow> bridge" where
  "cancel_interrupt request b =
     reply (R_cancel (Inr ())) (b\<lparr>b_interrupts := b_interrupts b @ [request]\<rparr>)"

section \<open>Cancelling a generation\<close>

definition begin_cancel_generation :: "generation \<Rightarrow> bridge \<Rightarrow> bridge" where
  "begin_cancel_generation g b =
     (if b_halted b then reply (R_generation (Inl (simple_error EC_stopped ''bridge is halted''))) b
      else if g \<noteq> generation_current (b_generation b)
      then reply (R_generation (Inl (simple_error EC_stale_generation ''generation is not current''))) b
      else b\<lparr>b_cancellations := fst (cancel_generation g (b_cancellations b)), b_engine := E_erase_outbound g\<rparr>)"

definition generation_erase_outbound :: "generation \<Rightarrow> bridge \<Rightarrow> bridge" where
  "generation_erase_outbound g b =
     b\<lparr>b_outbound := fst (erase_if (\<lambda>request. out_generation request = g) (b_outbound b)),
       b_engine := E_erase_inbound g\<rparr>"

definition generation_erase_inbound :: "generation \<Rightarrow> bridge \<Rightarrow> bridge" where
  "generation_erase_inbound g b =
     b\<lparr>b_inbound := fst (erase_if (\<lambda>result. in_generation result = g) (b_inbound b)),
       b_engine := E_collect g\<rparr>"

definition generation_collect :: "generation \<Rightarrow> bridge \<Rightarrow> bridge" where
  "generation_collect g b =
     b\<lparr>b_engine := E_interrupt_all (map fst (filter (\<lambda>p. out_generation (snd p) = g) (b_active b)))\<rparr>"

definition generation_finish :: "RequestId list \<Rightarrow> bridge \<Rightarrow> bridge" where
  "generation_finish active b =
     (let (state, g) = invalidate (b_generation b)
      in reply (R_generation (Inr g))
           (b\<lparr>b_interrupts := b_interrupts b @ active, b_generation := state\<rparr>))"

section \<open>Diagnostics and halt\<close>

record bridge_diagnostics =
  bd_outbound :: nat
  bd_inbound :: nat
  bd_active :: nat
  bd_cancellations :: nat

text \<open>Each of the four reads takes its own lock; between calls of the engine thread and with
  the worker at rest they form one state.\<close>

definition diagnostics :: "bridge \<Rightarrow> bridge_diagnostics" where
  "diagnostics b =
     \<lparr>bd_outbound = queue_size (b_outbound b), bd_inbound = queue_size (b_inbound b),
      bd_active = length (b_active b), bd_cancellations = registry_size (b_cancellations b)\<rparr>"

definition begin_halt :: "bridge \<Rightarrow> bridge" where
  "begin_halt b = (if b_halted b then reply R_halt b else b\<lparr>b_halted := True, b_engine := E_halt_invalidate\<rparr>)"

definition halt_invalidate :: "bridge \<Rightarrow> bridge" where
  "halt_invalidate b = b\<lparr>b_generation := fst (invalidate (b_generation b)), b_engine := E_halt_cancel_all\<rparr>"

definition halt_cancel_all :: "bridge \<Rightarrow> bridge" where
  "halt_cancel_all b = b\<lparr>b_cancellations := fst (cancel_all (b_cancellations b)), b_engine := E_halt_collect\<rparr>"

definition halt_collect :: "bridge \<Rightarrow> bridge" where
  "halt_collect b = b\<lparr>b_engine := E_halt_interrupt (map fst (b_active b))\<rparr>"

definition halt_interrupt :: "RequestId list \<Rightarrow> bridge \<Rightarrow> bridge" where
  "halt_interrupt active b = b\<lparr>b_interrupts := b_interrupts b @ active, b_engine := E_halt_close\<rparr>"

definition halt_close :: "bridge \<Rightarrow> bridge" where
  "halt_close b = b\<lparr>b_outbound := close_queue (b_outbound b), b_engine := E_halt_join\<rparr>"

text \<open>\<open>join\<close> returns once the worker function has returned.\<close>

definition halt_join :: "bridge \<Rightarrow> bridge option" where
  "halt_join b = (if b_worker b = W_done then Some (b\<lparr>b_engine := E_halt_clear_inbound\<rparr>) else None)"

definition halt_clear_inbound :: "bridge \<Rightarrow> bridge" where
  "halt_clear_inbound b = b\<lparr>b_inbound := clear_queue (b_inbound b), b_engine := E_halt_close_inbound\<rparr>"

definition halt_close_inbound :: "bridge \<Rightarrow> bridge" where
  "halt_close_inbound b = b\<lparr>b_inbound := close_queue (b_inbound b), b_engine := E_halt_reset\<rparr>"

definition halt_reset :: "bridge \<Rightarrow> bridge" where
  "halt_reset b = reply R_halt (b\<lparr>b_known := {}, b_active := [], b_cancelled_published := {}\<rparr>)"

section \<open>The engine thread\<close>

datatype engine_call =
    Call_enqueue int outbound_request
  | Call_poll nat
  | Call_cancel RequestId
  | Call_cancel_generation generation
  | Call_halt

fun engine_begin :: "engine_call \<Rightarrow> bridge \<Rightarrow> bridge" where
  "engine_begin (Call_enqueue now request) b = begin_enqueue now request b"
| "engine_begin (Call_poll n) b = poll n b"
| "engine_begin (Call_cancel request) b = begin_cancel request b"
| "engine_begin (Call_cancel_generation g) b = begin_cancel_generation g b"
| "engine_begin Call_halt b = begin_halt b"

definition engine_step :: "bridge \<Rightarrow> bridge option" where
  "engine_step b =
     (case b_engine b of
        E_idle _ \<Rightarrow> None
      | E_register request \<Rightarrow> Some (enqueue_register request b)
      | E_push request \<Rightarrow> Some (enqueue_push request b)
      | E_unregister request e \<Rightarrow> Some (enqueue_unregister request e b)
      | E_forget request e \<Rightarrow> Some (enqueue_forget request e b)
      | E_find request \<Rightarrow> Some (cancel_find request b)
      | E_publish request \<Rightarrow> Some (cancel_publish request b)
      | E_interrupt request \<Rightarrow> Some (cancel_interrupt request b)
      | E_erase_outbound g \<Rightarrow> Some (generation_erase_outbound g b)
      | E_erase_inbound g \<Rightarrow> Some (generation_erase_inbound g b)
      | E_collect g \<Rightarrow> Some (generation_collect g b)
      | E_interrupt_all active \<Rightarrow> Some (generation_finish active b)
      | E_halt_invalidate \<Rightarrow> Some (halt_invalidate b)
      | E_halt_cancel_all \<Rightarrow> Some (halt_cancel_all b)
      | E_halt_collect \<Rightarrow> Some (halt_collect b)
      | E_halt_interrupt active \<Rightarrow> Some (halt_interrupt active b)
      | E_halt_close \<Rightarrow> Some (halt_close b)
      | E_halt_join \<Rightarrow> halt_join b
      | E_halt_clear_inbound \<Rightarrow> Some (halt_clear_inbound b)
      | E_halt_close_inbound \<Rightarrow> Some (halt_close_inbound b)
      | E_halt_reset \<Rightarrow> Some (halt_reset b))"

section \<open>The worker thread\<close>

text \<open>Whether a response belongs to its request (without the check of the generation).\<close>

definition response_matches :: "outbound_request \<Rightarrow> inbound_result \<Rightarrow> bool" where
  "response_matches request response \<longleftrightarrow>
     in_request response = out_id request
     \<and> (in_session response = out_session request
        \<or> (out_kind request = RK_init \<and> id_empty (out_session request) \<and> valid_id (in_session response)))
     \<and> in_generation response = out_generation request
     \<and> valid_id (in_request response)
     \<and> (id_empty (out_session request) \<or> valid_id (in_session response))"

definition failure_result :: "outbound_request \<Rightarrow> error \<Rightarrow> inbound_result" where
  "failure_result request e =
     \<lparr>in_request = out_id request, in_session = out_session request, in_generation = out_generation request,
      in_kind = RS_failure, in_payload = [], in_failure = Some e\<rparr>"

datatype verdict = V_cancelled | V_push inbound_result | V_nothing

text \<open>
  The decision after \<open>execute\<close>. The two generations the code reads are equal whenever the
  second matters, and a generation that stopped being current does not become current again,
  so one read stands for both.
\<close>

definition worker_verdict ::
  "generation_state \<Rightarrow> outbound_request \<Rightarrow> inbound_result result \<Rightarrow> bool \<Rightarrow> bool \<Rightarrow> verdict" where
  "worker_verdict generations request response cancelled already_published =
     (if cancelled \<and> \<not> already_published then V_cancelled
      else if cancelled then V_nothing
      else
        case response of
          Inr r \<Rightarrow>
            if response_matches request r \<and> is_current (in_generation r) generations then V_push r
            else if is_current (out_generation request) generations
            then V_push (failure_result request
              (simple_error EC_transport_failure ''transport returned inconsistent correlation IDs''))
            else V_nothing
        | Inl e \<Rightarrow>
            if is_current (out_generation request) generations then V_push (failure_result request e)
            else V_nothing)"

definition worker_pop :: "bridge \<Rightarrow> bridge option" where
  "worker_pop b =
     (case wait_pop (b_outbound b) of
        None \<Rightarrow> None
      | Some (queue, None) \<Rightarrow> Some (b\<lparr>b_outbound := queue, b_worker := W_done\<rparr>)
      | Some (queue, Some request) \<Rightarrow> Some (b\<lparr>b_outbound := queue, b_worker := W_popped request\<rparr>))"

definition worker_token :: "outbound_request \<Rightarrow> bridge \<Rightarrow> bridge" where
  "worker_token request b =
     (case registry_token (out_id request) (b_cancellations b) of
        None \<Rightarrow> b\<lparr>b_worker := W_withdraw request\<rparr>
      | Some source \<Rightarrow>
          if stop_requested (b_cancellations b) source then b\<lparr>b_worker := W_withdraw request\<rparr>
          else b\<lparr>b_worker := W_generation request source\<rparr>)"

definition worker_withdraw :: "outbound_request \<Rightarrow> bridge \<Rightarrow> bridge" where
  "worker_withdraw request b =
     (if out_id request \<in> b_cancelled_published b then b\<lparr>b_worker := W_complete request\<rparr>
      else b\<lparr>b_cancelled_published := insert (out_id request) (b_cancelled_published b),
             b_worker := W_publish request\<rparr>)"

definition worker_activate :: "outbound_request \<Rightarrow> nat \<Rightarrow> bridge \<Rightarrow> bridge" where
  "worker_activate request source b =
     b\<lparr>b_active := fst (emplace (out_id request) request (b_active b)), b_worker := W_execute request source\<rparr>"

definition worker_retire :: "outbound_request \<Rightarrow> inbound_result result \<Rightarrow> bool \<Rightarrow> bridge \<Rightarrow> bridge" where
  "worker_retire request response cancelled b =
     b\<lparr>b_active := erase_key (out_id request) (b_active b),
       b_worker := W_decide request response cancelled (out_id request \<in> b_cancelled_published b)\<rparr>"

definition worker_decide ::
  "outbound_request \<Rightarrow> inbound_result result \<Rightarrow> bool \<Rightarrow> bool \<Rightarrow> bridge \<Rightarrow> bridge" where
  "worker_decide request response cancelled already_published b =
     b\<lparr>b_worker :=
         (case worker_verdict (b_generation b) request response cancelled already_published of
            V_cancelled \<Rightarrow> W_publish request
          | V_push result \<Rightarrow> W_push request result
          | V_nothing \<Rightarrow> W_complete request)\<rparr>"

definition worker_push :: "outbound_request \<Rightarrow> inbound_result \<Rightarrow> bridge \<Rightarrow> bridge" where
  "worker_push request result b =
     b\<lparr>b_inbound := fst (try_push result False (b_inbound b)),
       b_offered := b_offered b @ [(Pub_result, result)], b_worker := W_complete request\<rparr>"

definition worker_complete :: "outbound_request \<Rightarrow> bridge \<Rightarrow> bridge" where
  "worker_complete request b =
     b\<lparr>b_cancellations := complete_request (out_id request) (b_cancellations b), b_worker := W_wait\<rparr>"

text \<open>One section of \<open>workerLoop\<close>; \<open>response\<close> is what \<open>execute\<close> returns, when it returns.\<close>

definition worker_step :: "inbound_result result \<Rightarrow> bridge \<Rightarrow> bridge option" where
  "worker_step response b =
     (case b_worker b of
        W_wait \<Rightarrow> worker_pop b
      | W_popped request \<Rightarrow>
          Some (b\<lparr>b_worker := if b_halted b then W_done else W_token request\<rparr>)
      | W_token request \<Rightarrow> Some (worker_token request b)
      | W_withdraw request \<Rightarrow> Some (worker_withdraw request b)
      | W_publish request \<Rightarrow> Some ((publish_cancelled request b)\<lparr>b_worker := W_complete request\<rparr>)
      | W_generation request source \<Rightarrow>
          Some (b\<lparr>b_worker := if is_current (out_generation request) (b_generation b)
                               then W_activate request source else W_complete request\<rparr>)
      | W_activate request source \<Rightarrow> Some (worker_activate request source b)
      | W_execute request source \<Rightarrow> Some (b\<lparr>b_worker := W_executed request source response\<rparr>)
      | W_executed request source returned \<Rightarrow>
          Some (b\<lparr>b_worker := W_read request returned (stop_requested (b_cancellations b) source)\<rparr>)
      | W_read request returned cancelled \<Rightarrow> Some (worker_retire request returned cancelled b)
      | W_decide request returned cancelled already_published \<Rightarrow>
          Some (worker_decide request returned cancelled already_published b)
      | W_push request result \<Rightarrow> Some (worker_push request result b)
      | W_complete request \<Rightarrow> Some (worker_complete request b)
      | W_done \<Rightarrow> None)"

section \<open>The interleaving\<close>

inductive bridge_step :: "bridge \<Rightarrow> bridge \<Rightarrow> bool" where
  calls: "b_engine b = E_idle result \<Longrightarrow> bridge_step b (engine_begin call b)"
| engine_moves: "engine_step b = Some b' \<Longrightarrow> bridge_step b b'"
| worker_moves: "worker_step response b = Some b' \<Longrightarrow> bridge_step b b'"

inductive bridge_reachable :: "u64 \<Rightarrow> bridge \<Rightarrow> bool" for g where
  created: "bridge_reachable g (bridge_new g)"
| steps: "bridge_reachable g b \<Longrightarrow> bridge_step b b' \<Longrightarrow> bridge_reachable g b'"

text \<open>Executable schedules.\<close>

datatype turn_of = Engine_calls engine_call | Engine_moves | Worker_moves "inbound_result result"

fun schedule_step :: "turn_of \<Rightarrow> bridge \<Rightarrow> bridge option" where
  "schedule_step (Engine_calls call) b =
     (case b_engine b of E_idle _ \<Rightarrow> Some (engine_begin call b) | _ \<Rightarrow> None)"
| "schedule_step Engine_moves b = engine_step b"
| "schedule_step (Worker_moves response) b = worker_step response b"

fun run_schedule :: "turn_of list \<Rightarrow> bridge \<Rightarrow> bridge option" where
  "run_schedule [] b = Some b"
| "run_schedule (t # ts) b = (case schedule_step t b of None \<Rightarrow> None | Some b' \<Rightarrow> run_schedule ts b')"

lemma schedule_step_sound: "schedule_step t b = Some b' \<Longrightarrow> bridge_step b b'"
  by (cases t) (auto split: engine_pc.splits intro: bridge_step.intros)

lemma run_schedule_reachable:
  "bridge_reachable g b \<Longrightarrow> run_schedule ts b = Some b' \<Longrightarrow> bridge_reachable g b'"
proof (induction ts arbitrary: b)
  case (Cons t ts)
  then obtain b1 where b1: "schedule_step t b = Some b1" "run_schedule ts b1 = Some b'"
    by (auto split: option.splits)
  show ?case
    by (rule Cons.IH [OF bridge_reachable.steps [OF Cons.prems(1) schedule_step_sound [OF b1(1)]] b1(2)])
qed simp

text \<open>A call run to its end without interference of the worker; at most five sections follow
  the first one of a call other than \<open>halt\<close>.\<close>

fun engine_run :: "nat \<Rightarrow> bridge \<Rightarrow> bridge" where
  "engine_run 0 b = b"
| "engine_run (Suc n) b = (case engine_step b of None \<Rightarrow> b | Some b' \<Rightarrow> engine_run n b')"

definition engine_complete :: "engine_call \<Rightarrow> bridge \<Rightarrow> bridge" where
  "engine_complete call b = engine_run 5 (engine_begin call b)"

end
