(* ===== verification/Bridge_Invariant.thy ===== *)
theory Bridge_Invariant
  imports Bridge_Service
begin

text \<open>
  The invariant of the interleaved bridge, one request identifier at a time: where the request
  is (with the engine thread, queued, or with the worker), how often something was or is about
  to be published for it, and what may still be published.
\<close>

section \<open>Where a request is\<close>

fun engine_id :: "engine_pc \<Rightarrow> RequestId option" where
  "engine_id (E_register r) = Some (out_id r)"
| "engine_id (E_push r) = Some (out_id r)"
| "engine_id (E_unregister k e) = Some k"
| "engine_id (E_forget k e) = Some k"
| "engine_id _ = None"

fun worker_id :: "worker_pc \<Rightarrow> RequestId option" where
  "worker_id W_wait = None"
| "worker_id W_done = None"
| "worker_id (W_popped r) = Some (out_id r)"
| "worker_id (W_token r) = Some (out_id r)"
| "worker_id (W_withdraw r) = Some (out_id r)"
| "worker_id (W_publish r) = Some (out_id r)"
| "worker_id (W_generation r i) = Some (out_id r)"
| "worker_id (W_activate r i) = Some (out_id r)"
| "worker_id (W_execute r i) = Some (out_id r)"
| "worker_id (W_executed r i res) = Some (out_id r)"
| "worker_id (W_read r res c) = Some (out_id r)"
| "worker_id (W_decide r res c a) = Some (out_id r)"
| "worker_id (W_push r x) = Some (out_id r)"
| "worker_id (W_complete r) = Some (out_id r)"

definition queued :: "RequestId \<Rightarrow> bridge \<Rightarrow> nat" where
  "queued k b = length (filter (\<lambda>r. out_id r = k) (q_items (b_outbound b)))"

definition presence :: "RequestId \<Rightarrow> bridge \<Rightarrow> nat" where
  "presence k b = of_bool (engine_id (b_engine b) = Some k) + queued k b
     + of_bool (worker_id (b_worker b) = Some k)"

text \<open>The worker before it retires its request, and before it decides.\<close>

fun worker_early :: "worker_pc \<Rightarrow> bool" where
  "worker_early (W_publish r) = False"
| "worker_early (W_decide r res c a) = False"
| "worker_early (W_push r x) = False"
| "worker_early (W_complete r) = False"
| "worker_early _ = True"

fun worker_undecided :: "worker_pc \<Rightarrow> bool" where
  "worker_undecided (W_decide r res c a) = True"
| "worker_undecided pc = worker_early pc"

fun worker_cancels :: "RequestId \<Rightarrow> worker_pc \<Rightarrow> bool" where
  "worker_cancels k (W_publish r) = (out_id r = k)"
| "worker_cancels k (W_decide r res c a) = (c \<and> \<not> a \<and> out_id r = k)"
| "worker_cancels k _ = False"

fun worker_pushes :: "RequestId \<Rightarrow> worker_pc \<Rightarrow> bool" where
  "worker_pushes k (W_push r x) = (in_request x = k)"
| "worker_pushes k _ = False"

fun engine_cancels :: "RequestId \<Rightarrow> engine_pc \<Rightarrow> bool" where
  "engine_cancels k (E_publish r) = (out_id r = k)"
| "engine_cancels k _ = False"

fun worker_active :: "worker_pc \<Rightarrow> (RequestId \<times> outbound_request) list" where
  "worker_active (W_execute r i) = [(out_id r, r)]"
| "worker_active (W_executed r i res) = [(out_id r, r)]"
| "worker_active (W_read r res c) = [(out_id r, r)]"
| "worker_active _ = []"

definition offered :: "publication \<Rightarrow> RequestId \<Rightarrow> bridge \<Rightarrow> nat" where
  "offered p k b = length (filter (\<lambda>x. fst x = p \<and> in_request (snd x) = k) (b_offered b))"

definition cancels :: "RequestId \<Rightarrow> bridge \<Rightarrow> nat" where
  "cancels k b = offered Pub_cancelled k b + of_bool (engine_cancels k (b_engine b))
     + of_bool (worker_cancels k (b_worker b))"

definition results :: "RequestId \<Rightarrow> bridge \<Rightarrow> nat" where
  "results k b = offered Pub_result k b + of_bool (worker_pushes k (b_worker b))"

definition may_cancel :: "RequestId \<Rightarrow> bridge \<Rightarrow> bool" where
  "may_cancel k b \<longleftrightarrow> k \<notin> b_cancelled_published b
     \<and> (engine_id (b_engine b) = Some k \<or> 0 < queued k b
        \<or> (worker_early (b_worker b) \<and> worker_id (b_worker b) = Some k))"

definition may_push :: "RequestId \<Rightarrow> bridge \<Rightarrow> bool" where
  "may_push k b \<longleftrightarrow> engine_id (b_engine b) = Some k \<or> 0 < queued k b
     \<or> (worker_undecided (b_worker b) \<and> worker_id (b_worker b) = Some k)"

definition registered :: "RequestId \<Rightarrow> bridge \<Rightarrow> bool" where
  "registered k b \<longleftrightarrow> k \<in> fst ` set (reg_entries (b_cancellations b))"

text \<open>An identifier the service does not know has left no trace.\<close>

definition traceless :: "RequestId \<Rightarrow> bridge \<Rightarrow> bool" where
  "traceless k b \<longleftrightarrow> presence k b = 0 \<and> cancels k b = 0 \<and> results k b = 0
     \<and> k \<notin> b_cancelled_published b \<and> \<not> registered k b"

text \<open>An identifier the engine thread is rolling back is not registered any more.\<close>

fun engine_token :: "RequestId \<Rightarrow> engine_pc \<Rightarrow> bool \<Rightarrow> bool" where
  "engine_token k (E_register r) reg = (out_id r = k \<longrightarrow> \<not> reg)"
| "engine_token k (E_forget k' e) reg = (k' = k \<longrightarrow> \<not> reg)"
| "engine_token k _ reg = True"

definition flow_ok :: "RequestId \<Rightarrow> bridge \<Rightarrow> bool" where
  "flow_ok k b \<longleftrightarrow>
     presence k b \<le> 1
     \<and> (engine_id (b_engine b) = Some k \<or> 0 < queued k b \<longrightarrow> k \<notin> b_cancelled_published b)
     \<and> cancels k b + of_bool (may_cancel k b) \<le> 1
     \<and> results k b + of_bool (may_push k b) \<le> 1
     \<and> engine_token k (b_engine b) (registered k b)
     \<and> (b_halted b \<or> k \<in> b_known b \<or> traceless k b)"

lemmas flow_defs = flow_ok_def presence_def queued_def cancels_def results_def may_cancel_def may_push_def
  offered_def traceless_def

lemma flow_ok_new: "flow_ok k (bridge_new g)"
  by (simp add: flow_defs bridge_new_def outbound_queue_new_def empty_registry_def registered_def)

section \<open>Registry keys\<close>

lemma reg_entries_register:
  "register_request k g r = (r', x) \<Longrightarrow>
   reg_entries r' = (if is_ok x then (k, \<lparr>ce_generation = g, ce_source = length (reg_stops r)\<rparr>) # reg_entries r
     else reg_entries r)"
  by (auto simp: register_request_def emplace_def Let_def split: option.splits if_splits)

lemma reg_entries_cancel [simp]: "reg_entries (fst (cancel_request k r)) = reg_entries r"
  by (simp add: cancel_request_def split_def Let_def split: option.splits)

lemma reg_entries_cancel_generation [simp]: "reg_entries (fst (cancel_generation g r)) = reg_entries r"
  by (simp add: cancel_generation_def split_def Let_def)

lemma reg_entries_cancel_all [simp]: "reg_entries (fst (cancel_all r)) = reg_entries r"
  by (simp add: cancel_all_def split_def Let_def)

lemma reg_entries_complete [simp]:
  "fst ` set (reg_entries (complete_request k r)) = fst ` set (reg_entries r) - {k}"
  by (auto simp: complete_request_def erase_key_def)

section \<open>Every section of the engine preserves it\<close>

lemma flow_idle:
  "flow_ok k b \<Longrightarrow> b_engine b = E_idle x \<Longrightarrow> flow_ok k (reply y b)"
  by (simp add: flow_defs reply_def registered_def)

lemma begin_enqueue_rejects:
  "b_halted b \<or> \<not> is_ok (validate_request now (generation_current (b_generation b)) r) \<or> out_id r \<in> b_known b \<Longrightarrow>
   \<exists>e. begin_enqueue now r b = reply (R_enqueue (Inl e)) b"
  unfolding begin_enqueue_def
  by (cases "b_halted b"; cases "validate_request now (generation_current (b_generation b)) r")
    (simp_all; rule exI, rule refl)+

lemma begin_enqueue_accepts:
  "\<not> b_halted b \<Longrightarrow> is_ok (validate_request now (generation_current (b_generation b)) r) \<Longrightarrow> out_id r \<notin> b_known b \<Longrightarrow>
   begin_enqueue now r b = b\<lparr>b_known := insert (out_id r) (b_known b), b_engine := E_register r\<rparr>"
  unfolding begin_enqueue_def
  by (cases "validate_request now (generation_current (b_generation b)) r") simp_all

lemma begin_enqueue_cases:
  obtains e where "begin_enqueue now r b = reply (R_enqueue (Inl e)) b"
  | "\<not> b_halted b" "is_ok (validate_request now (generation_current (b_generation b)) r)"
    "out_id r \<notin> b_known b"
    "begin_enqueue now r b = b\<lparr>b_known := insert (out_id r) (b_known b), b_engine := E_register r\<rparr>"
  using begin_enqueue_rejects [of b now r] begin_enqueue_accepts [of b now r] by metis

lemma flow_begin_enqueue:
  assumes "flow_ok k b" "b_engine b = E_idle x"
  shows "flow_ok k (begin_enqueue now r b)"
proof (cases rule: begin_enqueue_cases [of now r b])
  case (1 y)
  with assms show ?thesis by (simp add: flow_idle)
next
  case 2
  from 2(4) show ?thesis
    using assms 2(1,3) by (cases "out_id r = k") (simp_all add: flow_defs registered_def)
qed

lemma flow_enqueue_register:
  assumes "flow_ok k b" "b_engine b = E_register r"
  shows "flow_ok k (enqueue_register r b)"
proof -
  obtain registry y where t: "register_request (out_id r) (out_generation r) (b_cancellations b) = (registry, y)"
    by (cases "register_request (out_id r) (out_generation r) (b_cancellations b)")
  note e = reg_entries_register [OF t]
  show ?thesis
  proof (cases y)
    case (Inl err)
    then have "enqueue_register r b = b\<lparr>b_cancellations := registry, b_engine := E_forget (out_id r) err\<rparr>"
      by (simp add: enqueue_register_def t)
    with assms e Inl show ?thesis
      by (cases "out_id r = k") (auto simp: flow_defs registered_def)
  next
    case (Inr i)
    then have "enqueue_register r b = b\<lparr>b_cancellations := registry, b_engine := E_push r\<rparr>"
      by (simp add: enqueue_register_def t)
    with assms e Inr show ?thesis
      by (cases "out_id r = k") (auto simp: flow_defs registered_def)
  qed
qed

lemma flow_enqueue_push: "flow_ok k b \<Longrightarrow> b_engine b = E_push r \<Longrightarrow> flow_ok k (enqueue_push r b)"
  by (cases "out_id r = k")
    (auto simp: enqueue_push_def try_push_def Let_def flow_defs reply_def registered_def)

lemma flow_enqueue_unregister:
  "flow_ok k b \<Longrightarrow> b_engine b = E_unregister k' e \<Longrightarrow> flow_ok k (enqueue_unregister k' e b)"
  by (cases "k' = k") (auto simp: enqueue_unregister_def flow_defs registered_def)

lemma flow_enqueue_forget:
  "flow_ok k b \<Longrightarrow> b_engine b = E_forget k' e \<Longrightarrow> flow_ok k (enqueue_forget k' e b)"
  by (cases "k' = k") (auto simp: enqueue_forget_def reply_def flow_defs registered_def)

lemma flow_poll: "flow_ok k b \<Longrightarrow> b_engine b = E_idle x \<Longrightarrow> flow_ok k (poll n b)"
  by (simp add: poll_def drain_eq Let_def reply_def flow_defs registered_def)

lemma flow_begin_cancel:
  assumes "flow_ok k b" "b_engine b = E_idle x"
  shows "flow_ok k (begin_cancel k' b)"
proof -
  obtain registry y where t: "cancel_request k' (b_cancellations b) = (registry, y)"
    by (cases "cancel_request k' (b_cancellations b)")
  have "reg_entries registry = reg_entries (b_cancellations b)"
    using reg_entries_cancel [of k' "b_cancellations b"] by (simp add: t)
  with assms show ?thesis
    by (cases "b_halted b"; cases y)
      (auto simp: begin_cancel_def t reply_def flow_defs registered_def)
qed

text \<open>Only a request the worker is executing can be found active.\<close>

definition active_ok :: "bridge \<Rightarrow> bool" where
  "active_ok b \<longleftrightarrow> b_active b = worker_active (b_worker b)"

lemma worker_active_find:
  "map_of (worker_active pc) k = Some r \<Longrightarrow>
   out_id r = k \<and> worker_id pc = Some k \<and> worker_early pc \<and> \<not> worker_cancels k pc"
  by (cases pc) (auto split: if_splits)

lemma flow_cancel_find:
  assumes "flow_ok k b" "active_ok b" "b_engine b = E_find k'"
  shows "flow_ok k (cancel_find k' b)"
proof (cases "map_of (b_active b) k'")
  case None
  with assms show ?thesis by (simp add: cancel_find_def reply_def flow_defs registered_def)
next
  case (Some r)
  then have w: "out_id r = k'" "worker_id (b_worker b) = Some k'" "worker_early (b_worker b)"
    "\<not> worker_cancels k' (b_worker b)"
    using assms(2) worker_active_find [of "b_worker b" k' r] by (auto simp: active_ok_def)
  show ?thesis
    using assms(1,3) Some w
    by (cases "k' = k") (auto simp: cancel_find_def reply_def flow_defs registered_def)
qed

lemma flow_publish_cancelled:
  "offered p k (publish_cancelled r b) =
     offered p k b + of_bool (p = Pub_cancelled \<and> out_id r = k)"
  by (simp add: offered_def publish_cancelled_def cancelled_result_def)

lemma flow_cancel_publish:
  "flow_ok k b \<Longrightarrow> b_engine b = E_publish r \<Longrightarrow> flow_ok k (cancel_publish r b)"
  by (cases "out_id r = k")
    (auto simp: cancel_publish_def publish_cancelled_def cancelled_result_def flow_defs registered_def)

lemma flow_cancel_interrupt:
  "flow_ok k b \<Longrightarrow> b_engine b = E_interrupt k' \<Longrightarrow> flow_ok k (cancel_interrupt k' b)"
  by (simp add: cancel_interrupt_def reply_def flow_defs registered_def)

lemma flow_begin_cancel_generation:
  "flow_ok k b \<Longrightarrow> b_engine b = E_idle x \<Longrightarrow> flow_ok k (begin_cancel_generation g b)"
  by (auto simp: begin_cancel_generation_def reply_def flow_defs registered_def)

lemma filter_filter_length: "length (filter P (filter Q xs)) \<le> length (filter P xs)"
  by (induction xs) auto

lemma queued_erase_if:
  "length (filter P (q_items (fst (erase_if Q q)))) \<le> length (filter P (q_items q))"
  by (simp add: erase_if_def Let_def filter_filter_length del: filter_filter)

text \<open>Sections that leave the requests and their traces alone.\<close>

lemma flow_frame:
  assumes "flow_ok k b" "engine_id (b_engine b) = None" "\<not> engine_cancels k (b_engine b)"
    and "engine_id (b_engine b') = None" "\<not> engine_cancels k (b_engine b')"
    and "q_items (b_outbound b') = q_items (b_outbound b)" "b_offered b' = b_offered b"
    and "b_worker b' = b_worker b" "b_cancelled_published b' = b_cancelled_published b"
    and "reg_entries (b_cancellations b') = reg_entries (b_cancellations b)"
    and "b_halted b \<longrightarrow> b_halted b'" "b_known b' = b_known b"
  shows "flow_ok k b'"
proof -
  have "engine_token k (b_engine b') reg" for reg
    using assms(4) by (cases "b_engine b'") simp_all
  with assms show ?thesis by (auto simp: flow_defs registered_def)
qed

lemma flow_generation_erase_outbound:
  assumes "flow_ok k b" "b_engine b = E_erase_outbound g"
  shows "flow_ok k (generation_erase_outbound g b)"
proof -
  define n where "n = length (filter (\<lambda>r. out_id r = k)
    (q_items (fst (erase_if (\<lambda>request. out_generation request = g) (b_outbound b)))))"
  have "n \<le> queued k b" unfolding n_def queued_def by (rule queued_erase_if)
  moreover have "queued k (generation_erase_outbound g b) = n"
    by (simp add: n_def queued_def generation_erase_outbound_def)
  ultimately show ?thesis
    using assms by (auto simp: flow_ok_def presence_def cancels_def results_def may_cancel_def may_push_def
        offered_def traceless_def registered_def generation_erase_outbound_def)
qed

lemma flow_generation_rest:
  "flow_ok k b \<Longrightarrow> b_engine b = E_erase_inbound g \<Longrightarrow> flow_ok k (generation_erase_inbound g b)"
  "flow_ok k b \<Longrightarrow> b_engine b = E_collect g \<Longrightarrow> flow_ok k (generation_collect g b)"
  "flow_ok k b \<Longrightarrow> b_engine b = E_interrupt_all ids \<Longrightarrow> flow_ok k (generation_finish ids b)"
  by (simp_all add: generation_erase_inbound_def generation_collect_def generation_finish_def invalidate_def
      reply_def flow_defs registered_def)

lemma flow_begin_halt: "flow_ok k b \<Longrightarrow> b_engine b = E_idle x \<Longrightarrow> flow_ok k (begin_halt b)"
  by (auto simp: begin_halt_def reply_def flow_defs registered_def)

lemma flow_halt:
  "flow_ok k b \<Longrightarrow> b_engine b = E_halt_invalidate \<Longrightarrow> flow_ok k (halt_invalidate b)"
  "flow_ok k b \<Longrightarrow> b_engine b = E_halt_cancel_all \<Longrightarrow> flow_ok k (halt_cancel_all b)"
  "flow_ok k b \<Longrightarrow> b_engine b = E_halt_collect \<Longrightarrow> flow_ok k (halt_collect b)"
  "flow_ok k b \<Longrightarrow> b_engine b = E_halt_interrupt ids \<Longrightarrow> flow_ok k (halt_interrupt ids b)"
  "flow_ok k b \<Longrightarrow> b_engine b = E_halt_close \<Longrightarrow> flow_ok k (halt_close b)"
  "flow_ok k b \<Longrightarrow> b_engine b = E_halt_join \<Longrightarrow> flow_ok k (b\<lparr>b_engine := E_halt_clear_inbound\<rparr>)"
  "flow_ok k b \<Longrightarrow> b_engine b = E_halt_clear_inbound \<Longrightarrow> flow_ok k (halt_clear_inbound b)"
  "flow_ok k b \<Longrightarrow> b_engine b = E_halt_close_inbound \<Longrightarrow> flow_ok k (halt_close_inbound b)"
  by (erule flow_frame; simp add: halt_invalidate_def halt_cancel_all_def halt_collect_def halt_interrupt_def
      halt_close_def halt_clear_inbound_def halt_close_inbound_def close_queue_def clear_queue_def)+

text \<open>While \<open>halt\<close> runs the flag is set, and after the join the worker is done.\<close>

definition halt_ok :: "bridge \<Rightarrow> bool" where
  "halt_ok b \<longleftrightarrow>
     (case b_engine b of
        E_halt_invalidate \<Rightarrow> b_halted b
      | E_halt_cancel_all \<Rightarrow> b_halted b
      | E_halt_collect \<Rightarrow> b_halted b
      | E_halt_interrupt _ \<Rightarrow> b_halted b
      | E_halt_close \<Rightarrow> b_halted b
      | E_halt_join \<Rightarrow> b_halted b \<and> q_closed (b_outbound b)
      | E_halt_clear_inbound \<Rightarrow> b_halted b \<and> q_closed (b_outbound b) \<and> b_worker b = W_done
      | E_halt_close_inbound \<Rightarrow> b_halted b \<and> q_closed (b_outbound b) \<and> b_worker b = W_done \<and> q_items (b_inbound b) = []
      | E_halt_reset \<Rightarrow> b_halted b \<and> q_closed (b_outbound b) \<and> b_worker b = W_done
          \<and> q_items (b_inbound b) = [] \<and> q_closed (b_inbound b)
      | E_idle result \<Rightarrow> b_halted b \<longrightarrow> q_closed (b_outbound b) \<and> b_worker b = W_done
          \<and> q_items (b_inbound b) = [] \<and> q_closed (b_inbound b) \<and> b_known b = {} \<and> b_active b = []
          \<and> b_cancelled_published b = {}
      | _ \<Rightarrow> \<not> b_halted b)"

lemma flow_halt_reset:
  "flow_ok k b \<Longrightarrow> halt_ok b \<Longrightarrow> b_engine b = E_halt_reset \<Longrightarrow> flow_ok k (halt_reset b)"
  by (auto simp: halt_reset_def halt_ok_def reply_def flow_defs registered_def)

lemma flow_engine_begin:
  "flow_ok k b \<Longrightarrow> b_engine b = E_idle x \<Longrightarrow> flow_ok k (engine_begin call b)"
  by (cases call)
    (simp_all add: flow_begin_enqueue flow_poll flow_begin_cancel flow_begin_cancel_generation flow_begin_halt)

lemmas flow_engine_sections =
  flow_enqueue_register flow_enqueue_push flow_enqueue_unregister flow_enqueue_forget flow_cancel_find
  flow_cancel_publish flow_cancel_interrupt flow_generation_erase_outbound flow_generation_rest
  flow_halt flow_halt_reset

lemma flow_engine_step:
  assumes "flow_ok k b" "active_ok b" "halt_ok b"
  shows "pred_option (flow_ok k) (engine_step b)"
  using assms by (cases "b_engine b") (simp_all add: engine_step_def halt_join_def flow_engine_sections)

section \<open>Every section of the worker preserves it\<close>

lemma worker_pop_cases:
  assumes "worker_pop b = Some b'"
  obtains "q_items (b_outbound b) = []" "q_closed (b_outbound b)" "b' = b\<lparr>b_worker := W_done\<rparr>"
  | r rs where "q_items (b_outbound b) = r # rs"
    "b' = b\<lparr>b_outbound := (b_outbound b)\<lparr>q_items := rs\<rparr>, b_worker := W_popped r\<rparr>"
  using assms
  by (cases "q_items (b_outbound b)")
    (auto simp: worker_pop_def wait_pop_def wait_pop_ready_def try_pop_def split: if_splits)

lemma flow_worker_pop:
  assumes "flow_ok k b" "b_worker b = W_wait" "worker_pop b = Some b'"
  shows "flow_ok k b'"
  using assms(3)
proof (cases rule: worker_pop_cases)
  case 1
  from 1(3) show ?thesis using assms(1,2) by (simp add: flow_defs registered_def)
next
  case (2 r rs)
  from 2(2) show ?thesis
    using assms(1,2) 2(1) by (cases "out_id r = k") (auto simp: flow_defs registered_def)
qed

lemma flow_worker_popped:
  "flow_ok k b \<Longrightarrow> b_worker b = W_popped r \<Longrightarrow>
   flow_ok k (b\<lparr>b_worker := if b_halted b then W_done else W_token r\<rparr>)"
  by (cases "out_id r = k"; cases "b_halted b") (auto simp: flow_defs registered_def)

lemma worker_token_cases:
  obtains "worker_token r b = b\<lparr>b_worker := W_withdraw r\<rparr>"
  | i where "registry_token (out_id r) (b_cancellations b) = Some i" "\<not> stop_requested (b_cancellations b) i"
    "worker_token r b = b\<lparr>b_worker := W_generation r i\<rparr>"
proof (cases "registry_token (out_id r) (b_cancellations b)")
  case None
  then show thesis by (intro that(1)) (simp add: worker_token_def)
next
  case (Some i)
  then show thesis
    using that by (cases "stop_requested (b_cancellations b) i") (simp_all add: worker_token_def)
qed

lemma flow_worker_token:
  assumes "flow_ok k b" "b_worker b = W_token r"
  shows "flow_ok k (worker_token r b)"
  by (cases rule: worker_token_cases [of r b])
    (use assms in \<open>cases "out_id r = k"; simp add: flow_defs registered_def\<close>)+

lemma flow_worker_withdraw:
  "flow_ok k b \<Longrightarrow> b_worker b = W_withdraw r \<Longrightarrow> flow_ok k (worker_withdraw r b)"
  by (cases "out_id r = k") (auto simp: worker_withdraw_def flow_defs registered_def)

lemma flow_worker_publish:
  "flow_ok k b \<Longrightarrow> b_worker b = W_publish r \<Longrightarrow>
   flow_ok k ((publish_cancelled r b)\<lparr>b_worker := W_complete r\<rparr>)"
  by (cases "out_id r = k") (auto simp: publish_cancelled_def cancelled_result_def flow_defs registered_def)

lemma flow_worker_generation:
  "flow_ok k b \<Longrightarrow> b_worker b = W_generation r i \<Longrightarrow>
   flow_ok k (b\<lparr>b_worker := if current then W_activate r i else W_complete r\<rparr>)"
  by (cases "out_id r = k"; cases current) (auto simp: flow_defs registered_def)

lemma flow_worker_activate:
  "flow_ok k b \<Longrightarrow> b_worker b = W_activate r i \<Longrightarrow> flow_ok k (worker_activate r i b)"
  by (cases "out_id r = k") (auto simp: worker_activate_def flow_defs registered_def)

lemma flow_worker_execute:
  "flow_ok k b \<Longrightarrow> b_worker b = W_execute r i \<Longrightarrow> flow_ok k (b\<lparr>b_worker := W_executed r i response\<rparr>)"
  "flow_ok k b \<Longrightarrow> b_worker b = W_executed r i response \<Longrightarrow> flow_ok k (b\<lparr>b_worker := W_read r response c\<rparr>)"
  by (cases "out_id r = k"; auto simp: flow_defs registered_def)+

lemma flow_worker_retire:
  "flow_ok k b \<Longrightarrow> b_worker b = W_read r response c \<Longrightarrow> flow_ok k (worker_retire r response c b)"
  by (cases "out_id r = k") (auto simp: worker_retire_def flow_defs registered_def)

lemma verdict_pushes_own:
  "worker_verdict gs r response c a = V_push x \<Longrightarrow> in_request x = out_id r"
  by (auto simp: worker_verdict_def response_matches_def failure_result_def split: if_splits sum.splits)

lemma verdict_cancelled: "worker_verdict gs r response c a = V_cancelled \<longleftrightarrow> c \<and> \<not> a"
  by (auto simp: worker_verdict_def split: sum.splits)

lemma flow_worker_decide:
  assumes "flow_ok k b" "b_worker b = W_decide r response c a"
  shows "flow_ok k (worker_decide r response c a b)"
proof (cases "worker_verdict (b_generation b) r response c a")
  case V_cancelled
  then have "worker_decide r response c a b = b\<lparr>b_worker := W_publish r\<rparr>" "c \<and> \<not> a"
    using verdict_cancelled [of "b_generation b" r response c a] by (simp_all add: worker_decide_def)
  with assms show ?thesis by (cases "out_id r = k") (simp_all add: flow_defs registered_def)
next
  case (V_push x)
  then have "worker_decide r response c a b = b\<lparr>b_worker := W_push r x\<rparr>" "in_request x = out_id r"
    using verdict_pushes_own [OF V_push] by (simp_all add: worker_decide_def)
  with V_push verdict_cancelled [of "b_generation b" r response c a] assms
  show ?thesis by (cases "out_id r = k") (auto simp add: flow_defs registered_def)
next
  case V_nothing
  then have "worker_decide r response c a b = b\<lparr>b_worker := W_complete r\<rparr>" by (simp add: worker_decide_def)
  with V_nothing verdict_cancelled [of "b_generation b" r response c a] assms
  show ?thesis by (cases "out_id r = k") (auto simp add: flow_defs registered_def)
qed

lemma flow_worker_push:
  "flow_ok k b \<Longrightarrow> b_worker b = W_push r x \<Longrightarrow> flow_ok k (worker_push r x b)"
  by (cases "in_request x = k") (auto simp: worker_push_def flow_defs registered_def)

lemma engine_token_False [simp]: "engine_token k pc False"
  by (cases pc) simp_all

lemma flow_worker_complete:
  "flow_ok k b \<Longrightarrow> b_worker b = W_complete r \<Longrightarrow> flow_ok k (worker_complete r b)"
  by (cases "out_id r = k") (auto simp: worker_complete_def flow_defs registered_def)

lemmas flow_worker_sections =
  flow_worker_popped flow_worker_token flow_worker_withdraw flow_worker_publish flow_worker_generation
  flow_worker_activate flow_worker_execute flow_worker_retire flow_worker_decide flow_worker_push
  flow_worker_complete

lemma flow_worker_step:
  assumes "flow_ok k b"
  shows "pred_option (flow_ok k) (worker_step response b)"
proof (cases "b_worker b = W_wait")
  case True
  with assms flow_worker_pop show ?thesis
    by (cases "worker_pop b") (auto simp: worker_step_def)
next
  case False
  with assms show ?thesis
    by (cases "b_worker b") (simp_all add: worker_step_def flow_worker_sections)
qed

section \<open>The other parts of the invariant\<close>

text \<open>What each section leaves alone.\<close>

lemma begin_enqueue_frame [simp]:
  "b_active (begin_enqueue now r b) = b_active b" "b_worker (begin_enqueue now r b) = b_worker b"
  "b_outbound (begin_enqueue now r b) = b_outbound b" "b_inbound (begin_enqueue now r b) = b_inbound b"
  "b_halted (begin_enqueue now r b) = b_halted b" "b_cancellations (begin_enqueue now r b) = b_cancellations b"
  "b_cancelled_published (begin_enqueue now r b) = b_cancelled_published b"
  by (cases rule: begin_enqueue_cases [of now r b]; simp add: reply_def)+

lemma begin_cancel_frame [simp]:
  "b_active (begin_cancel k b) = b_active b" "b_worker (begin_cancel k b) = b_worker b"
  "b_outbound (begin_cancel k b) = b_outbound b" "b_inbound (begin_cancel k b) = b_inbound b"
  "b_halted (begin_cancel k b) = b_halted b" "b_known (begin_cancel k b) = b_known b"
  "b_cancelled_published (begin_cancel k b) = b_cancelled_published b"
  by (simp_all add: begin_cancel_def reply_def split: prod.splits bool.splits)

lemma active_engine_begin: "active_ok b \<Longrightarrow> active_ok (engine_begin call b)"
  by (cases call)
    (simp_all add: active_ok_def poll_def drain_eq begin_cancel_generation_def begin_halt_def reply_def)

lemmas engine_section_defs =
  enqueue_register_def enqueue_push_def enqueue_unregister_def enqueue_forget_def cancel_find_def
  cancel_publish_def publish_cancelled_def cancel_interrupt_def generation_erase_outbound_def
  generation_erase_inbound_def generation_collect_def generation_finish_def halt_invalidate_def
  halt_cancel_all_def halt_collect_def halt_interrupt_def halt_close_def halt_join_def
  halt_clear_inbound_def halt_close_inbound_def halt_reset_def reply_def

lemmas worker_section_defs =
  worker_token_def worker_withdraw_def publish_cancelled_def worker_activate_def worker_retire_def
  worker_decide_def worker_push_def worker_complete_def

lemma active_engine_step: "active_ok b \<Longrightarrow> halt_ok b \<Longrightarrow> pred_option active_ok (engine_step b)"
  by (cases "b_engine b")
    (simp_all add: engine_step_def engine_section_defs active_ok_def halt_ok_def invalidate_def
      split: prod.split sum.split option.split)

lemma active_worker_step:
  assumes "active_ok b"
  shows "pred_option active_ok (worker_step response b)"
proof (cases "b_worker b = W_wait")
  case True
  with assms show ?thesis
    by (cases "worker_pop b") (auto simp: worker_step_def active_ok_def elim: worker_pop_cases)
next
  case False
  with assms show ?thesis
    by (cases "b_worker b")
      (simp_all add: worker_step_def worker_section_defs active_ok_def emplace_def erase_key_def
        split: option.split verdict.split)
qed

lemma halt_engine_begin: "halt_ok b \<Longrightarrow> b_engine b = E_idle x \<Longrightarrow> halt_ok (engine_begin call b)"
proof (cases call)
  case (Call_enqueue now r)
  assume "halt_ok b" "b_engine b = E_idle x"
  with Call_enqueue show ?thesis
    by (cases rule: begin_enqueue_cases [of now r b]) (simp_all add: halt_ok_def reply_def)
next
  case (Call_cancel k)
  assume "halt_ok b" "b_engine b = E_idle x"
  with Call_cancel show ?thesis
    by (cases "b_halted b")
      (simp_all add: halt_ok_def begin_cancel_def reply_def split: prod.splits bool.splits)
qed (simp_all add: halt_ok_def poll_def drain_eq begin_cancel_generation_def begin_halt_def reply_def)

lemma halt_engine_step: "halt_ok b \<Longrightarrow> pred_option halt_ok (engine_step b)"
  by (cases "b_engine b")
    (simp_all add: engine_step_def engine_section_defs halt_ok_def invalidate_def close_queue_def clear_queue_def
      split: prod.split sum.split option.split)

lemma try_push_closed [simp]: "q_closed (fst (try_push x c q)) = q_closed q"
  by (simp add: try_push_def Let_def)

lemma halt_worker_frame:
  assumes "halt_ok b" "b_worker b \<noteq> W_done"
    and "b_engine b' = b_engine b" "b_halted b' = b_halted b" "q_closed (b_outbound b') = q_closed (b_outbound b)"
  shows "halt_ok b'"
  using assms by (cases "b_engine b") (simp_all add: halt_ok_def)

lemma halt_worker_step: "halt_ok b \<Longrightarrow> pred_option halt_ok (worker_step response b)"
proof (cases "b_worker b = W_wait")
  case True
  assume "halt_ok b"
  with True show ?thesis
    by (cases "worker_pop b") (auto simp: worker_step_def elim!: worker_pop_cases intro: halt_worker_frame)
next
  case False
  assume h: "halt_ok b"
  with False show ?thesis
    by (cases "b_worker b")
      (simp_all add: worker_step_def worker_section_defs halt_worker_frame [OF h] split: option.split verdict.split)
qed

text \<open>The sizes of the queues, and that the inbound queue holds only what was offered.\<close>

definition queue_ok :: "bridge \<Rightarrow> bool" where
  "queue_ok b \<longleftrightarrow>
     q_capacity (b_outbound b) = kOutboundCapacity \<and> q_reserved_control (b_outbound b) = kReservedControlCapacity
     \<and> length (q_items (b_outbound b)) \<le> kOutboundCapacity - kReservedControlCapacity
     \<and> q_capacity (b_inbound b) = kInboundCapacity \<and> q_reserved_control (b_inbound b) = kReservedControlCapacity
     \<and> length (q_items (b_inbound b)) \<le> kInboundCapacity
     \<and> set (q_items (b_inbound b)) \<subseteq> snd ` set (b_offered b)"

lemma try_push_items:
  "set (q_items (fst (try_push x c q))) \<subseteq> insert x (set (q_items q))"
  "length (q_items q) \<le> q_capacity q \<Longrightarrow> length (q_items (fst (try_push x c q))) \<le> q_capacity q"
  "length (q_items q) \<le> q_capacity q - q_reserved_control q \<Longrightarrow>
   length (q_items (fst (try_push x False q))) \<le> q_capacity q - q_reserved_control q"
  by (auto simp: try_push_def Let_def)

lemma queue_offer:
  assumes "queue_ok b" "b_outbound b' = b_outbound b"
    and "b_inbound b' = fst (try_push x c (b_inbound b))" "b_offered b' = b_offered b @ [(p, x)]"
  shows "queue_ok b'"
  using assms try_push_items(1) [of x c "b_inbound b"] try_push_items(2) [of "b_inbound b" x c]
  by (auto simp: queue_ok_def)

lemma queue_shrink:
  assumes "queue_ok b" "b_offered b' = b_offered b"
    and "q_capacity (b_outbound b') = q_capacity (b_outbound b)"
    "q_reserved_control (b_outbound b') = q_reserved_control (b_outbound b)"
    "length (q_items (b_outbound b')) \<le> length (q_items (b_outbound b))"
    and "q_capacity (b_inbound b') = q_capacity (b_inbound b)"
    "q_reserved_control (b_inbound b') = q_reserved_control (b_inbound b)"
    "length (q_items (b_inbound b')) \<le> length (q_items (b_inbound b))"
    "set (q_items (b_inbound b')) \<subseteq> set (q_items (b_inbound b))"
  shows "queue_ok b'"
  using assms by (auto simp: queue_ok_def)

lemma begin_enqueue_offered [simp]: "b_offered (begin_enqueue now r b) = b_offered b"
  by (cases rule: begin_enqueue_cases [of now r b]; simp add: reply_def)

lemma begin_cancel_offered [simp]: "b_offered (begin_cancel k b) = b_offered b"
  by (simp add: begin_cancel_def reply_def split: prod.splits bool.splits)

lemma queue_engine_begin: "queue_ok b \<Longrightarrow> queue_ok (engine_begin call b)"
proof (cases call)
  case (Call_poll n)
  assume "queue_ok b"
  then show ?thesis
    by (rule queue_shrink) (simp_all add: Call_poll poll_def drain_eq reply_def set_drop_subset)
qed (auto elim: queue_shrink simp: begin_cancel_generation_def begin_halt_def reply_def)

lemma queue_enqueue_push: "queue_ok b \<Longrightarrow> queue_ok (enqueue_push r b)"
proof -
  assume q: "queue_ok b"
  obtain queue y where t: "try_push r False (b_outbound b) = (queue, y)" by (cases "try_push r False (b_outbound b)")
  show ?thesis
    using q try_push_items(3) [of "b_outbound b" r] try_push_capacity [of r False "b_outbound b"]
    by (cases y) (simp_all add: enqueue_push_def t reply_def queue_ok_def)
qed

lemma queue_engine_step:
  assumes "queue_ok b"
  shows "pred_option queue_ok (engine_step b)"
proof (cases "(\<exists>r. b_engine b = E_push r) \<or> (\<exists>r. b_engine b = E_publish r)")
  case True
  then show ?thesis
    using assms
    by (elim disjE exE)
      (auto simp: engine_step_def queue_enqueue_push cancel_publish_def publish_cancelled_def elim: queue_offer)
next
  case False
  have "queue_ok b'" if "engine_step b = Some b'" for b'
    using assms
  proof (rule queue_shrink)
  qed (use False that in \<open>cases "b_engine b"; force simp: engine_step_def engine_section_defs erase_if_def Let_def
    close_queue_def clear_queue_def split: prod.splits sum.splits option.splits if_splits\<close>)+
  then show ?thesis by (simp add: pred_option_def)
qed

lemma queue_worker_step:
  assumes "queue_ok b"
  shows "pred_option queue_ok (worker_step response b)"
proof (cases "worker_step response b")
  case (Some b')
  consider r where "b_worker b = W_publish r" | r x where "b_worker b = W_push r x" | "b_worker b = W_wait"
    | "\<not> (\<exists>r. b_worker b = W_publish r) \<and> \<not> (\<exists>r x. b_worker b = W_push r x) \<and> b_worker b \<noteq> W_wait"
    by blast
  then have "queue_ok b'"
  proof cases
    case 1
    with Some assms show ?thesis by (auto simp: worker_step_def publish_cancelled_def elim: queue_offer)
  next
    case 2
    with Some assms show ?thesis by (auto simp: worker_step_def worker_push_def elim: queue_offer)
  next
    case 3
    with Some have "worker_pop b = Some b'" by (simp add: worker_step_def)
    then show ?thesis
      using assms by (cases rule: worker_pop_cases) (auto elim: queue_shrink)
  next
    case 4
    with Some have "b_outbound b' = b_outbound b \<and> b_inbound b' = b_inbound b \<and> b_offered b' = b_offered b"
      by (cases "b_worker b")
        (auto simp: worker_step_def worker_section_defs split: option.splits if_splits)
    with assms show ?thesis by (simp add: queue_ok_def)
  qed
  with Some show ?thesis by simp
qed simp

text \<open>Every request the service holds is registered.\<close>

definition token_ok :: "RequestId \<Rightarrow> bridge \<Rightarrow> bool" where
  "token_ok k b \<longleftrightarrow>
     ((\<exists>r. b_engine b = E_push r \<and> out_id r = k) \<or> 0 < queued k b \<or> worker_id (b_worker b) = Some k
       \<longrightarrow> registered k b)"

lemma token_frame:
  assumes "token_ok k b" "b_engine b' = b_engine b \<or> \<not> (\<exists>r. b_engine b' = E_push r)" "queued k b' \<le> queued k b"
    "worker_id (b_worker b') = Some k \<longrightarrow> worker_id (b_worker b) = Some k"
    "registered k b \<longrightarrow> registered k b'"
  shows "token_ok k b'"
  using assms by (auto simp: token_ok_def)

lemma token_engine_begin: "token_ok k b \<Longrightarrow> b_engine b = E_idle x \<Longrightarrow> token_ok k (engine_begin call b)"
proof (cases call)
  case (Call_enqueue now r)
  assume "token_ok k b" "b_engine b = E_idle x"
  with Call_enqueue show ?thesis
    by (cases rule: begin_enqueue_cases [of now r b])
      (simp_all add: token_ok_def reply_def queued_def registered_def)
next
  case (Call_cancel k')
  assume "token_ok k b" "b_engine b = E_idle x"
  moreover obtain registry y where t: "cancel_request k' (b_cancellations b) = (registry, y)"
    by (cases "cancel_request k' (b_cancellations b)")
  moreover have "reg_entries registry = reg_entries (b_cancellations b)"
    using reg_entries_cancel [of k' "b_cancellations b"] by (simp add: t)
  ultimately show ?thesis
    using Call_cancel
    by (cases "b_halted b"; cases y)
      (simp_all add: begin_cancel_def token_ok_def reply_def queued_def registered_def)
qed (auto simp: token_ok_def poll_def drain_eq begin_cancel_generation_def begin_halt_def reply_def
    queued_def registered_def)

lemma token_enqueue_register:
  assumes "token_ok k b" "b_engine b = E_register r"
  shows "token_ok k (enqueue_register r b)"
proof -
  obtain registry y where t: "register_request (out_id r) (out_generation r) (b_cancellations b) = (registry, y)"
    by (cases "register_request (out_id r) (out_generation r) (b_cancellations b)")
  from reg_entries_register [OF t] assms show ?thesis
    by (cases y) (auto simp: enqueue_register_def t token_ok_def queued_def registered_def)
qed

lemma token_enqueue_push:
  assumes "token_ok k b" "b_engine b = E_push r"
  shows "token_ok k (enqueue_push r b)"
  using assms
  by (cases "out_id r = k")
    (auto simp: enqueue_push_def try_push_def Let_def token_ok_def queued_def registered_def reply_def)

lemma token_enqueue_unregister:
  assumes "token_ok k b" "flow_ok k b" "b_engine b = E_unregister k' e"
  shows "token_ok k (enqueue_unregister k' e b)"
  using assms
  by (cases "k' = k") (simp_all add: enqueue_unregister_def token_ok_def flow_ok_def presence_def queued_def registered_def)

lemma token_engine_step:
  assumes "token_ok k b" "flow_ok k b"
  shows "pred_option (token_ok k) (engine_step b)"
proof (cases "(\<exists>r. b_engine b = E_register r) \<or> (\<exists>r. b_engine b = E_push r)")
  case True
  then show ?thesis
    using assms by (auto simp: engine_step_def token_enqueue_register token_enqueue_push)
next
  case False
  have "token_ok k b'" if s: "engine_step b = Some b'" for b'
  proof (cases "\<exists>k' e. b_engine b = E_unregister k' e")
    case True
    with s assms show ?thesis by (auto simp: engine_step_def token_enqueue_unregister)
  next
    case unreg: False
    show ?thesis
    proof (rule token_frame [OF assms(1)])
      show "queued k b' \<le> queued k b"
        using False unreg s
        by (cases "b_engine b")
          (auto simp: engine_step_def engine_section_defs queued_def invalidate_def close_queue_def queued_erase_if
            split: option.splits if_splits)
    qed (use False unreg s in \<open>cases "b_engine b"; auto simp: engine_step_def engine_section_defs invalidate_def
      registered_def split: option.splits if_splits\<close>)+
  qed
  then show ?thesis by (simp add: pred_option_def)
qed

lemma token_worker_complete:
  assumes "token_ok k b" "flow_ok k b" "b_worker b = W_complete r"
  shows "token_ok k (worker_complete r b)"
  using assms
  by (cases "out_id r = k")
    (auto simp: worker_complete_def token_ok_def flow_ok_def presence_def queued_def registered_def)

lemma token_worker_step:
  assumes "token_ok k b" "flow_ok k b"
  shows "pred_option (token_ok k) (worker_step response b)"
proof (cases "worker_step response b")
  case (Some b')
  consider r where "b_worker b = W_complete r" | "b_worker b = W_wait"
    | "\<not> (\<exists>r. b_worker b = W_complete r) \<and> b_worker b \<noteq> W_wait"
    by blast
  then have "token_ok k b'"
  proof cases
    case 1
    with Some assms show ?thesis by (auto simp: worker_step_def token_worker_complete)
  next
    case 2
    with Some have "worker_pop b = Some b'" by (simp add: worker_step_def)
    then show ?thesis
      using assms(1)
      by (cases rule: worker_pop_cases) (auto simp: token_ok_def queued_def registered_def split: if_splits)
  next
    case 3
    show ?thesis
      by (rule token_frame [OF assms(1)];
          use 3 Some assms(1) in \<open>cases "b_worker b"; auto simp: worker_step_def worker_section_defs token_ok_def
            queued_def registered_def split: option.splits verdict.splits if_splits\<close>)
  qed
  with Some show ?thesis by simp
qed simp

text \<open>The queues are closed by \<open>halt\<close> only.\<close>

definition open_ok :: "bridge \<Rightarrow> bool" where
  "open_ok b \<longleftrightarrow> b_halted b \<or> (\<not> q_closed (b_outbound b) \<and> \<not> q_closed (b_inbound b))"

lemma open_engine_begin: "open_ok b \<Longrightarrow> open_ok (engine_begin call b)"
  by (cases call)
    (auto simp: open_ok_def poll_def drain_eq begin_cancel_generation_def begin_halt_def reply_def)

lemma open_engine_step:
  assumes "open_ok b" "halt_ok b"
  shows "pred_option open_ok (engine_step b)"
proof (cases "\<exists>r. b_engine b = E_push r")
  case True
  then obtain r queue y where r: "b_engine b = E_push r" "try_push r False (b_outbound b) = (queue, y)"
    by (metis surj_pair)
  moreover have "q_closed queue = q_closed (b_outbound b)"
    using try_push_closed [of r False "b_outbound b"] r(2) by simp
  ultimately show ?thesis
    using assms(1) by (cases y) (simp_all add: engine_step_def enqueue_push_def reply_def open_ok_def)
next
  case False
  with assms show ?thesis
    by (cases "b_engine b")
      (simp_all add: engine_step_def engine_section_defs open_ok_def halt_ok_def invalidate_def close_queue_def
        clear_queue_def erase_if_def Let_def split: prod.split sum.split option.split)
qed

lemma open_worker_step:
  assumes "open_ok b"
  shows "pred_option open_ok (worker_step response b)"
proof (cases "b_worker b = W_wait")
  case True
  with assms show ?thesis
    by (cases "worker_pop b") (auto simp: worker_step_def open_ok_def elim: worker_pop_cases)
next
  case False
  with assms show ?thesis
    by (cases "b_worker b")
      (simp_all add: worker_step_def worker_section_defs open_ok_def split: option.split verdict.split)
qed

section \<open>Reachable states\<close>

definition bridge_inv :: "bridge \<Rightarrow> bool" where
  "bridge_inv b \<longleftrightarrow>
     active_ok b \<and> halt_ok b \<and> queue_ok b \<and> open_ok b \<and> (\<forall>k. flow_ok k b \<and> token_ok k b)"

lemma bridge_inv_new: "bridge_inv (bridge_new g)"
  unfolding bridge_inv_def
  by (intro conjI allI flow_ok_new)
    (simp_all add: bridge_new_def active_ok_def halt_ok_def queue_ok_def open_ok_def token_ok_def outbound_queue_new_def
      inbound_queue_new_def queued_def)

lemma bridge_inv_step:
  assumes "bridge_step b b'" "bridge_inv b"
  shows "bridge_inv b'"
  using assms(1)
proof cases
  case (calls x call)
  with assms(2) show ?thesis
    by (simp add: bridge_inv_def active_engine_begin halt_engine_begin queue_engine_begin open_engine_begin flow_engine_begin
        token_engine_begin)
next
  case engine_moves
  with assms(2) show ?thesis
    using active_engine_step [of b] halt_engine_step [of b] queue_engine_step [of b] open_engine_step [of b]
      flow_engine_step [of _ b] token_engine_step [of _ b]
    by (simp add: bridge_inv_def)
next
  case (worker_moves response)
  with assms(2) show ?thesis
    using active_worker_step [of b response] halt_worker_step [of b response] queue_worker_step [of b response] open_worker_step [of b response]
      flow_worker_step [of _ b response] token_worker_step [of _ b response]
    by (simp add: bridge_inv_def)
qed

lemma bridge_reachable_inv: "bridge_reachable g b \<Longrightarrow> bridge_inv b"
  by (induction rule: bridge_reachable.induct) (auto intro: bridge_inv_new bridge_inv_step)

lemma bridge_reachable_flow: "bridge_reachable g b \<Longrightarrow> flow_ok k b"
  using bridge_reachable_inv by (simp add: bridge_inv_def)

end
