(* ===== verification/Bridge_Props.thy ===== *)
theory Bridge_Props
  imports Bridge_Invariant
begin

text \<open>
  What the interleaved bridge guarantees: each request is answered at most once by each of the
  two publishing statements, the queues stay within their bounds, results reach the engine
  thread only for known requests of the current generation, and \<open>halt\<close> returns. The theorems
  on the race of \<open>cancel\<close> and on abandoned registrations show what it does not guarantee.
\<close>

section \<open>At most one publication\<close>

text \<open>C1. However the engine thread and the worker interleave and whatever the transport
  returns, a request is cancelled towards the engine at most once, gets at most one other
  result, and gets none unless the engine enqueued it.\<close>

theorem bridge_publishes_at_most_once:
  assumes "bridge_reachable g b"
  shows "offered Pub_cancelled k b \<le> 1 \<and> offered Pub_result k b \<le> 1
    \<and> (b_halted b \<or> k \<in> b_known b \<or> offered Pub_cancelled k b + offered Pub_result k b = 0)"
  using bridge_reachable_flow [OF assms, of k]
  by (auto simp: flow_ok_def cancels_def results_def traceless_def)

section \<open>Bounds\<close>

lemma worker_active_length: "length (worker_active pc) \<le> 1"
  by (cases pc) simp_all

text \<open>The bounds of the service: at most 28 requests are queued (the control reserve of the
  outbound queue is never used), at most 128 results wait, and at most one request is active.\<close>

theorem bridge_bounds:
  assumes "bridge_reachable g b"
  shows "bd_outbound (diagnostics b) \<le> 28 \<and> bd_inbound (diagnostics b) \<le> 128 \<and> bd_active (diagnostics b) \<le> 1"
  using bridge_reachable_inv [OF assms] worker_active_length [of "b_worker b"]
  by (simp add: bridge_inv_def queue_ok_def active_ok_def diagnostics_def queue_size_def kOutboundCapacity_def
      kReservedControlCapacity_def kInboundCapacity_def)

section \<open>Delivery\<close>

text \<open>C21. A call of \<open>poll\<close> returns at most the number of results asked for, each of the current
  generation, each offered by the worker or by \<open>cancel\<close> and each for a request the engine
  enqueued.\<close>

theorem poll_returns_current_results:
  assumes "bridge_reachable g b" and "b_engine b = E_idle x"
    and "b_engine (engine_begin (Call_poll n) b) = E_idle (Some (R_poll items))"
    and "result \<in> set items"
  shows "length items \<le> n \<and> in_generation result = generation_current (b_generation b)
    \<and> result \<in> snd ` set (b_offered b) \<and> in_request result \<in> b_known b"
proof -
  let ?queued = "q_items (b_inbound b)"
  have inv: "bridge_inv b" using assms(1) by (rule bridge_reachable_inv)
  have items: "items = filter (\<lambda>r. in_generation r = generation_current (b_generation b))
      (take (min n kInboundCapacity) ?queued)"
    using assms(3) by (simp add: poll_def drain_eq reply_def)
  then have "length items \<le> n" by (simp add: le_trans [OF length_filter_le])
  moreover have q: "result \<in> set ?queued" "in_generation result = generation_current (b_generation b)"
    using assms(4) items by (auto dest: in_set_takeD)
  moreover have o: "result \<in> snd ` set (b_offered b)" using inv q(1) by (auto simp: bridge_inv_def queue_ok_def)
  moreover have "in_request result \<in> b_known b"
  proof -
    have "\<not> b_halted b" using inv assms(2) q(1) by (auto simp: bridge_inv_def halt_ok_def)
    moreover have "0 < offered Pub_cancelled (in_request result) b + offered Pub_result (in_request result) b"
    proof -
      obtain p where "(p, result) \<in> set (b_offered b)" using o by auto
      then show ?thesis
        by (cases p) (force simp: offered_def filter_empty_conv)+
    qed
    ultimately show ?thesis
      using bridge_reachable_flow [OF assms(1), of "in_request result"]
      by (auto simp: flow_ok_def cancels_def results_def traceless_def)
  qed
  ultimately show ?thesis by simp
qed

section \<open>Halting\<close>

text \<open>How many sections the worker still enters once the service is halting.\<close>

fun worker_rank :: "worker_pc \<Rightarrow> nat" where
  "worker_rank W_done = 0"
| "worker_rank (W_popped r) = 1"
| "worker_rank W_wait = 2"
| "worker_rank (W_complete r) = 3"
| "worker_rank (W_publish r) = 4"
| "worker_rank (W_push r x) = 4"
| "worker_rank (W_withdraw r) = 5"
| "worker_rank (W_decide r res c a) = 5"
| "worker_rank (W_read r res c) = 6"
| "worker_rank (W_executed r i res) = 7"
| "worker_rank (W_execute r i) = 8"
| "worker_rank (W_activate r i) = 9"
| "worker_rank (W_generation r i) = 10"
| "worker_rank (W_token r) = 11"

text \<open>The worker alone, with what the transport returns at each of its sections.\<close>

fun worker_run :: "inbound_result result list \<Rightarrow> bridge \<Rightarrow> bridge" where
  "worker_run [] b = b"
| "worker_run (x # xs) b = (case worker_step x b of None \<Rightarrow> b | Some b' \<Rightarrow> worker_run xs b')"

lemma worker_run_reachable: "bridge_reachable g b \<Longrightarrow> bridge_reachable g (worker_run xs b)"
proof (induction xs arbitrary: b)
  case (Cons x xs)
  show ?case
  proof (cases "worker_step x b")
    case (Some b')
    then show ?thesis
      using Cons.IH [OF bridge_reachable.steps [OF Cons.prems bridge_step.worker_moves [OF Some]]] by simp
  qed (simp add: Cons.prems)
qed simp

lemma halting_worker_step:
  assumes "b_halted b" "q_closed (b_outbound b)" "b_worker b \<noteq> W_done"
  obtains b' where "worker_step x b = Some b'" "worker_rank (b_worker b') < worker_rank (b_worker b)"
    "b_halted b'" "q_closed (b_outbound b')" "b_engine b' = b_engine b"
proof (cases "b_worker b = W_wait")
  case True
  then show thesis
    using assms that
    by (cases "q_items (b_outbound b)")
      (auto simp: worker_step_def worker_pop_def wait_pop_def wait_pop_ready_def try_pop_def)
next
  case False
  have "\<exists>b'. worker_step x b = Some b' \<and> worker_rank (b_worker b') < worker_rank (b_worker b)
      \<and> b_halted b' \<and> q_closed (b_outbound b') \<and> b_engine b' = b_engine b"
    using False assms
    by (cases "b_worker b")
      (simp_all add: worker_step_def worker_section_defs split: option.split verdict.split)
  with that show thesis by blast
qed

lemma halting_worker_run:
  assumes "b_halted b" "q_closed (b_outbound b)" "worker_rank (b_worker b) \<le> length xs"
  shows "b_worker (worker_run xs b) = W_done \<and> b_engine (worker_run xs b) = b_engine b"
  using assms
proof (induction xs arbitrary: b)
  case Nil
  then show ?case by (cases "b_worker b") simp_all
next
  case (Cons x xs)
  show ?case
  proof (cases "b_worker b = W_done")
    case True
    then show ?thesis by (simp add: worker_step_def)
  next
    case False
    with Cons.prems obtain b' where b': "worker_step x b = Some b'"
      "worker_rank (b_worker b') < worker_rank (b_worker b)" "b_halted b'" "q_closed (b_outbound b')"
      "b_engine b' = b_engine b"
      using halting_worker_step by metis
    with Cons.prems Cons.IH [of b'] show ?thesis by simp
  qed
qed

lemma worker_rank_bound: "worker_rank pc \<le> 11"
  by (cases pc) simp_all


section \<open>Enqueue run without interference\<close>

lemma enqueue_registers:
  assumes "bridge_inv b" "\<not> b_halted b" "out_id request \<notin> b_known b"
    and valid: "is_ok (validate_request now (generation_current (b_generation b)) request)"
  obtains registry where "engine_complete (Call_enqueue now request) b
      = engine_run 4 (b\<lparr>b_known := insert (out_id request) (b_known b), b_cancellations := registry, b_engine := E_push request\<rparr>)"
    "fst ` set (reg_entries registry) = insert (out_id request) (fst ` set (reg_entries (b_cancellations b)))"
    "out_id request \<notin> fst ` set (reg_entries (b_cancellations b))"
proof -
  let ?b1 = "b\<lparr>b_known := insert (out_id request) (b_known b), b_engine := E_register request\<rparr>"
  have new: "out_id request \<notin> fst ` set (reg_entries (b_cancellations b))"
    using assms(1-3) by (auto simp: bridge_inv_def flow_ok_def traceless_def registered_def)
  have "\<not> id_empty (out_id request)"
  proof
    assume "id_empty (out_id request)"
    then have "\<not> valid_id (out_id request)" by (simp add: valid_id_def id_empty_def is_canonical_uuid_def)
    with valid show False by (simp add: validate_request_def bad_argument_def)
  qed
  moreover have "map_of (reg_entries (b_cancellations b)) (out_id request) = None"
    using new by (simp add: map_of_eq_None_iff)
  ultimately obtain registry source where reg:
    "register_request (out_id request) (out_generation request) (b_cancellations b) = (registry, Inr source)"
    by (simp add: register_request_def emplace_def Let_def)
  have "begin_enqueue now request b = ?b1" using assms by (simp add: begin_enqueue_accepts)
  moreover have "engine_step ?b1 = Some (?b1\<lparr>b_cancellations := registry, b_engine := E_push request\<rparr>)"
    by (simp add: engine_step_def enqueue_register_def reg)
  ultimately have "engine_complete (Call_enqueue now request) b
      = engine_run 4 (b\<lparr>b_known := insert (out_id request) (b_known b), b_cancellations := registry, b_engine := E_push request\<rparr>)"
    by (simp add: engine_complete_def eval_nat_numeral)
  with reg_entries_register [OF reg] new that show thesis by simp
qed

lemma enqueue_pushes:
  assumes "b_engine b = E_push request" "\<not> q_closed (b_outbound b)" "q_capacity (b_outbound b) = 32"
    "q_reserved_control (b_outbound b) = 4"
  shows "length (q_items (b_outbound b)) < 28 \<Longrightarrow> engine_run 4 b
      = reply (R_enqueue (Inr (out_id request))) (b\<lparr>b_outbound := (b_outbound b)\<lparr>q_items := q_items (b_outbound b) @ [request]\<rparr>\<rparr>)"
    and "\<not> length (q_items (b_outbound b)) < 28 \<Longrightarrow> engine_run 4 b
      = reply (R_enqueue (Inl (make_error EC_queue_full ''queue is full'' True None None)))
          (b\<lparr>b_cancellations := complete_request (out_id request) (b_cancellations b), b_known := b_known b - {out_id request}\<rparr>)"
  using assms
  by (simp_all add: eval_nat_numeral engine_step_def enqueue_push_def try_push_def enqueue_unregister_def enqueue_forget_def
      reply_def)

text \<open>C19. \<open>enqueue\<close> is all or nothing: it accepts a request exactly when the service runs, the
  request is valid for the current generation, its identifier is new and fewer than 28
  requests are queued; then the request is last in the queue, known and registered.
  Otherwise the queue, the known identifiers and the registered identifiers are unchanged.\<close>

theorem enqueue_all_or_nothing:
  assumes "bridge_reachable g b" and "b_engine b = E_idle x"
    and "engine_complete (Call_enqueue now request) b = b'"
  shows "if \<not> b_halted b \<and> is_ok (validate_request now (generation_current (b_generation b)) request)
            \<and> out_id request \<notin> b_known b \<and> length (q_items (b_outbound b)) < 28
     then b_engine b' = E_idle (Some (R_enqueue (Inr (out_id request))))
       \<and> q_items (b_outbound b') = q_items (b_outbound b) @ [request]
       \<and> b_known b' = insert (out_id request) (b_known b) \<and> registered (out_id request) b'
     else (\<exists>e. b_engine b' = E_idle (Some (R_enqueue (Inl e)))) \<and> b_outbound b' = b_outbound b
       \<and> b_known b' = b_known b \<and> (\<forall>k. registered k b' = registered k b)"
proof (cases "\<not> b_halted b \<and> is_ok (validate_request now (generation_current (b_generation b)) request) \<and> out_id request \<notin> b_known b")
  case False
  then obtain e where "begin_enqueue now request b = reply (R_enqueue (Inl e)) b"
    using begin_enqueue_rejects [of b now request] by blast
  with False assms(3) [symmetric] show ?thesis
    by (auto simp: engine_complete_def reply_def engine_step_def eval_nat_numeral registered_def)
next
  case True
  have inv: "bridge_inv b" using assms(1) by (rule bridge_reachable_inv)
  from enqueue_registers [OF inv] True obtain registry where
    b': "b' = engine_run 4 (b\<lparr>b_known := insert (out_id request) (b_known b), b_cancellations := registry, b_engine := E_push request\<rparr>)"
      (is "_ = engine_run 4 ?b")
    and keys: "fst ` set (reg_entries registry) = insert (out_id request) (fst ` set (reg_entries (b_cancellations b)))"
      "out_id request \<notin> fst ` set (reg_entries (b_cancellations b))"
    using assms(3) by metis
  have queue: "\<not> q_closed (b_outbound b)" "q_capacity (b_outbound b) = 32" "q_reserved_control (b_outbound b) = 4"
    using inv True by (simp_all add: bridge_inv_def open_ok_def queue_ok_def kOutboundCapacity_def kReservedControlCapacity_def)
  note pushes = enqueue_pushes [of ?b request, simplified, OF queue]
  from True show ?thesis
    unfolding b' using pushes keys by (auto simp: reply_def registered_def)
qed

section \<open>Abandoned registrations\<close>

text \<open>A registered request that is neither with a thread nor queued.\<close>

definition abandoned :: "RequestId \<Rightarrow> bridge \<Rightarrow> bool" where
  "abandoned k b \<longleftrightarrow> registered k b \<and> presence k b = 0 \<and> (k \<in> b_known b \<or> b_halted b)"

lemma abandoned_engine_begin:
  assumes "abandoned k b" "b_engine b = E_idle x"
  shows "abandoned k (engine_begin call b)"
proof (cases call)
  case (Call_enqueue now r)
  with assms show ?thesis
    by (cases rule: begin_enqueue_cases [of now r b])
      (auto simp: abandoned_def registered_def presence_def queued_def reply_def)
next
  case (Call_cancel k')
  obtain registry y where t: "cancel_request k' (b_cancellations b) = (registry, y)"
    by (cases "cancel_request k' (b_cancellations b)")
  moreover have "reg_entries registry = reg_entries (b_cancellations b)"
    using reg_entries_cancel [of k' "b_cancellations b"] by (simp add: t)
  ultimately show ?thesis
    using assms Call_cancel
    by (cases "b_halted b"; cases y)
      (simp_all add: abandoned_def begin_cancel_def registered_def presence_def queued_def reply_def)
qed (use assms in \<open>auto simp: abandoned_def registered_def presence_def queued_def poll_def drain_eq begin_cancel_generation_def
    begin_halt_def reply_def\<close>)

lemma abandoned_engine_step:
  assumes "abandoned k b" "halt_ok b"
    "engine_step b = Some b'"
  shows "abandoned k b'"
proof (cases "(\<exists>r. b_engine b = E_register r) \<or> (\<exists>r. b_engine b = E_push r)")
  case True
  then consider r where "b_engine b = E_register r" | r where "b_engine b = E_push r" by blast
  then show ?thesis
  proof cases
    case (1 r)
    obtain registry y where t: "register_request (out_id r) (out_generation r) (b_cancellations b) = (registry, y)"
      by (cases "register_request (out_id r) (out_generation r) (b_cancellations b)")
    from reg_entries_register [OF t] 1 assms show ?thesis
      by (cases y) (auto simp: abandoned_def engine_step_def enqueue_register_def t registered_def presence_def queued_def)
  next
    case (2 r)
    with assms show ?thesis
      by (auto simp: abandoned_def engine_step_def enqueue_push_def try_push_def Let_def registered_def presence_def queued_def
          reply_def split: if_splits)
  qed
next
  case False
  have "queued k b' \<le> queued k b"
    using False assms(3)
    by (cases "b_engine b")
      (auto simp: engine_step_def engine_section_defs queued_def invalidate_def close_queue_def queued_erase_if
        split: option.splits if_splits)
  with assms(1) have q: "queued k b' = 0" by (simp add: abandoned_def presence_def)
  show ?thesis
    using False assms q
    by (cases "b_engine b")
      (auto simp: abandoned_def engine_step_def engine_section_defs registered_def presence_def invalidate_def
        halt_ok_def rev_image_eqI split: option.splits if_splits)
qed

lemma abandoned_worker_step:
  assumes "abandoned k b" "worker_step x b = Some b'"
  shows "abandoned k b'"
proof (cases "b_worker b = W_wait")
  case True
  with assms(2) have "worker_pop b = Some b'" by (simp add: worker_step_def)
  then show ?thesis
    using assms(1)
    by (cases rule: worker_pop_cases) (auto simp: abandoned_def registered_def presence_def queued_def split: if_splits)
next
  case False
  with assms show ?thesis
    by (cases "b_worker b")
      (auto simp: abandoned_def worker_step_def worker_section_defs registered_def presence_def queued_def
        rev_image_eqI split: option.splits verdict.splits if_splits)
qed

lemma abandoned_step:
  assumes "bridge_step b b'" "bridge_inv b" "abandoned k b"
  shows "abandoned k b'"
  using assms(1)
proof cases
  case (calls x call)
  with abandoned_engine_begin [OF assms(3)] show ?thesis by simp
next
  case engine_moves
  with abandoned_engine_step [OF assms(3)] assms(2) show ?thesis by (simp add: bridge_inv_def)
next
  case (worker_moves x)
  with abandoned_worker_step [OF assms(3)] show ?thesis by simp
qed

text \<open>C36. A registration that neither thread nor queue holds any more is never removed: no later
  step of either thread, \<open>halt\<close> included, completes it. \<open>cancelGeneration\<close> leaves such
  registrations behind for every queued request it erases.\<close>

theorem abandoned_registration_is_permanent:
  assumes "bridge_reachable g b" and "registered k b" and "presence k b = 0" and "bridge_step\<^sup>*\<^sup>* b b'"
  shows "registered k b' \<and> 1 \<le> bd_cancellations (diagnostics b')"
proof -
  have start: "abandoned k b"
    using bridge_reachable_flow [OF assms(1), of k] assms(2,3) by (auto simp: abandoned_def flow_ok_def traceless_def)
  from assms(4) have "bridge_inv b' \<and> abandoned k b'"
  proof (induction rule: rtranclp_induct)
    case base
    from assms(1) start show ?case by (simp add: bridge_reachable_inv)
  next
    case (step y z)
    then show ?case by (simp add: abandoned_step bridge_inv_step)
  qed
  moreover have "1 \<le> length (reg_entries (b_cancellations b'))" if "registered k b'"
    using that by (cases "reg_entries (b_cancellations b')") (auto simp: registered_def)
  ultimately show ?thesis by (simp add: abandoned_def diagnostics_def registry_size_def)
qed

section \<open>Sample runs\<close>

definition sample_id :: RequestId where
  "sample_id = StrongId ''0f8fad5b-d9cb-469f-a165-70867728950e''"

definition sample_request :: outbound_request where
  "sample_request = \<lparr>out_id = sample_id, out_session = StrongId [], out_generation = Generation 1,
     out_kind = RK_health, out_payload = HealthRequest\<rparr>"

definition sample_response :: inbound_result where
  "sample_response = \<lparr>in_request = sample_id, in_session = StrongId [], in_generation = Generation 1,
     in_kind = RS_status, in_payload = ''{}'', in_failure = None\<rparr>"

abbreviation sample_turn :: turn_of where
  "sample_turn \<equiv> Worker_moves (Inr sample_response)"

definition enqueued_run :: "turn_of list" where
  "enqueued_run = [Engine_calls (Call_enqueue 0 sample_request), Engine_moves, Engine_moves]"

text \<open>The engine cancels the generation before the worker takes the request.\<close>

definition abandoned_run :: "turn_of list" where
  "abandoned_run = enqueued_run @ [Engine_calls (Call_cancel_generation (Generation 1)),
     Engine_moves, Engine_moves, Engine_moves, Engine_moves]"

text \<open>The worker reads the stop flag just before \<open>cancel\<close> sets it, and retires the request
  just after \<open>cancel\<close> found it active.\<close>

definition race_run :: "turn_of list" where
  "race_run = enqueued_run @ replicate 7 sample_turn
     @ [Engine_calls (Call_cancel sample_id), Engine_moves, Engine_moves, Engine_moves]
     @ replicate 4 sample_turn"

lemma abandoned_run_result:
  "case run_schedule abandoned_run (bridge_new 1) of
     None \<Rightarrow> False
   | Some b \<Rightarrow> b_engine b = E_idle (Some (R_generation (Inr (Generation 2)))) \<and> b_worker b = W_wait
       \<and> q_items (b_outbound b) = [] \<and> b_active b = [] \<and> map fst (reg_entries (b_cancellations b)) = [sample_id]"
  by code_simp

lemma race_run_result:
  "case run_schedule race_run (bridge_new 1) of
     None \<Rightarrow> False
   | Some b \<Rightarrow> b_engine b = E_idle (Some (R_cancel (Inr ()))) \<and> b_worker b = W_wait
       \<and> q_items (b_inbound b) = [cancelled_result sample_request, sample_response]
       \<and> map fst (b_offered b) = [Pub_cancelled, Pub_result]"
  by code_simp

section \<open>The race of cancel with the worker\<close>

text \<open>C37. The engine can receive both a cancellation and a response for one request: when the
  worker reads the stop flag just before \<open>cancel\<close> sets it and retires the request just after
  \<open>cancel\<close> found it active, the flag it read sends it to the branch that publishes the
  response although \<open>m_cancelledPublished\<close> already holds the request, and the next poll
  returns both.\<close>

theorem cancel_race_delivers_both:
  "\<exists>b. bridge_reachable 1 b \<and> sample_id \<in> b_cancelled_published b
    \<and> b_engine (engine_begin (Call_poll 2) b) =
        E_idle (Some (R_poll [cancelled_result sample_request, sample_response]))"
proof -
  obtain b where b: "run_schedule race_run (bridge_new 1) = Some b"
    using race_run_result by (cases "run_schedule race_run (bridge_new 1)") auto
  then have "bridge_reachable 1 b" by (rule run_schedule_reachable [OF bridge_reachable.created])
  moreover have "case run_schedule race_run (bridge_new 1) of
      None \<Rightarrow> False
    | Some b \<Rightarrow> sample_id \<in> b_cancelled_published b
        \<and> b_engine (engine_begin (Call_poll 2) b) =
          E_idle (Some (R_poll [cancelled_result sample_request, sample_response]))"
    by code_simp
  ultimately show ?thesis using b by auto
qed

section \<open>Witnesses\<close>

definition after :: "turn_of list \<Rightarrow> bridge" where
  "after ts = the (run_schedule ts (bridge_new 1))"

lemma after_reachable:
  assumes "run_schedule ts (bridge_new 1) \<noteq> None"
  shows "bridge_reachable 1 (after ts)"
  using assms run_schedule_reachable [OF bridge_reachable.created] by (auto simp: after_def)

lemma race_reachable: "bridge_reachable 1 (after race_run)"
  by (rule after_reachable) code_simp

text \<open>The worker pushed its response before the poll.\<close>

definition answered_run :: "turn_of list" where
  "answered_run = enqueued_run @ replicate 11 sample_turn"

lemma answered_reachable: "bridge_reachable 1 (after answered_run)"
  by (rule after_reachable) code_simp

definition halting_run :: "turn_of list" where
  "halting_run = enqueued_run @ replicate 6 sample_turn @ [Engine_calls Call_halt] @ replicate 5 Engine_moves"

lemma halting_reachable: "bridge_reachable 1 (after halting_run)"
  by (rule after_reachable) code_simp

lemma abandoned_reachable: "bridge_reachable 1 (after abandoned_run)"
  by (rule after_reachable) code_simp

theorem bridge_publishes_at_most_once_witness:
  "offered Pub_cancelled sample_id (after race_run) = 1 \<and> offered Pub_cancelled sample_id (after race_run) \<le> 1"
proof -
  have "offered Pub_cancelled sample_id (after race_run) = 1" by code_simp
  then show ?thesis using bridge_publishes_at_most_once [OF race_reachable, of sample_id] by simp
qed

theorem bridge_bounds_witness:
  "bd_inbound (diagnostics (after race_run)) = 2 \<and> bd_inbound (diagnostics (after race_run)) \<le> 128"
proof -
  have "bd_inbound (diagnostics (after race_run)) = 2" by code_simp
  then show ?thesis using bridge_bounds [OF race_reachable] by simp
qed

theorem poll_returns_current_results_witness:
  "in_generation sample_response = generation_current (b_generation (after answered_run))
   \<and> in_request sample_response \<in> b_known (after answered_run)"
proof -
  have idle: "b_engine (after answered_run) = E_idle (Some (R_enqueue (Inr sample_id)))" by code_simp
  have poll: "b_engine (engine_begin (Call_poll 5) (after answered_run)) = E_idle (Some (R_poll [sample_response]))"
    by code_simp
  show ?thesis
    using poll_returns_current_results [OF answered_reachable idle poll, of sample_response] by simp
qed


theorem enqueue_all_or_nothing_witness:
  "b_engine (engine_complete (Call_enqueue 0 sample_request) (bridge_new 1)) =
     E_idle (Some (R_enqueue (Inr (out_id sample_request))))"
proof -
  have idle: "b_engine (bridge_new 1) = E_idle None" by (simp add: bridge_new_def)
  have ok: "\<not> b_halted (bridge_new 1)
      \<and> is_ok (validate_request 0 (generation_current (b_generation (bridge_new 1))) sample_request)
      \<and> out_id sample_request \<notin> b_known (bridge_new 1) \<and> length (q_items (b_outbound (bridge_new 1))) < 28"
    by code_simp
  show ?thesis
    using enqueue_all_or_nothing [OF bridge_reachable.created idle refl, of 0 sample_request] ok by auto
qed

theorem abandoned_registration_is_permanent_witness:
  "\<exists>b'. bridge_step (after abandoned_run) b' \<and> b_halted b' \<and> 1 \<le> bd_cancellations (diagnostics b')"
proof -
  let ?b = "after abandoned_run" let ?b' = "engine_begin Call_halt (after abandoned_run)"
  have "registered sample_id ?b \<and> presence sample_id ?b = 0" by code_simp
  moreover have idle: "b_engine ?b = E_idle (Some (R_generation (Inr (Generation 2))))" by code_simp
  then have step: "bridge_step ?b ?b'" by (rule bridge_step.calls)
  moreover have "b_halted ?b'" by code_simp
  ultimately show ?thesis
    using abandoned_registration_is_permanent [OF abandoned_reachable, of sample_id ?b'] by blast
qed

end
