(* ===== verification/Transport_Text.thy ===== *)
theory Transport_Text
  imports Wire_Text Sha256 Protocol_Debug
begin

text \<open>
  The pure helpers of \<open>beast_transport.cpp\<close>: the hash and the request signature, the
  authorization token, the numbers and the runtime object of request bodies, and the checks on
  the metadata of a recording. \<open>Sha256\<close> and \<open>sha256Hex\<close> here and in \<open>voice_capture.cpp\<close> are the
  same code, modelled once in \<open>Sha256\<close>.
\<close>

unbundle bit_operations_syntax

section \<open>Hash and signature\<close>

definition hex_bytes :: "byte_t list \<Rightarrow> string" where
  "hex_bytes bytes = concat (map hex_digits bytes)"

definition is_lower_hex_sha256 :: "string \<Rightarrow> bool" where
  "is_lower_hex_sha256 s \<longleftrightarrow> length s = 64 \<and> list_all is_lower_hex s"

definition sha256_of :: "byte_t list \<Rightarrow> byte_t list" where
  "sha256_of bytes = sha_finish (sha_update bytes sha_new)"

text \<open>The key is 32 bytes long; \<open>block\<close> is the key followed by zeros.\<close>

definition hmac_block :: "byte_t list \<Rightarrow> byte_t list" where
  "hmac_block key = key @ replicate (64 - length key) 0"

definition hmac_sha256 :: "byte_t list \<Rightarrow> string \<Rightarrow> byte_t list" where
  "hmac_sha256 key message =
     (let inner_pad = map (\<lambda>b. b XOR 0x36) (hmac_block key);
          outer_pad = map (\<lambda>b. b XOR 0x5c) (hmac_block key);
          inner_hash = sha_finish (sha_update (text_bytes message) (sha_update inner_pad sha_new))
      in sha_finish (sha_update inner_hash (sha_update outer_pad sha_new)))"

section \<open>The authorization token\<close>

definition base64_alphabet :: string where
  "base64_alphabet = ''ABCDEFGHIJKLMNOPQRSTUVWXYZabcdefghijklmnopqrstuvwxyz0123456789-_''"

text \<open>The accumulator is 32 bits wide: bits shifted out on the left are lost.\<close>

record token_encoder =
  te_accumulator :: u32
  te_bits :: nat
  te_encoded :: string

text \<open>\<open>while (bits >= 6U)\<close>.\<close>

function token_emit :: "token_encoder \<Rightarrow> token_encoder" where
  "token_emit e =
     (if 6 \<le> te_bits e
      then token_emit (e\<lparr>te_bits := te_bits e - 6,
             te_encoded := te_encoded e
               @ [base64_alphabet ! unat (drop_bit (te_bits e - 6) (te_accumulator e) AND 0x3F)]\<rparr>)
      else e)"
  by pat_completeness auto
termination token_emit by (relation "measure te_bits") auto

declare token_emit.simps [simp del]

definition token_absorb :: "token_encoder \<Rightarrow> byte_t \<Rightarrow> token_encoder" where
  "token_absorb e b =
     token_emit (e\<lparr>te_accumulator := push_bit 8 (te_accumulator e) OR ucast b, te_bits := te_bits e + 8\<rparr>)"

definition authorization_token :: "pairing_token \<Rightarrow> string" where
  "authorization_token t =
     (let e = foldl token_absorb \<lparr>te_accumulator = 0, te_bits = 0, te_encoded = []\<rparr> (tok_secret t) in
      if te_bits e \<noteq> 0
      then te_encoded e @ [base64_alphabet ! unat (push_bit (6 - te_bits e) (te_accumulator e) AND 0x3F)]
      else te_encoded e)"

section \<open>Recordings\<close>

text \<open>The loop of \<open>isSttLanguage\<close>: \<open>part_length\<close> and \<open>part_index\<close> describe the subtag at hand.\<close>

definition part_in_range :: "nat \<Rightarrow> nat \<Rightarrow> bool" where
  "part_in_range part_index part_length \<longleftrightarrow>
     (if part_index = 0 then 2 \<le> part_length \<and> part_length \<le> 3 else 1 \<le> part_length \<and> part_length \<le> 8)"

fun stt_language_loop :: "nat \<Rightarrow> nat \<Rightarrow> string \<Rightarrow> bool" where
  "stt_language_loop part_index part_length [] = part_in_range part_index part_length"
| "stt_language_loop part_index part_length (c # s) =
     (if c = CHR ''-'' then
        if \<not> part_in_range part_index part_length then False else stt_language_loop (part_index + 1) 0 s
      else
        let alpha = is_upper c \<or> is_lower c; digit = is_digit c in
        if (\<not> alpha \<and> (part_index = 0 \<or> \<not> digit)) \<or> 8 < part_length + 1 then False
        else stt_language_loop part_index (part_length + 1) s)"

definition is_stt_language :: "string \<Rightarrow> bool" where
  "is_stt_language s \<longleftrightarrow> (if length s < 2 \<or> 35 < length s then False else stt_language_loop 0 0 s)"

definition stt_digit_positions :: "nat list" where
  "stt_digit_positions = [0, 1, 2, 3, 5, 6, 8, 9, 11, 12, 14, 15, 17, 18]"

definition is_stt_timestamp :: "string \<Rightarrow> bool" where
  "is_stt_timestamp s \<longleftrightarrow>
     (if length s \<noteq> 20 \<or> s ! 4 \<noteq> CHR ''-'' \<or> s ! 7 \<noteq> CHR ''-'' \<or> s ! 10 \<noteq> CHR ''T'' \<or> s ! 13 \<noteq> CHR '':''
        \<or> s ! 16 \<noteq> CHR '':'' \<or> s ! 19 \<noteq> CHR ''Z''
      then False else list_all (\<lambda>i. is_digit (s ! i)) stt_digit_positions)"

section \<open>Numbers and objects of request bodies\<close>

definition u64_text :: "u64 \<Rightarrow> string" where
  "u64_text w = to_decimal (unat w)"

definition int_text :: "int \<Rightarrow> string" where
  "int_text i = (if i < 0 then CHR ''-'' # to_decimal (nat (- i)) else to_decimal (nat i))"

text \<open>
  \<open>std::to_string(double)\<close> is \<open>printf\<close>'s \<open>%f\<close>: the exact value rounded to six decimals, ties to
  even. It is only reached for the hour of a valid calendar, which is finite and nonnegative.
\<close>

definition six_digits :: "nat \<Rightarrow> string" where
  "six_digits n = map (\<lambda>i. digit_char (n div 10 ^ (5 - i) mod 10)) [0..<6]"

definition double_text :: "rat \<Rightarrow> string" where
  "double_text q =
     (let n = nat (round_half_even (q * 1000000)) in
      to_decimal (n div 1000000) @ ''.'' @ six_digits (n mod 1000000))"

definition hour_text :: "cxx_double \<Rightarrow> string" where
  "hour_text d = (case d of Finite q \<Rightarrow> double_text q | _ \<Rightarrow> [])"

text \<open>
  Bodies are concatenations of string literals and values. \<open>object_text\<close> is the concatenation
  for a list of members whose keys are written verbatim between quotes, and whose values are
  already text.
\<close>

definition quoted :: "string \<Rightarrow> string" where
  "quoted s = CHR 0x22 # s @ [CHR 0x22]"

fun joined :: "string list \<Rightarrow> string" where
  "joined [] = []"
| "joined [t] = t"
| "joined (t # u # ts) = t @ CHR '','' # joined (u # ts)"

definition member_text :: "string \<times> string \<Rightarrow> string" where
  "member_text = (\<lambda>(key, t). quoted key @ CHR '':'' # t)"

definition object_text :: "(string \<times> string) list \<Rightarrow> string" where
  "object_text members = CHR ''{'' # joined (map member_text members) @ ''}''"

definition array_text :: "string list \<Rightarrow> string" where
  "array_text items = CHR ''['' # joined items @ '']''"

definition runtime_json :: "runtime_info \<Rightarrow> string" where
  "runtime_json r = object_text
     [(''game'', escape_json (rt_game r)),
      (''variant'', escape_json (rt_variant r)),
      (''openmw_version'', escape_json (rt_openmw_version r)),
      (''openmw_commit'', escape_json (rt_openmw_commit r)),
      (''lua_api_revision'', to_decimal (unat (rt_lua_api_revision r))),
      (''client_version'', escape_json (rt_client_version r)),
      (''platform'', escape_json (rt_platform r)),
      (''capabilities'', array_text (map escape_json (rt_capabilities r)))]"

definition require_json_object :: "string \<Rightarrow> string \<Rightarrow> unit result" where
  "require_json_object s what =
     and_then (parse_json s default_limits) (\<lambda>parsed.
       if json_object parsed = None
       then Inl (simple_error EC_invalid_schema (what @ '' must be a JSON object'')) else Inr ())"

end
