(* ===== verification/Transport_Requests.thy ===== *)
theory Transport_Requests
  imports Transport_Text Media
begin

text \<open>
  \<open>serializeRequest\<close> of \<open>beast_transport.cpp\<close>: the HTTP method, target, headers and body of every
  request kind. A kind whose payload is of another type leaves the target empty, which is
  rejected at the end, as the code's \<open>break\<close> does.
\<close>

section \<open>Requests on the wire\<close>

datatype http_method = HTTP_get | HTTP_post | HTTP_delete

record wire_request =
  wr_method :: http_method
  wr_target :: string
  wr_body :: string
  wr_idempotency_key :: "string option"
  wr_content_type :: string
  wr_fixed_headers :: headers
  wr_expected_status :: nat
  wr_request_body_limit :: nat
  wr_response_body_limit :: nat
  wr_media_descriptor :: "media_descriptor option"

definition initial_wire :: wire_request where
  "initial_wire = \<lparr>wr_method = HTTP_get, wr_target = [], wr_body = [], wr_idempotency_key = None,
     wr_content_type = [], wr_fixed_headers = [], wr_expected_status = 0,
     wr_request_body_limit = kMaxJsonBytes, wr_response_body_limit = kMaxJsonBytes, wr_media_descriptor = None\<rparr>"

definition kJsonContentType :: string where
  "kJsonContentType = ''application/json; charset=utf-8''"

definition route :: "base_url \<Rightarrow> string \<Rightarrow> string" where
  "route base suffix = (if bu_base_path base = ''/'' then suffix else bu_base_path base @ suffix)"

text \<open>A GET, and a POST with a body; \<open>key\<close> is the idempotency key.\<close>

definition get_wire :: "string \<Rightarrow> nat \<Rightarrow> wire_request" where
  "get_wire target status = initial_wire\<lparr>wr_target := target, wr_expected_status := status\<rparr>"

definition post_wire :: "string \<Rightarrow> nat \<Rightarrow> string option \<Rightarrow> string \<Rightarrow> wire_request" where
  "post_wire target status key body =
     initial_wire\<lparr>wr_method := HTTP_post, wr_target := target, wr_expected_status := status,
       wr_idempotency_key := key, wr_body := body\<rparr>"

abbreviation text_of :: "'tag strong_id \<Rightarrow> string" where
  "text_of i \<equiv> escape_json (id_value i)"

abbreviation generation_text :: "generation \<Rightarrow> string" where
  "generation_text g \<equiv> u64_text (gen_value g)"

abbreviation invalid_request :: "string \<Rightarrow> 'a result" where
  "invalid_request message \<equiv> Inl (simple_error EC_invalid_argument message)"

section \<open>Sessions, turns and their results\<close>

definition calendar_text :: "loaded_save_calendar \<Rightarrow> string" where
  "calendar_text c = object_text
     [(''year'', int_text (cal_year c)), (''month'', int_text (cal_month c)), (''day'', int_text (cal_day c)),
      (''hour'', hour_text (cal_hour c))]"

definition character_members :: "init_request \<Rightarrow> (string \<times> string) list" where
  "character_members i =
     (case init_character_id i of
        None \<Rightarrow> []
      | Some character \<Rightarrow>
          [(''character_id'', escape_json character),
           (''character_binding'', escape_json (the (init_character_binding i)))])"

definition binding_invalid :: "init_request \<Rightarrow> bool" where
  "binding_invalid i \<longleftrightarrow>
     (init_character_id i \<noteq> None) \<noteq> (init_character_binding i \<noteq> None)
     \<or> (init_character_id i \<noteq> None
        \<and> (\<not> is_canonical_uuid (the (init_character_id i))
           \<or> (the (init_character_binding i) \<noteq> ''new'' \<and> the (init_character_binding i) \<noteq> ''existing'')))"

definition save_members :: "init_request \<Rightarrow> (string \<times> string) list result" where
  "save_members i =
     (if \<not> init_loaded_save i then Inr []
      else case init_loaded_calendar i of
          None \<Rightarrow> Inr [(''loaded_save'', ''null'')]
        | Some c \<Rightarrow>
            if \<not> calendar_valid c then invalid_request ''invalid loaded-save calendar''
            else Inr [(''loaded_save'', calendar_text c)])"

definition init_wire :: "base_url \<Rightarrow> init_request \<Rightarrow> wire_request result" where
  "init_wire base i =
     (let ids = init_ids i in
      if init_loaded_calendar i \<noteq> None \<and> \<not> init_loaded_save i
      then invalid_request ''calendar requires loaded-save lifecycle''
      else if binding_invalid i then invalid_request ''invalid saved character binding''
      else and_then (save_members i) (\<lambda>save.
        Inr (post_wire (route base ''/sessions'') 201 (Some (id_value (env_message ids))) (object_text
          ([(''schema'', quoted ''lorkhan.session.init.v1''), (''message_id'', text_of (env_message ids)),
            (''installation_id'', text_of (env_installation ids)), (''profile_id'', text_of (env_profile ids)),
            (''playthrough_id'', text_of (env_playthrough ids)), (''generation'', generation_text (env_generation ids)),
            (''created_at'', escape_json (init_created_at i)), (''runtime'', runtime_json (init_runtime i)),
            (''content_fingerprint'', escape_json (init_content_fingerprint i))]
           @ character_members i @ save)))))"

definition turn_wire :: "base_url \<Rightarrow> turn_request \<Rightarrow> wire_request result" where
  "turn_wire base t =
     (let ids = turn_ids t in
      and_then (require_json_object (turn_serialized_payload t) ''turn payload'') (\<lambda>_.
        Inr (post_wire (route base ''/turns'') 202 (Some (id_value (env_message ids))) (object_text
          [(''schema'', quoted ''lorkhan.turn.v1''), (''message_id'', text_of (env_message ids)),
           (''request_id'', text_of (env_request ids)), (''turn_id'', text_of (env_turn ids)),
           (''installation_id'', text_of (env_installation ids)), (''profile_id'', text_of (env_profile ids)),
           (''playthrough_id'', text_of (env_playthrough ids)), (''session_id'', text_of (env_session ids)),
           (''generation'', generation_text (env_generation ids)),
           (''runtime_generation'', generation_text (turn_runtime_generation t)),
           (''created_at'', escape_json (turn_created_at t)), (''runtime'', runtime_json (turn_runtime t)),
           (''content_fingerprint'', escape_json (turn_content_fingerprint t)),
           (''payload'', turn_serialized_payload t)]))))"

definition poll_wire :: "base_url \<Rightarrow> event_poll_request \<Rightarrow> wire_request" where
  "poll_wire base p =
     get_wire (route base ''/events'' @ ''?session_id='' @ id_value (poll_session p)
       @ ''&generation='' @ generation_text (poll_generation p) @ ''&after='' @ u64_text (poll_after p)
       @ ''&wait_ms='' @ to_decimal (unat (poll_wait_ms p))) 200"

definition interruption_wire :: "base_url \<Rightarrow> interruption_request \<Rightarrow> wire_request" where
  "interruption_wire base i =
     post_wire (route base ''/interruptions'') 202 (Some (id_value (intr_message i))) (object_text
       [(''schema'', quoted ''lorkhan.interrupt.v1''), (''message_id'', text_of (intr_message i)),
        (''request_id'', text_of (intr_request i)), (''turn_id'', text_of (intr_turn i)),
        (''session_id'', text_of (intr_session i)), (''generation'', generation_text (intr_generation i)),
        (''created_at'', escape_json (intr_created_at i)), (''reason'', escape_json (intr_reason i))])"

definition action_result_wire :: "base_url \<Rightarrow> action_result_request \<Rightarrow> wire_request result" where
  "action_result_wire base a =
     (let c = ar_correlation a in
      and_then (require_json_object (ar_serialized_observed a) ''action-result observed'') (\<lambda>_.
        Inr (post_wire (route base ''/action-results'') 200 (Some (id_value (ar_message a))) (object_text
          [(''schema'', quoted ''lorkhan.action-result.v1''), (''message_id'', text_of (ar_message a)),
           (''request_id'', text_of (corr_request c)), (''action_id'', text_of (ar_action a)),
           (''turn_id'', text_of (ar_turn a)), (''session_id'', text_of (corr_session c)),
           (''generation'', generation_text (corr_generation c)), (''status'', escape_json (status_name (ar_status a))),
           (''reason_code'', escape_json (ar_reason_code a)), (''observed'', ar_serialized_observed a),
           (''completed_at'', escape_json (ar_completed_at a))]))))"

definition delivery_wire :: "base_url \<Rightarrow> dialogue_delivery_result_request \<Rightarrow> wire_request result" where
  "delivery_wire base d =
     (let c = dd_correlation d in
      and_then (require_json_object (dd_serialized_speaker d) ''dialogue delivery speaker'') (\<lambda>_.
        Inr ((post_wire (route base ''/dialogue-delivery-results'') 200 (Some (id_value (dd_message d))) (object_text
          [(''schema'', quoted ''lorkhan.dialogue-delivery-result.v1''), (''message_id'', text_of (dd_message d)),
           (''request_id'', text_of (corr_request c)), (''dialogue_message_id'', text_of (dd_dialogue_message d)),
           (''turn_id'', text_of (dd_turn d)), (''session_id'', text_of (corr_session c)),
           (''generation'', generation_text (corr_generation c)), (''speaker'', dd_serialized_speaker d),
           (''status'', escape_json (delivery_status_name (dd_status d))),
           (''reason_code'', escape_json (dd_reason_code d)), (''completed_at'', escape_json (dd_completed_at d))]))
          \<lparr>wr_content_type := kJsonContentType\<rparr>)))"

definition session_end_wire :: "base_url \<Rightarrow> session_end_request \<Rightarrow> wire_request" where
  "session_end_wire base e =
     initial_wire\<lparr>wr_method := HTTP_delete, wr_target := route base ''/sessions/'' @ id_value (end_session e),
       wr_expected_status := 200, wr_idempotency_key := Some (id_value (end_request e))\<rparr>"

section \<open>Recordings\<close>

definition stt_metadata_invalid :: "stt_request \<Rightarrow> bool" where
  "stt_metadata_invalid s \<longleftrightarrow>
     (let ids = stt_ids s in
      stt_codec s \<noteq> ''wav'' \<or> \<not> is_stt_language (stt_language s) \<or> \<not> is_stt_timestamp (stt_created_at s)
      \<or> \<not> is_lower_hex_sha256 (stt_sha256 s) \<or> \<not> is_canonical_uuid (id_value (env_message ids))
      \<or> \<not> is_canonical_uuid (id_value (env_request ids)) \<or> \<not> is_canonical_uuid (id_value (env_turn ids))
      \<or> \<not> is_canonical_uuid (id_value (env_session ids)))"

definition stt_wire :: "base_url \<Rightarrow> stt_request \<Rightarrow> wire_request result" where
  "stt_wire base s =
     (let ids = stt_ids s in
      if stt_audio s = [] \<or> kMaxSttBytes < length (stt_audio s)
      then Inl (simple_error EC_payload_too_large ''STT audio must contain 1 through 16777216 bytes'')
      else if stt_metadata_invalid s then invalid_request ''STT metadata is outside the closed contract''
      else Inr (initial_wire\<lparr>wr_method := HTTP_post, wr_target := route base ''/stt'', wr_expected_status := 202,
        wr_idempotency_key := Some (id_value (env_message ids)), wr_content_type := ''application/octet-stream'',
        wr_request_body_limit := kMaxSttBytes, wr_body := map (\<lambda>b. char_of (unat b)) (stt_audio s),
        wr_fixed_headers :=
          [(''X-LORKHAN-Schema'', ''lorkhan.stt.request.v1''),
           (''X-LORKHAN-Message-Id'', id_value (env_message ids)),
           (''X-LORKHAN-Request-Id'', id_value (env_request ids)),
           (''X-LORKHAN-Turn-Id'', id_value (env_turn ids)),
           (''X-LORKHAN-Session-Id'', id_value (env_session ids)),
           (''X-LORKHAN-Generation'', generation_text (env_generation ids)),
           (''X-LORKHAN-Created-At'', stt_created_at s),
           (''X-LORKHAN-Codec'', stt_codec s),
           (''X-LORKHAN-Language'', stt_language s),
           (''X-LORKHAN-Audio-Bytes'', to_decimal (length (stt_audio s))),
           (''X-LORKHAN-Sha256'', stt_sha256 s)]\<rparr>))"

section \<open>Controls, diary books and debug commands\<close>

text \<open>The four members that a correlated message starts with.\<close>

definition correlated :: "string \<Rightarrow> MessageId \<Rightarrow> request_correlation \<Rightarrow> (string \<times> string) list" where
  "correlated schema message c =
     [(''schema'', quoted schema), (''message_id'', text_of message), (''request_id'', text_of (corr_request c)),
      (''session_id'', text_of (corr_session c)), (''generation'', generation_text (corr_generation c))]"

definition controls_query_wire :: "base_url \<Rightarrow> controls_query_request \<Rightarrow> wire_request result" where
  "controls_query_wire base q =
     and_then (require_json_object (cq_serialized_target q) ''controls target'') (\<lambda>_.
       Inr (post_wire (route base ''/controls/query'') 200 None (object_text
         (correlated ''lorkhan.controls.query.v1'' (cq_message q) (cq_correlation q)
          @ (if cq_include_settings_editor q then [(''include_settings_editor'', ''true'')] else [])
          @ [(''target'', cq_serialized_target q)]))))"

fun control_kind_name :: "session_control_kind \<Rightarrow> string" where
  "control_kind_name SC_model_slot = ''model_slot''"
| "control_kind_name SC_actor_profile = ''actor_profile''"
| "control_kind_name SC_profile_generate = ''profile_generate''"
| "control_kind_name SC_setting = ''setting''"
| "control_kind_name SC_narrator_profile_generate = ''narrator_profile_generate''"

definition nullable_string_text :: "string option \<Rightarrow> string" where
  "nullable_string_text s = (case s of None \<Rightarrow> ''null'' | Some s \<Rightarrow> escape_json s)"

definition setting_text :: "setting_selection \<Rightarrow> string" where
  "setting_text s = object_text
     [(''scope'', escape_json (set_scope s)), (''key'', escape_json (set_key s)),
      (''value'', escape_json (set_value s)), (''change_token'', escape_json (set_change_token s))]"

text \<open>A setting replaces the closing brace of the body by one more member.\<close>

definition controls_select_wire :: "base_url \<Rightarrow> controls_select_request \<Rightarrow> wire_request result" where
  "controls_select_wire base s =
     and_then (require_json_object (cs_serialized_target s) ''controls target'') (\<lambda>_.
       Inr (post_wire (route base ''/controls/select'') 200 (Some (id_value (cs_message s))) (object_text
         (correlated ''lorkhan.controls.select.v1'' (cs_message s) (cs_correlation s)
          @ [(''created_at'', escape_json (cs_created_at s)), (''kind'', escape_json (control_kind_name (cs_kind s))),
             (''selection_id'', nullable_string_text (cs_selection_id s)),
             (''selection_key'', nullable_string_text (cs_selection_key s)),
             (''target'', cs_serialized_target s)]
          @ (case cs_setting s of None \<Rightarrow> [] | Some x \<Rightarrow> [(''setting'', setting_text x)])))))"

definition diary_query_wire :: "base_url \<Rightarrow> diary_book_query_request \<Rightarrow> wire_request" where
  "diary_query_wire base q =
     post_wire (route base ''/diary-books/query'') 200 None (object_text
       (correlated ''lorkhan.diary-book.query.v1'' (dbq_message q) (dbq_correlation q)))"

fun debug_status_name :: "debug_command_result_status \<Rightarrow> string" where
  "debug_status_name DCS_succeeded = ''succeeded''"
| "debug_status_name DCS_failed = ''failed''"
| "debug_status_name DCS_rejected = ''rejected''"

definition diary_result_wire :: "base_url \<Rightarrow> diary_book_result_request \<Rightarrow> wire_request" where
  "diary_result_wire base r =
     (let c = dbr_correlation r in
      post_wire (route base ''/diary-book-results'') 200 (Some (id_value (dbr_message r))) (object_text
        [(''schema'', quoted ''lorkhan.diary-book-result.v1''), (''message_id'', text_of (dbr_message r)),
         (''request_id'', text_of (corr_request c)), (''delivery_id'', text_of (dbr_delivery r)),
         (''session_id'', text_of (corr_session c)), (''generation'', generation_text (corr_generation c)),
         (''status'', escape_json (debug_status_name (dbr_status r))),
         (''reason_code'', if dbr_reason_code r = [] then ''null'' else escape_json (dbr_reason_code r)),
         (''book_id'', text_of (dbr_book r)), (''content_hash'', escape_json (dbr_content_hash r)),
         (''completed_at'', escape_json (dbr_completed_at r))]))"

definition debug_query_wire :: "base_url \<Rightarrow> debug_command_query_request \<Rightarrow> wire_request" where
  "debug_query_wire base q =
     post_wire (route base ''/debug-commands/query'') 200 None (object_text
       (correlated ''lorkhan.debug-command.query.v1'' (dcq_message q) (dcq_correlation q)))"

definition debug_result_wire :: "base_url \<Rightarrow> debug_command_result_request \<Rightarrow> wire_request result" where
  "debug_result_wire base r =
     (let c = dcr_correlation r in
      and_then (require_json_object (dcr_serialized_observed r) ''debug command observed'') (\<lambda>_.
        Inr (post_wire (route base ''/debug-command-results'') 200 (Some (id_value (dcr_message r))) (object_text
          [(''schema'', quoted ''lorkhan.debug-command-result.v1''), (''message_id'', text_of (dcr_message r)),
           (''request_id'', text_of (corr_request c)), (''command_id'', text_of (dcr_command r)),
           (''session_id'', text_of (corr_session c)), (''generation'', generation_text (corr_generation c)),
           (''status'', escape_json (debug_status_name (dcr_status r))),
           (''reason_code'', escape_json (dcr_reason_code r)), (''observed'', dcr_serialized_observed r),
           (''completed_at'', escape_json (dcr_completed_at r))]))))"

section \<open>Speech, books, game data and media\<close>

definition menu_tts_wire :: "base_url \<Rightarrow> menu_dialogue_tts_request \<Rightarrow> wire_request result" where
  "menu_tts_wire base m =
     and_then (require_json_object (mt_serialized_actor m) ''menu dialogue actor'') (\<lambda>_.
       Inr (post_wire (route base ''/menu-dialogue-tts'') 201 (Some (id_value (mt_message m))) (object_text
         (correlated ''lorkhan.menu-dialogue-tts.v1'' (mt_message m) (mt_correlation m)
          @ [(''created_at'', escape_json (mt_created_at m)), (''actor'', mt_serialized_actor m),
             (''text'', escape_json (mt_text m))]))))"

definition book_wire :: "base_url \<Rightarrow> book_read_aloud_request \<Rightarrow> wire_request" where
  "book_wire base b =
     post_wire (route base ''/book/read-aloud'') 201 (Some (id_value (bk_message b))) (object_text
       (correlated ''lorkhan.book.read-aloud.v1'' (bk_message b) (bk_correlation b)
        @ [(''created_at'', escape_json (bk_created_at b)), (''book_id'', escape_json (bk_book_id b)),
           (''title'', escape_json (bk_title b)), (''text'', escape_json (bk_text b))]))"

definition autochat_wire :: "base_url \<Rightarrow> player_autochat_request \<Rightarrow> wire_request result" where
  "autochat_wire base a =
     and_then (require_json_object (pa_serialized_player a) ''player autochat player'') (\<lambda>_.
     and_then (require_json_object (pa_serialized_target a) ''player autochat target'') (\<lambda>_.
       Inr (post_wire (route base ''/player-autochat'') 201 (Some (id_value (pa_message a))) (object_text
         (correlated ''lorkhan.player-autochat.v1'' (pa_message a) (pa_correlation a)
          @ [(''created_at'', escape_json (pa_created_at a)), (''player'', pa_serialized_player a),
             (''target'', pa_serialized_target a), (''intent'', escape_json (pa_intent a))])))))"

definition game_data_wire :: "base_url \<Rightarrow> outbound_request \<Rightarrow> game_data_request \<Rightarrow> wire_request result" where
  "game_data_wire base request g =
     and_then (require_json_object (gd_serialized_payload g) ''game-data payload'') (\<lambda>_.
       Inr (post_wire (route base ''/gamedata'') 202 (Some (id_value (gd_request g))) (object_text
         [(''schema'', quoted ''lorkhan.gamedata.v1''), (''installation_id'', text_of (gd_installation g)),
          (''playthrough_id'', text_of (gd_playthrough g)), (''session_id'', text_of (out_session request)),
          (''request_id'', text_of (gd_request g)), (''generation'', generation_text (out_generation request)),
          (''runtime_generation'', generation_text (gd_runtime_generation g)),
          (''observed_at'', escape_json (gd_observed_at g)), (''game'', quoted ''tes3''),
          (''type'', escape_json (game_data_type_name (gd_type g))), (''payload'', gd_serialized_payload g)])))"

definition media_wire :: "base_url \<Rightarrow> media_prepare_request \<Rightarrow> wire_request result" where
  "media_wire base m =
     and_then (media_route (md_id (mp_descriptor m))) (\<lambda>suffix.
       Inr ((get_wire (route base suffix) 200)
         \<lparr>wr_response_body_limit := max (md_bytes (mp_descriptor m)) kMaxJsonBytes,
          wr_media_descriptor := Some (mp_descriptor m)\<rparr>))"

section \<open>The switch on the request kind\<close>

definition serialize_kind :: "base_url \<Rightarrow> outbound_request \<Rightarrow> wire_request result" where
  "serialize_kind base request =
     (let p = out_payload request; other = Inr initial_wire in
      case out_kind request of
        RK_health \<Rightarrow> Inr (get_wire (route base ''/health'') 200)
      | RK_init \<Rightarrow> (case p of InitRequest x \<Rightarrow> init_wire base x | _ \<Rightarrow> other)
      | RK_turn \<Rightarrow> (case p of TurnRequest x \<Rightarrow> turn_wire base x | _ \<Rightarrow> other)
      | RK_event_poll \<Rightarrow> (case p of EventPollRequest x \<Rightarrow> Inr (poll_wire base x) | _ \<Rightarrow> other)
      | RK_interruption \<Rightarrow> (case p of InterruptionRequest x \<Rightarrow> Inr (interruption_wire base x) | _ \<Rightarrow> other)
      | RK_action_result \<Rightarrow> (case p of ActionResultRequest x \<Rightarrow> action_result_wire base x | _ \<Rightarrow> other)
      | RK_dialogue_delivery_result \<Rightarrow> (case p of DialogueDeliveryResultRequest x \<Rightarrow> delivery_wire base x | _ \<Rightarrow> other)
      | RK_session_end \<Rightarrow> (case p of SessionEndRequest x \<Rightarrow> Inr (session_end_wire base x) | _ \<Rightarrow> other)
      | RK_stt \<Rightarrow> (case p of SttRequest x \<Rightarrow> stt_wire base x | _ \<Rightarrow> other)
      | RK_controls_query \<Rightarrow> (case p of ControlsQueryRequest x \<Rightarrow> controls_query_wire base x | _ \<Rightarrow> other)
      | RK_controls_select \<Rightarrow> (case p of ControlsSelectRequest x \<Rightarrow> controls_select_wire base x | _ \<Rightarrow> other)
      | RK_diary_book_query \<Rightarrow> (case p of DiaryBookQueryRequest x \<Rightarrow> Inr (diary_query_wire base x) | _ \<Rightarrow> other)
      | RK_diary_book_result \<Rightarrow> (case p of DiaryBookResultRequest x \<Rightarrow> Inr (diary_result_wire base x) | _ \<Rightarrow> other)
      | RK_debug_command_query \<Rightarrow> (case p of DebugCommandQueryRequest x \<Rightarrow> Inr (debug_query_wire base x) | _ \<Rightarrow> other)
      | RK_debug_command_result \<Rightarrow> (case p of DebugCommandResultRequest x \<Rightarrow> debug_result_wire base x | _ \<Rightarrow> other)
      | RK_menu_dialogue_tts \<Rightarrow> (case p of MenuDialogueTtsRequest x \<Rightarrow> menu_tts_wire base x | _ \<Rightarrow> other)
      | RK_book_read_aloud \<Rightarrow> (case p of BookReadAloudRequest x \<Rightarrow> Inr (book_wire base x) | _ \<Rightarrow> other)
      | RK_player_autochat \<Rightarrow> (case p of PlayerAutochatRequest x \<Rightarrow> autochat_wire base x | _ \<Rightarrow> other)
      | RK_gamedata \<Rightarrow> (case p of GameDataRequest x \<Rightarrow> game_data_wire base request x | _ \<Rightarrow> other)
      | RK_media \<Rightarrow> (case p of MediaPrepareRequest x \<Rightarrow> media_wire base x | _ \<Rightarrow> other))"

definition serialize_request :: "base_url \<Rightarrow> outbound_request \<Rightarrow> wire_request result" where
  "serialize_request base request =
     and_then (serialize_kind base request) (\<lambda>wire.
       if wr_target wire = [] then invalid_request ''request kind does not match typed payload''
       else
         let wire = (if wr_method wire = HTTP_post \<and> wr_content_type wire = []
                     then wire\<lparr>wr_content_type := kJsonContentType\<rparr> else wire) in
         if wr_request_body_limit wire < length (wr_body wire)
         then Inl (simple_error EC_payload_too_large ''serialized request exceeds endpoint byte limit'')
         else Inr wire)"

end
