(* ===== verification/Transport_Responses.thy ===== *)
theory Transport_Responses
  imports Transport_Requests Protocol_Controls
begin

text \<open>
  \<open>protocolFailure\<close> and \<open>validateResponse\<close> of \<open>beast_transport.cpp\<close>: an HTTP response is turned
  into the result of the request it answers, or into an error when its status, its body or the
  identifiers in it are not those of the request. \<open>std::get\<close> throws when the payload is not of
  the type of the kind; the functions below return None there.
\<close>

section \<open>Errors\<close>

record http_response =
  hr_status :: nat
  hr_headers :: headers
  hr_body :: string

definition transport_failure :: "string \<Rightarrow> 'a result" where
  "transport_failure message = Inl (simple_error EC_transport_failure message)"

definition protocol_failure :: "outbound_request \<Rightarrow> nat \<Rightarrow> string \<Rightarrow> headers \<Rightarrow> inbound_result result" where
  "protocol_failure request status body hs =
     (if 300 \<le> status \<and> status < 400
      then Inl (simple_error EC_redirect_rejected ''HTTP redirects are rejected'')
      else
        and_then (parse_protocol_error_response body hs default_limits) (\<lambda>parsed.
          if perr_correlation_id parsed \<noteq> id_value (out_id request)
          then transport_failure ''typed protocol error correlation mismatch''
          else Inl (make_error (perr_code parsed) ''server returned a typed protocol error'' (perr_retriable parsed)
                 (map_option word_of_nat (perr_retry_after_ms parsed)) (Some (perr_correlation_id parsed)))))"

section \<open>The reply to each kind of request\<close>

text \<open>
  \<open>if (!parsed) return failure; if (mismatch) return failure(message)\<close>, and otherwise the
  session and the kind of the result.
\<close>

definition accept_reply ::
  "'a result \<Rightarrow> ('a \<Rightarrow> bool) \<Rightarrow> string \<Rightarrow> ('a \<Rightarrow> SessionId) \<Rightarrow> response_kind \<Rightarrow> (SessionId \<times> response_kind) result" where
  "accept_reply parsed matches message session kind =
     and_then parsed (\<lambda>x. if \<not> matches x then transport_failure message else Inr (session x, kind))"

text \<open>The comparisons that the replies share.\<close>

definition same_ids :: "response_correlation \<Rightarrow> envelope_ids \<Rightarrow> bool" where
  "same_ids c ids \<longleftrightarrow>
     rc_message c = env_message ids \<and> rc_request c = env_request ids \<and> rc_turn c = env_turn ids
     \<and> rc_session c = env_session ids \<and> rc_generation c = env_generation ids"

definition same_turn :: "response_correlation \<Rightarrow> MessageId \<Rightarrow> TurnId \<Rightarrow> request_correlation \<Rightarrow> bool" where
  "same_turn c message turn sent \<longleftrightarrow>
     rc_message c = message \<and> rc_request c = corr_request sent \<and> rc_turn c = turn
     \<and> rc_session c = corr_session sent \<and> rc_generation c = corr_generation sent"

definition same_exchange :: "exchange \<Rightarrow> MessageId \<Rightarrow> request_correlation \<Rightarrow> bool" where
  "same_exchange x message sent \<longleftrightarrow>
     ex_message x = message \<and> ex_request x = corr_request sent
     \<and> ex_session x = corr_session sent \<and> ex_generation x = corr_generation sent"

type_synonym transport_reply = "(SessionId \<times> response_kind) result"

definition health_reply :: "outbound_request \<Rightarrow> string \<Rightarrow> headers \<Rightarrow> transport_reply" where
  "health_reply request body hs =
     and_then (parse_health_response body hs default_limits) (\<lambda>_. Inr (out_session request, RS_status))"

definition init_reply :: "outbound_request \<Rightarrow> init_request \<Rightarrow> string \<Rightarrow> headers \<Rightarrow> transport_reply" where
  "init_reply request sent body hs =
     accept_reply (parse_session_accepted_response body hs default_limits)
       (\<lambda>x. sa_message x = env_message (init_ids sent) \<and> sa_generation x = out_generation request)
       ''session response correlation mismatch'' sa_session RS_accepted"

definition turn_reply :: "outbound_request \<Rightarrow> turn_request \<Rightarrow> string \<Rightarrow> headers \<Rightarrow> transport_reply" where
  "turn_reply request sent body hs =
     accept_reply (parse_turn_accepted_response body hs default_limits)
       (\<lambda>x. same_ids (ta_correlation x) (turn_ids sent))
       ''turn response correlation mismatch'' (\<lambda>_. out_session request) RS_accepted"

definition poll_reply :: "outbound_request \<Rightarrow> event_poll_request \<Rightarrow> string \<Rightarrow> headers \<Rightarrow> transport_reply" where
  "poll_reply request sent body hs =
     accept_reply (parse_events_response body hs default_limits)
       (\<lambda>x. er_session x = poll_session sent \<and> er_generation x = poll_generation sent
          \<and> \<not> er_next_after x < unat (poll_after sent))
       ''events response correlation mismatch'' (\<lambda>_. out_session request) RS_event"

definition interruption_reply :: "outbound_request \<Rightarrow> interruption_request \<Rightarrow> string \<Rightarrow> headers \<Rightarrow> transport_reply" where
  "interruption_reply request sent body hs =
     accept_reply (parse_interruption_accepted_response body hs default_limits)
       (\<lambda>x. let c = ca_correlation x in
          rc_message c = intr_message sent \<and> rc_request c = intr_request sent \<and> rc_turn c = intr_turn sent
          \<and> rc_session c = intr_session sent \<and> rc_generation c = intr_generation sent)
       ''interruption response correlation mismatch'' (\<lambda>_. out_session request) RS_accepted"

definition action_result_reply :: "outbound_request \<Rightarrow> action_result_request \<Rightarrow> string \<Rightarrow> headers \<Rightarrow> transport_reply" where
  "action_result_reply request sent body hs =
     accept_reply (parse_action_result_accepted_response body hs default_limits)
       (\<lambda>x. same_turn (ara_correlation x) (ar_message sent) (ar_turn sent) (ar_correlation sent)
          \<and> ara_action x = ar_action sent \<and> ara_status x = ar_status sent)
       ''action-result response correlation mismatch'' (\<lambda>_. out_session request) RS_completed"

definition delivery_reply ::
  "outbound_request \<Rightarrow> dialogue_delivery_result_request \<Rightarrow> string \<Rightarrow> headers \<Rightarrow> transport_reply" where
  "delivery_reply request sent body hs =
     accept_reply (parse_delivery_result_accepted_response body hs default_limits)
       (\<lambda>x. same_turn (dra_correlation x) (dd_message sent) (dd_turn sent) (dd_correlation sent)
          \<and> dra_dialogue_message x = dd_dialogue_message sent \<and> dra_status x = dd_status sent)
       ''dialogue delivery response correlation mismatch'' (\<lambda>_. out_session request) RS_completed"

definition session_end_reply :: "outbound_request \<Rightarrow> session_end_request \<Rightarrow> string \<Rightarrow> headers \<Rightarrow> transport_reply" where
  "session_end_reply request sent body hs =
     accept_reply (parse_session_ended_response body hs default_limits)
       (\<lambda>x. se_request x = end_request sent \<and> se_session x = end_session sent
          \<and> se_generation x = end_generation sent \<and> se_ended x)
       ''session-end response correlation mismatch'' (\<lambda>_. out_session request) RS_completed"

definition stt_reply :: "outbound_request \<Rightarrow> stt_request \<Rightarrow> string \<Rightarrow> headers \<Rightarrow> transport_reply" where
  "stt_reply request sent body hs =
     accept_reply (parse_stt_accepted_response body hs default_limits)
       (\<lambda>x. same_ids (ca_correlation x) (stt_ids sent))
       ''STT response correlation mismatch'' (\<lambda>_. out_session request) RS_accepted"

definition controls_reply ::
  "outbound_request \<Rightarrow> MessageId \<Rightarrow> request_correlation \<Rightarrow> string \<Rightarrow> string \<Rightarrow> headers \<Rightarrow> transport_reply" where
  "controls_reply request message sent mismatch body hs =
     accept_reply (parse_controls_response body hs default_limits)
       (\<lambda>x. same_exchange (cr_exchange x) message sent) mismatch (\<lambda>_. out_session request) RS_controls"

definition diary_query_reply ::
  "outbound_request \<Rightarrow> diary_book_query_request \<Rightarrow> string \<Rightarrow> headers \<Rightarrow> transport_reply" where
  "diary_query_reply request sent body hs =
     accept_reply (parse_diary_book_response body hs default_limits)
       (\<lambda>x. same_exchange (dbk_exchange x) (dbq_message sent) (dbq_correlation sent))
       ''debug-command response correlation mismatch'' (\<lambda>_. out_session request) RS_diary_book"

text \<open>The comparison of the two acknowledgements of a result.\<close>

definition same_result ::
  "command_result_accepted \<Rightarrow> MessageId \<Rightarrow> request_correlation \<Rightarrow> MessageId \<Rightarrow> debug_command_result_status \<Rightarrow> bool" where
  "same_result x message sent subject status \<longleftrightarrow>
     cra_message x = message \<and> cra_request x = corr_request sent \<and> cra_subject x = subject
     \<and> cra_session x = corr_session sent \<and> cra_generation x = corr_generation sent \<and> cra_status x = status"

definition diary_result_reply ::
  "outbound_request \<Rightarrow> diary_book_result_request \<Rightarrow> string \<Rightarrow> headers \<Rightarrow> transport_reply" where
  "diary_result_reply request sent body hs =
     accept_reply (parse_diary_result_accepted_response body hs default_limits)
       (\<lambda>x. same_result x (dbr_message sent) (dbr_correlation sent) (dbr_delivery sent) (dbr_status sent))
       ''debug-command result correlation mismatch'' (\<lambda>_. out_session request) RS_completed"

definition debug_query_reply ::
  "outbound_request \<Rightarrow> debug_command_query_request \<Rightarrow> string \<Rightarrow> headers \<Rightarrow> transport_reply" where
  "debug_query_reply request sent body hs =
     accept_reply (parse_debug_command_response body hs default_limits)
       (\<lambda>x. same_exchange (dcp_exchange x) (dcq_message sent) (dcq_correlation sent))
       ''debug-command response correlation mismatch'' (\<lambda>_. out_session request) RS_debug_command"

definition debug_result_reply ::
  "outbound_request \<Rightarrow> debug_command_result_request \<Rightarrow> string \<Rightarrow> headers \<Rightarrow> transport_reply" where
  "debug_result_reply request sent body hs =
     accept_reply (parse_debug_result_accepted_response body hs default_limits)
       (\<lambda>x. same_result x (dcr_message sent) (dcr_correlation sent) (dcr_command sent) (dcr_status sent))
       ''debug-command result correlation mismatch'' (\<lambda>_. out_session request) RS_completed"

definition speech_reply ::
  "outbound_request \<Rightarrow> MessageId \<Rightarrow> request_correlation \<Rightarrow> string \<Rightarrow> string \<Rightarrow> headers \<Rightarrow> transport_reply" where
  "speech_reply request message sent mismatch body hs =
     accept_reply (parse_menu_tts_ready_response body hs default_limits)
       (\<lambda>x. same_exchange (mtr_exchange x) message sent \<and> cm_dialogue_message (mtr_media x) = message)
       mismatch (\<lambda>_. out_session request) RS_menu_dialogue_ready"

definition autochat_reply :: "outbound_request \<Rightarrow> player_autochat_request \<Rightarrow> string \<Rightarrow> headers \<Rightarrow> transport_reply" where
  "autochat_reply request sent body hs =
     accept_reply (parse_autochat_ready_response body hs default_limits)
       (\<lambda>x. same_exchange (apr_exchange x) (pa_message sent) (pa_correlation sent))
       ''player autochat response correlation mismatch'' (\<lambda>_. out_session request) RS_player_autochat_ready"

definition game_data_reply :: "outbound_request \<Rightarrow> game_data_request \<Rightarrow> string \<Rightarrow> headers \<Rightarrow> transport_reply" where
  "game_data_reply request sent body hs =
     accept_reply (parse_game_data_accepted_response body hs default_limits)
       (\<lambda>x. gda_request x = gd_request sent \<and> gda_session x = out_session request
          \<and> gda_generation x = out_generation request \<and> gda_type x = game_data_type_name (gd_type sent))
       ''game-data response correlation mismatch'' (\<lambda>_. out_session request) RS_accepted"

section \<open>The switch on the request kind\<close>

definition reply_of :: "outbound_request \<Rightarrow> string \<Rightarrow> headers \<Rightarrow> transport_reply option" where
  "reply_of r body hs =
     (let p = out_payload r in
      case out_kind r of
        RK_health \<Rightarrow> Some (health_reply r body hs)
      | RK_init \<Rightarrow> (case p of InitRequest x \<Rightarrow> Some (init_reply r x body hs) | _ \<Rightarrow> None)
      | RK_turn \<Rightarrow> (case p of TurnRequest x \<Rightarrow> Some (turn_reply r x body hs) | _ \<Rightarrow> None)
      | RK_event_poll \<Rightarrow> (case p of EventPollRequest x \<Rightarrow> Some (poll_reply r x body hs) | _ \<Rightarrow> None)
      | RK_interruption \<Rightarrow> (case p of InterruptionRequest x \<Rightarrow> Some (interruption_reply r x body hs) | _ \<Rightarrow> None)
      | RK_action_result \<Rightarrow> (case p of ActionResultRequest x \<Rightarrow> Some (action_result_reply r x body hs) | _ \<Rightarrow> None)
      | RK_dialogue_delivery_result \<Rightarrow>
          (case p of DialogueDeliveryResultRequest x \<Rightarrow> Some (delivery_reply r x body hs) | _ \<Rightarrow> None)
      | RK_session_end \<Rightarrow> (case p of SessionEndRequest x \<Rightarrow> Some (session_end_reply r x body hs) | _ \<Rightarrow> None)
      | RK_stt \<Rightarrow> (case p of SttRequest x \<Rightarrow> Some (stt_reply r x body hs) | _ \<Rightarrow> None)
      | RK_controls_query \<Rightarrow>
          (case p of ControlsQueryRequest x \<Rightarrow>
             Some (controls_reply r (cq_message x) (cq_correlation x) ''controls-query response correlation mismatch'' body hs)
           | _ \<Rightarrow> None)
      | RK_controls_select \<Rightarrow>
          (case p of ControlsSelectRequest x \<Rightarrow>
             Some (controls_reply r (cs_message x) (cs_correlation x) ''controls-select response correlation mismatch'' body hs)
           | _ \<Rightarrow> None)
      | RK_diary_book_query \<Rightarrow> (case p of DiaryBookQueryRequest x \<Rightarrow> Some (diary_query_reply r x body hs) | _ \<Rightarrow> None)
      | RK_diary_book_result \<Rightarrow> (case p of DiaryBookResultRequest x \<Rightarrow> Some (diary_result_reply r x body hs) | _ \<Rightarrow> None)
      | RK_debug_command_query \<Rightarrow> (case p of DebugCommandQueryRequest x \<Rightarrow> Some (debug_query_reply r x body hs) | _ \<Rightarrow> None)
      | RK_debug_command_result \<Rightarrow> (case p of DebugCommandResultRequest x \<Rightarrow> Some (debug_result_reply r x body hs) | _ \<Rightarrow> None)
      | RK_menu_dialogue_tts \<Rightarrow>
          (case p of MenuDialogueTtsRequest x \<Rightarrow>
             Some (speech_reply r (mt_message x) (mt_correlation x) ''menu dialogue TTS response correlation mismatch'' body hs)
           | _ \<Rightarrow> None)
      | RK_book_read_aloud \<Rightarrow>
          (case p of BookReadAloudRequest x \<Rightarrow>
             Some (speech_reply r (bk_message x) (bk_correlation x) ''book read-aloud response correlation mismatch'' body hs)
           | _ \<Rightarrow> None)
      | RK_player_autochat \<Rightarrow> (case p of PlayerAutochatRequest x \<Rightarrow> Some (autochat_reply r x body hs) | _ \<Rightarrow> None)
      | RK_gamedata \<Rightarrow> (case p of GameDataRequest x \<Rightarrow> Some (game_data_reply r x body hs) | _ \<Rightarrow> None)
      | RK_media \<Rightarrow> Some (Inr (out_session r, RS_media_ready)))"

definition validate_response ::
  "outbound_request \<Rightarrow> wire_request \<Rightarrow> http_response \<Rightarrow> inbound_result result option" where
  "validate_response request wire response =
     (let status = hr_status response in
      if status \<noteq> wr_expected_status wire then
        Some (if 200 \<le> status \<and> status < 300
              then transport_failure ''server returned an unexpected success status''
              else protocol_failure request status (hr_body response) (hr_headers response))
      else
        map_option (\<lambda>reply. and_then reply (\<lambda>(session, kind).
            Inr \<lparr>in_request = out_id request, in_session = session, in_generation = out_generation request,
                 in_kind = kind, in_payload = hr_body response, in_failure = None\<rparr>))
          (reply_of request (hr_body response) (hr_headers response)))"

end
