(* ===== verification/Media_Cache.thy ===== *)
theory Media_Cache
  imports Transport_Text Media "HOL-Library.AList"
begin

text \<open>
  The media cache of \<open>BeastTransport::execute\<close>: a body whose hash is the descriptor's is stored
  under its hash, within a quota and by renaming a complete temporary file. The file system is a
  list of paths with what is there, in the order a directory iterator visits them; the failures
  of its operations are answers of the environment. Modelled is the POSIX branch. Permissions
  have no state of their own: restricting them succeeds or fails.
\<close>

section \<open>The file system\<close>

datatype node = File string | Symlink | Directory | Other

type_synonym tree = "(string \<times> node) list"

abbreviation node_at :: "tree \<Rightarrow> string \<Rightarrow> node option" where
  "node_at \<equiv> map_of"

text \<open>What fails although the tree would allow it. \<open>ce_iterate_stop\<close> is the number of entries after
  which the directory iterator reports an error.\<close>

record cache_env =
  ce_inspect_error :: bool
  ce_read_error :: bool
  ce_iterate_stop :: "nat option"
  ce_size_error :: "string \<Rightarrow> bool"
  ce_mkdir_error :: bool
  ce_parent_permission_error :: bool
  ce_open_error :: bool
  ce_write_error :: bool
  ce_file_permission_error :: bool
  ce_cancelled :: bool
  ce_rename_error :: bool

definition below :: "string \<Rightarrow> string \<Rightarrow> bool" where
  "below directory path \<longleftrightarrow> starts_with (directory_prefix directory) path"

text \<open>\<open>remove\<close> deletes anything but a directory that is not empty.\<close>

definition remove_path :: "string \<Rightarrow> tree \<Rightarrow> tree" where
  "remove_path path t =
     (if node_at t path = Some Directory \<and> list_ex (\<lambda>(q, _). below path q) t then t else AList.delete path t)"

text \<open>\<open>create_directories\<close> of the directory of a cached file; its own parent is the cache base,
  which the constructor creates. A link to a directory counts as a directory.\<close>

definition create_parent :: "string \<Rightarrow> tree \<Rightarrow> tree option" where
  "create_parent parent t =
     (case node_at t parent of
        None \<Rightarrow> Some (AList.update parent Directory t)
      | Some Directory \<Rightarrow> Some t
      | Some Symlink \<Rightarrow> Some t
      | Some _ \<Rightarrow> None)"

text \<open>Opening for writing truncates a file and fails on what is not one.\<close>

definition can_open :: "string \<Rightarrow> tree \<Rightarrow> bool" where
  "can_open path t \<longleftrightarrow> (case node_at t path of None \<Rightarrow> True | Some (File _) \<Rightarrow> True | _ \<Rightarrow> False)"

section \<open>An entry that exists already\<close>

definition media_rejected :: "string \<Rightarrow> 'a result" where
  "media_rejected message = Inl (simple_error EC_media_rejected message)"

text \<open>The loop that hashes the file in pieces of 8192 bytes.\<close>

function hash_pieces :: "sha256 \<Rightarrow> nat \<Rightarrow> string \<Rightarrow> sha256 \<times> nat" where
  "hash_pieces digest counted content =
     (if content = [] then (digest, counted)
      else
        let piece = take 8192 content in
        hash_pieces (sha_update (text_bytes piece) digest) (counted + length piece) (drop 8192 content))"
  by pat_completeness auto
termination hash_pieces by (relation "measure (\<lambda>(_, _, content). length content)") auto

declare hash_pieces.simps [simp del]

text \<open>True when the entry holds the described media, False when it must be written.\<close>

definition inspect_entry :: "media_descriptor \<Rightarrow> cache_env \<Rightarrow> node option \<Rightarrow> bool result" where
  "inspect_entry d env existing =
     (if ce_inspect_error env then media_rejected ''existing media cache entry could not be inspected''
      else case existing of
          None \<Rightarrow> Inr False
        | Some Symlink \<Rightarrow> media_rejected ''existing media cache entry is a symbolic link''
        | Some (File content) \<Rightarrow>
            if ce_read_error env then media_rejected ''existing media cache entry could not be verified''
            else
              let (digest, counted) = hash_pieces sha_new 0 content in
              Inr (counted = md_bytes d \<and> sha_finish digest = md_sha256 d)
        | Some _ \<Rightarrow> media_rejected ''existing media cache entry is not a regular file'')"

section \<open>The quota\<close>

definition uintmax_max :: nat where "uintmax_max = 2 ^ 64 - 1"

definition cache_quota :: nat where "cache_quota = 512 * 1024 * 1024"

fun usage_loop :: "cache_env \<Rightarrow> nat \<Rightarrow> tree \<Rightarrow> nat result" where
  "usage_loop env counted [] = Inr counted"
| "usage_loop env counted ((path, n) # t) =
     (case n of
        Symlink \<Rightarrow> media_rejected ''media cache contains a symbolic link''
      | File content \<Rightarrow>
          if ce_size_error env path \<or> uintmax_max - counted < length content
          then media_rejected ''media cache size could not be bounded''
          else usage_loop env (counted + length content) t
      | _ \<Rightarrow> usage_loop env counted t)"

definition entries_below :: "string \<Rightarrow> tree \<Rightarrow> tree" where
  "entries_below base t = filter (\<lambda>(path, _). below base path) t"

definition check_quota :: "string \<Rightarrow> media_descriptor \<Rightarrow> cache_env \<Rightarrow> tree \<Rightarrow> unit result" where
  "check_quota base d env t =
     (let entries = entries_below base t;
          visited = (case ce_iterate_stop env of None \<Rightarrow> entries | Some k \<Rightarrow> take k entries) in
      and_then (usage_loop env 0 visited) (\<lambda>counted.
        if ce_iterate_stop env \<noteq> None \<or> cache_quota < md_bytes d \<or> cache_quota - md_bytes d < counted
        then media_rejected ''media cache quota would be exceeded'' else Inr ()))"

section \<open>Writing\<close>

text \<open>The temporary file is removed unless it was renamed (\<open>Cleanup\<close>).\<close>

definition promote :: "string \<Rightarrow> string \<Rightarrow> string \<Rightarrow> cache_env \<Rightarrow> tree \<Rightarrow> tree \<times> unit result" where
  "promote final temporary body env t =
     (let opened = AList.update temporary (File body) t;
          fail = (\<lambda>t message. (remove_path temporary t, media_rejected message)) in
      if ce_open_error env \<or> \<not> can_open temporary t then fail t ''media temporary file could not be opened''
      else if ce_write_error env then fail opened ''media temporary file could not be written''
      else if ce_file_permission_error env
      then fail opened ''media temporary file permissions could not be restricted''
      else if ce_cancelled env
      then (remove_path temporary opened, Inl (simple_error EC_cancelled ''media preparation cancelled''))
      else if ce_rename_error env then fail opened ''verified media could not be atomically promoted''
      else (AList.update final (File body) (AList.delete temporary opened), Inr ()))"

definition write_entry :: "string \<Rightarrow> string \<Rightarrow> string \<Rightarrow> string \<Rightarrow> cache_env \<Rightarrow> tree \<Rightarrow> tree \<times> unit result" where
  "write_entry parent final temporary body env t =
     (case (if ce_mkdir_error env then None else create_parent parent t) of
        None \<Rightarrow> (t, media_rejected ''media cache parent is not a real directory'')
      | Some t \<Rightarrow>
          if node_at t parent = Some Symlink
          then (t, media_rejected ''media cache parent is not a real directory'')
          else if ce_parent_permission_error env
          then (t, media_rejected ''media cache parent permissions could not be restricted'')
          else promote final temporary body env t)"

definition parent_path :: "string \<Rightarrow> string" where
  "parent_path path = rev (tl (dropWhile (\<lambda>c. c \<noteq> CHR ''/'') (rev path)))"

definition temporary_path :: "string \<Rightarrow> media_descriptor \<Rightarrow> string" where
  "temporary_path final d = final @ ''.tmp-'' @ id_value (md_id d)"

definition store_media ::
  "string \<Rightarrow> media_descriptor \<Rightarrow> string \<Rightarrow> cache_env \<Rightarrow> tree \<Rightarrow> tree \<times> unit result" where
  "store_media base d body env t =
     (if sha256_of (text_bytes body) \<noteq> md_sha256 d
      then (t, media_rejected ''media SHA-256 does not match descriptor'')
      else case resolve_cache_path base (hex_bytes (md_sha256 d)) (md_codec d) of
          Inl e \<Rightarrow> (t, Inl e)
        | Inr final \<Rightarrow>
            (case inspect_entry d env (node_at t final) of
               Inl e \<Rightarrow> (t, Inl e)
             | Inr present \<Rightarrow>
                 if present then (t, Inr ())
                 else
                   (case check_quota base d env t of
                      Inl e \<Rightarrow> (t, Inl e)
                    | Inr _ \<Rightarrow>
                        write_entry (parent_path final) final (temporary_path final d) body env t)))"

section \<open>What it stores\<close>

lemma text_bytes_append: "text_bytes (a @ b) = text_bytes a @ text_bytes b"
  by (simp add: text_bytes_def)

lemma hash_pieces_eq: "hash_pieces digest counted content = (sha_update (text_bytes content) digest, counted + length content)"
proof (induction digest counted content rule: hash_pieces.induct)
  case (1 digest counted content)
  show ?case
  proof (cases "content = []")
    case True
    then show ?thesis by (subst hash_pieces.simps) (simp add: text_bytes_def sha_update_def)
  next
    case False
    have "sha_update (text_bytes (drop 8192 content)) (sha_update (text_bytes (take 8192 content)) digest)
        = sha_update (text_bytes content) digest"
      by (metis append_take_drop_id foldl_append sha_update_def text_bytes_append)
    with 1 False show ?thesis
      by (simp add: hash_pieces.simps [of digest counted content] Let_def)
  qed
qed

text \<open>The bytes of the regular files of a tree.\<close>

definition node_bytes :: "node \<Rightarrow> nat" where
  "node_bytes n = (case n of File content \<Rightarrow> length content | _ \<Rightarrow> 0)"

definition tree_bytes :: "tree \<Rightarrow> nat" where
  "tree_bytes t = sum_list (map (\<lambda>(_, n). node_bytes n) t)"

lemma usage_loop_exact: "usage_loop env counted t = Inr n \<Longrightarrow> n = counted + tree_bytes t \<and> Symlink \<notin> snd ` set t"
  by (induction env counted t rule: usage_loop.induct)
    (auto simp: tree_bytes_def node_bytes_def media_rejected_def split: node.splits if_splits)

lemma check_quota_sound:
  "check_quota base d env t = Inr () \<Longrightarrow>
    tree_bytes (entries_below base t) + md_bytes d \<le> cache_quota \<and> Symlink \<notin> snd ` set (entries_below base t)"
  by (auto simp: check_quota_def Let_def and_then_Inr_iff media_rejected_def dest!: usage_loop_exact
      split: option.splits if_splits)

lemma inspect_entry_present:
  "inspect_entry d env n = Inr True \<Longrightarrow>
    \<exists>content. n = Some (File content) \<and> length content = md_bytes d \<and> sha256_of (text_bytes content) = md_sha256 d"
  by (auto simp: inspect_entry_def hash_pieces_eq sha256_of_def media_rejected_def split: option.splits node.splits if_splits)

text \<open>Writing and deleting entries.\<close>

lemma node_at_update [simp]: "node_at (AList.update p n t) q = (if q = p then Some n else node_at t q)"
  by (simp add: update_conv')

lemma node_at_delete [simp]: "node_at (AList.delete p t) q = (if q = p then None else node_at t q)"
  by (simp add: delete_conv')

lemma node_at_remove: "q \<noteq> p \<Longrightarrow> node_at (remove_path p t) q = node_at t q"
  by (simp add: remove_path_def)

lemma node_at_create_parent: "create_parent p t = Some t' \<Longrightarrow> q \<noteq> p \<Longrightarrow> node_at t' q = node_at t q"
  by (auto simp: create_parent_def split: option.splits node.splits)

lemma delete_update_same: "AList.delete p (AList.update p n t) = AList.delete p t"
  by (induction t) auto

lemma tree_bytes_Cons [simp]: "tree_bytes (e # t) = node_bytes (snd e) + tree_bytes t"
  by (simp add: tree_bytes_def split: prod.splits)

lemma entries_below_Cons [simp]:
  "entries_below base (e # t) = (if below base (fst e) then e # entries_below base t else entries_below base t)"
  by (simp add: entries_below_def split: prod.splits)

lemma tree_bytes_update:
  "tree_bytes (entries_below base (AList.update p n t)) \<le> tree_bytes (entries_below base t) + node_bytes n"
  by (induction t) (auto simp: entries_below_def tree_bytes_def split: prod.splits if_splits)

lemma tree_bytes_delete: "tree_bytes (entries_below base (AList.delete p t)) \<le> tree_bytes (entries_below base t)"
  by (induction t) (auto simp: AList.delete_eq entries_below_def tree_bytes_def split: prod.splits if_splits)

lemma create_parent_bytes:
  "create_parent p t = Some t' \<Longrightarrow> tree_bytes (entries_below base t') \<le> tree_bytes (entries_below base t)"
  using tree_bytes_update [of base p Directory t]
  by (auto simp: create_parent_def node_bytes_def split: option.splits node.splits)

lemma promote_cases:
  assumes "promote final temporary body env t = (t', r)" "final \<noteq> temporary"
  shows "\<forall>q. q \<noteq> final \<and> q \<noteq> temporary \<longrightarrow> node_at t' q = node_at t q"
    and "r = Inr () \<and> node_at t' final = Some (File body)
      \<and> tree_bytes (entries_below base t') \<le> tree_bytes (entries_below base t) + length body
      \<or> \<not> is_ok r \<and> node_at t' final = node_at t final"
proof -
  show "\<forall>q. q \<noteq> final \<and> q \<noteq> temporary \<longrightarrow> node_at t' q = node_at t q"
    using assms by (auto simp: promote_def Let_def node_at_remove split: if_splits)
  have "tree_bytes (entries_below base (AList.update final (File body) (AList.delete temporary t)))
      \<le> tree_bytes (entries_below base t) + length body"
    using tree_bytes_update [of base final "File body" "AList.delete temporary t"] tree_bytes_delete [of base temporary t]
    by (simp add: node_bytes_def)
  with assms show "r = Inr () \<and> node_at t' final = Some (File body)
      \<and> tree_bytes (entries_below base t') \<le> tree_bytes (entries_below base t) + length body
      \<or> \<not> is_ok r \<and> node_at t' final = node_at t final"
    by (auto simp: promote_def Let_def node_at_remove media_rejected_def delete_update_same split: if_splits)
qed

lemma temporary_path_other [simp]: "temporary_path final d \<noteq> final" "final \<noteq> temporary_path final d"
  by (simp_all add: temporary_path_def)

lemma parent_path_shorter:
  assumes "final \<noteq> []"
  shows "length (parent_path final) < length final"
proof -
  have "length (dropWhile (\<lambda>c. c \<noteq> CHR ''/'') (rev final)) \<le> length (rev final)" by (rule length_dropWhile_le)
  moreover have "length (rev final) > 0" using assms by simp
  ultimately show ?thesis unfolding parent_path_def length_rev length_tl by linarith
qed

lemma parent_path_other: "final \<noteq> [] \<Longrightarrow> final \<noteq> parent_path final \<and> temporary_path final d \<noteq> parent_path final"
  using parent_path_shorter [of final] by (auto simp: temporary_path_def dest: arg_cong [of _ _ length])

lemma write_entry_cases:
  assumes "write_entry parent final temporary body env t = (t', r)" "final \<noteq> temporary" "final \<noteq> parent"
  shows "\<forall>q. q \<notin> {final, parent, temporary} \<longrightarrow> node_at t' q = node_at t q"
    and "r = Inr () \<and> node_at t' final = Some (File body)
      \<and> tree_bytes (entries_below base t') \<le> tree_bytes (entries_below base t) + length body
      \<or> \<not> is_ok r \<and> node_at t' final = node_at t final"
proof -
  show "\<forall>q. q \<notin> {final, parent, temporary} \<longrightarrow> node_at t' q = node_at t q"
    using assms by (auto simp: write_entry_def node_at_create_parent promote_cases split: option.splits if_splits)
  consider "\<not> is_ok r" "node_at t' final = node_at t final"
    | u where "create_parent parent t = Some u" "promote final temporary body env u = (t', r)"
    using assms by (auto simp: write_entry_def media_rejected_def node_at_create_parent split: option.splits if_splits)
  then show "r = Inr () \<and> node_at t' final = Some (File body)
      \<and> tree_bytes (entries_below base t') \<le> tree_bytes (entries_below base t) + length body
      \<or> \<not> is_ok r \<and> node_at t' final = node_at t final"
  proof cases
    case 2
    from promote_cases(2) [OF this(2) assms(2), of base] create_parent_bytes [OF this(1), of base]
      node_at_create_parent [OF this(1) assms(3)] show ?thesis by fastforce
  qed simp
qed

text \<open>Storing touches no path but the entry, its directory and the temporary file; the entry is
  afterwards what it was or the whole verified body.\<close>

lemma store_media_verified:
  assumes "resolve_cache_path base (hex_bytes (md_sha256 d)) (md_codec d) = Inr final"
    and "length body = md_bytes d"
    and "store_media base d body env t = (t', r)"
  shows "(\<forall>q. q \<notin> {final, parent_path final, temporary_path final d} \<longrightarrow> node_at t' q = node_at t q)
    \<and> (node_at t' final = node_at t final
       \<or> node_at t' final = Some (File body) \<and> sha256_of (text_bytes body) = md_sha256 d)
    \<and> (r = Inr () \<longrightarrow>
        (\<exists>content. node_at t' final = Some (File content) \<and> length content = md_bytes d
           \<and> sha256_of (text_bytes content) = md_sha256 d)
        \<and> (t' = t \<or> tree_bytes (entries_below base t') \<le> cache_quota))"
proof -
  have other: "final \<noteq> parent_path final"
    using assms(1) parent_path_other [of final] by (auto simp: resolve_cache_path_shape)
  consider "t' = t" "\<not> is_ok r"
    | "t' = t" "inspect_entry d env (node_at t final) = Inr True"
    | "sha256_of (text_bytes body) = md_sha256 d" "check_quota base d env t = Inr ()"
      "write_entry (parent_path final) final (temporary_path final d) body env t = (t', r)"
    using assms(1,3)
    by (cases "check_quota base d env t") (auto simp: store_media_def media_rejected_def split: if_splits sum.splits, metis is_ok.simps(1))
  then show ?thesis
  proof cases
    case 2
    with inspect_entry_present [OF 2(2)] show ?thesis by auto
  next
    case 3
    note written = write_entry_cases [OF 3(3) temporary_path_other(2) other]
    from written(2) [of base] check_quota_sound [OF 3(2)] 3(1) assms(2) written(1) show ?thesis
      by (elim disjE conjE) auto
  qed auto
qed

lemma length_sha_finish: "length (sha_finish s) = 32"
proof -
  have "length (sha_output (sha_compress w buffer)) = 32" for w buffer
    by (simp add: sha_output_def sha_compress_def Let_def split: prod.splits)
  then show ?thesis by (simp add: sha_finish_def Let_def sha_transform_def)
qed

lemma hex_digits_lower: "length (hex_digits b) = 2 \<and> list_all is_lower_hex (hex_digits b)"
proof -
  have "list_all is_lower_hex hex_alphabet" "length hex_alphabet = 16" by (code_simp, simp add: hex_alphabet_def)
  then have digit: "is_lower_hex (hex_alphabet ! i)" if "i < 16" for i using that by (simp add: list_all_length)
  have "unat (drop_bit 4 b) < 16"
    using unsigned_less [where ?'a = nat and ?'b = 8, of b] by (simp add: drop_bit_eq_div unat_div)
  moreover have "b AND 0x0f = take_bit 4 b" by (simp add: take_bit_eq_mask mask_eq_exp_minus_1 [of 4])
  then have "unat (b AND 0x0f) < 16" by (simp add: unat_mod take_bit_eq_mod)
  ultimately show ?thesis using digit by (simp add: hex_digits_def)
qed

lemma hex_bytes_lower: "length (hex_bytes bs) = 2 * length bs \<and> list_all is_lower_hex (hex_bytes bs)"
  using hex_digits_lower by (induction bs) (auto simp: hex_bytes_def)

lemma resolve_hash: "length h = 32 \<Longrightarrow> base \<noteq> [] \<Longrightarrow> \<exists>p. resolve_cache_path base (hex_bytes h) codec = Inr p"
  using hex_bytes_lower [of h] by (simp add: resolve_cache_path_shape)

end
