(* ===== verification/Transport.thy ===== *)
theory Transport
  imports Transport_Responses Media_Cache Playback
begin

text \<open>
  \<open>BeastTransport\<close> of \<open>beast_transport.cpp\<close>: its construction, the one operation it may have in
  flight, the headers and the signature of a request, the deadlines of its stages and \<open>execute\<close>.
  Boost's sockets, its HTTP reader and the clock answer through \<open>network\<close>; the file system
  answers through \<open>cache_env\<close>. Times are milliseconds.
\<close>

section \<open>Construction\<close>

record deadlines =
  dl_connect :: int
  dl_write :: int
  dl_first_byte :: int
  dl_read :: int
  dl_total :: int
  dl_loaded_save_first_byte :: int

definition default_deadlines :: deadlines where
  "default_deadlines = \<lparr>dl_connect = 2000, dl_write = 5000, dl_first_byte = 5000, dl_read = 20000,
     dl_total = 30000, dl_loaded_save_first_byte = 20000\<rparr>"

record transport =
  tr_base :: base_url
  tr_installation :: InstallationId
  tr_token :: pairing_token
  tr_cache_root :: string
  tr_deadlines :: deadlines
  tr_timeout_seconds :: int
  tr_active :: "RequestId option"

text \<open>What Boost and the file system answer while a transport is constructed.\<close>

record construction =
  co_loopback_address :: bool
  co_create_error :: bool
  co_symlink :: bool
  co_directory :: bool
  co_permission_error :: bool

definition same_url :: "base_url \<Rightarrow> bool" where
  "same_url u \<longleftrightarrow> parse_loopback_base_url (''http://'' @ authority u @ bu_base_path u) = Inr u"

definition positive_deadlines :: "deadlines \<Rightarrow> bool" where
  "positive_deadlines d \<longleftrightarrow>
     \<not> (dl_connect d \<le> 0 \<or> dl_write d \<le> 0 \<or> dl_first_byte d \<le> 0 \<or> dl_read d \<le> 0 \<or> dl_total d \<le> 0
        \<or> dl_loaded_save_first_byte d \<le> 0)"

text \<open>The left value is the text of the \<open>std::invalid_argument\<close> that is thrown.\<close>

definition make_transport ::
  "construction \<Rightarrow> base_url \<Rightarrow> InstallationId \<Rightarrow> pairing_token \<Rightarrow> string \<Rightarrow> deadlines \<Rightarrow> string + transport" where
  "make_transport env base installation token cache_root d =
     (if \<not> same_url base then Inl ''BeastTransport requires a prevalidated literal-loopback base URL''
      else if \<not> co_loopback_address env then Inl ''BeastTransport requires a literal loopback address''
      else if \<not> is_canonical_uuid (id_value installation)
      then Inl ''BeastTransport requires a canonical installation ID''
      else if \<not> tok_present token then Inl ''BeastTransport requires a request-MAC key''
      else if cache_root = [] then Inl ''BeastTransport requires a private media cache root''
      else if co_create_error env \<or> co_symlink env \<or> \<not> co_directory env
      then Inl ''BeastTransport requires a real media cache directory''
      else if co_permission_error env then Inl ''BeastTransport could not restrict media cache permissions''
      else if \<not> positive_deadlines d then Inl ''BeastTransport deadlines must be positive''
      else Inr \<lparr>tr_base = base, tr_installation = installation, tr_token = token, tr_cache_root = cache_root,
                tr_deadlines = d, tr_timeout_seconds = 0, tr_active = None\<rparr>)"

definition set_connection_timeout :: "int \<Rightarrow> transport \<Rightarrow> string + transport" where
  "set_connection_timeout seconds t =
     (if \<not> valid_connection_timeout seconds then Inl ''connection timeout must be 15..300 seconds''
      else Inr (t\<lparr>tr_timeout_seconds := seconds\<rparr>))"

section \<open>The operation in flight\<close>

definition begin_operation :: "bool \<Rightarrow> RequestId \<Rightarrow> transport \<Rightarrow> transport result" where
  "begin_operation stopped i t =
     (if stopped then Inl (simple_error EC_cancelled ''transport operation cancelled'')
      else if tr_active t \<noteq> None then transport_failure ''transport already owns an active operation''
      else Inr (t\<lparr>tr_active := Some i\<rparr>))"

text \<open>\<open>~OperationCleanup\<close>.\<close>

definition end_operation :: "transport \<Rightarrow> transport" where
  "end_operation t = t\<lparr>tr_active := None\<rparr>"

text \<open>\<open>interrupt\<close> cancels the operation in flight when it is the request's.\<close>

definition interrupt_cancels :: "RequestId \<Rightarrow> transport \<Rightarrow> bool" where
  "interrupt_cancels i t \<longleftrightarrow> \<not> (tr_active t = None \<or> tr_active t \<noteq> Some i)"

section \<open>Deadlines\<close>

definition effective_deadlines :: "transport \<Rightarrow> deadlines" where
  "effective_deadlines t =
     (if 0 < tr_timeout_seconds t then
        let timeout = tr_timeout_seconds t * 1000 in
        \<lparr>dl_connect = timeout, dl_write = timeout, dl_first_byte = timeout, dl_read = timeout, dl_total = timeout,
         dl_loaded_save_first_byte = timeout\<rparr>
      else tr_deadlines t)"

definition bounded_stage :: "int \<Rightarrow> int \<Rightarrow> int \<Rightarrow> int" where
  "bounded_stage total_deadline now configured = max 1 (min configured (total_deadline - now))"

definition first_byte_budget :: "request_payload \<Rightarrow> deadlines \<Rightarrow> int" where
  "first_byte_budget p d =
     (case p of
        InitRequest i \<Rightarrow>
          if init_loaded_save i \<and> init_loaded_calendar i \<noteq> None then dl_loaded_save_first_byte d else dl_first_byte d
      | _ \<Rightarrow> dl_first_byte d)"

text \<open>
  A stage of Boost's: the time at which it starts, the time at which its handler has run, the
  error it reports, and whether the operation had been cancelled by then.
\<close>

datatype socket_status = Socket_ok | Socket_timeout | Socket_aborted | Socket_other

record stage =
  st_start :: int
  st_end :: int
  st_error :: socket_status
  st_cancelled :: bool

definition socket_error :: "socket_status \<Rightarrow> bool \<Rightarrow> bool \<Rightarrow> error" where
  "socket_error e cancelled deadline_expired =
     (if cancelled then simple_error EC_cancelled ''transport operation cancelled''
      else if deadline_expired \<or> e = Socket_timeout \<or> e = Socket_aborted
      then make_error EC_timeout ''transport stage deadline expired'' True None None
      else simple_error EC_transport_failure ''loopback HTTP transport failed'')"

text \<open>\<open>if (error || cancelled()) return failure(socketError(...))\<close>; only the stage that awaits the first
  byte compares the clock with its deadline.\<close>

definition run_stage :: "stage \<Rightarrow> int option \<Rightarrow> unit result" where
  "run_stage s deadline =
     (if st_error s \<noteq> Socket_ok \<or> st_cancelled s
      then Inl (socket_error (st_error s) (st_cancelled s)
             (case deadline of None \<Rightarrow> False | Some t \<Rightarrow> t \<le> st_end s))
      else Inr ())"

section \<open>The message\<close>

definition kClientVersion :: string where "kClientVersion = ''0.1.0''"
definition kMaximumHeaderBytes :: nat where "kMaximumHeaderBytes = 32 * 1024"

fun method_string :: "http_method \<Rightarrow> string" where
  "method_string HTTP_get = ''GET''"
| "method_string HTTP_post = ''POST''"
| "method_string HTTP_delete = ''DELETE''"

text \<open>\<open>set\<close> replaces every field of the name, whatever its case, and \<open>message[field]\<close> is the first one
  of the name or empty.\<close>

definition set_field :: "string \<times> string \<Rightarrow> headers \<Rightarrow> headers" where
  "set_field f hs = filter (\<lambda>(name, _). lowercase name \<noteq> lowercase (fst f)) hs @ [f]"

definition header_field :: "headers \<Rightarrow> string \<Rightarrow> string" where
  "header_field hs name =
     (case find (\<lambda>(n, _). lowercase n = lowercase name) hs of None \<Rightarrow> [] | Some (_, v) \<Rightarrow> v)"

definition request_fields :: "base_url \<Rightarrow> outbound_request \<Rightarrow> wire_request \<Rightarrow> headers" where
  "request_fields base request wire =
     [(''Host'', authority base), (''User-Agent'', ''LORKHAN/'' @ kClientVersion),
      (''Accept'', case wr_media_descriptor wire of
          Some d \<Rightarrow> media_content_type (md_codec d) | None \<Rightarrow> kJsonContentType),
      (''Connection'', ''close''), (''X-LORKHAN-Request-Id'', id_value (out_id request))]
     @ (case wr_idempotency_key wire of None \<Rightarrow> [] | Some key \<Rightarrow> [(''Idempotency-Key'', key)])
     @ (if wr_method wire = HTTP_post then [(''Content-Type'', wr_content_type wire)] else [])
     @ wr_fixed_headers wire"

definition unsigned_headers :: "base_url \<Rightarrow> outbound_request \<Rightarrow> wire_request \<Rightarrow> headers" where
  "unsigned_headers base request wire = fold set_field (request_fields base request wire) []"

text \<open>The clock and the random device give the timestamp and the sixteen bytes of the nonce.\<close>

definition canonical_text ::
  "http_method \<Rightarrow> string \<Rightarrow> string \<Rightarrow> string \<Rightarrow> InstallationId \<Rightarrow> string \<Rightarrow> string \<Rightarrow> string" where
  "canonical_text verb target content_type digest installation timestamp nonce =
     ''hmac-sha256-v1'' @ CHR 0x0A # method_string verb @ CHR 0x0A # target @ CHR 0x0A # content_type
     @ CHR 0x0A # digest @ CHR 0x0A # id_value installation @ CHR 0x0A # timestamp @ CHR 0x0A # nonce"

definition message_digest :: "string \<Rightarrow> string" where
  "message_digest body = hex_bytes (sha256_of (text_bytes body))"

definition request_canonical :: "transport \<Rightarrow> outbound_request \<Rightarrow> wire_request \<Rightarrow> string \<Rightarrow> byte_t list \<Rightarrow> string" where
  "request_canonical t request wire timestamp nonce =
     canonical_text (wr_method wire) (wr_target wire)
       (header_field (unsigned_headers (tr_base t) request wire) ''Content-Type'')
       (message_digest (wr_body wire)) (tr_installation t) timestamp (hex_bytes nonce)"

definition signed_headers ::
  "transport \<Rightarrow> outbound_request \<Rightarrow> wire_request \<Rightarrow> string \<Rightarrow> byte_t list \<Rightarrow> headers" where
  "signed_headers t request wire timestamp nonce =
     fold set_field
       [(''X-LORKHAN-Auth'', ''hmac-sha256-v1''),
        (''X-LORKHAN-Installation-Id'', id_value (tr_installation t)),
        (''X-LORKHAN-Timestamp'', timestamp), (''X-LORKHAN-Nonce'', hex_bytes nonce),
        (''X-LORKHAN-Content-SHA256'', message_digest (wr_body wire)),
        (''X-LORKHAN-Signature'',
           hex_bytes (hmac_sha256 (tok_secret (tr_token t)) (request_canonical t request wire timestamp nonce)))]
       (unsigned_headers (tr_base t) request wire)"

section \<open>The response\<close>

record http_head =
  hh_status :: nat
  hh_headers :: headers
  hh_content_length :: "nat option"
  hh_chunked :: bool

definition expected_body_type :: "media_codec \<Rightarrow> body_type" where
  "expected_body_type codec =
     (case codec of MC_wav \<Rightarrow> BT_media_wav | MC_ogg \<Rightarrow> BT_media_ogg | MC_mp3 \<Rightarrow> BT_media_mpeg)"

definition media_success :: "wire_request \<Rightarrow> http_head \<Rightarrow> bool" where
  "media_success wire answer \<longleftrightarrow> wr_media_descriptor wire \<noteq> None \<and> hh_status answer = wr_expected_status wire"

text \<open>The checks between the headers and the body.\<close>

definition check_head :: "wire_request \<Rightarrow> http_head \<Rightarrow> unit result" where
  "check_head wire answer =
     (case (if hh_chunked answer then None else hh_content_length answer) of
        None \<Rightarrow> transport_failure ''response requires one bounded Content-Length body''
      | Some n \<Rightarrow>
          if wr_response_body_limit wire < n
          then Inl (simple_error EC_payload_too_large ''response body exceeds endpoint byte limit'')
          else case wr_media_descriptor wire of
              None \<Rightarrow> Inr ()
            | Some d \<Rightarrow>
                if \<not> media_success wire answer then
                  if kMaxJsonBytes < n
                  then Inl (simple_error EC_payload_too_large ''typed media error exceeds JSON byte limit'')
                  else Inr ()
                else if n \<noteq> md_bytes d
                then media_rejected ''media Content-Length does not match descriptor''
                else
                  and_then (validate_headers (hh_headers answer)) (\<lambda>_.
                    if parse_content_type (header_field (hh_headers answer) ''Content-Type'') True
                       \<noteq> Inr (expected_body_type (md_codec d))
                    then Inl (simple_error EC_invalid_content_type
                           ''media Content-Type does not match descriptor codec'')
                    else Inr ()))"

section \<open>Execution\<close>

record network =
  nw_now :: int
  nw_connect :: stage
  nw_write :: stage
  nw_first_byte :: stage
  nw_head :: http_head
  nw_read :: stage
  nw_body :: string

definition first_byte_deadline :: "transport \<Rightarrow> outbound_request \<Rightarrow> network \<Rightarrow> int" where
  "first_byte_deadline t request nw =
     (let d = effective_deadlines t; start = st_start (nw_first_byte nw) in
      start + bounded_stage (nw_now nw + dl_total d) start (first_byte_budget (out_payload request) d))"

text \<open>Up to the whole response: connect, write, read the headers, check them, read the body.\<close>

definition exchange_messages :: "transport \<Rightarrow> outbound_request \<Rightarrow> wire_request \<Rightarrow> network \<Rightarrow> http_response result" where
  "exchange_messages t request wire nw =
     and_then (run_stage (nw_connect nw) None) (\<lambda>_.
     and_then (run_stage (nw_write nw) None) (\<lambda>_.
     and_then (run_stage (nw_first_byte nw) (Some (first_byte_deadline t request nw))) (\<lambda>_.
     and_then (check_head wire (nw_head nw)) (\<lambda>_.
     and_then (run_stage (nw_read nw) None) (\<lambda>_.
       Inr \<lparr>hr_status = hh_status (nw_head nw), hr_headers = hh_headers (nw_head nw), hr_body = nw_body nw\<rparr>)))))"

definition media_result :: "outbound_request \<Rightarrow> media_descriptor \<Rightarrow> inbound_result" where
  "media_result request d =
     \<lparr>in_request = out_id request, in_session = out_session request, in_generation = out_generation request,
      in_kind = RS_media_ready, in_payload = id_value (md_id d), in_failure = None\<rparr>"

text \<open>What \<open>execute\<close> makes of the response; None stands for the exception of \<open>std::get\<close>.\<close>

definition conclude ::
  "transport \<Rightarrow> outbound_request \<Rightarrow> wire_request \<Rightarrow> http_response \<Rightarrow> cache_env \<Rightarrow> tree \<Rightarrow>
   tree \<times> inbound_result result option" where
  "conclude t request wire response env files =
     (case wr_media_descriptor wire of
        None \<Rightarrow> (files, validate_response request wire response)
      | Some d \<Rightarrow>
          if hr_status response \<noteq> wr_expected_status wire
          then (files, Some (protocol_failure request (hr_status response) (hr_body response) (hr_headers response)))
          else
            let (files, stored) = store_media (tr_cache_root t) d (hr_body response) env files in
            (files, Some (and_then stored (\<lambda>_. Inr (media_result request d)))))"

definition run_operation ::
  "transport \<Rightarrow> outbound_request \<Rightarrow> network \<Rightarrow> cache_env \<Rightarrow> tree \<Rightarrow> tree \<times> inbound_result result option" where
  "run_operation t request nw env files =
     (case serialize_request (tr_base t) request of
        Inl e \<Rightarrow> (files, Some (Inl e))
      | Inr wire \<Rightarrow>
          (case exchange_messages t request wire nw of
             Inl e \<Rightarrow> (files, Some (Inl e))
           | Inr response \<Rightarrow> conclude t request wire response env files))"

definition execute ::
  "bool \<Rightarrow> outbound_request \<Rightarrow> network \<Rightarrow> cache_env \<Rightarrow> tree \<Rightarrow> transport \<Rightarrow>
   transport \<times> tree \<times> inbound_result result option" where
  "execute stopped request nw env files t =
     (case begin_operation stopped (out_id request) t of
        Inl e \<Rightarrow> (t, files, Some (Inl e))
      | Inr t \<Rightarrow>
          let (files, r) = run_operation t request nw env files in
          (end_operation t, files, r))"

end
