(* ===== verification/Transport_Response_Props.thy ===== *)
theory Transport_Response_Props
  imports Transport_Responses Bridge_Request_Props
begin

text \<open>
  What an accepted response proves about its body. Every parser of a reply reads the session and
  the generation of the message (and, where there is one, the request) from the fields of the
  same name: the locale states it once, and each parser is an instance of it.
\<close>

section \<open>Whom a message is addressed to\<close>

definition root_object :: "string \<Rightarrow> json_object \<Rightarrow> bool" where
  "root_object body object \<longleftrightarrow> parse_json body default_limits = Inr (JObject object)"

definition names :: "json_object \<Rightarrow> SessionId \<Rightarrow> generation \<Rightarrow> RequestId option \<Rightarrow> bool" where
  "names object session generation request \<longleftrightarrow>
     json_find object ''session_id'' = Some (JString (id_value session))
     \<and> json_find object ''generation'' = Some (JInt (uint (gen_value generation)))
     \<and> (case request of None \<Rightarrow> True | Some r \<Rightarrow> json_find object ''request_id'' = Some (JString (id_value r)))"

lemma parse_object_root: "parse_object body hs schema default_limits = Inr object \<Longrightarrow> root_object body object"
  by (auto simp: parse_object_def require_object_with_schema_def root_object_def and_then_Inr_iff json_accessor_iffs
      split: option.splits if_splits)

lemma word_of_protocol_integer [simp]: "n \<le> kMaximumProtocolInteger \<Longrightarrow> uint (word_of_nat n :: u64) = int n"
  by (simp add: uint_nat unat_of_nat kMaximumProtocolInteger_def)

locale addressed_reply =
  fixes parse :: "string \<Rightarrow> headers \<Rightarrow> 'a result"
    and session :: "'a \<Rightarrow> SessionId" and generation :: "'a \<Rightarrow> generation" and request :: "'a \<Rightarrow> RequestId option"
  assumes addressed: "parse body hs = Inr x \<Longrightarrow>
    \<exists>object. root_object body object \<and> names object (session x) (generation x) (request x)"
begin

lemma reply_addressed:
  assumes "accept_reply (parse body hs) matches message result kind = Inr (s, k)"
  obtains x object where "matches x" "s = result x" "k = kind" "root_object body object"
    "names object (session x) (generation x) (request x)"
  using assms addressed [of body hs]
  by (auto simp: accept_reply_def and_then_Inr_iff transport_failure_def split: if_splits)

end

section \<open>The parsers\<close>

lemma parse_correlation_names:
  "parse_correlation object = Inr c \<Longrightarrow> names object (rc_session c) (rc_generation c) (Some (rc_request c))"
  by (auto simp: parse_correlation_def reader_iffs require_uuid_Inr_iff require_unsigned_Inr_iff names_def)

lemma read_exchange_names:
  "read_exchange minimum object = Inr x \<Longrightarrow> names object (ex_session x) (ex_generation x) (Some (ex_request x))"
  by (auto simp: read_exchange_def reader_iffs require_uuid_Inr_iff require_unsigned_Inr_iff names_def)

lemma read_cursor_accepted_names:
  "read_cursor_accepted m object = Inr x \<Longrightarrow>
    names object (rc_session (ca_correlation x)) (rc_generation (ca_correlation x)) (Some (rc_request (ca_correlation x)))"
  by (auto simp: read_cursor_accepted_def reader_iffs dest!: parse_correlation_names)

lemma read_session_accepted_names:
  "read_session_accepted object = Inr x \<Longrightarrow> names object (sa_session x) (sa_generation x) None"
  by (auto simp: read_session_accepted_def reader_iffs require_uuid_Inr_iff require_unsigned_Inr_iff names_def
      split: option.splits)

lemma read_session_ended_names:
  "read_session_ended object = Inr x \<Longrightarrow> names object (se_session x) (se_generation x) (Some (se_request x))"
  by (auto simp: read_session_ended_def reader_iffs require_uuid_Inr_iff require_unsigned_Inr_iff names_def)

lemma read_events_names:
  "read_events_response object = Inr x \<Longrightarrow> names object (er_session x) (er_generation x) None"
  by (cases "json_array (the (json_find object ''events''))"; cases "json_array (the (json_find object ''autonomy''))")
    (auto simp: read_events_response_def reader_iffs require_uuid_Inr_iff require_unsigned_Inr_iff names_def Let_def)

lemma read_controls_names:
  "read_controls object = Inr x \<Longrightarrow>
    names object (ex_session (cr_exchange x)) (ex_generation (cr_exchange x)) (Some (ex_request (cr_exchange x)))"
  by (auto simp: read_controls_def reader_iffs Let_def split: option.splits dest!: read_exchange_names)

lemma read_diary_names:
  "read_diary_book_response object = Inr x \<Longrightarrow>
    names object (ex_session (dbk_exchange x)) (ex_generation (dbk_exchange x)) (Some (ex_request (dbk_exchange x)))"
  by (auto simp: read_diary_book_response_def reader_iffs Let_def split: option.splits if_splits
      dest!: read_exchange_names)

lemma read_debug_names:
  "read_debug_command_response object = Inr x \<Longrightarrow>
    names object (ex_session (dcp_exchange x)) (ex_generation (dcp_exchange x)) (Some (ex_request (dcp_exchange x)))"
  by (auto simp: read_debug_command_response_def reader_iffs Let_def split: option.splits if_splits
      dest!: read_exchange_names)

lemma read_command_result_names:
  "read_command_result subject minimum statuses messages object = Inr x \<Longrightarrow>
    names object (cra_session x) (cra_generation x) (Some (cra_request x))"
  by (auto simp: read_command_result_def reader_iffs require_uuid_Inr_iff require_unsigned_Inr_iff names_def
      split: option.splits)

lemma read_game_data_names:
  "read_game_data_accepted object = Inr x \<Longrightarrow> names object (gda_session x) (gda_generation x) (Some (gda_request x))"
  by (auto simp: read_game_data_accepted_def reader_iffs require_uuid_Inr_iff require_unsigned_Inr_iff names_def)

text \<open>A parser is addressed when what it makes of an object is.\<close>

lemma parsed_object_addressed:
  assumes "and_then (parse_object body hs schema default_limits) read = Inr x"
    and "\<And>object. read object = Inr x \<Longrightarrow> names object s g r"
  shows "\<exists>object. root_object body object \<and> names object s g r"
  using assms parse_object_root by (fastforce simp: and_then_Inr_iff)

interpretation session_accepted: addressed_reply
  "\<lambda>body hs. parse_session_accepted_response body hs default_limits" sa_session sa_generation "\<lambda>_. None"
  by unfold_locales
    (auto simp: parse_session_accepted_response_def elim!: parsed_object_addressed intro: read_session_accepted_names)

interpretation turn_accepted: addressed_reply
  "\<lambda>body hs. parse_turn_accepted_response body hs default_limits" "\<lambda>x. rc_session (ta_correlation x)"
  "\<lambda>x. rc_generation (ta_correlation x)" "\<lambda>x. Some (rc_request (ta_correlation x))"
  by unfold_locales
    (auto simp: parse_turn_accepted_response_def reader_iffs dest!: parse_object_root parse_correlation_names)

interpretation interruption_accepted: addressed_reply
  "\<lambda>body hs. parse_interruption_accepted_response body hs default_limits" "\<lambda>x. rc_session (ca_correlation x)"
  "\<lambda>x. rc_generation (ca_correlation x)" "\<lambda>x. Some (rc_request (ca_correlation x))"
  by unfold_locales
    (auto simp: parse_interruption_accepted_response_def elim!: parsed_object_addressed intro: read_cursor_accepted_names)

interpretation recording_accepted: addressed_reply
  "\<lambda>body hs. parse_stt_accepted_response body hs default_limits" "\<lambda>x. rc_session (ca_correlation x)" "\<lambda>x. rc_generation (ca_correlation x)" "\<lambda>x. Some (rc_request (ca_correlation x))"
  by unfold_locales
    (auto simp: parse_stt_accepted_response_def elim!: parsed_object_addressed intro: read_cursor_accepted_names)

interpretation action_accepted: addressed_reply
  "\<lambda>body hs. parse_action_result_accepted_response body hs default_limits" "\<lambda>x. rc_session (ara_correlation x)" "\<lambda>x. rc_generation (ara_correlation x)" "\<lambda>x. Some (rc_request (ara_correlation x))"
  by unfold_locales
    (auto simp: parse_action_result_accepted_response_def reader_iffs dest!: parse_object_root parse_correlation_names)

interpretation delivery_accepted: addressed_reply
  "\<lambda>body hs. parse_delivery_result_accepted_response body hs default_limits" "\<lambda>x. rc_session (dra_correlation x)" "\<lambda>x. rc_generation (dra_correlation x)" "\<lambda>x. Some (rc_request (dra_correlation x))"
  by unfold_locales
    (auto simp: parse_delivery_result_accepted_response_def reader_iffs dest!: parse_object_root parse_correlation_names)

interpretation session_closed: addressed_reply
  "\<lambda>body hs. parse_session_ended_response body hs default_limits" "se_session" "se_generation" "\<lambda>x. Some (se_request x)"
  by unfold_locales
    (auto simp: parse_session_ended_response_def elim!: parsed_object_addressed intro: read_session_ended_names)

interpretation events_page: addressed_reply
  "\<lambda>body hs. parse_events_response body hs default_limits" "er_session" "er_generation" "\<lambda>_. None"
  by unfold_locales
    (auto simp: parse_events_response_def elim!: parsed_object_addressed intro: read_events_names)

interpretation controls_page: addressed_reply
  "\<lambda>body hs. parse_controls_response body hs default_limits" "\<lambda>x. ex_session (cr_exchange x)" "\<lambda>x. ex_generation (cr_exchange x)" "\<lambda>x. Some (ex_request (cr_exchange x))"
  by unfold_locales
    (auto simp: parse_controls_response_def elim!: parsed_object_addressed intro: read_controls_names)

interpretation diary_page: addressed_reply
  "\<lambda>body hs. parse_diary_book_response body hs default_limits" "\<lambda>x. ex_session (dbk_exchange x)" "\<lambda>x. ex_generation (dbk_exchange x)" "\<lambda>x. Some (ex_request (dbk_exchange x))"
  by unfold_locales
    (auto simp: parse_diary_book_response_def elim!: parsed_object_addressed intro: read_diary_names)

interpretation debug_page: addressed_reply
  "\<lambda>body hs. parse_debug_command_response body hs default_limits" "\<lambda>x. ex_session (dcp_exchange x)" "\<lambda>x. ex_generation (dcp_exchange x)" "\<lambda>x. Some (ex_request (dcp_exchange x))"
  by unfold_locales
    (auto simp: parse_debug_command_response_def elim!: parsed_object_addressed intro: read_debug_names)

interpretation diary_result: addressed_reply
  "\<lambda>body hs. parse_diary_result_accepted_response body hs default_limits" "cra_session" "cra_generation" "\<lambda>x. Some (cra_request x)"
  by unfold_locales
    (auto simp: parse_diary_result_accepted_response_def elim!: parsed_object_addressed intro: read_command_result_names)

interpretation debug_result: addressed_reply
  "\<lambda>body hs. parse_debug_result_accepted_response body hs default_limits" "cra_session" "cra_generation" "\<lambda>x. Some (cra_request x)"
  by unfold_locales
    (auto simp: parse_debug_result_accepted_response_def elim!: parsed_object_addressed intro: read_command_result_names)

interpretation speech_ready: addressed_reply
  "\<lambda>body hs. parse_menu_tts_ready_response body hs default_limits" "\<lambda>x. ex_session (mtr_exchange x)" "\<lambda>x. ex_generation (mtr_exchange x)" "\<lambda>x. Some (ex_request (mtr_exchange x))"
  by unfold_locales
    (auto simp: parse_menu_tts_ready_response_def reader_iffs dest!: parse_object_root read_exchange_names)

interpretation autochat_ready: addressed_reply
  "\<lambda>body hs. parse_autochat_ready_response body hs default_limits" "\<lambda>x. ex_session (apr_exchange x)" "\<lambda>x. ex_generation (apr_exchange x)" "\<lambda>x. Some (ex_request (apr_exchange x))"
  by unfold_locales
    (auto simp: parse_autochat_ready_response_def reader_iffs dest!: parse_object_root read_exchange_names)

interpretation game_data: addressed_reply
  "\<lambda>body hs. parse_game_data_accepted_response body hs default_limits" "gda_session" "gda_generation" "\<lambda>x. Some (gda_request x)"
  by unfold_locales
    (auto simp: parse_game_data_accepted_response_def elim!: parsed_object_addressed intro: read_game_data_names)

section \<open>The replies\<close>

text \<open>The reply names this session, generation and request, and the result is for session \<open>s\<close>.\<close>

definition addressed_to :: "string \<Rightarrow> SessionId \<Rightarrow> generation \<Rightarrow> RequestId option \<Rightarrow> bool" where
  "addressed_to body session generation request \<longleftrightarrow>
     (\<exists>object. root_object body object \<and> names object session generation request)"

lemma init_reply_addressed:
  "init_reply r x body hs = Inr (s, k) \<Longrightarrow> addressed_to body (s) (out_generation r) (None)"
  by (auto simp: init_reply_def addressed_to_def elim!: session_accepted.reply_addressed)

lemma turn_reply_addressed:
  "turn_reply r x body hs = Inr (s, k) \<Longrightarrow> addressed_to body (env_session (turn_ids x)) (env_generation (turn_ids x)) (Some (env_request (turn_ids x))) \<and> s = out_session r"
  by (auto simp: turn_reply_def addressed_to_def same_ids_def elim!: turn_accepted.reply_addressed)

lemma poll_reply_addressed:
  "poll_reply r x body hs = Inr (s, k) \<Longrightarrow> addressed_to body (poll_session x) (poll_generation x) (None) \<and> s = out_session r"
  by (auto simp: poll_reply_def addressed_to_def elim!: events_page.reply_addressed)

lemma interruption_reply_addressed:
  "interruption_reply r x body hs = Inr (s, k) \<Longrightarrow> addressed_to body (intr_session x) (intr_generation x) (Some (intr_request x)) \<and> s = out_session r"
  by (auto simp: interruption_reply_def addressed_to_def Let_def elim!: interruption_accepted.reply_addressed)

lemma action_result_reply_addressed:
  "action_result_reply r x body hs = Inr (s, k) \<Longrightarrow> addressed_to body (corr_session (ar_correlation x)) (corr_generation (ar_correlation x)) (Some (corr_request (ar_correlation x))) \<and> s = out_session r"
  by (auto simp: action_result_reply_def addressed_to_def same_turn_def elim!: action_accepted.reply_addressed)

lemma delivery_reply_addressed:
  "delivery_reply r x body hs = Inr (s, k) \<Longrightarrow> addressed_to body (corr_session (dd_correlation x)) (corr_generation (dd_correlation x)) (Some (corr_request (dd_correlation x))) \<and> s = out_session r"
  by (auto simp: delivery_reply_def addressed_to_def same_turn_def elim!: delivery_accepted.reply_addressed)

lemma session_end_reply_addressed:
  "session_end_reply r x body hs = Inr (s, k) \<Longrightarrow> addressed_to body (end_session x) (end_generation x) (Some (end_request x)) \<and> s = out_session r"
  by (auto simp: session_end_reply_def addressed_to_def elim!: session_closed.reply_addressed)

lemma stt_reply_addressed:
  "stt_reply r x body hs = Inr (s, k) \<Longrightarrow> addressed_to body (env_session (stt_ids x)) (env_generation (stt_ids x)) (Some (env_request (stt_ids x))) \<and> s = out_session r"
  by (auto simp: stt_reply_def addressed_to_def same_ids_def elim!: recording_accepted.reply_addressed)

lemma diary_query_reply_addressed:
  "diary_query_reply r x body hs = Inr (s, k) \<Longrightarrow> addressed_to body (corr_session (dbq_correlation x)) (corr_generation (dbq_correlation x)) (Some (corr_request (dbq_correlation x))) \<and> s = out_session r"
  by (auto simp: diary_query_reply_def addressed_to_def same_exchange_def elim!: diary_page.reply_addressed)

lemma diary_result_reply_addressed:
  "diary_result_reply r x body hs = Inr (s, k) \<Longrightarrow> addressed_to body (corr_session (dbr_correlation x)) (corr_generation (dbr_correlation x)) (Some (corr_request (dbr_correlation x))) \<and> s = out_session r"
  by (auto simp: diary_result_reply_def addressed_to_def same_result_def elim!: diary_result.reply_addressed)

lemma debug_query_reply_addressed:
  "debug_query_reply r x body hs = Inr (s, k) \<Longrightarrow> addressed_to body (corr_session (dcq_correlation x)) (corr_generation (dcq_correlation x)) (Some (corr_request (dcq_correlation x))) \<and> s = out_session r"
  by (auto simp: debug_query_reply_def addressed_to_def same_exchange_def elim!: debug_page.reply_addressed)

lemma debug_result_reply_addressed:
  "debug_result_reply r x body hs = Inr (s, k) \<Longrightarrow> addressed_to body (corr_session (dcr_correlation x)) (corr_generation (dcr_correlation x)) (Some (corr_request (dcr_correlation x))) \<and> s = out_session r"
  by (auto simp: debug_result_reply_def addressed_to_def same_result_def elim!: debug_result.reply_addressed)

lemma autochat_reply_addressed:
  "autochat_reply r x body hs = Inr (s, k) \<Longrightarrow> addressed_to body (corr_session (pa_correlation x)) (corr_generation (pa_correlation x)) (Some (corr_request (pa_correlation x))) \<and> s = out_session r"
  by (auto simp: autochat_reply_def addressed_to_def same_exchange_def elim!: autochat_ready.reply_addressed)

lemma game_data_reply_addressed:
  "game_data_reply r x body hs = Inr (s, k) \<Longrightarrow> addressed_to body (out_session r) (out_generation r) (Some (gd_request x)) \<and> s = out_session r"
  by (auto simp: game_data_reply_def addressed_to_def elim!: game_data.reply_addressed)

lemma controls_reply_addressed:
  "controls_reply r message c mismatch body hs = Inr (s, k) \<Longrightarrow>
    addressed_to body (corr_session c) (corr_generation c) (Some (corr_request c)) \<and> s = out_session r"
  by (auto simp: controls_reply_def addressed_to_def same_exchange_def elim!: controls_page.reply_addressed)

lemma speech_reply_addressed:
  "speech_reply r message c mismatch body hs = Inr (s, k) \<Longrightarrow>
    addressed_to body (corr_session c) (corr_generation c) (Some (corr_request c)) \<and> s = out_session r"
  by (auto simp: speech_reply_def addressed_to_def same_exchange_def elim!: speech_ready.reply_addressed)

lemmas replies_addressed =
  init_reply_addressed turn_reply_addressed poll_reply_addressed interruption_reply_addressed action_result_reply_addressed delivery_reply_addressed session_end_reply_addressed stt_reply_addressed diary_query_reply_addressed diary_result_reply_addressed debug_query_reply_addressed debug_result_reply_addressed autochat_reply_addressed game_data_reply_addressed controls_reply_addressed speech_reply_addressed

text \<open>The request that the reply to a payload names; a poll and a session have none.\<close>

definition answered_request :: "outbound_request \<Rightarrow> RequestId option" where
  "answered_request r =
     (case out_payload r of
        InitRequest _ \<Rightarrow> None
      | EventPollRequest _ \<Rightarrow> None
      | InterruptionRequest i \<Rightarrow> Some (intr_request i)
      | ActionResultRequest a \<Rightarrow> Some (corr_request (ar_correlation a))
      | DialogueDeliveryResultRequest d \<Rightarrow> Some (corr_request (dd_correlation d))
      | _ \<Rightarrow> Some (out_id r))"

lemma reply_of_addressed:
  assumes "reply_of r body hs = Some (Inr (s, k))" "out_kind r \<notin> {RK_health, RK_media}"
    and "payload_kind (out_payload r) = out_kind r" "correlation_agrees r"
  shows "addressed_to body s (out_generation r) (answered_request r) \<and> (out_kind r = RK_init \<or> s = out_session r)"
  using assms
  by (cases "out_payload r")
    (auto simp: reply_of_def answered_request_def correlation_agrees_def Let_def dest!: sym [of _ "out_kind r"] replies_addressed)

lemma validate_response_Inr:
  assumes "validate_response request wire response = Some (Inr r)"
  obtains k where "hr_status response = wr_expected_status wire"
    "reply_of request (hr_body response) (hr_headers response) = Some (Inr (in_session r, k))"
    "r = \<lparr>in_request = out_id request, in_session = in_session r, in_generation = out_generation request,
          in_kind = k, in_payload = hr_body response, in_failure = None\<rparr>"
  using assms
  by (auto simp: validate_response_def Let_def transport_failure_def protocol_failure_def and_then_Inr_iff
      split: if_splits)


definition sample_events_reply :: http_response where
  "sample_events_reply = \<lparr>hr_status = 200, hr_headers = [(''Content-Type'', ''application/json; charset=utf-8'')],
     hr_body = concat [''{'', quoted ''schema'', '':'', quoted ''lorkhan.events.v1'',
       '','', quoted ''session_id'', '':'', quoted ''7c9e6679-7425-40de-944b-e07fc1f90ae7'',
       '','', quoted ''generation'', '':3,'', quoted ''next_after'', '':12,'', quoted ''events'', '':[],'',
       quoted ''autonomy'', '':[]}'']\<rparr>"

definition delivers :: "inbound_result result option \<Rightarrow> bool" where
  "delivers r = (case r of Some (Inr _) \<Rightarrow> True | _ \<Rightarrow> False)"

lemma sample_events_reply_delivered:
  "delivers (validate_response sample_turn_request (get_wire ''/events'' 200) sample_events_reply)"
  by code_simp


section \<open>The payload is of the kind\<close>

lemma serialize_kind_other:
  assumes "out_kind r \<noteq> RK_health" "payload_kind (out_payload r) \<noteq> out_kind r"
  shows "serialize_kind base r = Inr initial_wire"
  using assms
  by (cases "out_kind r"; simp add: serialize_kind_def Let_def; cases "out_payload r"; simp)

lemma serialize_request_kind:
  assumes "serialize_request base r = Inr wire"
  shows "out_kind r = RK_health \<or> payload_kind (out_payload r) = out_kind r"
proof (rule ccontr)
  assume "\<not> ?thesis"
  then have "serialize_kind base r = Inr initial_wire" by (intro serialize_kind_other) auto
  moreover have "wr_target initial_wire = []" by (simp add: initial_wire_def)
  ultimately show False using assms by (simp add: serialize_request_def)
qed

end
