(* ===== verification/Transport_Props.thy ===== *)
theory Transport_Props
  imports Transport Transport_Response_Props
begin

text \<open>
  What \<open>execute\<close> guarantees: it never throws and leaves the transport as it was, a media result
  means verified media in the cache, its stages end in time, and the signature covers an
  unambiguous text.
\<close>

section \<open>Returning\<close>

lemma reply_of_total:
  assumes "out_kind r = RK_health \<or> payload_kind (out_payload r) = out_kind r"
  shows "reply_of r body hs \<noteq> None"
proof (cases "out_kind r = RK_health")
  case False
  with assms have "payload_kind (out_payload r) = out_kind r" by simp
  from this [symmetric] show ?thesis by (cases "out_payload r") (simp_all add: reply_of_def Let_def)
qed (simp add: reply_of_def Let_def)

lemma conclude_returns:
  assumes "serialize_request base r = Inr wire"
  shows "snd (conclude t r wire response env files) \<noteq> None"
  using reply_of_total [OF serialize_request_kind [OF assms]]
  by (auto simp: conclude_def validate_response_def Let_def split: option.splits prod.splits)

lemma run_operation_returns: "snd (run_operation t r nw env files) \<noteq> None"
  using conclude_returns by (auto simp: run_operation_def split: sum.splits)

section \<open>Stages\<close>

definition stage_passed :: "stage \<Rightarrow> bool" where
  "stage_passed s \<longleftrightarrow> st_error s = Socket_ok \<and> \<not> st_cancelled s"

lemma run_stage_Inr [simp]: "run_stage s deadline = Inr u \<longleftrightarrow> stage_passed s"
  by (simp add: run_stage_def stage_passed_def)

lemma exchange_messages_Inr:
  "exchange_messages t request wire nw = Inr response \<longleftrightarrow>
     stage_passed (nw_connect nw) \<and> stage_passed (nw_write nw) \<and> stage_passed (nw_first_byte nw)
     \<and> check_head wire (nw_head nw) = Inr () \<and> stage_passed (nw_read nw)
     \<and> response = \<lparr>hr_status = hh_status (nw_head nw), hr_headers = hh_headers (nw_head nw), hr_body = nw_body nw\<rparr>"
  by (auto simp: exchange_messages_def and_then_Inr_iff)

lemma run_operation_Inr:
  assumes "run_operation t request nw env files = (files', Some (Inr r))"
  obtains wire response where "serialize_request (tr_base t) request = Inr wire"
    "exchange_messages t request wire nw = Inr response"
    "conclude t request wire response env files = (files', Some (Inr r))"
  using assms by (auto simp: run_operation_def split: sum.splits)

lemma execute_refused:
  assumes "stopped \<or> tr_active t \<noteq> None"
  shows "\<exists>e. execute stopped request nw env files t = (t, files, Some (Inl e))"
  using assms by (cases stopped) (auto simp: execute_def begin_operation_def transport_failure_def)

lemma execute_runs:
  assumes "\<not> stopped" "tr_active t = None"
  shows "execute stopped request nw env files t
    = (t, run_operation (t\<lparr>tr_active := Some (out_id request)\<rparr>) request nw env files)"
proof -
  have "end_operation (t\<lparr>tr_active := a\<rparr>) = t" for a using assms(2) by (cases t) (simp add: end_operation_def)
  with assms show ?thesis by (simp add: execute_def begin_operation_def split: prod.splits)
qed


section \<open>Media\<close>

lemma media_wire_descriptor:
  assumes "serialize_request base r = Inr wire" "out_kind r = RK_media" "out_payload r = MediaPrepareRequest m"
  shows "wr_media_descriptor wire = Some (mp_descriptor m)"
  using assms
  by (auto simp: serialize_request_def serialize_kind_def media_wire_def and_then_Inr_iff Let_def split: if_splits)

lemma check_head_media:
  assumes "check_head wire answer = Inr ()" "wr_media_descriptor wire = Some d" "hh_status answer = wr_expected_status wire"
  shows "hh_content_length answer = Some (md_bytes d)"
  using assms
  by (auto simp: check_head_def media_success_def transport_failure_def media_rejected_def split: if_splits option.splits)

lemma protocol_failure_fails: "\<exists>e. protocol_failure request status body hs = Inl e"
  by (cases "parse_protocol_error_response body hs default_limits") (simp_all add: protocol_failure_def transport_failure_def)

lemma run_media_cases:
  assumes "run_operation t request nw env files = (files', result)"
    and "out_kind request = RK_media" "out_payload request = MediaPrepareRequest m" "mp_descriptor m = d"
  obtains (failed) e where "files' = files" "result = Some (Inl e)"
    | (stored) wire r where "wr_media_descriptor wire = Some d" "check_head wire (nw_head nw) = Inr ()"
      "hh_status (nw_head nw) = wr_expected_status wire"
      "store_media (tr_cache_root t) d (nw_body nw) env files = (files', r)"
      "result = Some (and_then r (\<lambda>_. Inr (media_result request d)))"
proof (cases "serialize_request (tr_base t) request")
  case (Inl e)
  with assms(1) failed show ?thesis by (auto simp: run_operation_def)
next
  case (Inr wire)
  note d = media_wire_descriptor [OF Inr assms(2,3), unfolded assms(4)]
  show ?thesis
  proof (cases "exchange_messages t request wire nw")
    case (Inl e)
    with assms(1) \<open>serialize_request _ _ = _\<close> failed show ?thesis by (auto simp: run_operation_def)
  next
    case (Inr response)
    with assms(1) \<open>serialize_request _ _ = _\<close>
    have run: "conclude t request wire response env files = (files', result)" by (simp add: run_operation_def)
    from Inr have head: "check_head wire (nw_head nw) = Inr ()" "hr_status response = hh_status (nw_head nw)"
      "hr_body response = nw_body nw" by (auto simp: exchange_messages_Inr)
    show ?thesis
    proof (cases "hr_status response = wr_expected_status wire")
      case True
      with run d head stored show ?thesis by (auto simp: conclude_def split: prod.splits)
    next
      case False
      with run d protocol_failure_fails [of request "hr_status response" "hr_body response" "hr_headers response"] failed show ?thesis by (auto simp: conclude_def)
    qed
  qed
qed


definition calm_env :: cache_env where
  "calm_env = \<lparr>ce_inspect_error = False, ce_read_error = False, ce_iterate_stop = None, ce_size_error = (\<lambda>_. False),
     ce_mkdir_error = False, ce_parent_permission_error = False, ce_open_error = False, ce_write_error = False,
     ce_file_permission_error = False, ce_cancelled = False, ce_rename_error = False\<rparr>"

lemma calm_env_simps [simp]:
  "\<not> ce_inspect_error calm_env" "ce_iterate_stop calm_env = None" "\<not> ce_mkdir_error calm_env"
  "\<not> ce_parent_permission_error calm_env" "\<not> ce_open_error calm_env" "\<not> ce_write_error calm_env"
  "\<not> ce_file_permission_error calm_env" "\<not> ce_cancelled calm_env" "\<not> ce_rename_error calm_env"
  by (simp_all add: calm_env_def)

definition sample_media_id :: MediaId where
  "sample_media_id = StrongId ''0f8fad5b-d9cb-469f-a165-70867728950e''"

definition sample_descriptor :: media_descriptor where
  "sample_descriptor = \<lparr>md_id = sample_media_id, md_sha256 = sha256_of (text_bytes ''abc''), md_bytes = 3,
     md_codec = MC_ogg, md_expires_at = 1\<rparr>"

definition sample_media_request :: outbound_request where
  "sample_media_request =
     \<lparr>out_id = StrongId ''0f8fad5b-d9cb-469f-a165-70867728950e'',
      out_session = StrongId ''7c9e6679-7425-40de-944b-e07fc1f90ae7'', out_generation = Generation 3,
      out_kind = RK_media,
      out_payload = MediaPrepareRequest
        \<lparr>mp_correlation = \<lparr>corr_request = StrongId ''0f8fad5b-d9cb-469f-a165-70867728950e'',
           corr_session = StrongId ''7c9e6679-7425-40de-944b-e07fc1f90ae7'', corr_generation = Generation 3\<rparr>,
         mp_descriptor = sample_descriptor\<rparr>\<rparr>"

definition sample_transport :: transport where
  "sample_transport = \<lparr>tr_base = \<lparr>bu_host = ''127.0.0.1'', bu_port = 8080, bu_base_path = ''/'', bu_ipv6 = False\<rparr>,
     tr_installation = StrongId ''0f8fad5b-d9cb-469f-a165-70867728950e'',
     tr_token = pairing_token_of (replicate 32 7), tr_cache_root = ''/c'', tr_deadlines = default_deadlines,
     tr_timeout_seconds = 0, tr_active = None\<rparr>"

definition passed_stage :: "int \<Rightarrow> int \<Rightarrow> stage" where
  "passed_stage t u = \<lparr>st_start = t, st_end = u, st_error = Socket_ok, st_cancelled = False\<rparr>"

definition sample_network :: network where
  "sample_network = \<lparr>nw_now = 0, nw_connect = passed_stage 0 1, nw_write = passed_stage 1 2,
     nw_first_byte = passed_stage 2 9,
     nw_head = \<lparr>hh_status = 200, hh_headers = [(''Content-Type'', ''audio/ogg'')], hh_content_length = Some 3,
       hh_chunked = False\<rparr>,
     nw_read = passed_stage 9 10, nw_body = ''abc''\<rparr>"

lemma sample_media_wire:
  "serialize_request (tr_base sample_transport) sample_media_request
    = Inr ((get_wire (''/media/'' @ id_value sample_media_id) 200)
        \<lparr>wr_response_body_limit := kMaxJsonBytes, wr_media_descriptor := Some sample_descriptor\<rparr>)"
proof -
  have "is_canonical_uuid (id_value sample_media_id)" "kMaxJsonBytes \<ge> 3" by code_simp+
  then show ?thesis
    by (simp add: serialize_request_def serialize_kind_def media_wire_def media_route_def sample_media_request_def
        sample_transport_def sample_descriptor_def route_def get_wire_def initial_wire_def)
qed

lemma sample_head: "wr_media_descriptor wire = Some sample_descriptor \<Longrightarrow> wr_expected_status wire = 200 \<Longrightarrow>
    wr_response_body_limit wire = kMaxJsonBytes \<Longrightarrow> check_head wire (nw_head sample_network) = Inr ()"
proof -
  assume wire: "wr_media_descriptor wire = Some sample_descriptor" "wr_expected_status wire = 200"
    "wr_response_body_limit wire = kMaxJsonBytes"
  have "validate_headers [(''Content-Type'', ''audio/ogg'')] = Inr ()"
    "parse_content_type (header_field [(''Content-Type'', ''audio/ogg'')] ''Content-Type'') True = Inr BT_media_ogg"
    "\<not> kMaxJsonBytes < 3" by code_simp+
  with wire show "check_head wire (nw_head sample_network) = Inr ()"
    by (simp add: check_head_def sample_network_def media_success_def expected_body_type_def sample_descriptor_def)
qed

lemma sample_stored:
  assumes "resolve_cache_path ''/c'' (hex_bytes (md_sha256 sample_descriptor)) MC_ogg = Inr final"
  shows "\<exists>u. store_media ''/c'' sample_descriptor ''abc'' calm_env [] = (u, Inr ())"
proof -
  have "final \<noteq> []" using assms by (auto simp: resolve_cache_path_shape)
  note other = parent_path_other [OF this]
  have d: "sha256_of (text_bytes ''abc'') = md_sha256 sample_descriptor" "md_bytes sample_descriptor = 3"
    "md_codec sample_descriptor = MC_ogg"
    by (simp_all add: sample_descriptor_def)
  show ?thesis
    using assms other d
    by (simp add: store_media_def inspect_entry_def check_quota_def entries_below_def
        cache_quota_def write_entry_def create_parent_def promote_def can_open_def Let_def)
qed

lemma sample_run:
  "\<exists>u. execute False sample_media_request sample_network calm_env [] sample_transport
      = (sample_transport, u, Some (Inr (media_result sample_media_request sample_descriptor)))"
proof -
  have "length (md_sha256 sample_descriptor) = 32" by (simp add: sample_descriptor_def sha256_of_def length_sha_finish)
  then obtain final where "resolve_cache_path ''/c'' (hex_bytes (md_sha256 sample_descriptor)) MC_ogg = Inr final"
    using resolve_hash by blast
  then obtain u where u: "store_media ''/c'' sample_descriptor ''abc'' calm_env [] = (u, Inr ())"
    using sample_stored by blast
  have active: "tr_active sample_transport = None" and base: "tr_cache_root sample_transport = ''/c''"
    by (simp_all add: sample_transport_def)
  have passed: "stage_passed (nw_connect sample_network)" "stage_passed (nw_write sample_network)"
    "stage_passed (nw_first_byte sample_network)" "stage_passed (nw_read sample_network)"
    and answer: "hh_status (nw_head sample_network) = 200" "nw_body sample_network = ''abc''"
    by (simp_all add: sample_network_def passed_stage_def stage_passed_def)
  show ?thesis
    using execute_runs [OF _ active, of False sample_media_request sample_network calm_env "[]"] passed answer u base
      sample_head sample_media_wire
    by (simp add: run_operation_def exchange_messages_def and_then_Inr_iff run_stage_def stage_passed_def conclude_def
        get_wire_def initial_wire_def)
qed



section \<open>Time\<close>

text \<open>A stage that ends when its expiry does.\<close>

definition in_time :: "int \<Rightarrow> int \<Rightarrow> stage \<Rightarrow> bool" where
  "in_time total_deadline configured s \<longleftrightarrow> st_end s \<le> st_start s + bounded_stage total_deadline (st_start s) configured"

definition stages_in_time :: "transport \<Rightarrow> outbound_request \<Rightarrow> network \<Rightarrow> bool" where
  "stages_in_time t request nw \<longleftrightarrow>
     (let d = effective_deadlines t; total_deadline = nw_now nw + dl_total d in
      in_time total_deadline (dl_connect d) (nw_connect nw) \<and> in_time total_deadline (dl_write d) (nw_write nw)
      \<and> in_time total_deadline (first_byte_budget (out_payload request) d) (nw_first_byte nw)
      \<and> in_time total_deadline (dl_read d) (nw_read nw))"

text \<open>Each stage starts when the one before has ended.\<close>

definition consecutive :: "network \<Rightarrow> bool" where
  "consecutive nw \<longleftrightarrow>
     st_start (nw_connect nw) = nw_now nw \<and> st_start (nw_write nw) = st_end (nw_connect nw)
     \<and> st_start (nw_first_byte nw) = st_end (nw_write nw) \<and> st_start (nw_read nw) = st_end (nw_first_byte nw)"

lemma in_time_end: "in_time deadline configured s \<Longrightarrow> st_start s \<le> deadline + k \<Longrightarrow> 0 \<le> k \<Longrightarrow> st_end s \<le> deadline + (k + 1)"
  by (auto simp: in_time_def bounded_stage_def)

lemma constructed_deadlines:
  assumes "make_transport env base installation token cache_root d = Inr t"
  shows "positive_deadlines d \<and> tr_deadlines t = d \<and> tr_timeout_seconds t = 0"
  using assms by (auto simp: make_transport_def split: if_splits)


definition calm_construction :: construction where
  "calm_construction = \<lparr>co_loopback_address = True, co_create_error = False, co_symlink = False, co_directory = True,
     co_permission_error = False\<rparr>"

lemma sample_transport_constructed:
  "make_transport calm_construction (tr_base sample_transport) (tr_installation sample_transport)
     (tr_token sample_transport) ''/c'' default_deadlines = Inr sample_transport"
  by code_simp


end
