(* ===== verification/Transport_Signature.thy ===== *)
theory Transport_Signature
  imports Transport_Props
begin

text \<open>
  The text that a request's signature covers. Its parts are joined by newlines; none of them
  contains one for a request that the service admitted, so the text determines its parts.
\<close>

section \<open>Parts without newlines\<close>

definition newline_free :: "string \<Rightarrow> bool" where
  "newline_free s \<longleftrightarrow> CHR 0x0A \<notin> set s"

lemma newline_split:
  "newline_free a \<Longrightarrow> newline_free c \<Longrightarrow> a @ CHR 0x0A # b = c @ CHR 0x0A # d \<Longrightarrow> a = c \<and> b = d"
  unfolding newline_free_def by (induction a arbitrary: c) (case_tac [!] c, auto)

lemma hex_newline_free: "newline_free (hex_bytes bs)"
proof -
  have "\<not> is_lower_hex (CHR 0x0A)" by code_simp
  with hex_bytes_lower [of bs] show ?thesis by (auto simp: newline_free_def list_all_iff)
qed

lemma method_newline_free: "newline_free (method_string m)"
  by (cases m) (simp_all add: newline_free_def)

lemma method_string_inject: "method_string m = method_string n \<Longrightarrow> m = n"
  by (cases m; cases n; simp)

lemma canonical_text_inject:
  assumes "canonical_text m target content digest i ts nonce = canonical_text m' target' content' digest' i' ts' nonce'"
    and "newline_free target" "newline_free target'" "newline_free content" "newline_free content'"
    and "newline_free digest" "newline_free digest'" "newline_free (id_value i)" "newline_free (id_value i')"
    and "newline_free ts" "newline_free ts'"
  shows "m = m' \<and> target = target' \<and> content = content' \<and> digest = digest' \<and> i = i' \<and> ts = ts' \<and> nonce = nonce'"
proof -
  note split = newline_split [OF method_newline_free method_newline_free]
    newline_split [OF assms(2,3)] newline_split [OF assms(4,5)] newline_split [OF assms(6,7)]
    newline_split [OF assms(8,9)] newline_split [OF assms(10,11)]
  have "method_string m = method_string m' \<and> target = target' \<and> content = content' \<and> digest = digest'
      \<and> id_value i = id_value i' \<and> ts = ts' \<and> nonce = nonce'"
    using assms(1) unfolding canonical_text_def same_append_eq list.inject by (auto dest!: split)
  then show ?thesis by (cases i; cases i') (auto dest: method_string_inject)
qed

section \<open>The parts of an admitted request\<close>

lemma newline_free_simps [simp]:
  "newline_free []" "newline_free (c # s) \<longleftrightarrow> c \<noteq> CHR 0x0A \<and> newline_free s"
  "newline_free (s @ t) \<longleftrightarrow> newline_free s \<and> newline_free t"
  by (auto simp: newline_free_def)

lemma uuid_newline_free: "is_canonical_uuid s \<Longrightarrow> newline_free s"
proof -
  have "\<not> is_digit (CHR 0x0A)" "\<not> char_between (CHR ''a'') (CHR ''f'') (CHR 0x0A)" by code_simp+
  moreover assume "is_canonical_uuid s"
  then have "if i = 8 \<or> i = 13 \<or> i = 18 \<or> i = 23 then s ! i = CHR ''-''
      else is_digit (s ! i) \<or> char_between (CHR ''a'') (CHR ''f'') (s ! i)" if "i < length s" for i
    using that by (auto simp: is_canonical_uuid_def list_all_iff)
  ultimately show ?thesis unfolding newline_free_def in_set_conv_nth by (fastforce split: if_splits)
qed

lemma decimal_newline_free: "newline_free (to_decimal n)"
proof -
  have "\<not> is_digit (CHR 0x0A)" by code_simp
  with to_decimal_digits [of n] show ?thesis by (auto simp: newline_free_def list_all_iff)
qed

lemma route_newline_free: "newline_free (bu_base_path base) \<Longrightarrow> newline_free s \<Longrightarrow> newline_free (route base s)"
  by (simp add: route_def)

definition safe_wire :: "wire_request \<Rightarrow> bool" where
  "safe_wire w \<longleftrightarrow>
     newline_free (wr_target w) \<and> newline_free (wr_content_type w)
     \<and> (\<forall>f \<in> set (wr_fixed_headers w). lowercase (fst f) \<noteq> lowercase ''Content-Type'')"

lemma safe_post: "newline_free target \<Longrightarrow> safe_wire (post_wire target status key body)"
  by (simp add: safe_wire_def post_wire_def initial_wire_def)

lemma safe_get: "newline_free target \<Longrightarrow> safe_wire (get_wire target status)"
  by (simp add: safe_wire_def get_wire_def initial_wire_def)

lemma safe_type: "safe_wire (w\<lparr>wr_content_type := kJsonContentType\<rparr>)" if "safe_wire w"
proof -
  have "newline_free kJsonContentType" by code_simp
  with that show ?thesis by (simp add: safe_wire_def)
qed

lemma u64_newline_free: "newline_free (u64_text w)"
  by (simp add: u64_text_def decimal_newline_free)

lemmas wire_defs =
  init_wire_def turn_wire_def poll_wire_def interruption_wire_def action_result_wire_def delivery_wire_def
  session_end_wire_def controls_query_wire_def controls_select_wire_def diary_query_wire_def diary_result_wire_def
  debug_query_wire_def debug_result_wire_def menu_tts_wire_def book_wire_def autochat_wire_def game_data_wire_def

lemma stt_wire_safe:
  assumes "stt_wire base s = Inr w" "newline_free (bu_base_path base)"
  shows "safe_wire w"
proof -
  have names: "list_all (\<lambda>n. lowercase n \<noteq> lowercase ''Content-Type'')
      [''X-LORKHAN-Schema'', ''X-LORKHAN-Message-Id'', ''X-LORKHAN-Request-Id'', ''X-LORKHAN-Turn-Id'',
       ''X-LORKHAN-Session-Id'', ''X-LORKHAN-Generation'', ''X-LORKHAN-Created-At'', ''X-LORKHAN-Codec'',
       ''X-LORKHAN-Language'', ''X-LORKHAN-Audio-Bytes'', ''X-LORKHAN-Sha256'']"
    by code_simp
  from assms show ?thesis
    using names
    by (auto simp: stt_wire_def Let_def safe_wire_def route_newline_free split: if_splits)
qed

lemma media_wire_safe:
  "media_wire base m = Inr w \<Longrightarrow> newline_free (bu_base_path base) \<Longrightarrow> safe_wire w"
  by (auto simp: media_wire_def media_route_def and_then_Inr_iff safe_wire_def get_wire_def initial_wire_def
      uuid_newline_free route_newline_free split: if_splits)

lemma session_targets_safe:
  assumes "correlation_agrees r" "valid_id (out_session r)" "newline_free (bu_base_path base)"
  shows "out_payload r = EventPollRequest p \<Longrightarrow> safe_wire (poll_wire base p)"
    and "out_payload r = SessionEndRequest e \<Longrightarrow> safe_wire (session_end_wire base e)"
  using assms uuid_newline_free [of "id_value (out_session r)"]
  by (auto simp: correlation_agrees_def valid_id_def poll_wire_def session_end_wire_def safe_wire_def get_wire_def
      initial_wire_def route_newline_free u64_newline_free decimal_newline_free)

lemma serialize_kind_safe:
  assumes "serialize_kind base r = Inr w" "newline_free (bu_base_path base)" "correlation_agrees r"
    and "out_kind r \<noteq> RK_health \<and> out_kind r \<noteq> RK_init \<longrightarrow> valid_id (out_session r)"
    and "out_kind r = RK_health \<or> payload_kind (out_payload r) = out_kind r"
  shows "safe_wire w"
proof (cases "out_kind r = RK_health")
  case True
  with assms(1,2) show ?thesis by (auto simp: serialize_kind_def Let_def intro!: safe_get route_newline_free)
next
  case False
  with assms(5) have kind: "out_kind r = payload_kind (out_payload r)" by simp
  note session = session_targets_safe [OF assms(3) _ assms(2)]
  note rules = safe_post safe_get route_newline_free assms(2) safe_type stt_wire_safe [OF _ assms(2)]
    media_wire_safe [OF _ assms(2)] session
  from assms(1,2,4) kind rules show ?thesis
    by (cases "out_payload r") (auto simp: serialize_kind_def Let_def wire_defs and_then_Inr_iff split: if_splits)
qed

lemma fold_set_field_subset: "set (fold set_field fs hs) \<subseteq> set hs \<union> set fs"
  by (induction fs arbitrary: hs) (fastforce simp: set_field_def)+

lemma header_field_source:
  "header_field hs name = [] \<or> (\<exists>n. (n, header_field hs name) \<in> set hs \<and> lowercase n = lowercase name)"
  by (auto simp: header_field_def find_Some_iff split: option.splits) (metis nth_mem)

lemma content_type_newline_free:
  assumes "safe_wire w"
  shows "newline_free (header_field (unsigned_headers base r w) ''Content-Type'')"
proof -
  have names: "list_all (\<lambda>n. lowercase n \<noteq> lowercase ''Content-Type'')
      [''Host'', ''User-Agent'', ''Accept'', ''Connection'', ''X-LORKHAN-Request-Id'', ''Idempotency-Key'']"
    by code_simp
  have "v = wr_content_type w" if "(n, v) \<in> set (request_fields base r w)" "lowercase n = lowercase ''Content-Type''" for n v
    using that names assms unfolding request_fields_def safe_wire_def
    by (fastforce split: option.splits if_splits)
  with fold_set_field_subset [of "request_fields base r w" "[]"]
    header_field_source [of "unsigned_headers base r w" "''Content-Type''"]
  show ?thesis using assms by (auto simp: unsigned_headers_def safe_wire_def)
qed

lemma serialize_request_safe:
  assumes "validate_request now current r = Inr ()" "serialize_request base r = Inr w" "newline_free (bu_base_path base)"
  shows "safe_wire w"
proof -
  obtain k where k: "serialize_kind base r = Inr k" "w = k \<or> w = k\<lparr>wr_content_type := kJsonContentType\<rparr>"
    using assms(2) by (auto simp: serialize_request_def and_then_Inr_iff Let_def split: if_splits)
  from serialize_kind_safe [OF k(1) assms(3)] validated_request [OF assms(1)] have "safe_wire k" by blast
  with k(2) safe_type show ?thesis by auto
qed

lemma parsed_url_clean: "parse_loopback_base_url s = Inr u \<Longrightarrow> \<not> has_control s"
  by (rule notI) (simp add: parse_loopback_base_url_def)

lemma constructed_newline_free:
  assumes "make_transport env base installation token cache_root d = Inr t"
  shows "newline_free (bu_base_path (tr_base t))" "newline_free (id_value (tr_installation t))"
proof -
  from assms have t: "tr_base t = base" "tr_installation t = installation" "same_url base" "is_canonical_uuid (id_value installation)"
    by (auto simp: make_transport_def split: if_splits)
  then show "newline_free (id_value (tr_installation t))" by (simp add: uuid_newline_free)
  have "byte (CHR 0x0A) \<le> 0x1F" by code_simp
  moreover from t(3) have "\<not> has_control (''http://'' @ authority base @ bu_base_path base)"
    unfolding same_url_def by (rule parsed_url_clean)
  ultimately show "newline_free (bu_base_path (tr_base t))"
    using t(1) by (fastforce simp: has_control_def newline_free_def list_ex_iff)
qed

section \<open>Signed texts\<close>

lemma hex_digits_inject: "hex_digits a = hex_digits b \<longleftrightarrow> a = b"
proof -
  have alphabet: "distinct hex_alphabet" "length hex_alphabet = 16" by (code_simp, simp add: hex_alphabet_def)
  have high: "unat (drop_bit 4 x) = unat x div 16" and low: "unat (x AND 0x0f) = unat x mod 16" for x :: byte_t
  proof -
    show "unat (drop_bit 4 x) = unat x div 16" by (simp add: drop_bit_eq_div unat_div)
    have "x AND 0x0f = take_bit 4 x" by (simp add: take_bit_eq_mask mask_eq_exp_minus_1 [of 4])
    then show "unat (x AND 0x0f) = unat x mod 16" by (simp add: unat_mod take_bit_eq_mod)
  qed
  have bound: "unat x div 16 < 16" for x :: byte_t
    using unsigned_less [where ?'a = nat and ?'b = 8, of x] by simp
  have "hex_digits a = hex_digits b \<longleftrightarrow> unat a div 16 = unat b div 16 \<and> unat a mod 16 = unat b mod 16"
    by (simp add: hex_digits_def high low bound nth_eq_iff_index_eq [OF alphabet(1)] alphabet(2))
  also have "\<dots> \<longleftrightarrow> unat a = unat b" by (metis div_mod_decomp)
  finally show ?thesis by (simp add: word_unat_eq_iff)
qed

lemma hex_bytes_inject: "hex_bytes a = hex_bytes b \<Longrightarrow> a = b"
proof (induction a arbitrary: b)
  case Nil
  then have "length (hex_bytes b) = 0" by (simp add: hex_bytes_def)
  with hex_bytes_lower [of b] show ?case by simp
next
  case (Cons x xs)
  then obtain y ys where b: "b = y # ys" using hex_digits_lower [of x] by (cases b) (auto simp: hex_bytes_def)
  with Cons.prems hex_digits_lower [of x] hex_digits_lower [of y]
  have "hex_digits x = hex_digits y" "hex_bytes xs = hex_bytes ys" by (auto simp: hex_bytes_def append_eq_append_conv)
  with Cons.IH b show ?case by (simp add: hex_digits_inject)
qed

text \<open>C16. A signature covers exactly what identifies the request: for two requests that the service
  admitted and serialized for constructed transports, the texts under the message authentication
  code are equal exactly when method, target, content type, digest of the body, installation,
  timestamp and nonce are; no field can take over a part of its neighbour.\<close>

theorem signed_text_unambiguous:
  assumes "make_transport env base installation token cache_root d = Inr t"
    and "make_transport env' base' installation' token' cache_root' d' = Inr t'"
    and "validate_request now current r = Inr ()" "serialize_request (tr_base t) r = Inr w"
    and "validate_request now' current' r' = Inr ()" "serialize_request (tr_base t') r' = Inr w'"
    and "newline_free timestamp" "newline_free timestamp'"
  shows "request_canonical t r w timestamp nonce = request_canonical t' r' w' timestamp' nonce' \<longleftrightarrow>
    wr_method w = wr_method w' \<and> wr_target w = wr_target w'
    \<and> header_field (unsigned_headers (tr_base t) r w) ''Content-Type''
      = header_field (unsigned_headers (tr_base t') r' w') ''Content-Type''
    \<and> message_digest (wr_body w) = message_digest (wr_body w')
    \<and> tr_installation t = tr_installation t' \<and> timestamp = timestamp' \<and> nonce = nonce'"
proof -
  have safe: "safe_wire w" "safe_wire w'"
    using serialize_request_safe [OF assms(3,4)] serialize_request_safe [OF assms(5,6)]
      constructed_newline_free [OF assms(1)] constructed_newline_free [OF assms(2)] by auto
  then have "newline_free (wr_target w)" "newline_free (wr_target w')" by (auto simp: safe_wire_def)
  note inject = canonical_text_inject [OF _ this safe [THEN content_type_newline_free] hex_newline_free hex_newline_free
      constructed_newline_free(2) [OF assms(1)] constructed_newline_free(2) [OF assms(2)] assms(7,8)]
  show ?thesis
  proof
    assume "request_canonical t r w timestamp nonce = request_canonical t' r' w' timestamp' nonce'"
    from inject [OF this [unfolded request_canonical_def message_digest_def]] hex_bytes_inject [of nonce nonce']
    show "wr_method w = wr_method w' \<and> wr_target w = wr_target w'
      \<and> header_field (unsigned_headers (tr_base t) r w) ''Content-Type''
        = header_field (unsigned_headers (tr_base t') r' w') ''Content-Type''
      \<and> message_digest (wr_body w) = message_digest (wr_body w')
      \<and> tr_installation t = tr_installation t' \<and> timestamp = timestamp' \<and> nonce = nonce'"
      by (simp add: message_digest_def)
  qed (simp add: request_canonical_def)
qed

definition later_poll :: outbound_request where
  "later_poll = sample_turn_request\<lparr>out_payload := EventPollRequest
     \<lparr>poll_session = StrongId ''7c9e6679-7425-40de-944b-e07fc1f90ae7'', poll_generation = Generation 3,
      poll_after = 13, poll_wait_ms = 15000\<rparr>\<rparr>"

theorem signed_text_unambiguous_witness:
  "\<exists>w w'. serialize_request (tr_base sample_transport) sample_turn_request = Inr w
    \<and> serialize_request (tr_base sample_transport) later_poll = Inr w'
    \<and> request_canonical sample_transport sample_turn_request w ''t'' [1] \<noteq> request_canonical sample_transport later_poll w' ''t'' [1]"
proof -
  define target where "target after = ''/events?session_id=7c9e6679-7425-40de-944b-e07fc1f90ae7&generation=3&after=''
    @ after @ ''&wait_ms=15000''" for after
  have valid: "validate_request 0 (Generation 3) later_poll = Inr ()"
    and first: "serialize_request (tr_base sample_transport) sample_turn_request = Inr (get_wire (target ''12'') 200)"
    and second: "serialize_request (tr_base sample_transport) later_poll = Inr (get_wire (target ''13'') 200)"
    unfolding target_def by code_simp+
  have "newline_free ''t''" by simp
  from signed_text_unambiguous [OF sample_transport_constructed sample_transport_constructed sample_turn_request_valid
      first valid second this this, of "[1]" "[1]"] first second
  show ?thesis by (simp add: get_wire_def initial_wire_def target_def)
qed

end
