(* ===== verification/Json_Texts.thy ===== *)
theory Json_Texts
  imports Json_Props Wire_Text
begin

text \<open>
  How the JSON parser reads text inside other text: whatever it accepts alone, it accepts before
  any delimiter, deeper in a document and with wider limits. The writers of request bodies put
  such texts together; \<open>reads\<close> says what the parser makes of one of them.
\<close>

section \<open>Accepted text before other text\<close>

definition json_delimiter :: "string \<Rightarrow> bool" where
  "json_delimiter r \<longleftrightarrow> r = [] \<or> hd r \<in> {CHR '','', CHR ''}'', CHR '']''}"

lemma delimiter_not_digit: "json_delimiter r \<Longrightarrow> r = [] \<or> \<not> is_digit (hd r)"
  by (auto simp: json_delimiter_def is_digit_def char_between_byte byte_def)

lemma delimiter_not_number:
  "json_delimiter r \<Longrightarrow> r \<noteq> [] \<Longrightarrow> hd r \<noteq> CHR ''.'' \<and> hd r \<noteq> CHR ''e'' \<and> hd r \<noteq> CHR ''E''"
  by (auto simp: json_delimiter_def)

lemma hex_code_unit_append: "hex_code_unit n v s = Inr (w, t) \<Longrightarrow> hex_code_unit n v (s @ r) = Inr (w, t @ r)"
  by (induction n v s rule: hex_code_unit.induct) (auto split: option.splits)

lemma parse_hex_code_unit_append:
  "parse_hex_code_unit s = Inr (w, t) \<Longrightarrow> parse_hex_code_unit (s @ r) = Inr (w, t @ r)"
  by (auto simp: parse_hex_code_unit_def hex_code_unit_append split: if_splits)

lemma parse_unicode_escape_append:
  assumes "parse_unicode_escape s = Inr (cp, t)"
  shows "parse_unicode_escape (s @ r) = Inr (cp, t @ r)"
proof -
  from assms obtain scalar s1 where unit: "parse_hex_code_unit s = Inr (scalar, s1)"
    by (auto simp: parse_unicode_escape_def and_then_Inr_iff)
  note whole = parse_hex_code_unit_append [OF unit, of r]
  show ?thesis
  proof (cases "0xD800 \<le> scalar \<and> scalar \<le> 0xDBFF")
    case False
    with assms unit whole show ?thesis by (auto simp: parse_unicode_escape_def split: if_splits)
  next
    case True
    with assms unit obtain low s2 where low: "\<not> length s1 < 2" "take 2 s1 = [CHR 0x5C, CHR ''u'']"
      "parse_hex_code_unit (drop 2 s1) = Inr (low, s2)" "\<not> (low < 0xDC00 \<or> 0xDFFF < low)"
      "cp = 0x10000 + (scalar - 0xD800) * 1024 + (low - 0xDC00)" "t = s2"
      by (auto simp: parse_unicode_escape_def split: if_splits sum.splits)
    with parse_hex_code_unit_append [OF low(3), of r] True whole show ?thesis
      by (simp add: parse_unicode_escape_def)
  qed
qed

lemma string_loop_append:
  "string_loop limit s out = Inr (v, t) \<Longrightarrow> limit \<le> limit' \<Longrightarrow> string_loop limit' (s @ r) out = Inr (v, t @ r)"
proof (induction limit s out rule: string_loop.induct)
  case (2 limit c s out)
  show ?case
  proof (cases "c = CHR 0x22 \<or> byte c < 0x20 \<or> c \<noteq> CHR 0x5C \<or> s = []")
    case True
    with 2 show ?thesis by (auto split: if_splits)
  next
    case False
    then obtain e s' where s: "s = e # s'" "c = CHR 0x5C" "\<not> byte c < 0x20" "c \<noteq> CHR 0x22" by (cases s) auto
    show ?thesis
    proof (cases "e = CHR ''u''")
      case True
      with "2.prems" s obtain cp s1 where u: "parse_unicode_escape s' = Inr (cp, s1)"
        "\<not> limit < length (append_utf8 out cp)" "string_loop limit s1 (append_utf8 out cp) = Inr (v, t)"
        by (auto simp: and_then_Inr_iff split: if_splits)
      from "2.IH"(2) [of "(cp, s1)" cp s1] u s True "2.prems"(2)
      have "string_loop limit' (s1 @ r) (append_utf8 out cp) = Inr (v, t @ r)" by simp
      with u(2) "2.prems"(2) parse_unicode_escape_append [OF u(1), of r] True s show ?thesis by simp
    next
      case False
      with "2.prems" s obtain x where x: "simple_escape e = Some x" "\<not> limit < length (out @ [x])"
        "string_loop limit s' (out @ [x]) = Inr (v, t)"
        by (auto split: if_splits option.splits)
      from "2.IH"(3) [OF _ _ _ _ _ _ ] x s False "2.prems"(2)
      have "string_loop limit' (s' @ r) (out @ [x]) = Inr (v, t @ r)" by simp
      with x(1,2) "2.prems"(2) False s show ?thesis by simp
    qed
  qed
qed simp

lemma parse_string_append:
  "parse_string limit s = Inr (v, t) \<Longrightarrow> limit \<le> limit' \<Longrightarrow> parse_string limit' (s @ r) = Inr (v, t @ r)"
  by (auto simp: parse_string_def string_loop_append split: list.splits if_splits)

lemma parse_literal_append:
  "parse_literal lit v s = Inr (v', t) \<Longrightarrow> parse_literal lit v (s @ r) = Inr (v', t @ r)"
  by (auto simp: parse_literal_def split: if_splits) (metis length_take min.absorb_iff2 not_le take_all_iff diff_is_0_eq append_Nil2 take_0)+

section \<open>Accepted numbers\<close>

text \<open>A number is read alike when text follows, unless it ends the input and a digit follows.\<close>

lemma digits_append:
  assumes "dropWhile is_digit s \<noteq> [] \<or> r = [] \<or> \<not> is_digit (hd r)"
  shows "takeWhile is_digit (s @ r) = takeWhile is_digit s \<and> dropWhile is_digit (s @ r) = dropWhile is_digit s @ r"
proof (cases "\<exists>x \<in> set s. \<not> is_digit x")
  case True
  then show ?thesis by (auto simp: takeWhile_append1 dropWhile_append1)
next
  case False
  with assms have "r = [] \<or> \<not> is_digit (hd r)" by auto
  with False have "takeWhile is_digit (s @ r) = s" "dropWhile is_digit (s @ r) = r" "dropWhile is_digit s = []"
    by (cases r; auto simp: takeWhile_append2 dropWhile_append2)+
  moreover from False have "takeWhile is_digit s = s" by (simp add: takeWhile_eq_all_conv)
  ultimately show ?thesis by (simp only: append.simps)
qed

lemma scan_fraction_append:
  assumes "scan_fraction s = Inr (f, t)" "t \<noteq> [] \<or> json_delimiter r"
  shows "scan_fraction (s @ r) = Inr (f, t @ r)"
proof (cases s)
  case Nil
  with assms delimiter_not_number [of r] show ?thesis by (cases r) (auto simp: scan_fraction_def)
next
  case (Cons c s')
  show ?thesis
  proof (cases "c = CHR ''.''")
    case False
    with assms(1) Cons show ?thesis by (auto simp: scan_fraction_def)
  next
    case True
    with assms(1) Cons have "takeWhile is_digit s' \<noteq> []" "f = Some (takeWhile is_digit s')" "t = dropWhile is_digit s'"
      by (auto simp: scan_fraction_def split: if_splits)
    with digits_append [of s' r] delimiter_not_digit [of r] assms(2) True Cons show ?thesis
      by (auto simp: scan_fraction_def)
  qed
qed

lemma scan_exponent_append:
  assumes "scan_exponent s = Inr (x, t)" "t \<noteq> [] \<or> json_delimiter r"
  shows "scan_exponent (s @ r) = Inr (x, t @ r)"
proof (cases s)
  case Nil
  with assms delimiter_not_number [of r] show ?thesis by (cases r) (auto simp: scan_exponent_def)
next
  case (Cons c s')
  show ?thesis
  proof (cases "c = CHR ''e'' \<or> c = CHR ''E''")
    case False
    with assms(1) Cons show ?thesis by (auto simp: scan_exponent_def)
  next
    case True
    define signed where "signed \<longleftrightarrow> s' \<noteq> [] \<and> (hd s' = CHR ''+'' \<or> hd s' = CHR ''-'')"
    define rest where "rest = (if signed then tl s' else s')"
    from assms(1) Cons True have digits: "takeWhile is_digit rest \<noteq> []" "t = dropWhile is_digit rest"
      "x = Some (signed \<and> hd s' = CHR ''-'', takeWhile is_digit rest)"
      by (auto simp: scan_exponent_def Let_def signed_def rest_def split: if_splits)
    then have "s' \<noteq> []" by (auto simp: rest_def split: if_splits)
    then have whole: "hd (s' @ r) = hd s'" "(if signed then tl (s' @ r) else s' @ r) = rest @ r" by (auto simp: rest_def)
    from digits_append [of rest r] delimiter_not_digit [of r] assms(2) digits
    have "takeWhile is_digit (rest @ r) = takeWhile is_digit rest" "dropWhile is_digit (rest @ r) = t @ r" by auto
    with digits Cons True \<open>s' \<noteq> []\<close> whole show ?thesis
      by (cases signed) (simp_all add: scan_exponent_def Let_def, auto simp: signed_def)
  qed
qed

lemma scan_number_append:
  assumes "scan_number s = Inr (n, t)" "t \<noteq> [] \<or> json_delimiter r"
  shows "scan_number (s @ r) = Inr (n, t @ r)"
proof -
  define negative where "negative \<longleftrightarrow> s \<noteq> [] \<and> hd s = CHR ''-''"
  define s1 where "s1 = (if negative then tl s else s)"
  define digits where "digits = (if hd s1 = CHR ''0'' then [hd s1] else takeWhile is_digit s1)"
  define s2 where "s2 = drop (length digits) s1"
  from assms(1) obtain f s3 x where s1: "s1 \<noteq> []" "\<not> (hd s1 \<noteq> CHR ''0'' \<and> \<not> char_between (CHR ''1'') (CHR ''9'') (hd s1))"
    and steps: "scan_fraction s2 = Inr (f, s3)" "scan_exponent s3 = Inr (x, t)"
    and n: "n = \<lparr>nt_negative = negative, nt_integer = digits, nt_fraction = f, nt_exponent = x\<rparr>"
    unfolding scan_number_def Let_def negative_def [symmetric] s1_def [symmetric] digits_def [symmetric] s2_def [symmetric]
    by (auto simp: and_then_Inr_iff split: if_splits)
  from s1(1) have s: "s \<noteq> []" by (auto simp: s1_def split: if_splits)
  then have whole: "(s @ r \<noteq> [] \<and> hd (s @ r) = CHR ''-'') = negative" "(if negative then tl (s @ r) else s @ r) = s1 @ r"
    "hd (s1 @ r) = hd s1" "s1 @ r \<noteq> []"
    using s1(1) by (auto simp: negative_def s1_def)
  have ends: "s2 \<noteq> [] \<or> json_delimiter r" "s3 \<noteq> [] \<or> json_delimiter r"
    using assms(2) scan_exponent_length [OF steps(2)] scan_fraction_length [OF steps(1)] by auto
  have digits: "(if hd s1 = CHR ''0'' then [hd s1] else takeWhile is_digit (s1 @ r)) = digits
      \<and> drop (length digits) (s1 @ r) = s2 @ r"
  proof (cases "hd s1 = CHR ''0''")
    case True
    with s1(1) show ?thesis by (cases s1) (auto simp: digits_def s2_def)
  next
    case False
    then have "s2 = dropWhile is_digit s1" by (simp add: s2_def digits_def dropWhile_eq_drop)
    then have "takeWhile is_digit (s1 @ r) = takeWhile is_digit s1"
      using digits_append [of s1 r] ends(1) delimiter_not_digit [of r] by metis
    with False show ?thesis by (simp add: digits_def s2_def length_takeWhile_le)
  qed
  then have eqs: "(if hd s1 = CHR ''0'' then [hd s1] else takeWhile is_digit (s1 @ r)) = digits"
    "drop (length digits) (s1 @ r) = s2 @ r" by blast+
  from scan_fraction_append [OF steps(1) ends(2)] scan_exponent_append [OF steps(2) assms(2)] n s1(2)
  show ?thesis
    unfolding scan_number_def Let_def whole eqs by (simp add: s1(1))
qed

lemma parse_number_append:
  assumes "parse_number s = Inr (v, t)" "t \<noteq> [] \<or> json_delimiter r"
  shows "parse_number (s @ r) = Inr (v, t @ r)"
proof -
  from assms(1) obtain n where n: "scan_number s = Inr (n, t)"
    by (auto simp: parse_number_def and_then_Inr_iff split: if_splits option.splits)
  with scan_number_append [OF n assms(2)] assms(1) show ?thesis
    by (auto simp: parse_number_def split: if_splits option.splits)
qed

section \<open>Accepted values\<close>

text \<open>Limits that admit the text of the first \<open>k\<close> levels deeper and after \<open>m\<close> more values.\<close>

definition wider :: "parse_limits \<Rightarrow> parse_limits \<Rightarrow> nat \<Rightarrow> nat \<Rightarrow> bool" where
  "wider limits limits' k m \<longleftrightarrow>
     maximumDepth limits + k \<le> maximumDepth limits' \<and> maximumValues limits + m \<le> maximumValues limits'
     \<and> maximumStringBytes limits \<le> maximumStringBytes limits'"

lemma skip_whitespace_append: "skip_whitespace s \<noteq> [] \<Longrightarrow> skip_whitespace (s @ r) = skip_whitespace s @ r"
  by (simp add: skip_whitespace_def) (metis dropWhile_append1)

lemma hd_tl_append: "s \<noteq> [] \<Longrightarrow> hd (s @ r) = hd s \<and> tl (s @ r) = tl s @ r"
  by simp

text \<open>A container that is opened is never the end of the input.\<close>

definition opened :: "string \<Rightarrow> bool" where
  "opened s \<longleftrightarrow> hd s = CHR ''{'' \<or> hd s = CHR ''[''"

definition parse_scalar :: "nat \<Rightarrow> string \<Rightarrow> (json \<times> string) result" where
  "parse_scalar bytes s =
     (if hd s = CHR 0x22
      then and_then (parse_string bytes s) (\<lambda>(str, t). Inr (JString str, t))
      else if hd s = CHR ''t'' then parse_literal ''true'' (JBool True) s
      else if hd s = CHR ''f'' then parse_literal ''false'' (JBool False) s
      else if hd s = CHR ''n'' then parse_literal ''null'' JNull s
      else parse_number s)"

lemma parse_scalar_append:
  assumes "parse_scalar bytes s = Inr (v, t)" "s \<noteq> []" "t \<noteq> [] \<or> json_delimiter r" "bytes \<le> bytes'"
  shows "parse_scalar bytes' (s @ r) = Inr (v, t @ r)"
  using assms(1) unfolding parse_scalar_def hd_append2 [OF assms(2)]
  by (elim if_cases) (use assms(3,4) in \<open>auto simp: and_then_Inr_iff
      intro: parse_string_append parse_literal_append parse_number_append\<close>)

lemma parse_value_scalar:
  assumes "skip_whitespace input = s" "s \<noteq> []" "\<not> opened s"
  shows "parse_value limits depth input seen = Inr r \<longleftrightarrow>
    depth \<le> maximumDepth limits \<and> seen < maximumValues limits
    \<and> (\<exists>v t. parse_scalar (maximumStringBytes limits) s = Inr (v, t) \<and> r = (v, t, seen + 1))"
  using assms unfolding parse_value.simps [of limits depth input] Let_def opened_def assms(1) parse_scalar_def [symmetric]
  by (auto simp: and_then_Inr_iff not_less not_le)

lemma parse_value_nonempty: "parse_value limits d s seen = Inr q \<Longrightarrow> skip_whitespace s \<noteq> []"
  by (subst (asm) parse_value.simps) (auto simp: Let_def split: if_splits)

lemma parse_members_nonempty: "parse_members limits d ob s seen = Inr q \<Longrightarrow> skip_whitespace s \<noteq> []"
  by (subst (asm) parse_members.simps) (auto simp: Let_def split: if_splits)

lemma parse_elements_nonempty: "parse_elements limits d xs s seen = Inr q \<Longrightarrow> skip_whitespace s \<noteq> []"
  by (subst (asm) parse_elements.simps) (auto simp: and_then_Inr_iff dest: parse_value_nonempty)

lemma skip_whitespace_idem [simp]: "skip_whitespace (skip_whitespace s) = skip_whitespace s"
  by (simp add: skip_whitespace_def)

lemma parse_value_object:
  assumes "skip_whitespace input = s" "s \<noteq> []" "hd s = CHR ''{''"
  shows "parse_value limits depth input seen = Inr q \<longleftrightarrow>
    depth < maximumDepth limits \<and> seen < maximumValues limits
    \<and> (if skip_whitespace (tl s) \<noteq> [] \<and> hd (skip_whitespace (tl s)) = CHR ''}''
       then q = (JObject [], tl (skip_whitespace (tl s)), seen + 1)
       else parse_members limits (depth + 1) [] (skip_whitespace (tl s)) (seen + 1) = Inr q)"
  using assms unfolding parse_value.simps [of limits depth input] Let_def assms(1)
  by (auto simp: not_less not_le)

lemma parse_value_array:
  assumes "skip_whitespace input = s" "s \<noteq> []" "hd s = CHR ''[''"
  shows "parse_value limits depth input seen = Inr q \<longleftrightarrow>
    depth < maximumDepth limits \<and> seen < maximumValues limits
    \<and> (if skip_whitespace (tl s) \<noteq> [] \<and> hd (skip_whitespace (tl s)) = CHR '']''
       then q = (JArray [], tl (skip_whitespace (tl s)), seen + 1)
       else parse_elements limits (depth + 1) [] (skip_whitespace (tl s)) (seen + 1) = Inr q)"
  using assms unfolding parse_value.simps [of limits depth input] Let_def assms(1)
  by (auto simp: not_less not_le)

text \<open>One round of the two loops.\<close>

lemma parse_members_step:
  assumes "parse_members limits depth object input seen = Inr q"
  obtains key s1 w s3 seen' object' where "skip_whitespace input \<noteq> []"
    "\<not> (skip_whitespace input = [] \<or> hd (skip_whitespace input) \<noteq> CHR 0x22)"
    "parse_string (maximumStringBytes limits) (skip_whitespace input) = Inr (key, s1)"
    "skip_whitespace s1 \<noteq> []" "\<not> (skip_whitespace s1 = [] \<or> hd (skip_whitespace s1) \<noteq> CHR '':'')"
    "parse_value limits depth (tl (skip_whitespace s1)) seen = Inr (w, s3, seen')"
    "object_emplace key w object = Some object'" "skip_whitespace s3 \<noteq> []"
    "hd (skip_whitespace s3) = CHR ''}'' \<and> q = (JObject object', tl (skip_whitespace s3), seen')
     \<or> hd (skip_whitespace s3) \<noteq> CHR ''}'' \<and> \<not> hd (skip_whitespace s3) \<noteq> CHR '',''
       \<and> parse_members limits depth object' (tl (skip_whitespace s3)) seen' = Inr q"
  using assms unfolding parse_members.simps [of limits depth object input]
  by (auto simp: and_then_Inr_iff Let_def split: if_splits option.splits)

lemma parse_members_intro:
  assumes "skip_whitespace input \<noteq> []" "hd (skip_whitespace input) = CHR 0x22"
    "parse_string (maximumStringBytes limits) (skip_whitespace input) = Inr (key, s1)"
    "skip_whitespace s1 \<noteq> []" "hd (skip_whitespace s1) = CHR '':''"
    "parse_value limits depth (tl (skip_whitespace s1)) seen = Inr (w, s3, seen')"
    "object_emplace key w object = Some object'" "skip_whitespace s3 \<noteq> []"
    "hd (skip_whitespace s3) = CHR ''}'' \<and> q = (JObject object', tl (skip_whitespace s3), seen')
     \<or> hd (skip_whitespace s3) = CHR '','' \<and> parse_members limits depth object' (tl (skip_whitespace s3)) seen' = Inr q"
  shows "parse_members limits depth object input seen = Inr q"
  using assms(9) unfolding parse_members.simps [of limits depth object input] Let_def
  by (elim disjE) (simp_all add: assms(1-8))

lemma parse_elements_step:
  assumes "parse_elements limits depth array input seen = Inr q"
  obtains w s1 seen' where "parse_value limits depth input seen = Inr (w, s1, seen')" "skip_whitespace s1 \<noteq> []"
    "hd (skip_whitespace s1) = CHR '']'' \<and> q = (JArray (array @ [w]), tl (skip_whitespace s1), seen')
     \<or> hd (skip_whitespace s1) \<noteq> CHR '']'' \<and> \<not> hd (skip_whitespace s1) \<noteq> CHR '',''
       \<and> parse_elements limits depth (array @ [w]) (tl (skip_whitespace s1)) seen' = Inr q"
  using assms unfolding parse_elements.simps [of limits depth array input]
  by (auto simp: and_then_Inr_iff Let_def split: if_splits)

lemma parse_elements_intro:
  assumes "parse_value limits depth input seen = Inr (w, s1, seen')" "skip_whitespace s1 \<noteq> []"
    "hd (skip_whitespace s1) = CHR '']'' \<and> q = (JArray (array @ [w]), tl (skip_whitespace s1), seen')
     \<or> hd (skip_whitespace s1) = CHR '','' \<and> parse_elements limits depth (array @ [w]) (tl (skip_whitespace s1)) seen' = Inr q"
  shows "parse_elements limits depth array input seen = Inr q"
  using assms(3) unfolding parse_elements.simps [of limits depth array input] Let_def
  by (elim disjE) (simp_all add: assms(1,2))

text \<open>The main fact of this part: accepted text is accepted in a wider context.\<close>

lemma parse_append:
  "parse_value limits d s seen = Inr (v, t, n) \<Longrightarrow> wider limits limits' k m \<Longrightarrow> t \<noteq> [] \<or> json_delimiter r \<Longrightarrow>
     parse_value limits' (d + k) (s @ r) (seen + m) = Inr (v, t @ r, n + m)"
  "parse_members limits d object s seen = Inr (v, t, n) \<Longrightarrow> wider limits limits' k m \<Longrightarrow>
     parse_members limits' (d + k) object (s @ r) (seen + m) = Inr (v, t @ r, n + m)"
  "parse_elements limits d array s seen = Inr (v, t, n) \<Longrightarrow> wider limits limits' k m \<Longrightarrow>
     parse_elements limits' (d + k) array (s @ r) (seen + m) = Inr (v, t @ r, n + m)"
proof (induction limits d s seen and limits d object s seen and limits d array s seen
    arbitrary: v t n r and v t n r and v t n r rule: parse_induct)
  case (1 limits depth input seen)
  define s where "s = skip_whitespace input"
  define s' where "s' = skip_whitespace (tl s)"
  note p = "1.prems"(1)
  have s: "s \<noteq> []" using parse_value_nonempty [OF p] by (simp add: s_def)
  have whole: "skip_whitespace (input @ r) = s @ r" "s @ r \<noteq> []" "hd (s @ r) = hd s" "tl (s @ r) = tl s @ r"
    using s skip_whitespace_append [of input r] by (simp_all add: s_def)
  have w: "maximumDepth limits + k \<le> maximumDepth limits'" "maximumValues limits + m \<le> maximumValues limits'"
    "maximumStringBytes limits \<le> maximumStringBytes limits'"
    using "1.prems"(2) by (simp_all add: wider_def)
  consider "hd s = CHR ''{''" | "hd s = CHR ''[''" | "\<not> opened s" by (auto simp: opened_def)
  then show ?case
  proof cases
    case 1
    from p have f: "depth < maximumDepth limits" "seen < maximumValues limits"
      and rest: "if s' \<noteq> [] \<and> hd s' = CHR ''}'' then (v, t, n) = (JObject [], tl s', seen + 1)
        else parse_members limits (depth + 1) [] s' (seen + 1) = Inr (v, t, n)"
      using parse_value_object [OF s_def [symmetric] s 1, of limits depth seen "(v, t, n)"] unfolding s'_def [symmetric] by blast+
    from rest have ne: "s' \<noteq> []" using parse_members_nonempty [of limits "depth + 1" "[]" s' "seen + 1"]
      by (auto simp: s'_def split: if_splits)
    then have inner: "skip_whitespace (tl s @ r) = s' @ r" by (simp add: s'_def skip_whitespace_append)
    have "parse_members limits' (depth + 1 + k) [] (s' @ r) (seen + 1 + m) = Inr (v, t @ r, n + m)"
      if "\<not> (s' \<noteq> [] \<and> hd s' = CHR ''}'')"
      using "1.IH"(1) [OF s_def _ s _ 1 _ s'_def that] f rest that "1.prems"(2) by simp
    with rest ne show ?thesis
      unfolding parse_value_object [OF whole(1) whole(2), unfolded whole, OF 1] inner
      using f w by (auto split: if_splits)
  next
    case 2
    from p have f: "depth < maximumDepth limits" "seen < maximumValues limits"
      and rest: "if s' \<noteq> [] \<and> hd s' = CHR '']'' then (v, t, n) = (JArray [], tl s', seen + 1)
        else parse_elements limits (depth + 1) [] s' (seen + 1) = Inr (v, t, n)"
      using parse_value_array [OF s_def [symmetric] s 2, of limits depth seen "(v, t, n)"] unfolding s'_def [symmetric] by blast+
    from rest have ne: "s' \<noteq> []" using parse_elements_nonempty [of limits "depth + 1" "[]" s' "seen + 1"]
      by (auto simp: s'_def split: if_splits)
    then have inner: "skip_whitespace (tl s @ r) = s' @ r" by (simp add: s'_def skip_whitespace_append)
    have "parse_elements limits' (depth + 1 + k) [] (s' @ r) (seen + 1 + m) = Inr (v, t @ r, n + m)"
      if "\<not> (s' \<noteq> [] \<and> hd s' = CHR '']'')"
      using "1.IH"(2) [OF s_def _ s _ _ 2 _ s'_def that] f rest that "1.prems"(2) 2 by simp
    with rest ne show ?thesis
      unfolding parse_value_array [OF whole(1) whole(2), unfolded whole, OF 2] inner
      using f w by (auto split: if_splits)
  next
    case 3
    from p obtain f: "depth \<le> maximumDepth limits" "seen < maximumValues limits"
      and scalar: "parse_scalar (maximumStringBytes limits) s = Inr (v, t)" and n: "n = seen + 1"
      unfolding parse_value_scalar [OF s_def [symmetric] s 3] by auto
    have "\<not> opened (s @ r)" using 3 s by (simp add: opened_def)
    from parse_scalar_append [OF scalar s "1.prems"(3) w(3)] f w n show ?thesis
      unfolding parse_value_scalar [OF whole(1,2) \<open>\<not> opened (s @ r)\<close>] by auto
  qed
next
  case (2 limits depth object input seen)
  from "2.prems"(1) show ?case
  proof (rule parse_members_step)
    fix key s1 w s3 seen' object'
    assume k: "skip_whitespace input \<noteq> []" "\<not> (skip_whitespace input = [] \<or> hd (skip_whitespace input) \<noteq> CHR 0x22)"
        "parse_string (maximumStringBytes limits) (skip_whitespace input) = Inr (key, s1)"
      and c: "skip_whitespace s1 \<noteq> []" "\<not> (skip_whitespace s1 = [] \<or> hd (skip_whitespace s1) \<noteq> CHR '':'')"
      and v: "parse_value limits depth (tl (skip_whitespace s1)) seen = Inr (w, s3, seen')"
      and e: "object_emplace key w object = Some object'"
      and ne: "skip_whitespace s3 \<noteq> []"
      and last: "hd (skip_whitespace s3) = CHR ''}'' \<and> (v, t, n) = (JObject object', tl (skip_whitespace s3), seen')
        \<or> hd (skip_whitespace s3) \<noteq> CHR ''}'' \<and> \<not> hd (skip_whitespace s3) \<noteq> CHR '',''
          \<and> parse_members limits depth object' (tl (skip_whitespace s3)) seen' = Inr (v, t, n)"
    have bytes: "maximumStringBytes limits \<le> maximumStringBytes limits'" using "2.prems"(2) by (simp add: wider_def)
    have "s3 \<noteq> []" using ne by (auto simp: skip_whitespace_def)
    then have v': "parse_value limits' (depth + k) (tl (skip_whitespace s1) @ r) (seen + m) = Inr (w, s3 @ r, seen' + m)"
      using "2.IH"(1) [OF refl k(2,3) refl refl c(2) v "2.prems"(2)] by blast
    from last have last': "hd (skip_whitespace s3) = CHR ''}'' \<and> (v, t @ r, n + m) = (JObject object', tl (skip_whitespace s3) @ r, seen' + m)
        \<or> hd (skip_whitespace s3) = CHR '','' \<and>
      parse_members limits' (depth + k) object' (tl (skip_whitespace s3) @ r) (seen' + m) = Inr (v, t @ r, n + m)"
      using "2.IH"(2) [OF refl k(2,3) refl refl c(2) v refl refl e refl ne _ _ _ "2.prems"(2)] by blast
    show ?thesis
      by (rule parse_members_intro [where key = key and w = w and object' = object' and ?s1.0 = "s1 @ r" and ?s3.0 = "s3 @ r"
            and seen' = "seen' + m"])
        (use k c v' e ne last' parse_string_append [OF k(3) bytes, of r] in \<open>simp_all add: skip_whitespace_append\<close>)
  qed
next
  case (3 limits depth array input seen)
  from "3.prems"(1) show ?case
  proof (rule parse_elements_step)
    fix w s1 seen'
    assume v: "parse_value limits depth input seen = Inr (w, s1, seen')" and ne: "skip_whitespace s1 \<noteq> []"
      and last: "hd (skip_whitespace s1) = CHR '']'' \<and> (v, t, n) = (JArray (array @ [w]), tl (skip_whitespace s1), seen')
        \<or> hd (skip_whitespace s1) \<noteq> CHR '']'' \<and> \<not> hd (skip_whitespace s1) \<noteq> CHR '',''
          \<and> parse_elements limits depth (array @ [w]) (tl (skip_whitespace s1)) seen' = Inr (v, t, n)"
    have "s1 \<noteq> []" using ne by (auto simp: skip_whitespace_def)
    then have v': "parse_value limits' (depth + k) (input @ r) (seen + m) = Inr (w, s1 @ r, seen' + m)"
      using "3.IH"(1) [OF v "3.prems"(2)] by blast
    from last have last': "hd (skip_whitespace s1) = CHR '']'' \<and> (v, t @ r, n + m) = (JArray (array @ [w]), tl (skip_whitespace s1) @ r, seen' + m)
        \<or> hd (skip_whitespace s1) = CHR '','' \<and>
      parse_elements limits' (depth + k) (array @ [w]) (tl (skip_whitespace s1) @ r) (seen' + m) = Inr (v, t @ r, n + m)"
      using "3.IH"(2) [OF v refl refl refl ne _ _ _ "3.prems"(2)] by blast
    show ?thesis
      by (rule parse_elements_intro [where w = w and ?s1.0 = "s1 @ r" and seen' = "seen' + m"])
        (use v' ne last' in \<open>simp_all add: skip_whitespace_append\<close>)
  qed
qed

end
