(* ===== verification/Request_Bodies.thy ===== *)
theory Request_Bodies
  imports Json_Texts Transport_Requests
begin

text \<open>
  The bodies of requests as documents. A body is written by concatenation; here it is shown to
  be the rendering of an abstract document, and the rendering of a document is read by the JSON
  parser as precisely that document: no text of the request and no payload in it can add, hide
  or change a field.
\<close>

section \<open>Texts that the parser reads as a value\<close>

text \<open>\<open>t\<close> stands for \<open>v\<close> at this depth, before any delimiter; payloads may end in whitespace.\<close>

definition reads :: "parse_limits \<Rightarrow> nat \<Rightarrow> string \<Rightarrow> json \<Rightarrow> bool" where
  "reads limits depth t v \<longleftrightarrow>
     (\<forall>rest seen. json_delimiter rest \<and> 65536 + seen + json_size v \<le> maximumValues limits \<longrightarrow>
        (\<exists>s. parse_value limits depth (t @ rest) seen = Inr (v, s, seen + json_size v) \<and> skip_whitespace s = rest))"

text \<open>The limits leave room for a payload at this depth.\<close>

definition room :: "parse_limits \<Rightarrow> nat \<Rightarrow> bool" where
  "room limits depth \<longleftrightarrow>
     maximumDepth default_limits + depth \<le> maximumDepth limits
     \<and> maximumStringBytes default_limits \<le> maximumStringBytes limits"

lemma readsD:
  assumes "reads limits depth t v" "json_delimiter rest" "65536 + seen + json_size v \<le> maximumValues limits"
  obtains s where "parse_value limits depth (t @ rest) seen = Inr (v, s, seen + json_size v)" "skip_whitespace s = rest"
  using assms by (auto simp: reads_def)

lemma skip_delimiter: "json_delimiter rest \<Longrightarrow> skip_whitespace rest = rest"
  by (cases rest) (auto simp: json_delimiter_def skip_whitespace_def is_json_space_def)

lemma reads_scalar:
  assumes "\<And>rest. json_delimiter rest \<Longrightarrow> parse_scalar (maximumStringBytes limits) (t @ rest) = Inr (v, rest)"
    and "t \<noteq> []" "\<not> opened t" "skip_whitespace t = t" "json_size v = 1" "room limits depth"
  shows "reads limits depth t v"
  unfolding reads_def
proof (intro allI impI)
  fix rest seen
  assume rest: "json_delimiter rest \<and> 65536 + seen + json_size v \<le> maximumValues limits"
  have s: "skip_whitespace (t @ rest) = t @ rest" "t @ rest \<noteq> []" "\<not> opened (t @ rest)"
    using assms(2,3,4) skip_whitespace_append [of t rest] by (simp_all add: opened_def)
  show "\<exists>s. parse_value limits depth (t @ rest) seen = Inr (v, s, seen + json_size v) \<and> skip_whitespace s = rest"
    using assms(1) [of rest] assms(5,6) rest skip_delimiter [of rest]
    by (intro exI [of _ rest]) (simp add: parse_value_scalar [OF s] room_def)
qed

lemma reads_string:
  assumes "is_valid_utf8 s" "length s \<le> maximumStringBytes limits" "room limits depth"
  shows "reads limits depth (escape_json s) (JString s)"
proof (rule reads_scalar)
  fix rest
  have "parse_string (maximumStringBytes limits) (escape_json s @ rest) = Inr (s, rest)"
    using string_loop_escaped [of "[]" s "maximumStringBytes limits" rest] assms(1,2)
    by (simp add: parse_string_def escape_json_def)
  moreover have "hd (escape_json s @ rest) = CHR 0x22" by (simp add: escape_json_def)
  ultimately show "parse_scalar (maximumStringBytes limits) (escape_json s @ rest) = Inr (JString s, rest)"
    by (simp add: parse_scalar_def)
qed (use assms(3) in \<open>simp_all add: escape_json_def opened_def skip_whitespace_def is_json_space_def\<close>)

lemma reads_null: "room limits depth \<Longrightarrow> reads limits depth ''null'' JNull"
  by (rule reads_scalar)
    (simp_all add: parse_scalar_def parse_literal_def opened_def skip_whitespace_def is_json_space_def)

lemma reads_false: "room limits depth \<Longrightarrow> reads limits depth ''false'' (JBool False)"
  by (rule reads_scalar)
    (simp_all add: parse_scalar_def parse_literal_def opened_def skip_whitespace_def is_json_space_def)

lemma reads_true: "room limits depth \<Longrightarrow> reads limits depth ''true'' (JBool True)"
  by (rule reads_scalar)
    (simp_all add: parse_scalar_def parse_literal_def opened_def skip_whitespace_def is_json_space_def)

lemma digit_starts_number:
  assumes "is_digit c"
  shows "c = CHR ''0'' \<or> char_between (CHR ''1'') (CHR ''9'') c"
proof -
  have bytes: "byte (CHR ''0'') = 48" "byte (CHR ''1'') = 49" "byte (CHR ''9'') = 57" by (simp_all add: byte_def)
  from assms have "48 \<le> byte c" "byte c \<le> 57" by (simp_all add: is_digit_def char_between_byte bytes)
  moreover have "byte c \<noteq> 48" if "c \<noteq> CHR ''0''" using that byte_inject [of c "CHR ''0''"] by (simp add: bytes)
  ultimately show ?thesis by (cases "c = CHR ''0''") (auto simp: char_between_byte bytes le_less)
qed

lemma decimal_first: "is_digit (hd (to_decimal n))"
  by (metis hd_in_set list_all_iff to_decimal_digits to_decimal_nonempty)

definition signed_decimal :: "bool \<Rightarrow> string \<Rightarrow> string" where
  "signed_decimal negative d = (if negative then CHR ''-'' # d else d)"

lemma scan_number_decimal:
  assumes "canonical_decimal d" "json_delimiter rest"
  shows "scan_number (signed_decimal negative d @ rest)
    = Inr (\<lparr>nt_negative = negative, nt_integer = d, nt_fraction = None, nt_exponent = None\<rparr>, rest)"
proof -
  from assms(1) have d: "d \<noteq> []" "list_all is_digit d" "length d > 1 \<longrightarrow> hd d \<noteq> CHR ''0''"
    by (simp_all add: canonical_decimal_def)
  from d(1,2) have first: "is_digit (hd d)" by (cases d) simp_all
  have minus: "hd d \<noteq> CHR ''-''" using first by (auto simp: is_digit_def char_between_byte byte_def)
  have start: "\<not> (hd d \<noteq> CHR ''0'' \<and> \<not> char_between (CHR ''1'') (CHR ''9'') (hd d))"
    using digit_starts_number [OF first] by blast
  have ends: "rest = [] \<or> \<not> is_digit (hd rest)" by (rule delimiter_not_digit [OF assms(2)])
  have "takeWhile is_digit (d @ rest) = d"
    using d(2) ends by (cases rest) (auto simp: list_all_iff takeWhile_append2)
  moreover have "[hd d] = d" if "hd d = CHR ''0''" using d(1,3) that by (cases d) auto
  ultimately have digits: "(if hd d = CHR ''0'' then [hd d] else takeWhile is_digit (d @ rest)) = d" by simp
  have none: "scan_fraction rest = Inr (None, rest)" "scan_exponent rest = Inr (None, rest)"
    using delimiter_not_number [OF assms(2)] by (auto simp: scan_fraction_def scan_exponent_def)
  have sign: "(signed_decimal negative d @ rest \<noteq> [] \<and> hd (signed_decimal negative d @ rest) = CHR ''-'') = negative"
      "(if negative then tl (signed_decimal negative d @ rest) else signed_decimal negative d @ rest) = d @ rest"
    using d(1) minus by (auto simp: signed_decimal_def)
  have whole: "hd (d @ rest) = hd d" "drop (length d) (d @ rest) = rest" "d @ rest \<noteq> []"
    using d(1) by auto
  show ?thesis
    unfolding scan_number_def Let_def sign whole digits using d(1) start none by simp
qed

lemma signed_decimal_first:
  "hd (signed_decimal negative (to_decimal n)) = CHR ''-'' \<or> is_digit (hd (signed_decimal negative (to_decimal n)))"
  using decimal_first [of n] by (simp add: signed_decimal_def)

lemma reads_signed:
  assumes "n < 2 ^ 63" "negative \<Longrightarrow> 0 < n" "room limits depth"
  shows "reads limits depth (signed_decimal negative (to_decimal n)) (JInt (if negative then - int n else int n))"
proof (rule reads_scalar)
  fix rest
  assume "json_delimiter rest"
  from scan_number_decimal [OF canonical_to_decimal this, of negative n] assms(1,2)
  have number: "parse_number (signed_decimal negative (to_decimal n) @ rest) = Inr (JInt (if negative then - int n else int n), rest)"
    by (simp add: parse_number_def int64_from_chars_def int64_range_def)
  have "hd (signed_decimal negative (to_decimal n) @ rest) = hd (signed_decimal negative (to_decimal n))"
    by (simp add: signed_decimal_def)
  then have "hd (signed_decimal negative (to_decimal n) @ rest) \<notin> {CHR 0x22, CHR ''t'', CHR ''f'', CHR ''n''}"
    using signed_decimal_first [of negative n] by (auto simp: is_digit_def char_between_byte byte_def)
  with number show "parse_scalar (maximumStringBytes limits) (signed_decimal negative (to_decimal n) @ rest)
      = Inr (JInt (if negative then - int n else int n), rest)"
    by (simp add: parse_scalar_def)
next
  note first = signed_decimal_first [of negative n]
  from first show "\<not> opened (signed_decimal negative (to_decimal n))"
    by (auto simp: opened_def is_digit_def char_between_byte byte_def)
  from first show "skip_whitespace (signed_decimal negative (to_decimal n)) = signed_decimal negative (to_decimal n)"
    by (cases "signed_decimal negative (to_decimal n)")
      (auto simp: skip_whitespace_def is_json_space_def is_digit_def char_between_byte byte_def)
qed (use assms(3) in \<open>simp_all add: signed_decimal_def\<close>)

lemma reads_natural: "n < 2 ^ 63 \<Longrightarrow> room limits depth \<Longrightarrow> reads limits depth (to_decimal n) (JInt (int n))"
  using reads_signed [of n False] by (simp add: signed_decimal_def)

section \<open>Payloads\<close>

lemma skip_append: "skip_whitespace s = [] \<Longrightarrow> skip_whitespace (s @ r) = skip_whitespace r"
  by (simp add: skip_whitespace_def dropWhile_eq_Nil_conv dropWhile_append2)

lemma reads_payload:
  assumes "parse_json p default_limits = Inr v" "room limits depth"
  shows "reads limits depth p v"
proof -
  obtain s n where parsed: "parse_value default_limits 0 p 0 = Inr (v, s, n)" and s: "skip_whitespace s = []"
    using assms(1) by (auto simp: parse_json_def and_then_Inr_iff split: if_splits)
  with parse_descent_ok(1) [OF parsed] have p: "parse_value default_limits 0 p 0 = Inr (v, s, json_size v)"
      "skip_whitespace s = []" by (simp_all add: parsed_ok_def)
  show ?thesis
    unfolding reads_def
  proof (intro allI impI)
    fix rest seen
    assume r: "json_delimiter rest \<and> 65536 + seen + json_size v \<le> maximumValues limits"
    then have "wider default_limits limits depth seen"
      using assms(2) by (simp add: wider_def room_def default_limits_def)
    from parse_append(1) [OF p(1) this, of rest] r
    have "parse_value limits depth (p @ rest) seen = Inr (v, s @ rest, seen + json_size v)"
      by (simp add: add.commute)
    with r p(2) skip_delimiter show "\<exists>s. parse_value limits depth (p @ rest) seen = Inr (v, s, seen + json_size v)
        \<and> skip_whitespace s = rest"
      by (intro exI [of _ "s @ rest"]) (simp add: skip_append)
  qed
qed

section \<open>Arrays\<close>

lemma joined_Cons: "ts \<noteq> [] \<Longrightarrow> joined (t # ts) = t @ CHR '','' # joined ts"
  by (cases ts) simp_all

lemma parse_value_not_close:
  "parse_value limits depth input seen = Inr q \<Longrightarrow> hd (skip_whitespace input) \<noteq> CHR '']''"
proof
  assume p: "parse_value limits depth input seen = Inr q" and close: "hd (skip_whitespace input) = CHR '']''"
  have s: "skip_whitespace input \<noteq> []" using parse_value_nonempty [OF p] .
  have "\<not> opened (skip_whitespace input)" using close by (simp add: opened_def)
  from p [unfolded parse_value_scalar [OF refl s this]] close show False
    using s by (auto simp: parse_scalar_def parse_number_def scan_number_def Let_def char_between_byte byte_def)
qed

lemma parse_value_skip: "parse_value limits depth (skip_whitespace s) seen = parse_value limits depth s seen"
  unfolding parse_value.simps [of limits depth s] parse_value.simps [of limits depth "skip_whitespace s"]
  by (simp only: skip_whitespace_idem)

lemma parse_elements_skip:
  "parse_elements limits depth array (skip_whitespace s) seen = parse_elements limits depth array s seen"
  unfolding parse_elements.simps [of limits depth array s] parse_elements.simps [of limits depth array "skip_whitespace s"]
  by (simp only: parse_value_skip)

lemma parse_elements_joined:
  assumes "list_all2 (reads limits depth) ts vs" "ts \<noteq> []"
    and "65536 + seen + sum_list (map json_size vs) \<le> maximumValues limits"
  shows "parse_elements limits depth array (joined ts @ CHR '']'' # rest) seen
    = Inr (JArray (array @ vs), rest, seen + sum_list (map json_size vs))"
  using assms
proof (induction ts arbitrary: vs array seen)
  case (Cons t ts)
  then obtain v us where vs: "vs = v # us" "reads limits depth t v" "list_all2 (reads limits depth) ts us"
    by (auto simp: list_all2_Cons1)
  show ?case
  proof (cases "ts = []")
    case True
    have "json_delimiter (CHR '']'' # rest)" by (simp add: json_delimiter_def)
    from readsD [OF vs(2) this, of seen] Cons.prems(3) vs obtain s where
      "parse_value limits depth (t @ CHR '']'' # rest) seen = Inr (v, s, seen + json_size v)"
      "skip_whitespace s = CHR '']'' # rest" by auto
    with True vs show ?thesis by (intro parse_elements_intro) auto
  next
    case False
    have "json_delimiter (CHR '','' # joined ts @ CHR '']'' # rest)" by (simp add: json_delimiter_def)
    from readsD [OF vs(2) this, of seen] Cons.prems(3) vs obtain s where s:
      "parse_value limits depth (t @ CHR '','' # joined ts @ CHR '']'' # rest) seen = Inr (v, s, seen + json_size v)"
      "skip_whitespace s = CHR '','' # joined ts @ CHR '']'' # rest" by auto
    have "parse_elements limits depth (array @ [v]) (joined ts @ CHR '']'' # rest) (seen + json_size v)
        = Inr (JArray ((array @ [v]) @ us), rest, seen + json_size v + sum_list (map json_size us))"
      using Cons.IH [OF vs(3) False] Cons.prems(3) vs(1) by simp
    with s vs(1) False show ?thesis
      by (intro parse_elements_intro [where w = v and ?s1.0 = s and seen' = "seen + json_size v"])
        (simp_all add: joined_Cons add.assoc)
  qed
qed simp

lemma reads_array:
  assumes "list_all2 (reads limits (depth + 1)) ts vs" "room limits (depth + 1)"
  shows "reads limits depth (array_text ts) (JArray vs)"
  unfolding reads_def
proof (intro allI impI)
  fix rest seen
  assume r: "json_delimiter rest \<and> 65536 + seen + json_size (JArray vs) \<le> maximumValues limits"
  define s where "s = array_text ts @ rest"
  have s: "skip_whitespace s = s" "s \<noteq> []" "hd s = CHR ''[''" "tl s = joined ts @ CHR '']'' # rest"
    by (simp_all add: s_def array_text_def skip_whitespace_def is_json_space_def)
  have room: "depth < maximumDepth limits" "seen < maximumValues limits"
    using assms(2) r by (auto simp: room_def default_limits_def)
  have "parse_value limits depth s seen = Inr (JArray vs, rest, seen + json_size (JArray vs))"
  proof (cases "ts = []")
    case True
    with assms(1) s room show ?thesis
      by (simp add: parse_value_array [OF s(1-3)] skip_whitespace_def is_json_space_def)
  next
    case False
    then obtain t us where ts: "ts = t # us" by (cases ts) auto
    have elements: "parse_elements limits (depth + 1) [] (joined ts @ CHR '']'' # rest) (seen + 1)
        = Inr (JArray vs, rest, seen + json_size (JArray vs))"
      using parse_elements_joined [OF assms(1) False, of "seen + 1" "[]" rest] r by simp
    have open_not: "hd (skip_whitespace (joined ts @ CHR '']'' # rest)) \<noteq> CHR '']''"
      using elements by (rule parse_elements_step) (rule parse_value_not_close)
    have skip: "parse_elements limits (depth + 1) [] (skip_whitespace (joined ts @ CHR '']'' # rest)) (seen + 1)
        = Inr (JArray vs, rest, seen + json_size (JArray vs))"
      using elements by (simp only: parse_elements_skip)
    from open_not skip room show ?thesis by (simp add: parse_value_array [OF s(1-3)] s(4))
  qed
  with r skip_delimiter show "\<exists>u. parse_value limits depth (array_text ts @ rest) seen
      = Inr (JArray vs, u, seen + json_size (JArray vs)) \<and> skip_whitespace u = rest"
    by (intro exI [of _ rest]) (simp add: s_def)
qed

section \<open>Objects\<close>

text \<open>Keys are literals of the code: printable ASCII with nothing to escape.\<close>

definition plain :: "string \<Rightarrow> bool" where
  "plain k \<longleftrightarrow> list_all (\<lambda>c. 0x20 \<le> byte c \<and> byte c \<le> 0x7E \<and> c \<noteq> CHR 0x22 \<and> c \<noteq> CHR 0x5C) k"

lemma plain_escape_char:
  assumes "0x20 \<le> byte c" "c \<noteq> CHR 0x22" "c \<noteq> CHR 0x5C"
  shows "escape_char c = [c]"
proof -
  have "byte (CHR 0x08) = 8" "byte (CHR 0x0C) = 12" "byte (CHR 0x0A) = 10" "byte (CHR 0x0D) = 13" "byte (CHR 0x09) = 9"
    by (simp_all add: byte_def)
  with assms(1) have "c \<noteq> CHR 0x08" "c \<noteq> CHR 0x0C" "c \<noteq> CHR 0x0A" "c \<noteq> CHR 0x0D" "c \<noteq> CHR 0x09" by auto
  with assms show ?thesis unfolding escape_char_def by simp
qed

lemma plain_escape: "plain k \<Longrightarrow> escape_json k = quoted k"
proof -
  assume "plain k"
  then have "concat (map escape_char k) = k"
    by (induction k) (auto simp: plain_def plain_escape_char)
  then show ?thesis by (simp add: escape_json_def quoted_def)
qed

lemma plain_utf8: "plain k \<Longrightarrow> is_valid_utf8 k"
  unfolding plain_def by (rule is_valid_utf8_ascii, erule list.pred_mono_strong) linarith

definition reads_member :: "parse_limits \<Rightarrow> nat \<Rightarrow> string \<times> string \<Rightarrow> string \<times> json \<Rightarrow> bool" where
  "reads_member limits depth m e \<longleftrightarrow>
     fst m = fst e \<and> plain (fst m) \<and> length (fst m) \<le> maximumStringBytes limits \<and> reads limits depth (snd m) (snd e)"

definition sorted_object :: "json_object \<Rightarrow> (string \<times> json) list \<Rightarrow> json_object" where
  "sorted_object = foldl (\<lambda>ob (k, v). insert_sorted k v ob)"

lemma sorted_object_simps [simp]:
  "sorted_object ob [] = ob" "sorted_object ob (e # es) = sorted_object (insert_sorted (fst e) (snd e) ob) es"
  by (simp_all add: sorted_object_def split: prod.splits)

lemma parse_member_key:
  assumes "plain k" "length k \<le> maximumStringBytes limits"
  shows "parse_string (maximumStringBytes limits) (member_text (k, t) @ rest) = Inr (k, CHR '':'' # t @ rest)"
  using string_loop_escaped [of "[]" k "maximumStringBytes limits" "CHR '':'' # t @ rest"] plain_utf8 [OF assms(1)] assms
    plain_escape [OF assms(1)]
  by (simp add: parse_string_def member_text_def escape_json_def quoted_def)

lemma member_start: "skip_whitespace (member_text m @ rest) = member_text m @ rest" "member_text m @ rest \<noteq> []"
    "hd (member_text m @ rest) = CHR 0x22"
  by (cases m; simp add: member_text_def quoted_def skip_whitespace_def is_json_space_def)+

lemma colon_start: "skip_whitespace (CHR '':'' # r) = CHR '':'' # r"
  by (simp add: skip_whitespace_def is_json_space_def)

lemma parse_members_joined:
  assumes "list_all2 (reads_member limits depth) ms es" "ms \<noteq> []" "distinct (map fst es)"
    and "set (map fst es) \<inter> set (map fst ob) = {}"
    and "65536 + seen + sum_list (map (\<lambda>e. json_size (snd e)) es) \<le> maximumValues limits"
  shows "parse_members limits depth ob (joined (map member_text ms) @ CHR ''}'' # rest) seen
    = Inr (JObject (sorted_object ob es), rest, seen + sum_list (map (\<lambda>e. json_size (snd e)) es))"
  using assms
proof (induction ms arbitrary: es ob seen)
  case (Cons m ms)
  then obtain e us where es: "es = e # us" "reads_member limits depth m e" "list_all2 (reads_member limits depth) ms us"
    by (auto simp: list_all2_Cons1)
  obtain k t where m: "m = (k, t)" by (cases m)
  obtain v where e: "e = (k, v)" using es(2) m by (cases e) (simp add: reads_member_def)
  have key: "plain k" "length k \<le> maximumStringBytes limits" "reads limits depth t v"
    using es(2) m e by (simp_all add: reads_member_def)
  have emplace: "object_emplace k v ob = Some (insert_sorted k v ob)"
    using Cons.prems(4) es(1) e by (auto simp: object_emplace_def map_of_eq_None_iff)
  define tail where "tail = (if ms = [] then CHR ''}'' # rest else CHR '','' # joined (map member_text ms) @ CHR ''}'' # rest)"
  have whole: "joined (map member_text (m # ms)) @ CHR ''}'' # rest = member_text (k, t) @ tail"
    by (simp add: tail_def m joined_Cons)
  have "json_delimiter tail" by (simp add: tail_def json_delimiter_def)
  from readsD [OF key(3) this, of seen] Cons.prems(5) es(1) e obtain s where
    v: "parse_value limits depth (t @ tail) seen = Inr (v, s, seen + json_size v)" and s: "skip_whitespace s = tail" by auto
  have rest: "parse_members limits depth (insert_sorted k v ob) (joined (map member_text ms) @ CHR ''}'' # rest) (seen + json_size v)
      = Inr (JObject (sorted_object (insert_sorted k v ob) us), rest,
             seen + json_size v + sum_list (map (\<lambda>e. json_size (snd e)) us))" if "ms \<noteq> []"
    using Cons.IH [OF es(3) that, of "insert_sorted k v ob" "seen + json_size v"] Cons.prems(3-5) es(1) e
    by (auto simp: keys_insert_sorted [unfolded set_map])
  show ?case
    unfolding whole
    by (rule parse_members_intro [where key = k and ?s1.0 = "CHR '':'' # t @ tail" and w = v and ?s3.0 = s
          and seen' = "seen + json_size v" and object' = "insert_sorted k v ob"])
      (use v s emplace es(1,3) e rest in
        \<open>simp_all add: member_start parse_member_key [OF key(1,2)] colon_start add.assoc, simp_all add: tail_def split: if_splits\<close>)
qed simp

lemma sorted_object_size:
  "sum_list (map (\<lambda>p. json_size (snd p)) (sorted_object ob es))
    = sum_list (map (\<lambda>p. json_size (snd p)) ob) + sum_list (map (\<lambda>p. json_size (snd p)) es)"
  by (induction es arbitrary: ob) (simp_all add: json_size_insert_sorted)

lemma map_of_sorted_object:
  "distinct (map fst es) \<Longrightarrow> set (map fst es) \<inter> set (map fst ob) = {} \<Longrightarrow>
    map_of (sorted_object ob es) = map_of ob ++ map_of es"
proof (induction es arbitrary: ob)
  case (Cons e es)
  have "set (map fst es) \<inter> set (map fst (insert_sorted (fst e) (snd e) ob)) = {}"
    using Cons.prems unfolding keys_insert_sorted by auto
  moreover have "map_of (insert_sorted (fst e) (snd e) ob) = (map_of ob)(fst e \<mapsto> snd e)"
    using Cons.prems by (intro map_of_insert_sorted) auto
  moreover have "fst e \<notin> dom (map_of es)" using Cons.prems by (simp add: dom_map_of_conv_image_fst)
  ultimately show ?case
    using Cons.IH [of "insert_sorted (fst e) (snd e) ob"] Cons.prems(1)
    by (cases e) (auto simp: fun_eq_iff map_add_def domIff split: option.splits)
qed simp

lemma reads_object:
  assumes "list_all2 (reads_member limits (depth + 1)) ms es" "distinct (map fst es)" "room limits (depth + 1)"
  shows "reads limits depth (object_text ms) (JObject (sorted_object [] es))"
  unfolding reads_def
proof (intro allI impI)
  fix rest seen
  let ?v = "JObject (sorted_object [] es)"
  assume r: "json_delimiter rest \<and> 65536 + seen + json_size ?v \<le> maximumValues limits"
  define s where "s = object_text ms @ rest"
  have s: "skip_whitespace s = s" "s \<noteq> []" "hd s = CHR ''{''" "tl s = joined (map member_text ms) @ CHR ''}'' # rest"
    by (simp_all add: s_def object_text_def skip_whitespace_def is_json_space_def)
  have room: "depth < maximumDepth limits" "seen < maximumValues limits"
    using assms(3) r by (auto simp: room_def default_limits_def)
  have "parse_value limits depth s seen = Inr (?v, rest, seen + json_size ?v)"
  proof (cases "ms = []")
    case True
    with assms(1) s room show ?thesis
      by (simp add: parse_value_object [OF s(1-3)] skip_whitespace_def is_json_space_def)
  next
    case False
    have members: "parse_members limits (depth + 1) [] (joined (map member_text ms) @ CHR ''}'' # rest) (seen + 1)
        = Inr (?v, rest, seen + json_size ?v)"
      using parse_members_joined [OF assms(1) False assms(2), of "[]" "seen + 1" rest] r sorted_object_size [of "[]" es] by simp
    obtain m tail where start: "joined (map member_text ms) @ CHR ''}'' # rest = member_text m @ tail"
    proof (cases ms)
      case (Cons m us)
      then show ?thesis using that [of m] by (cases us) (auto simp: joined_Cons)
    qed (use False in simp)
    show ?thesis
      using members room by (simp add: parse_value_object [OF s(1-3)] s(4) start member_start)
  qed
  with r skip_delimiter show "\<exists>u. parse_value limits depth (object_text ms @ rest) seen
      = Inr (?v, u, seen + json_size ?v) \<and> skip_whitespace u = rest"
    by (intro exI [of _ rest]) (simp add: s_def)
qed

section \<open>Documents\<close>

datatype body_value =
    BNull
  | BTrue
  | BFalse
  | BNegative nat
  | BText string
  | BNatural nat
  | BPayload string
  | BArray "body_value list"
  | BObject "(string \<times> body_value) list"

primrec render :: "body_value \<Rightarrow> string" where
  "render BNull = ''null''"
| "render BTrue = ''true''"
| "render BFalse = ''false''"
| "render (BNegative n) = signed_decimal True (to_decimal n)"
| "render (BText s) = escape_json s"
| "render (BNatural n) = to_decimal n"
| "render (BPayload p) = p"
| "render (BArray vs) = array_text (map render vs)"
| "render (BObject ms) = object_text (map (map_prod id render) ms)"

text \<open>What a document means; a payload means what it is read as alone.\<close>

primrec meaning :: "body_value \<Rightarrow> json" where
  "meaning BNull = JNull"
| "meaning BTrue = JBool True"
| "meaning BFalse = JBool False"
| "meaning (BNegative n) = JInt (- int n)"
| "meaning (BText s) = JString s"
| "meaning (BNatural n) = JInt (int n)"
| "meaning (BPayload p) = (case parse_json p default_limits of Inl e \<Rightarrow> JNull | Inr v \<Rightarrow> v)"
| "meaning (BArray vs) = JArray (map meaning vs)"
| "meaning (BObject ms) = JObject (sorted_object [] (map (map_prod id meaning) ms))"

primrec nesting :: "body_value \<Rightarrow> nat" where
  "nesting BNull = 0"
| "nesting BTrue = 0"
| "nesting BFalse = 0"
| "nesting (BNegative n) = 0"
| "nesting (BText s) = 0"
| "nesting (BNatural n) = 0"
| "nesting (BPayload p) = 0"
| "nesting (BArray vs) = Suc (fold max (map nesting vs) 0)"
| "nesting (BObject ms) = Suc (fold max (map snd (map (map_prod id nesting) ms)) 0)"

text \<open>Texts are valid and within the limits, numbers are 64-bit, payloads are accepted alone, and the keys
  of an object are plain and distinct.\<close>

primrec fits :: "parse_limits \<Rightarrow> body_value \<Rightarrow> bool" where
  "fits limits BNull = True"
| "fits limits BTrue = True"
| "fits limits BFalse = True"
| "fits limits (BNegative n) = (0 < n \<and> n < 2 ^ 63)"
| "fits limits (BText s) = (is_valid_utf8 s \<and> length s \<le> maximumStringBytes limits)"
| "fits limits (BNatural n) = (n < 2 ^ 63)"
| "fits limits (BPayload p) = is_ok (parse_json p default_limits)"
| "fits limits (BArray vs) = list_all id (map (fits limits) vs)"
| "fits limits (BObject ms) =
     (distinct (map fst ms) \<and> list_all (\<lambda>(k, _). plain k \<and> length k \<le> maximumStringBytes limits) ms
      \<and> list_all snd (map (map_prod id (fits limits)) ms))"

lemma fold_max_bounds: "n \<le> fold max xs n \<and> (\<forall>x \<in> set xs. (x :: nat) \<le> fold max xs n)"
proof (induction xs arbitrary: n)
  case (Cons a xs)
  from Cons [of "max a n"] show ?case by auto
qed simp

lemma nesting_element: "v \<in> set vs \<Longrightarrow> nesting v < nesting (BArray vs)"
  using fold_max_bounds [of 0 "map nesting vs"] by (auto simp: less_Suc_eq_le)

lemma nesting_member: "(k, v) \<in> set ms \<Longrightarrow> nesting v < nesting (BObject ms)"
  using fold_max_bounds [of 0 "map snd (map (map_prod id nesting) ms)"] by (force simp: less_Suc_eq_le)

lemma room_mono: "room limits d \<Longrightarrow> d' \<le> d \<Longrightarrow> room limits d'"
  by (simp add: room_def)

lemma reads_render: "fits limits v \<Longrightarrow> room limits (depth + nesting v) \<Longrightarrow> reads limits depth (render v) (meaning v)"
proof (induction v arbitrary: depth)
  case (BPayload p)
  then show ?case by (cases "parse_json p default_limits") (simp_all add: reads_payload)
next
  case (BArray vs)
  have "reads limits (depth + 1) (render v) (meaning v)" if "v \<in> set vs" for v
  proof (rule BArray.IH [OF that])
    show "fits limits v" using BArray.prems(1) that by (auto simp: list_all_iff)
    show "room limits (depth + 1 + nesting v)"
      using BArray.prems(2) by (rule room_mono) (use nesting_element [OF that] in simp)
  qed
  then have "list_all2 (reads limits (depth + 1)) (map render vs) (map meaning vs)"
    by (simp add: list_all2_map1 list_all2_map2 list.rel_refl_strong)
  with reads_array room_mono [OF BArray.prems(2)] show ?case by simp
next
  case (BObject ms)
  have "reads limits (depth + 1) (render v) (meaning v)" if "(k, v) \<in> set ms" for k v
  proof (rule BObject.IH [OF that])
    show "v \<in> Basic_BNFs.snds (k, v)" by simp
    show "fits limits v" using BObject.prems(1) that by (auto simp: list_all_iff)
    show "room limits (depth + 1 + nesting v)"
      using BObject.prems(2) by (rule room_mono) (use nesting_member [OF that] in simp)
  qed
  then have "reads_member limits (depth + 1) (map_prod id render m) (map_prod id meaning m)" if "m \<in> set ms" for m
    using BObject.prems(1) that by (cases m) (auto simp: reads_member_def list_all_iff)
  then have "list_all2 (reads_member limits (depth + 1)) (map (map_prod id render) ms) (map (map_prod id meaning) ms)"
    by (simp add: list_all2_map1 list_all2_map2 list.rel_refl_strong)
  moreover have "distinct (map fst (map (map_prod id meaning) ms))" using BObject.prems(1) by (simp add: comp_def)
  ultimately show ?case using reads_object room_mono [OF BObject.prems(2), of "depth + 1"] by simp
next
  case (BNegative n)
  then show ?case using reads_signed [of n True] by simp
qed (simp_all add: reads_null reads_true reads_false reads_string reads_natural)

section \<open>A rendered document is valid UTF-8\<close>

definition ascii :: "string \<Rightarrow> bool" where
  "ascii s \<longleftrightarrow> list_all (\<lambda>c. byte c \<le> 0x7F) s"

lemma ascii_valid: "ascii s \<Longrightarrow> is_valid_utf8 s"
  by (simp add: ascii_def is_valid_utf8_ascii)

lemma ascii_append [simp]: "ascii (s @ t) \<longleftrightarrow> ascii s \<and> ascii t"
  by (simp add: ascii_def)

lemma ascii_Cons [simp]: "ascii (c # s) \<longleftrightarrow> byte c \<le> 0x7F \<and> ascii s"
  by (simp add: ascii_def)

lemma ascii_Nil [simp]: "ascii []"
  by (simp add: ascii_def)

lemma hex_alphabet_ascii: "k < 16 \<Longrightarrow> byte (hex_alphabet ! k) \<le> 0x7F"
proof -
  have "list_all (\<lambda>c. byte c \<le> 0x7F) hex_alphabet" "length hex_alphabet = 16" by code_simp+
  then show "k < 16 \<Longrightarrow> ?thesis" by (simp add: list_all_length)
qed

lemma escape_char_ascii:
  assumes "byte c \<le> 0x7F"
  shows "ascii (escape_char c)"
proof -
  have letters: "ascii ''u00''" "ascii ''bfnrt''" "ascii [CHR 0x5C, CHR 0x22]" by code_simp+
  have "byte c div 16 < 16" "byte c mod 16 < 16" using assms by auto
  with letters assms hex_alphabet_ascii show ?thesis unfolding escape_char_def by simp
qed

lemma escape_char_other: "\<not> byte c \<le> 0x7F \<Longrightarrow> escape_char c = [c]"
  by (rule plain_escape_char) (auto simp: byte_def)

lemma encode_bytes:
  assumes "is_scalar cp" "\<not> cp \<le> 0x7F"
  shows "list_all (\<lambda>c. \<not> byte c \<le> 0x7F) (utf8_encode cp)"
proof -
  have "cp \<le> 0x10FFFF" using assms(1) by (simp add: is_scalar_def)
  then have "0xF0 + cp div 262144 < 256" "cp \<le> 0x7FF \<Longrightarrow> 0xC0 + cp div 64 < 256" "cp \<le> 0xFFFF \<Longrightarrow> 0xE0 + cp div 4096 < 256"
    by auto
  with assms(2) show ?thesis by (auto simp: append_utf8_def)
qed

lemma escape_encode:
  assumes "is_scalar cp"
  shows "is_valid_utf8 (concat (map escape_char (utf8_encode cp)))"
proof (cases "cp \<le> 0x7F")
  case True
  then have "byte (char_of cp) \<le> 0x7F" by simp
  with True show ?thesis by (simp add: append_utf8_def ascii_valid escape_char_ascii)
next
  case False
  have "concat (map escape_char s) = s" if "list_all (\<lambda>c. \<not> byte c \<le> 0x7F) s" for s
    using that by (induction s) (auto simp: escape_char_other)
  from this [OF encode_bytes [OF assms False]] utf8_encode_accepted [OF assms, of "[]"] show ?thesis by simp
qed

lemma escape_json_utf8:
  assumes "is_valid_utf8 s"
  shows "is_valid_utf8 (escape_json s)"
proof -
  obtain cps where cps: "list_all is_scalar cps" "s = concat (map utf8_encode cps)"
    using utf8_accepted_decomposes [OF assms] by blast
  from cps(1) have "is_valid_utf8 (concat (map escape_char (concat (map utf8_encode cps))))"
    by (induction cps) (simp_all add: escape_encode is_valid_utf8_append)
  moreover have "byte (CHR 0x22) \<le> 0x7F" by code_simp
  ultimately show ?thesis
    by (simp add: escape_json_def cps(2) is_valid_utf8_append)
qed

lemma joined_utf8:
  assumes "list_all is_valid_utf8 ts"
  shows "is_valid_utf8 (joined ts)"
proof -
  have "byte (CHR '','') \<le> 0x7F" by code_simp
  with assms show ?thesis
    by (induction ts rule: joined.induct) (auto simp: is_valid_utf8_append)
qed

lemma digits_ascii: "list_all is_digit s \<Longrightarrow> ascii s"
  unfolding ascii_def by (erule list.pred_mono_strong) (auto simp: is_digit_def char_between_byte byte_def)

lemma member_utf8: "plain k \<Longrightarrow> is_valid_utf8 t \<Longrightarrow> is_valid_utf8 (member_text (k, t))"
proof -
  assume "plain k" "is_valid_utf8 t"
  moreover from \<open>plain k\<close> have "ascii k" unfolding plain_def ascii_def by (rule list.pred_mono_strong) linarith
  moreover have "byte (CHR 0x22) \<le> 0x7F" "byte (CHR '':'') \<le> 0x7F" by code_simp+
  ultimately have "ascii (quoted k @ [CHR '':''])" by (simp add: quoted_def)
  then have "is_valid_utf8 (quoted k @ [CHR '':''])" by (rule ascii_valid)
  from is_valid_utf8_append [OF this, of t] \<open>is_valid_utf8 t\<close> show ?thesis by (simp add: member_text_def)
qed

lemma wrapped_utf8:
  assumes "is_valid_utf8 t" "byte a \<le> 0x7F" "byte b \<le> 0x7F"
  shows "is_valid_utf8 (a # t @ [b])"
  using assms by (simp add: is_valid_utf8_append)

lemma render_utf8: "fits limits v \<Longrightarrow> is_valid_utf8 (render v)"
proof (induction v)
  case (BPayload p)
  then show ?case by (auto simp: parse_json_def is_ok_iff split: if_splits)
next
  case (BNatural n)
  then show ?case using digits_ascii [OF to_decimal_digits] by (simp add: ascii_valid)
next
  case (BNegative n)
  have "ascii (signed_decimal True (to_decimal n))"
    using digits_ascii [OF to_decimal_digits, of n] by (simp add: signed_decimal_def byte_def)
  then show ?case by (simp add: ascii_valid)
next
  case (BArray vs)
  then have "is_valid_utf8 (joined (map render vs))" by (intro joined_utf8) (auto simp: list_all_iff)
  from wrapped_utf8 [OF this, of "CHR ''[''" "CHR '']''"] show ?case by (simp add: array_text_def byte_def)
next
  case (BObject ms)
  have "is_valid_utf8 (member_text (map_prod id render m))" if "m \<in> set ms" for m
    using BObject.prems BObject.IH [OF that, of "snd m"] that
    by (cases m) (auto simp: list_all_iff intro!: member_utf8)
  then have "is_valid_utf8 (joined (map member_text (map (map_prod id render) ms)))"
    by (intro joined_utf8) (auto simp: list_all_iff)
  from wrapped_utf8 [OF this, of "CHR ''{''" "CHR ''}''"] show ?case by (simp add: object_text_def byte_def)
qed (auto intro: escape_json_utf8 simp: byte_def)

text \<open>The parser reads a rendered object as its meaning.\<close>

lemma parse_rendered:
  assumes "fits limits (BObject ms)" "room limits (nesting (BObject ms))"
    and "65536 + json_size (meaning (BObject ms)) \<le> maximumValues limits"
    and "length (render (BObject ms)) \<le> maximumBytes limits"
  shows "parse_json (render (BObject ms)) limits = Inr (meaning (BObject ms))"
proof -
  have "reads limits 0 (render (BObject ms)) (meaning (BObject ms))"
    using reads_render [OF assms(1), of 0] assms(2) by simp
  from readsD [OF this, of "[]" 0] assms(3) obtain s where
    "parse_value limits 0 (render (BObject ms)) 0 = Inr (meaning (BObject ms), s, json_size (meaning (BObject ms)))"
    "skip_whitespace s = []" by (auto simp: json_delimiter_def)
  moreover have "render (BObject ms) \<noteq> []" by (simp add: object_text_def)
  ultimately show ?thesis
    using render_utf8 [OF assms(1)] assms(4) by (simp add: parse_json_def del: render.simps meaning.simps)
qed

end
