(* ===== verification/Request_Documents.thy ===== *)
theory Request_Documents
  imports Request_Bodies Transport_Response_Props
begin

text \<open>
  The document that each kind of request stands for, and the proof that the body
  \<open>serializeRequest\<close> writes is its rendering. A session that starts with the calendar of a loaded
  save is left out: its hour is a decimal fraction.
\<close>

section \<open>The documents\<close>

type_synonym document = "(string \<times> body_value) list"

abbreviation BId :: "'tag strong_id \<Rightarrow> body_value" where
  "BId i \<equiv> BText (id_value i)"

abbreviation BGeneration :: "generation \<Rightarrow> body_value" where
  "BGeneration g \<equiv> BNatural (unat (gen_value g))"

definition runtime_document :: "runtime_info \<Rightarrow> document" where
  "runtime_document r =
     [(''game'', BText (rt_game r)), (''variant'', BText (rt_variant r)),
      (''openmw_version'', BText (rt_openmw_version r)), (''openmw_commit'', BText (rt_openmw_commit r)),
      (''lua_api_revision'', BNatural (unat (rt_lua_api_revision r))),
      (''client_version'', BText (rt_client_version r)), (''platform'', BText (rt_platform r)),
      (''capabilities'', BArray (map BText (rt_capabilities r)))]"

definition optional_text :: "string option \<Rightarrow> body_value" where
  "optional_text s = (case s of None \<Rightarrow> BNull | Some s \<Rightarrow> BText s)"

definition exchange_document :: "string \<Rightarrow> MessageId \<Rightarrow> request_correlation \<Rightarrow> document" where
  "exchange_document schema message c =
     [(''schema'', BText schema), (''message_id'', BId message), (''request_id'', BId (corr_request c)),
      (''session_id'', BId (corr_session c)), (''generation'', BGeneration (corr_generation c))]"

definition init_document :: "init_request \<Rightarrow> document" where
  "init_document i =
     (let ids = init_ids i in
      [(''schema'', BText ''lorkhan.session.init.v1''), (''message_id'', BId (env_message ids)),
       (''installation_id'', BId (env_installation ids)), (''profile_id'', BId (env_profile ids)),
       (''playthrough_id'', BId (env_playthrough ids)), (''generation'', BGeneration (env_generation ids)),
       (''created_at'', BText (init_created_at i)), (''runtime'', BObject (runtime_document (init_runtime i))),
       (''content_fingerprint'', BText (init_content_fingerprint i))]
      @ (case init_character_id i of
           None \<Rightarrow> []
         | Some character \<Rightarrow>
             [(''character_id'', BText character), (''character_binding'', BText (the (init_character_binding i)))])
      @ (if init_loaded_save i then [(''loaded_save'', BNull)] else []))"

definition turn_document :: "turn_request \<Rightarrow> document" where
  "turn_document t =
     (let ids = turn_ids t in
      [(''schema'', BText ''lorkhan.turn.v1''), (''message_id'', BId (env_message ids)),
       (''request_id'', BId (env_request ids)), (''turn_id'', BId (env_turn ids)),
       (''installation_id'', BId (env_installation ids)), (''profile_id'', BId (env_profile ids)),
       (''playthrough_id'', BId (env_playthrough ids)), (''session_id'', BId (env_session ids)),
       (''generation'', BGeneration (env_generation ids)),
       (''runtime_generation'', BGeneration (turn_runtime_generation t)),
       (''created_at'', BText (turn_created_at t)), (''runtime'', BObject (runtime_document (turn_runtime t))),
       (''content_fingerprint'', BText (turn_content_fingerprint t)), (''payload'', BPayload (turn_serialized_payload t))])"

definition interruption_document :: "interruption_request \<Rightarrow> document" where
  "interruption_document i =
     [(''schema'', BText ''lorkhan.interrupt.v1''), (''message_id'', BId (intr_message i)),
      (''request_id'', BId (intr_request i)), (''turn_id'', BId (intr_turn i)), (''session_id'', BId (intr_session i)),
      (''generation'', BGeneration (intr_generation i)), (''created_at'', BText (intr_created_at i)),
      (''reason'', BText (intr_reason i))]"

definition action_result_document :: "action_result_request \<Rightarrow> document" where
  "action_result_document a =
     (let c = ar_correlation a in
      [(''schema'', BText ''lorkhan.action-result.v1''), (''message_id'', BId (ar_message a)),
       (''request_id'', BId (corr_request c)), (''action_id'', BId (ar_action a)), (''turn_id'', BId (ar_turn a)),
       (''session_id'', BId (corr_session c)), (''generation'', BGeneration (corr_generation c)),
       (''status'', BText (status_name (ar_status a))), (''reason_code'', BText (ar_reason_code a)),
       (''observed'', BPayload (ar_serialized_observed a)), (''completed_at'', BText (ar_completed_at a))])"

definition delivery_document :: "dialogue_delivery_result_request \<Rightarrow> document" where
  "delivery_document d =
     (let c = dd_correlation d in
      [(''schema'', BText ''lorkhan.dialogue-delivery-result.v1''), (''message_id'', BId (dd_message d)),
       (''request_id'', BId (corr_request c)), (''dialogue_message_id'', BId (dd_dialogue_message d)),
       (''turn_id'', BId (dd_turn d)), (''session_id'', BId (corr_session c)),
       (''generation'', BGeneration (corr_generation c)), (''speaker'', BPayload (dd_serialized_speaker d)),
       (''status'', BText (delivery_status_name (dd_status d))), (''reason_code'', BText (dd_reason_code d)),
       (''completed_at'', BText (dd_completed_at d))])"

definition controls_query_document :: "controls_query_request \<Rightarrow> document" where
  "controls_query_document q =
     exchange_document ''lorkhan.controls.query.v1'' (cq_message q) (cq_correlation q)
     @ (if cq_include_settings_editor q then [(''include_settings_editor'', BTrue)] else [])
     @ [(''target'', BPayload (cq_serialized_target q))]"

definition setting_document :: "setting_selection \<Rightarrow> document" where
  "setting_document s =
     [(''scope'', BText (set_scope s)), (''key'', BText (set_key s)), (''value'', BText (set_value s)),
      (''change_token'', BText (set_change_token s))]"

definition controls_select_document :: "controls_select_request \<Rightarrow> document" where
  "controls_select_document s =
     exchange_document ''lorkhan.controls.select.v1'' (cs_message s) (cs_correlation s)
     @ [(''created_at'', BText (cs_created_at s)), (''kind'', BText (control_kind_name (cs_kind s))),
        (''selection_id'', optional_text (cs_selection_id s)), (''selection_key'', optional_text (cs_selection_key s)),
        (''target'', BPayload (cs_serialized_target s))]
     @ (case cs_setting s of None \<Rightarrow> [] | Some x \<Rightarrow> [(''setting'', BObject (setting_document x))])"

definition diary_result_document :: "diary_book_result_request \<Rightarrow> document" where
  "diary_result_document r =
     (let c = dbr_correlation r in
      [(''schema'', BText ''lorkhan.diary-book-result.v1''), (''message_id'', BId (dbr_message r)),
       (''request_id'', BId (corr_request c)), (''delivery_id'', BId (dbr_delivery r)),
       (''session_id'', BId (corr_session c)), (''generation'', BGeneration (corr_generation c)),
       (''status'', BText (debug_status_name (dbr_status r))),
       (''reason_code'', if dbr_reason_code r = [] then BNull else BText (dbr_reason_code r)),
       (''book_id'', BId (dbr_book r)), (''content_hash'', BText (dbr_content_hash r)),
       (''completed_at'', BText (dbr_completed_at r))])"

definition debug_result_document :: "debug_command_result_request \<Rightarrow> document" where
  "debug_result_document r =
     (let c = dcr_correlation r in
      [(''schema'', BText ''lorkhan.debug-command-result.v1''), (''message_id'', BId (dcr_message r)),
       (''request_id'', BId (corr_request c)), (''command_id'', BId (dcr_command r)),
       (''session_id'', BId (corr_session c)), (''generation'', BGeneration (corr_generation c)),
       (''status'', BText (debug_status_name (dcr_status r))), (''reason_code'', BText (dcr_reason_code r)),
       (''observed'', BPayload (dcr_serialized_observed r)), (''completed_at'', BText (dcr_completed_at r))])"

definition menu_tts_document :: "menu_dialogue_tts_request \<Rightarrow> document" where
  "menu_tts_document m =
     exchange_document ''lorkhan.menu-dialogue-tts.v1'' (mt_message m) (mt_correlation m)
     @ [(''created_at'', BText (mt_created_at m)), (''actor'', BPayload (mt_serialized_actor m)),
        (''text'', BText (mt_text m))]"

definition book_document :: "book_read_aloud_request \<Rightarrow> document" where
  "book_document b =
     exchange_document ''lorkhan.book.read-aloud.v1'' (bk_message b) (bk_correlation b)
     @ [(''created_at'', BText (bk_created_at b)), (''book_id'', BText (bk_book_id b)),
        (''title'', BText (bk_title b)), (''text'', BText (bk_text b))]"

definition autochat_document :: "player_autochat_request \<Rightarrow> document" where
  "autochat_document a =
     exchange_document ''lorkhan.player-autochat.v1'' (pa_message a) (pa_correlation a)
     @ [(''created_at'', BText (pa_created_at a)), (''player'', BPayload (pa_serialized_player a)),
        (''target'', BPayload (pa_serialized_target a)), (''intent'', BText (pa_intent a))]"

definition game_data_document :: "outbound_request \<Rightarrow> game_data_request \<Rightarrow> document" where
  "game_data_document request g =
     [(''schema'', BText ''lorkhan.gamedata.v1''), (''installation_id'', BId (gd_installation g)),
      (''playthrough_id'', BId (gd_playthrough g)), (''session_id'', BId (out_session request)),
      (''request_id'', BId (gd_request g)), (''generation'', BGeneration (out_generation request)),
      (''runtime_generation'', BGeneration (gd_runtime_generation g)), (''observed_at'', BText (gd_observed_at g)),
      (''game'', BText ''tes3''), (''type'', BText (game_data_type_name (gd_type g))),
      (''payload'', BPayload (gd_serialized_payload g))]"

text \<open>None for the requests whose body is empty or a recording.\<close>

definition request_document :: "outbound_request \<Rightarrow> document option" where
  "request_document r =
     (if out_kind r = RK_health then None
      else case out_payload r of
        InitRequest i \<Rightarrow> (if init_loaded_calendar i = None then Some (init_document i) else None)
      | TurnRequest t \<Rightarrow> Some (turn_document t)
      | InterruptionRequest i \<Rightarrow> Some (interruption_document i)
      | ActionResultRequest a \<Rightarrow> Some (action_result_document a)
      | DialogueDeliveryResultRequest d \<Rightarrow> Some (delivery_document d)
      | ControlsQueryRequest q \<Rightarrow> Some (controls_query_document q)
      | ControlsSelectRequest s \<Rightarrow> Some (controls_select_document s)
      | DiaryBookQueryRequest q \<Rightarrow>
          Some (exchange_document ''lorkhan.diary-book.query.v1'' (dbq_message q) (dbq_correlation q))
      | DiaryBookResultRequest d \<Rightarrow> Some (diary_result_document d)
      | DebugCommandQueryRequest q \<Rightarrow>
          Some (exchange_document ''lorkhan.debug-command.query.v1'' (dcq_message q) (dcq_correlation q))
      | DebugCommandResultRequest d \<Rightarrow> Some (debug_result_document d)
      | MenuDialogueTtsRequest m \<Rightarrow> Some (menu_tts_document m)
      | BookReadAloudRequest b \<Rightarrow> Some (book_document b)
      | PlayerAutochatRequest a \<Rightarrow> Some (autochat_document a)
      | GameDataRequest g \<Rightarrow> Some (game_data_document r g)
      | _ \<Rightarrow> None)"

section \<open>Every body renders its document\<close>

definition schema_names :: "string list" where
  "schema_names =
     [''lorkhan.session.init.v1'', ''lorkhan.turn.v1'', ''lorkhan.interrupt.v1'', ''lorkhan.action-result.v1'',
      ''lorkhan.dialogue-delivery-result.v1'', ''lorkhan.controls.query.v1'', ''lorkhan.controls.select.v1'',
      ''lorkhan.diary-book.query.v1'', ''lorkhan.diary-book-result.v1'', ''lorkhan.debug-command.query.v1'',
      ''lorkhan.debug-command-result.v1'', ''lorkhan.menu-dialogue-tts.v1'', ''lorkhan.book.read-aloud.v1'',
      ''lorkhan.player-autochat.v1'', ''lorkhan.gamedata.v1'', ''tes3'']"

definition body_keys :: "string list" where
  "body_keys =
     [''schema'', ''message_id'', ''request_id'', ''turn_id'', ''session_id'', ''generation'', ''installation_id'',
      ''profile_id'', ''playthrough_id'', ''runtime_generation'', ''created_at'', ''runtime'', ''content_fingerprint'',
      ''payload'', ''character_id'', ''character_binding'', ''loaded_save'', ''game'', ''variant'', ''openmw_version'',
      ''openmw_commit'', ''lua_api_revision'', ''client_version'', ''platform'', ''capabilities'', ''reason'',
      ''action_id'', ''status'', ''reason_code'', ''observed'', ''completed_at'', ''dialogue_message_id'', ''speaker'',
      ''include_settings_editor'', ''target'', ''kind'', ''selection_id'', ''selection_key'', ''setting'', ''scope'',
      ''key'', ''value'', ''change_token'', ''delivery_id'', ''book_id'', ''content_hash'', ''command_id'', ''actor'',
      ''text'', ''title'', ''player'', ''intent'', ''observed_at'', ''type'']"

lemma schema_names_plain: "list_all plain schema_names"
  by code_simp

lemma body_keys_plain: "list_all (\<lambda>k. plain k \<and> length k \<le> 64) body_keys"
  by code_simp

lemma schema_quoted: "s \<in> set schema_names \<Longrightarrow> escape_json s = quoted s"
  using schema_names_plain by (auto simp: list_all_iff plain_escape)

lemma schema_names_quoted: "list_all (\<lambda>s. escape_json s = quoted s) schema_names"
  using schema_quoted by (simp add: list_all_iff)

lemmas schemas_quoted = schema_names_quoted [unfolded schema_names_def list.pred_inject]

lemma runtime_rendered: "render (BObject (runtime_document r)) = runtime_json r"
  by (simp add: runtime_document_def runtime_json_def comp_def)

lemma optional_rendered: "render (optional_text s) = nullable_string_text s"
  by (simp add: optional_text_def nullable_string_text_def split: option.splits)

lemma exchange_rendered:
  "s \<in> set schema_names \<Longrightarrow> map (map_prod id render) (exchange_document s message c) = correlated s message c"
  by (simp add: exchange_document_def correlated_def schema_quoted u64_text_def)

text \<open>The keys of a document are known, distinct keys, and its payloads are accepted alone.\<close>

primrec well_keyed :: "body_value \<Rightarrow> bool" where
  "well_keyed BNull = True"
| "well_keyed BTrue = True"
| "well_keyed (BText s) = True"
| "well_keyed (BNatural n) = True"
| "well_keyed BFalse = True"
| "well_keyed (BNegative n) = True"
| "well_keyed (BPayload p) = is_ok (parse_json p default_limits)"
| "well_keyed (BArray vs) = list_all id (map well_keyed vs)"
| "well_keyed (BObject ms) =
     (distinct (map fst ms) \<and> list_all (\<lambda>k. k \<in> set body_keys) (map fst ms)
      \<and> list_all snd (map (map_prod id well_keyed) ms))"

text \<open>The texts of a request are valid UTF-8 within the limits, and its numbers are below 2^63.\<close>

primrec texts_fit :: "parse_limits \<Rightarrow> body_value \<Rightarrow> bool" where
  "texts_fit limits BNull = True"
| "texts_fit limits BTrue = True"
| "texts_fit limits (BText s) = (is_valid_utf8 s \<and> length s \<le> maximumStringBytes limits)"
| "texts_fit limits (BNatural n) = (n < 2 ^ 63)"
| "texts_fit limits BFalse = True"
| "texts_fit limits (BNegative n) = (0 < n \<and> n < 2 ^ 63)"
| "texts_fit limits (BPayload p) = True"
| "texts_fit limits (BArray vs) = list_all id (map (texts_fit limits) vs)"
| "texts_fit limits (BObject ms) = list_all snd (map (map_prod id (texts_fit limits)) ms)"

lemma fits_well_keyed:
  assumes "64 \<le> maximumStringBytes limits"
  shows "texts_fit limits v \<Longrightarrow> well_keyed v \<Longrightarrow> fits limits v"
proof (induction v)
  case (BObject ms)
  have "plain k \<and> length k \<le> maximumStringBytes limits" if "(k, v) \<in> set ms" for k v
  proof -
    have "k \<in> set body_keys" using BObject.prems(2) that by (auto simp: list_all_iff)
    with body_keys_plain assms show ?thesis by (auto simp: list_all_iff)
  qed
  moreover have "fits limits v" if "(k, v) \<in> set ms" for k v
  proof (rule BObject.IH [OF that])
    show "v \<in> Basic_BNFs.snds (k, v)" by simp
  qed (use BObject.prems that in \<open>auto simp: list_all_iff\<close>)
  ultimately show ?case using BObject.prems(2) by (auto simp: list_all_iff)
qed (auto simp: list_all_iff)

lemma require_json_object_ok: "require_json_object s what = Inr u \<Longrightarrow> is_ok (parse_json s default_limits)"
  by (auto simp: require_json_object_def and_then_Inr_iff is_ok_iff)

definition keyed :: "string list \<Rightarrow> bool" where
  "keyed ks \<longleftrightarrow> distinct ks \<and> list_all (\<lambda>k. k \<in> set body_keys) ks"

lemma well_keyed_object:
  "well_keyed (BObject ms) \<longleftrightarrow> keyed (map fst ms) \<and> (\<forall>(k, v) \<in> set ms. well_keyed v)"
  by (auto simp: keyed_def list_all_iff)

lemma keyed_drop: "keyed (a @ b @ c) \<Longrightarrow> keyed (a @ c)"
  by (auto simp: keyed_def)

lemma keyed_prefix: "keyed (a @ b) \<Longrightarrow> keyed a"
  by (auto simp: keyed_def)

lemma runtime_well_keyed: "well_keyed (BObject (runtime_document r))"
proof -
  have "keyed [''game'', ''variant'', ''openmw_version'', ''openmw_commit'', ''lua_api_revision'', ''client_version'',
      ''platform'', ''capabilities'']" by code_simp
  then show ?thesis
    unfolding well_keyed_object by (auto simp: runtime_document_def list_all_iff)
qed

lemma optional_well_keyed: "well_keyed (optional_text s)"
  by (simp add: optional_text_def split: option.splits)

lemma post_wire_body [simp]: "wr_body (post_wire target status key body) = body"
  by (simp add: post_wire_def)

section \<open>Each kind\<close>

definition stands_for :: "wire_request \<Rightarrow> document \<Rightarrow> bool" where
  "stands_for w d \<longleftrightarrow> wr_body w = render (BObject d) \<and> well_keyed (BObject d)"

lemma stands_forI:
  assumes "wr_body w = object_text (map (map_prod id render) d)" "keyed (map fst d)" "list_all well_keyed (map snd d)"
  shows "stands_for w d"
  using assms by (simp add: stands_for_def keyed_def list_all_iff)

text \<open>The rules that the kinds below share.\<close>

lemmas body_simps = schemas_quoted runtime_rendered optional_rendered exchange_rendered u64_text_def

lemma schema_names_in: "list_all (\<lambda>s. s \<in> set schema_names) schema_names"
  by (simp add: list_all_iff)

lemmas in_schema_names = schema_names_in [unfolded schema_names_def list.pred_inject, folded schema_names_def]

lemmas value_simps = runtime_well_keyed optional_well_keyed

lemma keyed_turn:
  "keyed [''schema'', ''message_id'', ''request_id'', ''turn_id'', ''installation_id'', ''profile_id'',
     ''playthrough_id'', ''session_id'', ''generation'', ''runtime_generation'', ''created_at'', ''runtime'',
     ''content_fingerprint'', ''payload'']"
  by code_simp

lemma turn_stands_for:
  assumes "turn_wire base t = Inr w"
  shows "stands_for w (turn_document t)"
proof (rule stands_forI)
  have ok: "is_ok (parse_json (turn_serialized_payload t) default_limits)"
    using assms by (auto simp: turn_wire_def and_then_Inr_iff Let_def intro: require_json_object_ok)
  show "wr_body w = object_text (map (map_prod id render) (turn_document t))"
    using assms by (auto simp: turn_wire_def turn_document_def body_simps and_then_Inr_iff Let_def simp del: render.simps(9))
  show "keyed (map fst (turn_document t))"
    using keyed_turn by (simp add: turn_document_def Let_def)
  show "list_all well_keyed (map snd (turn_document t))"
    using ok by (simp add: turn_document_def Let_def value_simps del: well_keyed.simps(9))
qed

lemma keyed_interruption:
  "keyed [''schema'', ''message_id'', ''request_id'', ''turn_id'', ''session_id'', ''generation'',
     ''created_at'', ''reason'']"
  by code_simp

lemma interruption_stands_for: "stands_for (interruption_wire base i) (interruption_document i)"
proof (rule stands_forI)
  show "wr_body (interruption_wire base i) = object_text (map (map_prod id render) (interruption_document i))"
    by (simp add: interruption_wire_def interruption_document_def body_simps in_schema_names Let_def)
  show "keyed (map fst (interruption_document i))"
    using keyed_interruption by (simp add: interruption_document_def Let_def)
  show "list_all well_keyed (map snd (interruption_document i))"
    by (simp add: interruption_document_def Let_def)
qed

lemma keyed_action_result:
  "keyed [''schema'', ''message_id'', ''request_id'', ''action_id'', ''turn_id'', ''session_id'',
     ''generation'', ''status'', ''reason_code'', ''observed'', ''completed_at'']"
  by code_simp

lemma action_result_stands_for:
  assumes "action_result_wire base a = Inr w"
  shows "stands_for w (action_result_document a)"
proof (rule stands_forI)
  have ok: "is_ok (parse_json (ar_serialized_observed a) default_limits)"
    using assms by (auto simp: action_result_wire_def and_then_Inr_iff Let_def intro: require_json_object_ok)
  show "wr_body w = object_text (map (map_prod id render) (action_result_document a))"
    using assms
    by (auto simp: action_result_wire_def action_result_document_def body_simps in_schema_names and_then_Inr_iff Let_def simp del: render.simps(9))
  show "keyed (map fst (action_result_document a))"
    using keyed_action_result by (simp add: action_result_document_def Let_def)
  show "list_all well_keyed (map snd (action_result_document a))"
    using ok by (simp add: action_result_document_def Let_def value_simps del: well_keyed.simps(9))
qed

lemma keyed_delivery:
  "keyed [''schema'', ''message_id'', ''request_id'', ''dialogue_message_id'', ''turn_id'', ''session_id'',
     ''generation'', ''speaker'', ''status'', ''reason_code'', ''completed_at'']"
  by code_simp

lemma delivery_stands_for:
  assumes "delivery_wire base d = Inr w"
  shows "stands_for w (delivery_document d)"
proof (rule stands_forI)
  have ok: "is_ok (parse_json (dd_serialized_speaker d) default_limits)"
    using assms by (auto simp: delivery_wire_def and_then_Inr_iff Let_def intro: require_json_object_ok)
  show "wr_body w = object_text (map (map_prod id render) (delivery_document d))"
    using assms
    by (auto simp: delivery_wire_def delivery_document_def body_simps in_schema_names and_then_Inr_iff Let_def simp del: render.simps(9))
  show "keyed (map fst (delivery_document d))"
    using keyed_delivery by (simp add: delivery_document_def Let_def)
  show "list_all well_keyed (map snd (delivery_document d))"
    using ok by (simp add: delivery_document_def Let_def value_simps del: well_keyed.simps(9))
qed

lemma keyed_diary_result:
  "keyed [''schema'', ''message_id'', ''request_id'', ''delivery_id'', ''session_id'', ''generation'',
     ''status'', ''reason_code'', ''book_id'', ''content_hash'', ''completed_at'']"
  by code_simp

lemma diary_result_stands_for: "stands_for (diary_result_wire base r) (diary_result_document r)"
proof (rule stands_forI)
  show "wr_body (diary_result_wire base r) = object_text (map (map_prod id render) (diary_result_document r))"
    by (simp add: diary_result_wire_def diary_result_document_def body_simps in_schema_names Let_def)
  show "keyed (map fst (diary_result_document r))"
    using keyed_diary_result by (simp add: diary_result_document_def Let_def)
  show "list_all well_keyed (map snd (diary_result_document r))"
    by (simp add: diary_result_document_def Let_def)
qed

lemma keyed_debug_result:
  "keyed [''schema'', ''message_id'', ''request_id'', ''command_id'', ''session_id'', ''generation'',
     ''status'', ''reason_code'', ''observed'', ''completed_at'']"
  by code_simp

lemma debug_result_stands_for:
  assumes "debug_result_wire base r = Inr w"
  shows "stands_for w (debug_result_document r)"
proof (rule stands_forI)
  have ok: "is_ok (parse_json (dcr_serialized_observed r) default_limits)"
    using assms by (auto simp: debug_result_wire_def and_then_Inr_iff Let_def intro: require_json_object_ok)
  show "wr_body w = object_text (map (map_prod id render) (debug_result_document r))"
    using assms
    by (auto simp: debug_result_wire_def debug_result_document_def body_simps in_schema_names and_then_Inr_iff Let_def simp del: render.simps(9))
  show "keyed (map fst (debug_result_document r))"
    using keyed_debug_result by (simp add: debug_result_document_def Let_def)
  show "list_all well_keyed (map snd (debug_result_document r))"
    using ok by (simp add: debug_result_document_def Let_def value_simps del: well_keyed.simps(9))
qed

lemma keyed_menu_tts:
  "keyed [''schema'', ''message_id'', ''request_id'', ''session_id'', ''generation'', ''created_at'',
     ''actor'', ''text'']"
  by code_simp

lemma menu_tts_stands_for:
  assumes "menu_tts_wire base m = Inr w"
  shows "stands_for w (menu_tts_document m)"
proof (rule stands_forI)
  have ok: "is_ok (parse_json (mt_serialized_actor m) default_limits)"
    using assms by (auto simp: menu_tts_wire_def and_then_Inr_iff Let_def intro: require_json_object_ok)
  show "wr_body w = object_text (map (map_prod id render) (menu_tts_document m))"
    using assms
    by (auto simp: menu_tts_wire_def menu_tts_document_def body_simps in_schema_names and_then_Inr_iff Let_def simp del: render.simps(9))
  show "keyed (map fst (menu_tts_document m))"
    using keyed_menu_tts by (simp add: menu_tts_document_def exchange_document_def Let_def)
  show "list_all well_keyed (map snd (menu_tts_document m))"
    using ok by (simp add: menu_tts_document_def exchange_document_def Let_def value_simps del: well_keyed.simps(9))
qed

lemma keyed_book:
  "keyed [''schema'', ''message_id'', ''request_id'', ''session_id'', ''generation'', ''created_at'',
     ''book_id'', ''title'', ''text'']"
  by code_simp

lemma book_stands_for: "stands_for (book_wire base b) (book_document b)"
proof (rule stands_forI)
  show "wr_body (book_wire base b) = object_text (map (map_prod id render) (book_document b))"
    by (simp add: book_wire_def book_document_def body_simps in_schema_names Let_def)
  show "keyed (map fst (book_document b))"
    using keyed_book by (simp add: book_document_def exchange_document_def Let_def)
  show "list_all well_keyed (map snd (book_document b))"
    by (simp add: book_document_def exchange_document_def Let_def)
qed

lemma keyed_autochat:
  "keyed [''schema'', ''message_id'', ''request_id'', ''session_id'', ''generation'', ''created_at'',
     ''player'', ''target'', ''intent'']"
  by code_simp

lemma autochat_stands_for:
  assumes "autochat_wire base a = Inr w"
  shows "stands_for w (autochat_document a)"
proof (rule stands_forI)
  have ok: "is_ok (parse_json (pa_serialized_player a) default_limits)" "is_ok (parse_json (pa_serialized_target a) default_limits)"
    using assms by (auto simp: autochat_wire_def and_then_Inr_iff Let_def intro: require_json_object_ok)
  show "wr_body w = object_text (map (map_prod id render) (autochat_document a))"
    using assms
    by (auto simp: autochat_wire_def autochat_document_def body_simps in_schema_names and_then_Inr_iff Let_def simp del: render.simps(9))
  show "keyed (map fst (autochat_document a))"
    using keyed_autochat by (simp add: autochat_document_def exchange_document_def Let_def)
  show "list_all well_keyed (map snd (autochat_document a))"
    using ok by (simp add: autochat_document_def exchange_document_def Let_def value_simps del: well_keyed.simps(9))
qed

lemma keyed_game_data:
  "keyed [''schema'', ''installation_id'', ''playthrough_id'', ''session_id'', ''request_id'',
     ''generation'', ''runtime_generation'', ''observed_at'', ''game'', ''type'', ''payload'']"
  by code_simp

lemma game_data_stands_for:
  assumes "game_data_wire base request g = Inr w"
  shows "stands_for w (game_data_document request g)"
proof (rule stands_forI)
  have ok: "is_ok (parse_json (gd_serialized_payload g) default_limits)"
    using assms by (auto simp: game_data_wire_def and_then_Inr_iff Let_def intro: require_json_object_ok)
  show "wr_body w = object_text (map (map_prod id render) (game_data_document request g))"
    using assms
    by (auto simp: game_data_wire_def game_data_document_def body_simps in_schema_names and_then_Inr_iff Let_def simp del: render.simps(9))
  show "keyed (map fst (game_data_document request g))"
    using keyed_game_data by (simp add: game_data_document_def Let_def)
  show "list_all well_keyed (map snd (game_data_document request g))"
    using ok by (simp add: game_data_document_def Let_def value_simps del: well_keyed.simps(9))
qed

lemma keyed_exchange: "keyed [''schema'', ''message_id'', ''request_id'', ''session_id'', ''generation'']"
  by code_simp

lemma exchange_stands_for:
  assumes "s \<in> set schema_names"
  shows "stands_for (post_wire target status key (object_text (correlated s message c))) (exchange_document s message c)"
proof (rule stands_forI)
  show "keyed (map fst (exchange_document s message c))"
    using keyed_exchange by (simp add: exchange_document_def)
qed (simp_all add: exchange_rendered assms, simp add: exchange_document_def)

lemma diary_query_stands_for:
  "stands_for (diary_query_wire base q) (exchange_document ''lorkhan.diary-book.query.v1'' (dbq_message q) (dbq_correlation q))"
  unfolding diary_query_wire_def by (rule exchange_stands_for) (simp add: in_schema_names)

lemma debug_query_stands_for:
  "stands_for (debug_query_wire base q) (exchange_document ''lorkhan.debug-command.query.v1'' (dcq_message q) (dcq_correlation q))"
  unfolding debug_query_wire_def by (rule exchange_stands_for) (simp add: in_schema_names)

lemma keyed_controls_query:
  "keyed ([''schema'', ''message_id'', ''request_id'', ''session_id'', ''generation''] @ [''include_settings_editor'']
     @ [''target''])"
  by code_simp

lemma controls_query_stands_for:
  assumes "controls_query_wire base q = Inr w"
  shows "stands_for w (controls_query_document q)"
proof (rule stands_forI)
  have ok: "is_ok (parse_json (cq_serialized_target q) default_limits)"
    using assms by (auto simp: controls_query_wire_def and_then_Inr_iff Let_def intro: require_json_object_ok)
  show "wr_body w = object_text (map (map_prod id render) (controls_query_document q))"
    using assms
    by (auto simp: controls_query_wire_def controls_query_document_def body_simps in_schema_names and_then_Inr_iff)
  show "keyed (map fst (controls_query_document q))"
    using keyed_controls_query keyed_drop [OF keyed_controls_query]
    by (simp add: controls_query_document_def exchange_document_def)
  show "list_all well_keyed (map snd (controls_query_document q))"
    using ok by (simp add: controls_query_document_def exchange_document_def)
qed

lemma keyed_setting: "keyed [''scope'', ''key'', ''value'', ''change_token'']"
  by code_simp

lemma setting_rendered: "render (BObject (setting_document x)) = setting_text x"
  by (simp add: setting_document_def setting_text_def)

lemma setting_well_keyed: "well_keyed (BObject (setting_document x))"
  using keyed_setting unfolding well_keyed_object by (simp add: setting_document_def)

lemma keyed_controls_select:
  "keyed ([''schema'', ''message_id'', ''request_id'', ''session_id'', ''generation'', ''created_at'', ''kind'',
     ''selection_id'', ''selection_key'', ''target''] @ [''setting''] @ [])"
  by code_simp

lemma controls_select_stands_for:
  assumes "controls_select_wire base s = Inr w"
  shows "stands_for w (controls_select_document s)"
proof (rule stands_forI)
  have ok: "is_ok (parse_json (cs_serialized_target s) default_limits)"
    using assms by (auto simp: controls_select_wire_def and_then_Inr_iff Let_def intro: require_json_object_ok)
  show "wr_body w = object_text (map (map_prod id render) (controls_select_document s))"
    using assms
    by (auto simp: controls_select_wire_def controls_select_document_def body_simps in_schema_names setting_rendered
        and_then_Inr_iff simp del: render.simps(9) split: option.splits)
  show "keyed (map fst (controls_select_document s))"
    using keyed_controls_select keyed_drop [OF keyed_controls_select]
    by (simp add: controls_select_document_def exchange_document_def split: option.splits)
  show "list_all well_keyed (map snd (controls_select_document s))"
    using ok
    by (simp add: controls_select_document_def exchange_document_def value_simps setting_well_keyed
        split: option.splits del: well_keyed.simps(9))
qed

lemma keyed_init:
  "keyed ([''schema'', ''message_id'', ''installation_id'', ''profile_id'', ''playthrough_id'', ''generation'',
     ''created_at'', ''runtime'', ''content_fingerprint''] @ [''character_id'', ''character_binding''] @ [''loaded_save''])"
  by code_simp

lemma init_stands_for:
  assumes "init_wire base i = Inr w" "init_loaded_calendar i = None"
  shows "stands_for w (init_document i)"
proof (rule stands_forI)
  show "wr_body w = object_text (map (map_prod id render) (init_document i))"
    using assms
    by (auto simp: init_wire_def init_document_def character_members_def save_members_def body_simps and_then_Inr_iff Let_def
        simp del: render.simps(9) split: option.splits if_splits)
  show "keyed (map fst (init_document i))"
    using keyed_init keyed_drop [OF keyed_init] keyed_prefix [OF keyed_init [folded append_assoc]]
      keyed_prefix [OF keyed_init]
    by (simp add: init_document_def Let_def split: option.splits)
  show "list_all well_keyed (map snd (init_document i))"
    by (simp add: init_document_def value_simps Let_def split: option.splits del: well_keyed.simps(9))
qed

section \<open>The body of a request\<close>

lemma stands_for_content_type [simp]: "stands_for (w\<lparr>wr_content_type := c\<rparr>) d \<longleftrightarrow> stands_for w d"
  by (simp add: stands_for_def)

lemmas stand_for = turn_stands_for interruption_stands_for action_result_stands_for delivery_stands_for
  diary_result_stands_for debug_result_stands_for menu_tts_stands_for book_stands_for autochat_stands_for
  game_data_stands_for diary_query_stands_for debug_query_stands_for controls_query_stands_for
  controls_select_stands_for init_stands_for

lemma serialize_kind_stands_for:
  assumes "serialize_kind base r = Inr w" "request_document r = Some d" "payload_kind (out_payload r) = out_kind r"
  shows "stands_for w d"
  using assms(1,2) assms(3) [symmetric]
  by (cases "out_payload r") (auto simp: request_document_def serialize_kind_def intro: stand_for split: if_splits)

lemma serialize_request_stands_for:
  assumes "serialize_request base r = Inr w" "request_document r = Some d"
  shows "stands_for w d"
proof -
  have "payload_kind (out_payload r) = out_kind r"
    using serialize_request_kind [OF assms(1)] assms(2) by (auto simp: request_document_def split: if_splits)
  with assms show ?thesis
    by (auto simp: serialize_request_def and_then_Inr_iff Let_def dest!: serialize_kind_stands_for split: if_splits)
qed


text \<open>An interruption whose reason tries to close its string and to add a field.\<close>

definition sample_reason :: string where
  "sample_reason = ''stop'' @ [CHR 0x22, CHR '','', CHR 0x22] @ ''generation'' @ [CHR 0x22] @ '':9''"

definition sample_interruption :: interruption_request where
  "sample_interruption = \<lparr>intr_message = StrongId ''m'', intr_request = StrongId ''r'', intr_turn = StrongId ''t'',
     intr_session = StrongId ''s'', intr_generation = Generation 3, intr_created_at = ''2026-01-01T00:00:00Z'',
     intr_reason = sample_reason\<rparr>"

definition sample_interrupt_request :: outbound_request where
  "sample_interrupt_request = \<lparr>out_id = StrongId ''i'', out_session = StrongId ''s'', out_generation = Generation 3,
     out_kind = RK_interruption, out_payload = InterruptionRequest sample_interruption\<rparr>"

definition sample_base :: base_url where
  "sample_base = \<lparr>bu_host = ''127.0.0.1'', bu_port = 8080, bu_base_path = ''/'', bu_ipv6 = False\<rparr>"

definition wide_limits :: parse_limits where
  "wide_limits = default_limits\<lparr>maximumDepth := 40, maximumValues := 100000\<rparr>"

lemma sample_interrupt_serialized:
  "serialize_request sample_base sample_interrupt_request
    = Inr ((interruption_wire sample_base sample_interruption)\<lparr>wr_content_type := kJsonContentType\<rparr>)"
  "length (wr_body (interruption_wire sample_base sample_interruption)) \<le> maximumBytes wide_limits"
  "texts_fit wide_limits (BObject (interruption_document sample_interruption))"
  by code_simp+


section \<open>The hour of a calendar\<close>

text \<open>\<open>LoadedSaveCalendar::valid\<close> admits every hour below 24, the text has six decimals: an hour just before
  midnight is written as 24, which the schema of the session request excludes.\<close>

definition late_calendar :: loaded_save_calendar where
  "late_calendar = \<lparr>cal_year = 427, cal_month = 0, cal_day = 1, cal_hour = Finite (24 - 1 / 2 ^ 24)\<rparr>"

lemma valid_hour_written_as_24:
  "calendar_valid late_calendar \<and> hour_text (cal_hour late_calendar) = ''24.000000''"
  by code_simp

end
