(* ===== verification/Client_Config.thy ===== *)
theory Client_Config
  imports Transport_Text
begin

text \<open>
  The configuration file of the native client (\<open>lorkhanbindings.cpp\<close>): \<open>loadConfig\<close> with its
  helpers \<open>trim\<close>, \<open>base64UrlValue\<close> and \<open>decodePairingKey\<close>. A thrown \<open>std::runtime_error\<close> is the
  left value of the result. The environment variable and the text of the file are arguments.
\<close>

unbundle bit_operations_syntax

section \<open>Lines\<close>

definition is_config_blank :: "char \<Rightarrow> bool" where
  "is_config_blank c \<longleftrightarrow> c \<in> {CHR '' '', CHR 0x09, CHR 0x0D, CHR 0x0A}"

definition config_trim :: "string \<Rightarrow> string" where
  "config_trim s = rev (dropWhile is_config_blank (rev (dropWhile is_config_blank s)))"

text \<open>\<open>while (std::getline(stream, line))\<close>.\<close>

fun read_lines :: "string \<Rightarrow> string list" where
  "read_lines [] = []"
| "read_lines (c # s) =
     (if c = CHR 0x0A then [] # read_lines s
      else case read_lines s of [] \<Rightarrow> [[c]] | l # ls \<Rightarrow> (c # l) # ls)"

section \<open>The pairing key\<close>

definition base64_url_value :: "char \<Rightarrow> int" where
  "base64_url_value c =
     (if is_upper c then int (byte c - byte (CHR ''A''))
      else if is_lower c then int (byte c - byte (CHR ''a'')) + 26
      else if is_digit c then int (byte c - byte (CHR ''0'')) + 52
      else if c = CHR ''-'' then 62
      else if c = CHR ''_'' then 63
      else -1)"

record key_decoder =
  kd_accumulator :: u32
  kd_bits :: nat
  kd_bytes :: "byte_t list"

definition decode_digit :: "char \<Rightarrow> key_decoder \<Rightarrow> string + key_decoder" where
  "decode_digit c d =
     (let digit = base64_url_value c in
      if digit < 0 then Inl ''pairing_key contains a non-base64url character''
      else
        let accumulator = push_bit 6 (kd_accumulator d) OR word_of_int digit; bits = kd_bits d + 6 in
        if 8 \<le> bits then
          if 32 \<le> length (kd_bytes d) then Inl ''pairing_key is too long''
          else Inr \<lparr>kd_accumulator = accumulator, kd_bits = bits - 8,
                    kd_bytes = kd_bytes d @ [ucast (drop_bit (bits - 8) accumulator AND 0xFF)]\<rparr>
        else Inr \<lparr>kd_accumulator = accumulator, kd_bits = bits, kd_bytes = kd_bytes d\<rparr>)"

fun decode_digits :: "string \<Rightarrow> key_decoder \<Rightarrow> string + key_decoder" where
  "decode_digits [] d = Inr d"
| "decode_digits (c # s) d = and_then (decode_digit c d) (decode_digits s)"

definition decode_pairing_key :: "string \<Rightarrow> string + byte_t list" where
  "decode_pairing_key encoded =
     (if length encoded \<noteq> 43 then Inl ''pairing_key must be an unpadded 32-byte base64url value''
      else and_then (decode_digits encoded \<lparr>kd_accumulator = 0, kd_bits = 0, kd_bytes = []\<rparr>) (\<lambda>d.
        if length (kd_bytes d) \<noteq> 32 then Inl ''pairing_key does not decode to 32 bytes'' else Inr (kd_bytes d)))"

section \<open>The fields\<close>

record client_config =
  cc_base_url :: base_url
  cc_key :: "byte_t list"
  cc_installation :: InstallationId
  cc_profile :: ProfileId
  cc_playthrough :: PlaythroughId
  cc_fingerprint :: string
  cc_platform :: string
  cc_cache_root :: string
  cc_vfs_prefix :: string

definition known_fields :: "string list" where
  "known_fields = [''base_url'', ''pairing_key'', ''installation_id'', ''profile_id'', ''playthrough_id'',
     ''content_fingerprint'', ''platform'', ''media_cache_root'', ''media_vfs_prefix'']"

type_synonym config_values = "(string \<times> string) list"

text \<open>One line of the file.\<close>

definition config_line :: "string \<Rightarrow> config_values \<Rightarrow> string + config_values" where
  "config_line line values =
     (let line = config_trim line in
      if line = [] \<or> hd line = CHR ''#'' then Inr values
      else case find_from (CHR ''='') 0 line of
          None \<Rightarrow> Inl ''LORKHAN client config contains a malformed line''
        | Some equals \<Rightarrow>
            let key = config_trim (take equals line); v = config_trim (drop (equals + 1) line) in
            if key \<notin> set known_fields \<or> v = [] \<or> key \<in> fst ` set values
            then Inl ''LORKHAN client config contains an unknown, empty, or duplicate field''
            else Inr ((key, v) # values))"

fun config_lines :: "string list \<Rightarrow> config_values \<Rightarrow> string + config_values" where
  "config_lines [] values = Inr values"
| "config_lines (l # ls) values = and_then (config_line l values) (config_lines ls)"

definition required :: "string \<Rightarrow> config_values \<Rightarrow> string + string" where
  "required key values =
     (case map_of values key of None \<Rightarrow> Inl (''LORKHAN client config is missing '' @ key) | Some v \<Rightarrow> Inr v)"

definition error_text :: "'a result \<Rightarrow> string + 'a" where
  "error_text r = (case r of Inl e \<Rightarrow> Inl (err_message e) | Inr x \<Rightarrow> Inr x)"

text \<open>The braces of the aggregate initialise the members from left to right.\<close>

definition read_config :: "config_values \<Rightarrow> string + client_config" where
  "read_config values =
     and_then (required ''base_url'' values) (\<lambda>url.
     and_then (error_text (parse_loopback_base_url url)) (\<lambda>base.
     and_then (required ''pairing_key'' values) (\<lambda>encoded.
     and_then (decode_pairing_key encoded) (\<lambda>key.
     and_then (required ''installation_id'' values) (\<lambda>installation.
     and_then (required ''profile_id'' values) (\<lambda>profile.
     and_then (required ''playthrough_id'' values) (\<lambda>playthrough.
     and_then (required ''content_fingerprint'' values) (\<lambda>fingerprint.
     and_then (required ''platform'' values) (\<lambda>platform.
     and_then (required ''media_cache_root'' values) (\<lambda>cache_root.
     and_then (required ''media_vfs_prefix'' values) (\<lambda>vfs_prefix.
       Inr \<lparr>cc_base_url = base, cc_key = key, cc_installation = StrongId installation, cc_profile = StrongId profile,
            cc_playthrough = StrongId playthrough, cc_fingerprint = fingerprint, cc_platform = platform,
            cc_cache_root = cache_root, cc_vfs_prefix = vfs_prefix\<rparr>)))))))))))"

definition check_config :: "client_config \<Rightarrow> string + client_config" where
  "check_config c =
     (if \<not> is_canonical_uuid (id_value (cc_installation c)) \<or> \<not> is_canonical_uuid (id_value (cc_profile c))
         \<or> \<not> is_canonical_uuid (id_value (cc_playthrough c))
      then Inl ''LORKHAN configured IDs must be canonical lowercase UUIDs''
      else if \<not> starts_with ''sha256:'' (cc_fingerprint c) \<or> length (cc_fingerprint c) \<noteq> 71
      then Inl ''content_fingerprint must be sha256 followed by 64 lowercase hex digits''
      else if cc_vfs_prefix c = [] \<or> hd (cc_vfs_prefix c) = CHR ''/'' \<or> contains_str ''..'' (cc_vfs_prefix c)
      then Inl ''media_vfs_prefix must be a relative VFS prefix''
      else Inr c)"

definition load_config :: "string option \<Rightarrow> (string \<Rightarrow> string option) \<Rightarrow> string + client_config" where
  "load_config path open_file =
     (case path of
        None \<Rightarrow> Inl ''LORKHAN_CLIENT_CONFIG is not set''
      | Some path \<Rightarrow>
          if path = [] then Inl ''LORKHAN_CLIENT_CONFIG is not set''
          else case open_file path of
              None \<Rightarrow> Inl ''LORKHAN client config could not be opened''
            | Some content \<Rightarrow>
                and_then (config_lines (read_lines content) []) (\<lambda>values.
                and_then (read_config values) check_config))"

end
