(* ===== verification/Base_Urls.thy ===== *)
theory Base_Urls
  imports Utf8 Validation
begin

text \<open>
  The canonical form of a loopback base URL: the authority and the base path that
  \<open>parseLoopbackBaseUrl\<close> returns spell a URL that it reads back as the same, which is what the
  constructor of the transport insists on.
\<close>

section \<open>Texts and characters\<close>

lemma find_from_Some:
  assumes "find_from c 0 s = Some k"
  shows "s = take k s @ c # drop (k + 1) s" "c \<notin> set (take k s)" "k < length s"
    "drop k s = c # drop (k + 1) s"
proof -
  from assms have k: "k < length s" "s ! k = c" "\<forall>j < k. s ! j \<noteq> c"
    by (auto simp: find_from_def dest!: find_index_SomeD)
  then show "s = take k s @ c # drop (k + 1) s" using id_take_nth_drop by fastforce
  from k show "c \<notin> set (take k s)" by (auto simp: in_set_conv_nth)
  from k show "k < length s" by simp
  from k show "drop k s = c # drop (k + 1) s" using Cons_nth_drop_Suc [of k s] by simp
qed

lemma find_from_append: "c \<notin> set a \<Longrightarrow> find_from c 0 (a @ c # b) = Some (length a)"
proof -
  have "c \<notin> set a \<Longrightarrow> find_index (\<lambda>x. x = c) (a @ c # b) = Some (length a)" by (induction a) auto
  then show "c \<notin> set a \<Longrightarrow> ?thesis" by (simp add: find_from_def)
qed

lemma find_from_None: "find_from c 0 s = None \<longleftrightarrow> c \<notin> set s"
  by (auto simp: find_from_def find_index_None_iff)

lemma utf8_continue_cut:
  "utf8_continue n code (a @ c # b) = Some (code', rest) \<Longrightarrow> byte c \<le> 0x7F \<Longrightarrow>
   \<exists>rest'. utf8_continue n code a = Some (code', rest') \<and> rest = rest' @ c # b \<and> n \<le> length a"
proof (induction n arbitrary: code a)
  case (Suc n)
  show ?case
  proof (cases a)
    case Nil
    with Suc.prems show ?thesis by (auto split: if_splits)
  next
    case (Cons x a')
    with Suc.prems Suc.IH [of "code * 64 + byte x mod 64" a'] show ?thesis by (auto split: if_splits)
  qed
qed simp

lemma is_valid_utf8_cut:
  "is_valid_utf8 (a @ c # b) \<Longrightarrow> byte c \<le> 0x7F \<Longrightarrow> is_valid_utf8 a \<and> is_valid_utf8 b"
proof (induction a rule: length_induct)
  case (1 a)
  show ?case
  proof (cases a)
    case Nil
    with 1 show ?thesis by simp
  next
    case (Cons x a')
    show ?thesis
    proof (cases "byte x \<le> 0x7F")
      case True
      with 1 Cons show ?thesis by auto
    next
      case False
      from "1.prems"(1) Cons have "is_valid_utf8 (x # (a' @ c # b))" by simp
      then obtain count code minimum code' rest where d: "utf8_lead (byte x) = Some (count, code, minimum)"
        "utf8_continue count code (a' @ c # b) = Some (code', rest)"
        "\<not> (code' < minimum \<or> 0x10FFFF < code' \<or> is_surrogate code')" "is_valid_utf8 rest"
        using False by (rule is_valid_utf8_multibyteE)
      obtain rest' where r: "utf8_continue count code a' = Some (code', rest')" "rest = rest' @ c # b" "count \<le> length a'"
        using utf8_continue_cut [OF d(2) "1.prems"(2)] by blast
      from utf8_continue_length [OF r(1)] Cons have "length rest' < length a" by simp
      with "1.IH" d(4) r(2) "1.prems"(2) have "is_valid_utf8 rest' \<and> is_valid_utf8 b" by blast
      with False d r Cons show ?thesis by (simp add: is_valid_utf8.simps(2))
    qed
  qed
qed

section \<open>The parts of a URL\<close>

definition url_clean :: "string \<Rightarrow> bool" where
  "url_clean s \<longleftrightarrow> is_valid_utf8 s \<and> \<not> has_control s \<and> CHR ''?'' \<notin> set s \<and> CHR ''#'' \<notin> set s"

lemma url_clean_append: "url_clean a \<Longrightarrow> url_clean b \<Longrightarrow> url_clean (a @ b)"
  by (auto simp: url_clean_def is_valid_utf8_append has_control_def)

lemma url_clean_cut: "url_clean (a @ c # b) \<Longrightarrow> byte c \<le> 0x7F \<Longrightarrow> url_clean a \<and> url_clean b"
  using is_valid_utf8_cut [of a c b] by (auto simp: url_clean_def has_control_def)

lemma url_intro:
  assumes "url_clean (auth @ path)" "auth \<noteq> []" "CHR ''/'' \<notin> set auth" "CHR ''@'' \<notin> set auth" "valid_path path"
    and "parse_authority auth = Inr (host, ipv6, port_text)" "parse_port port_text = Inr port"
  shows "parse_loopback_base_url (''http://'' @ auth @ path)
    = Inr \<lparr>bu_host = host, bu_port = port, bu_base_path = drop_trailing_slash path, bu_ipv6 = ipv6\<rparr>"
proof -
  obtain p where p: "path = CHR ''/'' # p" using assms(5) by (cases path) (auto simp: valid_path_def)
  have slash: "find_from (CHR ''/'') 0 (auth @ path) = Some (length auth)"
    unfolding p using assms(3) by (rule find_from_append)
  have "url_clean ''http://''" by code_simp
  from url_clean_append [OF this assms(1)] have 1: "is_valid_utf8 (''http://'' @ auth @ path)" "\<not> has_control (''http://'' @ auth @ path)"
    "CHR ''?'' \<notin> set (''http://'' @ auth @ path)" "CHR ''#'' \<notin> set (''http://'' @ auth @ path)"
    unfolding url_clean_def by blast+
  have 2: "starts_with ''http://'' (''http://'' @ auth @ path)" by (simp add: starts_with_def)
  have 3: "drop 7 (''http://'' @ auth @ path) = auth @ path" by simp
  have "take (length auth) (auth @ path) = auth" "drop (length auth) (auth @ path) = path" by simp_all
  with 1 2 assms show ?thesis
    unfolding parse_loopback_base_url_def 3 Let_def slash by simp
qed

lemma url_elim:
  assumes "parse_loopback_base_url s = Inr u"
  obtains auth path host ipv6 port_text port where "url_clean auth" "url_clean path" "auth \<noteq> []"
    "CHR ''/'' \<notin> set auth" "CHR ''@'' \<notin> set auth" "valid_path path" "parse_authority auth = Inr (host, ipv6, port_text)"
    "parse_port port_text = Inr port"
    "u = \<lparr>bu_host = host, bu_port = port, bu_base_path = drop_trailing_slash path, bu_ipv6 = ipv6\<rparr>"
proof -
  have start: "is_valid_utf8 s" "\<not> has_control s" "CHR ''?'' \<notin> set s" "CHR ''#'' \<notin> set s" "starts_with ''http://'' s"
    using assms unfolding parse_loopback_base_url_def by (auto split: if_splits)
  then obtain rest where s: "s = ''http://'' @ rest" by (auto simp: starts_with_iff)
  have "url_clean (''http:/'' @ CHR ''/'' # rest)" "byte (CHR ''/'') \<le> 0x7F"
    using start by (simp add: url_clean_def s) code_simp
  then have rest: "url_clean rest" using url_clean_cut by blast
  define auth where "auth = (case find_from (CHR ''/'') 0 rest of None \<Rightarrow> rest | Some k \<Rightarrow> take k rest)"
  define path where "path = (case find_from (CHR ''/'') 0 rest of None \<Rightarrow> ''/'' | Some k \<Rightarrow> drop k rest)"
  have drop: "drop 7 s = rest" by (simp add: s)
  from assms start have ok: "auth \<noteq> []" "CHR ''@'' \<notin> set auth" "valid_path path"
    and rec: "and_then (parse_authority auth) (\<lambda>(host, ipv6, port_text). and_then (parse_port port_text) (\<lambda>port.
      Inr \<lparr>bu_host = host, bu_port = port, bu_base_path = drop_trailing_slash path, bu_ipv6 = ipv6\<rparr>)) = Inr u"
    unfolding parse_loopback_base_url_def drop Let_def auth_def [symmetric] path_def [symmetric]
    by (auto split: if_splits)
  have "url_clean auth \<and> url_clean path \<and> CHR ''/'' \<notin> set auth"
  proof (cases "find_from (CHR ''/'') 0 rest")
    case None
    then have "CHR ''/'' \<notin> set rest" by (simp add: find_from_None)
    moreover have "url_clean ''/''" by code_simp
    ultimately show ?thesis using rest None by (simp add: auth_def path_def)
  next
    case (Some k)
    note f = find_from_Some [OF Some]
    have "byte (CHR ''/'') \<le> 0x7F" by code_simp
    from url_clean_cut [OF _ this, of "take k rest" "drop (k + 1) rest"] rest f(1)
    have "url_clean (take k rest)" "url_clean (drop (k + 1) rest)" by auto
    moreover have "drop k rest = ''/'' @ drop (k + 1) rest" using f(4) by simp
    moreover have "url_clean ''/''" by code_simp
    ultimately show ?thesis using f(2) Some url_clean_append [of "''/''" "drop (k + 1) rest"]
      unfolding auth_def path_def by simp
  qed
  with ok rec show thesis using that [of auth path] by (auto simp: and_then_Inr_iff)
qed

section \<open>The canonical form\<close>

lemma parse_port_canonical:
  assumes "parse_port t = Inr port"
  shows "t = [] \<and> port = 80 \<or> t = to_decimal port"
proof (cases "t = []")
  case False
  with assms have "canonical_decimal t" "port = decimal_value t"
    by (auto simp: parse_port_def canonical_decimal_def from_chars_unsigned_def split: if_splits)
  then show ?thesis by (simp add: to_decimal_decimal_value)
qed (use assms in \<open>simp add: parse_port_def\<close>)

text \<open>The host part of an authority alone.\<close>

definition bare_host :: "string \<Rightarrow> bool \<Rightarrow> string" where
  "bare_host host ipv6 = (if ipv6 then ''['' @ host @ '']'' else host)"

lemma authority_parts:
  assumes "parse_authority auth = Inr (host, ipv6, port_text)" "auth \<noteq> []"
  shows "auth = bare_host host ipv6 \<and> port_text = [] \<or> auth = bare_host host ipv6 @ CHR '':'' # port_text"
    "parse_authority (bare_host host ipv6) = Inr (host, ipv6, [])"
    "bare_host host ipv6 \<noteq> []"
proof -
  have "(auth = bare_host host ipv6 \<and> port_text = [] \<or> auth = bare_host host ipv6 @ CHR '':'' # port_text)
    \<and> parse_authority (bare_host host ipv6) = Inr (host, ipv6, []) \<and> bare_host host ipv6 \<noteq> []"
  proof (cases "hd auth = CHR ''[''")
    case True
    then obtain close where close: "find_from (CHR '']'') 0 auth = Some close" "substr 1 (close - 1) auth = ''::1''"
      and parts: "host = ''::1''" "ipv6"
        "if close + 1 < length auth then auth ! (close + 1) = CHR '':'' \<and> port_text = drop (close + 2) auth else port_text = []"
      using assms(1) by (auto simp: parse_authority_def split: option.splits if_splits)
    note f = find_from_Some [OF close(1)]
    have "close \<noteq> 0" using close(2) f(1) by (cases close) (auto simp: substr_def)
    then have "take close auth = ''[::1''" using True close(2) assms(2)
      by (cases auth) (auto simp: substr_def take_Cons')
    with f(1) have auth: "auth = ''[::1]'' @ drop (close + 1) auth" by simp
    have "parse_authority ''[::1]'' = Inr (''::1'', True, [])" by code_simp
    moreover have "drop (close + 1) auth = '':'' @ port_text" if "close + 1 < length auth"
      using parts(3) that Cons_nth_drop_Suc [of "close + 1" auth] by simp
    ultimately show ?thesis using auth parts
      by (cases "close + 1 < length auth") (auto simp: bare_host_def)
  next
    case False
    then have host: "valid_ipv4_loopback host" "\<not> ipv6"
      and parts: "case find_from (CHR '':'') 0 auth of None \<Rightarrow> host = auth \<and> port_text = []
        | Some k \<Rightarrow> host = take k auth \<and> port_text = drop (k + 1) auth"
      using assms(1) by (auto simp: parse_authority_def Let_def split: option.splits if_splits)
    have "\<not> valid_ipv4_loopback []" by code_simp
    with host(1) have "host \<noteq> []" by auto
    show ?thesis
    proof (cases "find_from (CHR '':'') 0 auth")
      case None
      with parts host assms(1) \<open>host \<noteq> []\<close> show ?thesis by (simp add: bare_host_def)
    next
      case (Some k)
      note f = find_from_Some [OF this]
      have "find_from (CHR '':'') 0 host = None" using parts Some f(2) by (simp add: find_from_None)
      moreover have "hd host \<noteq> CHR ''[''" using parts Some False \<open>host \<noteq> []\<close> f(3) by (cases auth; cases k) auto
      ultimately have "parse_authority host = Inr (host, False, [])" using host by (simp add: parse_authority_def)
      with parts Some f host \<open>host \<noteq> []\<close> show ?thesis by (auto simp: bare_host_def)
    qed
  qed
  then show "auth = bare_host host ipv6 \<and> port_text = [] \<or> auth = bare_host host ipv6 @ CHR '':'' # port_text"
    "parse_authority (bare_host host ipv6) = Inr (host, ipv6, [])" "bare_host host ipv6 \<noteq> []" by blast+
qed

lemma path_segments_slash: "path_segments (q @ ''/'') = path_segments q @ [[]]"
proof -
  have "path_segments q \<noteq> []" for q by (cases q) auto
  then show ?thesis by (induction q) auto
qed

lemma drop_trailing_slash_path:
  assumes "valid_path p" "url_clean p"
  shows "valid_path (drop_trailing_slash p)" "url_clean (drop_trailing_slash p)"
    "drop_trailing_slash (drop_trailing_slash p) = drop_trailing_slash p"
proof -
  have "valid_path (drop_trailing_slash p) \<and> url_clean (drop_trailing_slash p)
    \<and> drop_trailing_slash (drop_trailing_slash p) = drop_trailing_slash p"
  proof (cases "1 < length p \<and> last p = CHR ''/''")
    case False
    then have "drop_trailing_slash p = p" by (auto simp: drop_trailing_slash_def)
    with assms show ?thesis by simp
  next
    case True
    then obtain q where p: "p = (CHR ''/'' # q) @ ''/''"
      using assms(1) by (cases p rule: rev_cases) (auto simp: valid_path_def hd_append neq_Nil_conv)
    then have dropped: "drop_trailing_slash p = CHR ''/'' # q" by (simp add: drop_trailing_slash_def)
    have "byte (CHR ''/'') \<le> 0x7F" by code_simp
    with assms(2) p url_clean_cut [of "CHR ''/'' # q" "CHR ''/''" "[]"] have clean: "url_clean (CHR ''/'' # q)" by simp
    have no: "\<not> contains_str ''//'' ((CHR ''/'' # q) @ ''/'')" using assms(1) p by (simp add: valid_path_def)
    then have "\<not> contains_str ''//'' (CHR ''/'' # q)"
      by (metis append.assoc contains_str_iff)
    moreover have "list_all (\<lambda>part. part \<noteq> ''.'' \<and> part \<noteq> ''..'') (path_segments q)"
      using assms(1) by (simp add: p valid_path_def path_segments_slash)
    ultimately have valid: "valid_path (CHR ''/'' # q)" using assms(1) by (simp add: p valid_path_def)
    have "q \<noteq> [] \<Longrightarrow> last q \<noteq> CHR ''/''"
    proof
      assume "q \<noteq> []" "last q = CHR ''/''"
      then have "(CHR ''/'' # q) @ ''/'' = (CHR ''/'' # butlast q) @ ''//'' @ []"
        by (metis append_butlast_last_id append_Cons append_Nil append_Nil2 append.assoc)
      with no contains_strI show False by metis
    qed
    then have "drop_trailing_slash (CHR ''/'' # q) = CHR ''/'' # q" by (auto simp: drop_trailing_slash_def)
    with valid clean dropped show ?thesis by simp
  qed
  then show "valid_path (drop_trailing_slash p)" "url_clean (drop_trailing_slash p)"
    "drop_trailing_slash (drop_trailing_slash p) = drop_trailing_slash p" by blast+
qed

text \<open>A URL that was accepted is read back from its authority and its base path.\<close>

lemma parsed_url_reparses:
  assumes "parse_loopback_base_url s = Inr u"
  shows "parse_loopback_base_url (''http://'' @ authority u @ bu_base_path u) = Inr u"
  using assms
proof (rule url_elim)
  fix auth path host ipv6 port_text port
  assume clean: "url_clean auth" "url_clean path" and auth: "auth \<noteq> []" "CHR ''/'' \<notin> set auth" "CHR ''@'' \<notin> set auth"
    and path: "valid_path path" and parsed: "parse_authority auth = Inr (host, ipv6, port_text)"
    and port: "parse_port port_text = Inr port"
    and u: "u = \<lparr>bu_host = host, bu_port = port, bu_base_path = drop_trailing_slash path, bu_ipv6 = ipv6\<rparr>"
  note parts = authority_parts [OF parsed auth(1)]
  note path' = drop_trailing_slash_path [OF path clean(2)]
  have eighty: "parse_port [] = Inr 80" by (simp add: parse_port_def)
  have form: "authority u = bare_host host ipv6 @ (if port = 80 then [] else '':'' @ to_decimal port)"
    by (simp add: u authority_def bare_host_def)
  show "parse_loopback_base_url (''http://'' @ authority u @ bu_base_path u) = Inr u"
  proof (cases "port = 80")
    case True
    then have whole: "authority u = bare_host host ipv6" using form by simp
    have "byte (CHR '':'') \<le> 0x7F" by code_simp
    with parts(1) clean(1) have "url_clean (bare_host host ipv6)"
      using url_clean_cut [of "bare_host host ipv6" "CHR '':''" port_text] by metis
    note clean' = url_clean_append [OF this path'(2)]
    have chars: "CHR ''/'' \<notin> set (bare_host host ipv6)" "CHR ''@'' \<notin> set (bare_host host ipv6)" using parts(1) auth by auto
    from url_intro [OF clean' parts(3) chars path'(1) parts(2) eighty]
    show ?thesis unfolding whole by (simp add: u path'(3) True)
  next
    case False
    with parse_port_canonical [OF port] have digits: "port_text = to_decimal port" by auto
    with parts(1) have "auth = bare_host host ipv6 @ '':'' @ to_decimal port" by simp
    with form False have whole: "authority u = auth" by simp
    from url_intro [OF url_clean_append [OF clean(1) path'(2)] auth path'(1) parsed port]
    show ?thesis unfolding whole by (simp add: u path'(3))
  qed
qed

end
