(* ===== verification/Client_Config_Props.thy ===== *)
theory Client_Config_Props
  imports Client_Config Transport Base_Urls
begin

text \<open>
  What the configuration of the native client guarantees: the pairing key in the file is the key
  whose text the transport writes, a loopback URL is read back from its canonical form, and a
  configuration that is accepted is one a transport can be constructed from.
\<close>

unbundle bit_operations_syntax

section \<open>Sextets\<close>

lemma base64_value_alphabet: "i < 64 \<Longrightarrow> base64_url_value (base64_alphabet ! i) = int i"
proof -
  have "list_all (\<lambda>i. base64_url_value (base64_alphabet ! i) = int i) [0..<64]" by code_simp
  then show "i < 64 \<Longrightarrow> ?thesis" by (simp add: list_all_iff)
qed

text \<open>The sextets of three bytes.\<close>

definition sextet1 :: "byte_t \<Rightarrow> u32" where "sextet1 a = drop_bit 2 (ucast a)"
definition sextet2 :: "byte_t \<Rightarrow> byte_t \<Rightarrow> u32" where "sextet2 a b = push_bit 4 (take_bit 2 (ucast a)) OR drop_bit 4 (ucast b)"
definition sextet3 :: "byte_t \<Rightarrow> byte_t \<Rightarrow> u32" where "sextet3 b c = push_bit 2 (take_bit 4 (ucast b)) OR drop_bit 6 (ucast c)"
definition sextet4 :: "byte_t \<Rightarrow> u32" where "sextet4 c = take_bit 6 (ucast c)"

lemma masks: "(0x3F :: u32) = mask 6" "(0xFF :: u32) = mask 8"
  by (simp_all add: mask_eq_exp_minus_1)

lemma below_8: "(n::nat) < 8 \<longleftrightarrow> n = 0 \<or> n = 1 \<or> n = 2 \<or> n = 3 \<or> n = 4 \<or> n = 5 \<or> n = 6 \<or> n = 7"
  by auto

lemma byte_bitD: "bit (a :: byte_t) n \<Longrightarrow> n < 8"
  using bit_imp_le_length [of a n] by simp

lemma below_6: "(n::nat) < 6 \<longleftrightarrow> n = 0 \<or> n = 1 \<or> n = 2 \<or> n = 3 \<or> n = 4 \<or> n = 5"
  by auto

lemma sextet_bits:
  "bit (sextet1 a) n \<longleftrightarrow> n < 6 \<and> bit a (n + 2)"
  "bit (sextet2 a b) n \<longleftrightarrow> n < 4 \<and> bit b (n + 4) \<or> n \<in> {4, 5} \<and> bit a (n - 4)"
  "bit (sextet3 b c) n \<longleftrightarrow> n < 2 \<and> bit c (n + 6) \<or> n \<in> {2, 3, 4, 5} \<and> bit b (n - 2)"
  "bit (sextet4 c) n \<longleftrightarrow> n < 6 \<and> bit c n"
proof -
  have "bit a (n + 2) \<Longrightarrow> n < 6" "bit b (n + 4) \<Longrightarrow> n < 4" "bit c (n + 6) \<Longrightarrow> n < 2" for a b c :: byte_t
    by (auto dest: byte_bitD)
  note bounds = this
  show "bit (sextet1 a) n \<longleftrightarrow> n < 6 \<and> bit a (n + 2)"
    using bounds(1) [of a] by (auto simp: sextet1_def bit_simps ac_simps)
  show "bit (sextet2 a b) n \<longleftrightarrow> n < 4 \<and> bit b (n + 4) \<or> n \<in> {4, 5} \<and> bit a (n - 4)"
    using bounds(2) [of b] by (auto simp: sextet2_def bit_simps ac_simps)
  show "bit (sextet3 b c) n \<longleftrightarrow> n < 2 \<and> bit c (n + 6) \<or> n \<in> {2, 3, 4, 5} \<and> bit b (n - 2)"
    using bounds(3) [of c] by (auto simp: sextet3_def bit_simps ac_simps)
  show "bit (sextet4 c) n \<longleftrightarrow> n < 6 \<and> bit c n"
    by (auto simp: sextet4_def bit_simps)
qed

lemma six_bits_less: "(\<And>n. bit w n \<Longrightarrow> n < 6) \<Longrightarrow> unat (w :: u32) < 64"
proof -
  assume "\<And>n. bit w n \<Longrightarrow> n < 6"
  then have "w = take_bit 6 w" by (intro bit_word_eqI) (auto simp: bit_simps)
  then have "unat w = take_bit 6 (unat w)" by (metis unsigned_take_bit_eq)
  then show ?thesis using take_bit_nat_less_exp [of 6 "unat w"] by simp
qed

lemma sextet_less: "unat (sextet1 a) < 64" "unat (sextet2 a b) < 64" "unat (sextet3 b c) < 64" "unat (sextet4 c) < 64"
  by (rule six_bits_less; auto simp: sextet_bits)+

lemma encoder_sextets:
  "drop_bit 2 (push_bit 8 acc OR ucast a) AND 0x3F = sextet1 a"
  "drop_bit 4 (push_bit 8 (push_bit 8 acc OR ucast a) OR ucast b) AND 0x3F = sextet2 a b"
  "drop_bit 6 (push_bit 8 (push_bit 8 acc OR ucast b) OR ucast c) AND 0x3F = sextet3 b c"
  "(push_bit 8 acc OR ucast c) AND 0x3F = sextet4 c"
  by (rule bit_word_eqI; auto simp: masks sextet_bits bit_simps below_6 ac_simps dest: byte_bitD)+

lemma byte_eqI:
  assumes "bit x 0 = bit y 0" "bit x 1 = bit y 1" "bit x 2 = bit y 2" "bit x 3 = bit y 3"
    "bit x 4 = bit y 4" "bit x 5 = bit y 5" "bit x 6 = bit y 6" "bit x 7 = bit y 7"
  shows "x = (y :: byte_t)"
proof (rule bit_word_eqI)
  fix n
  assume "n < LENGTH(8)"
  then have "n \<in> {0, 1, 2, 3, 4, 5, 6, 7}" by auto
  with assms show "bit x n = bit y n" by (elim insertE emptyE) simp_all
qed

lemma decoder_bytes:
  "ucast (drop_bit 4 (push_bit 6 (push_bit 6 acc OR sextet1 a) OR sextet2 a b) AND 0xFF) = a"
  "ucast (drop_bit 2 (push_bit 6 (push_bit 6 acc OR sextet2 a b) OR sextet3 b c) AND 0xFF) = b"
  "ucast ((push_bit 6 (push_bit 6 acc OR sextet3 b c) OR sextet4 c) AND 0xFF) = c"
  by (rule byte_eqI; simp add: masks sextet_bits bit_simps; simp add: numeral_eq_Suc)+

section \<open>The pairing key\<close>

definition sextet_chars :: "u32 list \<Rightarrow> string" where
  "sextet_chars ws = map (\<lambda>w. base64_alphabet ! unat w) ws"

lemma absorb_three:
  "\<exists>acc'. foldl token_absorb \<lparr>te_accumulator = acc, te_bits = 0, te_encoded = e\<rparr> [a, b, c]
    = \<lparr>te_accumulator = acc', te_bits = 0,
       te_encoded = e @ sextet_chars [sextet1 a, sextet2 a b, sextet3 b c, sextet4 c]\<rparr>"
  by (simp add: token_absorb_def token_emit.simps encoder_sextets sextet_chars_def del: push_bit_or drop_bit_or)

lemma absorb_two:
  "\<exists>acc'. foldl token_absorb \<lparr>te_accumulator = acc, te_bits = 0, te_encoded = e\<rparr> [a, b]
    = \<lparr>te_accumulator = acc', te_bits = 4, te_encoded = e @ sextet_chars [sextet1 a, sextet2 a b]\<rparr>
      \<and> push_bit 2 acc' AND 0x3F = sextet3 b 0"
proof -
  have "push_bit 2 (push_bit 8 (push_bit 8 acc OR ucast a) OR ucast b) AND 0x3F = sextet3 b 0"
    by (rule bit_word_eqI; auto simp: masks sextet_bits bit_simps below_6 ac_simps dest: byte_bitD)
  then show ?thesis
    by (simp add: token_absorb_def token_emit.simps encoder_sextets sextet_chars_def del: push_bit_or drop_bit_or)
qed

lemma decode_sextet: "unat w < 64 \<Longrightarrow> decode_digit (base64_alphabet ! unat w) d =
    (let accumulator = push_bit 6 (kd_accumulator d) OR w; bits = kd_bits d + 6 in
        if 8 \<le> bits then
          if 32 \<le> length (kd_bytes d) then Inl ''pairing_key is too long''
          else Inr \<lparr>kd_accumulator = accumulator, kd_bits = bits - 8,
                    kd_bytes = kd_bytes d @ [ucast (drop_bit (bits - 8) accumulator AND 0xFF)]\<rparr>
        else Inr \<lparr>kd_accumulator = accumulator, kd_bits = bits, kd_bytes = kd_bytes d\<rparr>)"
  by (simp add: decode_digit_def base64_value_alphabet Let_def)

lemma decode_four:
  assumes "length bs + 3 \<le> 32"
  shows "\<exists>acc'. decode_digits (sextet_chars [sextet1 a, sextet2 a b, sextet3 b c, sextet4 c] @ rest)
      \<lparr>kd_accumulator = acc, kd_bits = 0, kd_bytes = bs\<rparr>
    = decode_digits rest \<lparr>kd_accumulator = acc', kd_bits = 0, kd_bytes = bs @ [a, b, c]\<rparr>"
  using assms by (simp add: sextet_chars_def decode_sextet sextet_less Let_def decoder_bytes del: push_bit_or drop_bit_or) (rule exI, rule refl)

lemma decode_three:
  assumes "length bs + 2 \<le> 32"
  shows "\<exists>acc'. decode_digits (sextet_chars [sextet1 a, sextet2 a b, sextet3 b c])
      \<lparr>kd_accumulator = acc, kd_bits = 0, kd_bytes = bs\<rparr>
    = Inr \<lparr>kd_accumulator = acc', kd_bits = 2, kd_bytes = bs @ [a, b]\<rparr>"
  using assms by (simp add: sextet_chars_def decode_sextet sextet_less Let_def decoder_bytes del: push_bit_or drop_bit_or)

lemma key_groups:
  assumes "length bytes = 3 * n" "length bs + 3 * n \<le> 32"
  shows "\<exists>acc' chars. foldl token_absorb \<lparr>te_accumulator = acc, te_bits = 0, te_encoded = e\<rparr> bytes
      = \<lparr>te_accumulator = acc', te_bits = 0, te_encoded = e @ chars\<rparr> \<and> length chars = 4 * n
    \<and> (\<forall>rest d. \<exists>d'. decode_digits (chars @ rest) \<lparr>kd_accumulator = d, kd_bits = 0, kd_bytes = bs\<rparr>
        = decode_digits rest \<lparr>kd_accumulator = d', kd_bits = 0, kd_bytes = bs @ bytes\<rparr>)"
  using assms
proof (induction n arbitrary: bytes bs acc e)
  case 0
  then show ?case by auto
next
  case (Suc n)
  then obtain a b c bytes' where bytes: "bytes = a # b # c # bytes'"
    by (cases bytes; cases "tl bytes"; cases "tl (tl bytes)") auto
  let ?first = "sextet_chars [sextet1 a, sextet2 a b, sextet3 b c, sextet4 c]"
  obtain acc1 where first: "foldl token_absorb \<lparr>te_accumulator = acc, te_bits = 0, te_encoded = e\<rparr> [a, b, c]
      = \<lparr>te_accumulator = acc1, te_bits = 0, te_encoded = e @ ?first\<rparr>"
    using absorb_three by blast
  have "length bytes' = 3 * n" "length (bs @ [a, b, c]) + 3 * n \<le> 32" using Suc.prems bytes by auto
  from Suc.IH [OF this, of acc1 "e @ ?first"] obtain acc' chars where rest:
    "foldl token_absorb \<lparr>te_accumulator = acc1, te_bits = 0, te_encoded = e @ ?first\<rparr> bytes'
      = \<lparr>te_accumulator = acc', te_bits = 0, te_encoded = (e @ ?first) @ chars\<rparr>" "length chars = 4 * n"
    "\<forall>rest d. \<exists>d'. decode_digits (chars @ rest) \<lparr>kd_accumulator = d, kd_bits = 0, kd_bytes = bs @ [a, b, c]\<rparr>
        = decode_digits rest \<lparr>kd_accumulator = d', kd_bits = 0, kd_bytes = (bs @ [a, b, c]) @ bytes'\<rparr>"
    by blast
  have "\<exists>d'. decode_digits ((?first @ chars) @ more) \<lparr>kd_accumulator = d, kd_bits = 0, kd_bytes = bs\<rparr>
      = decode_digits more \<lparr>kd_accumulator = d', kd_bits = 0, kd_bytes = bs @ bytes\<rparr>" for more d
  proof -
    obtain d1 where "decode_digits (?first @ (chars @ more)) \<lparr>kd_accumulator = d, kd_bits = 0, kd_bytes = bs\<rparr>
        = decode_digits (chars @ more) \<lparr>kd_accumulator = d1, kd_bits = 0, kd_bytes = bs @ [a, b, c]\<rparr>"
      using decode_four [of bs a b c "chars @ more" d] Suc.prems by auto
    with rest(3) bytes show ?thesis by auto
  qed
  moreover have "foldl token_absorb \<lparr>te_accumulator = acc, te_bits = 0, te_encoded = e\<rparr> bytes
      = \<lparr>te_accumulator = acc', te_bits = 0, te_encoded = e @ (?first @ chars)\<rparr>"
    using first rest(1) unfolding bytes by simp
  moreover have "length (?first @ chars) = 4 * Suc n" using rest(2) by (simp add: sextet_chars_def)
  ultimately show ?case by blast
qed

lemma decode_digits_count:
  "kd_bits d < 8 \<Longrightarrow> 8 * length (kd_bytes d) + kd_bits d + 6 * length s \<le> 263 \<Longrightarrow>
   list_all (\<lambda>c. 0 \<le> base64_url_value c) s \<Longrightarrow>
   \<exists>d'. decode_digits s d = Inr d' \<and> kd_bits d' < 8
     \<and> 8 * length (kd_bytes d') + kd_bits d' = 8 * length (kd_bytes d) + kd_bits d + 6 * length s"
proof (induction s arbitrary: d)
  case Nil
  then show ?case by auto
next
  case (Cons c s)
  have "\<exists>d'. decode_digit c d = Inr d' \<and> kd_bits d' < 8
      \<and> 8 * length (kd_bytes d') + kd_bits d' = 8 * length (kd_bytes d) + kd_bits d + 6"
    using Cons.prems by (auto simp: decode_digit_def Let_def)
  then obtain d1 where "decode_digit c d = Inr d1" "kd_bits d1 < 8"
    "8 * length (kd_bytes d1) + kd_bits d1 = 8 * length (kd_bytes d) + kd_bits d + 6" by blast
  with Cons.IH [of d1] Cons.prems show ?case by auto
qed

lemma decode_digits_alphabet: "decode_digits s d = Inr d' \<Longrightarrow> list_all (\<lambda>c. 0 \<le> base64_url_value c) s"
  by (induction s arbitrary: d) (auto simp: and_then_Inr_iff decode_digit_def Let_def split: if_splits)

lemma decode_accepts:
  assumes "length s = 43" "list_all (\<lambda>c. 0 \<le> base64_url_value c) s"
  shows "\<exists>key. decode_pairing_key s = Inr key"
proof -
  obtain d where d: "decode_digits s \<lparr>kd_accumulator = 0, kd_bits = 0, kd_bytes = []\<rparr> = Inr d" "kd_bits d < 8"
    "8 * length (kd_bytes d) + kd_bits d = 258"
    using decode_digits_count [of "\<lparr>kd_accumulator = 0, kd_bits = 0, kd_bytes = []\<rparr>" s] assms by auto
  then have "length (kd_bytes d) = 32" by presburger
  with d(1) assms(1) show ?thesis by (simp add: decode_pairing_key_def)
qed

lemma decode_pairing_key_shape:
  "decode_pairing_key s = Inr key \<Longrightarrow> length s = 43 \<and> list_all (\<lambda>c. 0 \<le> base64_url_value c) s \<and> length key = 32"
  by (auto simp: decode_pairing_key_def and_then_Inr_iff dest: decode_digits_alphabet split: if_splits)

lemma decode_encodes:
  assumes "length secret = 32"
  shows "decode_pairing_key (authorization_token (pairing_token_of secret)) = Inr secret"
proof -
  define a b where "a = secret ! 30" and "b = secret ! 31"
  have secret: "secret = take 30 secret @ [a, b]"
    using assms by (simp add: a_def b_def list_eq_iff_nth_eq nth_append nth_Cons' less_Suc_eq numeral_eq_Suc)
  let ?start = "\<lparr>kd_accumulator = 0, kd_bits = 0, kd_bytes = []\<rparr>"
  let ?last = "sextet_chars [sextet1 a, sextet2 a b, sextet3 b 0]"
  from key_groups [of "take 30 secret" 10 "[]" 0 "[]"] assms obtain acc chars where
    groups: "foldl token_absorb \<lparr>te_accumulator = 0, te_bits = 0, te_encoded = []\<rparr> (take 30 secret)
      = \<lparr>te_accumulator = acc, te_bits = 0, te_encoded = chars\<rparr>" "length chars = 40"
    "\<forall>rest d. \<exists>d'. decode_digits (chars @ rest) \<lparr>kd_accumulator = d, kd_bits = 0, kd_bytes = []\<rparr>
      = decode_digits rest \<lparr>kd_accumulator = d', kd_bits = 0, kd_bytes = take 30 secret\<rparr>" by auto
  obtain acc' where two: "foldl token_absorb \<lparr>te_accumulator = acc, te_bits = 0, te_encoded = chars\<rparr> [a, b]
      = \<lparr>te_accumulator = acc', te_bits = 4, te_encoded = chars @ sextet_chars [sextet1 a, sextet2 a b]\<rparr>"
    "push_bit 2 acc' AND 0x3F = sextet3 b 0" using absorb_two by blast
  have "foldl token_absorb \<lparr>te_accumulator = 0, te_bits = 0, te_encoded = []\<rparr> (take 30 secret @ [a, b])
      = \<lparr>te_accumulator = acc', te_bits = 4, te_encoded = chars @ sextet_chars [sextet1 a, sextet2 a b]\<rparr>"
    using groups(1) two(1) by simp
  with two(2) have token: "authorization_token (pairing_token_of secret) = chars @ ?last"
    unfolding secret [symmetric] by (simp add: authorization_token_def pairing_token_of_def sextet_chars_def)
  from groups(3) obtain d where "decode_digits (chars @ ?last) ?start
      = decode_digits ?last \<lparr>kd_accumulator = d, kd_bits = 0, kd_bytes = take 30 secret\<rparr>" by blast
  moreover obtain d' where "decode_digits ?last \<lparr>kd_accumulator = d, kd_bits = 0, kd_bytes = take 30 secret\<rparr>
      = Inr \<lparr>kd_accumulator = d', kd_bits = 2, kd_bytes = take 30 secret @ [a, b]\<rparr>"
    using decode_three [of "take 30 secret" a b 0 d] by auto
  ultimately have "decode_digits (chars @ ?last) ?start = Inr \<lparr>kd_accumulator = d', kd_bits = 2, kd_bytes = secret\<rparr>"
    unfolding secret [symmetric] by simp
  then show ?thesis using assms groups(2) by (simp add: decode_pairing_key_def token) (simp add: sextet_chars_def)
qed

text \<open>C32. The pairing key survives its text: \<open>decodePairingKey\<close> accepts exactly the texts of 43 base64url
  characters, always with 32 bytes, so that its two later errors cannot occur, and it reads back the
  key that \<open>authorizationToken\<close> of the transport wrote.\<close>

theorem pairing_key_round_trips:
  "(is_ok (decode_pairing_key s) \<longleftrightarrow> length s = 43 \<and> list_all (\<lambda>c. 0 \<le> base64_url_value c) s)
   \<and> (\<forall>key. decode_pairing_key s = Inr key \<longrightarrow> length key = 32)
   \<and> (length secret = 32 \<longrightarrow> decode_pairing_key (authorization_token (pairing_token_of secret)) = Inr secret)"
  using decode_accepts [of s] decode_pairing_key_shape [of s] decode_encodes [of secret] by (auto simp: is_ok_iff)

theorem pairing_key_round_trips_witness:
  "decode_pairing_key (authorization_token (pairing_token_of (replicate 31 7 @ [255]))) = Inr (replicate 31 7 @ [255])"
  using pairing_key_round_trips [of _ "replicate 31 7 @ [255]"] by simp

section \<open>The file\<close>

text \<open>The field that a line sets, if it is not empty and no comment.\<close>

definition config_entry :: "string \<Rightarrow> (string \<times> string) option" where
  "config_entry line =
     (let line = config_trim line in
      if line = [] \<or> hd line = CHR ''#'' then None
      else map_option (\<lambda>equals. (config_trim (take equals line), config_trim (drop (equals + 1) line)))
             (find_from (CHR ''='') 0 line))"

lemma config_line_entry:
  "config_line line vs = Inr ws \<Longrightarrow>
     ws = (case config_entry line of None \<Rightarrow> vs | Some e \<Rightarrow> e # vs)
     \<and> (\<forall>k v. config_entry line = Some (k, v) \<longrightarrow> k \<in> set known_fields \<and> v \<noteq> [] \<and> k \<notin> fst ` set vs)"
  by (auto simp: config_line_def config_entry_def Let_def split: if_splits option.splits)

lemma config_lines_entries:
  "config_lines ls vs = Inr ws \<Longrightarrow> distinct (map fst vs) \<Longrightarrow>
     ws = rev (List.map_filter config_entry ls) @ vs \<and> distinct (map fst ws)
     \<and> (\<forall>(k, v) \<in> set (List.map_filter config_entry ls). k \<in> set known_fields \<and> v \<noteq> [])"
proof (induction ls arbitrary: vs)
  case Nil
  then show ?case by (simp add: map_filter_simps)
next
  case (Cons l ls)
  from Cons.prems(1) obtain between where l: "config_line l vs = Inr between" and ls: "config_lines ls between = Inr ws"
    by (auto simp: and_then_Inr_iff)
  note entry = config_line_entry [OF l]
  then have "distinct (map fst between)" using Cons.prems(2) by (auto split: option.splits)
  from Cons.IH [OF ls this] entry show ?case by (cases "config_entry l") (force simp: map_filter_simps)+
qed

lemma read_config_values:
  assumes "read_config vs = Inr c"
  shows "set known_fields \<subseteq> fst ` set vs" "\<exists>s. parse_loopback_base_url s = Inr (cc_base_url c)"
    "length (cc_key c) = 32" "map_of vs ''media_cache_root'' = Some (cc_cache_root c)"
proof -
  have present: "required k vs = Inr v \<longleftrightarrow> map_of vs k = Some v" for k v
    by (simp add: required_def split: option.splits)
  have error: "error_text r = Inr x \<longleftrightarrow> r = Inr x" for r :: "'b result" and x
    by (simp add: error_text_def split: sum.splits)
  have "\<forall>k \<in> set known_fields. \<exists>v. map_of vs k = Some v"
    using assms by (auto simp: read_config_def and_then_Inr_iff present known_fields_def)
  then show "set known_fields \<subseteq> fst ` set vs" by (force dest: map_of_SomeD)
  show "\<exists>s. parse_loopback_base_url s = Inr (cc_base_url c)" "map_of vs ''media_cache_root'' = Some (cc_cache_root c)"
    using assms by (auto simp: read_config_def and_then_Inr_iff present error)
  show "length (cc_key c) = 32"
    using assms by (auto simp: read_config_def and_then_Inr_iff dest: decode_pairing_key_shape)
qed


definition sample_uuid :: string where
  "sample_uuid = ''0f8fad5b-d9cb-469f-a165-70867728950e''"

definition sample_fingerprint :: string where
  "sample_fingerprint = ''sha256:0123456789abcdef0123456789abcdef0123456789abcdef0123456789abcdef''"

definition sample_fields :: "(string \<times> string) list" where
  "sample_fields =
     [(''base_url'', ''http://127.0.0.1:8080/api/''), (''pairing_key'', ''AAECAwQFBgcICQoLDA0ODxAREhMUFRYXGBkaGxwdHh8''),
      (''installation_id'', sample_uuid), (''profile_id'', sample_uuid), (''playthrough_id'', sample_uuid),
      (''content_fingerprint'', sample_fingerprint), (''platform'', ''linux''), (''media_cache_root'', ''/var/cache''),
      (''media_vfs_prefix'', ''sound'')]"

definition sample_config_file :: string where
  "sample_config_file = ''# client'' @ concat (map (\<lambda>(k, v). CHR 0x0A # k @ '' = '' @ v) sample_fields)"

lemma sample_config_loads:
  "\<exists>c. load_config (Some ''f'') (\<lambda>_. Some sample_config_file) = Inr c \<and> bu_base_path (cc_base_url c) = ''/api''
     \<and> cc_cache_root c = ''/var/cache''"
proof -
  have lines: "config_lines (read_lines sample_config_file) [] = Inr (rev sample_fields)" by code_simp
  have url: "parse_loopback_base_url ''http://127.0.0.1:8080/api/''
      = Inr \<lparr>bu_host = ''127.0.0.1'', bu_port = 8080, bu_base_path = ''/api'', bu_ipv6 = False\<rparr>" by code_simp
  have "list_all (\<lambda>c. 0 \<le> base64_url_value c) ''AAECAwQFBgcICQoLDA0ODxAREhMUFRYXGBkaGxwdHh8''" by code_simp
  then obtain key where key: "decode_pairing_key ''AAECAwQFBgcICQoLDA0ODxAREhMUFRYXGBkaGxwdHh8'' = Inr key"
    using decode_accepts by fastforce
  have ids: "is_canonical_uuid sample_uuid" "starts_with ''sha256:'' sample_fingerprint" "length sample_fingerprint = 71"
    "\<not> contains_str ''..'' ''sound''" by code_simp+
  show ?thesis
    by (simp add: load_config_def lines read_config_def required_def sample_fields_def url key error_text_def check_config_def ids del: contains_str.simps)
qed


end
