(* ===== verification/Lua_Values.thy ===== *)
theory Lua_Values
  imports Transport_Requests
begin

text \<open>
  Values of Lua as \<open>lorkhanbindings.cpp\<close> sees them through \<open>sol\<close>, the JSON text it makes of them
  (\<open>toJson\<close>), and the helpers for identifiers, times and hashes beside it. A table is the list of
  its pairs in the order of Lua's iteration; keys and values are told apart by what \<open>sol\<close>'s \<open>is\<close>
  answers. A thrown \<open>std::runtime_error\<close> is the left value of the result.
\<close>

unbundle bit_operations_syntax

section \<open>Values\<close>

datatype lua_key = LInt int | LKey string | LOtherKey

datatype lua =
    LNil
  | LBool bool
  | LText string
  | LNumber cxx_double
  | LTable "(lua_key \<times> lua) list"
  | LOther

type_synonym lua_table = "(lua_key \<times> lua) list"

text \<open>\<open>table[key]\<close> and \<open>table[key] = value\<close>; an absent key reads as nil, and nil removes it.\<close>

definition lua_get :: "lua_key \<Rightarrow> lua_table \<Rightarrow> lua" where
  "lua_get k t = (case map_of t k of None \<Rightarrow> LNil | Some v \<Rightarrow> v)"

abbreviation lua_field :: "string \<Rightarrow> lua_table \<Rightarrow> lua" where
  "lua_field k t \<equiv> lua_get (LKey k) t"

definition lua_set :: "lua_key \<Rightarrow> lua \<Rightarrow> lua_table \<Rightarrow> lua_table" where
  "lua_set k v t = (if v = LNil then AList.delete k t else AList.update k v t)"

text \<open>A table that is built key by key, and a sequence.\<close>

definition lua_record :: "(string \<times> lua) list \<Rightarrow> lua" where
  "lua_record entries = LTable (map (\<lambda>(k, v). (LKey k, v)) (filter (\<lambda>(k, v). v \<noteq> LNil) entries))"

definition lua_sequence :: "lua list \<Rightarrow> lua" where
  "lua_sequence vs = LTable (zip (map LInt [1..int (length vs)]) vs)"

definition lua_integer :: "int \<Rightarrow> lua" where
  "lua_integer i = LNumber (Finite (of_int i))"

definition lua_option :: "('a \<Rightarrow> lua) \<Rightarrow> 'a option \<Rightarrow> lua" where
  "lua_option f x = (case x of None \<Rightarrow> LNil | Some y \<Rightarrow> f y)"

section \<open>Numbers\<close>

text \<open>
  A stream with \<open>std::setprecision(17)\<close> writes a number as \<open>printf\<close>'s \<open>%.17g\<close>: the exact value rounded to
  seventeen significant digits, in exponent form when the decimal exponent is below -4 or at least
  17, and without trailing zeros. The decimal exponent of a double is at least -324 and at most 308.
\<close>

definition decimal_exponent :: "rat \<Rightarrow> int" where
  "decimal_exponent a = (case find (\<lambda>e. pow_rat 10 e \<le> a) (rev [-324..308]) of None \<Rightarrow> -324 | Some e \<Rightarrow> e)"

definition scaled_digits :: "rat \<Rightarrow> nat \<times> int" where
  "scaled_digits a =
     (let e = decimal_exponent a; m = nat (round_half_even (a * pow_rat 10 (16 - e))) in
      if m = 10 ^ 17 then (10 ^ 16, e + 1) else (m, e))"

definition strip_zeros :: "string \<Rightarrow> string" where
  "strip_zeros s = rev (dropWhile (\<lambda>c. c = CHR ''0'') (rev s))"

definition with_fraction :: "string \<Rightarrow> string \<Rightarrow> string" where
  "with_fraction whole fraction =
     (if strip_zeros fraction = [] then whole else whole @ CHR ''.'' # strip_zeros fraction)"

definition exponent_text :: "int \<Rightarrow> string" where
  "exponent_text e =
     (let digits = to_decimal (nat \<bar>e\<bar>) in
      CHR ''e'' # (if e < 0 then CHR ''-'' else CHR ''+'') # (if length digits < 2 then CHR ''0'' # digits else digits))"

definition positive_text :: "rat \<Rightarrow> string" where
  "positive_text a =
     (let (m, e) = scaled_digits a; digits = to_decimal m in
      if e < -4 \<or> 17 \<le> e then with_fraction (take 1 digits) (drop 1 digits) @ exponent_text e
      else if e < 0 then with_fraction ''0'' (replicate (nat (- e) - 1) (CHR ''0'') @ digits)
      else with_fraction (take (nat e + 1) digits) (drop (nat e + 1) digits))"

definition number_17g :: "rat \<Rightarrow> string" where
  "number_17g q =
     (if q = 0 then ''0'' else if q < 0 then CHR ''-'' # positive_text (- q) else positive_text q)"

section \<open>Texts\<close>

definition lua_escape_char :: "char \<Rightarrow> string" where
  "lua_escape_char c =
     (let n = byte c in
      if n = 0x22 then [CHR 0x5C, CHR 0x22]
      else if n = 0x5C then [CHR 0x5C, CHR 0x5C]
      else if n = 0x08 then [CHR 0x5C, CHR ''b'']
      else if n = 0x0C then [CHR 0x5C, CHR ''f'']
      else if n = 0x0A then [CHR 0x5C, CHR ''n'']
      else if n = 0x0D then [CHR 0x5C, CHR ''r'']
      else if n = 0x09 then [CHR 0x5C, CHR ''t'']
      else if n < 0x20 then [CHR 0x5C] @ ''u00'' @ [hex_alphabet ! (n div 16), hex_alphabet ! (n mod 16)]
      else [c])"

definition lua_escape_json :: "string \<Rightarrow> string" where
  "lua_escape_json s = foldl (\<lambda>out c. out @ lua_escape_char c) [CHR 0x22] s @ [CHR 0x22]"

section \<open>Tables\<close>

text \<open>The loop that tells an array from an object: the number of pairs, whether every key is a positive
  integer, and the greatest of them.\<close>

fun table_shape :: "lua_table \<Rightarrow> nat \<times> bool \<times> nat \<Rightarrow> nat \<times> bool \<times> nat" where
  "table_shape [] shape = shape"
| "table_shape ((k, _) # t) (count, array, maximum) =
     (case k of
        LInt i \<Rightarrow>
          if i < 1 then table_shape t (count + 1, False, maximum)
          else table_shape t (count + 1, array, max maximum (nat i))
      | _ \<Rightarrow> table_shape t (count + 1, False, maximum))"

definition array_length :: "lua_table \<Rightarrow> nat option" where
  "array_length t =
     (let (count, array, maximum) = table_shape t (0, True, 0) in
      if array \<and> maximum = count then Some maximum else None)"

lemma lua_get_size: "size (lua_get k t) \<le> size_list (size_prod (\<lambda>_. 0) size) t"
proof (cases "map_of t k")
  case (Some v)
  then have "(k, v) \<in> set t" by (rule map_of_SomeD)
  then have "size v \<le> size_list (size_prod (\<lambda>_. 0) size) t"
    by (induction t) auto
  with Some show ?thesis by (simp add: lua_get_def)
qed (simp add: lua_get_def)

function to_json :: "lua \<Rightarrow> nat \<Rightarrow> string + string"
  and json_items :: "lua_table \<Rightarrow> nat list \<Rightarrow> nat \<Rightarrow> bool \<Rightarrow> string \<Rightarrow> string + string"
  and json_members :: "lua_table \<Rightarrow> nat \<Rightarrow> bool \<Rightarrow> string \<Rightarrow> string + string" where
  "to_json v depth =
     (if 32 < depth then Inl ''LORKHAN payload nesting exceeds 32 levels''
      else case v of
          LNil \<Rightarrow> Inr ''null''
        | LBool b \<Rightarrow> Inr (if b then ''true'' else ''false'')
        | LText s \<Rightarrow> Inr (lua_escape_json s)
        | LNumber (Finite q) \<Rightarrow> Inr (number_17g q)
        | LNumber _ \<Rightarrow> Inl ''LORKHAN payload contains a non-finite number''
        | LOther \<Rightarrow> Inl ''LORKHAN payload contains an unsupported value''
        | LTable t \<Rightarrow>
            and_then
              (case array_length t of
                 Some n \<Rightarrow> and_then (json_items t [1..<n + 1] depth True ''['') (\<lambda>out. Inr (out @ '']''))
               | None \<Rightarrow> and_then (json_members t depth True ''{'') (\<lambda>out. Inr (out @ ''}'')))
              (\<lambda>out. if kMaxJsonBytes < length out then Inl ''LORKHAN payload exceeds 2 MiB'' else Inr out))"
| "json_items t [] depth first out = Inr out"
| "json_items t (i # is) depth first out =
     and_then (to_json (lua_get (LInt (int i)) t) (depth + 1)) (\<lambda>s.
       json_items t is depth False ((if first then out else out @ '','') @ s))"
| "json_members [] depth first out = Inr out"
| "json_members ((k, v) # t) depth first out =
     (case k of
        LKey key \<Rightarrow>
          and_then (to_json v (depth + 1)) (\<lambda>s.
            json_members t depth False ((if first then out else out @ '','') @ lua_escape_json key @ '':'' @ s))
      | _ \<Rightarrow> Inl ''LORKHAN object keys must be strings'')"
  by pat_completeness auto
termination
  by (relation "measures
        [\<lambda>x. case x of Inl (v, _) \<Rightarrow> 2 * size v | Inr (Inl (t, _)) \<Rightarrow> 2 * size (LTable t) - 1
            | Inr (Inr (t, _)) \<Rightarrow> 2 * size (LTable t) - 1,
         \<lambda>x. case x of Inr (Inl (_, is, _)) \<Rightarrow> length is | _ \<Rightarrow> 0]")
    (auto simp: lua_get_size le_imp_less_Suc)

declare to_json.simps [simp del]

end
