(* ===== verification/Lua_Tables.thy ===== *)
theory Lua_Tables
  imports Lua_Values Record_Provenance Protocol_Events Protocol_Controls Protocol_Debug
begin

text \<open>
  The tables that \<open>lorkhanbindings.cpp\<close> builds for Lua from parsed responses: identities, canonical
  responses, events, the settings of the session, the controls snapshot. \<open>lua_record\<close> is a table that
  is filled key by key; an optional value that is absent is nil, that is, no entry. Numbers of the
  wire are below \<open>2 ^ 53\<close>, so Lua's doubles hold them exactly.
\<close>

section \<open>Identities and media\<close>

abbreviation lua_nat :: "nat \<Rightarrow> lua" where
  "lua_nat n \<equiv> lua_integer (int n)"

abbreviation lua_generation :: "generation \<Rightarrow> lua" where
  "lua_generation g \<equiv> lua_nat (unat (gen_value g))"

abbreviation lua_id :: "'a strong_id \<Rightarrow> lua" where
  "lua_id i \<equiv> LText (id_value i)"

definition cell_table :: "protocol_cell \<Rightarrow> lua" where
  "cell_table c =
     (case cell_kind c of
        Cell_exterior \<Rightarrow> lua_record [(''kind'', LText ''exterior''), (''grid_x'', lua_integer (cell_grid_x c)),
          (''grid_y'', lua_integer (cell_grid_y c))]
      | Cell_interior \<Rightarrow> lua_record [(''kind'', LText ''interior''), (''name'', LText (cell_name c))])"

definition identity_table :: "protocol_identity \<Rightarrow> lua" where
  "identity_table i = lua_record
     [(''kind'', LText (pid_kind i)), (''record_id'', LText (pid_record_id i)),
      (''content_file'', LText (pid_content_file i)), (''display_name'', LText (pid_display_name i)),
      (''refnum'', lua_record [(''index'', lua_nat (pid_refnum_index i)),
                             (''content_file'', lua_nat (pid_refnum_content_file i))]),
      (''cell'', cell_table (pid_cell i))]"

definition codec_name :: "media_codec \<Rightarrow> string" where
  "codec_name c = (if c = MC_wav then ''wav'' else if c = MC_ogg then ''ogg'' else ''mp3'')"

definition canonical_media_table :: "canonical_media \<Rightarrow> lua" where
  "canonical_media_table m = lua_record
     [(''media_id'', LText (id_value (cm_media m))),
      (''dialogue_message_id'', LText (id_value (cm_dialogue_message m))), (''sha256'', LText (cm_sha256 m)),
      (''bytes'', lua_nat (cm_bytes m)), (''codec'', LText (codec_name (cm_codec m))),
      (''duration_ms'', lua_nat (cm_duration_ms m)), (''expires_at'', LText (cm_expires_at m))]"

section \<open>Canonical responses\<close>

definition canonical_metadata_table :: "canonical_metadata \<Rightarrow> lua" where
  "canonical_metadata_table m = lua_record
     [(''animation'', lua_option LText (me_animation m)), (''emotion'', lua_option LText (me_emotion m)),
      (''mood'', lua_option LText (me_mood m)), (''rechat_depth'', lua_option (\<lambda>n. lua_nat n) (me_rechat_depth m)),
      (''speech_enabled'', lua_option LBool (me_speech_enabled m)), (''source'', lua_option LText (me_source m))]"

definition canonical_line_table :: "canonical_line \<Rightarrow> lua" where
  "canonical_line_table l = lua_record
     [(''schema'', LText ''lorkhan.response.line.v1''), (''line_id'', LText (id_value (cl_line l))),
      (''line_index'', lua_nat (cl_line_index l)), (''speaker'', LText (cl_speaker l)),
      (''display_name'', LText (cl_display_name l)), (''speaker_identity'', identity_table (cl_speaker_identity l)),
      (''action'', LText (cl_action l)), (''text'', LText (cl_text l)), (''subtitle'', LText (cl_subtitle l)),
      (''tts_text'', LText (cl_tts_text l)), (''request_id'', LText (id_value (cl_request l))),
      (''utterance_id'', LText (id_value (cl_utterance l))), (''listener'', LText (cl_listener l)),
      (''listener_identity'', identity_table (cl_listener_identity l)),
      (''rechat_target'', LText (cl_rechat_target l)),
      (''rechat_target_identity'', identity_table (cl_rechat_target_identity l)),
      (''final_response_line'', LBool (cl_final_response_line l)),
      (''metadata'', canonical_metadata_table (cl_metadata l)),
      (''media'', lua_option canonical_media_table (cl_media l)),
      (''tts_cache_key'', lua_option LText (cl_tts_cache_key l)),
      (''command_name'', lua_option LText (cl_command_name l)),
      (''command_args'', if cl_action l = ''rolecommand'' then lua_sequence (map LText (cl_command_args l)) else LNil)]"

definition canonical_response_table :: "canonical_response \<Rightarrow> lua" where
  "canonical_response_table r = lua_record
     [(''schema'', LText ''lorkhan.response.v1''), (''response_id'', LText (id_value (cr_response r))),
      (''installation_id'', LText (id_value (cr_installation r))), (''profile_id'', LText (id_value (cr_profile r))),
      (''playthrough_id'', LText (id_value (cr_playthrough r))),
      (''session_id'', LText (id_value (canonical_response.cr_session r))),
      (''turn_id'', LText (id_value (cr_turn r))), (''request_id'', LText (id_value (cr_request r))),
      (''generation'', lua_generation (cr_generation r)),
      (''runtime_generation'', lua_generation (cr_runtime_generation r)), (''created_at'', LText (cr_created_at r)),
      (''ok'', LBool (cr_ok r)), (''close'', LBool (cr_close r)), (''error'', LText (cr_error r)),
      (''lines'', lua_sequence (map canonical_line_table (cr_lines r)))]"

section \<open>The settings of a session\<close>

definition behavior_table :: "client_behavior_settings \<Rightarrow> lua" where
  "behavior_table b = lua_record
     [(''auto_greeting'', LBool (cbs_auto_greeting b)), (''rechat'', LBool (cbs_rechat b)),
      (''rechat_delay_seconds'', lua_nat (cbs_rechat_delay_seconds b)),
      (''rechat_max_depth'', lua_nat (cbs_rechat_max_depth b)),
      (''rechat_probability_percent'', lua_nat (cbs_rechat_probability_percent b)),
      (''rechat_mode'', LText (cbs_rechat_mode b)),
      (''rechat_strict_targeting'', LBool (cbs_rechat_strict_targeting b)),
      (''open_rechat'', LBool (cbs_open_rechat b)), (''rechat_allow_actions'', LBool (cbs_rechat_allow_actions b)),
      (''end_conversation_cooldown_seconds'', lua_nat (cbs_end_conversation_cooldown_seconds b)),
      (''boredom'', LBool (cbs_boredom b)), (''boredom_delay_seconds'', lua_nat (cbs_boredom_delay_seconds b)),
      (''combat_barks'', LBool (cbs_combat_barks b)), (''ai_enabled'', LBool (cbs_ai_enabled b)),
      (''combat_bark_period_seconds'', lua_nat (cbs_combat_bark_period_seconds b))]"

definition memory_table :: "client_memory_settings \<Rightarrow> lua" where
  "memory_table m = lua_record
     [(''recent_turn_limit'', lua_nat (cms_recent_turn_limit m)),
      (''knowledge_limit'', lua_nat (cms_knowledge_limit m))]"

definition narrator_table :: "client_narrator_settings \<Rightarrow> lua" where
  "narrator_table n = lua_record
     [(''enabled'', LBool (cns_enabled n)), (''name'', LText (cns_name n)),
      (''context_visibility'', LBool (cns_context_visibility n)), (''inline_mode'', LText (cns_inline_mode n)),
      (''welcome_events'', LBool (cns_welcome_events n)),
      (''welcome_cooldown_minutes'', lua_nat (cns_welcome_cooldown_minutes n)),
      (''random_events'', LBool (cns_random_events n)),
      (''random_chance_percent'', lua_nat (cns_random_chance_percent n)),
      (''random_cooldown_rounds'', lua_nat (cns_random_cooldown_rounds n)),
      (''bored_events'', LBool (cns_bored_events n)),
      (''bored_chance_percent'', lua_nat (cns_bored_chance_percent n)),
      (''quest_events'', LBool (cns_quest_events n)),
      (''quest_chance_percent'', lua_nat (cns_quest_chance_percent n)),
      (''quest_cooldown_minutes'', lua_nat (cns_quest_cooldown_minutes n)),
      (''book_events'', LBool (cns_book_events n))]"

definition presentation_table :: "client_presentation_settings \<Rightarrow> lua" where
  "presentation_table p = lua_record
     [(''show_status_hud'', LBool (cps_show_status_hud p)), (''transcript_rows'', lua_nat (cps_transcript_rows p)),
      (''tts_volume_boost'', lua_nat (cps_tts_volume_boost p))]"

definition safety_table :: "client_safety_settings \<Rightarrow> lua" where
  "safety_table s = lua_record
     [(''actions_enabled'', LBool (css_actions_enabled s)), (''allow_hostile'', LBool (css_allow_hostile s)),
      (''allow_creatures'', LBool (css_allow_creatures s))]"

definition client_settings_table :: "client_settings \<Rightarrow> lua" where
  "client_settings_table s = lua_record
     [(''schema'', LText ''lorkhan.client-settings.v1''), (''behavior'', behavior_table (cs_behavior s)),
      (''memory'', memory_table (cs_memory s)), (''narrator'', narrator_table (cs_narrator s)),
      (''presentation'', presentation_table (cs_presentation s)), (''safety'', safety_table (cs_safety s))]"

section \<open>The controls snapshot\<close>

definition effective_behavior_table :: "client_behavior_settings \<Rightarrow> lua" where
  "effective_behavior_table b = lua_record
     [(''auto_greeting'', LBool (cbs_auto_greeting b)), (''rechat'', LBool (cbs_rechat b)),
      (''rechat_max_depth'', lua_nat (cbs_rechat_max_depth b)),
      (''rechat_probability_percent'', lua_nat (cbs_rechat_probability_percent b)),
      (''rechat_mode'', LText (cbs_rechat_mode b)),
      (''rechat_strict_targeting'', LBool (cbs_rechat_strict_targeting b)),
      (''open_rechat'', LBool (cbs_open_rechat b)),
      (''end_conversation_cooldown_seconds'', lua_nat (cbs_end_conversation_cooldown_seconds b)),
      (''boredom'', LBool (cbs_boredom b)), (''boredom_delay_seconds'', lua_nat (cbs_boredom_delay_seconds b)),
      (''combat_barks'', LBool (cbs_combat_barks b)), (''ai_enabled'', LBool (cbs_ai_enabled b)),
      (''combat_bark_period_seconds'', lua_nat (cbs_combat_bark_period_seconds b))]"

definition effective_sections_table :: "client_settings \<Rightarrow> lua" where
  "effective_sections_table s = lua_record
     [(''behavior'', effective_behavior_table (cs_behavior s)), (''memory'', memory_table (cs_memory s)),
      (''narrator'', narrator_table (cs_narrator s)), (''safety'', safety_table (cs_safety s))]"

definition routing_table :: "(string \<times> routing_value) list \<Rightarrow> lua" where
  "routing_table routes = lua_record
     (map (\<lambda>(k, v). (k, case v of Routing_string s \<Rightarrow> LText s | Routing_flag b \<Rightarrow> LBool b)) routes)"

definition source_table :: "(string \<times> string) list \<Rightarrow> lua" where
  "source_table sources = lua_record (map (\<lambda>(k, s). (k, LText s)) sources)"

definition effective_settings_table :: "effective_settings \<Rightarrow> lua" where
  "effective_settings_table s = lua_record
     [(''schema'', LText (es_schema s)), (''change_token'', LText (es_change_token s)),
      (''profile_id'', lua_option LText (es_profile_id s)), (''profile_revision'', lua_option lua_integer (map_option int (es_profile_revision s))),
      (''core_profile_id'', lua_option LText (es_core_profile_id s)),
      (''core_profile_revision'', lua_option lua_integer (map_option int (es_core_profile_revision s))),
      (''settings'', effective_sections_table (es_sections s)), (''routing'', routing_table (es_routing s)),
      (''source_map'', source_table (es_source_map s))]"

definition model_slot_table :: "model_slot \<Rightarrow> lua" where
  "model_slot_table s = lua_record
     [(''key'', LText (ms_key s)), (''label'', LText (ms_label s)), (''available'', LBool (ms_available s)),
      (''configuration_id'', lua_option LText (ms_configuration_id s)),
      (''configuration_name'', lua_option LText (ms_configuration_name s)),
      (''revision'', lua_option (\<lambda>n. lua_nat n) (ms_revision s)), (''driver'', lua_option LText (ms_driver s)),
      (''model'', lua_option LText (ms_model s))]"

definition profile_table :: "profile_row \<Rightarrow> lua" where
  "profile_table p = lua_record
     [(''profile_id'', LText (pr_profile_id p)), (''name'', LText (pr_name p)),
      (''revision'', lua_nat (pr_revision p))]"

definition controls_table :: "controls_response \<Rightarrow> bool \<Rightarrow> lua" where
  "controls_table c pending = lua_record
     [(''target'', identity_table (cr_target c)), (''selected_model_slot_key'', LText (cr_selected_model_slot_key c)),
      (''resolved_model_slot_key'', lua_option LText (cr_resolved_model_slot_key c)),
      (''selected_profile_id'', lua_option LText (cr_selected_profile_id c)),
      (''narrator_profile_id'', lua_option LText (cr_narrator_profile_id c)),
      (''effective_settings'', effective_settings_table (cr_effective_settings c)),
      (''model_slots'', lua_sequence (map model_slot_table (cr_model_slots c))),
      (''profiles'', lua_sequence (map profile_table (cr_profiles c))), (''pending'', LBool pending)]"

section \<open>Books, commands and provenance\<close>

definition diary_book_table :: "diary_book \<Rightarrow> lua" where
  "diary_book_table b = lua_record
     [(''delivery_id'', lua_id (db_delivery b)), (''book_id'', lua_id (db_book b)), (''target'', identity_table (db_target b)),
      (''title'', LText (db_title b)), (''content'', LText (db_content b)), (''content_hash'', LText (db_content_hash b))]"

definition debug_parameter_value :: "debug_parameter \<Rightarrow> lua" where
  "debug_parameter_value p =
     (case p of
        Param_bool b \<Rightarrow> LBool b
      | Param_int i \<Rightarrow> lua_integer i
      | Param_number x \<Rightarrow> LNumber x
      | Param_string s \<Rightarrow> LText s
      | Param_identity i \<Rightarrow> identity_table i)"

text \<open>What \<open>recordProvenanceTable\<close> asks the engine: no actor; the identifier of its record, and whether the
  record is that of an actor, was created in the game, and where it comes from.\<close>

datatype record_origin = Not_an_actor | Dynamic_record | Static_record "record_provenance option"

definition record_provenance_table :: "(string \<times> record_origin) option \<Rightarrow> lua" where
  "record_provenance_table actor =
     (case actor of
        None \<Rightarrow> lua_record [(''state'', LText ''unavailable''), (''files'', lua_sequence [])]
      | Some (record_id, record_origin) \<Rightarrow>
          (case record_origin of
             Not_an_actor \<Rightarrow>
               lua_record [(''state'', LText ''unavailable''), (''files'', lua_sequence []), (''record_id'', LText record_id)]
           | Dynamic_record \<Rightarrow>
               lua_record [(''state'', LText ''dynamic''), (''files'', lua_sequence []), (''record_id'', LText record_id)]
           | Static_record None \<Rightarrow>
               lua_record [(''state'', LText ''unavailable''), (''files'', lua_sequence []), (''record_id'', LText record_id)]
           | Static_record (Some p) \<Rightarrow>
               if rp_winning_file p = []
               then lua_record [(''state'', LText ''unavailable''), (''files'', lua_sequence []), (''record_id'', LText record_id)]
               else lua_record [(''state'', LText (if rp_complete p then ''complete'' else ''truncated'')),
                      (''files'', lua_sequence (map LText (rp_files p))), (''record_id'', LText record_id),
                      (''winning_file'', LText (rp_winning_file p))]))"

section \<open>Events\<close>

fun intent_name_and_tier :: "action_intent_kind \<Rightarrow> string \<times> int" where
  "intent_name_and_tier AI_follow = (''ai.follow'', 1)"
| "intent_name_and_tier AI_stop = (''ai.stop'', 1)"
| "intent_name_and_tier AI_conversation_end = (''conversation.end'', 1)"
| "intent_name_and_tier AI_approach = (''ai.approach'', 1)"
| "intent_name_and_tier AI_wait = (''ai.wait'', 1)"
| "intent_name_and_tier AI_travel = (''ai.travel'', 1)"
| "intent_name_and_tier AI_escort = (''ai.escort'', 1)"
| "intent_name_and_tier AI_face = (''ai.face'', 1)"
| "intent_name_and_tier AI_wander = (''ai.wander'', 1)"
| "intent_name_and_tier AI_animation_play = (''animation.play'', 1)"
| "intent_name_and_tier AI_combat_start = (''combat.start'', 2)"
| "intent_name_and_tier AI_combat_stop = (''combat.stop'', 1)"
| "intent_name_and_tier AI_weapon_sheathe = (''weapon.sheathe'', 1)"
| "intent_name_and_tier AI_inspect_report = (''inspect.report'', 0)"
| "intent_name_and_tier AI_inventory_inspect = (''inventory.inspect'', 0)"
| "intent_name_and_tier AI_item_equip = (''item.equip'', 2)"
| "intent_name_and_tier AI_item_unequip = (''item.unequip'', 2)"
| "intent_name_and_tier AI_item_use = (''item.use'', 2)"
| "intent_name_and_tier AI_item_give = (''item.give'', 2)"
| "intent_name_and_tier AI_item_take = (''item.take'', 2)"
| "intent_name_and_tier AI_item_pickup = (''item.pickup'', 2)"
| "intent_name_and_tier AI_gold_give = (''gold.give'', 2)"
| "intent_name_and_tier AI_gold_take = (''gold.take'', 2)"
| "intent_name_and_tier AI_service_barter = (''service.barter'', 1)"
| "intent_name_and_tier AI_service_training = (''service.training'', 1)"
| "intent_name_and_tier AI_service_spells = (''service.spells'', 1)"
| "intent_name_and_tier AI_service_travel = (''service.travel'', 1)"
| "intent_name_and_tier AI_service_spellmaking = (''service.spellmaking'', 1)"
| "intent_name_and_tier AI_service_enchanting = (''service.enchanting'', 1)"
| "intent_name_and_tier AI_spell_cast = (''spell.cast'', 2)"
| "intent_name_and_tier AI_item_create = (''item.create'', 2)"
| "intent_name_and_tier AI_gold_create = (''gold.create'', 2)"
| "intent_name_and_tier AI_actor_spawn = (''actor.spawn'', 2)"
| "intent_name_and_tier AI_actor_teleport_to_player = (''actor.teleport_to_player'', 2)"
| "intent_name_and_tier AI_player_teleport = (''player.teleport'', 2)"
| "intent_name_and_tier AI_actor_restore = (''actor.restore'', 2)"
| "intent_name_and_tier AI_actor_resurrect = (''actor.resurrect'', 2)"
| "intent_name_and_tier AI_actor_kill = (''actor.kill'', 2)"
| "intent_name_and_tier AI_service_repair = (''service.repair'', 1)"

definition when_kind :: "action_intent_kind list \<Rightarrow> action_intent_kind \<Rightarrow> (string \<times> lua) list \<Rightarrow> (string \<times> lua) list" where
  "when_kind kinds kind entries = (if kind \<in> set kinds then entries else [])"

definition intent_parameters_table :: "intent_parameters \<Rightarrow> lua" where
  "intent_parameters_table p =
     (let kind = ip_kind p; amount = lua_nat (unat (ip_transfer_count p)) in lua_record
       (when_kind [AI_follow] kind [(''distance'', lua_nat (unat (ip_follow_distance p)))]
        @ when_kind [AI_wander] kind [(''distance'', lua_nat (unat (ip_wander_distance p))),
            (''duration_seconds'', lua_nat (unat (ip_wander_duration_seconds p)))]
        @ when_kind [AI_wait] kind [(''duration_seconds'', lua_nat (unat (ip_wander_duration_seconds p)))]
        @ when_kind [AI_travel, AI_escort] kind
            [(''destination_x'', LNumber (ip_destination_x p)), (''destination_y'', LNumber (ip_destination_y p)),
             (''destination_z'', LNumber (ip_destination_z p)), (''destination_cell'', LText (ip_destination_cell p))]
        @ when_kind [AI_animation_play] kind [(''group'', LText (ip_string_parameter p))]
        @ when_kind [AI_item_equip] kind
            [(''record_id'', LText (ip_string_parameter p)), (''slot'', LText (ip_secondary_string_parameter p))]
        @ when_kind [AI_item_unequip] kind [(''slot'', LText (ip_secondary_string_parameter p))]
        @ when_kind [AI_item_use] kind [(''record_id'', LText (ip_string_parameter p))]
        @ when_kind [AI_item_give, AI_item_take, AI_item_pickup] kind [(''item_id'', LText (ip_string_parameter p))]
        @ when_kind [AI_item_give, AI_item_take] kind [(''count'', amount)]
        @ when_kind [AI_spell_cast] kind [(''spell_id'', LText (ip_string_parameter p))]
        @ when_kind [AI_item_create, AI_actor_spawn] kind [(''record_id'', LText (ip_string_parameter p)), (''count'', amount)]
        @ when_kind [AI_gold_create] kind [(''amount'', amount)]
        @ when_kind [AI_player_teleport] kind [(''destination_id'', LText (ip_string_parameter p))]
        @ when_kind [AI_gold_give, AI_gold_take] kind [(''amount'', amount)]))"

definition action_intent_table :: "response_correlation \<Rightarrow> action_intent \<Rightarrow> lua" where
  "action_intent_table c a =
     (let (name, tier) = intent_name_and_tier (ip_kind (ai_parameters a)) in lua_record
       [(''schema'', LText ''lorkhan.action-intent.v1''), (''action_id'', lua_id (ai_action a)),
        (''request_id'', lua_id (rc_request c)), (''turn_id'', lua_id (ai_turn a)), (''session_id'', lua_id (rc_session c)),
        (''generation'', lua_generation (rc_generation c)), (''name'', LText name), (''tier'', lua_integer tier),
        (''actor'', identity_table (ai_actor a)), (''target'', identity_table (ai_target a)),
        (''parameters'', intent_parameters_table (ai_parameters a)),
        (''display_name'', if ai_display_name a = [] then LNil else LText (ai_display_name a)),
        (''confirmation_required'', lua_option LBool (ai_confirmation_required a)),
        (''followup_enabled'', lua_option LBool (ai_followup_enabled a)),
        (''followup_actions_allowed'', lua_option LBool (ai_followup_actions_allowed a)),
        (''followup_depth'', lua_option (\<lambda>n. lua_nat (unat n)) (ai_followup_depth a)),
        (''expires_at'', LText (ai_expires_at a))])"

text \<open>\<open>static_cast<int>(item.code)\<close>: the position of the enumerator.\<close>

definition error_codes :: "error_code list" where
  "error_codes = [EC_invalid_argument, EC_invalid_utf8, EC_invalid_url, EC_invalid_header, EC_invalid_content_type,
     EC_invalid_json, EC_invalid_schema, EC_payload_too_large, EC_timeout, EC_unauthorized, EC_forbidden,
     EC_rate_limited, EC_unknown_session, EC_cursor_expired, EC_provider_unavailable, EC_action_disabled,
     EC_internal_error, EC_redirect_rejected, EC_queue_full, EC_stopped, EC_cancelled, EC_stale_generation,
     EC_duplicate_conflict, EC_cursor_gap, EC_invalid_action, EC_media_rejected, EC_transport_failure]"

definition error_code_number :: "error_code \<Rightarrow> int" where
  "error_code_number c = int (length (takeWhile (\<lambda>d. d \<noteq> c) error_codes))"

definition instruction_table :: "director_instruction \<Rightarrow> lua" where
  "instruction_table i = lua_record
     [(''instruction_id'', lua_id (di_instruction i)), (''actor'', identity_table (di_actor i)),
      (''recipient'', identity_table (di_recipient i)), (''instruction'', LText (di_text i)),
      (''scene_note'', LText (di_scene_note i))]"

fun event_type_name :: "event_type \<Rightarrow> string" where
  "event_type_name PT_turn_accepted = ''turn.accepted''"
| "event_type_name PT_dialogue_delta = ''dialogue.delta''"
| "event_type_name PT_dialogue_complete = ''dialogue.complete''"
| "event_type_name PT_action_intent = ''action.intent''"
| "event_type_name PT_director_instructions = ''director.instructions''"
| "event_type_name PT_relationship_adjust = ''relationship.adjust''"
| "event_type_name PT_response_complete = ''response.complete''"
| "event_type_name PT_turn_complete = ''turn.complete''"
| "event_type_name PT_turn_cancelled = ''turn.cancelled''"
| "event_type_name PT_turn_failed = ''turn.failed''"
| "event_type_name PT_stt_transcript = ''stt.transcript''"
| "event_type_name PT_stt_failed = ''stt.failed''"
| "event_type_name PT_speech_ready = ''speech.ready''"

text \<open>The payload of the event's type; the variant always holds that type
  (\<open>std::get\<close> would throw otherwise), so the table depends on the payload alone.\<close>

definition event_payload_table :: "response_correlation \<Rightarrow> event_payload \<Rightarrow> lua" where
  "event_payload_table c p =
     (case p of
        TurnAcceptedEvent \<Rightarrow> lua_record []
      | DialogueDeltaEvent t \<Rightarrow> lua_record [(''text'', LText t)]
      | DialogueCompleteEvent speaker addressee t \<Rightarrow>
          lua_record [(''speaker'', identity_table speaker), (''addressee'', identity_table addressee), (''text'', LText t)]
      | ActionIntentEvent a \<Rightarrow> action_intent_table c a
      | RelationshipAdjustEvent r \<Rightarrow> lua_record
          [(''adjustment_id'', lua_id (ra_adjustment r)), (''actor'', identity_table (ra_actor r)),
           (''player'', identity_table (ra_player r)), (''delta'', lua_integer (ra_delta r)), (''expires_at'', LText (ra_expires_at r))]
      | DirectorInstructionsEvent d \<Rightarrow> lua_record
          [(''plan_id'', lua_id (dir_plan d)), (''origin_turn_id'', lua_id (dir_origin_turn d)),
           (''expires_at'', LText (dir_expires_at d)),
           (''instructions'', lua_sequence (map instruction_table (dir_instructions d)))]
      | ResponseCompleteEvent r \<Rightarrow> canonical_response_table r
      | TurnCompleteEvent \<Rightarrow> lua_record []
      | TurnCancelledEvent reason \<Rightarrow> lua_record [(''reason'', LText reason)]
      | TurnFailedEvent code retriable retry \<Rightarrow> lua_record
          [(''code'', lua_integer (error_code_number code)), (''retriable'', LBool retriable),
           (''retry_after_ms'', lua_option (\<lambda>n. lua_nat n) retry)]
      | SttTranscriptEvent t language \<Rightarrow> lua_record [(''text'', LText t), (''language'', LText language)]
      | SttFailedEvent code retriable retry \<Rightarrow> lua_record
          [(''code'', LText code), (''retriable'', LBool retriable), (''retry_after_ms'', lua_option (\<lambda>n. lua_nat n) retry)]
      | SpeechReadyEvent s \<Rightarrow> lua_record
          [(''media_id'', lua_id (sr_media s)), (''dialogue_message_id'', lua_id (sr_dialogue_message s)),
           (''sha256'', LText (sr_sha256 s)), (''bytes'', lua_nat (sr_bytes s)), (''codec'', LText (codec_name (sr_codec s))),
           (''duration_ms'', lua_nat (sr_duration_ms s)), (''expires_at'', LText (sr_expires_at s))])"

definition event_table :: "protocol_event \<Rightarrow> lua" where
  "event_table e =
     (let c = pe_correlation e in lua_record
       [(''message_id'', lua_id (rc_message c)), (''request_id'', lua_id (rc_request c)), (''turn_id'', lua_id (rc_turn c)),
        (''session_id'', lua_id (rc_session c)), (''generation'', lua_generation (rc_generation c)),
        (''sequence'', lua_nat (pe_sequence e)), (''created_at'', LText (pe_created_at e)),
        (''type'', LText (event_type_name (pe_type e))), (''payload'', event_payload_table c (pe_payload e))])"

end
