(* ===== verification/Client_State.thy ===== *)
theory Client_State
  imports Client_Config Lua_Tables Session_Identity Actions Voice_Capture
begin

text \<open>
  The native client of \<open>lorkhanbindings.cpp\<close>: the state of \<open>NativeClient\<close>, the services it calls and
  the way its operations are written. The bridge service is a port: a record of its operations on
  a state \<open>'s\<close> of its own, so that the client is the same over every implementation of the
  interface. The clocks, the random engine and what \<open>sol\<close> says when a field is missing are the
  environment of one call. A \<open>std::map\<close> is a list of pairs sorted by key.
\<close>

section \<open>Maps\<close>

fun map_put :: "'k::linorder \<Rightarrow> 'v \<Rightarrow> ('k \<times> 'v) list \<Rightarrow> ('k \<times> 'v) list" where
  "map_put k v [] = [(k, v)]"
| "map_put k v ((k', v') # m) =
     (if k = k' then (k, v) # m else if k < k' then (k, v) # (k', v') # m else (k', v') # map_put k v m)"

definition map_emplace :: "'k::linorder \<Rightarrow> 'v \<Rightarrow> ('k \<times> 'v) list \<Rightarrow> ('k \<times> 'v) list" where
  "map_emplace k v m = (if map_of m k = None then map_put k v m else m)"

section \<open>Identifiers and hashes\<close>

text \<open>\<open>uuid\<close>: two draws of the random engine give the sixteen bytes, low byte first.\<close>

definition word_bytes :: "u64 \<Rightarrow> byte_t list" where
  "word_bytes w = map (\<lambda>i. ucast (drop_bit (8 * i) w)) [0..<8]"

definition uuid_bytes :: "u64 \<Rightarrow> u64 \<Rightarrow> byte_t list" where
  "uuid_bytes a b =
     (let bytes = word_bytes a @ word_bytes b;
          bytes = bytes[6 := (bytes ! 6 AND 0x0F) OR 0x40]
      in bytes[8 := (bytes ! 8 AND 0x3F) OR 0x80])"

definition uuid_byte_text :: "nat \<Rightarrow> byte_t \<Rightarrow> string" where
  "uuid_byte_text index b =
     [hex_alphabet ! (unat b div 16), hex_alphabet ! (unat b mod 16)]
     @ (if index \<in> {3, 5, 7, 9} then ''-'' else [])"

definition uuid_text :: "u64 \<Rightarrow> u64 \<Rightarrow> string" where
  "uuid_text a b = concat (map (\<lambda>index. uuid_byte_text index (uuid_bytes a b ! index)) [0..<16])"

definition hash_digit :: "char \<Rightarrow> int" where
  "hash_digit c =
     (if is_digit c then int (byte c - byte (CHR ''0''))
      else if char_between (CHR ''a'') (CHR ''f'') c then int (byte c - byte (CHR ''a'')) + 10
      else -1)"

fun hash_bytes :: "string \<Rightarrow> string + byte_t list" where
  "hash_bytes (high # low # s) =
     (if hash_digit high < 0 \<or> hash_digit low < 0 then Inl ''media SHA-256 must be lowercase hexadecimal''
      else and_then (hash_bytes s) (\<lambda>bytes. Inr (word_of_int (16 * hash_digit high + hash_digit low) # bytes)))"
| "hash_bytes _ = Inr []"

definition parse_sha256 :: "string \<Rightarrow> string + byte_t list" where
  "parse_sha256 input =
     (if length input \<noteq> 64 then Inl ''media SHA-256 must contain 64 hex digits'' else hash_bytes input)"

text \<open>\<open>processGeneration\<close>, from the microseconds since the epoch.\<close>

definition process_generation :: "int \<Rightarrow> string + generation" where
  "process_generation elapsed =
     (if elapsed < 0 \<or> 9007199254740991 < elapsed then Inl ''system clock is outside the supported generation range''
      else Inr (Generation (word_of_int elapsed)))"

section \<open>The service and the environment\<close>

record 's service_port =
  sv_enqueue :: "outbound_request \<Rightarrow> 's \<Rightarrow> 's \<times> RequestId result"
  sv_poll :: "nat \<Rightarrow> 's \<Rightarrow> 's \<times> inbound_result list"
  sv_cancel :: "RequestId \<Rightarrow> 's \<Rightarrow> 's \<times> unit result"
  sv_cancel_generation :: "generation \<Rightarrow> 's \<Rightarrow> 's \<times> generation result"
  sv_halt :: "'s \<Rightarrow> 's"
  sv_generation :: "'s \<Rightarrow> generation"

text \<open>
  \<open>ce_parse_utc\<close> is \<open>std::get_time\<close> with \<open>timegm\<close>: none where \<open>parseUtc\<close> throws. All readings of a
  clock in one call give the same time.
\<close>

record client_env =
  ce_random :: "nat \<Rightarrow> u64"
  ce_utc_now :: string
  ce_steady_now :: int
  ce_system_now :: int
  ce_parse_utc :: "string \<Rightarrow> int option"
  ce_lua_error :: "string \<Rightarrow> string"

definition parse_utc :: "client_env \<Rightarrow> string \<Rightarrow> string + int" where
  "parse_utc env input =
     (case ce_parse_utc env input of
        None \<Rightarrow> Inl ''invalid UTC media expiry''
      | Some raw \<Rightarrow> if raw < 0 then Inl ''invalid UTC media expiry'' else Inr raw)"

section \<open>The state of the client\<close>

record media_state =
  mst_state :: string
  mst_cache_path :: "string list"
  mst_reason :: string
  mst_request :: "RequestId option"

record menu_dialogue =
  mdl_state :: string
  mdl_reason :: string
  mdl_request :: "RequestId option"
  mdl_media :: "canonical_media option"

record player_autochat =
  pau_state :: string
  pau_text :: string
  pau_reason :: string
  pau_request :: "RequestId option"

text \<open>
  The actors, items and destinations of a snapshot are objects of the engine and left out; a
  shared snapshot is its index in \<open>nc_snapshot_store\<close>.
\<close>

record transfer_snapshot =
  tsn_session :: string
  tsn_generation :: u64
  tsn_cancelled :: bool

record transfer_record =
  tr_intent :: action_intent
  tr_snapshot :: "nat option"
  tr_gate :: gate_state
  tr_spell_hook :: bool
  tr_spell_started :: bool
  tr_status :: string
  tr_reason :: string
  tr_receipt :: "action_result_request option"
  tr_receipt_request :: "RequestId option"
  tr_receipt_status :: string
  tr_receipt_reason :: string

text \<open>
  Actions that wait in the queue of the engine's main thread. Three members of the client below are
  not members of the class: this queue, the number of draws of the process's random engine, and
  \<open>nc_transfer_scopes\<close>, a history variable that counts how often the transfers were cleared.
\<close>

datatype engine_action =
    Commit_transfer string string u64
  | Materialize_book diary_book string u64 u64

record 's native_client =
  nc_config :: "client_config option"
  nc_connection_timeout :: "int option"
  nc_character_rejected :: bool
  nc_character_identity :: character_session
  nc_legacy_playthrough :: string
  nc_service :: "'s option"
  nc_session :: "SessionId option"
  nc_client_settings :: "client_settings option"
  nc_config_revision :: string
  nc_init_request :: "RequestId option"
  nc_init_snapshot :: "init_request option"
  nc_init_attempts :: nat
  nc_retry_init :: bool
  nc_next_init :: int
  nc_waiting_loaded_calendar :: bool
  nc_loaded_save :: bool
  nc_loaded_calendar :: "loaded_save_calendar option"
  nc_poll_request :: "RequestId option"
  nc_controls_request :: "RequestId option"
  nc_controls :: "controls_response option"
  nc_controls_error :: string
  nc_diary_request :: "RequestId option"
  nc_diary_receipt :: "RequestId option"
  nc_diary_book :: "diary_book option"
  nc_diary_receipt_dto :: "diary_book_result_request option"
  nc_diary_serial :: u64
  nc_diary_pending :: bool
  nc_diary_receipt_ok :: bool
  nc_diary_state :: string
  nc_diary_reason :: string
  nc_diary_error :: string
  nc_debug_request :: "RequestId option"
  nc_debug_command :: "debug_command option"
  nc_debug_error :: string
  nc_disposition_receipts :: "(string \<times> string) list"
  nc_deferred_results :: "inbound_result list"
  nc_turn_requests :: "(string \<times> string) list"
  nc_transfer_session :: string
  nc_transfer_generation :: u64
  nc_snapshot_store :: "transfer_snapshot list"
  nc_transfer_snapshots :: "(string \<times> nat) list"
  nc_transfer_order :: "string list"
  nc_transfers :: "(string \<times> transfer_record) list"
  nc_cursor :: nat
  nc_next_poll :: int
  nc_media :: "(string \<times> media_state) list"
  nc_menu_dialogues :: "(string \<times> menu_dialogue) list"
  nc_player_autochats :: "(string \<times> player_autochat) list"
  nc_status :: string
  nc_error :: string
  nc_results_seen :: nat
  nc_init_matches :: nat
  nc_actions :: "engine_action list"
  nc_draws :: nat
  nc_transfer_scopes :: nat

definition client_unconfigured :: "'s native_client" where
  "client_unconfigured =
     \<lparr>nc_config = None, nc_connection_timeout = None, nc_character_rejected = False,
      nc_character_identity = cleared_session, nc_legacy_playthrough = [], nc_service = None, nc_session = None,
      nc_client_settings = None, nc_config_revision = [], nc_init_request = None, nc_init_snapshot = None,
      nc_init_attempts = 0, nc_retry_init = False, nc_next_init = 0, nc_waiting_loaded_calendar = False,
      nc_loaded_save = False, nc_loaded_calendar = None, nc_poll_request = None, nc_controls_request = None,
      nc_controls = None, nc_controls_error = [], nc_diary_request = None, nc_diary_receipt = None,
      nc_diary_book = None, nc_diary_receipt_dto = None, nc_diary_serial = 0, nc_diary_pending = False,
      nc_diary_receipt_ok = False, nc_diary_state = [], nc_diary_reason = [], nc_diary_error = [],
      nc_debug_request = None, nc_debug_command = None, nc_debug_error = [], nc_disposition_receipts = [],
      nc_deferred_results = [], nc_turn_requests = [], nc_transfer_session = [], nc_transfer_generation = 0,
      nc_snapshot_store = [], nc_transfer_snapshots = [], nc_transfer_order = [], nc_transfers = [], nc_cursor = 0,
      nc_next_poll = 0, nc_media = [], nc_menu_dialogues = [], nc_player_autochats = [],
      nc_status = ''unconfigured'', nc_error = [], nc_results_seen = 0, nc_init_matches = 0, nc_actions = [],
      nc_draws = 0, nc_transfer_scopes = 0\<rparr>"

text \<open>
  The constructor: \<open>loaded\<close> is what \<open>loadConfig\<close>, the transport's constructor and \<open>processGeneration\<close>
  give, in that order; each of them may throw. The configuration is kept when a later one does.
\<close>

definition client_new :: "string + client_config \<Rightarrow> (client_config \<Rightarrow> string + 's) \<Rightarrow> 's native_client" where
  "client_new loaded start =
     (case loaded of
        Inl e \<Rightarrow> client_unconfigured\<lparr>nc_error := e\<rparr>
      | Inr config \<Rightarrow>
          let c = client_unconfigured\<lparr>nc_config := Some config, nc_legacy_playthrough := id_value (cc_playthrough config)\<rparr> in
          case start config of
            Inl e \<Rightarrow> c\<lparr>nc_error := e\<rparr>
          | Inr s \<Rightarrow> c\<lparr>nc_connection_timeout := Some 30, nc_service := Some s, nc_status := ''waiting_identity''\<rparr>)"

definition kControlsPumpBatch :: nat where
  "kControlsPumpBatch = 8"

definition kDeferredResultCapacity :: nat where
  "kDeferredResultCapacity = kInboundCapacity"

section \<open>Operations that may throw\<close>

type_synonym ('c, 'a) step_of = "'c \<Rightarrow> (string + 'a) \<times> 'c"

definition returns :: "'a \<Rightarrow> ('c, 'a) step_of" where
  "returns x c = (Inr x, c)"

definition throws :: "string \<Rightarrow> ('c, 'a) step_of" where
  "throws e c = (Inl e, c)"

definition lifted :: "string + 'a \<Rightarrow> ('c, 'a) step_of" where
  "lifted r c = (r, c)"

definition reading :: "('c \<Rightarrow> 'a) \<Rightarrow> ('c, 'a) step_of" where
  "reading f c = (Inr (f c), c)"

definition updating :: "('c \<Rightarrow> 'c) \<Rightarrow> ('c, unit) step_of" where
  "updating f c = (Inr (), f c)"

definition step_then :: "('c, 'a) step_of \<Rightarrow> ('a \<Rightarrow> ('c, 'b) step_of) \<Rightarrow> ('c, 'b) step_of" where
  "step_then m f c = (case m c of (Inl e, c) \<Rightarrow> (Inl e, c) | (Inr x, c) \<Rightarrow> f x c)"

text \<open>The pair of values that a function of the API returns, and \<open>catch (const std::exception&)\<close>.\<close>

type_synonym lua_pair = "lua \<times> lua"

definition failure_pair :: "string \<Rightarrow> lua_pair" where
  "failure_pair reason = (LNil, LText reason)"

definition success_pair :: "string \<Rightarrow> lua_pair" where
  "success_pair v = (LText v, LNil)"

definition caught :: "('c, lua_pair) step_of \<Rightarrow> 'c \<Rightarrow> lua_pair \<times> 'c" where
  "caught m c = (case m c of (Inl e, c) \<Rightarrow> (failure_pair e, c) | (Inr r, c) \<Rightarrow> (r, c))"

section \<open>Calls\<close>

definition draw_uuid :: "client_env \<Rightarrow> ('s native_client, string) step_of" where
  "draw_uuid env c =
     (Inr (uuid_text (ce_random env (nc_draws c)) (ce_random env (nc_draws c + 1))), c\<lparr>nc_draws := nc_draws c + 2\<rparr>)"

text \<open>The callers of these have tested that there is a service.\<close>

definition call_enqueue :: "'s service_port \<Rightarrow> outbound_request \<Rightarrow> ('s native_client, RequestId) step_of" where
  "call_enqueue port request c =
     (case sv_enqueue port request (the (nc_service c)) of
        (s, Inl e) \<Rightarrow> (Inl (err_message e), c\<lparr>nc_service := Some s\<rparr>)
      | (s, Inr accepted) \<Rightarrow> (Inr accepted, c\<lparr>nc_service := Some s\<rparr>))"

definition call_cancel :: "'s service_port \<Rightarrow> RequestId \<Rightarrow> 's native_client \<Rightarrow> 's native_client" where
  "call_cancel port request c = c\<lparr>nc_service := Some (fst (sv_cancel port request (the (nc_service c))))\<rparr>"

definition client_generation :: "'s service_port \<Rightarrow> 's native_client \<Rightarrow> u64" where
  "client_generation port c = (case nc_service c of None \<Rightarrow> 0 | Some s \<Rightarrow> gen_value (sv_generation port s))"

definition client_ready :: "'s native_client \<Rightarrow> bool" where
  "client_ready c \<longleftrightarrow> nc_service c \<noteq> None \<and> nc_session c \<noteq> None \<and> nc_status c = ''ready''"

definition current_session :: "'s native_client \<Rightarrow> SessionId" where
  "current_session c = the (nc_session c)"

definition correlation_of :: "'s service_port \<Rightarrow> RequestId \<Rightarrow> 's native_client \<Rightarrow> request_correlation" where
  "correlation_of port request c =
     \<lparr>corr_request = request, corr_session = current_session c, corr_generation = Generation (client_generation port c)\<rparr>"

text \<open>\<open>OutboundRequest outbound{request, *m_session, m_service->generation(), kind, payload}\<close>.\<close>

definition outbound_of ::
  "'s service_port \<Rightarrow> RequestId \<Rightarrow> request_kind \<Rightarrow> request_payload \<Rightarrow> 's native_client \<Rightarrow> outbound_request" where
  "outbound_of port request kind payload c =
     \<lparr>out_id = request, out_session = current_session c, out_generation = Generation (client_generation port c),
      out_kind = kind, out_payload = payload\<rparr>"

definition enqueue_payload ::
  "'s service_port \<Rightarrow> RequestId \<Rightarrow> request_kind \<Rightarrow> request_payload \<Rightarrow> ('s native_client, RequestId) step_of" where
  "enqueue_payload port request kind payload c = call_enqueue port (outbound_of port request kind payload c) c"

section \<open>Arguments from Lua\<close>

definition get_text :: "client_env \<Rightarrow> string \<Rightarrow> lua_table \<Rightarrow> string + string" where
  "get_text env k t = (case lua_field k t of LText s \<Rightarrow> Inr s | _ \<Rightarrow> Inl (ce_lua_error env k))"

definition get_table :: "client_env \<Rightarrow> string \<Rightarrow> lua_table \<Rightarrow> string + lua_table" where
  "get_table env k t = (case lua_field k t of LTable s \<Rightarrow> Inr s | _ \<Rightarrow> Inl (ce_lua_error env k))"

text \<open>An unsigned integer: an integral double below \<open>2 ^ 63\<close>, converted through a signed one.\<close>

definition get_unsigned :: "client_env \<Rightarrow> string \<Rightarrow> lua_table \<Rightarrow> string + u64" where
  "get_unsigned env k t =
     (case lua_field k t of
        LNumber (Finite q) \<Rightarrow>
          if of_int \<lfloor>q\<rfloor> = q \<and> \<bar>q\<bar> < 2 ^ 63 then Inr (word_of_int \<lfloor>q\<rfloor>) else Inl (ce_lua_error env k)
      | _ \<Rightarrow> Inl (ce_lua_error env k))"

text \<open>The length of a sequence, and its texts.\<close>

definition lua_length :: "lua_table \<Rightarrow> nat" where
  "lua_length t = length (takeWhile (\<lambda>i. lua_get (LInt i) t \<noteq> LNil) [1..int (length t)])"

fun texts_at :: "client_env \<Rightarrow> lua_table \<Rightarrow> int list \<Rightarrow> string + string list" where
  "texts_at env t [] = Inr []"
| "texts_at env t (i # is) =
     (case lua_get (LInt i) t of
        LText s \<Rightarrow> and_then (texts_at env t is) (\<lambda>ss. Inr (s # ss))
      | _ \<Rightarrow> Inl (ce_lua_error env (to_decimal (nat i))))"

definition json_of :: "lua \<Rightarrow> string + string" where
  "json_of v = to_json v 0"

end
