(* ===== verification/Client_Requests.thy ===== *)
theory Client_Requests
  imports Client_State
begin

text \<open>
  The operations of \<open>NativeClient\<close> by which Lua submits a request: turns, observations, controls,
  diary books, debug commands, speech, media, rewrites and the results of actions. Each makes the
  request, hands it to the service and remembers what it waits for only when the service accepted it.
\<close>

section \<open>What Lua may read\<close>

definition session_info :: "'s service_port \<Rightarrow> 's native_client \<Rightarrow> lua" where
  "session_info port c =
     (case nc_session c of
        None \<Rightarrow> LNil
      | Some session \<Rightarrow> lua_record
          [(''session_id'', lua_id session), (''generation'', lua_nat (unat (client_generation port c))),
           (''config_revision'', LText (nc_config_revision c)),
           (''client_settings'', lua_option client_settings_table (nc_client_settings c))])"

definition next_turn_metadata :: "client_env \<Rightarrow> 's service_port \<Rightarrow> 's native_client \<Rightarrow> lua \<times> 's native_client" where
  "next_turn_metadata env port c =
     (if \<not> client_ready c then (LNil, c)
      else
        case step_then (draw_uuid env) (\<lambda>message. step_then (draw_uuid env) (\<lambda>request. step_then (draw_uuid env) (\<lambda>turn.
               returns (message, request, turn)))) c of
          (Inl _, c) \<Rightarrow> (LNil, c)
        | (Inr (message, request, turn), c) \<Rightarrow>
            let config = the (nc_config c) in
            (lua_record
              [(''message_id'', LText message), (''request_id'', LText request), (''turn_id'', LText turn),
               (''installation_id'', lua_id (cc_installation config)), (''profile_id'', lua_id (cc_profile config)),
               (''playthrough_id'', lua_id (cc_playthrough config)), (''session_id'', lua_id (current_session c)),
               (''generation'', lua_nat (unat (client_generation port c))), (''created_at'', LText (ce_utc_now env)),
               (''platform'', LText (cc_platform config)), (''content_fingerprint'', LText (cc_fingerprint config))], c))"

definition server_base_url :: "'s native_client \<Rightarrow> string" where
  "server_base_url c =
     (case nc_config c of
        None \<Rightarrow> []
      | Some config \<Rightarrow> ''http://'' @ authority (cc_base_url config) @ bu_base_path (cc_base_url config))"

definition session_controls :: "'s native_client \<Rightarrow> lua" where
  "session_controls c =
     (case nc_controls c of None \<Rightarrow> LNil | Some r \<Rightarrow> controls_table r (nc_controls_request c \<noteq> None))"

definition media_status :: "string \<Rightarrow> 's native_client \<Rightarrow> lua" where
  "media_status media c =
     (case map_of (nc_media c) media of
        None \<Rightarrow> LNil
      | Some m \<Rightarrow> lua_record [(''state'', LText (mst_state m)),
                            (''reason'', if mst_reason m = [] then LNil else LText (mst_reason m))])"

definition menu_dialogue_status :: "string \<Rightarrow> 's native_client \<Rightarrow> lua" where
  "menu_dialogue_status request c =
     (case map_of (nc_menu_dialogues c) request of
        None \<Rightarrow> LNil
      | Some d \<Rightarrow> lua_record
          [(''state'', LText (mdl_state d)), (''reason'', if mdl_reason d = [] then LNil else LText (mdl_reason d)),
           (''media_id'', lua_option (\<lambda>m. lua_id (cm_media m)) (mdl_media d))])"

definition player_autochat_status :: "string \<Rightarrow> 's native_client \<Rightarrow> lua" where
  "player_autochat_status request c =
     (case map_of (nc_player_autochats c) request of
        None \<Rightarrow> LNil
      | Some a \<Rightarrow> lua_record
          [(''state'', LText (pau_state a)), (''text'', if pau_text a = [] then LNil else LText (pau_text a)),
           (''reason'', if pau_reason a = [] then LNil else LText (pau_reason a))])"

section \<open>Turns\<close>

text \<open>\<open>syncTransferScope\<close>: the transfers belong to one session and generation.\<close>

definition session_text :: "'s native_client \<Rightarrow> string" where
  "session_text c = (case nc_session c of None \<Rightarrow> [] | Some s \<Rightarrow> id_value s)"

definition sync_transfer_scope :: "'s service_port \<Rightarrow> 's native_client \<Rightarrow> 's native_client" where
  "sync_transfer_scope port c =
     (let session = session_text c; generation = client_generation port c in
      if nc_transfer_session c = session \<and> nc_transfer_generation c = generation then c
      else c\<lparr>nc_transfers := [], nc_transfer_snapshots := [], nc_transfer_order := [],
             nc_transfer_session := session, nc_transfer_generation := generation,
             nc_transfer_scopes := nc_transfer_scopes c + 1\<rparr>)"

text \<open>
  \<open>captureTransferSnapshot\<close> reads the engine and writes what it saw into the payload: \<open>capture\<close>
  stands for that. The new snapshot is not cancelled.
\<close>

definition capture_transfer_snapshot ::
  "'s service_port \<Rightarrow> (lua_table \<Rightarrow> lua_table) \<Rightarrow> lua_table \<Rightarrow> ('s native_client, lua_table \<times> nat) step_of" where
  "capture_transfer_snapshot port capture payload c =
     (let c = sync_transfer_scope port c;
          snapshot = \<lparr>tsn_session = nc_transfer_session c, tsn_generation = nc_transfer_generation c, tsn_cancelled = False\<rparr>
      in (Inr (capture payload, length (nc_snapshot_store c)), c\<lparr>nc_snapshot_store := nc_snapshot_store c @ [snapshot]\<rparr>))"

text \<open>At most sixteen snapshots are kept; the oldest one makes room.\<close>

definition retain_snapshot :: "string \<Rightarrow> nat \<Rightarrow> 's native_client \<Rightarrow> 's native_client" where
  "retain_snapshot turn snapshot c =
     (if map_of (nc_transfer_snapshots c) turn \<noteq> None then c
      else
        let c = (if 16 \<le> length (nc_transfer_snapshots c)
                 then c\<lparr>nc_transfer_snapshots := erase_key (hd (nc_transfer_order c)) (nc_transfer_snapshots c),
                        nc_transfer_order := tl (nc_transfer_order c)\<rparr>
                 else c)
        in c\<lparr>nc_transfer_snapshots := map_put turn snapshot (nc_transfer_snapshots c),
             nc_transfer_order := nc_transfer_order c @ [turn]\<rparr>)"

text \<open>The members that \<open>RuntimeInfo\<close> initialises itself.\<close>

definition runtime_default :: runtime_info where
  "runtime_default =
     \<lparr>rt_game = ''tes3'', rt_variant = ''openmw'', rt_openmw_version = ''0.51.0'',
      rt_openmw_commit = ''f4bec41444214a7903bebd178389ca22ca13f646'', rt_lua_api_revision = 129,
      rt_client_version = ''0.1.0'', rt_platform = [], rt_capabilities = []\<rparr>"

definition turn_ids_of :: "client_env \<Rightarrow> client_config \<Rightarrow> lua_table \<Rightarrow> string + envelope_ids" where
  "turn_ids_of env config dto =
     and_then (get_text env ''session_id'' dto) (\<lambda>session.
     and_then (get_text env ''request_id'' dto) (\<lambda>request.
     and_then (get_text env ''turn_id'' dto) (\<lambda>turn.
     and_then (get_text env ''message_id'' dto) (\<lambda>message.
     and_then (get_unsigned env ''generation'' dto) (\<lambda>generation.
       Inr \<lparr>env_installation = cc_installation config, env_profile = cc_profile config,
            env_playthrough = cc_playthrough config, env_session = StrongId session,
            env_request = StrongId request, env_turn = StrongId turn, env_message = StrongId message,
            env_generation = Generation generation\<rparr>)))))"

definition turn_runtime_of :: "client_env \<Rightarrow> client_config \<Rightarrow> lua_table \<Rightarrow> string + runtime_info" where
  "turn_runtime_of env config dto =
     and_then (get_table env ''runtime'' dto) (\<lambda>runtime.
     and_then (get_table env ''capabilities'' runtime) (\<lambda>capabilities.
     and_then (texts_at env capabilities [1..int (lua_length capabilities)]) (\<lambda>names.
       Inr (runtime_default\<lparr>rt_platform := cc_platform config, rt_capabilities := names\<rparr>))))"

definition turn_request_of ::
  "client_env \<Rightarrow> envelope_ids \<Rightarrow> runtime_info \<Rightarrow> string \<Rightarrow> lua_table \<Rightarrow> string + turn_request" where
  "turn_request_of env ids runtime payload dto =
     and_then (get_unsigned env ''runtime_generation'' dto) (\<lambda>generation.
     and_then (get_text env ''content_fingerprint'' dto) (\<lambda>fingerprint.
     and_then (get_text env ''created_at'' dto) (\<lambda>created_at.
       Inr \<lparr>turn_ids = ids, turn_runtime_generation = Generation generation, turn_runtime = runtime,
            turn_content_fingerprint = fingerprint, turn_created_at = created_at, turn_serialized_payload = payload\<rparr>)))"

definition submit_turn ::
  "client_env \<Rightarrow> 's service_port \<Rightarrow> (lua_table \<Rightarrow> lua_table) \<Rightarrow> lua_table \<Rightarrow> 's native_client \<Rightarrow> lua_pair \<times> 's native_client" where
  "submit_turn env port capture dto c =
     (if \<not> client_ready c then (failure_pair ''bridge_not_ready'', c)
      else caught
        (step_then (lifted (turn_ids_of env (the (nc_config c)) dto)) (\<lambda>ids.
         step_then (lifted (turn_runtime_of env (the (nc_config c)) dto)) (\<lambda>runtime.
         step_then (lifted (get_table env ''payload'' dto)) (\<lambda>payload_table.
         step_then (capture_transfer_snapshot port capture payload_table) (\<lambda>(payload_table, snapshot).
         step_then (lifted (json_of (LTable payload_table))) (\<lambda>payload.
         step_then (lifted (turn_request_of env ids runtime payload dto)) (\<lambda>turn.
         step_then (call_enqueue port
           \<lparr>out_id = env_request ids, out_session = env_session ids, out_generation = env_generation ids,
            out_kind = RK_turn, out_payload = TurnRequest turn\<rparr>) (\<lambda>accepted.
         step_then (updating (\<lambda>c. c\<lparr>nc_turn_requests := map_emplace (id_value (env_request ids))
                     (id_value (env_turn ids)) (nc_turn_requests c)\<rparr>)) (\<lambda>_.
         step_then (updating (retain_snapshot (id_value (env_turn ids)) snapshot)) (\<lambda>_.
           returns (success_pair (id_value accepted)))))))))))) c)"

section \<open>Observations\<close>

text \<open>Under pressure the receipts that are settled make room, never those that are pending.\<close>

definition reclaim_receipts :: "(string \<times> string) list \<Rightarrow> (string \<times> string) list" where
  "reclaim_receipts receipts =
     (if 128 \<le> length receipts then filter (\<lambda>p. snd p = ''pending'') receipts else receipts)"

definition game_data_of ::
  "client_env \<Rightarrow> 's service_port \<Rightarrow> game_data_type \<Rightarrow> RequestId \<Rightarrow> string \<Rightarrow> 's native_client \<Rightarrow> game_data_request" where
  "game_data_of env port kind request payload c =
     \<lparr>gd_installation = cc_installation (the (nc_config c)), gd_playthrough = cc_playthrough (the (nc_config c)),
      gd_request = request, gd_runtime_generation = Generation (client_generation port c),
      gd_observed_at = ce_utc_now env, gd_type = kind, gd_serialized_payload = payload\<rparr>"

definition submit_game_data ::
  "client_env \<Rightarrow> 's service_port \<Rightarrow> game_data_type \<Rightarrow> lua_table \<Rightarrow> 's native_client \<Rightarrow> lua_pair \<times> 's native_client" where
  "submit_game_data env port kind payload c =
     (if \<not> client_ready c then (failure_pair ''bridge_not_ready'', c)
      else
        let c = (if kind = GD_disposition
                 then c\<lparr>nc_disposition_receipts := reclaim_receipts (nc_disposition_receipts c)\<rparr> else c) in
        if kind = GD_disposition \<and> 128 \<le> length (nc_disposition_receipts c)
        then (failure_pair ''disposition_queue_full'', c)
        else caught
          (step_then (draw_uuid env) (\<lambda>request.
           step_then (lifted (json_of (LTable payload))) (\<lambda>serialized.
           step_then (\<lambda>c. enqueue_payload port (StrongId request) RK_gamedata
             (GameDataRequest (game_data_of env port kind (StrongId request) serialized c)) c) (\<lambda>_.
           step_then (updating (\<lambda>c. if kind = GD_disposition
             then c\<lparr>nc_disposition_receipts := map_put request ''pending'' (nc_disposition_receipts c)\<rparr> else c)) (\<lambda>_.
             returns (success_pair request)))))) c)"

text \<open>\<open>submitActorProfile\<close>: the engine is asked for the provenance of the actor's record.\<close>

definition submit_actor_profile ::
  "client_env \<Rightarrow> 's service_port \<Rightarrow> (protocol_identity \<Rightarrow> (string \<times> record_origin) option) \<Rightarrow> lua_table
   \<Rightarrow> 's native_client \<Rightarrow> lua_pair \<times> 's native_client" where
  "submit_actor_profile env port origin_of payload c =
     (case json_of (lua_field ''actor'' payload) of
        Inl e \<Rightarrow> (failure_pair e, c)
      | Inr serialized \<Rightarrow>
          (case parse_protocol_identity serialized default_limits of
             Inl _ \<Rightarrow> (failure_pair ''invalid_actor_profile'', c)
           | Inr identity \<Rightarrow>
               if pid_kind identity \<noteq> ''npc'' \<and> pid_kind identity \<noteq> ''creature''
               then (failure_pair ''invalid_actor_profile'', c)
               else
                 case record_provenance_table (origin_of identity) of
                   LTable provenance \<Rightarrow>
                     submit_game_data env port GD_actor_profile
                       (lua_set (LKey ''record_provenance'')
                         (LTable (lua_set (LKey ''record_id'') (LText (pid_record_id identity)) provenance)) payload) c
                 | _ \<Rightarrow> (failure_pair ''invalid_actor_profile'', c)))"

section \<open>Speech recognition\<close>

text \<open>\<open>captured\<close> is the recording that the capture service hands out, if there is one.\<close>

definition submit_captured_stt ::
  "client_env \<Rightarrow> 's service_port \<Rightarrow> captured_voice option \<Rightarrow> string \<Rightarrow> 's native_client \<Rightarrow> lua_pair \<times> 's native_client" where
  "submit_captured_stt env port captured language c =
     (if \<not> client_ready c then (failure_pair ''bridge_not_ready'', c)
      else
        case captured of
          None \<Rightarrow> (failure_pair ''voice_capture_not_ready'', c)
        | Some voice \<Rightarrow> caught
            (step_then (draw_uuid env) (\<lambda>request.
             step_then (draw_uuid env) (\<lambda>turn.
             step_then (draw_uuid env) (\<lambda>message.
             step_then (reading (\<lambda>c.
               \<lparr>env_installation = cc_installation (the (nc_config c)), env_profile = cc_profile (the (nc_config c)),
                env_playthrough = cc_playthrough (the (nc_config c)), env_session = current_session c,
                env_request = StrongId request, env_turn = StrongId turn, env_message = StrongId message,
                env_generation = Generation (client_generation port c)\<rparr>)) (\<lambda>ids.
             step_then (enqueue_payload port (StrongId request) RK_stt
               (SttRequest \<lparr>stt_ids = ids, stt_created_at = ce_utc_now env, stt_codec = ''wav'', stt_language = language,
                            stt_sha256 = cv_sha256 voice, stt_audio = cv_wav voice\<rparr>)) (\<lambda>_.
               returns (lua_record
                 [(''message_id'', LText message), (''request_id'', LText request), (''turn_id'', LText turn),
                  (''session_id'', lua_id (env_session ids)), (''generation'', lua_generation (env_generation ids)),
                  (''created_at'', LText (ce_utc_now env))], LNil))))))) c)"

section \<open>Controls\<close>

definition request_controls ::
  "client_env \<Rightarrow> 's service_port \<Rightarrow> lua_table \<Rightarrow> 's native_client \<Rightarrow> lua_pair \<times> 's native_client" where
  "request_controls env port target c =
     (if \<not> client_ready c then (failure_pair ''bridge_not_ready'', c)
      else if nc_controls_request c \<noteq> None then (failure_pair ''controls_request_pending'', c)
      else caught
        (step_then (draw_uuid env) (\<lambda>request.
         step_then (draw_uuid env) (\<lambda>message.
         step_then (lifted (json_of (LTable target))) (\<lambda>serialized.
         step_then (\<lambda>c. enqueue_payload port (StrongId request) RK_controls_query
           (ControlsQueryRequest \<lparr>cq_message = StrongId message, cq_correlation = correlation_of port (StrongId request) c,
              cq_serialized_target = serialized, cq_include_settings_editor = False\<rparr>) c) (\<lambda>_.
         step_then (updating (\<lambda>c. c\<lparr>nc_controls_request := Some (StrongId request), nc_controls_error := []\<rparr>)) (\<lambda>_.
           returns (success_pair request))))))) c)"

definition control_kind_of :: "string \<Rightarrow> string + session_control_kind" where
  "control_kind_of kind =
     (if kind = ''model_slot'' then Inr SC_model_slot
      else if kind = ''actor_profile'' then Inr SC_actor_profile
      else if kind = ''profile_generate'' then Inr SC_profile_generate
      else if kind = ''narrator_profile_generate'' then Inr SC_narrator_profile_generate
      else Inl ''invalid_session_control_kind'')"

definition selection_valid :: "session_control_kind \<Rightarrow> string option \<Rightarrow> bool" where
  "selection_valid kind selection =
     (if kind = SC_model_slot
      then (case selection of None \<Rightarrow> False | Some s \<Rightarrow> s \<in> {''standard'', ''fast'', ''powerful'', ''experimental''})
      else
        (case selection of
           None \<Rightarrow> True
         | Some s \<Rightarrow> if kind = SC_narrator_profile_generate then is_canonical_uuid s else is_profile_id s))"

definition select_control ::
  "client_env \<Rightarrow> 's service_port \<Rightarrow> string \<Rightarrow> string option \<Rightarrow> lua_table \<Rightarrow> 's native_client \<Rightarrow> lua_pair \<times> 's native_client" where
  "select_control env port kind selection target c =
     (if \<not> client_ready c then (failure_pair ''bridge_not_ready'', c)
      else if nc_controls_request c \<noteq> None then (failure_pair ''controls_request_pending'', c)
      else caught
        (step_then (lifted (control_kind_of kind)) (\<lambda>mapped.
         step_then (if selection_valid mapped selection then returns () else throws ''invalid_session_control_selection'') (\<lambda>_.
         step_then (draw_uuid env) (\<lambda>request.
         step_then (draw_uuid env) (\<lambda>message.
         step_then (lifted (json_of (LTable target))) (\<lambda>serialized.
         step_then (\<lambda>c. enqueue_payload port (StrongId request) RK_controls_select
           (ControlsSelectRequest \<lparr>cs_message = StrongId message, cs_correlation = correlation_of port (StrongId request) c,
              cs_created_at = ce_utc_now env, cs_kind = mapped,
              cs_selection_id = (if mapped = SC_model_slot then None else selection),
              cs_selection_key = (if mapped = SC_model_slot then selection else None),
              cs_serialized_target = serialized, cs_setting = None\<rparr>) c) (\<lambda>_.
         step_then (updating (\<lambda>c. c\<lparr>nc_controls_request := Some (StrongId request), nc_controls_error := []\<rparr>)) (\<lambda>_.
           returns (success_pair request))))))))) c)"

end
