(* ===== verification/Client_Exchanges.thy ===== *)
theory Client_Exchanges
  imports Client_Requests
begin

text \<open>
  The exchanges of \<open>NativeClient\<close> that outlive one call: diary books, debug commands, media, spoken
  menu dialogue, rewrites of the player's line and the delivery of dialogue.
\<close>

section \<open>Diary books\<close>

definition cancel_some :: "'s service_port \<Rightarrow> RequestId option \<Rightarrow> 's native_client \<Rightarrow> 's native_client" where
  "cancel_some port request c =
     (case request of
        None \<Rightarrow> c
      | Some r \<Rightarrow> if nc_service c = None then c else call_cancel port r c)"

definition diary_cleared :: "'s native_client \<Rightarrow> 's native_client" where
  "diary_cleared c =
     c\<lparr>nc_diary_request := None, nc_diary_receipt := None, nc_diary_book := None, nc_diary_receipt_dto := None,
       nc_diary_pending := False, nc_diary_state := [], nc_diary_reason := [], nc_diary_error := [],
       nc_diary_receipt_ok := False\<rparr>"

definition cancel_diary_book :: "'s service_port \<Rightarrow> 's native_client \<Rightarrow> 's native_client" where
  "cancel_diary_book port c =
     (let c = c\<lparr>nc_diary_serial := nc_diary_serial c + 1\<rparr>;
          c = cancel_some port (nc_diary_request c) c;
          c = cancel_some port (nc_diary_receipt c) c
      in diary_cleared c)"

definition request_diary_book ::
  "client_env \<Rightarrow> 's service_port \<Rightarrow> 's native_client \<Rightarrow> lua_pair \<times> 's native_client" where
  "request_diary_book env port c =
     (if \<not> client_ready c then (failure_pair ''not_ready'', c)
      else if nc_diary_request c \<noteq> None \<or> nc_diary_receipt c \<noteq> None \<or> nc_diary_pending c
      then (failure_pair ''diary_request_pending'', c)
      else caught
        (step_then (draw_uuid env) (\<lambda>request.
         step_then (draw_uuid env) (\<lambda>message.
         step_then (\<lambda>c. enqueue_payload port (StrongId request) RK_diary_book_query
           (DiaryBookQueryRequest \<lparr>dbq_message = StrongId message,
              dbq_correlation = correlation_of port (StrongId request) c\<rparr>) c) (\<lambda>_.
         step_then (updating (\<lambda>c. c\<lparr>nc_diary_request := Some (StrongId request), nc_diary_book := None,
              nc_diary_receipt_dto := None, nc_diary_error := [], nc_diary_state := []\<rparr>)) (\<lambda>_.
           returns (success_pair request)))))) c)"

text \<open>
  \<open>materializeDiaryBook\<close> queues the creation of the book for the engine's main thread. The action
  runs later, only in the same session and generation and unless the diary was cancelled meanwhile;
  \<open>created\<close> is the outcome of the engine: none on success, or the reason of the failure.
\<close>

definition materialize_diary_book ::
  "'s service_port \<Rightarrow> string \<Rightarrow> 's native_client \<Rightarrow> lua_pair \<times> 's native_client" where
  "materialize_diary_book port delivery c =
     (case nc_diary_book c of
        None \<Rightarrow> (failure_pair ''invalid_payload'', c)
      | Some book \<Rightarrow>
          if \<not> client_ready c \<or> id_value (db_delivery book) \<noteq> delivery then (failure_pair ''invalid_payload'', c)
          else if nc_diary_pending c \<or> nc_diary_state c \<noteq> [] then (success_pair delivery, c)
          else
            (success_pair delivery,
             c\<lparr>nc_diary_pending := True, nc_diary_reason := [],
               nc_actions := nc_actions c
                 @ [Materialize_book book (session_text c) (client_generation port c) (nc_diary_serial c)]\<rparr>))"

definition run_materialize_book ::
  "'s service_port \<Rightarrow> string option \<Rightarrow> string \<Rightarrow> u64 \<Rightarrow> u64 \<Rightarrow> 's native_client \<Rightarrow> 's native_client" where
  "run_materialize_book port created session generation serial c =
     (if serial \<noteq> nc_diary_serial c \<or> \<not> client_ready c \<or> session_text c \<noteq> session
         \<or> client_generation port c \<noteq> generation
      then c
      else
        case created of
          None \<Rightarrow> c\<lparr>nc_diary_pending := False, nc_diary_state := ''succeeded'', nc_diary_reason := []\<rparr>
        | Some reason \<Rightarrow> c\<lparr>nc_diary_pending := False, nc_diary_state := ''failed'', nc_diary_reason := reason\<rparr>)"

definition diary_book_status :: "string \<Rightarrow> 's native_client \<Rightarrow> lua" where
  "diary_book_status delivery c =
     (if (case nc_diary_book c of None \<Rightarrow> True | Some book \<Rightarrow> id_value (db_delivery book) \<noteq> delivery)
      then lua_record [(''pending'', LBool (nc_diary_pending c)), (''status'', LText ''failed''),
                       (''reason_code'', LText ''invalid_payload'')]
      else lua_record [(''pending'', LBool (nc_diary_pending c)),
                       (''status'', if nc_diary_state c = [] then LNil else LText (nc_diary_state c)),
                       (''reason_code'', if nc_diary_reason c = [] then LNil else LText (nc_diary_reason c))])"

definition diary_receipt_of ::
  "client_env \<Rightarrow> 's service_port \<Rightarrow> diary_book \<Rightarrow> string \<Rightarrow> string \<Rightarrow> string \<Rightarrow> string \<Rightarrow> 's native_client
   \<Rightarrow> diary_book_result_request" where
  "diary_receipt_of env port book request message status reason c =
     \<lparr>dbr_message = StrongId message, dbr_correlation = correlation_of port (StrongId request) c,
      dbr_delivery = db_delivery book, dbr_book = db_book book, dbr_content_hash = db_content_hash book,
      dbr_status = (if status = ''succeeded'' then DCS_succeeded else DCS_failed),
      dbr_reason_code = reason, dbr_completed_at = ce_utc_now env\<rparr>"

text \<open>The first receipt is kept; later calls must agree with it and send it again under a new request.\<close>

definition submit_diary_book_result ::
  "client_env \<Rightarrow> 's service_port \<Rightarrow> string \<Rightarrow> string \<Rightarrow> string option \<Rightarrow> 's native_client
   \<Rightarrow> lua_pair \<times> 's native_client" where
  "submit_diary_book_result env port delivery status reason c =
     (let reason = (case reason of None \<Rightarrow> [] | Some r \<Rightarrow> r); invalid = (failure_pair ''invalid_payload'', c) in
      case nc_diary_book c of
        None \<Rightarrow> invalid
      | Some book \<Rightarrow>
          if \<not> client_ready c \<or> id_value (db_delivery book) \<noteq> delivery then invalid
          else if nc_diary_receipt c \<noteq> None then (failure_pair ''diary_receipt_pending'', c)
          else if status \<noteq> ''succeeded'' \<and> status \<noteq> ''failed'' then invalid
          else if nc_diary_pending c \<or> (status = ''succeeded'' \<and> nc_diary_state c \<noteq> ''succeeded'') then invalid
          else if nc_diary_state c \<noteq> [] \<and> (status \<noteq> nc_diary_state c \<or> reason \<noteq> nc_diary_reason c) then invalid
          else caught
            (step_then (draw_uuid env) (\<lambda>request.
             step_then (draw_uuid env) (\<lambda>message.
             step_then (updating (\<lambda>c. if nc_diary_receipt_dto c = None
               then c\<lparr>nc_diary_receipt_dto := Some (diary_receipt_of env port book request message status reason c)\<rparr>
               else c)) (\<lambda>_.
             step_then (reading (\<lambda>c. the (nc_diary_receipt_dto c))) (\<lambda>dto.
             step_then (if dbr_reason_code dto \<noteq> reason \<or> (dbr_status dto = DCS_succeeded) \<noteq> (status = ''succeeded'')
               then throws ''invalid_payload'' else returns ()) (\<lambda>_.
             step_then (enqueue_payload port (StrongId request) RK_diary_book_result
               (DiaryBookResultRequest (dto\<lparr>dbr_correlation := (dbr_correlation dto)\<lparr>corr_request := StrongId request\<rparr>\<rparr>))) (\<lambda>_.
             step_then (updating (\<lambda>c. c\<lparr>nc_diary_receipt := Some (StrongId request), nc_diary_receipt_ok := False,
                 nc_diary_error := []\<rparr>)) (\<lambda>_.
               returns (success_pair request))))))))) c)"

section \<open>Debug commands\<close>

definition request_debug_command ::
  "client_env \<Rightarrow> 's service_port \<Rightarrow> 's native_client \<Rightarrow> lua_pair \<times> 's native_client" where
  "request_debug_command env port c =
     (if \<not> client_ready c then (failure_pair ''bridge_not_ready'', c)
      else if nc_debug_request c \<noteq> None then (failure_pair ''debug_request_pending'', c)
      else caught
        (step_then (draw_uuid env) (\<lambda>request.
         step_then (draw_uuid env) (\<lambda>message.
         step_then (\<lambda>c. enqueue_payload port (StrongId request) RK_debug_command_query
           (DebugCommandQueryRequest \<lparr>dcq_message = StrongId message,
              dcq_correlation = correlation_of port (StrongId request) c\<rparr>) c) (\<lambda>_.
         step_then (updating (\<lambda>c. c\<lparr>nc_debug_request := Some (StrongId request), nc_debug_command := None,
              nc_debug_error := []\<rparr>)) (\<lambda>_.
           returns (success_pair request)))))) c)"

definition debug_status_of :: "string \<Rightarrow> string + debug_command_result_status" where
  "debug_status_of status =
     (if status = ''succeeded'' then Inr DCS_succeeded
      else if status = ''failed'' then Inr DCS_failed
      else if status = ''rejected'' then Inr DCS_rejected
      else Inl ''invalid_debug_result_status'')"

definition submit_debug_command_result ::
  "client_env \<Rightarrow> 's service_port \<Rightarrow> string \<Rightarrow> string \<Rightarrow> string \<Rightarrow> lua_table \<Rightarrow> 's native_client
   \<Rightarrow> lua_pair \<times> 's native_client" where
  "submit_debug_command_result env port command status reason observed c =
     (if \<not> client_ready c then (failure_pair ''bridge_not_ready'', c)
      else caught
        (step_then (lifted (debug_status_of status)) (\<lambda>mapped.
         step_then (draw_uuid env) (\<lambda>request.
         step_then (draw_uuid env) (\<lambda>message.
         step_then (lifted (json_of (LTable observed))) (\<lambda>serialized.
         step_then (\<lambda>c. enqueue_payload port (StrongId request) RK_debug_command_result
           (DebugCommandResultRequest \<lparr>dcr_message = StrongId message,
              dcr_correlation = correlation_of port (StrongId request) c, dcr_command = StrongId command,
              dcr_status = mapped, dcr_reason_code = reason, dcr_serialized_observed = serialized,
              dcr_completed_at = ce_utc_now env\<rparr>) c) (\<lambda>_.
           returns (success_pair request))))))) c)"

section \<open>Media\<close>

definition codec_of :: "string \<Rightarrow> string + media_codec" where
  "codec_of name =
     (if name = ''wav'' then Inr MC_wav else if name = ''ogg'' then Inr MC_ogg
      else if name = ''mp3'' then Inr MC_mp3 else Inl ''unsupported media codec'')"

definition cache_path_of :: "client_config \<Rightarrow> string \<Rightarrow> media_codec \<Rightarrow> string list" where
  "cache_path_of config hash codec = [cc_cache_root config, take 2 hash, hash @ CHR ''.'' # codec_name codec]"

definition descriptor_of ::
  "client_env \<Rightarrow> lua_table \<Rightarrow> string \<Rightarrow> string \<Rightarrow> media_codec \<Rightarrow> string + media_descriptor" where
  "descriptor_of env dto media hash codec =
     and_then (parse_sha256 hash) (\<lambda>sha256.
     and_then (get_unsigned env ''bytes'' dto) (\<lambda>bytes.
     and_then (get_text env ''expires_at'' dto) (\<lambda>expires_at.
     and_then (parse_utc env expires_at) (\<lambda>expires.
       Inr \<lparr>md_id = StrongId media, md_sha256 = sha256, md_bytes = unat bytes, md_codec = codec, md_expires_at = expires\<rparr>))))"

definition enqueue_media ::
  "'s service_port \<Rightarrow> string \<Rightarrow> media_descriptor \<Rightarrow> ('s native_client, RequestId) step_of" where
  "enqueue_media port request descriptor c =
     enqueue_payload port (StrongId request) RK_media
       (MediaPrepareRequest \<lparr>mp_correlation = correlation_of port (StrongId request) c, mp_descriptor = descriptor\<rparr>) c"

definition preparing_media :: "client_config \<Rightarrow> string \<Rightarrow> media_codec \<Rightarrow> RequestId \<Rightarrow> media_state" where
  "preparing_media config hash codec request =
     \<lparr>mst_state = ''preparing'', mst_cache_path = cache_path_of config hash codec, mst_reason = [],
      mst_request = Some request\<rparr>"

definition prepare_media ::
  "client_env \<Rightarrow> 's service_port \<Rightarrow> lua_table \<Rightarrow> 's native_client \<Rightarrow> lua_pair \<times> 's native_client" where
  "prepare_media env port dto c =
     (if \<not> client_ready c then (failure_pair ''bridge_not_ready'', c)
      else caught
        (step_then (lifted (get_text env ''media_id'' dto)) (\<lambda>media.
         step_then (lifted (get_text env ''sha256'' dto)) (\<lambda>hash.
         step_then (lifted (get_text env ''codec'' dto)) (\<lambda>name.
         step_then (lifted (codec_of name)) (\<lambda>codec.
         step_then (lifted (descriptor_of env dto media hash codec)) (\<lambda>descriptor.
         step_then (draw_uuid env) (\<lambda>request.
         step_then (enqueue_media port request descriptor) (\<lambda>_.
         step_then (updating (\<lambda>c. c\<lparr>nc_media :=
             map_put media (preparing_media (the (nc_config c)) hash codec (StrongId request)) (nc_media c)\<rparr>)) (\<lambda>_.
           returns (success_pair request)))))))))) c)"

definition release_media :: "string \<Rightarrow> 's native_client \<Rightarrow> bool \<times> 's native_client" where
  "release_media media c = (map_of (nc_media c) media \<noteq> None, c\<lparr>nc_media := erase_key media (nc_media c)\<rparr>)"

section \<open>Menu dialogue\<close>

text \<open>A speech request takes precedence over the poll for events.\<close>

definition yield_poll :: "'s service_port \<Rightarrow> 's native_client \<Rightarrow> 's native_client" where
  "yield_poll port c =
     (case nc_poll_request c of
        None \<Rightarrow> c
      | Some request \<Rightarrow> (call_cancel port request c)\<lparr>nc_poll_request := None\<rparr>)"

definition request_menu_dialogue_tts ::
  "client_env \<Rightarrow> 's service_port \<Rightarrow> lua_table \<Rightarrow> string \<Rightarrow> 's native_client \<Rightarrow> lua_pair \<times> 's native_client" where
  "request_menu_dialogue_tts env port actor spoken c =
     (if \<not> client_ready c then (failure_pair ''bridge_not_ready'', c)
      else caught
        (step_then (if spoken = [] \<or> 16 * 1024 < length spoken then throws ''invalid_menu_dialogue_text'' else returns ()) (\<lambda>_.
         step_then (updating (yield_poll port)) (\<lambda>_.
         step_then (draw_uuid env) (\<lambda>request.
         step_then (draw_uuid env) (\<lambda>message.
         step_then (lifted (json_of (LTable actor))) (\<lambda>serialized.
         step_then (\<lambda>c. enqueue_payload port (StrongId request) RK_menu_dialogue_tts
           (MenuDialogueTtsRequest \<lparr>mt_message = StrongId message,
              mt_correlation = correlation_of port (StrongId request) c, mt_created_at = ce_utc_now env,
              mt_serialized_actor = serialized, mt_text = spoken\<rparr>) c) (\<lambda>_.
         step_then (updating (\<lambda>c. c\<lparr>nc_menu_dialogues := map_emplace request
             \<lparr>mdl_state = ''requesting'', mdl_reason = [], mdl_request = Some (StrongId request), mdl_media = None\<rparr>
             (nc_menu_dialogues c)\<rparr>)) (\<lambda>_.
           returns (success_pair request))))))))) c)"

text \<open>One round of the loop of \<open>cancelMenuDialogueTts\<close>: media that no other dialogue uses goes with it.\<close>

definition uses_media :: "string \<Rightarrow> menu_dialogue \<Rightarrow> bool" where
  "uses_media media d \<longleftrightarrow> (case mdl_media d of None \<Rightarrow> False | Some m \<Rightarrow> id_value (cm_media m) = media)"

definition drop_media :: "'s service_port \<Rightarrow> string \<Rightarrow> 's native_client \<Rightarrow> 's native_client" where
  "drop_media port media c =
     (if list_ex (\<lambda>p. uses_media media (snd p)) (nc_menu_dialogues c) then c
      else
        let c = (case map_of (nc_media c) media of None \<Rightarrow> c | Some m \<Rightarrow> cancel_some port (mst_request m) c)
        in c\<lparr>nc_media := erase_key media (nc_media c)\<rparr>)"

definition cancel_menu_dialogue :: "'s service_port \<Rightarrow> string \<Rightarrow> menu_dialogue \<Rightarrow> 's native_client \<Rightarrow> 's native_client" where
  "cancel_menu_dialogue port request d c =
     (let c = cancel_some port (mdl_request d) c;
          c = c\<lparr>nc_menu_dialogues := erase_key request (nc_menu_dialogues c)\<rparr>
      in case mdl_media d of None \<Rightarrow> c | Some m \<Rightarrow> drop_media port (id_value (cm_media m)) c)"

definition cancel_menu_dialogue_tts ::
  "'s service_port \<Rightarrow> string option \<Rightarrow> 's native_client \<Rightarrow> bool \<times> 's native_client" where
  "cancel_menu_dialogue_tts port request c =
     (case request of
        None \<Rightarrow> (nc_menu_dialogues c \<noteq> [], fold (\<lambda>(k, d). cancel_menu_dialogue port k d) (nc_menu_dialogues c) c)
      | Some k \<Rightarrow>
          (case map_of (nc_menu_dialogues c) k of
             None \<Rightarrow> (False, c)
           | Some d \<Rightarrow> (True, cancel_menu_dialogue port k d c)))"

section \<open>Rewriting the player's line\<close>

definition request_player_autochat ::
  "client_env \<Rightarrow> 's service_port \<Rightarrow> lua_table \<Rightarrow> lua_table \<Rightarrow> string \<Rightarrow> 's native_client \<Rightarrow> lua_pair \<times> 's native_client" where
  "request_player_autochat env port player target intent c =
     (if \<not> client_ready c then (failure_pair ''bridge_not_ready'', c)
      else if intent = [] \<or> 16 * 1024 < length intent then (failure_pair ''invalid_player_autochat_intent'', c)
      else if nc_player_autochats c \<noteq> [] then (failure_pair ''player_autochat_busy'', c)
      else caught
        (step_then (updating (yield_poll port)) (\<lambda>_.
         step_then (draw_uuid env) (\<lambda>request.
         step_then (draw_uuid env) (\<lambda>message.
         step_then (lifted (json_of (LTable player))) (\<lambda>serialized_player.
         step_then (lifted (json_of (LTable target))) (\<lambda>serialized_target.
         step_then (\<lambda>c. enqueue_payload port (StrongId request) RK_player_autochat
           (PlayerAutochatRequest \<lparr>pa_message = StrongId message,
              pa_correlation = correlation_of port (StrongId request) c, pa_created_at = ce_utc_now env,
              pa_serialized_player = serialized_player, pa_serialized_target = serialized_target, pa_intent = intent\<rparr>) c) (\<lambda>_.
         step_then (updating (\<lambda>c. c\<lparr>nc_player_autochats := map_emplace request
             \<lparr>pau_state = ''requesting'', pau_text = [], pau_reason = [], pau_request = Some (StrongId request)\<rparr>
             (nc_player_autochats c)\<rparr>)) (\<lambda>_.
           returns (success_pair request))))))))) c)"

definition cancel_player_autochat ::
  "'s service_port \<Rightarrow> string option \<Rightarrow> 's native_client \<Rightarrow> bool \<times> 's native_client" where
  "cancel_player_autochat port request c =
     (let cancel = (\<lambda>(k, a) c. (cancel_some port (pau_request a) c)\<lparr>nc_player_autochats := erase_key k (nc_player_autochats c)\<rparr>) in
      case request of
        None \<Rightarrow> (nc_player_autochats c \<noteq> [], fold cancel (nc_player_autochats c) c)
      | Some k \<Rightarrow>
          (case map_of (nc_player_autochats c) k of
             None \<Rightarrow> (False, c)
           | Some a \<Rightarrow> (True, cancel (k, a) c)))"

section \<open>The delivery of dialogue\<close>

definition delivery_status_of :: "string \<Rightarrow> string + dialogue_delivery_status" where
  "delivery_status_of status =
     (if status = ''played'' then Inr DDS_played
      else if status = ''failed'' then Inr DDS_failed
      else if status = ''expired'' then Inr DDS_expired
      else if status = ''interrupted'' then Inr DDS_interrupted
      else Inl ''invalid dialogue delivery status'')"

definition delivery_result_of ::
  "client_env \<Rightarrow> lua_table \<Rightarrow> dialogue_delivery_status \<Rightarrow> request_correlation \<Rightarrow> string + dialogue_delivery_result_request" where
  "delivery_result_of env dto status correlation =
     and_then (get_text env ''message_id'' dto) (\<lambda>message.
     and_then (get_text env ''dialogue_message_id'' dto) (\<lambda>dialogue_message.
     and_then (get_text env ''turn_id'' dto) (\<lambda>turn.
     and_then (json_of (lua_field ''speaker'' dto)) (\<lambda>speaker.
     and_then (get_text env ''reason_code'' dto) (\<lambda>reason.
     and_then (get_text env ''completed_at'' dto) (\<lambda>completed_at.
       Inr \<lparr>dd_message = StrongId message, dd_correlation = correlation, dd_dialogue_message = StrongId dialogue_message,
            dd_turn = StrongId turn, dd_serialized_speaker = speaker, dd_status = status, dd_reason_code = reason,
            dd_completed_at = completed_at\<rparr>))))))"

definition submit_dialogue_delivery_result ::
  "client_env \<Rightarrow> 's service_port \<Rightarrow> lua_table \<Rightarrow> 's native_client \<Rightarrow> lua_pair \<times> 's native_client" where
  "submit_dialogue_delivery_result env port dto c =
     (if \<not> client_ready c then (failure_pair ''bridge_not_ready'', c)
      else caught
        (step_then (lifted (get_text env ''status'' dto)) (\<lambda>name.
         step_then (lifted (delivery_status_of name)) (\<lambda>status.
         step_then (lifted (get_text env ''request_id'' dto)) (\<lambda>correlated.
         step_then (draw_uuid env) (\<lambda>transport_request.
         step_then (reading (correlation_of port (StrongId correlated))) (\<lambda>correlation.
         step_then (lifted (delivery_result_of env dto status correlation)) (\<lambda>result.
         step_then (enqueue_payload port (StrongId transport_request) RK_dialogue_delivery_result
           (DialogueDeliveryResultRequest result)) (\<lambda>_.
           returns (success_pair transport_request))))))))) c)"

end
