(* ===== verification/Client_Transfers.thy ===== *)
theory Client_Transfers
  imports Client_Exchanges
begin

text \<open>
  The actions that \<open>NativeClient\<close> commits in the engine itself: transfers of items and gold, services,
  spells and the advanced actions. An action intent is retained with the snapshot of its turn, waits
  for its confirmation, is queued for the engine's main thread and commits there at most once; its
  receipt is kept and sent until the server accepts it. What the engine does is an argument.
\<close>

section \<open>Kinds of actions\<close>

definition service_name :: "action_intent_kind \<Rightarrow> string" where
  "service_name kind =
     (if kind = AI_service_barter then ''barter''
      else if kind = AI_service_training then ''training''
      else if kind = AI_service_spells then ''spells''
      else if kind = AI_service_travel then ''travel''
      else if kind = AI_service_spellmaking then ''spellmaking''
      else if kind = AI_service_enchanting then ''enchanting''
      else if kind = AI_service_repair then ''repair''
      else [])"

definition advanced_kind :: "action_intent_kind \<Rightarrow> bool" where
  "advanced_kind kind \<longleftrightarrow>
     kind \<in> {AI_item_create, AI_gold_create, AI_actor_spawn, AI_actor_teleport_to_player, AI_player_teleport,
             AI_actor_restore, AI_actor_resurrect, AI_actor_kill}"

definition transfer_kind :: "action_intent_kind \<Rightarrow> bool" where
  "transfer_kind kind \<longleftrightarrow>
     advanced_kind kind \<or> kind = AI_spell_cast \<or> service_name kind \<noteq> []
     \<or> kind \<in> {AI_item_give, AI_item_take, AI_item_pickup, AI_gold_give, AI_gold_take}"

definition same_transfer_actor :: "protocol_identity \<Rightarrow> protocol_identity \<Rightarrow> bool" where
  "same_transfer_actor left right \<longleftrightarrow>
     pid_kind left = pid_kind right \<and> pid_record_id left = pid_record_id right
     \<and> pid_content_file left = pid_content_file right \<and> pid_refnum_index left = pid_refnum_index right
     \<and> pid_refnum_content_file left = pid_refnum_content_file right"

section \<open>Retaining and cancelling\<close>

definition new_transfer :: "action_intent \<Rightarrow> nat option \<Rightarrow> transfer_record" where
  "new_transfer intent snapshot =
     \<lparr>tr_intent = intent, tr_snapshot = snapshot, tr_gate = Gate_fresh, tr_spell_hook = False, tr_spell_started = False,
      tr_status = (if snapshot = None then ''failed'' else ''awaiting_confirmation''),
      tr_reason = (if snapshot = None then ''observation_unavailable'' else []),
      tr_receipt = None, tr_receipt_request = None, tr_receipt_status = ''not_submitted'', tr_receipt_reason = []\<rparr>"

definition cancelled_transfer :: "transfer_record \<Rightarrow> transfer_record" where
  "cancelled_transfer r =
     (if tr_spell_hook r \<and> tr_status r = ''pending''
      then r\<lparr>tr_status := ''cancelled'', tr_reason := ''cancelled'', tr_gate := gate_finish (tr_gate r)\<rparr>
      else if tr_status r = ''pending'' \<or> tr_status r = ''awaiting_confirmation''
      then
        (case gate_cancel (tr_gate r) of
           (gate, True) \<Rightarrow> r\<lparr>tr_gate := gate, tr_status := ''cancelled'', tr_reason := ''cancelled''\<rparr>
         | (gate, False) \<Rightarrow> r\<lparr>tr_gate := gate\<rparr>)
      else r)"

definition update_transfer :: "string \<Rightarrow> (transfer_record \<Rightarrow> transfer_record) \<Rightarrow> 's native_client \<Rightarrow> 's native_client" where
  "update_transfer action f c = c\<lparr>nc_transfers := update_key action f (nc_transfers c)\<rparr>"

definition cancel_transfer :: "string \<Rightarrow> 's native_client \<Rightarrow> 's native_client" where
  "cancel_transfer action = update_transfer action cancelled_transfer"

text \<open>\<open>retainTransfer\<close>: the end of a turn cancels what the turn asked for; an intent is kept once.\<close>

definition retain_transfer :: "'s service_port \<Rightarrow> protocol_event \<Rightarrow> 's native_client \<Rightarrow> 's native_client" where
  "retain_transfer port e c =
     (let c = sync_transfer_scope port c; correlation = pe_correlation e in
      if id_value (rc_session correlation) \<noteq> nc_transfer_session c
         \<or> gen_value (rc_generation correlation) \<noteq> nc_transfer_generation c
      then c
      else
        let snapshot = map_of (nc_transfer_snapshots c) (id_value (rc_turn correlation)) in
        if pe_type e = PT_turn_cancelled \<or> pe_type e = PT_turn_failed
        then
          let c = (case snapshot of
                     None \<Rightarrow> c
                   | Some i \<Rightarrow> c\<lparr>nc_snapshot_store :=
                       (nc_snapshot_store c)[i := (nc_snapshot_store c ! i)\<lparr>tsn_cancelled := True\<rparr>]\<rparr>)
          in c\<lparr>nc_transfers := map_values (\<lambda>_ r. if ai_turn (tr_intent r) = rc_turn correlation
                                              then cancelled_transfer r else r) (nc_transfers c)\<rparr>
        else
          case pe_payload e of
            ActionIntentEvent intent \<Rightarrow>
              if pe_type e \<noteq> PT_action_intent \<or> \<not> transfer_kind (ip_kind (ai_parameters intent))
                 \<or> map_of (nc_transfers c) (id_value (ai_action intent)) \<noteq> None \<or> 256 \<le> length (nc_transfers c)
              then c
              else c\<lparr>nc_transfers := map_put (id_value (ai_action intent)) (new_transfer intent snapshot) (nc_transfers c)\<rparr>
          | _ \<Rightarrow> c)"

section \<open>Executing\<close>

text \<open>
  The outcome of the engine's part of \<open>commitTransfer\<close>: success, a failure with its reason, or a spell
  that was started and will report its end through the hook.
\<close>

datatype commit_outcome = Committed string | Commit_failed string | Spell_started

definition transfer_expired :: "client_env \<Rightarrow> transfer_record \<Rightarrow> bool" where
  "transfer_expired env r \<longleftrightarrow>
     (case parse_utc env (ai_expires_at (tr_intent r)) of Inl _ \<Rightarrow> True | Inr t \<Rightarrow> t \<le> ce_system_now env)"

definition finished_transfer :: "transfer_record \<Rightarrow> transfer_record" where
  "finished_transfer r = (if tr_status r \<noteq> ''pending'' then r\<lparr>tr_gate := gate_finish (tr_gate r)\<rparr> else r)"

text \<open>
  \<open>commitTransfer\<close> and the end of the action. Where \<open>parseUtc\<close> throws, the exception leaves the action
  before the gate is finished; the hooks of a spell only see intents whose expiry was read here.
\<close>

definition committed_transfer ::
  "client_env \<Rightarrow> commit_outcome \<Rightarrow> transfer_snapshot option \<Rightarrow> transfer_record \<Rightarrow> transfer_record" where
  "committed_transfer env outcome snapshot r =
     (if (case snapshot of None \<Rightarrow> True | Some s \<Rightarrow> tsn_cancelled s)
      then finished_transfer (r\<lparr>tr_status := ''cancelled'', tr_reason := ''cancelled''\<rparr>)
      else
        case parse_utc env (ai_expires_at (tr_intent r)) of
          Inl _ \<Rightarrow> r\<lparr>tr_status := ''failed'', tr_reason := ''transfer_precondition_failed''\<rparr>
        | Inr expires \<Rightarrow> finished_transfer
            (if expires \<le> ce_system_now env then r\<lparr>tr_status := ''failed'', tr_reason := ''action_expired''\<rparr>
             else
               case outcome of
                 Committed reason \<Rightarrow> r\<lparr>tr_status := ''succeeded'', tr_reason := reason\<rparr>
               | Commit_failed reason \<Rightarrow> r\<lparr>tr_status := ''failed'', tr_reason := reason\<rparr>
               | Spell_started \<Rightarrow> r\<lparr>tr_spell_hook := True, tr_status := ''pending'', tr_reason := []\<rparr>))"

text \<open>The action in the queue of the main thread; true when the engine was asked to commit.\<close>

definition run_commit_transfer ::
  "client_env \<Rightarrow> 's service_port \<Rightarrow> commit_outcome \<Rightarrow> string \<Rightarrow> string \<Rightarrow> u64 \<Rightarrow> 's native_client
   \<Rightarrow> bool \<times> 's native_client" where
  "run_commit_transfer env port outcome action session generation c =
     (if \<not> client_ready c \<or> session_text c \<noteq> session \<or> client_generation port c \<noteq> generation then (False, c)
      else
        case map_of (nc_transfers c) action of
          None \<Rightarrow> (False, c)
        | Some r \<Rightarrow>
            if tr_status r \<noteq> ''pending'' then (False, c)
            else
              case gate_begin (tr_gate r) of
                (gate, False) \<Rightarrow> (False, update_transfer action (\<lambda>r. r\<lparr>tr_gate := gate\<rparr>) c)
              | (gate, True) \<Rightarrow>
                  let snapshot = map_option (\<lambda>i. nc_snapshot_store c ! i) (tr_snapshot r);
                      r = committed_transfer env outcome snapshot (r\<lparr>tr_gate := gate\<rparr>)
                  in (True, update_transfer action (\<lambda>_. r) c))"

text \<open>
  \<open>executeTransfer\<close> before its report: a spell whose cast stopped or whose intent expired fails, and an
  intent that waits is queued. \<open>casting\<close> says whether the engine still casts the spell.
\<close>

definition checked_transfer :: "client_env \<Rightarrow> bool \<Rightarrow> transfer_record \<Rightarrow> transfer_record" where
  "checked_transfer env casting r =
     (let r = (if tr_spell_hook r \<and> tr_spell_started r \<and> tr_status r = ''pending'' \<and> \<not> casting
               then r\<lparr>tr_status := ''failed'', tr_reason := ''cast_interrupted'', tr_spell_hook := False,
                      tr_gate := gate_finish (tr_gate r)\<rparr> else r)
      in if tr_spell_hook r \<and> tr_status r = ''pending'' \<and> transfer_expired env r
         then r\<lparr>tr_status := ''failed'', tr_reason := ''action_expired'', tr_gate := gate_finish (tr_gate r)\<rparr>
         else r)"

definition queue_transfer :: "string \<Rightarrow> 's native_client \<Rightarrow> 's native_client" where
  "queue_transfer action c =
     (case map_of (nc_transfers c) action of
        None \<Rightarrow> c
      | Some r \<Rightarrow>
          if tr_status r \<noteq> ''awaiting_confirmation'' then c
          else
            case gate_queue (tr_gate r) of
              (gate, False) \<Rightarrow> c
            | (gate, True) \<Rightarrow>
                (update_transfer action (\<lambda>r. r\<lparr>tr_gate := gate, tr_status := ''pending''\<rparr>) c)
                \<lparr>nc_actions := nc_actions c @ [Commit_transfer action (nc_transfer_session c) (nc_transfer_generation c)]\<rparr>)"

definition execute_transfer ::
  "client_env \<Rightarrow> 's service_port \<Rightarrow> bool \<Rightarrow> string \<Rightarrow> 's native_client \<Rightarrow> (string \<times> string) \<times> 's native_client" where
  "execute_transfer env port casting action c =
     (let c = sync_transfer_scope port c in
      case map_of (nc_transfers c) action of
        None \<Rightarrow> ((''failed'', ''unretained_action''), c)
      | Some _ \<Rightarrow>
          let c = queue_transfer action (update_transfer action (checked_transfer env casting) c);
              r = the (map_of (nc_transfers c) action)
          in ((tr_status r, tr_reason r), c))"

text \<open>The hooks of the engine around a cast; \<open>action\<close> is what \<open>pendingSpell\<close> finds for the caster.\<close>

definition spell_finished :: "bool \<Rightarrow> string \<Rightarrow> transfer_record \<Rightarrow> transfer_record" where
  "spell_finished success failure r =
     (let r = (if tr_status r = ''pending''
               then r\<lparr>tr_status := (if success then ''succeeded'' else ''failed''),
                      tr_reason := (if success then ''cast_launched'' else failure), tr_gate := gate_finish (tr_gate r)\<rparr>
               else r)
      in r\<lparr>tr_spell_hook := False\<rparr>)"

definition spell_start_allowed ::
  "client_env \<Rightarrow> 's service_port \<Rightarrow> string option \<Rightarrow> string \<Rightarrow> 's native_client \<Rightarrow> bool \<times> 's native_client" where
  "spell_start_allowed env port action selected_spell c =
     (case action of
        None \<Rightarrow> (True, c)
      | Some a \<Rightarrow>
          let r = the (map_of (nc_transfers c) a); snapshot = nc_snapshot_store c ! the (tr_snapshot r) in
          if tr_status r \<noteq> ''pending'' \<or> \<not> client_ready c \<or> tsn_session snapshot \<noteq> session_text c
             \<or> tsn_generation snapshot \<noteq> client_generation port c \<or> transfer_expired env r
             \<or> selected_spell \<noteq> ip_string_parameter (ai_parameters (tr_intent r))
          then (False, update_transfer a (\<lambda>r. (if tr_status r = ''pending''
                  then r\<lparr>tr_status := ''failed'', tr_reason := ''cast_interrupted'', tr_gate := gate_finish (tr_gate r)\<rparr>
                  else r)\<lparr>tr_spell_hook := False\<rparr>) c)
          else (True, update_transfer a (\<lambda>r. r\<lparr>tr_spell_started := True\<rparr>) c))"

section \<open>Receipts\<close>

definition transfer_receipt_status :: "string \<Rightarrow> 's native_client \<Rightarrow> lua" where
  "transfer_receipt_status action c =
     (case map_of (nc_transfers c) action of
        None \<Rightarrow> lua_record [(''status'', LText ''failed''), (''reason_code'', LText ''unretained_action'')]
      | Some r \<Rightarrow> lua_record
          [(''status'', LText (tr_receipt_status r)),
           (''reason_code'', if tr_receipt_reason r = [] then LNil else LText (tr_receipt_reason r))])"

text \<open>Only a response that names the receipt in every identifier accepts it.\<close>

definition json_headers :: headers where
  "json_headers = [(''Content-Type'', ''application/json; charset=utf-8'')]"

definition receipt_accepted :: "string \<Rightarrow> action_result_request \<Rightarrow> inbound_result \<Rightarrow> bool" where
  "receipt_accepted action receipt result \<longleftrightarrow>
     in_kind result = RS_completed
     \<and> (case parse_action_result_accepted_response (in_payload result) json_headers default_limits of
          Inl _ \<Rightarrow> False
        | Inr a \<Rightarrow>
            id_value (ara_action a) = action \<and> ara_status a = ar_status receipt
            \<and> rc_message (ara_correlation a) = ar_message receipt
            \<and> rc_request (ara_correlation a) = corr_request (ar_correlation receipt)
            \<and> rc_session (ara_correlation a) = corr_session (ar_correlation receipt)
            \<and> rc_generation (ara_correlation a) = corr_generation (ar_correlation receipt)
            \<and> rc_turn (ara_correlation a) = ar_turn receipt)"

definition settled_receipt :: "inbound_result \<Rightarrow> string \<Rightarrow> transfer_record \<Rightarrow> transfer_record" where
  "settled_receipt result action r =
     (if (case tr_receipt r of None \<Rightarrow> False | Some receipt \<Rightarrow> receipt_accepted action receipt result)
      then r\<lparr>tr_receipt_status := ''accepted'', tr_receipt_reason := []\<rparr>
      else r\<lparr>tr_receipt_status := ''failed'', tr_receipt_reason := ''receipt_transport_failed''\<rparr>)"

definition settle_transfer_receipt :: "inbound_result \<Rightarrow> 's native_client \<Rightarrow> bool \<times> 's native_client" where
  "settle_transfer_receipt result c =
     (case find (\<lambda>p. tr_receipt_request (snd p) = Some (in_request result)) (nc_transfers c) of
        None \<Rightarrow> (False, c)
      | Some (action, _) \<Rightarrow> (True, update_transfer action (settled_receipt result action) c))"

definition terminal_status_of :: "string \<Rightarrow> string + action_terminal_status" where
  "terminal_status_of status =
     (if status = ''succeeded'' then Inr ATS_succeeded
      else if status = ''failed'' then Inr ATS_failed
      else if status = ''rejected'' then Inr ATS_rejected
      else if status = ''timed_out'' then Inr ATS_timed_out
      else if status = ''cancelled'' then Inr ATS_cancelled
      else Inl ''invalid action terminal status'')"

definition observed_text :: "client_env \<Rightarrow> lua_table \<Rightarrow> string + string" where
  "observed_text env dto =
     and_then (get_table env ''observed'' dto) (\<lambda>observed.
       if observed = [] then Inr ''{}'' else json_of (LTable observed))"

definition action_result_of ::
  "client_env \<Rightarrow> lua_table \<Rightarrow> action_terminal_status \<Rightarrow> request_correlation \<Rightarrow> string + action_result_request" where
  "action_result_of env dto status correlation =
     and_then (get_text env ''message_id'' dto) (\<lambda>message.
     and_then (get_text env ''action_id'' dto) (\<lambda>action.
     and_then (get_text env ''turn_id'' dto) (\<lambda>turn.
     and_then (get_text env ''reason_code'' dto) (\<lambda>reason.
     and_then (observed_text env dto) (\<lambda>observed.
     and_then (get_text env ''completed_at'' dto) (\<lambda>completed_at.
       Inr \<lparr>ar_message = StrongId message, ar_correlation = correlation, ar_action = StrongId action,
            ar_turn = StrongId turn, ar_status = status, ar_reason_code = reason,
            ar_serialized_observed = observed, ar_completed_at = completed_at\<rparr>))))))"

text \<open>A retained action that Lua rejects or cancels before it committed takes that status.\<close>

definition rejected_transfer :: "string \<Rightarrow> string \<Rightarrow> transfer_record \<Rightarrow> transfer_record" where
  "rejected_transfer status reason r =
     (if status = ''rejected'' \<or> status = ''cancelled'' then
        (case gate_cancel (tr_gate r) of
           (gate, True) \<Rightarrow> r\<lparr>tr_gate := gate, tr_status := status, tr_reason := reason\<rparr>
         | (gate, False) \<Rightarrow> r\<lparr>tr_gate := gate\<rparr>)
      else r)"

definition keep_receipt :: "action_result_request \<Rightarrow> transfer_record \<Rightarrow> transfer_record" where
  "keep_receipt result r = (case tr_receipt r of None \<Rightarrow> r\<lparr>tr_receipt := Some result\<rparr> | Some _ \<Rightarrow> r)"

definition submitted_receipt :: "string \<Rightarrow> transfer_record \<Rightarrow> transfer_record" where
  "submitted_receipt request r =
     r\<lparr>tr_receipt_request := Some (StrongId request), tr_receipt_status := ''pending'', tr_receipt_reason := []\<rparr>"

definition send_action_result ::
  "'s service_port \<Rightarrow> string \<Rightarrow> action_result_request \<Rightarrow> ('s native_client, lua_pair) step_of" where
  "send_action_result port request result =
     step_then (enqueue_payload port (StrongId request) RK_action_result (ActionResultRequest result)) (\<lambda>_.
       returns (success_pair request))"

definition send_receipt ::
  "'s service_port \<Rightarrow> string \<Rightarrow> string \<Rightarrow> string \<Rightarrow> action_result_request \<Rightarrow> ('s native_client, lua_pair) step_of" where
  "send_receipt port request action status result c =
     (let c = update_transfer action (rejected_transfer status (ar_reason_code result)) c;
          r = the (map_of (nc_transfers c) action) in
      if tr_status r \<noteq> status then (Inl ''transfer_terminal_mismatch'', c)
      else if tr_receipt_request r \<noteq> None \<and> (tr_receipt_status r = ''pending'' \<or> tr_receipt_status r = ''accepted'')
      then (Inr (success_pair (id_value (the (tr_receipt_request r)))), c)
      else
        let c = update_transfer action (keep_receipt result) c;
            receipt = the (tr_receipt (the (map_of (nc_transfers c) action)))
        in step_then (send_action_result port request receipt) (\<lambda>answer.
           step_then (updating (update_transfer action (submitted_receipt request))) (\<lambda>_.
             returns answer)) c)"

definition submit_action_result ::
  "client_env \<Rightarrow> 's service_port \<Rightarrow> lua_table \<Rightarrow> 's native_client \<Rightarrow> lua_pair \<times> 's native_client" where
  "submit_action_result env port dto c =
     (if \<not> client_ready c then (failure_pair ''bridge_not_ready'', c)
      else caught
        (step_then (lifted (get_text env ''status'' dto)) (\<lambda>name.
         step_then (lifted (terminal_status_of name)) (\<lambda>status.
         step_then (lifted (get_text env ''request_id'' dto)) (\<lambda>correlated.
         step_then (draw_uuid env) (\<lambda>request.
         step_then (reading (correlation_of port (StrongId correlated))) (\<lambda>correlation.
         step_then (lifted (action_result_of env dto status correlation)) (\<lambda>result.
         step_then (reading (\<lambda>c. map_of (nc_transfers c) (id_value (ar_action result)))) (\<lambda>retained.
           case retained of
             None \<Rightarrow> send_action_result port request result
           | Some _ \<Rightarrow> send_receipt port request (id_value (ar_action result)) name result)))))))) c)"

end
