(* ===== verification/Client_Results.thy ===== *)
theory Client_Results
  imports Client_Transfers
begin

text \<open>
  How \<open>NativeClient\<close> takes the results of the service: the settlement of each kind of exchange, the pumps
  that run while the game is paused, \<open>poll\<close> on the global lane, and the life of a session.
\<close>

definition failure_text :: "inbound_result \<Rightarrow> string" where
  "failure_text result = (case in_failure result of None \<Rightarrow> ''transport_failure'' | Some e \<Rightarrow> err_message e)"

section \<open>Settlement\<close>

definition settle_controls_result :: "inbound_result \<Rightarrow> 's native_client \<Rightarrow> bool \<times> 's native_client" where
  "settle_controls_result result c =
     (if nc_controls_request c \<noteq> Some (in_request result) then (False, c)
      else
        let c = c\<lparr>nc_controls_request := None\<rparr> in
        (True,
         if in_kind result = RS_controls then
           (case parse_controls_response (in_payload result) json_headers default_limits of
              Inr parsed \<Rightarrow> c\<lparr>nc_controls := Some parsed, nc_controls_error := []\<rparr>
            | Inl e \<Rightarrow> c\<lparr>nc_controls_error := err_message e\<rparr>)
         else if in_kind result = RS_failure then c\<lparr>nc_controls_error := failure_text result\<rparr>
         else c\<lparr>nc_controls_error := ''unexpected_controls_response''\<rparr>))"

definition settle_debug_result :: "inbound_result \<Rightarrow> 's native_client \<Rightarrow> bool \<times> 's native_client" where
  "settle_debug_result result c =
     (if nc_debug_request c \<noteq> Some (in_request result) then (False, c)
      else
        let c = c\<lparr>nc_debug_request := None, nc_debug_command := None\<rparr> in
        (True,
         if in_kind result = RS_debug_command then
           (case parse_debug_command_response (in_payload result) json_headers default_limits of
              Inr parsed \<Rightarrow> c\<lparr>nc_debug_command := dcp_command parsed, nc_debug_error := []\<rparr>
            | Inl e \<Rightarrow> c\<lparr>nc_debug_error := err_message e\<rparr>)
         else if in_kind result = RS_failure then c\<lparr>nc_debug_error := failure_text result\<rparr>
         else c\<lparr>nc_debug_error := ''unexpected_debug_response''\<rparr>))"

definition settle_diary_result :: "inbound_result \<Rightarrow> 's native_client \<Rightarrow> bool \<times> 's native_client" where
  "settle_diary_result result c =
     (if nc_diary_request c = Some (in_request result) then
        let c = c\<lparr>nc_diary_request := None, nc_diary_book := None\<rparr> in
        (True,
         if in_kind result = RS_diary_book then
           (case parse_diary_book_response (in_payload result) json_headers default_limits of
              Inr parsed \<Rightarrow> c\<lparr>nc_diary_book := dbk_book parsed\<rparr>
            | Inl e \<Rightarrow> c\<lparr>nc_diary_error := err_message e\<rparr>)
         else c\<lparr>nc_diary_error := ''diary_query_failed''\<rparr>)
      else if nc_diary_receipt c = Some (in_request result) then
        let c = c\<lparr>nc_diary_receipt := None, nc_diary_receipt_ok := (in_kind result = RS_completed)\<rparr> in
        (True, if in_kind result = RS_completed then c else c\<lparr>nc_diary_error := ''diary_receipt_failed''\<rparr>)
      else (False, c))"

definition settled_autochat :: "inbound_result \<Rightarrow> player_autochat \<Rightarrow> player_autochat" where
  "settled_autochat result a =
     (let a = a\<lparr>pau_request := None\<rparr> in
      if in_kind result = RS_player_autochat_ready then
        (case parse_autochat_ready_response (in_payload result) json_headers default_limits of
           Inr parsed \<Rightarrow> a\<lparr>pau_state := ''ready'', pau_text := apr_text parsed, pau_reason := []\<rparr>
         | Inl e \<Rightarrow> a\<lparr>pau_state := ''failed'', pau_reason := err_message e\<rparr>)
      else if in_kind result = RS_failure then a\<lparr>pau_state := ''failed'', pau_reason := failure_text result\<rparr>
      else a\<lparr>pau_state := ''failed'', pau_reason := ''unexpected_player_autochat_response''\<rparr>)"

definition settle_autochat_result :: "inbound_result \<Rightarrow> 's native_client \<Rightarrow> bool \<times> 's native_client" where
  "settle_autochat_result result c =
     (let key = id_value (in_request result) in
      case map_of (nc_player_autochats c) key of
        None \<Rightarrow> (False, c)
      | Some a \<Rightarrow>
          if pau_request a = None then (False, c)
          else (True, c\<lparr>nc_player_autochats := update_key key (settled_autochat result) (nc_player_autochats c)\<rparr>))"

definition settle_disposition_result :: "inbound_result \<Rightarrow> 's native_client \<Rightarrow> bool \<times> 's native_client" where
  "settle_disposition_result result c =
     (let key = id_value (in_request result) in
      case map_of (nc_disposition_receipts c) key of
        None \<Rightarrow> (False, c)
      | Some _ \<Rightarrow>
          (True, c\<lparr>nc_disposition_receipts :=
             update_key key (\<lambda>_. if in_kind result = RS_accepted then ''ok'' else ''disposition_submit_failed'')
               (nc_disposition_receipts c)\<rparr>))"

section \<open>The pumps\<close>

text \<open>
  A pump takes a batch only when the queue of deferred results has room for all of it. What it does
  not settle waits there for \<open>poll\<close>.
\<close>

definition pump_result ::
  "(inbound_result \<Rightarrow> 's native_client \<Rightarrow> bool \<times> 's native_client) \<Rightarrow> inbound_result
   \<Rightarrow> bool \<times> 's native_client \<Rightarrow> bool \<times> 's native_client" where
  "pump_result settle result = (\<lambda>(settled, c).
     case settle result c of
       (True, c) \<Rightarrow> (True, c\<lparr>nc_results_seen := nc_results_seen c + 1\<rparr>)
     | (False, c) \<Rightarrow> (settled, c\<lparr>nc_deferred_results := nc_deferred_results c @ [result]\<rparr>))"

definition service_poll :: "'s service_port \<Rightarrow> nat \<Rightarrow> 's native_client \<Rightarrow> inbound_result list \<times> 's native_client" where
  "service_poll port n c =
     (let (s, results) = sv_poll port n (the (nc_service c)) in (results, c\<lparr>nc_service := Some s\<rparr>))"

definition pump ::
  "'s service_port \<Rightarrow> (inbound_result \<Rightarrow> 's native_client \<Rightarrow> bool \<times> 's native_client) \<Rightarrow> bool
   \<Rightarrow> 's native_client \<Rightarrow> bool \<times> 's native_client" where
  "pump port settle waiting c =
     (if nc_service c \<noteq> None \<and> waiting \<and> length (nc_deferred_results c) + kControlsPumpBatch \<le> kDeferredResultCapacity
      then let (results, c) = service_poll port kControlsPumpBatch c in fold (pump_result settle) results (False, c)
      else (False, c))"

definition error_entry :: "string \<Rightarrow> string \<times> lua" where
  "error_entry e = (''error'', if e = [] then LNil else LText e)"

definition pump_session_controls :: "'s service_port \<Rightarrow> 's native_client \<Rightarrow> lua \<times> 's native_client" where
  "pump_session_controls port c =
     (let (settled, c) = pump port settle_controls_result (nc_controls_request c \<noteq> None) c in
      (lua_record [(''settled'', LBool settled), (''pending'', LBool (nc_controls_request c \<noteq> None)),
                   error_entry (nc_controls_error c)], c))"

text \<open>The names that a parameter of a command may have.\<close>

definition debug_parameter_names :: "string list" where
  "debug_parameter_names =
     [''actor'', ''text'', ''language'', ''enabled'', ''mode'', ''record_id'', ''count'', ''value'', ''stat'', ''attribute'',
      ''skill'', ''cell'', ''x'', ''y'', ''z'', ''region_id'', ''weather'']"

definition debug_command_table :: "debug_command \<Rightarrow> lua" where
  "debug_command_table d = lua_record
     [(''command_id'', lua_id (dc_command d)), (''name'', LText (dc_name d)), (''expires_at'', LText (dc_expires_at d)),
      (''parameters'', lua_record (map (\<lambda>k. (k, lua_option debug_parameter_value (dc_parameters d k))) debug_parameter_names))]"

definition pump_debug_command :: "'s service_port \<Rightarrow> 's native_client \<Rightarrow> lua \<times> 's native_client" where
  "pump_debug_command port c =
     (let (settled, c) = pump port settle_debug_result (nc_debug_request c \<noteq> None) c in
      (lua_record [(''settled'', LBool settled), (''pending'', LBool (nc_debug_request c \<noteq> None)),
                   error_entry (nc_debug_error c), (''command'', lua_option debug_command_table (nc_debug_command c))],
       c\<lparr>nc_debug_command := None\<rparr>))"

definition pump_diary_book :: "'s service_port \<Rightarrow> bool \<Rightarrow> 's native_client \<Rightarrow> lua \<times> 's native_client" where
  "pump_diary_book port receipt c =
     (let (_, c) = pump port settle_diary_result (nc_diary_request c \<noteq> None \<or> nc_diary_receipt c \<noteq> None) c in
      (lua_record
        [(''pending'', LBool (if receipt then nc_diary_receipt c \<noteq> None else nc_diary_request c \<noteq> None)),
         error_entry (nc_diary_error c),
         (''ok'', if receipt then LBool (nc_diary_receipt_ok c) else LNil),
         (''book'', if receipt then LNil else lua_option diary_book_table (nc_diary_book c))], c))"

definition pump_player_autochat :: "'s service_port \<Rightarrow> 's native_client \<Rightarrow> lua \<times> 's native_client" where
  "pump_player_autochat port c =
     (let (settled, c) = pump port settle_autochat_result (nc_player_autochats c \<noteq> []) c in
      (lua_record [(''settled'', LBool settled), (''pending'', LBool (nc_player_autochats c \<noteq> []))], c))"

text \<open>A receipt that is not pending any more is handed to Lua once.\<close>

definition pump_disposition_result :: "'s service_port \<Rightarrow> string \<Rightarrow> 's native_client \<Rightarrow> lua \<times> 's native_client" where
  "pump_disposition_result port request c =
     (let (_, c) = pump port settle_disposition_result (map_of (nc_disposition_receipts c) request \<noteq> None) c in
      case map_of (nc_disposition_receipts c) request of
        None \<Rightarrow> (lua_record [(''error'', LText ''unknown_disposition_request'')], c)
      | Some receipt \<Rightarrow>
          if receipt = ''pending'' then (lua_record [(''pending'', LBool True)], c)
          else
            (lua_record [(''pending'', LBool False),
                         (if receipt = ''ok'' then (''ok'', LBool True) else (''error'', LText receipt))],
             c\<lparr>nc_disposition_receipts := erase_key request (nc_disposition_receipts c)\<rparr>))"

section \<open>The life of a session\<close>

definition client_capabilities :: "string list" where
  "client_capabilities =
     [''relationship.disposition'', ''diary.books.v1'', ''context.item_pickup.v1'', ''context.spell_cast.v1'',
      ''context.actor_resurrected.v1'', ''dialogue.text'', ''speech.say'', ''speech.listen'', ''controls.session'',
      ''debug.commands.v1'', ''debug.npc_manager.v1'', ''speech.browser.v1'', ''action.item.create'', ''action.gold.create'',
      ''action.actor.spawn'', ''action.actor.teleport_to_player'', ''action.player.teleport'', ''action.actor.restore'',
      ''action.actor.resurrect'', ''action.actor.kill'', ''action.conversation.end'', ''action.ai.follow'', ''action.ai.stop'',
      ''action.ai.approach'', ''action.ai.wait'', ''action.ai.travel'', ''action.ai.escort'', ''action.ai.face'',
      ''action.ai.wander'', ''action.combat.start'', ''action.combat.stop'', ''action.weapon.sheathe'', ''action.item.give'',
      ''action.item.take'', ''action.item.pickup'', ''action.gold.give'', ''action.gold.take'', ''action.service.barter'',
      ''action.service.training'', ''action.service.spells'', ''action.service.travel'', ''action.service.spellmaking'',
      ''action.service.enchanting'', ''action.service.repair'', ''action.spell.cast'', ''action.animation.play'',
      ''action.item.equip'', ''action.item.unequip'', ''action.item.use'', ''action.inspect.report'',
      ''action.inventory.inspect'', ''action.confirmation'', ''action.result-followup'']"

definition init_snapshot_of ::
  "client_env \<Rightarrow> 's service_port \<Rightarrow> client_config \<Rightarrow> string \<Rightarrow> string \<Rightarrow> string \<Rightarrow> 's native_client \<Rightarrow> init_request" where
  "init_snapshot_of env port config request turn message c =
     \<lparr>init_ids = \<lparr>env_installation = cc_installation config, env_profile = cc_profile config,
                   env_playthrough = cc_playthrough config, env_session = StrongId [], env_request = StrongId request,
                   env_turn = StrongId turn, env_message = StrongId message,
                   env_generation = Generation (client_generation port c)\<rparr>,
      init_runtime = runtime_default\<lparr>rt_platform := cc_platform config, rt_capabilities := client_capabilities\<rparr>,
      init_content_fingerprint = cc_fingerprint config, init_created_at = ce_utc_now env,
      init_loaded_save = nc_loaded_save c, init_loaded_calendar = nc_loaded_calendar c,
      init_character_id = Some (chs_character (nc_character_identity c)),
      init_character_binding = Some (chs_binding (nc_character_identity c))\<rparr>"

text \<open>A retry sends the first body again, under a fresh request identifier.\<close>

definition prepare_init ::
  "client_env \<Rightarrow> 's service_port \<Rightarrow> client_config \<Rightarrow> string \<Rightarrow> ('s native_client, unit) step_of" where
  "prepare_init env port config request c =
     (if nc_init_snapshot c = None
      then step_then (draw_uuid env) (\<lambda>turn. step_then (draw_uuid env) (\<lambda>message.
             updating (\<lambda>c. c\<lparr>nc_init_snapshot := Some (init_snapshot_of env port config request turn message c)\<rparr>))) c
      else returns () c)"

definition retried_init :: "string \<Rightarrow> 's native_client \<Rightarrow> init_request" where
  "retried_init request c =
     (let init = the (nc_init_snapshot c) in init\<lparr>init_ids := (init_ids init)\<lparr>env_request := StrongId request\<rparr>\<rparr>)"

definition init_outbound :: "string \<Rightarrow> init_request \<Rightarrow> outbound_request" where
  "init_outbound request init =
     \<lparr>out_id = StrongId request, out_session = StrongId [], out_generation = env_generation (init_ids init),
      out_kind = RK_init, out_payload = InitRequest init\<rparr>"

definition send_init :: "'s service_port \<Rightarrow> string \<Rightarrow> init_request \<Rightarrow> ('s native_client, unit) step_of" where
  "send_init port request init c =
     (let c = c\<lparr>nc_retry_init := False, nc_init_attempts := nc_init_attempts c + 1\<rparr> in
      case call_enqueue port (init_outbound request init) c of
        (Inr _, c) \<Rightarrow> (Inr (), c\<lparr>nc_init_request := Some (StrongId request)\<rparr>)
      | (Inl e, c) \<Rightarrow> (Inr (), c\<lparr>nc_status := ''error'', nc_error := e\<rparr>))"

definition begin_session :: "client_env \<Rightarrow> 's service_port \<Rightarrow> 's native_client \<Rightarrow> 's native_client" where
  "begin_session env port c =
     (case nc_config c of
        None \<Rightarrow> c
      | Some config \<Rightarrow>
          if nc_service c = None \<or> \<not> session_selected (nc_character_identity c) \<or> nc_init_request c \<noteq> None
             \<or> nc_waiting_loaded_calendar c
          then c
          else snd
            (step_then (draw_uuid env) (\<lambda>request.
             step_then (prepare_init env port config request) (\<lambda>_.
             step_then (reading (retried_init request)) (\<lambda>init.
               send_init port request init))) c))"

definition poll_request_of :: "'s service_port \<Rightarrow> 's native_client \<Rightarrow> event_poll_request" where
  "poll_request_of port c =
     \<lparr>poll_session = current_session c, poll_generation = Generation (client_generation port c),
      poll_after = word_of_nat (nc_cursor c), poll_wait_ms = 1000\<rparr>"

definition send_poll :: "'s service_port \<Rightarrow> string \<Rightarrow> ('s native_client, unit) step_of" where
  "send_poll port request c =
     (case enqueue_payload port (StrongId request) RK_event_poll (EventPollRequest (poll_request_of port c)) c of
        (Inr _, c) \<Rightarrow> (Inr (), c\<lparr>nc_poll_request := Some (StrongId request)\<rparr>)
      | (Inl _, c) \<Rightarrow> (Inr (), c))"

definition schedule_poll :: "client_env \<Rightarrow> 's service_port \<Rightarrow> 's native_client \<Rightarrow> 's native_client" where
  "schedule_poll env port c =
     (if \<not> client_ready c \<or> nc_poll_request c \<noteq> None \<or> ce_steady_now env < nc_next_poll c then c
      else snd
        (step_then (draw_uuid env) (\<lambda>request.
         step_then (send_poll port request) (\<lambda>_.
           updating (\<lambda>c. c\<lparr>nc_next_poll := ce_steady_now env + 250\<rparr>))) c))"

text \<open>What a change of the generation leaves: the connection, the media and the transfers' bookkeeping.\<close>

definition generation_cleared :: "'s native_client \<Rightarrow> 's native_client" where
  "generation_cleared c =
     (diary_cleared c)\<lparr>nc_session := None, nc_client_settings := None, nc_config_revision := [],
       nc_poll_request := None, nc_init_request := None, nc_controls_request := None, nc_controls := None,
       nc_debug_request := None, nc_debug_command := None, nc_deferred_results := [], nc_disposition_receipts := [],
       nc_turn_requests := [], nc_controls_error := [], nc_debug_error := [], nc_init_snapshot := None,
       nc_init_attempts := 0, nc_retry_init := False\<rparr>"

definition cancel_client_generation ::
  "client_env \<Rightarrow> 's service_port \<Rightarrow> u64 \<Rightarrow> bool \<Rightarrow> bool \<Rightarrow> 's native_client \<Rightarrow> bool \<times> 's native_client" where
  "cancel_client_generation env port generation loaded_save identity_change c =
     (case nc_service c of
        None \<Rightarrow> (False, c)
      | Some s \<Rightarrow>
          (case sv_cancel_generation port (Generation generation) s of
             (s, Inl _) \<Rightarrow> (False, c\<lparr>nc_service := Some s\<rparr>)
           | (s, Inr _) \<Rightarrow>
               let c = c\<lparr>nc_service := Some s\<rparr>;
                   c = snd (cancel_menu_dialogue_tts port None c);
                   c = snd (cancel_player_autochat port None c);
                   c = generation_cleared c;
                   c = (if identity_change then c\<lparr>nc_character_identity := cleared_session, nc_character_rejected := False\<rparr> else c);
                   c = begin_session env port (c\<lparr>nc_loaded_save := loaded_save, nc_waiting_loaded_calendar := loaded_save,
                         nc_loaded_calendar := None\<rparr>)
               in (True, c\<lparr>nc_status := (if session_selected (nc_character_identity c) then ''connecting''
                                          else ''waiting_identity'')\<rparr>)))"

text \<open>\<open>get_or\<close> with its default for a field that is not a number.\<close>

definition number_or :: "string \<Rightarrow> rat \<Rightarrow> lua_table \<Rightarrow> cxx_double" where
  "number_or k d t = (case lua_field k t of LNumber x \<Rightarrow> x | _ \<Rightarrow> Finite d)"

definition integral_within :: "cxx_double \<Rightarrow> int \<Rightarrow> int \<Rightarrow> int option" where
  "integral_within x low high =
     (case x of
        Finite q \<Rightarrow> if of_int low \<le> q \<and> q \<le> of_int high \<and> of_int \<lfloor>q\<rfloor> = q then Some \<lfloor>q\<rfloor> else None
      | _ \<Rightarrow> None)"

definition calendar_of :: "lua_table \<Rightarrow> loaded_save_calendar option" where
  "calendar_of t =
     (case (integral_within (number_or ''year'' 0 t) 1 9999, integral_within (number_or ''month'' (-1) t) 0 11,
            integral_within (number_or ''day'' 0 t) 1 31) of
        (Some year, Some month, Some day) \<Rightarrow>
          let calendar = \<lparr>cal_year = year, cal_month = month, cal_day = day, cal_hour = number_or ''hour'' (-1) t\<rparr>
          in if calendar_valid calendar then Some calendar else None
      | _ \<Rightarrow> None)"

definition finish_loaded_save ::
  "client_env \<Rightarrow> 's service_port \<Rightarrow> lua_table option \<Rightarrow> 's native_client \<Rightarrow> bool \<times> 's native_client" where
  "finish_loaded_save env port v c =
     (if \<not> nc_waiting_loaded_calendar c then (False, c)
      else
        case v of
          None \<Rightarrow> (True, begin_session env port (c\<lparr>nc_waiting_loaded_calendar := False\<rparr>))
        | Some t \<Rightarrow>
            (case calendar_of t of
               None \<Rightarrow> (False, c)
             | Some calendar \<Rightarrow>
                 (True, begin_session env port (c\<lparr>nc_loaded_calendar := Some calendar, nc_waiting_loaded_calendar := False\<rparr>))))"

definition halt_client :: "'s service_port \<Rightarrow> 's native_client \<Rightarrow> 's native_client" where
  "halt_client port c =
     (let c = (case nc_service c of None \<Rightarrow> c | Some s \<Rightarrow> c\<lparr>nc_service := Some (sv_halt port s)\<rparr>)
      in c\<lparr>nc_turn_requests := [], nc_status := ''halted''\<rparr>)"

end
