(* ===== verification/Client_Poll.thy ===== *)
theory Client_Poll
  imports Client_Results
begin

text \<open>
  \<open>NativeClient::poll\<close>, which hands the deferred and the new results to what waits for them and keeps
  the poll for events going, and \<open>configureCharacter\<close>, which chooses the character before a session
  begins.
\<close>

section \<open>Failures\<close>

text \<open>The result of a session's first request decides about a retry and about the character.\<close>

definition fail_init :: "client_env \<Rightarrow> inbound_result \<Rightarrow> 's native_client \<Rightarrow> 's native_client" where
  "fail_init env result c =
     (if nc_init_request c \<noteq> Some (in_request result) then c
      else c\<lparr>nc_init_request := None,
        nc_retry_init := (case in_failure result of
            None \<Rightarrow> False
          | Some e \<Rightarrow> (err_retriable e \<or> err_code e = EC_transport_failure) \<and> nc_init_attempts c < 3),
        nc_next_init := ce_steady_now env + 1000,
        nc_character_rejected := (case in_failure result of
            None \<Rightarrow> False
          | Some e \<Rightarrow> \<not> err_retriable e
              \<and> err_code e \<in> {EC_duplicate_conflict, EC_action_disabled, EC_invalid_argument})\<rparr>)"

definition fail_turn :: "inbound_result \<Rightarrow> lua list \<times> 's native_client \<Rightarrow> lua list \<times> 's native_client" where
  "fail_turn result = (\<lambda>(events, c).
     let key = id_value (in_request result) in
     case map_of (nc_turn_requests c) key of
       None \<Rightarrow> (events, c)
     | Some turn \<Rightarrow>
         (events @ [lua_record [(''type'', LText ''transport.failure''), (''request_id'', LText key),
                                (''turn_id'', LText turn), (''reason'', LText (failure_text result))]],
          c\<lparr>nc_turn_requests := erase_key key (nc_turn_requests c)\<rparr>))"

text \<open>A loop with \<open>break\<close> over the values of a map.\<close>

fun update_first :: "('v \<Rightarrow> bool) \<Rightarrow> ('v \<Rightarrow> 'v) \<Rightarrow> ('k \<times> 'v) list \<Rightarrow> ('k \<times> 'v) list" where
  "update_first p f [] = []"
| "update_first p f ((k, v) # m) = (if p v then (k, f v) # m else (k, v) # update_first p f m)"

definition waits_for_dialogue :: "inbound_result \<Rightarrow> menu_dialogue \<Rightarrow> bool" where
  "waits_for_dialogue result d \<longleftrightarrow> mdl_request d = Some (in_request result)"

definition failed_dialogue :: "string \<Rightarrow> menu_dialogue \<Rightarrow> menu_dialogue" where
  "failed_dialogue reason d = d\<lparr>mdl_state := ''failed'', mdl_reason := reason, mdl_request := None\<rparr>"

definition fail_dialogue :: "inbound_result \<Rightarrow> 's native_client \<Rightarrow> bool \<times> 's native_client" where
  "fail_dialogue result c =
     (list_ex (\<lambda>p. waits_for_dialogue result (snd p)) (nc_menu_dialogues c),
      c\<lparr>nc_menu_dialogues := update_first (waits_for_dialogue result) (failed_dialogue (failure_text result))
          (nc_menu_dialogues c)\<rparr>)"

text \<open>The media whose request failed, with every dialogue that waits for it.\<close>

definition fail_media :: "inbound_result \<Rightarrow> 's native_client \<Rightarrow> bool \<times> 's native_client" where
  "fail_media result c =
     (case find (\<lambda>p. mst_request (snd p) = Some (in_request result)) (nc_media c) of
        None \<Rightarrow> (False, c)
      | Some (media, _) \<Rightarrow>
          (True,
           c\<lparr>nc_media := update_key media (\<lambda>m. m\<lparr>mst_state := ''failed'', mst_reason := failure_text result,
                 mst_request := None\<rparr>) (nc_media c),
             nc_menu_dialogues := map_values (\<lambda>_ d. if uses_media media d then failed_dialogue (failure_text result) d else d)
                 (nc_menu_dialogues c)\<rparr>))"

definition retry_delay :: "inbound_result \<Rightarrow> int" where
  "retry_delay result =
     max (case in_failure result of
            None \<Rightarrow> 1000
          | Some e \<Rightarrow> (case err_retry_after_ms e of None \<Rightarrow> 1000 | Some ms \<Rightarrow> sint ms)) 250"

definition fail_poll :: "client_env \<Rightarrow> inbound_result \<Rightarrow> 's native_client \<Rightarrow> 's native_client" where
  "fail_poll env result c =
     c\<lparr>nc_poll_request := None, nc_next_poll := ce_steady_now env + retry_delay result,
       nc_status := (if nc_session c \<noteq> None then ''ready'' else nc_status c)\<rparr>"

definition take_failure :: "client_env \<Rightarrow> inbound_result \<Rightarrow> lua list \<times> 's native_client \<Rightarrow> lua list \<times> 's native_client" where
  "take_failure env result = (\<lambda>(events, c).
     let c = fail_init env result c;
         (events, c) = fail_turn result (events, c);
         poll_failure = (nc_poll_request c = Some (in_request result));
         (menu_failure, c) = fail_dialogue result c;
         (media_failure, c) = fail_media result c;
         c = (if poll_failure then fail_poll env result c else c);
         c = snd (settle_controls_result result c);
         c = (if nc_session c = None then c\<lparr>nc_status := ''error''\<rparr>
              else if \<not> media_failure then c\<lparr>nc_status := ''ready''\<rparr> else c);
         c = (if \<not> media_failure \<and> \<not> menu_failure then c\<lparr>nc_error := failure_text result\<rparr> else c)
     in (events, c))"

section \<open>Answers\<close>

definition accept_session :: "session_accepted \<Rightarrow> 's native_client \<Rightarrow> 's native_client" where
  "accept_session a c =
     (let config = the (nc_config c); identity = nc_character_identity c;
          identity = (case sa_character_id a of None \<Rightarrow> identity | Some i \<Rightarrow> identity\<lparr>chs_character := i\<rparr>);
          config = (case sa_profile_id a of None \<Rightarrow> config | Some i \<Rightarrow> config\<lparr>cc_profile := StrongId i\<rparr>);
          (identity, config) =
            (case sa_playthrough_id a of
               None \<Rightarrow> (identity, config)
             | Some i \<Rightarrow> (identity\<lparr>chs_playthrough := i\<rparr>, config\<lparr>cc_playthrough := StrongId i\<rparr>))
      in c\<lparr>nc_character_identity := identity, nc_config := Some config, nc_character_rejected := False,
           nc_loaded_save := False, nc_loaded_calendar := None, nc_session := Some (sa_session a),
           nc_cursor := sa_event_cursor a, nc_config_revision := sa_config_revision a,
           nc_client_settings := Some (sa_client_settings a), nc_status := ''ready'', nc_error := [],
           nc_init_request := None\<rparr>)"

definition take_init :: "inbound_result \<Rightarrow> 's native_client \<Rightarrow> 's native_client" where
  "take_init result c =
     (let c = c\<lparr>nc_init_matches := nc_init_matches c + 1\<rparr> in
      case parse_session_accepted_response (in_payload result) json_headers default_limits of
        Inr a \<Rightarrow> accept_session a c
      | Inl e \<Rightarrow> c\<lparr>nc_status := ''error'', nc_error := err_message e, nc_init_request := None\<rparr>)"

definition take_events :: "'s service_port \<Rightarrow> inbound_result \<Rightarrow> lua list \<times> 's native_client \<Rightarrow> lua list \<times> 's native_client" where
  "take_events port result = (\<lambda>(events, c).
     let c = c\<lparr>nc_poll_request := None\<rparr> in
     if in_kind result \<noteq> RS_event then (events, c)
     else
       case parse_events_response (in_payload result) json_headers default_limits of
         Inl _ \<Rightarrow> (events, c)
       | Inr r \<Rightarrow> (events @ map event_table (er_events r),
                   fold (retain_transfer port) (er_events r) (c\<lparr>nc_cursor := er_next_after r\<rparr>)))"

definition take_media_ready :: "inbound_result \<Rightarrow> 's native_client \<Rightarrow> 's native_client" where
  "take_media_ready result c =
     (let media = in_payload result in
      if map_of (nc_media c) media = None then c
      else c\<lparr>nc_media := update_key media (\<lambda>m. m\<lparr>mst_state := ''ready'', mst_reason := [], mst_request := None\<rparr>) (nc_media c),
             nc_menu_dialogues := map_values (\<lambda>_ d. if uses_media media d
                 then d\<lparr>mdl_state := ''ready'', mdl_reason := [], mdl_request := None\<rparr> else d) (nc_menu_dialogues c)\<rparr>)"

text \<open>\<open>prepareMenuDialogueMedia\<close> on the dialogue with this key.\<close>

definition update_dialogue :: "string \<Rightarrow> (menu_dialogue \<Rightarrow> menu_dialogue) \<Rightarrow> 's native_client \<Rightarrow> 's native_client" where
  "update_dialogue key f c = c\<lparr>nc_menu_dialogues := update_key key f (nc_menu_dialogues c)\<rparr>"

definition canonical_descriptor :: "client_env \<Rightarrow> canonical_media \<Rightarrow> string + media_descriptor" where
  "canonical_descriptor env media =
     and_then (parse_sha256 (cm_sha256 media)) (\<lambda>sha256.
     and_then (parse_utc env (cm_expires_at media)) (\<lambda>expires.
       Inr \<lparr>md_id = cm_media media, md_sha256 = sha256, md_bytes = cm_bytes media, md_codec = cm_codec media,
            md_expires_at = expires\<rparr>))"

definition prepare_dialogue_media ::
  "client_env \<Rightarrow> 's service_port \<Rightarrow> string \<Rightarrow> canonical_media \<Rightarrow> 's native_client \<Rightarrow> 's native_client" where
  "prepare_dialogue_media env port key media c =
     (let c = update_dialogue key (\<lambda>d. d\<lparr>mdl_media := Some media, mdl_request := None\<rparr>) c;
          name = id_value (cm_media media) in
      case map_of (nc_media c) name of
        Some m \<Rightarrow> update_dialogue key (\<lambda>d. d\<lparr>mdl_state := mst_state m, mdl_reason := mst_reason m\<rparr>) c
      | None \<Rightarrow>
          (case
             (step_then (lifted (canonical_descriptor env media)) (\<lambda>descriptor.
              step_then (draw_uuid env) (\<lambda>request.
              step_then (enqueue_media port request descriptor) (\<lambda>_.
                updating (\<lambda>c. c\<lparr>nc_media := map_put name
                  (preparing_media (the (nc_config c)) (cm_sha256 media) (cm_codec media) (StrongId request)) (nc_media c)\<rparr>)))) c) of
             (Inr _, c) \<Rightarrow> update_dialogue key (\<lambda>d. d\<lparr>mdl_state := ''preparing'', mdl_reason := []\<rparr>) c
           | (Inl e, c) \<Rightarrow> update_dialogue key (failed_dialogue e) c))"

definition take_dialogue_ready ::
  "client_env \<Rightarrow> 's service_port \<Rightarrow> inbound_result \<Rightarrow> 's native_client \<Rightarrow> 's native_client" where
  "take_dialogue_ready env port result c =
     (case find (\<lambda>p. waits_for_dialogue result (snd p)) (nc_menu_dialogues c) of
        None \<Rightarrow> c
      | Some (key, _) \<Rightarrow>
          (case parse_menu_tts_ready_response (in_payload result) json_headers default_limits of
             Inl e \<Rightarrow> update_dialogue key (failed_dialogue (err_message e)) c
           | Inr ready \<Rightarrow> prepare_dialogue_media env port key (mtr_media ready) c))"

text \<open>The chain of branches for a result that none of the settlements takes.\<close>

definition take_answer ::
  "client_env \<Rightarrow> 's service_port \<Rightarrow> inbound_result \<Rightarrow> lua list \<times> 's native_client \<Rightarrow> lua list \<times> 's native_client" where
  "take_answer env port result = (\<lambda>(events, c).
     if in_kind result = RS_failure then take_failure env result (events, c)
     else
       let (events, c) =
         (if nc_init_request c = Some (in_request result) \<and> in_kind result = RS_accepted
          then (events, take_init result c)
          else if nc_poll_request c = Some (in_request result) then take_events port result (events, c)
          else if in_kind result = RS_media_ready then (events, take_media_ready result c)
          else if in_kind result = RS_menu_dialogue_ready then (events, take_dialogue_ready env port result c)
          else (events, snd (settle_controls_result result c)))
       in (events, c\<lparr>nc_turn_requests := erase_key (id_value (in_request result)) (nc_turn_requests c)\<rparr>))"

definition settlements :: "(inbound_result \<Rightarrow> 's native_client \<Rightarrow> bool \<times> 's native_client) list" where
  "settlements = [settle_transfer_receipt, settle_disposition_result, settle_debug_result, settle_diary_result,
     settle_autochat_result]"

fun settle_by ::
  "(inbound_result \<Rightarrow> 's native_client \<Rightarrow> bool \<times> 's native_client) list \<Rightarrow> inbound_result \<Rightarrow> 's native_client
   \<Rightarrow> bool \<times> 's native_client" where
  "settle_by [] result c = (False, c)"
| "settle_by (s # ss) result c = (case s result c of (True, c) \<Rightarrow> (True, c) | (False, c) \<Rightarrow> settle_by ss result c)"

definition take_result ::
  "client_env \<Rightarrow> 's service_port \<Rightarrow> inbound_result \<Rightarrow> lua list \<times> 's native_client \<Rightarrow> lua list \<times> 's native_client" where
  "take_result env port result = (\<lambda>(events, c).
     let c = c\<lparr>nc_results_seen := nc_results_seen c + 1\<rparr> in
     case settle_by settlements result c of
       (True, c) \<Rightarrow> (events, c)
     | (False, c) \<Rightarrow> take_answer env port result (events, c))"

definition client_poll :: "client_env \<Rightarrow> 's service_port \<Rightarrow> nat \<Rightarrow> 's native_client \<Rightarrow> lua list \<times> 's native_client" where
  "client_poll env port maximum c =
     (if nc_service c = None then ([], c)
      else
        let deferred = nc_deferred_results c;
            (drained, c) = service_poll port (min maximum 128) (c\<lparr>nc_deferred_results := []\<rparr>);
            (events, c) = fold (take_result env port) (deferred @ drained) ([], c);
            c = (if nc_retry_init c \<and> nc_next_init c \<le> ce_steady_now env then begin_session env port c else c)
        in (events, schedule_poll env port c))"

section \<open>The character\<close>

definition character_info :: "'s service_port \<Rightarrow> 's native_client \<Rightarrow> lua" where
  "character_info port c =
     (let identity = nc_character_identity c; selected = session_selected identity in lua_record
       [(''character_id'', LText (chs_character identity)),
        (''legacy_playthrough_id'', LText (chs_legacy_playthrough identity)),
        (''generation'', lua_nat (unat (client_generation port c))), (''ready'', LBool (nc_session c \<noteq> None)),
        (''profile_id'', if nc_session c \<noteq> None then lua_option (\<lambda>config. lua_id (cc_profile config)) (nc_config c) else LNil),
        (''needs_choice'', LBool (nc_character_rejected c \<or> \<not> selected)),
        (''error'', if nc_character_rejected c then LText (nc_error c) else LNil),
        (''playthrough_id'', if selected then LText (chs_playthrough identity) else LNil),
        (''character_binding'', if selected then LText (chs_binding identity) else LNil)])"

definition identity_text :: "string \<Rightarrow> lua_table \<Rightarrow> string + string" where
  "identity_text k t =
     (case lua_field k t of
        LNil \<Rightarrow> Inr []
      | LText s \<Rightarrow> Inr s
      | _ \<Rightarrow> Inl ''invalid_character_identity_field'')"

definition generator :: "client_env \<Rightarrow> nat \<Rightarrow> string \<times> nat" where
  "generator env n = (uuid_text (ce_random env n) (ce_random env (n + 1)), n + 2)"

definition prepare_character :: "client_env \<Rightarrow> bool \<Rightarrow> lua_table \<Rightarrow> ('s native_client, unit) step_of" where
  "prepare_character env new_game t =
     step_then (lifted (identity_text ''character_id'' t)) (\<lambda>character.
     step_then (lifted (identity_text ''playthrough_id'' t)) (\<lambda>playthrough.
     step_then (lifted (identity_text ''character_binding'' t)) (\<lambda>binding c.
       case prepare_session (generator env) new_game character playthrough binding (nc_legacy_playthrough c)
              (nc_character_identity c) (nc_draws c) of
         Inl e \<Rightarrow> (Inl e, c)
       | Inr (identity, draws) \<Rightarrow> (Inr (), c\<lparr>nc_character_identity := identity, nc_draws := draws\<rparr>))))"

text \<open>A rejected choice is undone before the next one is made.\<close>

definition undo_rejected :: "'s native_client \<Rightarrow> 's native_client" where
  "undo_rejected c =
     c\<lparr>nc_character_identity := (nc_character_identity c)\<lparr>chs_playthrough := [], chs_binding := []\<rparr>,
       nc_init_snapshot := None, nc_init_attempts := 0, nc_retry_init := False, nc_character_rejected := False\<rparr>"

definition choose_character ::
  "client_env \<Rightarrow> 's service_port \<Rightarrow> string \<Rightarrow> lua_table \<Rightarrow> ('s native_client, unit) step_of" where
  "choose_character env port mode t =
     step_then (reading (\<lambda>c. case lua_field ''generation'' t of
         LNumber x \<Rightarrow> round_to_double (of_nat (unat (client_generation port c))) = Some x
       | _ \<Rightarrow> False)) (\<lambda>current.
     if \<not> current then throws ''stale_character_selection''
     else
       step_then (lifted (identity_text ''character_id'' t)) (\<lambda>character.
       step_then (\<lambda>c. if nc_character_rejected c
         then if character \<noteq> chs_character (nc_character_identity c) then (Inl ''stale_character_selection'', c)
              else (Inr (), undo_rejected c)
         else (Inr (), c)) (\<lambda>_ c.
         case choose_session (generator env) character mode (nc_character_identity c) (nc_draws c) of
           Inl e \<Rightarrow> (Inl e, c)
         | Inr (identity, draws) \<Rightarrow> (Inr (), c\<lparr>nc_character_identity := identity, nc_draws := draws\<rparr>))))"

definition identity_keys :: "lua_key list" where
  "identity_keys = map LKey [''mode'', ''character_id'', ''playthrough_id'', ''character_binding'', ''generation'']"

definition character_configured :: "client_env \<Rightarrow> 's service_port \<Rightarrow> 's native_client \<Rightarrow> 's native_client" where
  "character_configured env port c =
     (let identity = nc_character_identity c in
      if session_selected identity then
        let c = c\<lparr>nc_config := Some ((the (nc_config c))\<lparr>cc_playthrough := StrongId (chs_playthrough identity)\<rparr>)\<rparr>
        in if nc_session c = None then (begin_session env port c)\<lparr>nc_status := ''connecting''\<rparr> else c
      else c\<lparr>nc_status := ''waiting_identity''\<rparr>)"

definition configure_character ::
  "client_env \<Rightarrow> 's service_port \<Rightarrow> lua_table \<Rightarrow> 's native_client \<Rightarrow> lua_pair \<times> 's native_client" where
  "configure_character env port t c =
     (if nc_config c = None \<or> nc_service c = None then (failure_pair ''bridge_not_configured'', c)
      else if \<not> list_all (\<lambda>p. fst p \<in> set identity_keys) t then (failure_pair ''invalid_character_identity_field'', c)
      else caught
        (step_then (lifted (identity_text ''mode'' t)) (\<lambda>mode.
         step_then
           (if mode = ''new_game'' \<or> mode = ''load'' then prepare_character env (mode = ''new_game'') t
            else if mode = ''existing'' \<or> mode = ''new'' then choose_character env port mode t
            else throws ''invalid_character_identity_mode'') (\<lambda>_.
         step_then (updating (character_configured env port)) (\<lambda>_.
           reading (\<lambda>c. (character_info port c, LNil)))))) c)"

section \<open>The connection\<close>

definition configure_transport :: "lua_table \<Rightarrow> 's native_client \<Rightarrow> lua_pair \<times> 's native_client" where
  "configure_transport t c =
     (if \<not> list_all (\<lambda>p. fst p = LKey ''connection_timeout_seconds'') t then (failure_pair ''unknown_transport_setting'', c)
      else
        case lua_field ''connection_timeout_seconds'' t of
          LNumber x \<Rightarrow>
            (case integral_within x 15 300 of
               None \<Rightarrow> (failure_pair ''invalid_connection_timeout'', c)
             | Some seconds \<Rightarrow>
                 if nc_connection_timeout c = None then (failure_pair ''bridge_not_configured'', c)
                 else ((LBool True, LNil), c\<lparr>nc_connection_timeout := Some seconds\<rparr>))
        | _ \<Rightarrow> (failure_pair ''invalid_connection_timeout'', c))"

end
