(* ===== verification/Client_Run.thy ===== *)
theory Client_Run
  imports Client_Poll Bridge_Service
begin

text \<open>
  The native client as a machine: the calls of its API and of the engine's main thread as one
  datatype, the states they reach over a service, and a calculus for what a call can change. The
  contract of the service is a locale; the bridge service fulfils it.
\<close>

section \<open>Calls\<close>

datatype client_op =
    Submit_turn "lua_table \<Rightarrow> lua_table" lua_table
  | Submit_game_data game_data_type lua_table
  | Submit_actor_profile "protocol_identity \<Rightarrow> (string \<times> record_origin) option" lua_table
  | Submit_captured_stt "captured_voice option" string
  | Next_turn_metadata
  | Request_controls lua_table
  | Select_control string "string option" lua_table
  | Cancel_diary_book
  | Request_diary_book
  | Materialize_diary_book string
  | Submit_diary_book_result string string "string option"
  | Request_debug_command
  | Submit_debug_command_result string string string lua_table
  | Prepare_media lua_table
  | Release_media string
  | Request_menu_dialogue lua_table string
  | Cancel_menu_dialogue "string option"
  | Request_autochat lua_table lua_table string
  | Cancel_autochat "string option"
  | Submit_delivery_result lua_table
  | Submit_action_result lua_table
  | Execute_transfer bool string
  | Cancel_transfer string
  | Spell_starts "string option" string
  | Spell_finishes string bool string
  | Run_action commit_outcome "string option"
  | Pump_controls
  | Pump_debug
  | Pump_diary bool
  | Pump_autochat
  | Pump_disposition string
  | Poll_results nat
  | Configure_character lua_table
  | Configure_transport lua_table
  | Cancel_client_generation u64 bool bool
  | Finish_loaded_save "lua_table option"
  | Halt_client

text \<open>The engine's main thread runs the oldest action of its queue.\<close>

definition run_action ::
  "client_env \<Rightarrow> 's service_port \<Rightarrow> commit_outcome \<Rightarrow> string option \<Rightarrow> 's native_client \<Rightarrow> 's native_client" where
  "run_action env port outcome created c =
     (case nc_actions c of
        [] \<Rightarrow> c
      | a # as \<Rightarrow>
          let c = c\<lparr>nc_actions := as\<rparr> in
          case a of
            Commit_transfer action session generation \<Rightarrow> snd (run_commit_transfer env port outcome action session generation c)
          | Materialize_book book session generation serial \<Rightarrow>
              run_materialize_book port created session generation serial c)"

fun client_step :: "client_env \<Rightarrow> 's service_port \<Rightarrow> client_op \<Rightarrow> 's native_client \<Rightarrow> 's native_client" where
  "client_step env port (Submit_turn capture dto) c = snd (submit_turn env port capture dto c)"
| "client_step env port (Submit_game_data kind payload) c = snd (submit_game_data env port kind payload c)"
| "client_step env port (Submit_actor_profile origin_of payload) c = snd (submit_actor_profile env port origin_of payload c)"
| "client_step env port (Submit_captured_stt captured language) c = snd (submit_captured_stt env port captured language c)"
| "client_step env port Next_turn_metadata c = snd (next_turn_metadata env port c)"
| "client_step env port (Request_controls target) c = snd (request_controls env port target c)"
| "client_step env port (Select_control kind selection target) c = snd (select_control env port kind selection target c)"
| "client_step env port Cancel_diary_book c = cancel_diary_book port c"
| "client_step env port Request_diary_book c = snd (request_diary_book env port c)"
| "client_step env port (Materialize_diary_book delivery) c = snd (materialize_diary_book port delivery c)"
| "client_step env port (Submit_diary_book_result delivery status reason) c =
     snd (submit_diary_book_result env port delivery status reason c)"
| "client_step env port Request_debug_command c = snd (request_debug_command env port c)"
| "client_step env port (Submit_debug_command_result command status reason observed) c =
     snd (submit_debug_command_result env port command status reason observed c)"
| "client_step env port (Prepare_media dto) c = snd (prepare_media env port dto c)"
| "client_step env port (Release_media media) c = snd (release_media media c)"
| "client_step env port (Request_menu_dialogue actor spoken) c = snd (request_menu_dialogue_tts env port actor spoken c)"
| "client_step env port (Cancel_menu_dialogue request) c = snd (cancel_menu_dialogue_tts port request c)"
| "client_step env port (Request_autochat player target intent) c = snd (request_player_autochat env port player target intent c)"
| "client_step env port (Cancel_autochat request) c = snd (cancel_player_autochat port request c)"
| "client_step env port (Submit_delivery_result dto) c = snd (submit_dialogue_delivery_result env port dto c)"
| "client_step env port (Submit_action_result dto) c = snd (submit_action_result env port dto c)"
| "client_step env port (Execute_transfer casting action) c = snd (execute_transfer env port casting action c)"
| "client_step env port (Cancel_transfer action) c = cancel_transfer action c"
| "client_step env port (Spell_starts action spell) c = snd (spell_start_allowed env port action spell c)"
| "client_step env port (Spell_finishes action success failure) c = update_transfer action (spell_finished success failure) c"
| "client_step env port (Run_action outcome created) c = run_action env port outcome created c"
| "client_step env port Pump_controls c = snd (pump_session_controls port c)"
| "client_step env port Pump_debug c = snd (pump_debug_command port c)"
| "client_step env port (Pump_diary receipt) c = snd (pump_diary_book port receipt c)"
| "client_step env port Pump_autochat c = snd (pump_player_autochat port c)"
| "client_step env port (Pump_disposition request) c = snd (pump_disposition_result port request c)"
| "client_step env port (Poll_results maximum) c = snd (client_poll env port maximum c)"
| "client_step env port (Configure_character t) c = snd (configure_character env port t c)"
| "client_step env port (Configure_transport t) c = snd (configure_transport t c)"
| "client_step env port (Cancel_client_generation generation loaded_save identity_change) c =
     snd (cancel_client_generation env port generation loaded_save identity_change c)"
| "client_step env port (Finish_loaded_save v) c = snd (finish_loaded_save env port v c)"
| "client_step env port Halt_client c = halt_client port c"

section \<open>The contract of the service\<close>

text \<open>
  \<open>moves\<close> is what the service does between the calls of the client. It never hands out more results
  than it is asked for, none of another generation, and only \<open>cancelGeneration\<close> and \<open>halt\<close> change
  the generation.
\<close>

locale client_service =
  fixes port :: "'s service_port" and moves :: "'s \<Rightarrow> 's \<Rightarrow> bool"
  assumes poll_bounded: "length (snd (sv_poll port n s)) \<le> n"
    and poll_current: "r \<in> set (snd (sv_poll port n s)) \<Longrightarrow> in_generation r = sv_generation port s"
    and poll_generation: "sv_generation port (fst (sv_poll port n s)) = sv_generation port s"
    and enqueue_generation: "sv_generation port (fst (sv_enqueue port request s)) = sv_generation port s"
    and enqueue_accepts: "snd (sv_enqueue port request s) = Inr i
      \<Longrightarrow> i = out_id request \<and> out_generation request = sv_generation port s"
    and cancel_keeps: "sv_generation port (fst (sv_cancel port i s)) = sv_generation port s"
    and generation_refused: "snd (sv_cancel_generation port g s) = Inl e
      \<Longrightarrow> sv_generation port (fst (sv_cancel_generation port g s)) = sv_generation port s"
    and generation_advances: "snd (sv_cancel_generation port g s) = Inr g'
      \<Longrightarrow> g = sv_generation port s \<and> sv_generation port (fst (sv_cancel_generation port g s)) = g' \<and> g' \<noteq> g"
    and moves_generation: "moves s s' \<Longrightarrow> sv_generation port s' = sv_generation port s"

text \<open>The states of a client: its calls, each in an environment of its own, and the service's moves.\<close>

inductive client_reachable :: "'s service_port \<Rightarrow> ('s \<Rightarrow> 's \<Rightarrow> bool) \<Rightarrow> 's native_client \<Rightarrow> bool" for port moves where
  created: "client_reachable port moves (client_new loaded start)"
| called: "client_reachable port moves c \<Longrightarrow> client_reachable port moves (client_step env port op c)"
| served: "client_reachable port moves c \<Longrightarrow> nc_service c = Some s \<Longrightarrow> moves s s'
    \<Longrightarrow> client_reachable port moves (c\<lparr>nc_service := Some s'\<rparr>)"

section \<open>The bridge as the service\<close>

text \<open>
  A call of the bridge run to its end; between calls the worker moves. \<open>halt\<close> lets the worker
  come to its end before it joins it.
\<close>

definition bridge_enqueue :: "int \<Rightarrow> outbound_request \<Rightarrow> bridge \<Rightarrow> bridge \<times> RequestId result" where
  "bridge_enqueue now request b =
     (let b = engine_complete (Call_enqueue now request) b in
      (b, case b_engine b of E_idle (Some (R_enqueue r)) \<Rightarrow> r | _ \<Rightarrow> Inl (simple_error EC_stopped ''bridge is halted'')))"

definition bridge_poll :: "nat \<Rightarrow> bridge \<Rightarrow> bridge \<times> inbound_result list" where
  "bridge_poll n b =
     (let b = engine_complete (Call_poll n) b in
      (b, case b_engine b of E_idle (Some (R_poll rs)) \<Rightarrow> rs | _ \<Rightarrow> []))"

definition bridge_cancel :: "RequestId \<Rightarrow> bridge \<Rightarrow> bridge \<times> unit result" where
  "bridge_cancel request b =
     (let b = engine_complete (Call_cancel request) b in
      (b, case b_engine b of E_idle (Some (R_cancel r)) \<Rightarrow> r | _ \<Rightarrow> Inl (simple_error EC_stopped ''bridge is halted'')))"

definition bridge_cancel_generation :: "generation \<Rightarrow> bridge \<Rightarrow> bridge \<times> generation result" where
  "bridge_cancel_generation g b =
     (let b = engine_complete (Call_cancel_generation g) b in
      (b, case b_engine b of E_idle (Some (R_generation r)) \<Rightarrow> r | _ \<Rightarrow> Inl (simple_error EC_stopped ''bridge is halted'')))"

fun worker_runs :: "nat \<Rightarrow> bridge \<Rightarrow> bridge" where
  "worker_runs 0 b = b"
| "worker_runs (Suc n) b =
     (case worker_step (Inl (simple_error EC_cancelled ''request cancelled'')) b of None \<Rightarrow> b | Some b' \<Rightarrow> worker_runs n b')"

definition bridge_halt :: "bridge \<Rightarrow> bridge" where
  "bridge_halt b = engine_run 5 (worker_runs 11 (engine_run 5 (engine_begin Call_halt b)))"

definition bridge_port :: "int \<Rightarrow> bridge service_port" where
  "bridge_port now =
     \<lparr>sv_enqueue = bridge_enqueue now, sv_poll = bridge_poll, sv_cancel = bridge_cancel,
      sv_cancel_generation = bridge_cancel_generation, sv_halt = bridge_halt,
      sv_generation = \<lambda>b. generation_current (b_generation b)\<rparr>"

definition worker_moves_to :: "bridge \<Rightarrow> bridge \<Rightarrow> bool" where
  "worker_moves_to b b' \<longleftrightarrow> (\<exists>response. worker_step response b = Some b')"

lemma engine_run_5: "engine_run 5 b = engine_run (Suc (Suc (Suc (Suc (Suc 0))))) b"
  by (simp add: eval_nat_numeral)

lemmas engine_sections = engine_complete_def engine_run_5 engine_step_def reply_def

lemma enqueue_complete:
  "b_generation (engine_complete (Call_enqueue now r) b) = b_generation b"
  "b_engine (engine_complete (Call_enqueue now r) b) = E_idle (Some (R_enqueue (Inr i)))
    \<Longrightarrow> i = out_id r \<and> out_generation r = generation_current (b_generation b)"
  by (auto simp: engine_sections begin_enqueue_def enqueue_register_def enqueue_push_def enqueue_unregister_def
      enqueue_forget_def validate_request_def Let_def bad_argument_def
      split: sum.splits prod.splits if_splits option.splits)

lemma poll_complete:
  "b_generation (engine_complete (Call_poll n) b) = b_generation b"
  "b_engine (engine_complete (Call_poll n) b) = E_idle (Some (R_poll
    (filter (\<lambda>result. in_generation result = generation_current (b_generation b)) (snd (drain (min n kInboundCapacity) (b_inbound b))))))"
  by (simp_all add: engine_sections poll_def Let_def split: prod.splits)

lemma cancel_complete: "b_generation (engine_complete (Call_cancel i) b) = b_generation b"
  by (auto simp: engine_sections begin_cancel_def cancel_find_def cancel_publish_def publish_cancelled_def
      cancel_interrupt_def split: prod.splits if_splits option.splits bool.splits)

lemma cancel_generation_complete:
  "b_engine (engine_complete (Call_cancel_generation g) b) = E_idle (Some (R_generation (Inr g')))
    \<Longrightarrow> g = generation_current (b_generation b)
      \<and> generation_current (b_generation (engine_complete (Call_cancel_generation g) b)) = g' \<and> g' \<noteq> g"
  "\<nexists>g'. b_engine (engine_complete (Call_cancel_generation g) b) = E_idle (Some (R_generation (Inr g')))
    \<Longrightarrow> b_generation (engine_complete (Call_cancel_generation g) b) = b_generation b"
  by (auto simp: engine_sections begin_cancel_generation_def generation_erase_outbound_def
      generation_erase_inbound_def generation_collect_def generation_finish_def invalidate_def generation_current_def
      Let_def generation.expand split: prod.splits if_splits)

lemma drain_length: "length (snd (drain n q)) \<le> n"
  by (simp add: drain_def drain_items_eq)

lemma worker_keeps_generation: "worker_step response b = Some b' \<Longrightarrow> b_generation b' = b_generation b"
  by (auto simp: worker_step_def worker_pop_def worker_token_def worker_withdraw_def worker_activate_def
      worker_retire_def worker_decide_def worker_push_def worker_complete_def publish_cancelled_def
      split: worker_pc.splits option.splits prod.splits if_splits)

interpretation bridge_client: client_service "bridge_port now" worker_moves_to
proof (unfold_locales, goal_cases)
  case (1 n s)
  then show ?case
    by (simp add: bridge_port_def bridge_poll_def poll_complete Let_def)
      (meson drain_length length_filter_le min.cobounded1 order.trans)
next
  case (2 result n s)
  then show ?case by (simp add: bridge_port_def bridge_poll_def poll_complete Let_def)
next
  case (3 n s)
  then show ?case by (simp add: bridge_port_def bridge_poll_def poll_complete Let_def)
next
  case (4 request s)
  then show ?case by (simp add: bridge_port_def bridge_enqueue_def enqueue_complete Let_def)
next
  case (5 request s i)
  then show ?case
    by (auto simp: bridge_port_def bridge_enqueue_def Let_def dest: enqueue_complete(2)
        split: engine_pc.splits option.splits engine_result.splits)
next
  case (6 i s)
  then show ?case by (simp add: bridge_port_def bridge_cancel_def cancel_complete Let_def)
next
  case (7 g s e)
  then show ?case
    by (auto simp: bridge_port_def bridge_cancel_generation_def Let_def cancel_generation_complete(2)
        split: engine_pc.splits option.splits engine_result.splits)
next
  case (8 g s g')
  then show ?case
    by (auto simp: bridge_port_def bridge_cancel_generation_def Let_def dest: cancel_generation_complete(1)
        split: engine_pc.splits option.splits engine_result.splits)
next
  case (9 s s')
  then show ?case by (auto simp: bridge_port_def worker_moves_to_def dest: worker_keeps_generation)
qed

end
