(* ===== verification/Client_Calculus.thy ===== *)
theory Client_Calculus
  imports Client_Run
begin

text \<open>
  What a call can change. A relation between the states before and after a call that is reflexive and
  transitive passes through the sequencing of operations; most calls leave the bookkeeping of the
  client (its queues, maps and transfers) alone.
\<close>

named_theorems steps_intro

definition through :: "('c \<Rightarrow> 'c \<Rightarrow> bool) \<Rightarrow> ('c, 'a) step_of \<Rightarrow> bool" where
  "through R m \<longleftrightarrow> (\<forall>c. R c (snd (m c)))"

lemma throughD: "through R m \<Longrightarrow> m c = (r, c') \<Longrightarrow> R c c'"
  unfolding through_def by (drule spec [of _ c]) simp

lemma throughI: "(\<And>c. R c (snd (m c))) \<Longrightarrow> through R m"
  by (simp add: through_def)

lemma through_run: "through R m \<Longrightarrow> R c (snd (m c))"
  by (simp add: through_def)

locale progress =
  fixes R :: "'c \<Rightarrow> 'c \<Rightarrow> bool"
  assumes stays: "R c c" and continues: "R a b \<Longrightarrow> R b c \<Longrightarrow> R a c"
begin

lemma through_returns: "through R (returns x)"
  by (simp add: through_def returns_def stays)

lemma through_throws: "through R (throws e)"
  by (simp add: through_def throws_def stays)

lemma through_lifted: "through R (lifted r)"
  by (simp add: through_def lifted_def stays)

lemma through_reading: "through R (reading f)"
  by (simp add: through_def reading_def stays)

lemma through_updating: "(\<And>c. R c (f c)) \<Longrightarrow> through R (updating f)"
  by (simp add: through_def updating_def)

lemma through_then: "through R m \<Longrightarrow> (\<And>x. through R (f x)) \<Longrightarrow> through R (step_then m f)"
proof (rule throughI)
  fix c
  assume m: "through R m" and f: "\<And>x. through R (f x)"
  obtain r c1 where 1: "m c = (r, c1)" by (cases "m c")
  from throughD [OF m 1] have "R c c1" .
  moreover have "R c1 (snd (f x c1))" for x by (rule through_run [OF f])
  ultimately show "R c (snd (step_then m f c))"
    using continues by (cases r) (auto simp: step_then_def 1)
qed

lemma through_if: "(b \<Longrightarrow> through R m) \<Longrightarrow> (\<not> b \<Longrightarrow> through R n) \<Longrightarrow> through R (if b then m else n)"
  by simp

lemma through_split: "(\<And>a b. through R (f a b)) \<Longrightarrow> through R (case p of (a, b) \<Rightarrow> f a b)"
  by (cases p) simp

lemma through_caught: "through R m \<Longrightarrow> R c (snd (caught m c))"
  by (auto simp: caught_def split: prod.splits sum.splits dest: throughD)

lemma through_fold: "(\<And>x c. R c (f x c)) \<Longrightarrow> R c (fold f xs c)"
  by (induction xs arbitrary: c) (auto intro: stays continues)

lemmas through_intros = through_returns through_throws through_lifted through_reading through_updating through_then through_if through_split

end

definition unchanged :: "('c \<Rightarrow> 'a) \<Rightarrow> 'c \<Rightarrow> 'c \<Rightarrow> bool" where
  "unchanged f c c' \<longleftrightarrow> f c' = f c"

interpretation unchanged: progress "unchanged f"
  by unfold_locales (simp_all add: unchanged_def)

definition preserved :: "('c \<Rightarrow> bool) \<Rightarrow> 'c \<Rightarrow> 'c \<Rightarrow> bool" where
  "preserved P c c' \<longleftrightarrow> (P c \<longrightarrow> P c')"

interpretation preserved: progress "preserved P"
  by unfold_locales (simp_all add: preserved_def)

section \<open>The bookkeeping\<close>

record client_books =
  bk_deferred :: "inbound_result list"
  bk_dispositions :: "(string \<times> string) list"
  bk_autochats :: "(string \<times> player_autochat) list"
  bk_transfers :: "(string \<times> transfer_record) list"
  bk_snapshots :: "(string \<times> nat) list"
  bk_order :: "string list"
  bk_scopes :: nat

definition books_of :: "'s native_client \<Rightarrow> client_books" where
  "books_of c =
     \<lparr>bk_deferred = nc_deferred_results c, bk_dispositions = nc_disposition_receipts c,
      bk_autochats = nc_player_autochats c, bk_transfers = nc_transfers c, bk_snapshots = nc_transfer_snapshots c,
      bk_order = nc_transfer_order c, bk_scopes = nc_transfer_scopes c\<rparr>"

abbreviation quiet :: "'s native_client \<Rightarrow> 's native_client \<Rightarrow> bool" where
  "quiet \<equiv> unchanged books_of"

lemma quiet_draw: "through quiet (draw_uuid env)"
  by (simp add: through_def draw_uuid_def unchanged_def books_of_def)

lemma quiet_call: "through quiet (call_enqueue port r)"
  by (simp add: through_def call_enqueue_def unchanged_def books_of_def split: prod.splits sum.splits)

lemma quiet_enqueue: "through quiet (enqueue_payload port i k p)"
  unfolding enqueue_payload_def by (rule throughI) (rule through_run [OF quiet_call])

lemma quiet_enqueue_of: "through quiet (\<lambda>c. enqueue_payload port i k (p c) c)"
  by (rule throughI) (rule through_run [OF quiet_enqueue])

lemma quiet_media: "through quiet (enqueue_media port i d)"
  unfolding enqueue_media_def by (rule quiet_enqueue_of)

lemma quiet_cancel: "quiet c (call_cancel port i c)" "quiet c (cancel_some port r c)"
  by (simp_all add: call_cancel_def cancel_some_def unchanged_def books_of_def split: option.splits)

lemmas quiet_intros = unchanged.through_intros quiet_draw quiet_call quiet_enqueue quiet_enqueue_of quiet_media
lemmas quiet_simps = unchanged_def books_of_def

text \<open>Calls that change nothing of it.\<close>

lemma quiet_prepare_init: "through quiet (prepare_init env port config request)"
proof -
  have "through quiet (step_then (draw_uuid env) (\<lambda>turn. step_then (draw_uuid env) (\<lambda>message.
      updating (\<lambda>c. c\<lparr>nc_init_snapshot := Some (f turn message c)\<rparr>))))" for f
    by (intro quiet_intros) (simp add: quiet_simps)
  from through_run [OF this] show ?thesis
    unfolding prepare_init_def by (intro throughI) (auto simp: returns_def unchanged.stays)
qed

lemma quiet_send_init: "through quiet (send_init port request init)"
  by (simp add: through_def send_init_def call_enqueue_def quiet_simps Let_def split: prod.splits sum.splits)

lemma quiet_begin_session: "quiet c (begin_session env port c)"
proof -
  have "through quiet (step_then (draw_uuid env) (\<lambda>request. step_then (prepare_init env port config request) (\<lambda>_.
      step_then (reading (retried_init request)) (\<lambda>init. send_init port request init))))" for config
    by (intro quiet_intros quiet_prepare_init quiet_send_init)
  from through_run [OF this] show ?thesis by (simp add: begin_session_def unchanged.stays split: option.splits)
qed

lemma quiet_send_poll: "through quiet (send_poll port request)"
  by (simp add: through_def send_poll_def enqueue_payload_def call_enqueue_def quiet_simps split: prod.splits sum.splits)

lemma quiet_schedule_poll: "quiet c (schedule_poll env port c)"
proof -
  have "through quiet (step_then (draw_uuid env) (\<lambda>request. step_then (send_poll port request) (\<lambda>_.
      updating (\<lambda>c. c\<lparr>nc_next_poll := n\<rparr>))))" for n
    by (intro quiet_intros quiet_send_poll) (simp add: quiet_simps)
  from through_run [OF this] show ?thesis by (simp add: schedule_poll_def unchanged.stays)
qed

lemma quiet_caught: "through quiet m \<Longrightarrow> quiet c (snd (if b then (r, c) else caught m c))"
  by (simp add: unchanged.stays unchanged.through_caught)

lemma quiet_caught_2: "through quiet m \<Longrightarrow> quiet c (snd (if b then (r, c) else if b' then (r', c) else caught m c))"
  by (simp add: unchanged.stays unchanged.through_caught)

lemma quiet_request_controls: "quiet c (snd (request_controls env port target c))"
  unfolding request_controls_def by (intro quiet_caught_2 quiet_intros) (simp add: quiet_simps)

lemma quiet_select_control: "quiet c (snd (select_control env port kind selection target c))"
  unfolding select_control_def by (intro quiet_caught_2 quiet_intros) (simp add: quiet_simps)

lemma quiet_captured_stt: "quiet c (snd (submit_captured_stt env port captured language c))"
  unfolding submit_captured_stt_def
  by (cases captured) (simp_all add: unchanged.stays, intro impI unchanged.through_caught quiet_intros)

lemma quiet_request_diary: "quiet c (snd (request_diary_book env port c))"
  unfolding request_diary_book_def by (intro quiet_caught_2 quiet_intros) (simp add: quiet_simps)

lemma quiet_materialize: "quiet c (snd (materialize_diary_book port delivery c))"
  by (simp add: materialize_diary_book_def quiet_simps split: option.splits)

lemma quiet_run_materialize: "quiet c (run_materialize_book port created session generation serial c)"
  by (simp add: run_materialize_book_def quiet_simps split: option.splits)

lemma quiet_cancel_diary: "quiet c (cancel_diary_book port c)"
  by (simp add: cancel_diary_book_def cancel_some_def call_cancel_def diary_cleared_def quiet_simps Let_def split: option.splits)

lemma quiet_submit_diary: "quiet c (snd (submit_diary_book_result env port delivery status reason c))"
proof -
  have "through quiet (step_then (draw_uuid env) (\<lambda>request.
             step_then (draw_uuid env) (\<lambda>message.
             step_then (updating (\<lambda>c. if nc_diary_receipt_dto c = None
               then c\<lparr>nc_diary_receipt_dto := Some (diary_receipt_of env port book request message status reason c)\<rparr>
               else c)) (\<lambda>_.
             step_then (reading (\<lambda>c. the (nc_diary_receipt_dto c))) (\<lambda>dto.
             step_then (if P dto then throws e else returns ()) (\<lambda>_.
             step_then (enqueue_payload port (StrongId request) RK_diary_book_result (D dto request)) (\<lambda>_.
             step_then (updating (\<lambda>c. c\<lparr>nc_diary_receipt := Some (StrongId request), nc_diary_receipt_ok := False,
                 nc_diary_error := []\<rparr>)) (\<lambda>_.
               returns (success_pair request)))))))))" for book P e D reason
    by (intro quiet_intros) (simp_all add: quiet_simps)
  from unchanged.through_caught [OF this] show ?thesis
    unfolding submit_diary_book_result_def Let_def by (simp add: unchanged.stays split: option.splits)
qed

lemma quiet_request_debug: "quiet c (snd (request_debug_command env port c))"
  unfolding request_debug_command_def by (intro quiet_caught_2 quiet_intros) (simp add: quiet_simps)

lemma quiet_submit_debug: "quiet c (snd (submit_debug_command_result env port command status reason observed c))"
  unfolding submit_debug_command_result_def by (intro quiet_caught quiet_intros)

lemma quiet_prepare_media: "quiet c (snd (prepare_media env port dto c))"
  unfolding prepare_media_def by (intro quiet_caught quiet_intros) (simp add: quiet_simps)

lemma quiet_release: "quiet c (snd (release_media media c))"
  by (simp add: release_media_def quiet_simps)

lemma quiet_yield: "quiet c (yield_poll port c)"
  by (simp add: yield_poll_def call_cancel_def quiet_simps split: option.splits)

lemma quiet_request_menu: "quiet c (snd (request_menu_dialogue_tts env port actor spoken c))"
  unfolding request_menu_dialogue_tts_def by (intro quiet_caught quiet_intros quiet_yield) (simp add: quiet_simps)

lemma quiet_drop_media: "quiet c (drop_media port media c)"
  by (simp add: drop_media_def cancel_some_def call_cancel_def quiet_simps split: option.splits)

lemma quiet_cancel_dialogue: "quiet c (cancel_menu_dialogue port k d c)"
proof -
  have "quiet c ((cancel_some port (mdl_request d) c)\<lparr>nc_menu_dialogues := x\<rparr>)" for x
    by (simp add: cancel_some_def call_cancel_def quiet_simps split: option.splits)
  then show ?thesis
    unfolding cancel_menu_dialogue_def Let_def
    by (auto split: option.splits intro: unchanged.continues [OF _ quiet_drop_media])
qed

lemma quiet_cancel_menu: "quiet c (snd (cancel_menu_dialogue_tts port request c))"
  by (auto simp: cancel_menu_dialogue_tts_def unchanged.stays quiet_cancel_dialogue split: option.splits
      intro!: unchanged.through_fold)

lemma quiet_delivery: "quiet c (snd (submit_dialogue_delivery_result env port dto c))"
  unfolding submit_dialogue_delivery_result_def by (intro quiet_caught quiet_intros)

lemma quiet_prepare_character: "through quiet (prepare_character env new_game t)"
  unfolding prepare_character_def
  by (intro quiet_intros throughI) (simp add: quiet_simps split: sum.splits prod.splits)

lemma quiet_choose_character: "through quiet (choose_character env port mode t)"
  unfolding choose_character_def
  by (intro quiet_intros throughI)
    (simp_all add: undo_rejected_def quiet_simps step_then_def split: sum.splits prod.splits if_splits)

lemma quiet_configured: "quiet c (character_configured env port c)"
proof -
  have "quiet (c\<lparr>nc_config := x\<rparr>) (begin_session env port (c\<lparr>nc_config := x\<rparr>))" for x by (rule quiet_begin_session)
  then show ?thesis by (simp add: character_configured_def quiet_simps Let_def)
qed

lemma quiet_configure: "quiet c (snd (configure_character env port t c))"
  unfolding configure_character_def
  by (intro quiet_caught_2 quiet_intros quiet_prepare_character quiet_choose_character quiet_configured)

lemma quiet_transport: "quiet c (snd (configure_transport t c))"
  by (simp add: configure_transport_def quiet_simps split: lua.splits option.splits)

lemma quiet_finish_save: "quiet c (snd (finish_loaded_save env port v c))"
proof -
  have "quiet c' (begin_session env port c')" for c' :: "'a native_client" by (rule quiet_begin_session)
  then show ?thesis by (simp add: finish_loaded_save_def quiet_simps split: option.splits)
qed

lemma quiet_halt: "quiet c (halt_client port c)"
  by (simp add: halt_client_def quiet_simps Let_def split: option.splits)

lemma quiet_metadata: "quiet c (snd (next_turn_metadata env port c))"
  by (simp add: next_turn_metadata_def step_then_def draw_uuid_def returns_def quiet_simps Let_def split: prod.splits)

end
