(* ===== verification/Client_Bounds.thy ===== *)
theory Client_Bounds
  imports Client_Calculus
begin

text \<open>
  The bounds of the client's bookkeeping, over every service that fulfils the contract: deferred
  results, receipts, rewrites, transfers and snapshots never grow past their limits, whatever the
  calls and the results.
\<close>

section \<open>Sizes of maps\<close>

lemma map_put_keys: "set (map fst (map_put k v m)) = insert k (set (map fst m))"
  by (induction k v m rule: map_put.induct) auto

lemma length_map_put: "length (map_put k v m) \<le> Suc (length m)"
  by (induction k v m rule: map_put.induct) auto

lemma map_of_map_put: "map_of (map_put k v m) = (map_of m)(k \<mapsto> v)"
  by (induction k v m rule: map_put.induct) (auto simp: fun_eq_iff)

lemma distinct_map_put: "distinct (map fst m) \<Longrightarrow> k \<notin> set (map fst m) \<Longrightarrow> distinct (map fst (map_put k v m))"
proof (induction k v m rule: map_put.induct)
  case (2 k v k' v' m)
  then show ?case using map_put_keys [of k v m] by auto
qed simp

lemma length_map_put_new: "k \<notin> set (map fst m) \<Longrightarrow> length (map_put k v m) = Suc (length m)"
  by (induction k v m rule: map_put.induct) auto

lemma length_erase_key_le: "length (erase_key k m) \<le> length m"
  by (simp add: erase_key_def)

lemma erase_key_hd: "keys_distinct m \<Longrightarrow> set (map fst m) = insert x (set xs) \<Longrightarrow> x \<notin> set xs
  \<Longrightarrow> fst ` set (erase_key x m) = set xs"
  using keys_erase_key [of x m] by auto

section \<open>The bounds\<close>

definition snapshots_bounded :: "(string \<times> nat) list \<Rightarrow> string list \<Rightarrow> bool" where
  "snapshots_bounded snapshots order \<longleftrightarrow>
     length snapshots \<le> 16 \<and> distinct order \<and> distinct (map fst snapshots) \<and> set order = set (map fst snapshots)"

definition books_bounded :: "nat \<Rightarrow> client_books \<Rightarrow> bool" where
  "books_bounded n b \<longleftrightarrow>
     length (bk_deferred b) \<le> n \<and> length (bk_dispositions b) \<le> 128 \<and> length (bk_autochats b) \<le> 1
     \<and> length (bk_transfers b) \<le> 256 \<and> snapshots_bounded (bk_snapshots b) (bk_order b)"

definition bounded_client :: "nat \<Rightarrow> 's native_client \<Rightarrow> bool" where
  "bounded_client n c \<longleftrightarrow> books_bounded n (books_of c)"

lemmas bounds_simps = bounded_client_def books_bounded_def books_of_def

lemma quiet_bounded: "quiet c c' \<Longrightarrow> preserved (bounded_client n) c c'"
  by (simp add: unchanged_def preserved_def bounded_client_def)

lemma through_quiet_bounded: "through quiet m \<Longrightarrow> through (preserved (bounded_client n)) m"
  by (simp add: through_def quiet_bounded)

lemma bounded_more: "bounded_client n c \<Longrightarrow> n \<le> k \<Longrightarrow> bounded_client k c"
  by (simp add: bounds_simps)

lemma bounded_sync: "bounded_client n c \<Longrightarrow> bounded_client n (sync_transfer_scope port c)"
  by (simp add: sync_transfer_scope_def bounds_simps snapshots_bounded_def Let_def)

lemma snapshots_retained:
  assumes "snapshots_bounded m order" "turn \<notin> set (map fst m)"
  shows "snapshots_bounded (map_put turn i (if 16 \<le> length m then erase_key (hd order) m else m))
    ((if 16 \<le> length m then tl order else order) @ [turn])"
proof (cases "16 \<le> length m")
  case True
  with assms(1) have "order \<noteq> []" by (auto simp: snapshots_bounded_def)
  then obtain x xs where order: "order = x # xs" by (cases order) auto
  have keys: "set (map fst m) = insert x (set xs)" "x \<notin> set xs" "distinct xs" "distinct (map fst m)" "length m = 16"
    using assms(1) True unfolding snapshots_bounded_def order by simp_all
  have erased: "set (map fst (erase_key x m)) = set xs" using erase_key_hd [OF keys(4,1,2)] by simp
  have new: "turn \<notin> set (map fst (erase_key x m))" "turn \<notin> set xs" using assms(2) keys erased by auto
  have "length (erase_key x m) = 15" using length_erase_key [OF keys(4), of x] keys by simp
  then show ?thesis
    using new(2) erased keys(2,3) map_put_keys [of turn i "erase_key x m"]
      distinct_map_put [OF keys_distinct_erase_key [OF keys(4)] new(1)]
      length_map_put_new [OF new(1), of i]
    unfolding snapshots_bounded_def by (simp add: True order)
next
  case False
  with assms show ?thesis
    using map_put_keys [of turn i m] distinct_map_put [of m turn i] length_map_put_new [of turn m i]
    by (simp add: snapshots_bounded_def)
qed

lemma bounded_retain: "bounded_client n c \<Longrightarrow> bounded_client n (retain_snapshot turn i c)"
  using snapshots_retained [of "nc_transfer_snapshots c" "nc_transfer_order c" turn i]
  by (auto simp: retain_snapshot_def bounds_simps map_of_eq_None_iff Let_def)

lemma bounded_capture: "bounded_client n c \<Longrightarrow> bounded_client n (snd (capture_transfer_snapshot port capture payload c))"
  using bounded_sync [of n c port] by (simp add: capture_transfer_snapshot_def bounds_simps Let_def)

lemma bounded_update: "bounded_client n c \<Longrightarrow> bounded_client n (update_transfer action f c)"
  by (simp add: update_transfer_def bounds_simps)

abbreviation keeps_bounds :: "nat \<Rightarrow> 's native_client \<Rightarrow> 's native_client \<Rightarrow> bool" where
  "keeps_bounds n \<equiv> preserved (bounded_client n)"

lemmas bounds_intros = preserved.through_intros quiet_draw [THEN through_quiet_bounded]
  quiet_call [THEN through_quiet_bounded] quiet_enqueue [THEN through_quiet_bounded]
  quiet_enqueue_of [THEN through_quiet_bounded]

lemma preservedI: "(P c \<Longrightarrow> P c') \<Longrightarrow> preserved P c c'"
  by (simp add: preserved_def)

lemma keeps_capture: "through (keeps_bounds n) (capture_transfer_snapshot port capture payload)"
  by (intro throughI preservedI bounded_capture)

lemma bounded_submit_turn: "keeps_bounds n c (snd (submit_turn env port capture dto c))"
proof -
  have updates: "keeps_bounds n c (c\<lparr>nc_turn_requests := t\<rparr>)" "keeps_bounds n c (retain_snapshot turn i c)"
    for c :: "'a native_client" and t turn i
    by (simp_all add: preserved_def bounded_retain) (simp add: bounds_simps)
  show ?thesis
    unfolding submit_turn_def
    by (cases "client_ready c") (simp_all add: preserved.stays, intro preserved.through_caught bounds_intros keeps_capture updates)
qed

text \<open>A state is reached from another one through operations that leave the books alone.\<close>

definition leads :: "('c \<Rightarrow> bool) \<Rightarrow> ('c, 'a) step_of \<Rightarrow> ('c \<Rightarrow> bool) \<Rightarrow> bool" where
  "leads P m Q \<longleftrightarrow> (\<forall>c. P c \<longrightarrow> Q (snd (m c)))"

lemma leads_quiet_then:
  fixes m :: "('s native_client, 'a) step_of"
  assumes "through quiet m" "\<And>x. leads (\<lambda>c. books_of c = b) (f x) Q" "\<And>c. books_of c = b \<Longrightarrow> Q c"
  shows "leads (\<lambda>c. books_of c = b) (step_then m f) Q"
  unfolding leads_def
proof (intro allI impI)
  fix c :: "'s native_client"
  assume b: "books_of c = b"
  obtain r c1 where 1: "m c = (r, c1)" by (cases "m c")
  with throughD [OF assms(1)] b have "books_of c1 = b" by (simp add: unchanged_def)
  with assms(2,3) show "Q (snd (step_then m f c))" by (cases r) (auto simp: step_then_def 1 leads_def)
qed

lemma leads_update_then:
  "(\<And>c. books_of c = b \<Longrightarrow> Q (f c)) \<Longrightarrow> leads (\<lambda>c. books_of c = b) (step_then (updating f) (\<lambda>_. returns x)) Q"
  by (simp add: leads_def step_then_def updating_def returns_def)

lemma leads_caught: "leads P m Q \<Longrightarrow> P c \<Longrightarrow> Q (snd (caught m c))"
  by (auto simp: leads_def caught_def split: prod.splits sum.splits)

lemma books_bounded_eq: "bounded_client n c \<longleftrightarrow> books_bounded n (books_of c)"
  by (simp add: bounded_client_def)

lemma bounded_submit_game_data: "keeps_bounds n c (snd (submit_game_data env port kind payload c))"
proof (rule preservedI)
  assume c: "bounded_client n c"
  define c1 where "c1 = (if kind = GD_disposition
      then c\<lparr>nc_disposition_receipts := reclaim_receipts (nc_disposition_receipts c)\<rparr> else c)"
  have c1: "bounded_client n c1"
    using c by (auto simp: c1_def bounds_simps reclaim_receipts_def intro: order.trans [OF length_filter_le])
  let ?m = "step_then (draw_uuid env) (\<lambda>request. step_then (lifted (json_of (LTable payload))) (\<lambda>serialized.
      step_then (\<lambda>c. enqueue_payload port (StrongId request) RK_gamedata
        (GameDataRequest (game_data_of env port kind (StrongId request) serialized c)) c) (\<lambda>_.
      step_then (updating (\<lambda>c. if kind = GD_disposition
        then c\<lparr>nc_disposition_receipts := map_put request ''pending'' (nc_disposition_receipts c)\<rparr> else c)) (\<lambda>_.
          returns (success_pair request)))))"
  have eq: "submit_game_data env port kind payload c =
      (if \<not> client_ready c then (failure_pair ''bridge_not_ready'', c)
       else if kind = GD_disposition \<and> 128 \<le> length (nc_disposition_receipts c1)
       then (failure_pair ''disposition_queue_full'', c1) else caught ?m c1)"
    unfolding submit_game_data_def Let_def c1_def by (rule refl)
  have "leads (\<lambda>c. books_of c = books_of c1) ?m (bounded_client n)"
    if "kind = GD_disposition \<Longrightarrow> length (nc_disposition_receipts c1) < 128"
  proof (intro leads_update_then leads_quiet_then quiet_intros)
    fix request and c' :: "'a native_client"
    assume "books_of c' = books_of c1"
    with c1 that show "bounded_client n (if kind = GD_disposition
        then c'\<lparr>nc_disposition_receipts := map_put request ''pending'' (nc_disposition_receipts c')\<rparr> else c')"
      using length_map_put [of request "''pending''" "nc_disposition_receipts c'"]
      by (auto simp: bounds_simps)
  qed (use c1 in \<open>simp_all add: bounded_client_def\<close>)
  from leads_caught [OF this, of c1] c c1
  show "bounded_client n (snd (submit_game_data env port kind payload c))" by (simp add: eq not_le)
qed

lemma bounded_actor_profile: "keeps_bounds n c (snd (submit_actor_profile env port origin_of payload c))"
  unfolding submit_actor_profile_def
  by (auto split: sum.split lua.split intro!: bounded_submit_game_data preserved.stays)

lemma bounded_request_autochat: "keeps_bounds n c (snd (request_player_autochat env port player target intent c))"
proof (rule preservedI)
  assume c: "bounded_client n c"
  let ?m = "step_then (updating (yield_poll port)) (\<lambda>_. step_then (draw_uuid env) (\<lambda>request.
      step_then (draw_uuid env) (\<lambda>message. step_then (lifted (json_of (LTable player))) (\<lambda>serialized_player.
      step_then (lifted (json_of (LTable target))) (\<lambda>serialized_target.
      step_then (\<lambda>c. enqueue_payload port (StrongId request) RK_player_autochat
        (PlayerAutochatRequest \<lparr>pa_message = StrongId message,
           pa_correlation = correlation_of port (StrongId request) c, pa_created_at = ce_utc_now env,
           pa_serialized_player = serialized_player, pa_serialized_target = serialized_target, pa_intent = intent\<rparr>) c) (\<lambda>_.
      step_then (updating (\<lambda>c. c\<lparr>nc_player_autochats := map_emplace request
          \<lparr>pau_state = ''requesting'', pau_text = [], pau_reason = [], pau_request = Some (StrongId request)\<rparr>
          (nc_player_autochats c)\<rparr>)) (\<lambda>_.
        returns (success_pair request))))))))"
  have "leads (\<lambda>c'. books_of c' = books_of c) ?m (bounded_client n)" if "nc_player_autochats c = []"
  proof (intro leads_update_then leads_quiet_then quiet_intros quiet_yield)
    fix request and c' :: "'a native_client"
    assume "books_of c' = books_of c"
    with c that show "bounded_client n (c'\<lparr>nc_player_autochats := map_emplace request
        \<lparr>pau_state = ''requesting'', pau_text = [], pau_reason = [], pau_request = Some (StrongId request)\<rparr>
        (nc_player_autochats c')\<rparr>)"
      by (auto simp: bounds_simps map_emplace_def)
  qed (use c in \<open>simp_all add: bounded_client_def\<close>)
  from leads_caught [OF this, of c] c show "bounded_client n (snd (request_player_autochat env port player target intent c))"
    unfolding request_player_autochat_def by simp
qed

lemma bounded_cancel_autochat_one:
  "keeps_bounds n c ((cancel_some port r c)\<lparr>nc_player_autochats := erase_key k (nc_player_autochats c)\<rparr>)"
proof -
  have "keeps_bounds n c (cancel_some port r c)" by (rule quiet_bounded [OF quiet_cancel(2)])
  then show ?thesis
    using length_erase_key_le [of k "nc_player_autochats c"] quiet_cancel(2) [of c port r]
    by (simp add: preserved_def bounds_simps unchanged_def)
qed

lemma bounded_cancel_autochat: "keeps_bounds n c (snd (cancel_player_autochat port request c))"
  by (auto simp: cancel_player_autochat_def Let_def bounded_cancel_autochat_one preserved.stays
      split: option.splits prod.splits intro!: preserved.through_fold)

section \<open>Transfers\<close>

lemma keeps_update: "keeps_bounds n c (update_transfer action f c)"
  by (intro preservedI bounded_update)

lemma keeps_sync: "keeps_bounds n c (sync_transfer_scope port c)"
  by (intro preservedI bounded_sync)

lemma keeps_cancel_transfer: "keeps_bounds n c (cancel_transfer action c)"
  by (simp add: cancel_transfer_def keeps_update)

lemma keeps_send_result: "through (keeps_bounds n) (send_action_result port request result)"
  unfolding send_action_result_def by (intro bounds_intros)

lemma keeps_send_receipt: "through (keeps_bounds n) (send_receipt port request action status result)"
proof (rule throughI)
  fix c :: "'a native_client"
  let ?c = "update_transfer action (rejected_transfer status (ar_reason_code result)) c"
  have sends: "keeps_bounds n c' (snd (step_then (send_action_result port request receipt) (\<lambda>answer.
      step_then (updating (update_transfer action (submitted_receipt request))) (\<lambda>_. returns answer)) c'))" for c' receipt
    by (rule through_run) (intro bounds_intros keeps_send_result keeps_update)
  have "keeps_bounds n c ?c" by (rule keeps_update)
  moreover have "keeps_bounds n ?c (update_transfer action (keep_receipt result) ?c)" by (rule keeps_update)
  ultimately show "keeps_bounds n c (snd (send_receipt port request action status result c))"
    unfolding send_receipt_def Let_def by (auto intro: preserved.continues sends)
qed

lemma keeps_submit_action: "keeps_bounds n c (snd (submit_action_result env port dto c))"
  unfolding submit_action_result_def
  by (auto intro!: preserved.stays preserved.through_caught bounds_intros keeps_send_result keeps_send_receipt split: option.split)

lemma keeps_queue: "keeps_bounds n c (queue_transfer action c)"
  using keeps_update [of n c action]
  by (auto simp: queue_transfer_def preserved_def bounds_simps split: option.split prod.split bool.split)

lemma keeps_execute: "keeps_bounds n c (snd (execute_transfer env port casting action c))"
proof -
  have "keeps_bounds n c' (queue_transfer action (update_transfer action f c'))" for c' :: "'a native_client" and f
    by (rule preserved.continues [OF keeps_update keeps_queue])
  then show ?thesis
    unfolding execute_transfer_def Let_def
    by (auto split: option.split intro: keeps_sync preserved.continues [OF keeps_sync])
qed

lemma keeps_spell_start: "keeps_bounds n c (snd (spell_start_allowed env port action spell c))"
  by (auto simp: spell_start_allowed_def Let_def preserved.stays intro!: keeps_update split: option.split)

lemma keeps_commit: "keeps_bounds n c (snd (run_commit_transfer env port outcome action session generation c))"
  by (auto simp: run_commit_transfer_def Let_def preserved.stays intro!: keeps_update split: option.split prod.split bool.split)

lemma keeps_run_action: "keeps_bounds n c (run_action env port outcome created c)"
proof -
  have "keeps_bounds n c (c\<lparr>nc_actions := x\<rparr>)" for x by (rule preservedI) (simp add: bounds_simps)
  then show ?thesis
    unfolding run_action_def Let_def
    by (auto split: list.split engine_action.split
        intro: preserved.continues keeps_commit quiet_bounded [OF quiet_run_materialize] preserved.stays)
qed

lemma keeps_retain_transfer: "keeps_bounds n c (retain_transfer port e c)"
proof (rule preserved.continues [OF keeps_sync])
  let ?c = "sync_transfer_scope port c"
  show "keeps_bounds n ?c (retain_transfer port e c)"
    unfolding retain_transfer_def Let_def
    using length_map_put [of _ _ "nc_transfers ?c"]
    by (auto simp: preserved_def bounds_simps split: option.split event_payload.split intro: order.trans [OF length_map_put])
qed

section \<open>Results\<close>

lemma keeps_receipt: "keeps_bounds n c (snd (settle_transfer_receipt result c))"
  by (auto simp: settle_transfer_receipt_def preserved.stays intro!: keeps_update split: option.split)

lemma keeps_disposition: "keeps_bounds n c (snd (settle_disposition_result result c))"
  by (auto simp: settle_disposition_result_def preserved_def bounds_simps Let_def split: option.split)

lemma keeps_autochat: "keeps_bounds n c (snd (settle_autochat_result result c))"
  by (auto simp: settle_autochat_result_def preserved_def bounds_simps Let_def split: option.split)

lemma quiet_controls: "quiet c (snd (settle_controls_result result c))"
  by (simp add: settle_controls_result_def quiet_simps Let_def split: sum.split)

lemma quiet_debug: "quiet c (snd (settle_debug_result result c))"
  by (simp add: settle_debug_result_def quiet_simps Let_def split: sum.split)

lemma quiet_diary: "quiet c (snd (settle_diary_result result c))"
  by (simp add: settle_diary_result_def quiet_simps Let_def split: sum.split)

lemmas keeps_settlements = keeps_receipt keeps_disposition keeps_autochat quiet_controls [THEN quiet_bounded]
  quiet_debug [THEN quiet_bounded] quiet_diary [THEN quiet_bounded]

definition settles_within :: "(inbound_result \<Rightarrow> 's native_client \<Rightarrow> bool \<times> 's native_client) \<Rightarrow> bool" where
  "settles_within settle \<longleftrightarrow> (\<forall>n result c. keeps_bounds n c (snd (settle result c)))"

lemma settlements_within:
  "settles_within settle_transfer_receipt" "settles_within settle_disposition_result" "settles_within settle_autochat_result"
  "settles_within settle_controls_result" "settles_within settle_debug_result" "settles_within settle_diary_result"
  by (simp_all add: settles_within_def keeps_settlements)

lemma bounded_pump_result:
  assumes "settles_within settle" "bounded_client n c"
  shows "bounded_client (Suc n) (snd (pump_result settle result (b, c)))"
proof -
  obtain settled c1 where 1: "settle result c = (settled, c1)" by (cases "settle result c")
  with assms have "bounded_client n c1" unfolding settles_within_def preserved_def by (metis snd_conv)
  then show ?thesis by (cases settled) (simp_all add: pump_result_def 1 bounds_simps)
qed

lemma bounded_pump_results:
  assumes "settles_within settle" "bounded_client n c"
  shows "bounded_client (n + length results) (snd (fold (pump_result settle) results (b, c)))"
  using assms(2)
proof (induction results arbitrary: n b c)
  case (Cons result results)
  obtain b1 c1 where 1: "pump_result settle result (b, c) = (b1, c1)" by (cases "pump_result settle result (b, c)")
  with bounded_pump_result [OF assms(1) Cons.prems, of result b] have "bounded_client (Suc n) c1" by simp
  from Cons.IH [OF this, of b1] show ?case by (simp add: 1)
qed simp

text \<open>The results of one kind of the branches of \<open>poll\<close>.\<close>

lemma books_updates:
  "books_of (c\<lparr>nc_status := s\<rparr>) = books_of c" "books_of (c\<lparr>nc_error := s\<rparr>) = books_of c"
  "books_of (c\<lparr>nc_poll_request := r\<rparr>) = books_of c" "books_of (c\<lparr>nc_cursor := k\<rparr>) = books_of c"
  "books_of (c\<lparr>nc_turn_requests := t\<rparr>) = books_of c" "books_of (c\<lparr>nc_results_seen := k\<rparr>) = books_of c"
  "books_of (c\<lparr>nc_media := m\<rparr>) = books_of c" "books_of (c\<lparr>nc_menu_dialogues := d\<rparr>) = books_of c"
  by (simp_all add: books_of_def)

lemma books_failure:
  "books_of (fail_init env result c) = books_of c" "books_of (snd (fail_dialogue result c)) = books_of c"
  "books_of (snd (fail_media result c)) = books_of c" "books_of (fail_poll env result c) = books_of c"
  "books_of (snd (fail_turn result (events, c))) = books_of c" "books_of (snd (settle_controls_result result c)) = books_of c"
  using quiet_controls [of c result]
  by (auto simp: fail_init_def fail_dialogue_def fail_media_def fail_poll_def fail_turn_def books_of_def unchanged_def Let_def
      split: option.split)

lemma quiet_failure: "quiet c (snd (take_failure env result (events, c)))"
  by (simp add: take_failure_def Let_def split_def unchanged_def books_updates books_failure split: if_split)

lemma quiet_dialogue_media: "quiet c (prepare_dialogue_media env port key media c)"
proof -
  have updates: "quiet c (update_dialogue key f c)" for f and c :: "'a native_client"
    by (simp add: update_dialogue_def quiet_simps)
  have "through quiet (step_then (lifted (canonical_descriptor env media)) (\<lambda>descriptor.
      step_then (draw_uuid env) (\<lambda>request. step_then (enqueue_media port request descriptor) (\<lambda>_.
        updating (\<lambda>c. c\<lparr>nc_media := M request c\<rparr>)))))" for M
    by (intro quiet_intros) (simp add: quiet_simps)
  note run = throughD [OF this]
  show ?thesis
    unfolding prepare_dialogue_media_def Let_def
    by (auto split: option.split prod.split sum.split intro: updates unchanged.continues [OF updates]
        unchanged.continues [OF run] dest: run intro!: unchanged.continues [OF updates [of c]])
qed

lemma quiet_dialogue_ready: "quiet c (take_dialogue_ready env port result c)"
  by (auto simp: take_dialogue_ready_def unchanged.stays quiet_dialogue_media split: option.split sum.split)
    (simp add: update_dialogue_def quiet_simps)

lemma quiet_take_init: "quiet c (take_init result c)"
  by (simp add: take_init_def accept_session_def quiet_simps Let_def split_def split: sum.split)

lemma quiet_media_ready: "quiet c (take_media_ready result c)"
  by (simp add: take_media_ready_def quiet_simps Let_def)

lemma keeps_take_events: "keeps_bounds n c (snd (take_events port result (events, c)))"
proof -
  have retained: "keeps_bounds n c' (fold (retain_transfer port) es c')" for c' :: "'a native_client" and es
    by (rule preserved.through_fold) (rule keeps_retain_transfer)
  have moved: "keeps_bounds n c (c\<lparr>nc_poll_request := r, nc_cursor := k\<rparr>)" "keeps_bounds n c (c\<lparr>nc_poll_request := r\<rparr>)" for r k
    by (simp_all add: preserved_def bounded_client_def books_updates)
  show ?thesis
    unfolding take_events_def Let_def
    by (auto split: sum.split intro: moved(2) preserved.continues [OF moved(1) retained])
qed

lemma keeps_take_answer: "keeps_bounds n c (snd (take_answer env port result (events, c)))"
proof -
  have turns: "keeps_bounds n c (c'\<lparr>nc_turn_requests := t\<rparr>)" if "keeps_bounds n c c'" for c' t
    using that by (simp add: preserved_def bounded_client_def books_updates)
  note quiet = quiet_failure quiet_take_init quiet_media_ready quiet_dialogue_ready quiet_controls
  show ?thesis
    unfolding take_answer_def Let_def
    by (auto simp: split_def intro!: turns keeps_take_events intro: quiet [THEN quiet_bounded])
qed

lemma keeps_settle_by:
  "(\<And>s. s \<in> set ss \<Longrightarrow> settles_within s) \<Longrightarrow> keeps_bounds n c (snd (settle_by ss result c))"
proof (induction ss arbitrary: c)
  case (Cons s ss)
  obtain b c1 where 1: "s result c = (b, c1)" by (cases "s result c")
  with Cons.prems [of s] have "keeps_bounds n c c1" unfolding settles_within_def by (metis list.set_intros(1) snd_conv)
  moreover have "keeps_bounds n c1 (snd (settle_by ss result c1))" using Cons.IH Cons.prems by simp
  ultimately show ?case by (cases b) (auto simp: 1 intro: preserved.continues)
qed (simp add: preserved.stays)

lemma keeps_take_result: "keeps_bounds n c (snd (take_result env port result (events, c)))"
proof -
  let ?c = "c\<lparr>nc_results_seen := nc_results_seen c + 1\<rparr>"
  obtain b c1 where 1: "settle_by settlements result ?c = (b, c1)" by (cases "settle_by settlements result ?c")
  have "keeps_bounds n ?c (snd (settle_by settlements result ?c))"
    by (rule keeps_settle_by) (auto simp: settlements_def settlements_within)
  then have "keeps_bounds n ?c c1" by (simp only: 1 snd_conv)
  moreover have "keeps_bounds n c ?c" by (simp add: preserved_def bounded_client_def books_updates)
  ultimately have "keeps_bounds n c c1" by (blast intro: preserved.continues)
  moreover have "keeps_bounds n c1 (snd (take_answer env port result (events, c1)))" by (rule keeps_take_answer)
  ultimately have taken: "keeps_bounds n c (snd (take_answer env port result (events, c1)))"
    by (rule preserved.continues)
  have "take_result env port result (events, c) = (if b then (events, c1) else take_answer env port result (events, c1))"
    unfolding take_result_def Let_def split_conv 1 by (cases b) simp_all
  with taken \<open>keeps_bounds n c c1\<close> show ?thesis by (cases b) simp_all
qed

lemma keeps_take_results: "keeps_bounds n c (snd (fold (take_result env port) results (events, c)))"
proof (induction results arbitrary: events c)
  case (Cons result results)
  obtain events1 c1 where 1: "take_result env port result (events, c) = (events1, c1)"
    by (cases "take_result env port result (events, c)")
  with keeps_take_result [of n c env port result events] have "keeps_bounds n c c1" by simp
  with Cons [of c1 events1] show ?case by (auto simp: 1 intro: preserved.continues)
qed (simp add: preserved.stays)

lemma keeps_poll: "keeps_bounds n c (snd (client_poll env port maximum c))"
proof (cases "nc_service c")
  case (Some s)
  obtain drained c1 where 1: "service_poll port (min maximum 128) (c\<lparr>nc_deferred_results := []\<rparr>) = (drained, c1)"
    by (cases "service_poll port (min maximum 128) (c\<lparr>nc_deferred_results := []\<rparr>)")
  then have c1: "keeps_bounds n c c1"
    by (auto simp: service_poll_def preserved_def bounds_simps split: prod.splits)
  obtain events c2 where 2: "fold (take_result env port) (nc_deferred_results c @ drained) ([], c1) = (events, c2)"
    by (cases "fold (take_result env port) (nc_deferred_results c @ drained) ([], c1)")
  with keeps_take_results [of n c1 env port "nc_deferred_results c @ drained" "[]"] c1 have c2: "keeps_bounds n c c2"
    by (auto intro: preserved.continues)
  note last = quiet_begin_session [THEN quiet_bounded] quiet_schedule_poll [THEN quiet_bounded]
  have "keeps_bounds n c (schedule_poll env port (begin_session env port c2))"
    by (rule preserved.continues [OF preserved.continues [OF c2 last(1)] last(2)])
  moreover have "keeps_bounds n c (schedule_poll env port c2)" by (rule preserved.continues [OF c2 last(2)])
  ultimately show ?thesis by (simp add: client_poll_def Some Let_def 1 2 del: fold_append)
qed (simp add: client_poll_def preserved.stays)

lemma keeps_cancel_generation:
  "keeps_bounds n c (snd (cancel_client_generation env port generation loaded_save identity_change c))"
proof (cases "nc_service c")
  case (Some s)
  obtain s1 r where s1: "sv_cancel_generation port (Generation generation) s = (s1, r)"
    by (cases "sv_cancel_generation port (Generation generation) s")
  have service: "keeps_bounds n c (c\<lparr>nc_service := Some s1\<rparr>)" by (simp add: preserved_def bounds_simps)
  have cleared: "keeps_bounds n c' (generation_cleared c')" for c' :: "'a native_client"
    by (simp add: generation_cleared_def diary_cleared_def preserved_def bounds_simps)
  have begun: "keeps_bounds n c' (begin_session env port (c'\<lparr>nc_loaded_save := a, nc_waiting_loaded_calendar := b,
      nc_loaded_calendar := None\<rparr>))" for c' :: "'a native_client" and a b
    using quiet_begin_session [of "c'\<lparr>nc_loaded_save := a, nc_waiting_loaded_calendar := b, nc_loaded_calendar := None\<rparr>" env port]
    by (simp add: preserved_def bounds_simps unchanged_def)
  have identity: "keeps_bounds n c' (c'\<lparr>nc_character_identity := i, nc_character_rejected := False\<rparr>)"
    "keeps_bounds n c' (c'\<lparr>nc_status := t\<rparr>)" for c' :: "'a native_client" and i t
    by (simp_all add: preserved_def bounds_simps)
  note steps = quiet_cancel_menu [THEN quiet_bounded] bounded_cancel_autochat cleared begun identity
  show ?thesis
  proof (cases r)
    case (Inr g)
    let ?c3 = "generation_cleared (snd (cancel_player_autochat port None (snd (cancel_menu_dialogue_tts port None
      (c\<lparr>nc_service := Some s1\<rparr>)))))"
    have "keeps_bounds n c ?c3"
      by (rule preserved.continues [OF service preserved.continues [OF steps(1) preserved.continues [OF steps(2) steps(3)]]])
    let ?c4 = "if identity_change
        then ?c3\<lparr>nc_character_identity := cleared_session, nc_character_rejected := False\<rparr> else ?c3"
    let ?c5 = "begin_session env port (?c4\<lparr>nc_loaded_save := loaded_save, nc_waiting_loaded_calendar := loaded_save,
        nc_loaded_calendar := None\<rparr>)"
    have "keeps_bounds n c ?c3"
      by (rule preserved.continues [OF service preserved.continues [OF steps(1) preserved.continues [OF steps(2) steps(3)]]])
    moreover have "keeps_bounds n ?c3 ?c4" using steps(5) [of ?c3] by (simp add: preserved.stays)
    moreover have "keeps_bounds n ?c4 ?c5" by (rule steps(4))
    ultimately have "keeps_bounds n c ?c5" by (blast intro: preserved.continues)
    moreover have "snd (cancel_client_generation env port generation loaded_save identity_change c)
        = ?c5\<lparr>nc_status := if session_selected (nc_character_identity ?c5) then ''connecting'' else ''waiting_identity''\<rparr>"
      unfolding cancel_client_generation_def by (simp add: Some s1 Inr Let_def)
    ultimately show ?thesis by (simp only: preserved.continues [OF _ steps(6)])
  qed (simp add: cancel_client_generation_def Some s1 service)
qed (simp add: cancel_client_generation_def preserved.stays)

section \<open>The pumps and every call\<close>

context client_service
begin

lemma bounded_pump:
  assumes "settles_within settle" "bounded_client kDeferredResultCapacity c"
  shows "bounded_client kDeferredResultCapacity (snd (pump port settle waiting c))"
proof (cases "nc_service c \<noteq> None \<and> waiting \<and> length (nc_deferred_results c) + kControlsPumpBatch \<le> kDeferredResultCapacity")
  case True
  then obtain s where s: "nc_service c = Some s" by auto
  obtain s1 results where 1: "sv_poll port kControlsPumpBatch s = (s1, results)" by (cases "sv_poll port kControlsPumpBatch s")
  have few: "length results \<le> kControlsPumpBatch" using poll_bounded [of kControlsPumpBatch s] by (simp add: 1)
  from True assms(2) have "bounded_client (length (nc_deferred_results c)) (c\<lparr>nc_service := Some s1\<rparr>)"
    by (simp add: bounds_simps)
  from bounded_pump_results [OF assms(1) this, of results False] few True show ?thesis
    by (simp add: pump_def service_poll_def s 1) (erule bounded_more, simp)
next
  case False
  with assms(2) show ?thesis unfolding pump_def by (simp only: if_False snd_conv)
qed

abbreviation within_capacity :: "'s native_client \<Rightarrow> bool" where
  "within_capacity \<equiv> bounded_client kDeferredResultCapacity"

lemma capacity_pump:
  assumes "settles_within settle" "within_capacity c" "pump port settle waiting c = (b, c')"
  shows "within_capacity c'"
  using bounded_pump [OF assms(1,2), of waiting] by (simp add: assms(3))

lemma capacity_pumps:
  assumes "within_capacity c"
  shows "within_capacity (snd (pump_session_controls port c))" "within_capacity (snd (pump_debug_command port c))"
    "within_capacity (snd (pump_diary_book port receipt c))" "within_capacity (snd (pump_player_autochat port c))"
    "within_capacity (snd (pump_disposition_result port request c))"
proof -
  note pumped = capacity_pump [OF _ assms]
  have debug: "within_capacity c' \<Longrightarrow> within_capacity (c'\<lparr>nc_debug_command := None\<rparr>)" for c'
    by (simp add: bounds_simps)
  have erased: "within_capacity c' \<Longrightarrow>
      within_capacity (c'\<lparr>nc_disposition_receipts := erase_key request (nc_disposition_receipts c')\<rparr>)" for c'
    using length_erase_key_le [of request "nc_disposition_receipts c'"] by (simp add: bounds_simps)
  show "within_capacity (snd (pump_session_controls port c))"
    by (simp add: pump_session_controls_def split: prod.split) (blast intro: pumped settlements_within)
  show "within_capacity (snd (pump_debug_command port c))"
    by (simp add: pump_debug_command_def split: prod.split) (blast intro: debug pumped settlements_within)
  show "within_capacity (snd (pump_diary_book port receipt c))"
    by (simp add: pump_diary_book_def split: prod.split) (blast intro: pumped settlements_within)
  show "within_capacity (snd (pump_player_autochat port c))"
    by (simp add: pump_player_autochat_def split: prod.split) (blast intro: pumped settlements_within)
  show "within_capacity (snd (pump_disposition_result port request c))"
    by (auto simp: pump_disposition_result_def split: prod.split option.split)
      (blast intro: erased pumped settlements_within)+
qed

lemmas quiet_calls = quiet_captured_stt quiet_metadata quiet_request_controls quiet_select_control quiet_cancel_diary
  quiet_request_diary quiet_materialize quiet_submit_diary quiet_request_debug quiet_submit_debug quiet_prepare_media
  quiet_release quiet_request_menu quiet_cancel_menu quiet_delivery quiet_configure quiet_transport quiet_finish_save quiet_halt

lemmas keeping_calls = bounded_submit_turn bounded_submit_game_data bounded_actor_profile bounded_request_autochat
  bounded_cancel_autochat keeps_submit_action keeps_execute keeps_cancel_transfer keeps_spell_start keeps_update
  keeps_run_action keeps_poll keeps_cancel_generation

lemma capacity_step: "within_capacity c \<Longrightarrow> within_capacity (client_step env port op c)"
proof -
  assume c: "within_capacity c"
  have quiet: "quiet c c' \<Longrightarrow> within_capacity c'" for c' using c quiet_bounded unfolding preserved_def by blast
  have kept: "preserved within_capacity c c' \<Longrightarrow> within_capacity c'" for c' using c unfolding preserved_def by blast
  show ?thesis
    by (cases op) (simp_all only: client_step.simps quiet_calls [THEN quiet] keeping_calls [THEN kept] capacity_pumps [OF c])
qed

theorem capacity_invariant: "client_reachable port moves c \<Longrightarrow> within_capacity c"
proof (induction rule: client_reachable.induct)
  case (created loaded start)
  show ?case by (simp add: client_new_def client_unconfigured_def bounds_simps snapshots_bounded_def Let_def split: sum.split)
next
  case (called c env op)
  show ?case by (rule capacity_step) (rule called.IH)
next
  case (served c s s')
  then show ?case by (simp add: bounds_simps)
qed

end

end
