(* ===== verification/Client_Transfer_Props.thy ===== *)
theory Client_Transfer_Props
  imports Client_Bounds Protocol_Action_Props
begin

text \<open>
  The life of a transfer over any run of the client: within one session and generation a record stays,
  its gate only moves forward, what settled stays settled and a receipt that is kept stays the same.
  From this: the engine is asked to commit a transfer at most once.
\<close>

section \<open>Runs\<close>

inductive client_runs ::
  "'s service_port \<Rightarrow> ('s \<Rightarrow> 's \<Rightarrow> bool) \<Rightarrow> 's native_client \<Rightarrow> 's native_client \<Rightarrow> bool" for port moves c where
  runs_here: "client_runs port moves c c"
| runs_call: "client_runs port moves c c' \<Longrightarrow> client_runs port moves c (client_step env port op c')"
| runs_serve: "client_runs port moves c c' \<Longrightarrow> nc_service c' = Some s \<Longrightarrow> moves s s'
    \<Longrightarrow> client_runs port moves c (c'\<lparr>nc_service := Some s'\<rparr>)"

section \<open>What a record may do\<close>

fun gate_rank :: "gate_state \<Rightarrow> nat" where
  "gate_rank Gate_fresh = 0"
| "gate_rank Gate_pending = 1"
| "gate_rank Gate_executing = 2"
| "gate_rank Gate_terminal = 3"

definition open_status :: "string \<Rightarrow> bool" where
  "open_status s \<longleftrightarrow> s = ''pending'' \<or> s = ''awaiting_confirmation''"

definition record_ok :: "transfer_record \<Rightarrow> bool" where
  "record_ok r \<longleftrightarrow>
     (tr_gate r = Gate_terminal \<longrightarrow> \<not> open_status (tr_status r))
     \<and> (tr_gate r = Gate_executing \<longrightarrow> tr_status r \<noteq> ''awaiting_confirmation'')"

definition record_advances :: "transfer_record \<Rightarrow> transfer_record \<Rightarrow> bool" where
  "record_advances r r' \<longleftrightarrow>
     tr_intent r' = tr_intent r \<and> tr_snapshot r' = tr_snapshot r \<and> gate_rank (tr_gate r) \<le> gate_rank (tr_gate r')
     \<and> (tr_receipt r \<noteq> None \<longrightarrow> tr_receipt r' = tr_receipt r)
     \<and> (record_ok r \<longrightarrow> record_ok r')
     \<and> (record_ok r \<and> tr_gate r = Gate_terminal \<longrightarrow> tr_status r' = tr_status r \<and> tr_reason r' = tr_reason r)"

lemmas record_defs = record_advances_def record_ok_def open_status_def gate_defs

lemma gate_rank_terminal: "3 \<le> gate_rank g \<longleftrightarrow> g = Gate_terminal"
  by (cases g) simp_all

lemma record_stays: "record_advances r r"
  by (simp add: record_advances_def)

lemma record_continues: "record_advances a b \<Longrightarrow> record_advances b c \<Longrightarrow> record_advances a c"
  unfolding record_advances_def by (metis gate_rank.simps(4) gate_rank_terminal order.trans)

lemma advances_cancelled: "record_advances r (cancelled_transfer r)"
  by (cases "tr_gate r") (auto simp: cancelled_transfer_def record_defs)

lemma advances_finished: "record_advances r (finished_transfer r)"
  by (cases "tr_gate r") (auto simp: finished_transfer_def record_defs)

lemma advances_rejected:
  "status = ''rejected'' \<or> status = ''cancelled'' \<Longrightarrow> record_advances r (rejected_transfer status reason r)"
  by (cases "tr_gate r"; elim disjE) (simp_all add: rejected_transfer_def record_defs)

lemma advances_rejected_any: "record_advances r (rejected_transfer status reason r)"
  using advances_rejected [of status r reason]
  by (cases "status = ''rejected'' \<or> status = ''cancelled''") (auto simp: rejected_transfer_def record_stays)

lemma advances_receipt:
  "record_advances r (keep_receipt result r)" "record_advances r (submitted_receipt request r)"
  "record_advances r (settled_receipt answer action r)"
  by (auto simp: keep_receipt_def submitted_receipt_def settled_receipt_def record_defs split: option.split)

lemma advances_spell:
  "record_advances r (spell_finished success failure r)" "record_advances r (r\<lparr>tr_spell_started := b\<rparr>)"
  "record_advances r ((if tr_status r = ''pending''
      then r\<lparr>tr_status := ''failed'', tr_reason := reason, tr_gate := gate_finish (tr_gate r)\<rparr> else r)\<lparr>tr_spell_hook := b\<rparr>)"
  by (cases "tr_gate r"; auto simp: spell_finished_def record_defs)+

lemma advances_checked: "record_advances r (checked_transfer env casting r)"
  by (cases "tr_gate r") (auto simp: checked_transfer_def record_defs Let_def)

lemma advances_gate: "gate_begin (tr_gate r) = (g, b) \<Longrightarrow> tr_status r = ''pending'' \<Longrightarrow> record_advances r (r\<lparr>tr_gate := g\<rparr>)"
  by (cases "tr_gate r") (auto simp: record_defs)

lemma advances_queued:
  "gate_queue (tr_gate r) = (g, True) \<Longrightarrow> record_advances r (r\<lparr>tr_gate := g, tr_status := ''pending''\<rparr>)"
  by (cases "tr_gate r") (auto simp: record_defs)

lemma advances_committed:
  assumes "tr_gate r = Gate_executing"
  shows "record_advances r (committed_transfer env outcome snapshot r)"
proof -
  have set: "s \<noteq> ''awaiting_confirmation'' \<Longrightarrow> record_advances r (r\<lparr>tr_status := s, tr_reason := t\<rparr>)"
    "s \<noteq> ''awaiting_confirmation'' \<Longrightarrow> record_advances r (r\<lparr>tr_spell_hook := b, tr_status := s, tr_reason := t\<rparr>)" for s t b
    using assms by (simp_all add: record_defs)
  note finished = record_continues [OF set(1) advances_finished] record_continues [OF set(2) advances_finished]
  show ?thesis
    unfolding committed_transfer_def
    by (simp add: set finished split: option.split sum.split commit_outcome.split)
qed

section \<open>What the client may do\<close>

definition records_ok :: "'s native_client \<Rightarrow> bool" where
  "records_ok c \<longleftrightarrow> (\<forall>a r. map_of (nc_transfers c) a = Some r \<longrightarrow> record_ok r)"

definition records_advance :: "'s native_client \<Rightarrow> 's native_client \<Rightarrow> bool" where
  "records_advance c c' \<longleftrightarrow>
     (\<forall>a r. map_of (nc_transfers c) a = Some r \<longrightarrow> (\<exists>r'. map_of (nc_transfers c') a = Some r' \<and> record_advances r r'))"

lemma records_advance_trans: "records_advance a b \<Longrightarrow> records_advance b c \<Longrightarrow> records_advance a c"
  unfolding records_advance_def by (meson record_continues)

definition transfers_advance :: "'s native_client \<Rightarrow> 's native_client \<Rightarrow> bool" where
  "transfers_advance c c' \<longleftrightarrow>
     nc_transfer_scopes c \<le> nc_transfer_scopes c'
     \<and> (nc_transfer_scopes c' = nc_transfer_scopes c \<longrightarrow> records_advance c c')
     \<and> (records_ok c \<longrightarrow> records_ok c')"

lemmas advance_defs = transfers_advance_def records_advance_def records_ok_def

interpretation advance: progress transfers_advance
proof (unfold_locales, goal_cases)
  case (1 c)
  show ?case by (auto simp: advance_defs record_stays)
next
  case (2 a b c)
  have "records_advance a c" if "nc_transfer_scopes c = nc_transfer_scopes a"
    using 2 that unfolding transfers_advance_def by (metis antisym records_advance_trans)
  with 2 show ?case unfolding transfers_advance_def by auto
qed

definition transfer_books :: "'s native_client \<Rightarrow> (string \<times> transfer_record) list \<times> nat" where
  "transfer_books c = (nc_transfers c, nc_transfer_scopes c)"

lemma advance_same: "transfer_books c' = transfer_books c \<Longrightarrow> transfers_advance c c'"
  by (auto simp: transfer_books_def advance_defs record_stays)

lemma quiet_advance: "quiet c c' \<Longrightarrow> transfers_advance c c'"
  by (rule advance_same) (simp add: unchanged_def books_of_def transfer_books_def)

lemma through_quiet_advance: "through quiet m \<Longrightarrow> through transfers_advance m"
  by (simp add: through_def quiet_advance)

lemmas advance_intros = advance.through_intros quiet_draw [THEN through_quiet_advance]
  quiet_call [THEN through_quiet_advance] quiet_enqueue [THEN through_quiet_advance]
  quiet_enqueue_of [THEN through_quiet_advance]

lemma advance_update_at:
  assumes "\<And>r. map_of (nc_transfers c) action = Some r \<Longrightarrow> record_advances r (f r)"
  shows "transfers_advance c (update_transfer action f c)"
  unfolding advance_defs update_transfer_def
  using assms by (auto simp: map_of_update_key record_stays) (auto simp: record_advances_def split: if_splits)

lemma advance_update: "(\<And>r. record_advances r (f r)) \<Longrightarrow> transfers_advance c (update_transfer action f c)"
  by (rule advance_update_at)

lemma advance_sync: "transfers_advance c (sync_transfer_scope port c)"
  by (auto simp: sync_transfer_scope_def advance_defs record_stays Let_def)

lemma advance_retain_transfer: "transfers_advance c (retain_transfer port e c)"
proof (rule advance.continues [OF advance_sync])
  let ?c = "sync_transfer_scope port c"
  have ended: "transfers_advance ?c (x\<lparr>nc_transfers := map_values (\<lambda>_ r. if P r then cancelled_transfer r else r) (nc_transfers ?c)\<rparr>)"
    if "transfer_books x = transfer_books ?c" for x P
    using that advances_cancelled
    by (auto simp: advance_defs transfer_books_def map_of_map_values record_stays)
      (auto simp: record_advances_def)
  have kept: "record_ok (new_transfer intent snapshot)" for intent snapshot
    by (simp add: new_transfer_def record_ok_def)
  have added: "transfers_advance ?c (?c\<lparr>nc_transfers := map_put a (new_transfer intent snapshot) (nc_transfers ?c)\<rparr>)"
    if "map_of (nc_transfers ?c) a = None" for a intent snapshot
    using that by (auto simp: advance_defs map_of_map_put record_stays kept)
  show "transfers_advance ?c (retain_transfer port e c)"
    unfolding retain_transfer_def Let_def
    by (auto simp: advance.stays transfer_books_def added intro!: ended split: option.split event_payload.split)
qed

section \<open>Every call\<close>

lemma advance_books: "transfer_books c' = transfer_books c \<Longrightarrow> transfers_advance x c \<Longrightarrow> transfers_advance x c'"
  by (blast intro: advance.continues advance_same)

lemma advance_retain_snapshot: "transfers_advance c (retain_snapshot turn i c)"
  by (rule advance_same) (simp add: retain_snapshot_def transfer_books_def Let_def)

lemma advance_capture: "through transfers_advance (capture_transfer_snapshot port capture payload)"
proof (rule throughI)
  fix c :: "'a native_client"
  show "transfers_advance c (snd (capture_transfer_snapshot port capture payload c))"
    by (rule advance_books [OF _ advance_sync [of c port]]) (simp add: capture_transfer_snapshot_def transfer_books_def Let_def)
qed

lemma advance_submit_turn: "transfers_advance c (snd (submit_turn env port capture dto c))"
proof -
  have turns: "transfers_advance c (c\<lparr>nc_turn_requests := t\<rparr>)" for c :: "'a native_client" and t
    by (rule advance_same) (simp add: transfer_books_def)
  show ?thesis
    unfolding submit_turn_def
    by (cases "client_ready c")
      (simp_all add: advance.stays, intro advance.through_caught advance_intros advance_capture turns advance_retain_snapshot)
qed

lemma advance_game_data: "transfers_advance c (snd (submit_game_data env port kind payload c))"
proof -
  have set: "transfers_advance c (c\<lparr>nc_disposition_receipts := t\<rparr>)" for c :: "'a native_client" and t
    by (rule advance_same) (simp add: transfer_books_def)
  have set_if: "transfers_advance c (if b then c\<lparr>nc_disposition_receipts := t\<rparr> else c)" for c :: "'a native_client" and t b
    by (simp add: set advance.stays)
  let ?c = "if kind = GD_disposition
    then c\<lparr>nc_disposition_receipts := reclaim_receipts (nc_disposition_receipts c)\<rparr> else c"
  have "transfers_advance c ?c" by (rule set_if)
  moreover have "transfers_advance ?c (snd (if b then (p, ?c) else caught
      (step_then (draw_uuid env) (\<lambda>request. step_then (lifted (json_of (LTable payload))) (\<lambda>serialized.
       step_then (\<lambda>c. enqueue_payload port (StrongId request) RK_gamedata
         (GameDataRequest (game_data_of env port kind (StrongId request) serialized c)) c) (\<lambda>_.
       step_then (updating (\<lambda>c. if kind = GD_disposition
         then c\<lparr>nc_disposition_receipts := map_put request ''pending'' (nc_disposition_receipts c)\<rparr> else c)) (\<lambda>_.
         returns (success_pair request)))))) ?c))" for b p
    by (cases b) (simp_all only: if_True if_False snd_conv advance.stays, intro advance.through_caught advance_intros set_if)
  ultimately show ?thesis
    unfolding submit_game_data_def Let_def
    by (cases "client_ready c") (simp_all only: not_True_eq_False not_False_eq_True if_True if_False snd_conv advance.stays,
        blast intro: advance.continues)
qed

lemma advance_actor_profile: "transfers_advance c (snd (submit_actor_profile env port origin_of payload c))"
  unfolding submit_actor_profile_def
  by (auto split: sum.split lua.split intro!: advance_game_data advance.stays)

lemma advance_request_autochat: "transfers_advance c (snd (request_player_autochat env port player target intent c))"
proof -
  have set: "transfers_advance c (c\<lparr>nc_player_autochats := t\<rparr>)" for c :: "'a native_client" and t
    by (rule advance_same) (simp add: transfer_books_def)
  show ?thesis
    unfolding request_player_autochat_def
    by (auto simp: advance.stays intro!: advance.through_caught advance_intros set quiet_advance [OF quiet_yield])
qed

lemma advance_cancel_autochat: "transfers_advance c (snd (cancel_player_autochat port request c))"
proof -
  have one: "transfers_advance c ((cancel_some port r c)\<lparr>nc_player_autochats := t\<rparr>)" for c :: "'a native_client" and t r
    by (rule advance_books [OF _ quiet_advance [OF quiet_cancel(2)]]) (simp add: transfer_books_def)
  show ?thesis
    by (auto simp: cancel_player_autochat_def Let_def one advance.stays
        split: option.splits prod.splits intro!: advance.through_fold)
qed

lemma advance_cancel_transfer: "transfers_advance c (cancel_transfer action c)"
  unfolding cancel_transfer_def by (rule advance_update) (rule advances_cancelled)

lemma advance_send_result: "through transfers_advance (send_action_result port request result)"
  unfolding send_action_result_def by (intro advance_intros)

lemma advance_send_receipt: "through transfers_advance (send_receipt port request action status result)"
proof (rule throughI)
  fix c :: "'a native_client"
  let ?c = "update_transfer action (rejected_transfer status (ar_reason_code result)) c"
  have sends: "transfers_advance c' (snd (step_then (send_action_result port request receipt) (\<lambda>answer.
      step_then (updating (update_transfer action (submitted_receipt request))) (\<lambda>_. returns answer)) c'))" for c' receipt
    by (rule through_run) (intro advance_intros advance_send_result advance_update advances_receipt)
  have 1: "transfers_advance c ?c" by (intro advance_update advances_rejected_any)
  have 2: "transfers_advance ?c (update_transfer action (keep_receipt result) ?c)" by (intro advance_update advances_receipt)
  show "transfers_advance c (snd (send_receipt port request action status result c))"
    unfolding send_receipt_def Let_def
    using 1 advance.continues [OF 1 advance.continues [OF 2 sends]] by simp
qed

lemma advance_submit_action: "transfers_advance c (snd (submit_action_result env port dto c))"
  unfolding submit_action_result_def
  by (auto intro!: advance.stays advance.through_caught advance_intros advance_send_result advance_send_receipt split: option.split)

lemma advance_queue: "transfers_advance c (queue_transfer action c)"
proof (cases "map_of (nc_transfers c) action")
  case (Some r)
  obtain g b where g: "gate_queue (tr_gate r) = (g, b)" by (cases "gate_queue (tr_gate r)")
  let ?c = "update_transfer action (\<lambda>r. r\<lparr>tr_gate := g, tr_status := ''pending''\<rparr>) c"
  have "b \<Longrightarrow> transfers_advance c ?c"
    using g by (intro advance_update_at advances_queued) (simp add: Some)
  then have "b \<Longrightarrow> transfers_advance c (?c\<lparr>nc_actions := as\<rparr>)" for as
    by (rule advance_books [rotated]) (simp_all add: transfer_books_def)
  then show ?thesis by (cases b) (simp_all add: queue_transfer_def Some g advance.stays)
qed (simp add: queue_transfer_def advance.stays)

lemma advance_execute: "transfers_advance c (snd (execute_transfer env port casting action c))"
proof -
  have "transfers_advance c' (queue_transfer action (update_transfer action (checked_transfer env casting) c'))"
    for c' :: "'a native_client"
    by (intro advance.continues [OF advance_update advance_queue] advances_checked)
  from advance.continues [OF advance_sync [of c port] this] show ?thesis
    unfolding execute_transfer_def Let_def by (simp add: advance_sync split: option.split)
qed

lemma advance_spell_start: "transfers_advance c (snd (spell_start_allowed env port action spell c))"
  unfolding spell_start_allowed_def Let_def
  by (auto simp: advance.stays intro!: advance_update advances_spell split: option.split)

lemma advance_commit: "transfers_advance c (snd (run_commit_transfer env port outcome action session generation c))"
proof (cases "map_of (nc_transfers c) action")
  case (Some r)
  obtain g b where g: "gate_begin (tr_gate r) = (g, b)" by (cases "gate_begin (tr_gate r)")
  have begun: "record_advances r (r\<lparr>tr_gate := g\<rparr>)" if "tr_status r = ''pending''" using g that by (rule advances_gate)
  have "b \<Longrightarrow> g = Gate_executing" using g by (auto simp: gate_begin_def split: if_splits)
  then have committed: "record_advances r (committed_transfer env outcome snapshot (r\<lparr>tr_gate := g\<rparr>))"
    if "tr_status r = ''pending''" "b" for snapshot
    using that by (intro record_continues [OF begun advances_committed]) simp_all
  have "tr_status r = ''pending'' \<Longrightarrow> transfers_advance c (update_transfer action (\<lambda>r. r\<lparr>tr_gate := g\<rparr>) c)"
    by (intro advance_update_at) (use begun in \<open>auto simp: Some\<close>)
  moreover have "transfers_advance c (update_transfer action (\<lambda>_. committed_transfer env outcome snapshot (r\<lparr>tr_gate := g\<rparr>)) c)"
    if "tr_status r = ''pending''" "b" for snapshot
    using committed [OF that] by (intro advance_update_at) (simp add: Some)
  ultimately show ?thesis
    by (cases b) (simp_all add: run_commit_transfer_def Some g Let_def advance.stays)
qed (simp add: run_commit_transfer_def advance.stays)

lemma advance_run_action: "transfers_advance c (run_action env port outcome created c)"
proof -
  have "transfers_advance c (c\<lparr>nc_actions := x\<rparr>)" for x by (rule advance_same) (simp add: transfer_books_def)
  then show ?thesis
    unfolding run_action_def Let_def
    by (auto split: list.split engine_action.split
        intro: advance.continues advance_commit quiet_advance [OF quiet_run_materialize] advance.stays)
qed

definition settles_transfers :: "(inbound_result \<Rightarrow> 's native_client \<Rightarrow> bool \<times> 's native_client) \<Rightarrow> bool" where
  "settles_transfers settle \<longleftrightarrow> (\<forall>result c. transfers_advance c (snd (settle result c)))"

lemma settlements_advance:
  "settles_transfers settle_transfer_receipt" "settles_transfers settle_disposition_result"
  "settles_transfers settle_autochat_result" "settles_transfers settle_controls_result"
  "settles_transfers settle_debug_result" "settles_transfers settle_diary_result"
proof -
  show "settles_transfers settle_transfer_receipt"
    by (auto simp: settles_transfers_def settle_transfer_receipt_def advance.stays split: option.split
        intro!: advance_update advances_receipt)
  show "settles_transfers settle_disposition_result" "settles_transfers settle_autochat_result"
    by (auto simp: settles_transfers_def settle_disposition_result_def settle_autochat_result_def Let_def advance.stays
        transfer_books_def split: option.split intro!: advance_same)
qed (simp_all add: settles_transfers_def quiet_advance quiet_controls quiet_debug quiet_diary)

lemma advance_pump:
  assumes "settles_transfers settle" "pump port settle waiting c = (b, c')"
  shows "transfers_advance c c'"
proof -
  have one: "transfers_advance c (snd (pump_result settle result (b, c)))" for result b and c :: "'a native_client"
  proof -
    obtain settled c1 where 1: "settle result c = (settled, c1)" by (cases "settle result c")
    with assms(1) have "transfers_advance c c1" unfolding settles_transfers_def by (metis snd_conv)
    then show ?thesis
      by (cases settled) (auto simp: pump_result_def 1 transfer_books_def intro: advance_books [rotated])
  qed
  have all: "transfers_advance c (snd (fold (pump_result settle) results (b, c)))" for results b and c :: "'a native_client"
  proof (induction results arbitrary: b c)
    case (Cons result results)
    obtain b1 c1 where 1: "pump_result settle result (b, c) = (b1, c1)" by (cases "pump_result settle result (b, c)")
    with one [of c result b] Cons [of c1 b1] show ?case by (auto simp: 1 intro: advance.continues)
  qed (simp add: advance.stays)
  have "transfers_advance c (c\<lparr>nc_service := s\<rparr>)" for s by (rule advance_same) (simp add: transfer_books_def)
  then have "transfers_advance c (snd (pump port settle waiting c))"
    unfolding pump_def service_poll_def Let_def
    by (auto simp: split_def advance.stays intro: advance.continues [OF _ all])
  with assms(2) show ?thesis by simp
qed

lemma advance_pumps:
  "transfers_advance c (snd (pump_session_controls port c))" "transfers_advance c (snd (pump_debug_command port c))"
  "transfers_advance c (snd (pump_diary_book port receipt c))" "transfers_advance c (snd (pump_player_autochat port c))"
  "transfers_advance c (snd (pump_disposition_result port request c))"
proof -
  note pumped = advance_pump [OF settlements_advance(2)] advance_pump [OF settlements_advance(3)]
    advance_pump [OF settlements_advance(4)] advance_pump [OF settlements_advance(5)] advance_pump [OF settlements_advance(6)]
  have debug: "transfers_advance c c' \<Longrightarrow> transfers_advance c (c'\<lparr>nc_debug_command := x\<rparr>)" for c' :: "'a native_client" and x
    by (rule advance_books) (simp_all add: transfer_books_def)
  have erased: "transfers_advance c c' \<Longrightarrow> transfers_advance c (c'\<lparr>nc_disposition_receipts := x\<rparr>)"
    for c' :: "'a native_client" and x
    by (rule advance_books) (simp_all add: transfer_books_def)
  show "transfers_advance c (snd (pump_session_controls port c))"
    by (simp add: pump_session_controls_def split: prod.split) (blast intro: pumped)
  show "transfers_advance c (snd (pump_debug_command port c))"
    by (simp add: pump_debug_command_def split: prod.split) (blast intro: debug pumped)
  show "transfers_advance c (snd (pump_diary_book port receipt c))"
    by (simp add: pump_diary_book_def split: prod.split) (blast intro: pumped)
  show "transfers_advance c (snd (pump_player_autochat port c))"
    by (simp add: pump_player_autochat_def split: prod.split) (blast intro: pumped)
  show "transfers_advance c (snd (pump_disposition_result port request c))"
    by (auto simp: pump_disposition_result_def split: prod.split option.split) (blast intro: erased pumped)+
qed

lemma advance_take_events: "transfers_advance c (snd (take_events port result (events, c)))"
proof -
  have retained: "transfers_advance c' (fold (retain_transfer port) es c')" for c' :: "'a native_client" and es
    by (rule advance.through_fold) (rule advance_retain_transfer)
  have moved: "transfers_advance c (c\<lparr>nc_poll_request := r, nc_cursor := k\<rparr>)" "transfers_advance c (c\<lparr>nc_poll_request := r\<rparr>)" for r k
    by (rule advance_same, simp add: transfer_books_def)+
  show ?thesis
    unfolding take_events_def Let_def
    by (auto split: sum.split intro: moved(2) advance.continues [OF moved(1) retained])
qed

lemma advance_take_answer: "transfers_advance c (snd (take_answer env port result (events, c)))"
proof -
  have turns: "transfers_advance c (c'\<lparr>nc_turn_requests := t\<rparr>)" if "transfers_advance c c'" for c' t
    by (rule advance_books [OF _ that]) (simp add: transfer_books_def)
  note quiet = quiet_failure quiet_take_init quiet_media_ready quiet_dialogue_ready quiet_controls
  show ?thesis
    unfolding take_answer_def Let_def
    by (auto simp: split_def intro!: turns advance_take_events intro: quiet [THEN quiet_advance])
qed

lemma advance_settle_by:
  "(\<And>s. s \<in> set ss \<Longrightarrow> settles_transfers s) \<Longrightarrow> transfers_advance c (snd (settle_by ss result c))"
proof (induction ss arbitrary: c)
  case (Cons s ss)
  obtain b c1 where 1: "s result c = (b, c1)" by (cases "s result c")
  with Cons.prems [of s] have "transfers_advance c c1" unfolding settles_transfers_def by (metis list.set_intros(1) snd_conv)
  moreover have "transfers_advance c1 (snd (settle_by ss result c1))" using Cons.IH Cons.prems by simp
  ultimately show ?case by (cases b) (auto simp: 1 intro: advance.continues)
qed (simp add: advance.stays)

lemma advance_take_result: "transfers_advance c (snd (take_result env port result (events, c)))"
proof -
  let ?c = "c\<lparr>nc_results_seen := nc_results_seen c + 1\<rparr>"
  obtain b c1 where 1: "settle_by settlements result ?c = (b, c1)" by (cases "settle_by settlements result ?c")
  have "transfers_advance ?c (snd (settle_by settlements result ?c))"
    by (rule advance_settle_by) (auto simp: settlements_def settlements_advance)
  then have "transfers_advance ?c c1" by (simp only: 1 snd_conv)
  moreover have "transfers_advance c ?c" by (rule advance_same) (simp add: transfer_books_def)
  ultimately have c1: "transfers_advance c c1" by (blast intro: advance.continues)
  have "take_result env port result (events, c) = (if b then (events, c1) else take_answer env port result (events, c1))"
    unfolding take_result_def Let_def split_conv 1 by (cases b) simp_all
  with c1 advance.continues [OF c1 advance_take_answer] show ?thesis by (cases b) simp_all
qed

lemma advance_take_results: "transfers_advance c (snd (fold (take_result env port) results (events, c)))"
proof (induction results arbitrary: events c)
  case (Cons result results)
  obtain events1 c1 where 1: "take_result env port result (events, c) = (events1, c1)"
    by (cases "take_result env port result (events, c)")
  with advance_take_result [of c env port result events] have "transfers_advance c c1" by simp
  with Cons [of c1 events1] show ?case by (auto simp: 1 intro: advance.continues)
qed (simp add: advance.stays)

lemma advance_poll: "transfers_advance c (snd (client_poll env port maximum c))"
proof (cases "nc_service c")
  case (Some s)
  obtain drained c1 where 1: "service_poll port (min maximum 128) (c\<lparr>nc_deferred_results := []\<rparr>) = (drained, c1)"
    by (cases "service_poll port (min maximum 128) (c\<lparr>nc_deferred_results := []\<rparr>)")
  then have c1: "transfers_advance c c1"
    by (intro advance_same) (auto simp: service_poll_def transfer_books_def split: prod.splits)
  obtain events c2 where 2: "fold (take_result env port) (nc_deferred_results c @ drained) ([], c1) = (events, c2)"
    by (cases "fold (take_result env port) (nc_deferred_results c @ drained) ([], c1)")
  with advance_take_results [of c1 env port "nc_deferred_results c @ drained" "[]"] c1 have c2: "transfers_advance c c2"
    by (auto intro: advance.continues)
  note last = quiet_begin_session [THEN quiet_advance] quiet_schedule_poll [THEN quiet_advance]
  have "transfers_advance c (schedule_poll env port (begin_session env port c2))"
    by (rule advance.continues [OF advance.continues [OF c2 last(1)] last(2)])
  moreover have "transfers_advance c (schedule_poll env port c2)" by (rule advance.continues [OF c2 last(2)])
  ultimately show ?thesis by (simp add: client_poll_def Some Let_def 1 2 del: fold_append)
qed (simp add: client_poll_def advance.stays)

lemma advance_cancel_generation:
  "transfers_advance c (snd (cancel_client_generation env port generation loaded_save identity_change c))"
proof (cases "nc_service c")
  case (Some s)
  obtain s1 r where s1: "sv_cancel_generation port (Generation generation) s = (s1, r)"
    by (cases "sv_cancel_generation port (Generation generation) s")
  have service: "transfers_advance c (c\<lparr>nc_service := Some s1\<rparr>)" by (rule advance_same) (simp add: transfer_books_def)
  show ?thesis
  proof (cases r)
    case (Inr g)
    let ?c2 = "snd (cancel_player_autochat port None (snd (cancel_menu_dialogue_tts port None (c\<lparr>nc_service := Some s1\<rparr>))))"
    let ?c3 = "generation_cleared ?c2"
    let ?c4 = "if identity_change
        then ?c3\<lparr>nc_character_identity := cleared_session, nc_character_rejected := False\<rparr> else ?c3"
    let ?c4' = "?c4\<lparr>nc_loaded_save := loaded_save, nc_waiting_loaded_calendar := loaded_save, nc_loaded_calendar := None\<rparr>"
    let ?c5 = "begin_session env port ?c4'"
    have "transfers_advance c ?c2"
      by (rule advance.continues [OF service advance.continues [OF quiet_advance [OF quiet_cancel_menu] advance_cancel_autochat]])
    moreover have "transfer_books ?c4' = transfer_books ?c2"
      by (simp add: transfer_books_def generation_cleared_def diary_cleared_def)
    ultimately have "transfers_advance c ?c4'" by (blast intro: advance_books)
    then have "transfers_advance c ?c5" by (rule advance.continues) (rule quiet_advance [OF quiet_begin_session])
    moreover have "snd (cancel_client_generation env port generation loaded_save identity_change c)
        = ?c5\<lparr>nc_status := if session_selected (nc_character_identity ?c5) then ''connecting'' else ''waiting_identity''\<rparr>"
      unfolding cancel_client_generation_def by (simp add: Some s1 Inr Let_def)
    moreover have "transfer_books (?c5\<lparr>nc_status := t\<rparr>) = transfer_books ?c5" for t by (simp add: transfer_books_def)
    ultimately show ?thesis by (simp only: advance_books)
  qed (simp add: cancel_client_generation_def Some s1 service)
qed (simp add: cancel_client_generation_def advance.stays)

lemmas advancing_calls = advance_submit_turn advance_game_data advance_actor_profile advance_request_autochat
  advance_cancel_autochat advance_submit_action advance_execute advance_cancel_transfer advance_spell_start
  advance_update [OF advances_spell(1)] advance_run_action advance_poll advance_cancel_generation advance_pumps

lemma advance_step: "transfers_advance c (client_step env port op c)"
  by (cases op) (simp_all only: client_step.simps advancing_calls quiet_captured_stt [THEN quiet_advance]
    quiet_metadata [THEN quiet_advance] quiet_request_controls [THEN quiet_advance] quiet_select_control [THEN quiet_advance]
    quiet_cancel_diary [THEN quiet_advance] quiet_request_diary [THEN quiet_advance] quiet_materialize [THEN quiet_advance]
    quiet_submit_diary [THEN quiet_advance] quiet_request_debug [THEN quiet_advance] quiet_submit_debug [THEN quiet_advance]
    quiet_prepare_media [THEN quiet_advance] quiet_release [THEN quiet_advance] quiet_request_menu [THEN quiet_advance]
    quiet_cancel_menu [THEN quiet_advance] quiet_delivery [THEN quiet_advance] quiet_configure [THEN quiet_advance]
    quiet_transport [THEN quiet_advance] quiet_finish_save [THEN quiet_advance] quiet_halt [THEN quiet_advance])

lemma advance_served: "transfers_advance c (c\<lparr>nc_service := s\<rparr>)"
  by (rule advance_same) (simp add: transfer_books_def)

lemma advance_runs: "client_runs port moves c c' \<Longrightarrow> transfers_advance c c'"
proof (induction rule: client_runs.induct)
  case (runs_call c' env op)
  from runs_call.IH show ?case by (rule advance.continues) (rule advance_step)
next
  case (runs_serve c' s s')
  from runs_serve.IH show ?case by (rule advance.continues) (rule advance_served)
qed (rule advance.stays)

lemma records_reachable: "client_reachable port moves c \<Longrightarrow> records_ok c"
proof (induction rule: client_reachable.induct)
  case (created loaded start)
  show ?case by (simp add: client_new_def client_unconfigured_def records_ok_def Let_def split: sum.split)
next
  case (called c env op)
  with advance_step [of c env port op] show ?case by (simp add: transfers_advance_def)
next
  case (served c s s')
  with advance_served [of c "Some s'"] show ?case by (simp add: transfers_advance_def)
qed

section \<open>Commits and settled transfers\<close>

lemma commit_begins:
  assumes "run_commit_transfer env port outcome action session generation c = (True, c')"
  shows "\<exists>r. map_of (nc_transfers c') action = Some r \<and> 2 \<le> gate_rank (tr_gate r)
    \<and> nc_transfer_scopes c' = nc_transfer_scopes c"
proof -
  obtain r where r: "map_of (nc_transfers c) action = Some r"
    using assms by (cases "map_of (nc_transfers c) action") (simp_all add: run_commit_transfer_def split: if_splits)
  obtain g b where g: "gate_begin (tr_gate r) = (g, b)" by (cases "gate_begin (tr_gate r)")
  let ?r = "\<lambda>snapshot. committed_transfer env outcome snapshot (r\<lparr>tr_gate := g\<rparr>)"
  have b: b using assms g by (cases b) (simp_all add: run_commit_transfer_def r split: if_splits)
  then have exec: "tr_gate (r\<lparr>tr_gate := g\<rparr>) = Gate_executing" using g by (auto simp: gate_begin_def split: if_splits)
  then have "record_advances (r\<lparr>tr_gate := g\<rparr>) (?r snapshot)" for snapshot by (rule advances_committed)
  then have rank: "2 \<le> gate_rank (tr_gate (?r snapshot))" for snapshot
    using exec by (simp add: record_advances_def)
  have "c' = update_transfer action (\<lambda>_. ?r (map_option (\<lambda>i. nc_snapshot_store c ! i) (tr_snapshot r))) c"
    using assms g b by (simp add: run_commit_transfer_def r Let_def split: if_splits)
  then show ?thesis using rank by (simp add: update_transfer_def map_of_update_key r)
qed

lemma no_second_begin:
  assumes "map_of (nc_transfers c) action = Some r" "2 \<le> gate_rank (tr_gate r)"
  shows "\<not> fst (run_commit_transfer env port outcome action session generation c)"
proof -
  have "gate_begin (tr_gate r) = (tr_gate r, False)" using assms(2) by (cases "tr_gate r") (simp_all add: gate_begin_def)
  then show ?thesis by (simp add: run_commit_transfer_def assms(1))
qed

lemma later_record:
  assumes "client_runs port moves c c'" "nc_transfer_scopes c' = nc_transfer_scopes c" "map_of (nc_transfers c) action = Some r"
  obtains r' where "map_of (nc_transfers c') action = Some r'" "record_advances r r'"
  using advance_runs [OF assms(1)] assms(2,3) unfolding transfers_advance_def records_advance_def by blast

text \<open>C5. The engine is asked to commit a transfer at most once: when the queued action of a transfer
  committed it, then after any run of the client - any calls in any environments, any moves of the
  service, any results and events, intents that are delivered again included - the action is not
  committed a second time, as long as the transfers were not cleared for another session or
  generation. Transfers are not idempotent, so this is what keeps items from being given twice.\<close>

theorem transfer_commits_once:
  assumes "run_commit_transfer env port outcome action session generation c = (True, c1)"
    "client_runs port moves c1 c2" "nc_transfer_scopes c2 = nc_transfer_scopes c"
  shows "\<not> fst (run_commit_transfer env' port outcome' action session' generation' c2)"
proof -
  from commit_begins [OF assms(1)] obtain r where r: "map_of (nc_transfers c1) action = Some r"
    "2 \<le> gate_rank (tr_gate r)" "nc_transfer_scopes c1 = nc_transfer_scopes c" by blast
  from later_record [OF assms(2) _ r(1)] assms(3) r(3) obtain r' where
    r': "map_of (nc_transfers c2) action = Some r'" "record_advances r r'" by auto
  with r(2) have "2 \<le> gate_rank (tr_gate r')" by (auto simp: record_advances_def)
  with r'(1) show ?thesis by (rule no_second_begin)
qed

definition sample_env :: client_env where
  "sample_env = \<lparr>ce_random = of_nat, ce_utc_now = ''2026-01-01T00:00:00Z'', ce_steady_now = 1000, ce_system_now = 2000,
     ce_parse_utc = (\<lambda>_. Some 3000), ce_lua_error = id\<rparr>"

definition sample_transfer_intent :: action_intent where
  "sample_transfer_intent = (case parse_action_intent sample_intent (StrongId (sample_uuid_of 2)) of Inr a \<Rightarrow> a)"

definition queued_transfer :: transfer_record where
  "queued_transfer = (new_transfer sample_transfer_intent (Some 0))\<lparr>tr_gate := Gate_pending, tr_status := ''pending''\<rparr>"

definition sample_client :: "bridge native_client" where
  "sample_client = client_unconfigured
     \<lparr>nc_service := Some (bridge_new 1), nc_session := Some (StrongId ''session''), nc_status := ''ready'',
      nc_transfer_session := ''session'', nc_transfer_generation := 1,
      nc_snapshot_store := [\<lparr>tsn_session = ''session'', tsn_generation = 1, tsn_cancelled = False\<rparr>],
      nc_transfers := [(''action'', queued_transfer)]\<rparr>"

lemma sample_generation: "client_generation (bridge_port 0) sample_client = 1"
  by (simp add: client_generation_def sample_client_def bridge_port_def bridge_new_def generation_current_def)

theorem transfer_commits_once_witness:
  "let c1 = snd (run_commit_transfer sample_env (bridge_port 0) (Committed ''gave'') ''action'' ''session'' 1 sample_client) in
   fst (run_commit_transfer sample_env (bridge_port 0) (Committed ''gave'') ''action'' ''session'' 1 sample_client)
   \<and> \<not> fst (run_commit_transfer sample_env (bridge_port 0) (Committed ''gave'') ''action'' ''session'' 1
        (client_step sample_env (bridge_port 0) (Spell_finishes ''action'' True []) c1))"
proof -
  let ?run = "run_commit_transfer sample_env (bridge_port 0) (Committed ''gave'') ''action'' ''session'' 1"
  have "client_ready sample_client" "session_text sample_client = ''session''"
    "map_of (nc_transfers sample_client) ''action'' = Some queued_transfer"
    by (simp_all add: client_ready_def session_text_def sample_client_def)
  moreover have "tr_status queued_transfer = ''pending''" "tr_gate queued_transfer = Gate_pending"
    by (simp_all add: queued_transfer_def)
  ultimately have ran: "?run sample_client = (True, snd (?run sample_client))"
    by (simp add: run_commit_transfer_def sample_generation gate_begin_def Let_def)
  let ?c2 = "client_step sample_env (bridge_port 0) (Spell_finishes ''action'' True []) (snd (?run sample_client))"
  have runs: "client_runs (bridge_port 0) worker_moves_to (snd (?run sample_client)) ?c2"
    by (intro client_runs.intros)
  have scopes: "nc_transfer_scopes ?c2 = nc_transfer_scopes sample_client"
    using commit_begins [OF ran] by (auto simp: update_transfer_def)
  have "fst (?run sample_client)" by (subst ran) simp
  with transfer_commits_once [OF ran runs scopes] show ?thesis by (simp add: Let_def)
qed

text \<open>C7. A settled transfer is final: in any state the client can reach, or any other in which the
  record is consistent, when the gate of a transfer is closed - committed, cancelled or rejected - then
  after any further run within the session and generation the record is still there for the same
  intent, its status and reason are the same and not open, a receipt that was kept is the same one, so
  that a retry sends the same observation, and the engine is not asked to commit it.\<close>

theorem settled_transfer_is_final:
  assumes "client_reachable port moves c \<or> record_ok r"
    "map_of (nc_transfers c) action = Some r" "tr_gate r = Gate_terminal"
    "client_runs port moves c c'" "nc_transfer_scopes c' = nc_transfer_scopes c"
  shows "\<exists>r'. map_of (nc_transfers c') action = Some r' \<and> tr_gate r' = Gate_terminal \<and> tr_intent r' = tr_intent r
    \<and> tr_status r' = tr_status r \<and> tr_reason r' = tr_reason r \<and> \<not> open_status (tr_status r')
    \<and> (tr_receipt r = None \<or> tr_receipt r' = tr_receipt r)
    \<and> \<not> fst (run_commit_transfer env port outcome action session generation c')"
proof -
  from later_record [OF assms(4,5,2)] obtain r' where
    r': "map_of (nc_transfers c') action = Some r'" "record_advances r r'" .
  have ok: "record_ok r" using assms(1,2) records_reachable [of port moves c] by (auto simp: records_ok_def)
  from r'(2) assms(3) have gate: "tr_gate r' = Gate_terminal"
    by (simp add: record_advances_def gate_rank_terminal)
  have "\<not> fst (run_commit_transfer env port outcome action session generation c')"
    by (rule no_second_begin [OF r'(1)]) (simp add: gate)
  moreover have "record_ok r'" using r'(2) ok by (simp add: record_advances_def)
  ultimately show ?thesis using r' gate assms(3) ok by (auto simp: record_advances_def record_ok_def)
qed

theorem settled_transfer_is_final_witness:
  "let r = queued_transfer\<lparr>tr_gate := Gate_terminal, tr_status := ''succeeded'', tr_reason := ''gave''\<rparr>;
       c = sample_client\<lparr>nc_transfers := [(''action'', r)]\<rparr> in
   \<exists>r'. map_of (nc_transfers (client_step sample_env (bridge_port 0) (Cancel_transfer ''action'') c)) ''action'' = Some r'
     \<and> tr_status r' = ''succeeded'' \<and> tr_reason r' = ''gave''"
proof -
  let ?r = "queued_transfer\<lparr>tr_gate := Gate_terminal, tr_status := ''succeeded'', tr_reason := ''gave''\<rparr>"
  let ?c = "sample_client\<lparr>nc_transfers := [(''action'', ?r)]\<rparr>"
  let ?c' = "client_step sample_env (bridge_port 0) (Cancel_transfer ''action'') ?c"
  have "record_ok ?r" by (simp add: record_ok_def open_status_def)
  moreover have "client_runs (bridge_port 0) worker_moves_to ?c ?c'" by (intro client_runs.intros)
  moreover have "nc_transfer_scopes ?c' = nc_transfer_scopes ?c" by (simp add: cancel_transfer_def update_transfer_def)
  ultimately have "\<exists>r'. map_of (nc_transfers ?c') ''action'' = Some r'
      \<and> tr_status r' = tr_status ?r \<and> tr_reason r' = tr_reason ?r"
    using settled_transfer_is_final [of "bridge_port 0" worker_moves_to ?c ?r "''action''" ?c'] by fastforce
  then show ?thesis by (simp add: Let_def)
qed

end
