(* ===== verification/Client_Props.thy ===== *)
theory Client_Props
  imports Client_Transfer_Props
begin

text \<open>
  What the native client promises towards Lua and the server: the identifiers it draws, the retry of a
  session's first request, the results it takes, what a change of the generation leaves, and the
  bounds of its bookkeeping over the bridge.
\<close>

section \<open>Identifiers\<close>

lemma lower_digit:
  "i < 16 \<Longrightarrow> is_digit (hex_alphabet ! i) \<or> char_between (CHR ''a'') (CHR ''f'') (hex_alphabet ! i)"
proof -
  have "list_all (\<lambda>c. is_digit c \<or> char_between (CHR ''a'') (CHR ''f'') c) hex_alphabet" by code_simp
  moreover have "length hex_alphabet = 16" by (simp add: hex_alphabet_def)
  ultimately show "i < 16 \<Longrightarrow> ?thesis" by (simp add: list_all_length)
qed

lemma unat_lt_256: "unat (b :: byte_t) < 256"
proof -
  have "unat b < 2 ^ LENGTH(8)" by (rule unsigned_less)
  then show ?thesis by simp
qed

lemma byte_digits: "unat (b :: byte_t) div 16 < 16" "unat b mod 16 < 16"
  using unat_lt_256 [of b] by simp_all

lemma uuid_shape:
  assumes "length bs = 16"
  shows "is_canonical_uuid (concat (map (\<lambda>index. uuid_byte_text index (bs ! index)) [0..<16]))"
proof -
  note digits = byte_digits [THEN lower_digit]
  have range: "[0..<16] = [0, 1, 2, 3, 4, 5, 6, 7, 8, 9, 10, 11, 12, 13, 14, 15 :: nat]"
    "[0..<36] = [0, 1, 2, 3, 4, 5, 6, 7, 8, 9, 10, 11, 12, 13, 14, 15, 16, 17, 18, 19, 20, 21, 22, 23, 24, 25, 26, 27,
       28, 29, 30, 31, 32, 33, 34, 35 :: nat]"
    by (simp_all add: upt_rec)
  show ?thesis
    unfolding range(1) uuid_byte_text_def is_canonical_uuid_def
    by (simp add: range(2) digits)
qed

lemma uuid_bytes_length: "length (uuid_bytes a b) = 16"
  by (simp add: uuid_bytes_def word_bytes_def Let_def)

lemma uuid_bytes_marked:
  "uuid_bytes a b ! 6 = (word_bytes a ! 6 AND 0x0F) OR 0x40" "uuid_bytes a b ! 8 = (word_bytes b ! 0 AND 0x3F) OR 0x80"
  by (simp_all add: uuid_bytes_def word_bytes_def Let_def nth_append)

lemma high_digit: "unat (w :: byte_t) div 16 = unat (drop_bit 4 w)"
  by (simp add: drop_bit_eq_div unat_div_distrib)

lemma marked_high:
  "drop_bit 4 ((w AND 0x0F) OR 0x40 :: byte_t) = 4" "drop_bit 4 ((w AND 0x3F) OR 0x80 :: byte_t) = (drop_bit 4 w AND 3) OR 8"
  by (simp_all add: drop_bit_or drop_bit_and)

lemma low_pair: "(w AND 3 :: byte_t) \<in> {0, 1, 2, 3}"
proof -
  have "w AND 3 = take_bit 2 w" by (simp add: take_bit_eq_mask mask_eq_exp_minus_1)
  moreover have "unat (take_bit 2 w) < 4" by (simp add: take_bit_eq_mod unat_mod_distrib)
  ultimately have "unat (w AND 3) \<in> {0, 1, 2, 3}" by auto
  then have "of_nat (unat (w AND 3)) \<in> (of_nat ` {0, 1, 2, 3} :: byte_t set)" by blast
  then show ?thesis by simp
qed

lemma uuid_text_digits:
  assumes "length bs = 16"
  defines "u \<equiv> concat (map (\<lambda>index. uuid_byte_text index (bs ! index)) [0..<16])"
  shows "u ! 14 = hex_alphabet ! (unat (bs ! 6) div 16)" "u ! 19 = hex_alphabet ! (unat (bs ! 8) div 16)"
proof -
  have range: "[0..<16] = [0, 1, 2, 3, 4, 5, 6, 7, 8, 9, 10, 11, 12, 13, 14, 15 :: nat]" by (simp add: upt_rec)
  show "u ! 14 = hex_alphabet ! (unat (bs ! 6) div 16)" "u ! 19 = hex_alphabet ! (unat (bs ! 8) div 16)"
    by (simp_all add: u_def range uuid_byte_text_def)
qed

text \<open>C34. Whatever the random engine draws, the identifier is a canonical UUID of version 4 and of the
  standard variant: the text passes the check that every identifier on the wire is held to, its
  fifteenth character is 4 and its twentieth one of 8, 9, a and b.\<close>

theorem drawn_identifier_is_version_4:
  "is_canonical_uuid (uuid_text a b) \<and> uuid_text a b ! 14 = CHR ''4''
   \<and> uuid_text a b ! 19 \<in> {CHR ''8'', CHR ''9'', CHR ''a'', CHR ''b''}"
proof (intro conjI)
  note digits = uuid_text_digits [OF uuid_bytes_length, of a b, folded uuid_text_def]
  show "is_canonical_uuid (uuid_text a b)"
    unfolding uuid_text_def by (rule uuid_shape) (rule uuid_bytes_length)
  show "uuid_text a b ! 14 = CHR ''4''"
    by (simp add: digits uuid_bytes_marked high_digit marked_high hex_alphabet_def)
  have "drop_bit 4 (uuid_bytes a b ! 8) \<in> {8, 9, 10, 11}"
    using low_pair [of "drop_bit 4 (word_bytes b ! 0)"] by (auto simp: uuid_bytes_marked marked_high)
  then show "uuid_text a b ! 19 \<in> {CHR ''8'', CHR ''9'', CHR ''a'', CHR ''b''}"
    by (auto simp: digits high_digit hex_alphabet_def)
qed

section \<open>The retry of a session's first request\<close>

text \<open>A retry of a session's first request repeats its body: once the request is prepared, every later
  attempt, in whatever state the client is by then and whatever identifiers are drawn, sends the prepared
  one with a fresh request identifier and nothing else changed. The text on the wire is the same, so
  the server can recognise the attempts as one.\<close>

theorem init_retry_repeats_body:
  assumes "nc_init_snapshot c = Some i" "nc_config c = Some config" "nc_service c = Some s"
    "session_selected (nc_character_identity c)" "nc_init_request c = None" "\<not> nc_waiting_loaded_calendar c"
  shows "let request = uuid_text (ce_random env (nc_draws c)) (ce_random env (nc_draws c + 1));
             sent = i\<lparr>init_ids := (init_ids i)\<lparr>env_request := StrongId request\<rparr>\<rparr> in
         begin_session env port c = snd (send_init port request sent (c\<lparr>nc_draws := nc_draws c + 2\<rparr>))
         \<and> init_wire base sent = init_wire base i
         \<and> nc_init_snapshot (begin_session env port c) = Some i"
proof -
  have "binding_invalid (i\<lparr>init_ids := x\<rparr>) = binding_invalid i" "save_members (i\<lparr>init_ids := x\<rparr>) = save_members i"
    "character_members (i\<lparr>init_ids := x\<rparr>) = character_members i" for x
    by (simp_all add: binding_invalid_def save_members_def character_members_def cong: option.case_cong)
  then have same: "init_wire base (i\<lparr>init_ids := (init_ids i)\<lparr>env_request := r\<rparr>\<rparr>) = init_wire base i" for r
    by (simp add: init_wire_def Let_def)
  let ?request = "uuid_text (ce_random env (nc_draws c)) (ce_random env (nc_draws c + 1))"
  let ?sent = "i\<lparr>init_ids := (init_ids i)\<lparr>env_request := StrongId ?request\<rparr>\<rparr>"
  have begun: "begin_session env port c = snd (send_init port ?request ?sent (c\<lparr>nc_draws := nc_draws c + 2\<rparr>))"
    using assms by (simp add: begin_session_def step_then_def draw_uuid_def prepare_init_def returns_def reading_def
        retried_init_def Let_def)
  have kept: "nc_init_snapshot (snd (send_init port request x c')) = nc_init_snapshot c'" for request x and c' :: "'a native_client"
    by (simp add: send_init_def call_enqueue_def Let_def split: prod.splits sum.splits)
  have "nc_init_snapshot (begin_session env port c) = Some i" by (simp add: begun kept assms(1))
  with begun same show ?thesis by (simp add: Let_def)
qed

section \<open>A change of the generation\<close>

definition served_at :: "'s service_port \<Rightarrow> generation \<Rightarrow> 's native_client \<Rightarrow> bool" where
  "served_at port g c \<longleftrightarrow> (\<exists>s. nc_service c = Some s \<and> sv_generation port s = g)"

text \<open>The client after a change of the generation: what it waits for and what it shows is gone.\<close>

definition nothing_left :: "'s native_client \<Rightarrow> bool" where
  "nothing_left c \<longleftrightarrow>
     nc_session c = None \<and> nc_client_settings c = None \<and> nc_poll_request c = None \<and> nc_controls_request c = None
     \<and> nc_controls c = None \<and> nc_debug_request c = None \<and> nc_debug_command c = None \<and> nc_diary_request c = None
     \<and> nc_diary_receipt c = None \<and> nc_diary_receipt_dto c = None \<and> nc_diary_book c = None \<and> \<not> nc_diary_pending c
     \<and> nc_deferred_results c = [] \<and> nc_disposition_receipts c = [] \<and> nc_turn_requests c = []
     \<and> nc_menu_dialogues c = [] \<and> nc_player_autochats c = []"

text \<open>A reading that ignores what \<open>beginSession\<close> writes is the same after it.\<close>

lemma begin_session_keeps:
  assumes "\<And>c x. f (c\<lparr>nc_draws := x\<rparr>) = f c" "\<And>c x. f (c\<lparr>nc_service := x\<rparr>) = f c"
    "\<And>c x. f (c\<lparr>nc_init_snapshot := x\<rparr>) = f c" "\<And>c x y. f (c\<lparr>nc_retry_init := x, nc_init_attempts := y\<rparr>) = f c"
    "\<And>c x. f (c\<lparr>nc_init_request := x\<rparr>) = f c" "\<And>c x y. f (c\<lparr>nc_status := x, nc_error := y\<rparr>) = f c"
  shows "f (begin_session env port c) = f c"
proof -
  have draw: "through (unchanged f) (draw_uuid env)"
    by (simp add: through_def draw_uuid_def unchanged_def assms)
  have call: "unchanged f c (snd (call_enqueue port r c))" for r c
    by (simp add: call_enqueue_def unchanged_def assms split: prod.split sum.split)
  have send: "through (unchanged f) (send_init port request init)" for request init
  proof (rule throughI)
    fix c :: "'a native_client"
    let ?c = "c\<lparr>nc_retry_init := False, nc_init_attempts := nc_init_attempts c + 1\<rparr>"
    obtain r c1 where 1: "call_enqueue port (init_outbound request init) ?c = (r, c1)"
      by (cases "call_enqueue port (init_outbound request init) ?c")
    have "f c1 = f ?c" using call [of ?c "init_outbound request init"] by (simp only: unchanged_def 1 snd_conv)
    also have "\<dots> = f c" by (rule assms(4))
    finally have "f c1 = f c" .
    then show "unchanged f c (snd (send_init port request init c))"
      by (cases r) (simp_all only: send_init_def Let_def 1 prod.case sum.case snd_conv unchanged_def assms)
  qed
  have prepare: "through (unchanged f) (prepare_init env port config request)" for config request
  proof -
    have "through (unchanged f) (step_then (draw_uuid env) (\<lambda>turn. step_then (draw_uuid env) (\<lambda>message.
        updating (\<lambda>c. c\<lparr>nc_init_snapshot := Some (g turn message c)\<rparr>))))" for g
      by (intro unchanged.through_intros draw) (simp add: unchanged_def assms)
    from through_run [OF this] show ?thesis
      unfolding prepare_init_def by (intro throughI) (auto simp: returns_def unchanged.stays)
  qed
  have "through (unchanged f) (step_then (draw_uuid env) (\<lambda>request. step_then (prepare_init env port config request) (\<lambda>_.
      step_then (reading (retried_init request)) (\<lambda>init. send_init port request init))))" for config
    by (intro unchanged.through_intros draw prepare send)
  from through_run [OF this, where c = c] show ?thesis
    by (simp add: begin_session_def unchanged_def split: option.split)
qed

lemma cancelled_dialogues:
  "nc_menu_dialogues (cancel_menu_dialogue port k d c) = erase_key k (nc_menu_dialogues c)"
  by (simp add: cancel_menu_dialogue_def drop_media_def cancel_some_def call_cancel_def Let_def split: option.split)

lemma all_dialogues_cancelled: "nc_menu_dialogues (snd (cancel_menu_dialogue_tts port None c)) = []"
proof -
  have "nc_menu_dialogues (fold (\<lambda>(k, d). cancel_menu_dialogue port k d) xs c)
      = filter (\<lambda>p. fst p \<notin> fst ` set xs) (nc_menu_dialogues c)" for xs c
    by (induction xs arbitrary: c) (auto simp: cancelled_dialogues erase_key_def intro: filter_cong)
  then show ?thesis by (simp add: cancel_menu_dialogue_tts_def filter_empty_conv)
qed

lemma all_autochats_cancelled:
  "nc_player_autochats (snd (cancel_player_autochat port None c)) = []"
  "nc_menu_dialogues (snd (cancel_player_autochat port None c)) = nc_menu_dialogues c"
proof -
  have kept: "nc_player_autochats (cancel_some port r c) = nc_player_autochats c"
    "nc_menu_dialogues (cancel_some port r c) = nc_menu_dialogues c" for r c
    by (simp_all add: cancel_some_def call_cancel_def split: option.split)
  let ?f = "\<lambda>(k, a) c. (cancel_some port (pau_request a) c)\<lparr>nc_player_autochats := erase_key k (nc_player_autochats c)\<rparr>"
  have "nc_player_autochats (fold ?f xs c) = filter (\<lambda>p. fst p \<notin> fst ` set xs) (nc_player_autochats c)
      \<and> nc_menu_dialogues (fold ?f xs c) = nc_menu_dialogues c" for xs :: "(string \<times> player_autochat) list" and c
    by (induction xs arbitrary: c) (auto simp: erase_key_def kept intro: filter_cong)
  then show "nc_player_autochats (snd (cancel_player_autochat port None c)) = []"
    "nc_menu_dialogues (snd (cancel_player_autochat port None c)) = nc_menu_dialogues c"
    by (simp_all add: cancel_player_autochat_def filter_empty_conv)
qed

context client_service
begin

lemma served_call: "through (preserved (served_at port g)) (call_enqueue port r)"
  using enqueue_generation [of r]
  by (auto simp: through_def preserved_def served_at_def call_enqueue_def split: prod.split sum.split) (metis fst_conv)+

lemma served_cancel: "served_at port g c \<Longrightarrow> served_at port g (cancel_some port r c)"
  using cancel_keeps by (auto simp: served_at_def cancel_some_def call_cancel_def split: option.split)

lemma served_same: "nc_service c' = nc_service c \<Longrightarrow> preserved (served_at port g) c c'"
  by (simp add: preserved_def served_at_def)

lemma served_begin: "served_at port g c \<Longrightarrow> served_at port g (begin_session env port c)"
proof -
  have draw: "through (preserved (served_at port g)) (draw_uuid env)"
    by (rule throughI) (simp add: draw_uuid_def served_same)
  have send: "through (preserved (served_at port g)) (send_init port request init)" for request init
  proof (rule throughI)
    fix c :: "'s native_client"
    let ?c = "c\<lparr>nc_retry_init := False, nc_init_attempts := nc_init_attempts c + 1\<rparr>"
    obtain r c1 where 1: "call_enqueue port (init_outbound request init) ?c = (r, c1)"
      by (cases "call_enqueue port (init_outbound request init) ?c")
    from throughD [OF served_call 1] have "preserved (served_at port g) c c1"
      by (simp add: preserved_def served_at_def)
    then show "preserved (served_at port g) c (snd (send_init port request init c))"
      by (cases r) (simp_all only: send_init_def Let_def 1 prod.case sum.case snd_conv, simp_all add: preserved_def served_at_def)
  qed
  have prepare: "through (preserved (served_at port g)) (prepare_init env port config request)" for config request
  proof -
    have "through (preserved (served_at port g)) (step_then (draw_uuid env) (\<lambda>turn. step_then (draw_uuid env) (\<lambda>message.
        updating (\<lambda>c. c\<lparr>nc_init_snapshot := Some (h turn message c)\<rparr>))))" for h
      by (intro preserved.through_intros draw) (simp add: served_same)
    from through_run [OF this] show ?thesis
      unfolding prepare_init_def by (intro throughI) (auto simp: returns_def preserved.stays)
  qed
  have "through (preserved (served_at port g)) (step_then (draw_uuid env) (\<lambda>request. step_then (prepare_init env port config request) (\<lambda>_.
      step_then (reading (retried_init request)) (\<lambda>init. send_init port request init))))" for config
    by (intro preserved.through_intros draw prepare send)
  from through_run [OF this, where c = c] show "served_at port g c \<Longrightarrow> served_at port g (begin_session env port c)"
    by (simp add: begin_session_def preserved_def split: option.split)
qed

lemma served_cancels:
  assumes "served_at port g c"
  shows "served_at port g (snd (cancel_menu_dialogue_tts port None c))" "served_at port g (snd (cancel_player_autochat port None c))"
proof -
  have update: "served_at port g (c'\<lparr>nc_media := x\<rparr>) = served_at port g c'" "served_at port g (c'\<lparr>nc_menu_dialogues := y\<rparr>) = served_at port g c'"
    "served_at port g (c'\<lparr>nc_player_autochats := z\<rparr>) = served_at port g c'" for c' x y z
    by (simp_all add: served_at_def)
  have "preserved (served_at port g) c' (drop_media port media c')" for media c'
    by (auto simp: drop_media_def preserved_def update served_cancel Let_def split: option.split)
  then have "preserved (served_at port g) c' (cancel_menu_dialogue port k d c')" for k d c'
    by (simp add: cancel_menu_dialogue_def preserved_def update served_cancel Let_def split: option.split)
  then have "preserved (served_at port g) c' (fold (\<lambda>(k, d). cancel_menu_dialogue port k d) ds c')" for ds c'
    by (intro preserved.through_fold) (simp add: split_def)
  with assms show "served_at port g (snd (cancel_menu_dialogue_tts port None c))"
    by (simp add: cancel_menu_dialogue_tts_def preserved_def)
  have "preserved (served_at port g) c'
      (fold (\<lambda>(k, a) c. (cancel_some port (pau_request a) c)\<lparr>nc_player_autochats := erase_key k (nc_player_autochats c)\<rparr>) xs c')"
    for xs :: "(string \<times> player_autochat) list" and c'
    by (intro preserved.through_fold) (simp add: split_def preserved_def update served_cancel)
  with assms show "served_at port g (snd (cancel_player_autochat port None c))"
    by (simp add: cancel_player_autochat_def preserved_def)
qed

lemma cancelled_leaves_nothing:
  assumes "cancel_client_generation env port g loaded_save identity_change c = (True, c')"
  shows "nothing_left c' \<and> \<not> client_ready c' \<and> g = client_generation port c \<and> client_generation port c' \<noteq> g"
proof -
  obtain s where s: "nc_service c = Some s"
    using assms by (cases "nc_service c") (simp_all add: cancel_client_generation_def)
  obtain s1 r where s1: "sv_cancel_generation port (Generation g) s = (s1, r)"
    by (cases "sv_cancel_generation port (Generation g) s")
  obtain g' where r: "r = Inr g'" using assms by (cases r) (simp_all add: cancel_client_generation_def s s1)
  have g: "Generation g = sv_generation port s \<and> sv_generation port s1 = g' \<and> g' \<noteq> Generation g"
  proof -
    have "snd (sv_cancel_generation port (Generation g) s) = Inr g'" by (simp add: s1 r)
    from generation_advances [OF this, unfolded s1 fst_conv] show ?thesis .
  qed
  let ?c2 = "snd (cancel_player_autochat port None (snd (cancel_menu_dialogue_tts port None (c\<lparr>nc_service := Some s1\<rparr>))))"
  let ?c3 = "generation_cleared ?c2"
  let ?c4 = "if identity_change
      then ?c3\<lparr>nc_character_identity := cleared_session, nc_character_rejected := False\<rparr> else ?c3"
  let ?c4' = "?c4\<lparr>nc_loaded_save := loaded_save, nc_waiting_loaded_calendar := loaded_save, nc_loaded_calendar := None\<rparr>"
  let ?c5 = "begin_session env port ?c4'"
  have c': "c' = ?c5\<lparr>nc_status := if session_selected (nc_character_identity ?c5) then ''connecting'' else ''waiting_identity''\<rparr>"
    using assms unfolding cancel_client_generation_def by (simp add: s s1 r Let_def)
  have "served_at port g' (c\<lparr>nc_service := Some s1\<rparr>)" by (simp add: served_at_def g)
  then have "served_at port g' ?c2" by (intro served_cancels)
  then have "served_at port g' ?c4'" by (simp add: served_at_def generation_cleared_def diary_cleared_def)
  then have "served_at port g' ?c5" by (rule served_begin)
  then have "client_generation port c' = gen_value g'" by (auto simp: c' served_at_def client_generation_def)
  moreover have "client_generation port c = g" by (simp add: client_generation_def s) (metis g generation.sel)
  moreover have "gen_value g' \<noteq> g" using g by (cases g') auto
  moreover have "nothing_left ?c4'"
    by (simp add: nothing_left_def generation_cleared_def diary_cleared_def all_autochats_cancelled all_dialogues_cancelled)
  moreover have "nothing_left ?c5 = nothing_left ?c4'"
    by (rule begin_session_keeps) (simp_all add: nothing_left_def)
  ultimately show ?thesis by (simp add: c' nothing_left_def client_ready_def)
qed

end


lemma sample_cancel: "snd (bridge_cancel_generation (Generation 1) (bridge_new 1)) = Inr (Generation 2)"
  by code_simp


end
