(* ===== verification/Client_Ledger.thy ===== *)
theory Client_Ledger
  imports Client_Props "HOL-Library.Sublist"
begin

text \<open>
  The ledger of results: what the service hands out to the client is taken by one of its waiting
  exchanges, and counted, or put off in order; a poll takes everything. With it the bounds of the
  client's bookkeeping over the bridge, and the report of a debug command without an observation.
\<close>

section \<open>Who touches the ledger\<close>

definition result_ledger :: "'s native_client \<Rightarrow> inbound_result list \<times> nat" where
  "result_ledger c = (nc_deferred_results c, nc_results_seen c)"

abbreviation ledger_kept :: "'s native_client \<Rightarrow> 's native_client \<Rightarrow> bool" where
  "ledger_kept \<equiv> unchanged result_ledger"

lemmas ledger_simps = unchanged_def result_ledger_def

lemma ledger_draw: "through ledger_kept (draw_uuid env)"
  by (simp add: through_def draw_uuid_def ledger_simps)

lemma ledger_enqueue: "through ledger_kept (enqueue_payload port i k p)"
  by (simp add: through_def enqueue_payload_def call_enqueue_def ledger_simps split: prod.split sum.split)

lemma ledger_media: "through ledger_kept (enqueue_media port i d)"
  by (simp add: through_def enqueue_media_def enqueue_payload_def call_enqueue_def ledger_simps split: prod.split sum.split)

lemma ledger_begin: "ledger_kept c (begin_session env port c)"
  unfolding unchanged_def by (rule begin_session_keeps) (simp_all add: result_ledger_def)

lemma ledger_schedule: "ledger_kept c (schedule_poll env port c)"
proof -
  have "through ledger_kept (send_poll port request)" for request
    by (simp add: through_def send_poll_def enqueue_payload_def call_enqueue_def ledger_simps split: prod.split sum.split)
  then have "through ledger_kept (step_then (draw_uuid env) (\<lambda>request. step_then (send_poll port request) (\<lambda>_.
      updating (\<lambda>c. c\<lparr>nc_next_poll := n\<rparr>))))" for n
    by (intro unchanged.through_intros ledger_draw) (simp_all add: ledger_simps)
  from through_run [OF this, where c = c] show ?thesis by (simp add: schedule_poll_def unchanged.stays)
qed

lemma ledger_settlements:
  "ledger_kept c (snd (settle_controls_result result c))" "ledger_kept c (snd (settle_debug_result result c))"
  "ledger_kept c (snd (settle_diary_result result c))" "ledger_kept c (snd (settle_autochat_result result c))"
  "ledger_kept c (snd (settle_disposition_result result c))" "ledger_kept c (snd (settle_transfer_receipt result c))"
  by (simp_all add: settle_controls_result_def settle_debug_result_def settle_diary_result_def settle_autochat_result_def
      settle_disposition_result_def settle_transfer_receipt_def update_transfer_def ledger_simps Let_def
      split: sum.split option.split prod.split)

lemma ledger_retain: "ledger_kept c (retain_transfer port e c)"
  by (simp add: retain_transfer_def sync_transfer_scope_def ledger_simps Let_def split: option.split event_payload.split)

lemma ledger_events: "ledger_kept c (snd (take_events port result (events, c)))"
proof -
  have "ledger_kept c' (fold (retain_transfer port) es c')" for c' :: "'a native_client" and es
    by (rule unchanged.through_fold) (rule ledger_retain)
  then show ?thesis by (simp add: take_events_def ledger_simps Let_def split: sum.split)
qed

lemma ledger_init: "ledger_kept c (take_init result c)"
  by (simp add: take_init_def accept_session_def ledger_simps Let_def split_def split: sum.split)

lemma ledger_media_ready: "ledger_kept c (take_media_ready result c)"
  by (simp add: take_media_ready_def ledger_simps Let_def)

lemma ledger_dialogue: "ledger_kept c (update_dialogue key f c)"
  by (simp add: update_dialogue_def ledger_simps)

lemma ledger_dialogue_media: "ledger_kept c (prepare_dialogue_media env port key media c)"
proof -
  have run: "through ledger_kept (step_then (lifted (canonical_descriptor env media)) (\<lambda>descriptor.
      step_then (draw_uuid env) (\<lambda>request. step_then (enqueue_media port request descriptor) (\<lambda>_.
        updating (\<lambda>c. c\<lparr>nc_media := M request c\<rparr>)))))" for M
    by (intro unchanged.through_intros ledger_draw ledger_media) (simp add: ledger_simps)
  note then_dialogue = unchanged.continues [OF unchanged.continues [OF ledger_dialogue throughD [OF run]] ledger_dialogue]
  show ?thesis
    unfolding prepare_dialogue_media_def Let_def
    by (auto split: option.split prod.split sum.split intro: then_dialogue unchanged.continues [OF ledger_dialogue ledger_dialogue])
qed

lemma ledger_dialogue_ready: "ledger_kept c (take_dialogue_ready env port result c)"
  by (auto simp: take_dialogue_ready_def unchanged.stays ledger_dialogue ledger_dialogue_media split: option.split sum.split)

lemma ledger_failures:
  "result_ledger (fail_init env result c) = result_ledger c" "result_ledger (snd (fail_dialogue result c)) = result_ledger c"
  "result_ledger (snd (fail_media result c)) = result_ledger c" "result_ledger (fail_poll env result c) = result_ledger c"
  "result_ledger (snd (fail_turn result (events, c))) = result_ledger c"
  "result_ledger (snd (settle_controls_result result c)) = result_ledger c"
  using ledger_settlements(1) [of c result]
  by (auto simp: fail_init_def fail_dialogue_def fail_media_def fail_poll_def fail_turn_def result_ledger_def unchanged_def Let_def
      split: option.split)

lemma ledger_updates:
  "result_ledger (c\<lparr>nc_status := s\<rparr>) = result_ledger c" "result_ledger (c\<lparr>nc_error := s\<rparr>) = result_ledger c"
  "result_ledger (c\<lparr>nc_turn_requests := t\<rparr>) = result_ledger c"
  by (simp_all add: result_ledger_def)

lemma ledger_failure: "ledger_kept c (snd (take_failure env result (events, c)))"
  by (simp add: take_failure_def Let_def split_def unchanged_def ledger_failures ledger_updates split: if_split)

lemma ledger_answer: "ledger_kept c (snd (take_answer env port result (events, c)))"
proof -
  have turns: "ledger_kept c (c'\<lparr>nc_turn_requests := t\<rparr>)" if "ledger_kept c c'" for c' t
    using that by (simp add: ledger_simps)
  show ?thesis
    unfolding take_answer_def Let_def
    by (auto simp: split_def intro!: turns ledger_failure ledger_init ledger_events ledger_media_ready ledger_dialogue_ready
        ledger_settlements)
qed

lemma ledger_settle_by: "ledger_kept c (snd (settle_by settlements result c))"
proof -
  have any: "(\<And>s c. s \<in> set ss \<Longrightarrow> ledger_kept c (snd (s result c))) \<Longrightarrow> ledger_kept c (snd (settle_by ss result c))"
    for ss and c :: "'a native_client"
  proof (induction ss arbitrary: c)
    case (Cons s ss)
    obtain b c1 where 1: "s result c = (b, c1)" by (cases "s result c")
    with Cons.prems [of s c] have "ledger_kept c c1" by simp
    moreover have "ledger_kept c1 (snd (settle_by ss result c1))" using Cons by simp
    ultimately show ?case by (cases b) (auto simp: 1 intro: unchanged.continues)
  qed (simp add: unchanged.stays)
  show ?thesis by (rule any) (auto simp: settlements_def ledger_settlements)
qed

section \<open>A result that is taken is counted once\<close>

lemma taken_once:
  "nc_deferred_results (snd (take_result env port result (events, c))) = nc_deferred_results c
   \<and> nc_results_seen (snd (take_result env port result (events, c))) = Suc (nc_results_seen c)"
proof -
  let ?c = "c\<lparr>nc_results_seen := nc_results_seen c + 1\<rparr>"
  obtain b c1 where 1: "settle_by settlements result ?c = (b, c1)" by (cases "settle_by settlements result ?c")
  have "ledger_kept ?c (snd (settle_by settlements result ?c))" by (rule ledger_settle_by)
  then have c1: "ledger_kept ?c c1" by (simp only: 1 snd_conv)
  have "take_result env port result (events, c) = (if b then (events, c1) else take_answer env port result (events, c1))"
    unfolding take_result_def Let_def split_conv 1 by (cases b) simp_all
  then have "ledger_kept ?c (snd (take_result env port result (events, c)))"
    using c1 unchanged.continues [OF c1 ledger_answer] by simp
  then show ?thesis by (simp add: ledger_simps)
qed

lemma all_taken:
  "nc_deferred_results (snd (fold (take_result env port) results (events, c))) = nc_deferred_results c
   \<and> nc_results_seen (snd (fold (take_result env port) results (events, c))) = nc_results_seen c + length results"
proof (induction results arbitrary: events c)
  case (Cons result results)
  obtain events1 c1 where 1: "take_result env port result (events, c) = (events1, c1)"
    by (cases "take_result env port result (events, c)")
  with taken_once [of env port result events c] Cons [of events1 c1] show ?case by simp
qed simp

lemma pump_splits:
  assumes "\<And>result c. ledger_kept c (snd (settle result c))"
  shows "\<exists>left. subseq left results
     \<and> nc_deferred_results (snd (fold (pump_result settle) results (b, c))) = nc_deferred_results c @ left
     \<and> nc_results_seen (snd (fold (pump_result settle) results (b, c))) + length left = nc_results_seen c + length results"
proof (induction results arbitrary: b c)
  case (Cons result results)
  obtain settled c1 where 1: "settle result c = (settled, c1)" by (cases "settle result c")
  with assms [of c result] have kept: "nc_deferred_results c1 = nc_deferred_results c" "nc_results_seen c1 = nc_results_seen c"
    by (simp_all add: ledger_simps)
  have step: "pump_result settle result (b, c) = (if settled then (True, c1\<lparr>nc_results_seen := nc_results_seen c1 + 1\<rparr>)
      else (b, c1\<lparr>nc_deferred_results := nc_deferred_results c1 @ [result]\<rparr>))"
    by (cases settled) (simp_all add: pump_result_def 1)
  show ?case
  proof (cases settled)
    case True
    let ?c = "c1\<lparr>nc_results_seen := nc_results_seen c1 + 1\<rparr>"
    from Cons.IH [of True ?c] obtain left where "subseq left results"
      "nc_deferred_results (snd (fold (pump_result settle) results (True, ?c))) = nc_deferred_results c1 @ left"
      "nc_results_seen (snd (fold (pump_result settle) results (True, ?c))) + length left = nc_results_seen c1 + 1 + length results"
      by auto
    then show ?thesis by (intro exI [of _ left]) (simp add: step True kept list_emb_Cons)
  next
    case False
    let ?c = "c1\<lparr>nc_deferred_results := nc_deferred_results c1 @ [result]\<rparr>"
    from Cons.IH [of b ?c] obtain left where "subseq left results"
      "nc_deferred_results (snd (fold (pump_result settle) results (b, ?c))) = (nc_deferred_results c1 @ [result]) @ left"
      "nc_results_seen (snd (fold (pump_result settle) results (b, ?c))) + length left = nc_results_seen c1 + length results"
      by auto
    then show ?thesis by (intro exI [of _ "result # left"]) (simp add: step False kept)
  qed
qed simp

text \<open>C6. No result is lost between the pumps and the poll: a pump of any exchange counts each result it
  settles and puts the others off behind those that wait already, in the order in which the service
  handed them out; when it does not ask the service nothing changes; and a poll counts every result
  that was put off and every result it gets, and leaves none. So the results counted and the results
  put off together are exactly those the service handed out.\<close>

theorem results_are_never_lost:
  assumes "nc_service c = Some s"
    "settle \<in> {settle_controls_result, settle_debug_result, settle_diary_result, settle_autochat_result,
       settle_disposition_result}"
  shows "(snd (pump port settle waiting c) = c
      \<or> (\<exists>left. subseq left (snd (sv_poll port kControlsPumpBatch s))
           \<and> nc_deferred_results (snd (pump port settle waiting c)) = nc_deferred_results c @ left
           \<and> nc_results_seen (snd (pump port settle waiting c)) + length left
               = nc_results_seen c + length (snd (sv_poll port kControlsPumpBatch s))))
    \<and> nc_deferred_results (snd (client_poll env port maximum c)) = []
    \<and> nc_results_seen (snd (client_poll env port maximum c))
        = nc_results_seen c + length (nc_deferred_results c) + length (snd (sv_poll port (min maximum 128) s))"
proof (intro conjI)
  have kept: "ledger_kept c' (snd (settle result c'))" for result and c' :: "'a native_client"
    using assms(2) ledger_settlements by auto
  obtain s1 results where 1: "sv_poll port kControlsPumpBatch s = (s1, results)" by (cases "sv_poll port kControlsPumpBatch s")
  show "snd (pump port settle waiting c) = c
      \<or> (\<exists>left. subseq left (snd (sv_poll port kControlsPumpBatch s))
           \<and> nc_deferred_results (snd (pump port settle waiting c)) = nc_deferred_results c @ left
           \<and> nc_results_seen (snd (pump port settle waiting c)) + length left
               = nc_results_seen c + length (snd (sv_poll port kControlsPumpBatch s)))"
    using pump_splits [of settle results False "c\<lparr>nc_service := Some s1\<rparr>", OF kept]
    by (simp add: pump_def service_poll_def assms(1) 1)
  obtain s2 drained where 2: "sv_poll port (min maximum 128) s = (s2, drained)" by (cases "sv_poll port (min maximum 128) s")
  let ?c1 = "c\<lparr>nc_deferred_results := [], nc_service := Some s2\<rparr>"
  obtain events c2 where 3: "fold (take_result env port) (nc_deferred_results c @ drained) ([], ?c1) = (events, c2)"
    by (cases "fold (take_result env port) (nc_deferred_results c @ drained) ([], ?c1)")
  with all_taken [of env port "nc_deferred_results c @ drained" "[]" ?c1]
  have c2: "nc_deferred_results c2 = []" "nc_results_seen c2 = nc_results_seen c + length (nc_deferred_results c) + length drained"
    by (simp_all del: fold_append)
  let ?last = "schedule_poll env port (if nc_retry_init c2 \<and> nc_next_init c2 \<le> ce_steady_now env then begin_session env port c2 else c2)"
  have poll: "snd (client_poll env port maximum c) = ?last"
    by (simp add: client_poll_def service_poll_def assms(1) 2 3 Let_def del: fold_append)
  have "ledger_kept c2 (schedule_poll env port (begin_session env port c2))"
    by (rule unchanged.continues [OF ledger_begin ledger_schedule])
  then have "ledger_kept c2 ?last" using ledger_schedule [of c2 env port] by simp
  then have "nc_deferred_results ?last = nc_deferred_results c2" "nc_results_seen ?last = nc_results_seen c2"
    by (simp_all only: ledger_simps prod.inject)
  then show "nc_deferred_results (snd (client_poll env port maximum c)) = []"
    "nc_results_seen (snd (client_poll env port maximum c))
        = nc_results_seen c + length (nc_deferred_results c) + length (snd (sv_poll port (min maximum 128) s))"
    by (simp_all only: poll c2 2 snd_conv)
qed

theorem results_are_never_lost_witness:
  "nc_deferred_results (snd (client_poll sample_env (bridge_port 0) 16 sample_client)) = []"
proof -
  have "nc_service sample_client = Some (bridge_new 1)" by (simp add: sample_client_def)
  from results_are_never_lost [OF this, of settle_debug_result] show ?thesis by blast
qed

section \<open>Bounds over the bridge\<close>

text \<open>C9. The bookkeeping of the client is bounded over the bridge service: in every state that calls, moves
  of the worker and results can lead to, at most 128 results are put off, so that a pump's batch never
  overflows what a poll takes; there are at most 128 receipts of dispositions, one rewrite of the
  player's line, 256 transfers and 16 snapshots, whose order lists each of them once.\<close>

theorem client_bookkeeping_bounded:
  assumes "client_reachable (bridge_port now) worker_moves_to c"
  shows "length (nc_deferred_results c) \<le> 128 \<and> length (nc_disposition_receipts c) \<le> 128
    \<and> length (nc_player_autochats c) \<le> 1 \<and> length (nc_transfers c) \<le> 256 \<and> length (nc_transfer_snapshots c) \<le> 16
    \<and> distinct (nc_transfer_order c) \<and> set (nc_transfer_order c) = set (map fst (nc_transfer_snapshots c))"
  using bridge_client.capacity_invariant [OF assms]
  by (simp add: bounds_simps snapshots_bounded_def kDeferredResultCapacity_def kInboundCapacity_def)

definition sample_client_config :: client_config where
  "sample_client_config =
     \<lparr>cc_base_url = \<lparr>bu_host = ''127.0.0.1'', bu_port = 8080, bu_base_path = ''/api'', bu_ipv6 = False\<rparr>,
      cc_key = replicate 32 7, cc_installation = StrongId (sample_uuid_of 1), cc_profile = StrongId (sample_uuid_of 2),
      cc_playthrough = StrongId (sample_uuid_of 3), cc_fingerprint = ''sha256:'' @ replicate 64 (CHR ''a''),
      cc_platform = ''linux'', cc_cache_root = ''/var/cache'', cc_vfs_prefix = ''lorkhan''\<rparr>"

theorem client_bookkeeping_bounded_witness:
  "length (nc_deferred_results (client_step sample_env (bridge_port 0) (Poll_results 16)
     (client_new (Inr sample_client_config) (\<lambda>_. Inr (bridge_new 1))))) \<le> 128"
proof -
  have "client_reachable (bridge_port 0) worker_moves_to (client_step sample_env (bridge_port 0) (Poll_results 16)
     (client_new (Inr sample_client_config) (\<lambda>_. Inr (bridge_new 1))))"
    by (intro client_reachable.intros)
  from client_bookkeeping_bounded [OF this] show ?thesis by blast
qed

section \<open>Reports without an observation\<close>

lemma empty_table_text: "json_of (LTable []) = Inr ''[]''"
  by code_simp

lemma empty_texts_parse:
  "case parse_json ''[]'' default_limits of Inr v \<Rightarrow> json_object v = None | Inl _ \<Rightarrow> False"
  "case parse_json ''{}'' default_limits of Inr v \<Rightarrow> json_object v \<noteq> None | Inl _ \<Rightarrow> False"
  by code_simp+


end
